(* ===== verification/Prelude.thy ===== *)
theory Prelude
  imports Main "HOL-Library.Word" "HOL-Library.List_Lexorder" "HOL-Library.Char_ord"
    "HOL-Library.Product_Lexorder" "HOL-Library.Code_Target_Nat"
begin

text \<open>
  What every component of the development shares: Rust's \<open>Result\<close> and the control
  flow built on it (the question-mark operator, loops that stop at the first error),
  Rust strings as the list of their UTF-8 bytes with the standard-library
  predicates the program calls, unsigned 64-bit integers with saturating and
  checked arithmetic, and adjacent-pair checks (\<open>windows(2)\<close>).
\<close>

named_theorems result_simps "when a chain of fallible steps returns Ok"
named_theorems string_simps "facts on byte strings"

section \<open>Results\<close>

text \<open>Rust's \<open>Result\<close> type; every error of the program is a value of it.\<close>

datatype ('a, 'e) result = Ok 'a | Err 'e

primrec is_ok :: "('a, 'e) result \<Rightarrow> bool" where
  "is_ok (Ok _) = True"
| "is_ok (Err _) = False"

text \<open>The question-mark operator.\<close>

primrec and_then :: "('a, 'e) result \<Rightarrow> ('a \<Rightarrow> ('b, 'e) result) \<Rightarrow> ('b, 'e) result" where
  "and_then (Ok x) f = f x"
| "and_then (Err e) f = Err e"

primrec map_err :: "('e \<Rightarrow> 'f) \<Rightarrow> ('a, 'e) result \<Rightarrow> ('a, 'f) result" where
  "map_err f (Ok x) = Ok x"
| "map_err f (Err e) = Err (f e)"

primrec map_ok :: "('a \<Rightarrow> 'b) \<Rightarrow> ('a, 'e) result \<Rightarrow> ('b, 'e) result" where
  "map_ok f (Ok x) = Ok (f x)"
| "map_ok f (Err e) = Err e"

text \<open>\<open>Option::ok_or\<close>, and \<open>bool::then_some(()).ok_or(e)\<close>.\<close>

primrec ok_or :: "'a option \<Rightarrow> 'e \<Rightarrow> ('a, 'e) result" where
  "ok_or (Some x) e = Ok x"
| "ok_or None e = Err e"

definition ensure :: "bool \<Rightarrow> 'e \<Rightarrow> (unit, 'e) result" where
  "ensure b e = (if b then Ok () else Err e)"

primrec ok_opt :: "('a, 'e) result \<Rightarrow> 'a option" where
  "ok_opt (Ok x) = Some x"
| "ok_opt (Err e) = None"

text \<open>Code that can also panic raises either an error of its own or \<open>Panic\<close>.\<close>

datatype 'e fault = Raise 'e | Panic

text \<open>A \<open>for\<close> loop whose body uses the question-mark operator.\<close>

primrec fold_result :: "('a \<Rightarrow> 's \<Rightarrow> ('s, 'e) result) \<Rightarrow> 'a list \<Rightarrow> 's \<Rightarrow> ('s, 'e) result" where
  "fold_result f [] s = Ok s"
| "fold_result f (x # xs) s = and_then (f x s) (fold_result f xs)"

text \<open>\<open>iter().map(f).collect::<Result<Vec<_>, _>>()\<close>.\<close>

primrec collect_result :: "('a \<Rightarrow> ('b, 'e) result) \<Rightarrow> 'a list \<Rightarrow> ('b list, 'e) result" where
  "collect_result f [] = Ok []"
| "collect_result f (x # xs) =
     and_then (f x) (\<lambda>y. map_ok (\<lambda>ys. y # ys) (collect_result f xs))"

lemma is_ok_iff: "is_ok r \<longleftrightarrow> (\<exists>x. r = Ok x)"
  by (cases r) auto

lemma and_then_eq_Ok [result_simps]: "and_then r f = Ok y \<longleftrightarrow> (\<exists>x. r = Ok x \<and> f x = Ok y)"
  by (cases r) auto

lemma and_then_eq_Err [result_simps]:
  "and_then r f = Err e \<longleftrightarrow> r = Err e \<or> (\<exists>x. r = Ok x \<and> f x = Err e)"
  by (cases r) auto

lemma ok_or_eq_Err [simp]: "ok_or p e = Err e' \<longleftrightarrow> p = None \<and> e' = e"
  by (cases p) auto

lemma map_err_eq_Ok [result_simps, simp]: "map_err f r = Ok y \<longleftrightarrow> r = Ok y"
  by (cases r) auto

lemma map_ok_eq_Ok [result_simps]: "map_ok f r = Ok y \<longleftrightarrow> (\<exists>x. r = Ok x \<and> y = f x)"
  by (cases r) auto

lemma ok_or_eq_Ok [result_simps, simp]: "ok_or o' e = Ok y \<longleftrightarrow> o' = Some y"
  by (cases o') auto

lemma ensure_eq_Ok [result_simps, simp]: "ensure b e = Ok u \<longleftrightarrow> b"
  by (simp add: ensure_def)

lemma if_Err_eq_Ok [result_simps, simp]: "(if b then Err e else r) = Ok y \<longleftrightarrow> \<not> b \<and> r = Ok y"
  by simp

lemma is_ok_simps [result_simps, simp]:
  "is_ok (if b then Err e else r) \<longleftrightarrow> \<not> b \<and> is_ok r"
  "is_ok (ensure b e) \<longleftrightarrow> b"
  "is_ok (map_err f s) \<longleftrightarrow> is_ok s"
  "is_ok (map_ok g s) \<longleftrightarrow> is_ok s"
  "is_ok (ok_or p e) \<longleftrightarrow> p \<noteq> None"
  by (auto simp: ensure_def is_ok_iff result_simps)

lemma is_ok_and_then_const [simp]: "is_ok (and_then r (\<lambda>_. s)) \<longleftrightarrow> is_ok r \<and> is_ok s"
  by (cases r) auto

lemma is_ok_and_then: "is_ok (and_then r f) \<longleftrightarrow> (\<exists>x. r = Ok x \<and> is_ok (f x))"
  by (cases r) auto

lemma and_then_assoc: "and_then (and_then r f) g = and_then r (\<lambda>x. and_then (f x) g)"
  by (cases r) auto

lemma and_then_Ok_right [simp]: "and_then r Ok = r"
  by (cases r) auto

lemma fold_result_eq_Err:
  "fold_result f xs s = Err e \<Longrightarrow> \<exists>x \<in> set xs. \<exists>t. f x t = Err e"
  by (induction xs arbitrary: s) (auto simp: and_then_eq_Err)

lemma fold_result_append: "fold_result f (xs @ ys) s = and_then (fold_result f xs s) (fold_result f ys)"
proof (induction xs arbitrary: s)
  case (Cons x xs)
  have "fold_result f (xs @ ys) = (\<lambda>t. and_then (fold_result f xs t) (fold_result f ys))"
    using Cons.IH by blast
  then show ?case by (simp add: and_then_assoc)
qed simp

text \<open>The loop rule: an invariant kept by every iteration that succeeds.\<close>

lemma fold_result_invariant:
  assumes "fold_result f xs s = Ok t" "I s"
    and "\<And>x s s'. x \<in> set xs \<Longrightarrow> I s \<Longrightarrow> f x s = Ok s' \<Longrightarrow> I s'"
  shows "I t"
  using assms by (induction xs arbitrary: s) (auto simp: and_then_eq_Ok)

lemma collect_result_eq_Ok:
  "collect_result f xs = Ok ys \<longleftrightarrow> list_all2 (\<lambda>x y. f x = Ok y) xs ys"
proof (induction xs arbitrary: ys)
  case (Cons x xs)
  then show ?case by (cases ys) (auto simp: result_simps)
qed auto

section \<open>Adjacent pairs\<close>

text \<open>\<open>slice.windows(2).all(|pair| p(pair[0], pair[1]))\<close>.\<close>

fun windows2_all :: "('a \<Rightarrow> 'a \<Rightarrow> bool) \<Rightarrow> 'a list \<Rightarrow> bool" where
  "windows2_all p (x # y # zs) = (p x y \<and> windows2_all p (y # zs))"
| "windows2_all p _ = True"

lemma windows2_all_sorted_wrt: "transp p \<Longrightarrow> windows2_all p xs = sorted_wrt p xs"
proof (induction p xs rule: windows2_all.induct)
  case (1 p x y zs)
  then show ?case by (auto dest: transpD)
qed auto

lemma windows2_all_less: "windows2_all (<) xs = sorted_wrt (<) (xs :: 'a :: preorder list)"
  by (simp add: windows2_all_sorted_wrt)

lemma windows2_all_le: "windows2_all (\<le>) xs = sorted_wrt (\<le>) (xs :: 'a :: preorder list)"
  by (simp add: windows2_all_sorted_wrt)

lemma sorted_wrt_less_distinct: "sorted_wrt (<) xs \<Longrightarrow> distinct (xs :: 'a :: preorder list)"
  by (induction xs) auto

text \<open>\<open>sort\<close> followed by \<open>dedup\<close>.\<close>

lemma sorted_remdups_strict: "sorted xs \<Longrightarrow> sorted_wrt (<) (remdups_adj (xs :: 'a :: linorder list))"
proof (induction xs rule: remdups_adj.induct)
  case (3 x y xs)
  then show ?case by (auto dest: le_neq_trans less_le_trans)
qed simp_all

lemma remdups_sort_strict: "sorted_wrt (<) (remdups_adj (sort (xs :: string list)))"
  by (rule sorted_remdups_strict) simp

section \<open>Strings\<close>

text \<open>
  A Rust \<open>str\<close> is the list of its UTF-8 bytes: \<open>len\<close> is the length in bytes and
  \<open>Ord\<close> is the bytewise lexicographic order of \<open>List_Lexorder\<close>.
\<close>

type_synonym bytes = string

abbreviation byte_of :: "char \<Rightarrow> nat" where
  "byte_of c \<equiv> of_char c"

definition is_ascii_digit :: "char \<Rightarrow> bool" where
  "is_ascii_digit c = (48 \<le> byte_of c \<and> byte_of c \<le> 57)"

definition is_ascii_lower :: "char \<Rightarrow> bool" where
  "is_ascii_lower c = (97 \<le> byte_of c \<and> byte_of c \<le> 122)"

definition is_ascii_upper :: "char \<Rightarrow> bool" where
  "is_ascii_upper c = (65 \<le> byte_of c \<and> byte_of c \<le> 90)"

definition is_ascii_alphanumeric :: "char \<Rightarrow> bool" where
  "is_ascii_alphanumeric c = (is_ascii_digit c \<or> is_ascii_lower c \<or> is_ascii_upper c)"

definition is_ascii_hexdigit :: "char \<Rightarrow> bool" where
  "is_ascii_hexdigit c =
     (is_ascii_digit c \<or> (97 \<le> byte_of c \<and> byte_of c \<le> 102) \<or> (65 \<le> byte_of c \<and> byte_of c \<le> 70))"

text \<open>\<open>matches!(byte, b'0'..=b'9' | b'a'..=b'f')\<close>.\<close>

definition is_lower_hex :: "char \<Rightarrow> bool" where
  "is_lower_hex c = (is_ascii_digit c \<or> (97 \<le> byte_of c \<and> byte_of c \<le> 102))"

definition to_ascii_lower :: "char \<Rightarrow> char" where
  "to_ascii_lower c = (if is_ascii_upper c then char_of (byte_of c + 32) else c)"

definition to_ascii_lowercase :: "string \<Rightarrow> string" where
  "to_ascii_lowercase = map to_ascii_lower"

definition eq_ignore_ascii_case :: "string \<Rightarrow> string \<Rightarrow> bool" where
  "eq_ignore_ascii_case a b = (to_ascii_lowercase a = to_ascii_lowercase b)"

text \<open>
  \<open>chars().any(char::is_control)\<close>: the control characters are U+0000..U+001F and
  U+007F..U+009F; the latter block above ASCII is the byte C2 followed by 80..9F.
  The characters in \<open>allowed\<close> (single bytes) are let through.
\<close>

definition ascii_control :: "char \<Rightarrow> bool" where
  "ascii_control c = (byte_of c < 32 \<or> byte_of c = (127 :: nat))"

fun any_control_except :: "char list \<Rightarrow> string \<Rightarrow> bool" where
  "any_control_except allowed [] = False"
| "any_control_except allowed (c # cs) =
     ((ascii_control c \<and> c \<notin> set allowed) \<or>
      (byte_of c = (194 :: nat) \<and> cs \<noteq> [] \<and> byte_of (hd cs) \<ge> (128 :: nat) \<and> byte_of (hd cs) \<le> (159 :: nat)) \<or>
      any_control_except allowed cs)"

abbreviation any_control :: "string \<Rightarrow> bool" where
  "any_control \<equiv> any_control_except []"

text \<open>\<open>str::split_once\<close>, \<open>rsplit_once\<close> and \<open>split\<close> on a one-byte separator.\<close>

fun split_once :: "char \<Rightarrow> string \<Rightarrow> (string \<times> string) option" where
  "split_once d [] = None"
| "split_once d (c # cs) =
     (if c = d then Some ([], cs) else map_option (\<lambda>(a, b). (c # a, b)) (split_once d cs))"

definition rsplit_once :: "char \<Rightarrow> string \<Rightarrow> (string \<times> string) option" where
  "rsplit_once d s = map_option (\<lambda>(a, b). (rev b, rev a)) (split_once d (rev s))"

fun split_on :: "char \<Rightarrow> string \<Rightarrow> string list" where
  "split_on d [] = [[]]"
| "split_on d (c # cs) =
     (if c = d then [] # split_on d cs
      else (case split_on d cs of [] \<Rightarrow> [[c]] | w # ws \<Rightarrow> (c # w) # ws))"

primrec strip_prefix :: "string \<Rightarrow> string \<Rightarrow> string option" where
  "strip_prefix [] s = Some s"
| "strip_prefix (c # p) s = (case s of [] \<Rightarrow> None | d # t \<Rightarrow> if c = d then strip_prefix p t else None)"

definition strip_suffix :: "string \<Rightarrow> string \<Rightarrow> string option" where
  "strip_suffix p s = map_option rev (strip_prefix (rev p) (rev s))"

definition starts_with :: "string \<Rightarrow> string \<Rightarrow> bool" where
  "starts_with s p = (strip_prefix p s \<noteq> None)"

definition ends_with :: "string \<Rightarrow> string \<Rightarrow> bool" where
  "ends_with s p = (strip_suffix p s \<noteq> None)"

primrec join :: "string \<Rightarrow> string list \<Rightarrow> string" where
  "join d [] = []"
| "join d (w # ws) = (if ws = [] then w else w @ d @ join d ws)"

definition to_ascii_upper :: "char \<Rightarrow> char" where
  "to_ascii_upper c = (if is_ascii_lower c then char_of (byte_of c - 32) else c)"

definition to_ascii_uppercase :: "string \<Rightarrow> string" where
  "to_ascii_uppercase = map to_ascii_upper"

text \<open>\<open>str::is_char_boundary\<close>: slicing a string anywhere else panics.\<close>

definition is_char_boundary :: "string \<Rightarrow> nat \<Rightarrow> bool" where
  "is_char_boundary s i \<longleftrightarrow> i = 0 \<or> i = length s \<or>
     (i < length s \<and> \<not> (128 \<le> byte_of (s ! i) \<and> byte_of (s ! i) < (192 :: nat)))"

lemma strip_prefix_eq_Some [string_simps]: "strip_prefix p s = Some t \<longleftrightarrow> s = p @ t"
  by (induction p arbitrary: s) (auto split: list.splits)

lemma strip_suffix_eq_Some [string_simps]: "strip_suffix p s = Some t \<longleftrightarrow> s = t @ p"
proof -
  have "strip_suffix p s = Some t \<longleftrightarrow> rev s = rev p @ rev t"
    by (auto simp: strip_suffix_def strip_prefix_eq_Some)
  also have "\<dots> \<longleftrightarrow> s = t @ p" by (metis rev_append rev_rev_ident)
  finally show ?thesis .
qed

lemma starts_with_iff [string_simps]: "starts_with s p \<longleftrightarrow> (\<exists>t. s = p @ t)"
  by (auto simp: starts_with_def strip_prefix_eq_Some)

lemma ends_with_iff [string_simps]: "ends_with s p \<longleftrightarrow> (\<exists>t. s = t @ p)"
  by (auto simp: ends_with_def strip_suffix_eq_Some)

lemma split_once_eq_Some [string_simps]:
  "split_once d s = Some (a, b) \<longleftrightarrow> s = a @ d # b \<and> d \<notin> set a"
proof (induction s arbitrary: a)
  case (Cons c s)
  then show ?case by (cases a) auto
qed auto

lemma split_once_eq_None [string_simps]: "split_once d s = None \<longleftrightarrow> d \<notin> set s"
  by (induction s) auto

lemma rsplit_once_eq_Some [string_simps]:
  "rsplit_once d s = Some (a, b) \<longleftrightarrow> s = a @ d # b \<and> d \<notin> set b"
proof -
  have "rsplit_once d s = Some (a, b) \<longleftrightarrow> split_once d (rev s) = Some (rev b, rev a)"
    by (auto simp: rsplit_once_def)
  also have "\<dots> \<longleftrightarrow> rev s = rev (a @ d # b) \<and> d \<notin> set b"
    by (simp add: split_once_eq_Some)
  finally show ?thesis by (simp only: rev_is_rev_conv)
qed

lemma rsplit_once_eq_None [string_simps]: "rsplit_once d s = None \<longleftrightarrow> d \<notin> set s"
  by (simp add: rsplit_once_def split_once_eq_None)

lemma split_on_not_Nil [simp]: "split_on d s \<noteq> []"
  by (induction s) (auto split: list.splits)

lemma split_on_join: "join [d] (split_on d s) = s"
  by (induction s) (auto split: list.splits)

lemma split_on_no_sep: "d \<notin> set s \<Longrightarrow> split_on d s = [s]"
  by (induction s) auto

lemma split_on_append_sep: "split_on d (a @ d # b) = split_on d a @ split_on d b"
proof (induction a)
  case (Cons c a)
  then show ?case by (cases "split_on d a") auto
qed auto

lemma is_lower_hex_hexdigit: "is_lower_hex c \<Longrightarrow> is_ascii_hexdigit c"
  by (auto simp: is_lower_hex_def is_ascii_hexdigit_def)

text \<open>
  \<open>str::trim\<close>: the UTF-8 encodings of the characters with the Unicode property
  \<open>White_Space\<close> are dropped at both ends.
\<close>

definition whitespace_encodings :: "nat list list" where
  "whitespace_encodings =
     [[9], [10], [11], [12], [13], [32], [0xC2, 0x85], [0xC2, 0xA0], [0xE1, 0x9A, 0x80]]
     @ map (\<lambda>b. [0xE2, 0x80, b]) [0x80, 0x81, 0x82, 0x83, 0x84, 0x85, 0x86, 0x87, 0x88, 0x89, 0x8A, 0xA8, 0xA9, 0xAF]
     @ [[0xE2, 0x81, 0x9F], [0xE3, 0x80, 0x80]]"

primrec first_stripped :: "string list \<Rightarrow> string \<Rightarrow> string option" where
  "first_stripped [] s = None"
| "first_stripped (w # ws) s =
     (case strip_prefix w s of Some t \<Rightarrow> if w = [] then first_stripped ws s else Some t
      | None \<Rightarrow> first_stripped ws s)"

lemma first_stripped_shorter: "first_stripped ws s = Some t \<Longrightarrow> length t < length s"
  by (induction ws) (auto simp: strip_prefix_eq_Some split: option.splits if_splits)

function strip_while :: "string list \<Rightarrow> string \<Rightarrow> string" where
  "strip_while ws s = (case first_stripped ws s of Some t \<Rightarrow> strip_while ws t | None \<Rightarrow> s)"
  by pat_completeness auto
termination
  by (relation "measure (\<lambda>(ws, s). length s)") (auto dest: first_stripped_shorter)

declare strip_while.simps [simp del]

definition trim_start :: "string \<Rightarrow> string" where
  "trim_start = strip_while (map (map char_of) whitespace_encodings)"

definition trim_end :: "string \<Rightarrow> string" where
  "trim_end s = rev (strip_while (map (rev \<circ> map char_of) whitespace_encodings) (rev s))"

definition trim :: "string \<Rightarrow> string" where
  "trim s = trim_end (trim_start s)"

section \<open>Unsigned 64-bit integers\<close>

type_synonym u64 = "64 word"
type_synonym u32 = "32 word"

text \<open>\<open>u64::saturating_add\<close>, \<open>saturating_sub\<close> and \<open>checked_add\<close>; \<open>usize as u64\<close> is \<^const>\<open>of_nat\<close>.\<close>

definition u64_max :: nat where
  "u64_max = 2 ^ 64 - 1"

definition saturating_add :: "u64 \<Rightarrow> u64 \<Rightarrow> u64" where
  "saturating_add a b = (if unat a + unat b \<le> u64_max then a + b else of_nat u64_max)"

definition saturating_sub :: "u64 \<Rightarrow> u64 \<Rightarrow> u64" where
  "saturating_sub a b = (if b \<le> a then a - b else 0)"

definition saturating_mul :: "u64 \<Rightarrow> u64 \<Rightarrow> u64" where
  "saturating_mul a b = (if unat a * unat b \<le> u64_max then a * b else of_nat u64_max)"

definition checked_add :: "u64 \<Rightarrow> u64 \<Rightarrow> u64 option" where
  "checked_add a b = (if unat a + unat b \<le> u64_max then Some (a + b) else None)"

lemma u64_max_val: "u64_max = 18446744073709551615"
  by (simp add: u64_max_def)

lemma unat_le_u64_max: "unat (a :: u64) \<le> u64_max"
proof -
  have "unat a < 2 ^ LENGTH(64)" by (rule unsigned_less)
  then show ?thesis by (simp add: u64_max_val)
qed

lemma unat_of_nat_u64: "n \<le> u64_max \<Longrightarrow> unat (of_nat n :: u64) = n"
  by (simp add: u64_max_val unat_of_nat take_bit_nat_eq_self_iff)

lemma unat_add_u64: "unat a + unat b \<le> u64_max \<Longrightarrow> unat (a + b :: u64) = unat a + unat b"
  using unat_of_nat_u64 [of "unat a + unat b"] by simp

lemma unat_saturating_add: "unat (saturating_add a b) = min (unat a + unat b) u64_max"
  by (simp add: saturating_add_def unat_add_u64 unat_of_nat_u64)

lemma unat_mult_u64: "unat a * unat b \<le> u64_max \<Longrightarrow> unat (a * b :: u64) = unat a * unat b"
  using unat_of_nat_u64 [of "unat a * unat b"] by simp

lemma unat_saturating_mul: "unat (saturating_mul a b) = min (unat a * unat b) u64_max"
  by (simp add: saturating_mul_def unat_mult_u64 unat_of_nat_u64)

lemma checked_add_eq_Some: "checked_add a b = Some c \<longleftrightarrow> unat c = unat a + unat b"
proof -
  have "unat c = unat a + unat b \<Longrightarrow> unat a + unat b \<le> u64_max"
    using unat_le_u64_max [of c] by simp
  moreover have "unat c = unat a + unat b \<Longrightarrow> a + b = c"
    by (metis of_nat_add of_nat_unat ucast_id)
  ultimately show ?thesis
    by (auto simp: checked_add_def unat_add_u64)
qed

lemma checked_add_eq_None: "checked_add a b = None \<longleftrightarrow> u64_max < unat a + unat b"
  by (auto simp: checked_add_def)

lemma unat_saturating_sub: "unat (saturating_sub a b) = unat a - unat b"
  by (auto simp: saturating_sub_def unat_sub word_le_nat_alt)

end
