(* ===== verification/Rust_Float.thy ===== *)
theory Rust_Float
  imports Prelude
begin

text \<open>
  The standard library's \<open>f64\<close> as the program uses it: \<open>str::parse::<f64>\<close> (exact
  decimal value, rounded half to even to IEEE double precision), \<open>f64::to_string\<close>
  (the shortest decimal numeral that reads back as the same double, printed
  without an exponent) and comparison with integer bounds.
\<close>

text \<open>\<open>Finite neg m e\<close> is \<open>m * 2 ^ e\<close>, negated when \<open>neg\<close>.\<close>

datatype f64 = NaN | Infinite bool | Finite bool int int

function log2_floor :: "int \<Rightarrow> int" where
  "log2_floor n = (if n \<le> 1 then 0 else 1 + log2_floor (n div 2))"
  by pat_completeness auto
termination
  by (relation "measure nat") auto

declare log2_floor.simps [simp del]

text \<open>Rounding the positive rational \<open>p / q\<close> to the nearest double, ties to even.\<close>

definition scale2 :: "int \<Rightarrow> int \<Rightarrow> int \<Rightarrow> int \<times> int" where
  "scale2 p q e = (if 0 \<le> e then (p, q * 2 ^ nat e) else (p * 2 ^ nat (- e), q))"

definition round_half_even :: "int \<Rightarrow> int \<Rightarrow> int" where
  "round_half_even n d = (let f = n div d; r = 2 * (n mod d) in
     if r < d then f else if d < r then f + 1 else if f mod 2 = 0 then f else f + 1)"

definition round_f64 :: "bool \<Rightarrow> int \<Rightarrow> int \<Rightarrow> f64" where
  "round_f64 neg p q =
     (if p = 0 then Finite neg 0 (-1074)
      else let e0 = log2_floor p - log2_floor q - 52;
               (n0, d0) = scale2 p q e0;
               e = max (-1074) (if n0 < 2 ^ 52 * d0 then e0 - 1 else e0);
               (n, d) = scale2 p q e;
               m = round_half_even n d;
               (m', e') = (if m = 2 ^ 53 then (2 ^ 52, e + 1) else (m, e))
           in if 971 < e' then Infinite neg else Finite neg m' e')"

text \<open>Decimal numerals.\<close>

definition digit_value :: "char \<Rightarrow> int" where
  "digit_value c = of_char c - 48"

definition decimal_value :: "string \<Rightarrow> int" where
  "decimal_value s = foldl (\<lambda>n c. 10 * n + digit_value c) 0 s"

definition round_decimal :: "bool \<Rightarrow> int \<Rightarrow> int \<Rightarrow> f64" where
  "round_decimal neg n s =
     (if 0 \<le> s then round_f64 neg (n * 10 ^ nat s) 1 else round_f64 neg n (10 ^ nat (- s)))"

fun split_sign :: "string \<Rightarrow> bool \<times> string" where
  "split_sign (c # cs) =
     (if c = CHR ''-'' then (True, cs) else if c = CHR ''+'' then (False, cs) else (False, c # cs))"
| "split_sign [] = (False, [])"

definition parse_exponent :: "string \<Rightarrow> int option" where
  "parse_exponent s =
     (case s of [] \<Rightarrow> Some 0
      | c # cs \<Rightarrow>
          if c \<noteq> CHR ''e'' \<and> c \<noteq> CHR ''E'' then None
          else let (neg, ds) = split_sign cs in
               if ds = [] \<or> \<not> list_all is_ascii_digit ds then None
               else Some (if neg then - decimal_value ds else decimal_value ds))"

definition parse_number :: "bool \<Rightarrow> string \<Rightarrow> f64 option" where
  "parse_number neg s =
     (let whole = takeWhile is_ascii_digit s;
          rest = dropWhile is_ascii_digit s;
          (frac, rest') = (case rest of c # cs \<Rightarrow>
              if c = CHR ''.'' then (takeWhile is_ascii_digit cs, dropWhile is_ascii_digit cs)
              else ([], rest) | [] \<Rightarrow> ([], []))
      in if whole = [] \<and> frac = [] then None
         else map_option (\<lambda>e. round_decimal neg (decimal_value (whole @ frac)) (e - int (length frac)))
                (parse_exponent rest'))"

definition parse_f64 :: "string \<Rightarrow> f64 option" where
  "parse_f64 s =
     (let (neg, body) = split_sign s; lower = to_ascii_lowercase body in
      if lower = ''inf'' \<or> lower = ''infinity'' then Some (Infinite neg)
      else if lower = ''nan'' then Some NaN
      else parse_number neg body)"

text \<open>Printing: the shortest numeral whose rounding is the given double, and among
  the numerals of that length the one nearest to the exact value.\<close>

function show_nat :: "int \<Rightarrow> string" where
  "show_nat n = (if n < 10 then [char_of (48 + n)] else show_nat (n div 10) @ [char_of (48 + n mod 10)])"
  by pat_completeness auto
termination
  by (relation "measure nat") auto

declare show_nat.simps [simp del]

function strip_zeros :: "int \<Rightarrow> int \<Rightarrow> int \<times> int" where
  "strip_zeros n s = (if n \<le> 0 \<or> n mod 10 \<noteq> 0 then (n, s) else strip_zeros (n div 10) (s + 1))"
  by pat_completeness auto
termination
  by (relation "measure (nat \<circ> fst)") auto

declare strip_zeros.simps [simp del]

definition show_decimal :: "int \<Rightarrow> int \<Rightarrow> string" where
  "show_decimal n s =
     (let (n', s') = strip_zeros n s; ds = show_nat n' in
      if 0 \<le> s' then ds @ replicate (nat s') CHR ''0''
      else let f = nat (- s'); padded = replicate (Suc f - length ds) CHR ''0'' @ ds;
               w = length padded - f
           in take w padded @ CHR ''.'' # drop w padded)"

text \<open>\<open>decimal_exponent p q\<close> is the \<open>k\<close> with \<open>10 ^ (k - 1) \<le> p / q < 10 ^ k\<close>.\<close>

definition decimal_exponent :: "int \<Rightarrow> int \<Rightarrow> int" where
  "decimal_exponent p q =
     (if q \<le> p then int (length (show_nat (p div q)))
      else 1 - int (length (show_nat ((q - 1) div p))))"

definition numeral_of_length :: "f64 \<Rightarrow> bool \<Rightarrow> int \<Rightarrow> int \<Rightarrow> int \<Rightarrow> (int \<times> int) option" where
  "numeral_of_length x neg p q nd =
     (let s = decimal_exponent p q - nd;
          (n, d) = (if 0 \<le> s then (p, q * 10 ^ nat s) else (p * 10 ^ nat (- s), q));
          lo = n div d; hi = lo + 1;
          lo_ok = (round_decimal neg lo s = x); hi_ok = (round_decimal neg hi s = x)
      in if lo_ok \<and> (\<not> hi_ok \<or> 2 * (n mod d) \<le> d) then Some (lo, s)
         else if hi_ok then Some (hi, s) else None)"

fun f64_to_string :: "f64 \<Rightarrow> string" where
  "f64_to_string NaN = ''NaN''"
| "f64_to_string (Infinite neg) = (if neg then ''-inf'' else ''inf'')"
| "f64_to_string (Finite neg m e) =
     (if neg then ''-'' else []) @
     (if m = 0 then ''0''
      else let (q, p) = scale2 1 m e in
        case List.map_filter (numeral_of_length (Finite neg m e) neg p q) [1..17] of
          (n, s) # _ \<Rightarrow> show_decimal n s
        | [] \<Rightarrow> show_decimal p 0)"

fun f64_is_zero :: "f64 \<Rightarrow> bool" where
  "f64_is_zero (Finite neg m e) = (m = 0)"
| "f64_is_zero _ = False"

fun f64_is_finite :: "f64 \<Rightarrow> bool" where
  "f64_is_finite (Finite neg m e) = True"
| "f64_is_finite _ = False"

text \<open>\<open>(lo..=hi).contains(&x)\<close> for integer-valued bounds.\<close>

fun f64_in_range :: "int \<Rightarrow> int \<Rightarrow> f64 \<Rightarrow> bool" where
  "f64_in_range lo hi (Finite neg m e) =
     (let v = (if neg then - m else m) in
      if 0 \<le> e then lo \<le> v * 2 ^ nat e \<and> v * 2 ^ nat e \<le> hi
      else lo * 2 ^ nat (- e) \<le> v \<and> v \<le> hi * 2 ^ nat (- e))"
| "f64_in_range lo hi _ = False"

end
