(* ===== verification/Ordered_Containers.thy ===== *)
theory Ordered_Containers
  imports Prelude
begin

text \<open>
  The standard library's \<open>BTreeMap\<close> and \<open>BTreeSet\<close> as the program uses them: a map is
  the list of its entries in ascending key order, a set the ascending list of its
  elements, so that iteration order is the list order. The laws the components
  rely on are the locales \<open>keyed_map\<close> and \<open>element_set\<close>; both are interpreted on these
  lists. The locale \<open>strict_scan\<close> is the contract of the validation loops that
  walk a list once, demand strictly ascending paths and reject a repeated
  identifier.
\<close>

section \<open>Maps\<close>

type_synonym ('k, 'v) btree_map = "('k \<times> 'v) list"

abbreviation (input) btm_get :: "('k, 'v) btree_map \<Rightarrow> 'k \<Rightarrow> 'v option" where
  "btm_get \<equiv> map_of"

fun btm_insert :: "'k :: linorder \<Rightarrow> 'v \<Rightarrow> ('k, 'v) btree_map \<Rightarrow> ('k, 'v) btree_map" where
  "btm_insert k v [] = [(k, v)]"
| "btm_insert k v ((k', v') # m) =
     (if k < k' then (k, v) # (k', v') # m
      else if k = k' then (k, v) # m
      else (k', v') # btm_insert k v m)"

definition btm_remove :: "'k :: linorder \<Rightarrow> ('k, 'v) btree_map \<Rightarrow> ('k, 'v) btree_map" where
  "btm_remove k m = filter (\<lambda>e. fst e \<noteq> k) m"

definition btm_retain :: "('k \<Rightarrow> 'v \<Rightarrow> bool) \<Rightarrow> ('k, 'v) btree_map \<Rightarrow> ('k, 'v) btree_map" where
  "btm_retain p m = filter (\<lambda>e. p (fst e) (snd e)) m"

definition btm_map :: "('k \<Rightarrow> 'v \<Rightarrow> 'v) \<Rightarrow> ('k, 'v) btree_map \<Rightarrow> ('k, 'v) btree_map" where
  "btm_map f m = map (\<lambda>(k, v). (k, f k v)) m"

definition btm_wf :: "('k :: linorder, 'v) btree_map \<Rightarrow> bool" where
  "btm_wf m = sorted_wrt (<) (map fst m)"

lemma btm_wf_Nil [simp]: "btm_wf []"
  by (simp add: btm_wf_def)

lemma btm_wf_Cons [simp]: "btm_wf (e # m) \<longleftrightarrow> (\<forall>e' \<in> set m. fst e < fst e') \<and> btm_wf m"
  by (auto simp: btm_wf_def)

lemma btm_wf_distinct: "btm_wf m \<Longrightarrow> distinct (map fst m)"
  by (simp add: btm_wf_def sorted_wrt_less_distinct)

lemma set_btm_insert: "fst ` set (btm_insert k v m) = insert k (fst ` set m)"
  by (induction k v m rule: btm_insert.induct) auto

lemma btm_insert_wf [simp]: "btm_wf m \<Longrightarrow> btm_wf (btm_insert k v m)"
proof (induction k v m rule: btm_insert.induct)
  case (2 k v k' v' m)
  have "\<forall>e \<in> set (btm_insert k v m). fst e \<in> insert k (fst ` set m)"
    using set_btm_insert [of k v m] by blast
  with 2 show ?case by fastforce
qed auto

lemma btm_get_insert [simp]: "btm_get (btm_insert k v m) = (btm_get m)(k \<mapsto> v)"
  by (induction k v m rule: btm_insert.induct) (auto simp: fun_eq_iff)

lemma btm_get_filter_None: "(\<forall>e \<in> set m. fst e \<noteq> k) \<Longrightarrow> btm_get m k = None"
  by (auto simp: map_of_eq_None_iff)

lemma btm_get_remove [simp]: "btm_get (btm_remove k m) = (btm_get m)(k := None)"
  by (induction m) (auto simp: btm_remove_def fun_eq_iff)

lemma btm_remove_wf [simp]: "btm_wf m \<Longrightarrow> btm_wf (btm_remove k m)"
  by (induction m) (auto simp: btm_remove_def)

lemma btm_retain_wf [simp]: "btm_wf m \<Longrightarrow> btm_wf (btm_retain p m)"
  by (induction m) (auto simp: btm_retain_def)

lemma btm_get_retain:
  "btm_wf m \<Longrightarrow> btm_get (btm_retain p m) k =
     (case btm_get m k of Some v \<Rightarrow> if p k v then Some v else None | None \<Rightarrow> None)"
proof (induction m)
  case (Cons e m)
  then have "btm_get m (fst e) = None" by (intro btm_get_filter_None) fastforce
  with Cons show ?case by (cases e) (auto simp: btm_retain_def)
qed (simp add: btm_retain_def)

lemma btm_map_wf [simp]: "btm_wf (btm_map f m) = btm_wf m"
  by (simp add: btm_wf_def btm_map_def case_prod_unfold comp_def)

lemma btm_get_map [simp]: "btm_get (btm_map f m) k = map_option (f k) (btm_get m k)"
  by (induction m) (auto simp: btm_map_def)

lemma length_btm_wf: "btm_wf m \<Longrightarrow> length m = card (dom (btm_get m))"
  using distinct_card [of "map fst m"] by (simp add: dom_map_of_conv_image_fst btm_wf_distinct)

lemma length_btm_insert:
  "btm_wf m \<Longrightarrow> length (btm_insert k v m) = (if btm_get m k = None then Suc (length m) else length m)"
  by (auto simp: length_btm_wf finite_dom_map_of insert_absorb domIff)

section \<open>Sets\<close>

type_synonym 'a btree_set = "'a list"

fun bts_insert :: "'a :: linorder \<Rightarrow> 'a btree_set \<Rightarrow> 'a btree_set" where
  "bts_insert x [] = [x]"
| "bts_insert x (y # ys) = (if x < y then x # y # ys else if x = y then y # ys else y # bts_insert x ys)"

abbreviation (input) bts_contains :: "'a btree_set \<Rightarrow> 'a \<Rightarrow> bool" where
  "bts_contains s x \<equiv> x \<in> set s"

definition bts_remove :: "'a \<Rightarrow> 'a btree_set \<Rightarrow> 'a btree_set" where
  "bts_remove x s = filter (\<lambda>y. y \<noteq> x) s"

definition bts_wf :: "'a :: linorder btree_set \<Rightarrow> bool" where
  "bts_wf s = sorted_wrt (<) s"

text \<open>\<open>iter().collect::<BTreeSet<_>>()\<close>.\<close>

definition bts_collect :: "'a :: linorder list \<Rightarrow> 'a btree_set" where
  "bts_collect xs = fold bts_insert xs []"

lemma set_bts_insert [simp]: "set (bts_insert x s) = insert x (set s)"
  by (induction x s rule: bts_insert.induct) auto

lemma bts_wf_Nil [simp]: "bts_wf []"
  by (simp add: bts_wf_def)

lemma bts_insert_wf [simp]: "bts_wf s \<Longrightarrow> bts_wf (bts_insert x s)"
  by (induction x s rule: bts_insert.induct) (auto simp: bts_wf_def)

lemma set_bts_remove [simp]: "set (bts_remove x s) = set s - {x}"
  by (auto simp: bts_remove_def)

lemma bts_remove_wf [simp]: "bts_wf s \<Longrightarrow> bts_wf (bts_remove x s)"
  by (simp add: bts_wf_def bts_remove_def sorted_wrt_filter)

lemma bts_wf_length: "bts_wf s \<Longrightarrow> length s = card (set s)"
  by (simp add: bts_wf_def sorted_wrt_less_distinct distinct_card)

lemma fold_bts_insert: "set (fold bts_insert xs s) = set xs \<union> set s"
  "bts_wf s \<Longrightarrow> bts_wf (fold bts_insert xs s)"
  by (induction xs arbitrary: s) auto

lemma set_bts_collect [simp]: "set (bts_collect xs) = set xs"
  by (simp add: bts_collect_def fold_bts_insert)

lemma bts_collect_wf [simp]: "bts_wf (bts_collect xs)"
  by (simp add: bts_collect_def fold_bts_insert)

lemma length_bts_collect: "length (bts_collect xs) = card (set xs)"
  by (simp add: bts_wf_length)

section \<open>The interfaces\<close>

text \<open>What a client of a map relies on, and what follows from it for every client.\<close>

locale keyed_map =
  fixes empty :: 'm
    and get :: "'m \<Rightarrow> 'k \<Rightarrow> 'v option"
    and insert_entry :: "'k \<Rightarrow> 'v \<Rightarrow> 'm \<Rightarrow> 'm"
    and remove_entry :: "'k \<Rightarrow> 'm \<Rightarrow> 'm"
    and wf_map :: "'m \<Rightarrow> bool"
  assumes get_empty: "get empty k = None"
    and get_insert: "wf_map m \<Longrightarrow> get (insert_entry k v m) = (get m)(k \<mapsto> v)"
    and get_remove: "wf_map m \<Longrightarrow> get (remove_entry k m) = (get m)(k := None)"
    and wf_empty: "wf_map empty"
    and wf_insert: "wf_map m \<Longrightarrow> wf_map (insert_entry k v m)"
    and wf_remove: "wf_map m \<Longrightarrow> wf_map (remove_entry k m)"
begin

definition insert_all :: "('k \<times> 'v) list \<Rightarrow> 'm \<Rightarrow> 'm" where
  "insert_all es m = fold (\<lambda>(k, v). insert_entry k v) es m"

lemma insert_all_wf: "wf_map m \<Longrightarrow> wf_map (insert_all es m)"
  by (induction es arbitrary: m) (auto simp: insert_all_def wf_insert)

lemma get_insert_all: "wf_map m \<Longrightarrow> get (insert_all es m) = get m ++ map_of (rev es)"
proof (induction es arbitrary: m)
  case (Cons e es)
  obtain k v where e: "e = (k, v)" by (cases e)
  have "get (insert_all (e # es) m) = get (insert_all es (insert_entry k v m))"
    by (simp add: insert_all_def e)
  also have "\<dots> = (get m)(k \<mapsto> v) ++ map_of (rev es)"
    using Cons by (simp add: wf_insert get_insert fun_upd_def)
  also have "\<dots> = get m ++ map_of (rev (e # es))"
    by (rule ext) (simp add: e map_add_def split: option.split)
  finally show ?case .
qed (simp add: insert_all_def)

end

locale element_set =
  fixes empty :: 's
    and contains :: "'s \<Rightarrow> 'a \<Rightarrow> bool"
    and insert_elem :: "'a \<Rightarrow> 's \<Rightarrow> 's"
    and size_of :: "'s \<Rightarrow> nat"
    and wf_set :: "'s \<Rightarrow> bool"
  assumes contains_empty: "\<not> contains empty a"
    and contains_insert: "wf_set s \<Longrightarrow> contains (insert_elem a s) b \<longleftrightarrow> a = b \<or> contains s b"
    and size_empty: "size_of empty = 0"
    and size_insert: "wf_set s \<Longrightarrow> size_of (insert_elem a s) = (if contains s a then size_of s else Suc (size_of s))"
    and wf_set_empty: "wf_set empty"
    and wf_set_insert: "wf_set s \<Longrightarrow> wf_set (insert_elem a s)"
begin

lemma contains_fold: "wf_set s \<Longrightarrow> contains (fold insert_elem xs s) b \<longleftrightarrow> b \<in> set xs \<or> contains s b"
  by (induction xs arbitrary: s) (auto simp: contains_insert wf_set_insert)

lemma size_fold: "wf_set s \<Longrightarrow> size_of (fold insert_elem xs s) \<le> size_of s + length xs"
proof (induction xs arbitrary: s)
  case (Cons x xs)
  then have "size_of (fold insert_elem xs (insert_elem x s)) \<le> size_of (insert_elem x s) + length xs"
    by (simp add: wf_set_insert)
  with Cons.prems show ?case by (auto simp: size_insert split: if_splits)
qed simp

end

interpretation btm: keyed_map "[]" btm_get btm_insert btm_remove btm_wf
  by unfold_locales auto

text \<open>Inserting ascending entries one by one appends them.\<close>

lemma btm_insert_last: "(\<forall>e \<in> set m. fst e < k) \<Longrightarrow> btm_insert k v m = m @ [(k, v)]"
  by (induction k v m rule: btm_insert.induct) auto

lemma insert_all_ascending: "btm_wf (m @ es) \<Longrightarrow> btm.insert_all es m = m @ es"
proof (induction es arbitrary: m)
  case (Cons e es)
  obtain k v where e: "e = (k, v)" by (cases e)
  have "\<forall>e' \<in> set m. fst e' < k"
    using Cons.prems by (auto simp: btm_wf_def sorted_wrt_append e)
  then have "btm.insert_all (e # es) m = btm.insert_all es (m @ [e])"
    by (simp add: btm.insert_all_def e btm_insert_last)
  with Cons show ?case by simp
qed (simp add: btm.insert_all_def)

text \<open>\<open>extend\<close> of a map, executable.\<close>

definition btm_extend :: "('k :: linorder \<times> 'v) list \<Rightarrow> ('k, 'v) btree_map \<Rightarrow> ('k, 'v) btree_map" where
  "btm_extend es m = fold (\<lambda>(k, v). btm_insert k v) es m"

lemma btm_extend_eq [simp]: "btm_extend es m = btm.insert_all es m"
  by (simp add: btm_extend_def btm.insert_all_def)

lemma insert_all_self: "btm_wf es \<Longrightarrow> btm.insert_all es [] = es"
  using insert_all_ascending [of "[]" es] by simp

interpretation bts: element_set "[]" bts_contains bts_insert length bts_wf
proof unfold_locales
  fix s :: "'a btree_set" and a :: 'a
  assume "bts_wf s"
  then show "length (bts_insert a s) = (if bts_contains s a then length s else Suc (length s))"
    by (auto simp: bts_wf_length insert_absorb)
qed auto

section \<open>Validation loops\<close>

text \<open>
  The contract of one iteration of a validation loop: it succeeds exactly on a
  valid item whose path is above the previous one, whose identifier is new and
  whose weight still fits the 64-bit total; it then records the three.
\<close>

locale strict_scan =
  fixes step :: "'a \<Rightarrow> 's \<Rightarrow> ('s, 'e) result"
    and path :: "'a \<Rightarrow> string"
    and ident :: "'a \<Rightarrow> string"
    and weight :: "'a \<Rightarrow> nat"
    and valid_item :: "'a \<Rightarrow> bool"
    and prev_path :: "'s \<Rightarrow> string option"
    and ids :: "'s \<Rightarrow> string set"
    and total :: "'s \<Rightarrow> nat"
  assumes step_ok: "is_ok (step a s) \<longleftrightarrow>
      valid_item a \<and> (\<forall>p. prev_path s = Some p \<longrightarrow> p < path a) \<and> ident a \<notin> ids s \<and>
      total s + weight a \<le> u64_max"
    and step_prev: "step a s = Ok s' \<Longrightarrow> prev_path s' = Some (path a)"
    and step_ids: "step a s = Ok s' \<Longrightarrow> ids s' = insert (ident a) (ids s)"
    and step_total: "step a s = Ok s' \<Longrightarrow> total s' = total s + weight a"
begin

definition scan_ok :: "'a list \<Rightarrow> 's \<Rightarrow> bool" where
  "scan_ok xs s \<longleftrightarrow> (\<forall>a \<in> set xs. valid_item a) \<and> sorted_wrt (<) (map path xs) \<and>
     distinct (map ident xs) \<and> (\<forall>a \<in> set xs. ident a \<notin> ids s) \<and>
     (\<forall>p. prev_path s = Some p \<longrightarrow> (\<forall>a \<in> set xs. p < path a)) \<and>
     total s + sum_list (map weight xs) \<le> u64_max"

lemma scan_ok_Cons:
  assumes "step a s = Ok s'"
  shows "scan_ok (a # xs) s \<longleftrightarrow> is_ok (step a s) \<and> scan_ok xs s'"
proof -
  have "valid_item a" "ident a \<notin> ids s" and prev: "\<forall>p. prev_path s = Some p \<longrightarrow> p < path a"
    using assms step_ok [of a s] by auto
  moreover have "prev_path s' = Some (path a)" "ids s' = insert (ident a) (ids s)"
      "total s' = total s + weight a"
    using assms step_prev step_ids step_total by auto
  ultimately show ?thesis
    using assms by (auto simp: scan_ok_def add.assoc image_iff Ball_def dest: less_trans intro: less_trans)
qed

lemma fold_step_ok: "total s \<le> u64_max \<Longrightarrow> is_ok (fold_result step xs s) \<longleftrightarrow> scan_ok xs s"
proof (induction xs arbitrary: s)
  case (Cons a xs)
  show ?case
  proof (cases "step a s")
    case (Ok s')
    then have "total s' \<le> u64_max"
      using step_ok [of a s] step_total [of a s s'] by simp
    with Ok Cons.IH [of s'] show ?thesis by (simp add: scan_ok_Cons)
  next
    case (Err e)
    then have "\<not> is_ok (step a s)" by simp
    then have "\<not> scan_ok (a # xs) s"
      by (auto simp: step_ok scan_ok_def)
    with Err show ?thesis by simp
  qed
qed (simp add: scan_ok_def)

lemma fold_step_final:
  assumes "fold_result step xs s = Ok t"
  shows "total t = total s + sum_list (map weight xs)" and "ids t = ids s \<union> ident ` set xs"
  using assms
  by (induction xs arbitrary: s) (auto simp: result_simps dest: step_total step_ids)

text \<open>From a fresh state the loop accepts exactly the lists of valid items with
  strictly ascending paths, distinct identifiers and a total that fits.\<close>

lemma fresh_scan:
  assumes "prev_path s = None" "ids s = {}" "total s = 0"
  shows "is_ok (fold_result step xs s) \<longleftrightarrow>
     (\<forall>a \<in> set xs. valid_item a) \<and> sorted_wrt (<) (map path xs) \<and> distinct (map ident xs) \<and>
     sum_list (map weight xs) \<le> u64_max"
  using assms by (auto simp: fold_step_ok scan_ok_def)

end

end
