(* ===== verification/Core_Metadata.thy ===== *)
theory Core_Metadata
  imports Rust_Float Ordered_Containers
begin

text \<open>
  \<open>immich-core/src/metadata.rs\<close>: source-neutral metadata of one asset and its
  validity. The \<open>time\<close> crate's RFC 3339 parser and printer are the parameter
  \<open>rfc3339\<close>, the composition \<open>parse(..).ok().and_then(|i| i.format(..).ok())\<close>.
\<close>

type_synonym rfc3339 = "string \<Rightarrow> string option"

record GeoCoordinates =
  geo_latitude :: string
  geo_longitude :: string

record NormalizedMetadata =
  nm_description :: "string option"
  nm_taken_at_utc :: "string option"
  nm_location :: "GeoCoordinates option"
  nm_albums :: "string list"

definition NormalizedMetadata_default :: NormalizedMetadata where
  "NormalizedMetadata_default =
     \<lparr>nm_description = None, nm_taken_at_utc = None, nm_location = None, nm_albums = []\<rparr>"

definition valid_album :: "string \<Rightarrow> bool" where
  "valid_album v \<longleftrightarrow> v \<noteq> [] \<and> length v \<le> 4096 \<and> CHR 0x5C \<notin> set v \<and> \<not> any_control v"

definition decimal_in_range :: "string \<Rightarrow> int \<Rightarrow> int \<Rightarrow> bool" where
  "decimal_in_range v minimum maximum =
     (case parse_f64 v of
        None \<Rightarrow> False
      | Some number \<Rightarrow>
          let canonical = (if f64_is_zero number then ''0'' else f64_to_string number) in
          f64_is_finite number \<and> f64_in_range minimum maximum number \<and> v = canonical)"

definition valid_text :: "string \<Rightarrow> nat \<Rightarrow> bool \<Rightarrow> bool" where
  "valid_text v max_bytes allow_layout \<longleftrightarrow>
     v \<noteq> [] \<and> length v \<le> max_bytes \<and>
     \<not> any_control_except (if allow_layout then [CHR 0x0A, CHR 0x0D, CHR 0x09] else []) v \<and>
     (allow_layout \<or> (CHR ''/'' \<notin> set v \<and> CHR 0x5C \<notin> set v))"

definition GeoCoordinates_is_valid :: "GeoCoordinates \<Rightarrow> bool" where
  "GeoCoordinates_is_valid g \<longleftrightarrow>
     decimal_in_range (geo_latitude g) (-90) 90 \<and> decimal_in_range (geo_longitude g) (-180) 180"

definition is_none_or :: "'a option \<Rightarrow> ('a \<Rightarrow> bool) \<Rightarrow> bool" where
  "is_none_or v p = (case v of None \<Rightarrow> True | Some x \<Rightarrow> p x)"

definition is_some_and :: "'a option \<Rightarrow> ('a \<Rightarrow> bool) \<Rightarrow> bool" where
  "is_some_and v p = (case v of None \<Rightarrow> False | Some x \<Rightarrow> p x)"

definition NormalizedMetadata_is_valid :: "rfc3339 \<Rightarrow> NormalizedMetadata \<Rightarrow> bool" where
  "NormalizedMetadata_is_valid rfc m \<longleftrightarrow>
     is_none_or (nm_description m) (\<lambda>v. valid_text v (16 * 1024) True) \<and>
     is_none_or (nm_taken_at_utc m) (\<lambda>v.
       is_some_and (rfc v) (\<lambda>canonical. canonical = v \<and> ends_with v ''Z'')) \<and>
     is_none_or (nm_location m) GeoCoordinates_is_valid \<and>
     list_all valid_album (nm_albums m) \<and>
     windows2_all (<) (nm_albums m)"

text \<open>\<open>migration.rs\<close> and \<open>upload.rs\<close> both ask whether metadata carries an assignment.\<close>

definition has_metadata :: "NormalizedMetadata \<Rightarrow> bool" where
  "has_metadata m \<longleftrightarrow> nm_description m \<noteq> None \<or> nm_taken_at_utc m \<noteq> None \<or> nm_location m \<noteq> None"

lemma is_none_or_simps [simp]: "is_none_or None p" "is_none_or (Some x) p = p x"
  by (simp_all add: is_none_or_def)

lemma is_some_and_simps [simp]: "\<not> is_some_and None p" "is_some_and (Some x) p = p x"
  by (simp_all add: is_some_and_def)

lemma is_none_or_iff: "is_none_or v p \<longleftrightarrow> (\<forall>x. v = Some x \<longrightarrow> p x)"
  by (cases v) auto

lemma is_some_and_iff: "is_some_and v p \<longleftrightarrow> (\<exists>x. v = Some x \<and> p x)"
  by (cases v) auto

text \<open>Albums of valid metadata are a strictly ascending, hence duplicate-free list.\<close>

lemma valid_metadata_albums:
  assumes "NormalizedMetadata_is_valid rfc m"
  shows "bts_wf (nm_albums m)" and "distinct (nm_albums m)"
  using assms
  by (auto simp: NormalizedMetadata_is_valid_def windows2_all_less bts_wf_def sorted_wrt_less_distinct)

text \<open>A valid coordinate numeral has one spelling: two numerals accepted for the same
  double are equal.\<close>

lemma decimal_in_range_canonical:
  assumes "decimal_in_range v lo hi" "decimal_in_range w lo' hi'" "parse_f64 v = parse_f64 w"
  shows "v = w"
  using assms by (auto simp: decimal_in_range_def Let_def split: option.splits if_splits)

lemma default_metadata_valid: "NormalizedMetadata_is_valid rfc NormalizedMetadata_default"
  by (simp add: NormalizedMetadata_is_valid_def NormalizedMetadata_default_def)

lemma single_album_valid:
  "NormalizedMetadata_is_valid rfc (NormalizedMetadata_default \<lparr>nm_albums := [a]\<rparr>) = valid_album a"
  by (simp add: NormalizedMetadata_is_valid_def NormalizedMetadata_default_def)

end
