(* ===== verification/Core_Planning.thy ===== *)
theory Core_Planning
  imports Core_Metadata
begin

text \<open>
  \<open>immich-core/src/planning.rs\<close>: the normalized plan, the versioned immutable output
  of a read-only source scan, and its validation.
\<close>

datatype SourceKind = Folder | GoogleTakeout | ApplePhotos | Picasa | Immich

datatype UnicodeNormalization = Nfc

record SourceDescriptor =
  sd_kind :: SourceKind
  sd_label :: string
  sd_fingerprint_sha256 :: string
  sd_case_sensitive :: bool
  sd_unicode_normalization :: UnicodeNormalization

datatype MediaKind = MediaImage | MediaVideo

datatype MetadataKind = Json | Xmp

datatype LivePhotoRole = RoleImage | RoleVideo

record RuleEvidence =
  re_rule_id :: string
  re_outcome :: string

record MetadataCandidate =
  mc_relative_path :: string
  mc_kind :: MetadataKind
  mc_rule_id :: string

record LivePhotoMember =
  lp_pair_id :: string
  lp_role :: LivePhotoRole

record CandidateAsset =
  ca_operation_id :: string
  ca_relative_path :: string
  ca_media_kind :: MediaKind
  ca_byte_len :: u64
  ca_content_sha256 :: string
  ca_metadata :: "MetadataCandidate list"
  ca_normalized_metadata :: "NormalizedMetadata option"
  ca_live_photo :: "LivePhotoMember option"
  ca_evidence :: "RuleEvidence list"

record PlanDiagnostic =
  pd_rule_id :: string
  pd_code :: string
  pd_paths :: "string list"

text \<open>The derived \<open>Ord\<close> of \<open>PlanDiagnostic\<close>: lexicographic in declaration order.\<close>

definition pd_key :: "PlanDiagnostic \<Rightarrow> string \<times> string \<times> string list" where
  "pd_key d = (pd_rule_id d, pd_code d, pd_paths d)"

record PlanSummary =
  ps_assets :: u64
  ps_sidecars :: u64
  ps_bytes_read :: u64

record NormalizedPlan =
  np_schema_version :: u32
  np_source :: SourceDescriptor
  np_assets :: "CandidateAsset list"
  np_warnings :: "PlanDiagnostic list"
  np_errors :: "PlanDiagnostic list"
  np_summary :: PlanSummary

text \<open>The variants of \<open>PlanValidationError\<close>; validators of other plans have variants of
  the same names, so each enumeration carries its initials.\<close>

datatype PlanValidationError =
    PVE_UnsupportedSchema u32
  | PVE_InvalidSchemaSource
  | PVE_InvalidSourceDescriptor
  | PVE_InvalidAssetIdentity
  | PVE_AssetsNotStrictlySorted
  | PVE_DuplicateOperationId
  | PVE_MissingRuleId
  | PVE_InvalidNormalizedMetadata
  | PVE_SummaryMismatch

text \<open>The derived \<open>Ord\<close> of the enumerations follows declaration order.\<close>

instantiation MediaKind :: linorder
begin

definition less_eq_MediaKind :: "MediaKind \<Rightarrow> MediaKind \<Rightarrow> bool" where
  "less_eq_MediaKind a b \<longleftrightarrow> a = MediaImage \<or> b = MediaVideo"

definition less_MediaKind :: "MediaKind \<Rightarrow> MediaKind \<Rightarrow> bool" where
  "less_MediaKind a b \<longleftrightarrow> a = MediaImage \<and> b = MediaVideo"

instance
proof
  fix x y z :: MediaKind
  show "(x < y) = (x \<le> y \<and> \<not> y \<le> x)" "x \<le> x" "x \<le> y \<Longrightarrow> y \<le> x \<Longrightarrow> x = y" "x \<le> y \<or> y \<le> x"
    by (cases x; cases y; simp add: less_eq_MediaKind_def less_MediaKind_def)+
  show "x \<le> y \<Longrightarrow> y \<le> z \<Longrightarrow> x \<le> z"
    by (auto simp: less_eq_MediaKind_def)
qed

end

instantiation MetadataKind :: linorder
begin

definition less_eq_MetadataKind :: "MetadataKind \<Rightarrow> MetadataKind \<Rightarrow> bool" where
  "less_eq_MetadataKind a b \<longleftrightarrow> a = Json \<or> b = Xmp"

definition less_MetadataKind :: "MetadataKind \<Rightarrow> MetadataKind \<Rightarrow> bool" where
  "less_MetadataKind a b \<longleftrightarrow> a = Json \<and> b = Xmp"

instance
proof
  fix x y z :: MetadataKind
  show "(x < y) = (x \<le> y \<and> \<not> y \<le> x)" "x \<le> x" "x \<le> y \<Longrightarrow> y \<le> x \<Longrightarrow> x = y" "x \<le> y \<or> y \<le> x"
    by (cases x; cases y; simp add: less_eq_MetadataKind_def less_MetadataKind_def)+
  show "x \<le> y \<Longrightarrow> y \<le> z \<Longrightarrow> x \<le> z"
    by (auto simp: less_eq_MetadataKind_def)
qed

end

definition NORMALIZED_PLAN_SCHEMA_VERSION :: u32 where
  "NORMALIZED_PLAN_SCHEMA_VERSION = 1"

definition NORMALIZED_PLAN_SCHEMA_VERSION_V2 :: u32 where
  "NORMALIZED_PLAN_SCHEMA_VERSION_V2 = 2"

definition NORMALIZED_PLAN_SCHEMA_VERSION_V3 :: u32 where
  "NORMALIZED_PLAN_SCHEMA_VERSION_V3 = 3"

definition NORMALIZED_PLAN_SCHEMA_VERSION_V4 :: u32 where
  "NORMALIZED_PLAN_SCHEMA_VERSION_V4 = 4"

lemmas normalized_schema_defs =
  NORMALIZED_PLAN_SCHEMA_VERSION_def NORMALIZED_PLAN_SCHEMA_VERSION_V2_def
  NORMALIZED_PLAN_SCHEMA_VERSION_V3_def NORMALIZED_PLAN_SCHEMA_VERSION_V4_def

section \<open>Validation\<close>

text \<open>The body of the loop over the assets; the state is the previous path and the
  set of operation identifiers seen.\<close>

definition NormalizedPlan_validate_asset ::
  "rfc3339 \<Rightarrow> u32 \<Rightarrow> CandidateAsset \<Rightarrow> string option \<times> string btree_set
     \<Rightarrow> (string option \<times> string btree_set, PlanValidationError) result" where
  "NormalizedPlan_validate_asset rfc schema asset st =
     (let (previous_path, operation_ids) = st in
      if ca_relative_path asset = [] \<or> length (ca_operation_id asset) \<noteq> 64
         \<or> length (ca_content_sha256 asset) \<noteq> 64
      then Err PVE_InvalidAssetIdentity
      else if is_some_and previous_path (\<lambda>path. path \<ge> ca_relative_path asset)
      then Err PVE_AssetsNotStrictlySorted
      else if bts_contains operation_ids (ca_operation_id asset)
      then Err PVE_DuplicateOperationId
      else if list_ex (\<lambda>e. re_rule_id e = []) (ca_evidence asset)
         \<or> list_ex (\<lambda>m. mc_rule_id m = []) (ca_metadata asset)
      then Err PVE_MissingRuleId
      else if (schema = NORMALIZED_PLAN_SCHEMA_VERSION \<and> ca_normalized_metadata asset \<noteq> None)
         \<or> is_some_and (ca_normalized_metadata asset) (\<lambda>m. \<not> NormalizedMetadata_is_valid rfc m)
      then Err PVE_InvalidNormalizedMetadata
      else Ok (Some (ca_relative_path asset), bts_insert (ca_operation_id asset) operation_ids))"

definition sidecar_count :: "NormalizedPlan \<Rightarrow> u64" where
  "sidecar_count plan = sum_list (map (\<lambda>asset. of_nat (length (ca_metadata asset))) (np_assets plan))"

definition NormalizedPlan_validate ::
  "rfc3339 \<Rightarrow> NormalizedPlan \<Rightarrow> (unit, PlanValidationError) result" where
  "NormalizedPlan_validate rfc plan =
     (let schema = np_schema_version plan; source = np_source plan in
      if schema \<notin> {NORMALIZED_PLAN_SCHEMA_VERSION, NORMALIZED_PLAN_SCHEMA_VERSION_V2,
           NORMALIZED_PLAN_SCHEMA_VERSION_V3, NORMALIZED_PLAN_SCHEMA_VERSION_V4}
      then Err (PVE_UnsupportedSchema schema)
      else if schema = NORMALIZED_PLAN_SCHEMA_VERSION_V2 \<and> sd_kind source \<noteq> GoogleTakeout
      then Err PVE_InvalidSchemaSource
      else if schema = NORMALIZED_PLAN_SCHEMA_VERSION_V3 \<and> sd_kind source \<noteq> ApplePhotos
      then Err PVE_InvalidSchemaSource
      else if schema = NORMALIZED_PLAN_SCHEMA_VERSION_V4 \<and> sd_kind source \<noteq> Picasa
      then Err PVE_InvalidSchemaSource
      else if sd_kind source = ApplePhotos \<and> schema \<noteq> NORMALIZED_PLAN_SCHEMA_VERSION_V3
      then Err PVE_InvalidSchemaSource
      else if sd_kind source = Picasa \<and> schema \<noteq> NORMALIZED_PLAN_SCHEMA_VERSION_V4
      then Err PVE_InvalidSchemaSource
      else if sd_kind source = Immich
      then Err PVE_InvalidSchemaSource
      else if sd_label source = [] \<or> length (sd_fingerprint_sha256 source) \<noteq> 64
      then Err PVE_InvalidSourceDescriptor
      else and_then (fold_result (NormalizedPlan_validate_asset rfc schema) (np_assets plan) (None, []))
        (\<lambda>_. if ps_assets (np_summary plan) \<noteq> of_nat (length (np_assets plan))
               \<or> ps_sidecars (np_summary plan) \<noteq> sidecar_count plan
               \<or> \<not> windows2_all (\<lambda>a b. pd_key a \<le> pd_key b) (np_warnings plan)
               \<or> \<not> windows2_all (\<lambda>a b. pd_key a \<le> pd_key b) (np_errors plan)
             then Err PVE_SummaryMismatch else Ok ()))"

section \<open>What validation means\<close>

text \<open>The source adapter that may carry a schema version.\<close>

definition schema_source_ok :: "u32 \<Rightarrow> SourceKind \<Rightarrow> bool" where
  "schema_source_ok schema kind \<longleftrightarrow>
     (schema = 1 \<and> kind \<in> {Folder, GoogleTakeout}) \<or> (schema = 2 \<and> kind = GoogleTakeout)
     \<or> (schema = 3 \<and> kind = ApplePhotos) \<or> (schema = 4 \<and> kind = Picasa)"

definition candidate_asset_ok :: "rfc3339 \<Rightarrow> u32 \<Rightarrow> CandidateAsset \<Rightarrow> bool" where
  "candidate_asset_ok rfc schema a \<longleftrightarrow>
     ca_relative_path a \<noteq> [] \<and> length (ca_operation_id a) = 64 \<and> length (ca_content_sha256 a) = 64 \<and>
     (\<forall>e \<in> set (ca_evidence a). re_rule_id e \<noteq> []) \<and> (\<forall>m \<in> set (ca_metadata a). mc_rule_id m \<noteq> []) \<and>
     (\<forall>m. ca_normalized_metadata a = Some m \<longrightarrow> schema \<noteq> 1 \<and> NormalizedMetadata_is_valid rfc m)"

definition normalized_plan_ok :: "rfc3339 \<Rightarrow> NormalizedPlan \<Rightarrow> bool" where
  "normalized_plan_ok rfc p \<longleftrightarrow>
     schema_source_ok (np_schema_version p) (sd_kind (np_source p)) \<and>
     sd_label (np_source p) \<noteq> [] \<and> length (sd_fingerprint_sha256 (np_source p)) = 64 \<and>
     (\<forall>a \<in> set (np_assets p). candidate_asset_ok rfc (np_schema_version p) a) \<and>
     sorted_wrt (<) (map ca_relative_path (np_assets p)) \<and>
     distinct (map ca_operation_id (np_assets p)) \<and>
     ps_assets (np_summary p) = of_nat (length (np_assets p)) \<and>
     ps_sidecars (np_summary p) = sidecar_count p \<and>
     sorted (map pd_key (np_warnings p)) \<and> sorted (map pd_key (np_errors p))"

interpretation plan_scan: strict_scan "NormalizedPlan_validate_asset rfc schema"
    ca_relative_path ca_operation_id "\<lambda>_. 0" "candidate_asset_ok rfc schema"
    fst "\<lambda>s. set (snd s)" "\<lambda>_. 0"
  for rfc schema
proof unfold_locales
  fix a and s :: "string option \<times> string btree_set"
  show "is_ok (NormalizedPlan_validate_asset rfc schema a s) \<longleftrightarrow>
      candidate_asset_ok rfc schema a \<and> (\<forall>p. fst s = Some p \<longrightarrow> p < ca_relative_path a) \<and>
      ca_operation_id a \<notin> set (snd s) \<and> 0 + 0 \<le> u64_max"
    by (cases s; cases "fst s"; cases "ca_normalized_metadata a")
      (auto simp: NormalizedPlan_validate_asset_def candidate_asset_ok_def normalized_schema_defs
        list_ex_iff not_le)
qed (auto simp: NormalizedPlan_validate_asset_def split: prod.splits if_splits)

lemma windows2_pd_key: "windows2_all (\<lambda>a b. pd_key a \<le> pd_key b) ds = sorted (map pd_key ds)"
  by (simp add: windows2_all_sorted_wrt transp_def order_trans sorted_map)

lemma NormalizedPlan_validate_ok_iff:
  "is_ok (NormalizedPlan_validate rfc p) \<longleftrightarrow> normalized_plan_ok rfc p"
proof -
  have fold: "is_ok (fold_result (NormalizedPlan_validate_asset rfc schema) xs (None, [])) \<longleftrightarrow>
      (\<forall>a \<in> set xs. candidate_asset_ok rfc schema a) \<and> sorted_wrt (<) (map ca_relative_path xs) \<and>
      distinct (map ca_operation_id xs)" for schema xs
    using plan_scan.fresh_scan [of "(None, [])" rfc schema xs] by simp
  show ?thesis
    by (cases "sd_kind (np_source p)")
      (auto simp: NormalizedPlan_validate_def normalized_plan_ok_def schema_source_ok_def Let_def
        normalized_schema_defs windows2_pd_key fold)
qed

section \<open>Properties\<close>

text \<open>C22: \<open>NormalizedPlan::validate\<close> accepts a plan exactly when its schema version belongs
  to its source adapter, its source descriptor is complete, every asset is well
  formed, the asset paths are strictly ascending, the operation identifiers are
  pairwise distinct (not only for neighbours), the counters agree with the
  assets and both diagnostic lists are sorted; the single pass with one previous
  path and one set of identifiers decides all of it.\<close>

theorem normalized_plan_validate_iff:
  "NormalizedPlan_validate rfc p = Ok () \<longleftrightarrow> normalized_plan_ok rfc p"
  using NormalizedPlan_validate_ok_iff [of rfc p] by (auto simp: is_ok_iff)

end
