(* ===== verification/Core_Upload.thy ===== *)
theory Core_Upload
  imports Core_Planning
begin

text \<open>
  \<open>immich-core/src/upload.rs\<close>: the immutable upload plan, its derived counters and its
  validation.
\<close>

record ServerVersion =
  sv_major :: u32
  sv_minor :: u32
  sv_patch :: u32

record ServerCompatibility =
  sc_version :: ServerVersion
  sc_identity_sha256 :: string

record UploadSidecar =
  us_relative_path :: string
  us_byte_len :: u64
  us_content_sha256 :: string

text \<open>\<open>LivePhotoVideo pair_id\<close> and \<open>LivePhotoImage pair_id video_operation_id\<close>.\<close>

datatype UploadRole = Standalone | LivePhotoVideo string | LivePhotoImage string string

record UploadOperation =
  op_operation_id :: string
  op_relative_path :: string
  op_media_kind :: MediaKind
  op_byte_len :: u64
  op_content_sha256 :: string
  op_created_at_unix_ms :: int
  op_modified_at_unix_ms :: int
  op_xmp_sidecar :: "UploadSidecar option"
  op_normalized_metadata :: "NormalizedMetadata option"
  op_role :: UploadRole

record UploadPlanSummary =
  sum_operations :: u64
  sum_media_bytes :: u64
  sum_xmp_sidecars :: u64
  sum_live_photo_pairs :: u64
  sum_metadata_updates :: u64
  sum_album_creates :: u64
  sum_album_memberships :: u64
  sum_max_mutations :: u64

record UploadPlan =
  up_schema_version :: u32
  up_normalized_plan_sha256 :: string
  up_source :: SourceDescriptor
  up_configuration_sha256 :: string
  up_server :: ServerCompatibility
  up_operations :: "UploadOperation list"
  up_summary :: UploadPlanSummary

datatype UploadPlanValidationError =
    UPE_UnsupportedSchema u32
  | UPE_InvalidIdentity
  | UPE_InvalidOperation
  | UPE_OperationsNotStrictlySorted
  | UPE_DuplicateOperationId
  | UPE_InvalidSidecar
  | UPE_InvalidMetadata
  | UPE_InvalidSchemaSource
  | UPE_InvalidLivePhotoDependency
  | UPE_SummaryMismatch

definition UPLOAD_PLAN_SCHEMA_VERSION :: u32 where
  "UPLOAD_PLAN_SCHEMA_VERSION = 1"

definition UPLOAD_PLAN_SCHEMA_VERSION_V2 :: u32 where
  "UPLOAD_PLAN_SCHEMA_VERSION_V2 = 2"

lemmas upload_schema_defs = UPLOAD_PLAN_SCHEMA_VERSION_def UPLOAD_PLAN_SCHEMA_VERSION_V2_def

definition is_sha256 :: "string \<Rightarrow> bool" where
  "is_sha256 v \<longleftrightarrow> length v = 64 \<and> list_all is_ascii_hexdigit v"

section \<open>Counters\<close>

definition plan_albums :: "UploadOperation list \<Rightarrow> string btree_set" where
  "plan_albums ops =
     bts_collect (concat (map nm_albums (List.map_filter op_normalized_metadata ops)))"

definition expected_summary :: "u32 \<Rightarrow> UploadOperation list \<Rightarrow> UploadPlanSummary" where
  "expected_summary schema ops =
     (let albums = plan_albums ops;
          metadata_updates0 = of_nat (length (filter (\<lambda>o'. is_some_and (op_normalized_metadata o') has_metadata) ops));
          operations_count = of_nat (length ops);
          import = (schema = UPLOAD_PLAN_SCHEMA_VERSION_V2);
          metadata_updates = (if import then metadata_updates0 else 0);
          album_count = (if import then of_nat (length albums) else 0)
      in \<lparr>sum_operations = operations_count,
          sum_media_bytes = sum_list (map op_byte_len ops),
          sum_xmp_sidecars = of_nat (length (filter (\<lambda>o'. op_xmp_sidecar o' \<noteq> None) ops)),
          sum_live_photo_pairs = of_nat (length (filter (\<lambda>o'. case op_role o' of LivePhotoImage _ _ \<Rightarrow> True | _ \<Rightarrow> False) ops)),
          sum_metadata_updates = metadata_updates,
          sum_album_creates = album_count,
          sum_album_memberships = album_count,
          sum_max_mutations =
            (if import then saturating_add (saturating_add operations_count metadata_updates)
                              (saturating_mul album_count 2)
             else 0)\<rparr>)"

definition UploadPlanSummary_from_operations :: "u32 \<Rightarrow> UploadOperation list \<Rightarrow> UploadPlanSummary" where
  "UploadPlanSummary_from_operations schema ops = expected_summary schema ops"

section \<open>Validation\<close>

definition validate_operation ::
  "rfc3339 \<Rightarrow> UploadOperation \<Rightarrow> string option \<Rightarrow> string btree_set
     \<Rightarrow> (string btree_set, UploadPlanValidationError) result" where
  "validate_operation rfc oper previous_path ids =
     (if op_relative_path oper = [] \<or> \<not> is_sha256 (op_operation_id oper)
         \<or> \<not> is_sha256 (op_content_sha256 oper) \<or> op_byte_len oper = 0
      then Err UPE_InvalidOperation
      else if is_some_and previous_path (\<lambda>path. path \<ge> op_relative_path oper)
      then Err UPE_OperationsNotStrictlySorted
      else if bts_contains ids (op_operation_id oper)
      then Err UPE_DuplicateOperationId
      else if is_some_and (op_xmp_sidecar oper) (\<lambda>sidecar.
           us_relative_path sidecar = [] \<or> us_byte_len sidecar = 0 \<or> \<not> is_sha256 (us_content_sha256 sidecar))
      then Err UPE_InvalidSidecar
      else if is_some_and (op_normalized_metadata oper) (\<lambda>m. \<not> NormalizedMetadata_is_valid rfc m)
      then Err UPE_InvalidMetadata
      else Ok (bts_insert (op_operation_id oper) ids))"

text \<open>One iteration of the loop of \<open>validate\<close>: identifiers, roles and previous path.\<close>

type_synonym upload_scan = "string btree_set \<times> (string, UploadRole) btree_map \<times> string option"

definition UploadPlan_validate_step ::
  "rfc3339 \<Rightarrow> UploadOperation \<Rightarrow> upload_scan \<Rightarrow> (upload_scan, UploadPlanValidationError) result" where
  "UploadPlan_validate_step rfc oper st =
     (let (ids, roles, previous_path) = st in
      and_then (validate_operation rfc oper previous_path ids)
        (\<lambda>ids'. Ok (ids', btm_insert (op_operation_id oper) (op_role oper) roles,
                    Some (op_relative_path oper))))"

definition dependency_ok :: "(string, UploadRole) btree_map \<Rightarrow> UploadRole \<Rightarrow> bool" where
  "dependency_ok roles role =
     (case role of
        LivePhotoImage pair_id video_operation_id \<Rightarrow>
          (case btm_get roles video_operation_id of
             Some (LivePhotoVideo video_pair) \<Rightarrow> video_pair = pair_id
           | _ \<Rightarrow> False)
      | _ \<Rightarrow> True)"

definition validate_dependencies ::
  "UploadOperation list \<Rightarrow> (string, UploadRole) btree_map \<Rightarrow> (unit, UploadPlanValidationError) result" where
  "validate_dependencies ops roles =
     fold_result (\<lambda>oper _. ensure (dependency_ok roles (op_role oper)) UPE_InvalidLivePhotoDependency) ops ()"

definition UploadPlan_validate :: "rfc3339 \<Rightarrow> UploadPlan \<Rightarrow> (unit, UploadPlanValidationError) result" where
  "UploadPlan_validate rfc plan =
     (let schema = up_schema_version plan; kind = sd_kind (up_source plan) in
      if schema \<notin> {UPLOAD_PLAN_SCHEMA_VERSION, UPLOAD_PLAN_SCHEMA_VERSION_V2}
      then Err (UPE_UnsupportedSchema schema)
      else if \<not> is_sha256 (up_normalized_plan_sha256 plan)
         \<or> \<not> is_sha256 (up_configuration_sha256 plan)
         \<or> \<not> is_sha256 (sd_fingerprint_sha256 (up_source plan))
         \<or> \<not> is_sha256 (sc_identity_sha256 (up_server plan))
      then Err UPE_InvalidIdentity
      else if \<not> (if schema = UPLOAD_PLAN_SCHEMA_VERSION then kind = Folder
                 else kind \<in> {GoogleTakeout, ApplePhotos, Picasa, Immich})
      then Err UPE_InvalidSchemaSource
      else if schema = UPLOAD_PLAN_SCHEMA_VERSION
         \<and> list_ex (\<lambda>oper. op_normalized_metadata oper \<noteq> None) (up_operations plan)
      then Err UPE_InvalidMetadata
      else and_then (fold_result (UploadPlan_validate_step rfc) (up_operations plan) ([], [], None))
        (\<lambda>(ids, roles, previous_path).
           and_then (validate_dependencies (up_operations plan) roles)
             (\<lambda>_. if expected_summary schema (up_operations plan) \<noteq> up_summary plan
                  then Err UPE_SummaryMismatch else Ok ())))"

section \<open>What validation means\<close>

definition upload_operation_ok :: "rfc3339 \<Rightarrow> UploadOperation \<Rightarrow> bool" where
  "upload_operation_ok rfc oper \<longleftrightarrow>
     op_relative_path oper \<noteq> [] \<and> is_sha256 (op_operation_id oper) \<and> is_sha256 (op_content_sha256 oper) \<and>
     op_byte_len oper \<noteq> 0 \<and>
     (\<forall>s. op_xmp_sidecar oper = Some s \<longrightarrow>
        us_relative_path s \<noteq> [] \<and> us_byte_len s \<noteq> 0 \<and> is_sha256 (us_content_sha256 s)) \<and>
     (\<forall>m. op_normalized_metadata oper = Some m \<longrightarrow> NormalizedMetadata_is_valid rfc m)"

text \<open>Every still image names a motion video of the same plan and the same pair.\<close>

definition live_photos_closed :: "UploadOperation list \<Rightarrow> bool" where
  "live_photos_closed ops \<longleftrightarrow>
     (\<forall>oper \<in> set ops. \<forall>pair video. op_role oper = LivePhotoImage pair video \<longrightarrow>
        (\<exists>v \<in> set ops. op_operation_id v = video \<and> op_role v = LivePhotoVideo pair))"

definition upload_plan_ok :: "rfc3339 \<Rightarrow> UploadPlan \<Rightarrow> bool" where
  "upload_plan_ok rfc p \<longleftrightarrow>
     (up_schema_version p = 1 \<and> sd_kind (up_source p) = Folder \<and>
        (\<forall>oper \<in> set (up_operations p). op_normalized_metadata oper = None)
      \<or> up_schema_version p = 2 \<and> sd_kind (up_source p) \<noteq> Folder) \<and>
     is_sha256 (up_normalized_plan_sha256 p) \<and> is_sha256 (up_configuration_sha256 p) \<and>
     is_sha256 (sd_fingerprint_sha256 (up_source p)) \<and> is_sha256 (sc_identity_sha256 (up_server p)) \<and>
     (\<forall>oper \<in> set (up_operations p). upload_operation_ok rfc oper) \<and>
     sorted_wrt (<) (map op_relative_path (up_operations p)) \<and>
     distinct (map op_operation_id (up_operations p)) \<and>
     live_photos_closed (up_operations p) \<and>
     up_summary p = expected_summary (up_schema_version p) (up_operations p)"

lemma validate_operation_Ok:
  "validate_operation rfc oper prev ids = Ok ids' \<longleftrightarrow>
     upload_operation_ok rfc oper \<and> (\<forall>p. prev = Some p \<longrightarrow> p < op_relative_path oper) \<and>
     op_operation_id oper \<notin> set ids \<and> ids' = bts_insert (op_operation_id oper) ids"
  by (cases prev; cases "op_xmp_sidecar oper"; cases "op_normalized_metadata oper")
    (auto simp: validate_operation_def upload_operation_ok_def not_le)

interpretation upload_scan: strict_scan "UploadPlan_validate_step rfc"
    op_relative_path op_operation_id "\<lambda>_. 0" "upload_operation_ok rfc"
    "\<lambda>s. snd (snd s)" "\<lambda>s. set (fst s)" "\<lambda>_. 0"
  for rfc
  by unfold_locales
    (auto simp: UploadPlan_validate_step_def is_ok_iff and_then_eq_Ok validate_operation_Ok
      split: prod.splits)

lemma upload_step_roles:
  "UploadPlan_validate_step rfc oper s = Ok s' \<Longrightarrow>
     fst (snd s') = btm_insert (op_operation_id oper) (op_role oper) (fst (snd s))"
  by (auto simp: UploadPlan_validate_step_def and_then_eq_Ok split: prod.splits)

lemma upload_scan_roles:
  assumes "fold_result (UploadPlan_validate_step rfc) ops s = Ok t" "btm_wf (fst (snd s))"
  shows "btm_get (fst (snd t)) =
    btm_get (fst (snd s)) ++ map_of (rev (map (\<lambda>oper. (op_operation_id oper, op_role oper)) ops))"
proof -
  have "fst (snd t) = btm.insert_all (map (\<lambda>oper. (op_operation_id oper, op_role oper)) ops) (fst (snd s))"
    using assms(1)
    by (induction ops arbitrary: s) (auto simp: btm.insert_all_def and_then_eq_Ok dest: upload_step_roles)
  then show ?thesis using assms(2) by (simp add: btm.get_insert_all)
qed

lemma fold_ensure_ok:
  "is_ok (fold_result (\<lambda>x _. ensure (P x) e) xs ()) \<longleftrightarrow> (\<forall>x \<in> set xs. P x)"
  by (induction xs) (auto simp: ensure_def)

lemma dependency_ok_iff:
  "dependency_ok roles role \<longleftrightarrow> (\<forall>pair video. role = LivePhotoImage pair video \<longrightarrow>
     btm_get roles video = Some (LivePhotoVideo pair))"
  by (cases role) (auto simp: dependency_ok_def split: option.splits UploadRole.splits)

lemma dependency_ok_closed:
  assumes "distinct (map op_operation_id ops)"
    and "btm_get roles = map_of (rev (map (\<lambda>oper. (op_operation_id oper, op_role oper)) ops))"
  shows "(\<forall>oper \<in> set ops. dependency_ok roles (op_role oper)) \<longleftrightarrow> live_photos_closed ops"
proof -
  have "distinct (map fst (rev (map (\<lambda>oper. (op_operation_id oper, op_role oper)) ops)))"
    using assms(1) by (simp add: comp_def flip: rev_map)
  then have "btm_get roles k = Some r \<longleftrightarrow> (\<exists>v \<in> set ops. op_operation_id v = k \<and> op_role v = r)" for k r
    using map_of_eq_Some_iff [of "rev (map (\<lambda>oper. (op_operation_id oper, op_role oper)) ops)" k r]
    by (auto simp: assms(2))
  then show ?thesis by (simp add: live_photos_closed_def dependency_ok_iff)
qed

lemma UploadPlan_validate_ok_iff: "is_ok (UploadPlan_validate rfc p) \<longleftrightarrow> upload_plan_ok rfc p"
proof -
  let ?ops = "up_operations p"
  let ?fold = "fold_result (UploadPlan_validate_step rfc) ?ops ([], [], None)"
  let ?scan = "(\<forall>a \<in> set ?ops. upload_operation_ok rfc a) \<and>
      sorted_wrt (<) (map op_relative_path ?ops) \<and> distinct (map op_operation_id ?ops)"
  have fold: "is_ok ?fold \<longleftrightarrow> ?scan"
    using upload_scan.fresh_scan [of "([], [], None)" rfc ?ops] by simp
  have deps: "is_ok (validate_dependencies ?ops roles) \<longleftrightarrow> live_photos_closed ?ops"
    if "?fold = Ok (ids, roles, prev)" for ids roles prev
  proof -
    have "distinct (map op_operation_id ?ops)" using fold that by simp
    moreover have "btm_get roles = map_of (rev (map (\<lambda>oper. (op_operation_id oper, op_role oper)) ?ops))"
      using upload_scan_roles [OF that] by simp
    ultimately show ?thesis
      by (simp add: validate_dependencies_def fold_ensure_ok dependency_ok_closed)
  qed
  have tail: "is_ok (and_then ?fold (\<lambda>(ids, roles, previous_path).
      and_then (validate_dependencies ?ops roles)
        (\<lambda>_. if s \<noteq> up_summary p then Err UPE_SummaryMismatch else Ok ()))) \<longleftrightarrow>
      ?scan \<and> live_photos_closed ?ops \<and> up_summary p = s" for s
    using deps fold by (cases ?fold) (auto split: prod.splits)
  show ?thesis
    by (cases "sd_kind (up_source p)")
      (auto simp: UploadPlan_validate_def upload_plan_ok_def Let_def upload_schema_defs tail list_ex_iff)
qed

section \<open>Mutation ceiling\<close>

lemma unat_count_u64: "length (filter P xs) \<le> length xs \<and>
    (length xs \<le> u64_max \<longrightarrow> unat (of_nat (length (filter P xs)) :: u64) = length (filter P xs))"
  using length_filter_le [of P xs] by (auto intro!: unat_of_nat_u64 elim: order_trans [rotated])

lemma expected_max_mutations:
  assumes "length ops \<le> u64_max" "length (plan_albums ops) \<le> u64_max"
  shows "unat (sum_max_mutations (expected_summary 2 ops)) =
    min (length ops + length (filter (\<lambda>oper. is_some_and (op_normalized_metadata oper) has_metadata) ops)
         + 2 * length (plan_albums ops)) u64_max"
  using assms
  by (simp add: expected_summary_def Let_def upload_schema_defs unat_saturating_add unat_saturating_mul
      unat_of_nat_u64 unat_count_u64 min_def)

text \<open>A small plan with a live photo: the motion video and the still image that names it.\<close>

definition hex64 :: "char \<Rightarrow> string" where
  "hex64 c = replicate 64 c"

definition sample_source :: "SourceKind \<Rightarrow> SourceDescriptor" where
  "sample_source kind = \<lparr>sd_kind = kind, sd_label = ''camera'', sd_fingerprint_sha256 = hex64 CHR ''1'',
     sd_case_sensitive = True, sd_unicode_normalization = Nfc\<rparr>"

definition sample_server :: ServerCompatibility where
  "sample_server = \<lparr>sc_version = \<lparr>sv_major = 3, sv_minor = 1, sv_patch = 0\<rparr>,
     sc_identity_sha256 = hex64 CHR ''2''\<rparr>"

definition sample_operation :: "char \<Rightarrow> string \<Rightarrow> MediaKind \<Rightarrow> NormalizedMetadata option \<Rightarrow> UploadRole \<Rightarrow> UploadOperation" where
  "sample_operation c path kind metadata role =
     \<lparr>op_operation_id = hex64 c, op_relative_path = path, op_media_kind = kind, op_byte_len = 10,
      op_content_sha256 = hex64 CHR ''c'', op_created_at_unix_ms = 0, op_modified_at_unix_ms = 0,
      op_xmp_sidecar = None, op_normalized_metadata = metadata, op_role = role\<rparr>"

definition sample_operations :: "UploadOperation list" where
  "sample_operations =
     [sample_operation CHR ''a'' ''a.jpg'' MediaImage
        (Some (NormalizedMetadata_default \<lparr>nm_description := Some ''sea'', nm_albums := [''trip'']\<rparr>))
        (LivePhotoImage ''p'' (hex64 CHR ''b'')),
      sample_operation CHR ''b'' ''a.mov'' MediaVideo None (LivePhotoVideo ''p'')]"

definition sample_import_plan :: UploadPlan where
  "sample_import_plan =
     \<lparr>up_schema_version = 2, up_normalized_plan_sha256 = hex64 CHR ''3'', up_source = sample_source GoogleTakeout,
      up_configuration_sha256 = hex64 CHR ''4'', up_server = sample_server,
      up_operations = sample_operations,
      up_summary = UploadPlanSummary_from_operations 2 sample_operations\<rparr>"

section \<open>Properties\<close>

text \<open>C3: \<open>UploadPlan::validate\<close> accepts a plan exactly when its schema belongs to its
  source, its digests are SHA-256 numerals, every operation is well formed, the
  paths are strictly ascending, the identifiers pairwise distinct, every still
  image names a motion video of the same plan and pair, and the summary is the
  one derived from the operations.\<close>

theorem upload_plan_validate_iff: "UploadPlan_validate rfc p = Ok () \<longleftrightarrow> upload_plan_ok rfc p"
  using UploadPlan_validate_ok_iff [of rfc p] by (auto simp: is_ok_iff)

text \<open>The mutation ceiling an accepted import plan (schema 2) carries is the exact
  number of requests it can need, one upload per operation, one metadata
  assignment per operation with metadata, and two requests (create, add members)
  per distinct album, capped at the largest 64-bit number; no wrap-around can
  make it smaller.\<close>

theorem upload_plan_mutation_ceiling:
  assumes "UploadPlan_validate rfc p = Ok ()" "up_schema_version p = 2"
    and "length (up_operations p) \<le> u64_max" "length (plan_albums (up_operations p)) \<le> u64_max"
  shows "unat (sum_max_mutations (up_summary p)) =
    min (length (up_operations p)
         + length (filter (\<lambda>oper. is_some_and (op_normalized_metadata oper) has_metadata) (up_operations p))
         + 2 * length (plan_albums (up_operations p))) u64_max"
proof -
  have "upload_plan_ok rfc p"
    using assms(1) UploadPlan_validate_ok_iff [of rfc p] by simp
  then show ?thesis
    using expected_max_mutations assms by (simp add: upload_plan_ok_def)
qed

theorem upload_plan_mutation_ceiling_witness:
  "UploadPlan_validate Some sample_import_plan = Ok () \<and>
   unat (sum_max_mutations (up_summary sample_import_plan)) = 5"
proof -
  have valid: "UploadPlan_validate Some sample_import_plan = Ok ()" by code_simp
  have ops: "up_operations sample_import_plan = sample_operations" "up_schema_version sample_import_plan = 2"
    by (simp_all add: sample_import_plan_def)
  have albums: "length (plan_albums sample_operations) = 1" "length sample_operations = 2"
      "length (filter (\<lambda>oper. is_some_and (op_normalized_metadata oper) has_metadata) sample_operations) = 1"
    by code_simp+
  show ?thesis
    using upload_plan_mutation_ceiling [OF valid] valid by (simp add: ops albums u64_max_val)
qed

end
