(* ===== verification/Core_Archive.thy ===== *)
theory Core_Archive
  imports Core_Upload
begin

text \<open>
  \<open>immich-core/src/archive.rs\<close>: the read-only archive manifest, the checks that make
  its target paths safe to write below an archive root, and the apply report.
\<close>

record ArchiveAsset =
  aa_asset_id :: string
  aa_original_file_name :: string
  aa_target_path :: string
  aa_media_kind :: MediaKind
  aa_byte_len :: u64
  aa_checksum_sha1 :: string

record ArchiveManifestSummary =
  ams_assets :: u64
  ams_media_bytes :: u64

record ArchiveManifest =
  am_schema_version :: u32
  am_server :: ServerCompatibility
  am_configuration_sha256 :: string
  am_assets :: "ArchiveAsset list"
  am_summary :: ArchiveManifestSummary

record ArchiveApplyReport =
  aar_schema_version :: u32
  aar_manifest_sha256 :: string
  aar_downloaded :: u64
  aar_already_complete :: u64
  aar_bytes_written :: u64
  aar_retries :: u64

datatype ArchiveManifestValidationError =
    AME_UnsupportedSchema u32
  | AME_InvalidIdentity
  | AME_InvalidAsset
  | AME_DuplicateAssetId
  | AME_AssetsNotStrictlySorted
  | AME_SummaryMismatch
  | AME_InvalidReport

definition ARCHIVE_MANIFEST_SCHEMA_VERSION :: u32 where
  "ARCHIVE_MANIFEST_SCHEMA_VERSION = 1"

definition ARCHIVE_APPLY_REPORT_SCHEMA_VERSION :: u32 where
  "ARCHIVE_APPLY_REPORT_SCHEMA_VERSION = 1"

section \<open>Identifiers and file names\<close>

definition uuid_byte_ok :: "nat \<Rightarrow> char \<Rightarrow> bool" where
  "uuid_byte_ok index byte =
     (if index \<in> {8, 13, 18, 23} then byte = CHR ''-''
      else if index = 14 then byte = CHR ''4''
      else if index = 19 then byte \<in> {CHR ''8'', CHR ''9'', CHR ''a'', CHR ''b''}
      else is_lower_hex byte)"

definition canonical_uuid_v4 :: "string \<Rightarrow> bool" where
  "canonical_uuid_v4 v \<longleftrightarrow> length v = 36 \<and> list_all (\<lambda>(i, b). uuid_byte_ok i b) (enumerate 0 v)"

definition is_sha1 :: "string \<Rightarrow> bool" where
  "is_sha1 v \<longleftrightarrow> length v = 40 \<and> list_all is_lower_hex v"

definition archive_is_sha256 :: "string \<Rightarrow> bool" where
  "archive_is_sha256 v \<longleftrightarrow> length v = 64 \<and> list_all is_lower_hex v"

text \<open>The slice \<open>&stem[..3]\<close> panics when byte 3 is inside a character.\<close>

definition reserved_stem :: "string \<Rightarrow> (bool, 'e fault) result" where
  "reserved_stem stem =
     (if stem \<in> {''CON'', ''PRN'', ''AUX'', ''NUL''} then Ok True
      else if length stem \<noteq> 4 then Ok False
      else if \<not> is_char_boundary stem 3 then Err Panic
      else Ok (take 3 stem \<in> {''COM'', ''LPT''} \<and> is_ascii_digit (stem ! 3) \<and> stem ! 3 \<noteq> CHR ''0''))"

definition safe_component :: "string \<Rightarrow> (bool, 'e fault) result" where
  "safe_component v =
     (if v = [] \<or> length v > 255 \<or> v = ''.'' \<or> v = ''..''
         \<or> ends_with v ''.'' \<or> ends_with v '' ''
         \<or> CHR ''/'' \<in> set v \<or> CHR 0x5C \<in> set v \<or> any_control v
      then Ok False
      else map_ok Not (reserved_stem (to_ascii_uppercase (hd (split_on CHR ''.'' v)))))"

section \<open>Validation\<close>

definition archive_target :: "ArchiveAsset \<Rightarrow> string" where
  "archive_target a = ''assets/'' @ aa_asset_id a @ ''/'' @ aa_original_file_name a"

definition validate_asset ::
  "ArchiveAsset \<Rightarrow> string option \<Rightarrow> string btree_set
     \<Rightarrow> (string btree_set, ArchiveManifestValidationError fault) result" where
  "validate_asset asset previous_path ids =
     (if \<not> canonical_uuid_v4 (aa_asset_id asset) then Err (Raise AME_InvalidAsset)
      else and_then (safe_component (aa_original_file_name asset)) (\<lambda>safe.
        if \<not> safe \<or> \<not> is_sha1 (aa_checksum_sha1 asset) \<or> aa_target_path asset \<noteq> archive_target asset
        then Err (Raise AME_InvalidAsset)
        else if bts_contains ids (aa_asset_id asset) then Err (Raise AME_DuplicateAssetId)
        else if is_some_and previous_path (\<lambda>path. path \<ge> aa_target_path asset)
        then Err (Raise AME_AssetsNotStrictlySorted)
        else Ok (bts_insert (aa_asset_id asset) ids)))"

type_synonym archive_scan = "string btree_set \<times> string option \<times> u64"

definition ArchiveManifest_validate_step ::
  "ArchiveAsset \<Rightarrow> archive_scan \<Rightarrow> (archive_scan, ArchiveManifestValidationError fault) result" where
  "ArchiveManifest_validate_step asset st =
     (let (ids, previous_path, bytes) = st in
      and_then (validate_asset asset previous_path ids) (\<lambda>ids'.
        and_then (ok_or (checked_add bytes (aa_byte_len asset)) (Raise AME_SummaryMismatch)) (\<lambda>bytes'.
          Ok (ids', Some (aa_target_path asset), bytes'))))"

definition ArchiveManifest_validate ::
  "ArchiveManifest \<Rightarrow> (unit, ArchiveManifestValidationError fault) result" where
  "ArchiveManifest_validate m =
     (if am_schema_version m \<noteq> ARCHIVE_MANIFEST_SCHEMA_VERSION
      then Err (Raise (AME_UnsupportedSchema (am_schema_version m)))
      else if \<not> archive_is_sha256 (am_configuration_sha256 m)
         \<or> \<not> archive_is_sha256 (sc_identity_sha256 (am_server m))
         \<or> sv_major (sc_version (am_server m)) \<noteq> 3 \<or> sv_minor (sc_version (am_server m)) \<noteq> 1
      then Err (Raise AME_InvalidIdentity)
      else and_then (fold_result ArchiveManifest_validate_step (am_assets m) ([], None, 0))
        (\<lambda>(ids, previous_path, bytes).
          if am_summary m \<noteq> \<lparr>ams_assets = of_nat (length (am_assets m)), ams_media_bytes = bytes\<rparr>
          then Err (Raise AME_SummaryMismatch) else Ok ()))"

definition ArchiveApplyReport_validate ::
  "ArchiveApplyReport \<Rightarrow> u64 \<Rightarrow> (unit, ArchiveManifestValidationError) result" where
  "ArchiveApplyReport_validate r expected_assets =
     (if aar_schema_version r \<noteq> ARCHIVE_APPLY_REPORT_SCHEMA_VERSION
         \<or> \<not> archive_is_sha256 (aar_manifest_sha256 r)
         \<or> saturating_add (aar_downloaded r) (aar_already_complete r) \<noteq> expected_assets
      then Err AME_InvalidReport else Ok ())"

section \<open>What validation means\<close>

definition archive_asset_ok :: "ArchiveAsset \<Rightarrow> bool" where
  "archive_asset_ok a \<longleftrightarrow>
     canonical_uuid_v4 (aa_asset_id a) \<and>
     safe_component (aa_original_file_name a) = (Ok True :: (bool, ArchiveManifestValidationError fault) result) \<and>
     is_sha1 (aa_checksum_sha1 a) \<and> aa_target_path a = archive_target a"

definition archive_manifest_ok :: "ArchiveManifest \<Rightarrow> bool" where
  "archive_manifest_ok m \<longleftrightarrow>
     am_schema_version m = 1 \<and> archive_is_sha256 (am_configuration_sha256 m) \<and>
     archive_is_sha256 (sc_identity_sha256 (am_server m)) \<and>
     sv_major (sc_version (am_server m)) = 3 \<and> sv_minor (sc_version (am_server m)) = 1 \<and>
     (\<forall>a \<in> set (am_assets m). archive_asset_ok a) \<and>
     sorted_wrt (<) (map aa_target_path (am_assets m)) \<and>
     distinct (map aa_asset_id (am_assets m)) \<and>
     sum_list (map (unat \<circ> aa_byte_len) (am_assets m)) \<le> u64_max \<and>
     ams_assets (am_summary m) = of_nat (length (am_assets m)) \<and>
     unat (ams_media_bytes (am_summary m)) = sum_list (map (unat \<circ> aa_byte_len) (am_assets m))"

lemma validate_asset_Ok:
  "validate_asset a prev ids = Ok ids' \<longleftrightarrow>
     archive_asset_ok a \<and> (\<forall>p. prev = Some p \<longrightarrow> p < aa_target_path a) \<and>
     aa_asset_id a \<notin> set ids \<and> ids' = bts_insert (aa_asset_id a) ids"
  by (cases prev) (auto simp: validate_asset_def archive_asset_ok_def and_then_eq_Ok not_le)

interpretation archive_scan: strict_scan ArchiveManifest_validate_step
    aa_target_path aa_asset_id "unat \<circ> aa_byte_len" archive_asset_ok
    "\<lambda>s. fst (snd s)" "\<lambda>s. set (fst s)" "\<lambda>s. unat (snd (snd s))"
proof unfold_locales
  fix a and s :: archive_scan
  obtain ids prev bytes where s: "s = (ids, prev, bytes)" by (cases s)
  show "is_ok (ArchiveManifest_validate_step a s) \<longleftrightarrow>
      archive_asset_ok a \<and> (\<forall>p. fst (snd s) = Some p \<longrightarrow> p < aa_target_path a) \<and>
      aa_asset_id a \<notin> set (fst s) \<and> unat (snd (snd s)) + (unat \<circ> aa_byte_len) a \<le> u64_max"
    using checked_add_eq_None [of bytes "aa_byte_len a"]
    by (auto simp: s ArchiveManifest_validate_step_def is_ok_iff and_then_eq_Ok validate_asset_Ok
        not_less [symmetric])
next
  fix a and s s' :: archive_scan
  assume "ArchiveManifest_validate_step a s = Ok s'"
  then show "fst (snd s') = Some (aa_target_path a)"
      "set (fst s') = insert (aa_asset_id a) (set (fst s))"
      "unat (snd (snd s')) = unat (snd (snd s)) + (unat \<circ> aa_byte_len) a"
    by (auto simp: ArchiveManifest_validate_step_def and_then_eq_Ok validate_asset_Ok
        checked_add_eq_Some split: prod.splits)
qed

lemma ArchiveManifest_validate_ok_iff: "is_ok (ArchiveManifest_validate m) \<longleftrightarrow> archive_manifest_ok m"
proof -
  let ?xs = "am_assets m"
  let ?fold = "fold_result ArchiveManifest_validate_step ?xs ([], None, 0)"
  let ?sum = "sum_list (map (unat \<circ> aa_byte_len) ?xs)"
  let ?scan = "(\<forall>a \<in> set ?xs. archive_asset_ok a) \<and> sorted_wrt (<) (map aa_target_path ?xs) \<and>
      distinct (map aa_asset_id ?xs) \<and> ?sum \<le> u64_max"
  have fold: "is_ok ?fold \<longleftrightarrow> ?scan"
    using archive_scan.fresh_scan [of "([], None, 0)" ?xs] by simp
  have bytes: "unat b = ?sum" if "?fold = Ok (i, q, b)" for i q b
    using archive_scan.fold_step_final(1) [OF that] by simp
  have tail: "is_ok (and_then ?fold (\<lambda>(ids, previous_path, b).
        if am_summary m \<noteq> \<lparr>ams_assets = n, ams_media_bytes = b\<rparr>
        then Err (Raise AME_SummaryMismatch) else Ok ())) \<longleftrightarrow>
      ?scan \<and> ams_assets (am_summary m) = n \<and> unat (ams_media_bytes (am_summary m)) = ?sum" for n
  proof (cases ?fold)
    case (Ok t)
    obtain i q b where t: "t = (i, q, b)" by (cases t)
    have "am_summary m = \<lparr>ams_assets = n, ams_media_bytes = b\<rparr> \<longleftrightarrow>
        ams_assets (am_summary m) = n \<and> unat (ams_media_bytes (am_summary m)) = ?sum"
      using bytes Ok t by (cases "am_summary m") (auto simp: word_unat_eq_iff)
    then show ?thesis using Ok t fold by simp
  qed (use fold in auto)
  show ?thesis
    by (auto simp: ArchiveManifest_validate_def archive_manifest_ok_def tail
        ARCHIVE_MANIFEST_SCHEMA_VERSION_def)
qed

section \<open>Safety of the target paths\<close>

lemma canonical_uuid_no_separator:
  assumes "canonical_uuid_v4 v"
  shows "CHR ''/'' \<notin> set v" and "v \<noteq> []" and "v \<notin> {''.'', ''..''}"
proof -
  have "length v = 36" and all: "\<forall>i < 36. uuid_byte_ok i (v ! i)"
    using assms by (auto simp: canonical_uuid_v4_def list_all_iff in_set_enumerate_eq)
  then show "v \<noteq> []" "v \<notin> {''.'', ''..''}" by auto
  have "uuid_byte_ok i CHR ''/'' = False" for i
    by (simp add: uuid_byte_ok_def is_lower_hex_def is_ascii_digit_def)
  with all \<open>length v = 36\<close> show "CHR ''/'' \<notin> set v"
    by (metis in_set_conv_nth)
qed

lemma safe_component_True:
  assumes "safe_component v = Ok True"
  shows "v \<noteq> []" "v \<notin> {''.'', ''..''}" "CHR ''/'' \<notin> set v" "CHR 0x5C \<notin> set v" "\<not> any_control v"
    "length v \<le> 255"
  using assms by (auto simp: safe_component_def split: if_splits)

lemma archive_asset_ok_path:
  assumes "archive_asset_ok a"
  shows "split_on CHR ''/'' (aa_target_path a) = [''assets'', aa_asset_id a, aa_original_file_name a]"
proof -
  have "CHR ''/'' \<notin> set (aa_asset_id a)" "CHR ''/'' \<notin> set (aa_original_file_name a)"
    using assms by (auto simp: archive_asset_ok_def dest: canonical_uuid_no_separator safe_component_True)
  then have "split_on CHR ''/'' (''assets'' @ CHR ''/'' # aa_asset_id a @ CHR ''/'' # aa_original_file_name a)
      = [''assets'', aa_asset_id a, aa_original_file_name a]"
    by (simp only: split_on_append_sep) (simp add: split_on_no_sep)
  then show ?thesis using assms by (simp add: archive_asset_ok_def archive_target_def)
qed

section \<open>Where validation panics\<close>

lemma safe_component_Panic:
  "safe_component v = Err e \<longleftrightarrow> e = Panic \<and> safe_component v \<noteq> Ok True \<and> safe_component v \<noteq> Ok False"
  by (auto simp: safe_component_def reserved_stem_def)

lemma to_ascii_upper_high: "128 \<le> byte_of (to_ascii_upper c) \<longleftrightarrow> 128 \<le> (byte_of c :: nat)"
  by (auto simp: to_ascii_upper_def is_ascii_lower_def of_char_of)

lemma hd_split_on: "set (hd (split_on d s)) \<subseteq> set s"
proof (induction s)
  case (Cons c s)
  then show ?case by (cases "split_on d s") auto
qed auto

text \<open>ASCII names never panic: every byte offset of an ASCII string is a boundary.\<close>

lemma safe_component_ascii:
  assumes "\<forall>c \<in> set v. byte_of c < (128 :: nat)"
  shows "safe_component v \<noteq> Err e"
proof -
  let ?stem = "to_ascii_uppercase (hd (split_on CHR ''.'' v))"
  have "byte_of c < (128 :: nat)" if "c \<in> set ?stem" for c
    using that assms hd_split_on [of "CHR ''.''" v] to_ascii_upper_high
    by (fastforce simp: to_ascii_uppercase_def not_le [symmetric])
  then have "length ?stem = 4 \<Longrightarrow> is_char_boundary ?stem 3"
    using nth_mem [of 3 ?stem] by (fastforce simp: is_char_boundary_def)
  then show ?thesis
    by (auto simp: safe_component_def reserved_stem_def)
qed

section \<open>Properties\<close>

definition sample_archive_asset :: "string \<Rightarrow> ArchiveAsset" where
  "sample_archive_asset name =
     \<lparr>aa_asset_id = ''11111111-1111-4111-8111-111111111111'', aa_original_file_name = name,
      aa_target_path = ''assets/11111111-1111-4111-8111-111111111111/'' @ name,
      aa_media_kind = MediaImage, aa_byte_len = 7, aa_checksum_sha1 = replicate 40 CHR ''a''\<rparr>"

definition sample_manifest :: "string \<Rightarrow> ArchiveManifest" where
  "sample_manifest name =
     \<lparr>am_schema_version = 1, am_server = sample_server, am_configuration_sha256 = hex64 CHR ''5'',
      am_assets = [sample_archive_asset name],
      am_summary = \<lparr>ams_assets = 1, ams_media_bytes = 7\<rparr>\<rparr>"

text \<open>C21: an accepted archive manifest is safe to write below an archive root: every
  target path is the three components \<open>assets\<close>, asset identifier, file name, none
  of them empty, \<open>.\<close> or \<open>..\<close>, the file name without separators or control characters;
  no two assets share an identifier or a target; and the byte total of the
  summary is the exact sum, with no wrap-around.\<close>

theorem archive_manifest_safe:
  assumes "ArchiveManifest_validate m = Ok ()"
  shows "(\<forall>a \<in> set (am_assets m).
      split_on CHR ''/'' (aa_target_path a) = [''assets'', aa_asset_id a, aa_original_file_name a] \<and>
      aa_original_file_name a \<notin> {[], ''.'', ''..''} \<and> aa_asset_id a \<notin> {[], ''.'', ''..''} \<and>
      CHR 0x5C \<notin> set (aa_original_file_name a) \<and> \<not> any_control (aa_original_file_name a)) \<and>
    distinct (map aa_asset_id (am_assets m)) \<and> distinct (map aa_target_path (am_assets m)) \<and>
    unat (ams_media_bytes (am_summary m)) = sum_list (map (unat \<circ> aa_byte_len) (am_assets m))"
proof -
  have ok: "archive_manifest_ok m"
    using assms ArchiveManifest_validate_ok_iff [of m] by simp
  have "archive_asset_ok a" if "a \<in> set (am_assets m)" for a
    using ok that by (simp add: archive_manifest_ok_def)
  then show ?thesis
    using ok by (auto simp: archive_asset_ok_path archive_manifest_ok_def sorted_wrt_less_distinct
        dest!: archive_asset_ok_def [THEN iffD1] dest: safe_component_True canonical_uuid_no_separator)
qed

theorem archive_manifest_safe_witness:
  "ArchiveManifest_validate (sample_manifest ''a b.jpg'') = Ok () \<and>
   split_on CHR ''/'' (aa_target_path (sample_archive_asset ''a b.jpg'')) =
     [''assets'', ''11111111-1111-4111-8111-111111111111'', ''a b.jpg'']"
proof -
  have "ArchiveManifest_validate (sample_manifest ''a b.jpg'') = Ok ()" by code_simp
  with archive_manifest_safe [OF this] show ?thesis
    by (simp add: sample_manifest_def sample_archive_asset_def)
qed

text \<open>Validation never panics on a manifest whose original file names are ASCII. (The
  restriction is needed: see the next property.)\<close>

theorem archive_validate_ascii_no_panic:
  assumes "\<forall>a \<in> set (am_assets m). \<forall>c \<in> set (aa_original_file_name a). byte_of c < (128 :: nat)"
  shows "ArchiveManifest_validate m \<noteq> Err Panic"
proof
  assume "ArchiveManifest_validate m = Err Panic"
  then have "fold_result ArchiveManifest_validate_step (am_assets m) ([], None, 0) = Err Panic"
    by (auto simp: ArchiveManifest_validate_def and_then_eq_Err split: if_splits)
  then obtain a s where "a \<in> set (am_assets m)" "ArchiveManifest_validate_step a s = Err Panic"
    by (blast dest: fold_result_eq_Err)
  with assms show False
    by (auto simp: ArchiveManifest_validate_step_def validate_asset_def and_then_eq_Err
        safe_component_ascii split: prod.splits if_splits)
qed

theorem archive_validate_ascii_no_panic_witness:
  "ArchiveManifest_validate (sample_manifest ''COM1.jpg'') \<noteq> Err Panic"
  by (rule archive_validate_ascii_no_panic) (simp add: sample_manifest_def sample_archive_asset_def)

text \<open>A file named by the one emoji U+1F600 and the extension \<open>.jpg\<close>, a name an upload can
  have, makes validation panic instead of returning: its stem has four bytes, so
  the reserved-name check slices it at byte 3, inside the character.\<close>

theorem archive_validate_panics:
  "ArchiveManifest_validate (sample_manifest ([CHR 0xF0, CHR 0x9F, CHR 0x98, CHR 0x80] @ ''.jpg'')) = Err Panic"
  by code_simp

end
