(* ===== verification/Core_Migration.thy ===== *)
theory Core_Migration
  imports Core_Upload
begin

text \<open>
  \<open>immich-core/src/migration.rs\<close>: the immutable two-server migration plan and its
  validation. \<open>OffsetDateTime::from_unix_timestamp_nanos(n).is_ok()\<close> of the \<open>time\<close> crate
  is the parameter \<open>unix_nanos\<close>.
\<close>

record MigrationServer =
  ms_compatibility :: ServerCompatibility
  ms_origin_sha256 :: string

record MigrationAsset =
  ma_source_asset_id :: string
  ma_operation_id :: string
  ma_original_file_name :: string
  ma_media_kind :: MediaKind
  ma_byte_len :: u64
  ma_checksum_sha1 :: string
  ma_content_sha256 :: string
  ma_created_at_unix_ms :: int
  ma_modified_at_unix_ms :: int
  ma_normalized_metadata :: "NormalizedMetadata option"
  ma_role :: UploadRole

record MigrationAlbum =
  mal_name :: string
  mal_member_operation_ids :: "string list"

record MigrationPlanSummary =
  mps_assets :: u64
  mps_media_bytes :: u64
  mps_metadata_updates :: u64
  mps_album_creates :: u64
  mps_album_memberships :: u64
  mps_max_mutations :: u64

record MigrationPlan =
  mp_schema_version :: u32
  mp_source_server :: MigrationServer
  mp_destination_server :: MigrationServer
  mp_source_fingerprint_sha256 :: string
  mp_configuration_sha256 :: string
  mp_assets :: "MigrationAsset list"
  mp_albums :: "MigrationAlbum list"
  mp_summary :: MigrationPlanSummary

datatype MigrationPlanValidationError =
    MPE_UnsupportedSchema u32
  | MPE_InvalidIdentity
  | MPE_InvalidAsset
  | MPE_AssetsNotStrictlySorted
  | MPE_InvalidLivePhotoDependency
  | MPE_InvalidAlbum
  | MPE_SummaryMismatch

definition MIGRATION_PLAN_SCHEMA_VERSION :: u32 where
  "MIGRATION_PLAN_SCHEMA_VERSION = 1"

definition lower_hex :: "string \<Rightarrow> nat \<Rightarrow> bool" where
  "lower_hex v n \<longleftrightarrow> length v = n \<and> list_all (\<lambda>b. is_ascii_hexdigit b \<and> \<not> is_ascii_upper b) v"

definition uuid_v4 :: "string \<Rightarrow> bool" where
  "uuid_v4 v \<longleftrightarrow> length v = 36 \<and>
     list_all (\<lambda>i. v ! i = CHR ''-'') [8, 13, 18, 23] \<and>
     v ! 14 = CHR ''4'' \<and> v ! 19 \<in> {CHR ''8'', CHR ''9'', CHR ''a'', CHR ''b''} \<and>
     list_all (\<lambda>(i, b). i \<in> {8, 13, 18, 23} \<or> (is_ascii_hexdigit b \<and> \<not> is_ascii_upper b)) (enumerate 0 v)"

definition portable_file_name :: "string \<Rightarrow> bool" where
  "portable_file_name v \<longleftrightarrow> v \<noteq> [] \<and> length v \<le> 4096 \<and> CHR ''/'' \<notin> set v \<and> CHR 0x5C \<notin> set v
     \<and> v \<noteq> ''.'' \<and> v \<noteq> ''..'' \<and> \<not> any_control v"

definition valid_unix_ms :: "(int \<Rightarrow> bool) \<Rightarrow> int \<Rightarrow> bool" where
  "valid_unix_ms unix_nanos v = unix_nanos (v * 1000000)"

definition server_valid :: "MigrationServer \<Rightarrow> bool" where
  "server_valid s \<longleftrightarrow> lower_hex (sc_identity_sha256 (ms_compatibility s)) 64 \<and> lower_hex (ms_origin_sha256 s) 64"

section \<open>Validation\<close>

type_synonym migration_scan = "string option \<times> (string, UploadRole) btree_map"

definition validate_assets_step ::
  "rfc3339 \<Rightarrow> (int \<Rightarrow> bool) \<Rightarrow> MigrationAsset \<Rightarrow> migration_scan
     \<Rightarrow> (migration_scan, MigrationPlanValidationError) result" where
  "validate_assets_step rfc unix_nanos asset st =
     (let (previous, operations) = st in
      if is_some_and previous (\<lambda>value. value \<ge> ma_source_asset_id asset)
      then Err MPE_AssetsNotStrictlySorted
      else if \<not> uuid_v4 (ma_source_asset_id asset)
         \<or> \<not> lower_hex (ma_operation_id asset) 64
         \<or> \<not> portable_file_name (ma_original_file_name asset)
         \<or> ma_byte_len asset = 0
         \<or> \<not> lower_hex (ma_checksum_sha1 asset) 40
         \<or> \<not> lower_hex (ma_content_sha256 asset) 64
         \<or> \<not> valid_unix_ms unix_nanos (ma_created_at_unix_ms asset)
         \<or> \<not> valid_unix_ms unix_nanos (ma_modified_at_unix_ms asset)
         \<or> is_some_and (ma_normalized_metadata asset)
              (\<lambda>m. \<not> NormalizedMetadata_is_valid rfc m \<or> nm_albums m \<noteq> [])
         \<or> btm_get operations (ma_operation_id asset) \<noteq> None
      then Err MPE_InvalidAsset
      else Ok (Some (ma_source_asset_id asset), btm_insert (ma_operation_id asset) (ma_role asset) operations))"

definition validate_assets ::
  "rfc3339 \<Rightarrow> (int \<Rightarrow> bool) \<Rightarrow> MigrationAsset list
     \<Rightarrow> ((string, UploadRole) btree_map, MigrationPlanValidationError) result" where
  "validate_assets rfc unix_nanos assets =
     and_then (fold_result (validate_assets_step rfc unix_nanos) assets (None, []))
       (\<lambda>(previous, operations).
          and_then (fold_result
              (\<lambda>asset _. ensure (dependency_ok operations (ma_role asset)) MPE_InvalidLivePhotoDependency)
              assets ())
            (\<lambda>_. Ok operations))"

definition validate_albums_step ::
  "rfc3339 \<Rightarrow> (string, UploadRole) btree_map \<Rightarrow> MigrationAlbum \<Rightarrow> string option
     \<Rightarrow> (string option, MigrationPlanValidationError) result" where
  "validate_albums_step rfc operations album previous =
     (let metadata = NormalizedMetadata_default \<lparr>nm_albums := [mal_name album]\<rparr> in
      if is_some_and previous (\<lambda>value. value \<ge> mal_name album)
         \<or> \<not> NormalizedMetadata_is_valid rfc metadata
         \<or> mal_member_operation_ids album = []
         \<or> \<not> windows2_all (<) (mal_member_operation_ids album)
         \<or> list_ex (\<lambda>oper. btm_get operations oper = None) (mal_member_operation_ids album)
      then Err MPE_InvalidAlbum
      else Ok (Some (mal_name album)))"

definition validate_albums ::
  "rfc3339 \<Rightarrow> MigrationAlbum list \<Rightarrow> (string, UploadRole) btree_map
     \<Rightarrow> (unit, MigrationPlanValidationError) result" where
  "validate_albums rfc albums operations =
     and_then (fold_result (validate_albums_step rfc operations) albums None) (\<lambda>_. Ok ())"

definition migration_expected_summary ::
  "MigrationAsset list \<Rightarrow> MigrationAlbum list \<Rightarrow> MigrationPlanSummary" where
  "migration_expected_summary assets albums =
     (let metadata_updates = of_nat (length (filter (\<lambda>a. is_some_and (ma_normalized_metadata a) has_metadata) assets));
          assets_count = of_nat (length assets);
          album_count = of_nat (length albums)
      in \<lparr>mps_assets = assets_count,
          mps_media_bytes = sum_list (map ma_byte_len assets),
          mps_metadata_updates = metadata_updates,
          mps_album_creates = album_count,
          mps_album_memberships = album_count,
          mps_max_mutations = saturating_add (saturating_add assets_count metadata_updates)
                                (saturating_mul album_count 2)\<rparr>)"

definition MigrationPlan_validate ::
  "rfc3339 \<Rightarrow> (int \<Rightarrow> bool) \<Rightarrow> MigrationPlan \<Rightarrow> (unit, MigrationPlanValidationError) result" where
  "MigrationPlan_validate rfc unix_nanos p =
     (if mp_schema_version p \<noteq> MIGRATION_PLAN_SCHEMA_VERSION
      then Err (MPE_UnsupportedSchema (mp_schema_version p))
      else if \<not> server_valid (mp_source_server p)
         \<or> \<not> server_valid (mp_destination_server p)
         \<or> ms_origin_sha256 (mp_source_server p) = ms_origin_sha256 (mp_destination_server p)
         \<or> sc_identity_sha256 (ms_compatibility (mp_source_server p))
            = sc_identity_sha256 (ms_compatibility (mp_destination_server p))
         \<or> \<not> lower_hex (mp_source_fingerprint_sha256 p) 64
         \<or> \<not> lower_hex (mp_configuration_sha256 p) 64
      then Err MPE_InvalidIdentity
      else and_then (validate_assets rfc unix_nanos (mp_assets p)) (\<lambda>operation_map.
        and_then (validate_albums rfc (mp_albums p) operation_map) (\<lambda>_.
          if migration_expected_summary (mp_assets p) (mp_albums p) \<noteq> mp_summary p
          then Err MPE_SummaryMismatch else Ok ())))"

section \<open>What validation means\<close>

definition migration_asset_ok :: "rfc3339 \<Rightarrow> (int \<Rightarrow> bool) \<Rightarrow> MigrationAsset \<Rightarrow> bool" where
  "migration_asset_ok rfc unix_nanos a \<longleftrightarrow>
     uuid_v4 (ma_source_asset_id a) \<and> lower_hex (ma_operation_id a) 64 \<and>
     portable_file_name (ma_original_file_name a) \<and> ma_byte_len a \<noteq> 0 \<and>
     lower_hex (ma_checksum_sha1 a) 40 \<and> lower_hex (ma_content_sha256 a) 64 \<and>
     valid_unix_ms unix_nanos (ma_created_at_unix_ms a) \<and> valid_unix_ms unix_nanos (ma_modified_at_unix_ms a) \<and>
     (\<forall>m. ma_normalized_metadata a = Some m \<longrightarrow> NormalizedMetadata_is_valid rfc m \<and> nm_albums m = [])"

definition migration_album_ok :: "MigrationAsset list \<Rightarrow> MigrationAlbum \<Rightarrow> bool" where
  "migration_album_ok assets album \<longleftrightarrow>
     valid_album (mal_name album) \<and> mal_member_operation_ids album \<noteq> [] \<and>
     sorted_wrt (<) (mal_member_operation_ids album) \<and>
     set (mal_member_operation_ids album) \<subseteq> ma_operation_id ` set assets"

definition migration_pairs_closed :: "MigrationAsset list \<Rightarrow> bool" where
  "migration_pairs_closed assets \<longleftrightarrow>
     (\<forall>a \<in> set assets. \<forall>pair video. ma_role a = LivePhotoImage pair video \<longrightarrow>
        (\<exists>v \<in> set assets. ma_operation_id v = video \<and> ma_role v = LivePhotoVideo pair))"

definition migration_plan_ok :: "rfc3339 \<Rightarrow> (int \<Rightarrow> bool) \<Rightarrow> MigrationPlan \<Rightarrow> bool" where
  "migration_plan_ok rfc unix_nanos p \<longleftrightarrow>
     mp_schema_version p = 1 \<and> server_valid (mp_source_server p) \<and> server_valid (mp_destination_server p) \<and>
     ms_origin_sha256 (mp_source_server p) \<noteq> ms_origin_sha256 (mp_destination_server p) \<and>
     sc_identity_sha256 (ms_compatibility (mp_source_server p))
       \<noteq> sc_identity_sha256 (ms_compatibility (mp_destination_server p)) \<and>
     lower_hex (mp_source_fingerprint_sha256 p) 64 \<and> lower_hex (mp_configuration_sha256 p) 64 \<and>
     (\<forall>a \<in> set (mp_assets p). migration_asset_ok rfc unix_nanos a) \<and>
     sorted_wrt (<) (map ma_source_asset_id (mp_assets p)) \<and>
     distinct (map ma_operation_id (mp_assets p)) \<and> migration_pairs_closed (mp_assets p) \<and>
     (\<forall>album \<in> set (mp_albums p). migration_album_ok (mp_assets p) album) \<and>
     sorted_wrt (<) (map mal_name (mp_albums p)) \<and>
     mp_summary p = migration_expected_summary (mp_assets p) (mp_albums p)"

interpretation migration_scan: strict_scan "validate_assets_step rfc unix_nanos"
    ma_source_asset_id ma_operation_id "\<lambda>_. 0" "migration_asset_ok rfc unix_nanos"
    fst "\<lambda>s. dom (btm_get (snd s))" "\<lambda>_. 0"
  for rfc unix_nanos
proof unfold_locales
  fix a and s :: migration_scan
  show "is_ok (validate_assets_step rfc unix_nanos a s) \<longleftrightarrow>
      migration_asset_ok rfc unix_nanos a \<and> (\<forall>p. fst s = Some p \<longrightarrow> p < ma_source_asset_id a) \<and>
      ma_operation_id a \<notin> dom (btm_get (snd s)) \<and> 0 + 0 \<le> u64_max"
    by (cases s; cases "fst s"; cases "ma_normalized_metadata a")
      (auto simp: validate_assets_step_def migration_asset_ok_def not_le domIff)
qed (auto simp: validate_assets_step_def split: prod.splits if_splits)

lemma migration_scan_roles:
  assumes "fold_result (validate_assets_step rfc unix_nanos) xs s = Ok t" "btm_wf (snd s)"
  shows "btm_get (snd t) = btm_get (snd s) ++ map_of (rev (map (\<lambda>a. (ma_operation_id a, ma_role a)) xs))"
proof -
  have "snd t = btm.insert_all (map (\<lambda>a. (ma_operation_id a, ma_role a)) xs) (snd s)"
    using assms(1)
    by (induction xs arbitrary: s)
      (auto simp: btm.insert_all_def and_then_eq_Ok validate_assets_step_def split: prod.splits if_splits)
  then show ?thesis using assms(2) by (simp add: btm.get_insert_all)
qed

text \<open>What the map of roles built by the loop holds.\<close>

lemma migration_roles:
  assumes "fold_result (validate_assets_step rfc unix_nanos) xs (None, []) = Ok (prev, roles)"
  shows "btm_get roles k = Some r \<longleftrightarrow> (\<exists>a \<in> set xs. ma_operation_id a = k \<and> ma_role a = r)"
    and "btm_get roles k = None \<longleftrightarrow> k \<notin> ma_operation_id ` set xs"
proof -
  let ?es = "map (\<lambda>a. (ma_operation_id a, ma_role a)) xs"
  have "distinct (map ma_operation_id xs)"
    using migration_scan.fresh_scan [of "(None, [])" rfc unix_nanos xs] assms by simp
  then have "distinct (map fst (rev ?es))" by (simp add: comp_def flip: rev_map)
  moreover have get: "btm_get roles = map_of (rev ?es)"
    using migration_scan_roles [OF assms] by simp
  ultimately show "btm_get roles k = Some r \<longleftrightarrow> (\<exists>a \<in> set xs. ma_operation_id a = k \<and> ma_role a = r)"
    using map_of_eq_Some_iff [of "rev ?es" k r] by auto
  show "btm_get roles k = None \<longleftrightarrow> k \<notin> ma_operation_id ` set xs"
    by (simp add: get map_of_eq_None_iff image_image)
qed

lemma validate_albums_step_ok:
  "is_ok (validate_albums_step rfc roles a prev) \<longleftrightarrow>
     valid_album (mal_name a) \<and> mal_member_operation_ids a \<noteq> [] \<and>
     sorted_wrt (<) (mal_member_operation_ids a) \<and>
     (\<forall>k \<in> set (mal_member_operation_ids a). btm_get roles k \<noteq> None) \<and>
     (\<forall>p. prev = Some p \<longrightarrow> p < mal_name a)"
  by (cases prev)
    (auto simp: validate_albums_step_def single_album_valid windows2_all_less list_ex_iff not_le)

lemma validate_albums_fold:
  "is_ok (fold_result (validate_albums_step rfc roles) xs prev) \<longleftrightarrow>
     (\<forall>a \<in> set xs. valid_album (mal_name a) \<and> mal_member_operation_ids a \<noteq> [] \<and>
        sorted_wrt (<) (mal_member_operation_ids a) \<and>
        (\<forall>k \<in> set (mal_member_operation_ids a). btm_get roles k \<noteq> None)) \<and>
     sorted_wrt (<) (map mal_name xs) \<and> (\<forall>p. prev = Some p \<longrightarrow> (\<forall>a \<in> set xs. p < mal_name a))"
proof (induction xs arbitrary: prev)
  case (Cons a xs)
  have "validate_albums_step rfc roles a prev = Ok s \<Longrightarrow> s = Some (mal_name a)" for s
    by (auto simp: validate_albums_step_def split: if_splits)
  then have "is_ok (fold_result (validate_albums_step rfc roles) (a # xs) prev) \<longleftrightarrow>
      is_ok (validate_albums_step rfc roles a prev) \<and>
      is_ok (fold_result (validate_albums_step rfc roles) xs (Some (mal_name a)))"
    by (cases "validate_albums_step rfc roles a prev") auto
  then show ?case
    by (cases prev) (auto simp: validate_albums_step_ok Cons.IH intro: less_trans [of _ "mal_name a"])
qed simp

lemma validate_assets_ok:
  "is_ok (validate_assets rfc unix_nanos xs) \<longleftrightarrow>
     (\<forall>a \<in> set xs. migration_asset_ok rfc unix_nanos a) \<and> sorted_wrt (<) (map ma_source_asset_id xs) \<and>
     distinct (map ma_operation_id xs) \<and> migration_pairs_closed xs"
proof (cases "fold_result (validate_assets_step rfc unix_nanos) xs (None, [])")
  case (Ok t)
  obtain prev roles where t: "t = (prev, roles)" by (cases t)
  have "is_ok (validate_assets rfc unix_nanos xs) \<longleftrightarrow>
      (\<forall>a \<in> set xs. dependency_ok roles (ma_role a))"
    using Ok t by (simp add: validate_assets_def fold_ensure_ok)
  also have "\<dots> \<longleftrightarrow> migration_pairs_closed xs"
    using migration_roles(1) Ok t by (simp add: dependency_ok_iff migration_pairs_closed_def)
  finally show ?thesis
    using migration_scan.fresh_scan [of "(None, [])" rfc unix_nanos xs] Ok by simp
next
  case (Err e)
  then show ?thesis
    using migration_scan.fresh_scan [of "(None, [])" rfc unix_nanos xs]
    by (auto simp: validate_assets_def)
qed

lemma validate_assets_roles:
  "validate_assets rfc unix_nanos xs = Ok roles \<Longrightarrow>
     btm_get roles k = None \<longleftrightarrow> k \<notin> ma_operation_id ` set xs"
  using migration_roles(2) by (fastforce simp: validate_assets_def and_then_eq_Ok)

lemma validate_albums_ok:
  assumes "validate_assets rfc unix_nanos xs = Ok roles"
  shows "is_ok (validate_albums rfc albums roles) \<longleftrightarrow>
     (\<forall>album \<in> set albums. migration_album_ok xs album) \<and> sorted_wrt (<) (map mal_name albums)"
  using validate_assets_roles [OF assms]
  by (auto simp: validate_albums_def validate_albums_fold migration_album_ok_def)

lemma MigrationPlan_validate_ok_iff:
  "is_ok (MigrationPlan_validate rfc unix_nanos p) \<longleftrightarrow> migration_plan_ok rfc unix_nanos p"
proof (cases "validate_assets rfc unix_nanos (mp_assets p)")
  case (Ok roles)
  with validate_albums_ok [OF Ok, of "mp_albums p"] validate_assets_ok [of rfc unix_nanos "mp_assets p"]
  show ?thesis
    by (auto simp: MigrationPlan_validate_def migration_plan_ok_def MIGRATION_PLAN_SCHEMA_VERSION_def)
next
  case (Err e)
  with validate_assets_ok [of rfc unix_nanos "mp_assets p"] show ?thesis
    by (auto simp: MigrationPlan_validate_def migration_plan_ok_def)
qed

section \<open>Properties\<close>

text \<open>C23: \<open>MigrationPlan::validate\<close> accepts a plan exactly when source and destination are
  two different servers with two different accounts, every asset is well formed,
  the source identifiers are strictly ascending, the operation identifiers
  pairwise distinct, every still image names a motion video of its pair, every
  album is a non-empty strictly ascending selection of planned operations, album
  names are strictly ascending and the summary is the derived one.\<close>

theorem migration_plan_validate_iff:
  "MigrationPlan_validate rfc unix_nanos p = Ok () \<longleftrightarrow> migration_plan_ok rfc unix_nanos p"
  using MigrationPlan_validate_ok_iff [of rfc unix_nanos p] by (auto simp: is_ok_iff)

end
