(* ===== verification/Core_Reports.thy ===== *)
theory Core_Reports
  imports Core_Upload
begin

text \<open>
  The remaining contracts of \<open>immich-core\<close>: apply and import reports
  (\<open>apply_report.rs\<close>, \<open>import_report.rs\<close>), progress events (\<open>progress.rs\<close>), the
  cancellation token (\<open>cancellation.rs\<close>) and the operator's confirmation of a
  production write (\<open>production.rs\<close>).
\<close>

record ApplyReport =
  ar_schema_version :: u32
  ar_dry_run :: bool
  ar_planned :: u64
  ar_would_upload :: u64
  ar_created :: u64
  ar_duplicate :: u64
  ar_resumed :: u64
  ar_retried :: u64
  ar_failed :: u64
  ar_indeterminate :: u64
  ar_cancelled :: bool

definition APPLY_REPORT_SCHEMA_VERSION :: u32 where
  "APPLY_REPORT_SCHEMA_VERSION = 1"

definition ApplyReport_new :: "u64 \<Rightarrow> bool \<Rightarrow> ApplyReport" where
  "ApplyReport_new planned dry_run =
     \<lparr>ar_schema_version = APPLY_REPORT_SCHEMA_VERSION, ar_dry_run = dry_run, ar_planned = planned,
      ar_would_upload = 0, ar_created = 0, ar_duplicate = 0, ar_resumed = 0, ar_retried = 0,
      ar_failed = 0, ar_indeterminate = 0, ar_cancelled = False\<rparr>"

record ImportApplyReport =
  ir_schema_version :: u32
  ir_dry_run :: bool
  ir_planned :: UploadPlanSummary
  ir_would_upload :: u64
  ir_would_update_metadata :: u64
  ir_would_create_albums :: u64
  ir_would_add_album_memberships :: u64
  ir_created :: u64
  ir_duplicate :: u64
  ir_metadata_updated :: u64
  ir_albums_created :: u64
  ir_albums_reused :: u64
  ir_album_memberships_updated :: u64
  ir_resumed_effects :: u64
  ir_retried :: u64
  ir_failed :: u64
  ir_indeterminate :: u64
  ir_cancelled :: bool

definition IMPORT_APPLY_REPORT_SCHEMA_VERSION :: u32 where
  "IMPORT_APPLY_REPORT_SCHEMA_VERSION = 1"

definition ImportApplyReport_dry_run :: "UploadPlanSummary \<Rightarrow> ImportApplyReport" where
  "ImportApplyReport_dry_run planned =
     \<lparr>ir_schema_version = IMPORT_APPLY_REPORT_SCHEMA_VERSION, ir_dry_run = True, ir_planned = planned,
      ir_would_upload = sum_operations planned,
      ir_would_update_metadata = sum_metadata_updates planned,
      ir_would_create_albums = sum_album_creates planned,
      ir_would_add_album_memberships = sum_album_memberships planned,
      ir_created = 0, ir_duplicate = 0, ir_metadata_updated = 0, ir_albums_created = 0,
      ir_albums_reused = 0, ir_album_memberships_updated = 0, ir_resumed_effects = 0,
      ir_retried = 0, ir_failed = 0, ir_indeterminate = 0, ir_cancelled = False\<rparr>"

datatype ProgressStage = Discovery | ContentIdentity | Reconciliation | Complete

record ProgressEvent =
  pe_schema_version :: u32
  pe_sequence :: u64
  pe_stage :: ProgressStage
  pe_assets_observed :: u64
  pe_bytes_read :: u64

text \<open>The token's one atomic flag.\<close>

record CancellationToken =
  ct_cancelled :: bool

definition CancellationToken_cancel :: "CancellationToken \<Rightarrow> CancellationToken" where
  "CancellationToken_cancel t = t \<lparr>ct_cancelled := True\<rparr>"

section \<open>Production confirmation\<close>

record ProductionWriteConfirmation =
  pwc_plan_sha256 :: string
  pwc_expected_operations :: u64
  pwc_backup_reference :: string

datatype ProductionConfirmationError =
  NotAcknowledged | InvalidPlanDigest | InvalidOperationCount | InvalidBackupReference

definition MAX_BACKUP_REFERENCE_BYTES :: nat where
  "MAX_BACKUP_REFERENCE_BYTES = 256"

definition is_lower_sha256 :: "string \<Rightarrow> bool" where
  "is_lower_sha256 v \<longleftrightarrow> length v = 64 \<and> list_all is_lower_hex v"

definition ProductionWriteConfirmation_new ::
  "bool \<Rightarrow> string \<Rightarrow> u64 \<Rightarrow> string \<Rightarrow> (ProductionWriteConfirmation, ProductionConfirmationError) result" where
  "ProductionWriteConfirmation_new acknowledged plan_sha256 expected_operations backup_reference =
     (if \<not> acknowledged then Err NotAcknowledged
      else if \<not> is_lower_sha256 plan_sha256 then Err InvalidPlanDigest
      else if expected_operations = 0 then Err InvalidOperationCount
      else if backup_reference = [] \<or> length backup_reference > MAX_BACKUP_REFERENCE_BYTES
         \<or> trim backup_reference \<noteq> backup_reference \<or> any_control backup_reference
      then Err InvalidBackupReference
      else Ok \<lparr>pwc_plan_sha256 = plan_sha256, pwc_expected_operations = expected_operations,
               pwc_backup_reference = backup_reference\<rparr>)"

text \<open>What a constructed confirmation guarantees, with no reference to how it was made.\<close>

definition confirmation_ok :: "ProductionWriteConfirmation \<Rightarrow> bool" where
  "confirmation_ok c \<longleftrightarrow>
     is_lower_sha256 (pwc_plan_sha256 c) \<and> pwc_expected_operations c \<noteq> 0 \<and>
     pwc_backup_reference c \<noteq> [] \<and> length (pwc_backup_reference c) \<le> 256 \<and>
     trim (pwc_backup_reference c) = pwc_backup_reference c \<and> \<not> any_control (pwc_backup_reference c)"

lemma confirmation_new_Ok:
  "ProductionWriteConfirmation_new ack d n b = Ok c \<longleftrightarrow>
     ack \<and> confirmation_ok c \<and>
     c = \<lparr>pwc_plan_sha256 = d, pwc_expected_operations = n, pwc_backup_reference = b\<rparr>"
  by (auto simp: ProductionWriteConfirmation_new_def confirmation_ok_def MAX_BACKUP_REFERENCE_BYTES_def)

section \<open>Properties\<close>

text \<open>A production confirmation exists only for an acknowledged write, with a lowercase
  SHA-256 plan digest, a non-zero operation count and a trimmed, bounded backup
  reference free of control characters, and it carries exactly what the operator
  supplied; every other input is refused.\<close>

theorem production_confirmation_iff:
  "ProductionWriteConfirmation_new ack d n b = Ok c \<longleftrightarrow>
     ack \<and> confirmation_ok c \<and> pwc_plan_sha256 c = d \<and> pwc_expected_operations c = n \<and>
     pwc_backup_reference c = b"
  by (cases c) (auto simp: confirmation_new_Ok)

end
