(* ===== verification/Client_Http.thy ===== *)
theory Client_Http
  imports Core_Metadata
begin

text \<open>
  \<open>immich-client/src/error.rs\<close> and \<open>response.rs\<close>: the client's failure classes, how a
  transport failure or an HTTP status is classified, and the bounded reader of a
  JSON body. A duration is its number of nanoseconds. The HTTP stack (\<open>reqwest\<close>)
  and the JSON decoder (\<open>serde_json\<close>) are parameters: a response is its status, its
  \<open>Retry-After\<close> header when that is a visible-ASCII string, and the stream of its
  body chunks.
\<close>

type_synonym duration = nat

definition from_secs :: "nat \<Rightarrow> duration" where
  "from_secs n = n * 1000000000"

definition from_millis :: "nat \<Rightarrow> duration" where
  "from_millis n = n * 1000000"

datatype ClientErrorClass =
    Authentication | Compatibility | RateLimited | Server | Timeout | Disconnect | Protocol
  | Source | Cancelled

record ClientError =
  ce_class :: ClientErrorClass
  ce_status :: "nat option"
  ce_retry_after :: "duration option"

definition ClientError_new :: "ClientErrorClass \<Rightarrow> ClientError" where
  "ClientError_new c = \<lparr>ce_class = c, ce_status = None, ce_retry_after = None\<rparr>"

definition ClientError_response :: "ClientErrorClass \<Rightarrow> nat \<Rightarrow> duration option \<Rightarrow> ClientError" where
  "ClientError_response c status retry_after =
     \<lparr>ce_class = c, ce_status = Some status, ce_retry_after = retry_after\<rparr>"

definition is_retryable :: "ClientError \<Rightarrow> bool" where
  "is_retryable e \<longleftrightarrow> ce_class e \<in> {RateLimited, Server, Timeout, Disconnect}"

text \<open>What \<open>reqwest::Error\<close> answers to the questions the client asks.\<close>

record reqwest_error =
  rq_timeout :: bool
  rq_connect :: bool
  rq_request :: bool
  rq_body :: bool

record http_response =
  hr_status :: nat
  hr_retry_after :: "string option"
  hr_chunks :: "(string, reqwest_error) result list"

definition classify_transport :: "reqwest_error \<Rightarrow> ClientError" where
  "classify_transport e =
     ClientError_new
       (if rq_timeout e then Timeout
        else if rq_connect e \<or> rq_request e \<or> rq_body e then Disconnect
        else Protocol)"

text \<open>\<open>str::parse::<u64>\<close>: an optional plus sign, at least one digit, no overflow.\<close>

definition parse_u64 :: "string \<Rightarrow> nat option" where
  "parse_u64 s =
     (let ds = (case s of c # cs \<Rightarrow> if c = CHR ''+'' then cs else s | [] \<Rightarrow> []) in
      if ds = [] \<or> \<not> list_all is_ascii_digit ds then None
      else if decimal_value ds \<le> int u64_max then Some (nat (decimal_value ds)) else None)"

definition status_error :: "http_response \<Rightarrow> duration \<Rightarrow> ClientError" where
  "status_error response retry_after_cap =
     (let status = hr_status response;
          class' = (if status \<in> {401, 403} then Authentication
                    else if status = 429 then RateLimited
                    else if status \<in> {408, 425} \<or> (500 \<le> status \<and> status \<le> 599) then Server
                    else Protocol);
          retry_after =
            (case hr_retry_after response of None \<Rightarrow> None | Some v \<Rightarrow>
              (case parse_u64 v of None \<Rightarrow> None | Some secs \<Rightarrow>
                if from_secs secs \<le> retry_after_cap then Some (from_secs secs) else None))
      in ClientError_response class' status retry_after)"

fun read_chunks :: "nat \<Rightarrow> (string, reqwest_error) result list \<Rightarrow> string \<Rightarrow> (string, ClientError) result" where
  "read_chunks max_bytes [] body = Ok body"
| "read_chunks max_bytes (Err e # cs) body = Err (classify_transport e)"
| "read_chunks max_bytes (Ok chunk # cs) body =
     (if length body + length chunk > max_bytes then Err (ClientError_new Protocol)
      else read_chunks max_bytes cs (body @ chunk))"

definition bounded_json ::
  "(string \<Rightarrow> 'a option) \<Rightarrow> nat \<Rightarrow> duration \<Rightarrow> http_response \<Rightarrow> ('a, ClientError) result" where
  "bounded_json decode max_bytes retry_after_cap response =
     (if \<not> (200 \<le> hr_status response \<and> hr_status response \<le> 299)
      then Err (status_error response retry_after_cap)
      else and_then (read_chunks max_bytes (hr_chunks response) [])
        (\<lambda>body. ok_or (decode body) (ClientError_new Protocol)))"

lemma class_new [simp]: "ce_class (ClientError_new c) = c" "ce_retry_after (ClientError_new c) = None"
  by (simp_all add: ClientError_new_def)

lemma is_retryable_new [simp]: "is_retryable (ClientError_new c) \<longleftrightarrow> c \<in> {RateLimited, Server, Timeout, Disconnect}"
  by (simp add: is_retryable_def)

lemma read_chunks_bounded:
  "read_chunks max_bytes cs body = Ok b \<Longrightarrow> length body \<le> max_bytes \<Longrightarrow> length b \<le> max_bytes"
  by (induction max_bytes cs body rule: read_chunks.induct) (auto split: if_splits)

lemma status_error_retry_after:
  "ce_retry_after (status_error r cap) = Some d \<Longrightarrow> d \<le> cap"
  by (auto simp: status_error_def ClientError_response_def Let_def split: option.splits if_splits)

lemma classify_not_cancelled: "ce_class (classify_transport e) \<noteq> Cancelled"
  by (simp add: classify_transport_def)

lemma status_not_cancelled: "ce_class (status_error r cap) \<noteq> Cancelled"
  by (simp add: status_error_def ClientError_response_def Let_def)

lemma read_chunks_Err: "read_chunks m cs b = Err e \<Longrightarrow> ce_class e \<noteq> Cancelled \<and> ce_retry_after e = None"
  by (induction m cs b rule: read_chunks.induct) (auto simp: classify_transport_def split: if_splits)

text \<open>Every failure of the bounded reader carries a server-supplied delay within the cap,
  and none of them claims a cancellation.\<close>

lemma bounded_json_Err:
  assumes "bounded_json decode m cap r = Err e"
  shows "ce_class e \<noteq> Cancelled" and "ce_retry_after e = Some d \<Longrightarrow> d \<le> cap"
  using assms status_not_cancelled [of r cap]
  by (auto simp: bounded_json_def and_then_eq_Err dest: read_chunks_Err status_error_retry_after
      split: if_splits)

end
