(* ===== verification/Client_Api.thy ===== *)
theory Client_Api
  imports Client_Http Core_Upload
begin

text \<open>
  \<open>immich-client/src/upload.rs\<close> and \<open>import.rs\<close>: the requests of the upload and import
  capabilities, their local checks and the checks on every response. The state
  \<open>'s\<close> is everything outside the client (network, server, clock, files, the shared
  cancellation flag and, in the executor, the retry budget that concurrent groups
  share); the \<open>transport\<close> record is how the client reaches it.
\<close>

section \<open>Requests and responses\<close>

datatype DuplicateCheck = Accept | Duplicate_of string

datatype UploadResult = UploadCreated | UploadDuplicate

record UploadRequest =
  ur_operation_id :: string
  ur_file_name :: string
  ur_media_path :: string
  ur_media_len :: u64
  ur_sha1_base64 :: string
  ur_created_at_unix_ms :: int
  ur_modified_at_unix_ms :: int
  ur_xmp :: "(string \<times> u64) option"
  ur_live_photo_video_id :: "string option"

datatype BulkCheckAction = ActionAccept | ActionReject

record BulkCheckResult =
  bcr_id :: string
  bcr_action :: BulkCheckAction
  bcr_asset_id :: "string option"

record UploadResponse =
  upr_id :: string
  upr_status :: UploadResult

record UpdateAssetRequest =
  uar_date_time_original :: "string option"
  uar_description :: "string option"
  uar_latitude :: "f64 option"
  uar_longitude :: "f64 option"

record AlbumResponse =
  alr_id :: string
  alr_album_name :: string

datatype BulkIdError = BulkDuplicate | NoPermission | NotFound | Unknown | Validation

record BulkIdResponse =
  bir_id :: string
  bir_success :: bool
  bir_error :: "BulkIdError option"

record RemoteAlbum =
  ra_id :: string
  ra_name :: string

text \<open>The multipart form of one upload: media part (path, length, name), text fields,
  optional sidecar part and optional motion-video identifier.\<close>

record multipart_form =
  mf_asset_data :: "string \<times> u64 \<times> string"
  mf_device_asset_id :: string
  mf_file_created_at :: string
  mf_file_modified_at :: string
  mf_sidecar :: "(string \<times> u64) option"
  mf_live_photo_video_id :: "string option"

datatype http_request =
    PostBulkCheck string string
  | PostAsset multipart_form string
  | PutAsset string UpdateAssetRequest
  | GetOwnedAlbums string
  | PostAlbum string
  | PutAlbumAssets string "string list"

text \<open>
  \<open>tr_cancelled\<close> reads the cancellation flag; \<open>tr_api_url\<close> says whether the endpoint's
  \<open>api_url\<close> can be built for a path; \<open>tr_send\<close> is \<open>cancellable(request.send())\<close>,
  \<open>None\<close> when the flag won the race; \<open>tr_open\<close> opens a local file; \<open>tr_wait\<close> is
  \<open>retry::wait\<close>, false when cancellation ended the sleep; the last fields are the
  response limits, the timestamp printer of the \<open>time\<close> crate and the JSON decoders.
\<close>

record 's transport =
  tr_cancelled :: "'s \<Rightarrow> bool \<times> 's"
  tr_api_url :: "string \<Rightarrow> bool"
  tr_send :: "http_request \<Rightarrow> 's \<Rightarrow> (http_response, reqwest_error) result option \<times> 's"
  tr_open :: "string \<Rightarrow> 's \<Rightarrow> bool \<times> 's"
  tr_wait :: "duration \<Rightarrow> 's \<Rightarrow> bool \<times> 's"
  tr_max_response_bytes :: nat
  tr_retry_after_cap :: duration
  tr_rfc3339 :: rfc3339
  tr_format_timestamp :: "int \<Rightarrow> string option"
  tr_bulk_check_json :: "string \<Rightarrow> BulkCheckResult list option"
  tr_upload_json :: "string \<Rightarrow> UploadResponse option"
  tr_asset_json :: "string \<Rightarrow> string option"
  tr_albums_json :: "string \<Rightarrow> AlbumResponse list option"
  tr_album_json :: "string \<Rightarrow> AlbumResponse option"
  tr_bulk_ids_json :: "string \<Rightarrow> BulkIdResponse list option"

text \<open>One request: its URL, the send and the decoded bounded answer.\<close>

definition exchange ::
  "'s transport \<Rightarrow> string \<Rightarrow> http_request \<Rightarrow> (string \<Rightarrow> 'a option) \<Rightarrow> 's \<Rightarrow> ('a, ClientError) result \<times> 's" where
  "exchange tr path req decode s =
     (if \<not> tr_api_url tr path then (Err (ClientError_new Protocol), s)
      else case tr_send tr req s of
        (None, s') \<Rightarrow> (Err (ClientError_new Cancelled), s')
      | (Some (Err e), s') \<Rightarrow> (Err (classify_transport e), s')
      | (Some (Ok response), s') \<Rightarrow>
          (bounded_json decode (tr_max_response_bytes tr) (tr_retry_after_cap tr) response, s'))"

definition check_cancelled :: "'s transport \<Rightarrow> 's \<Rightarrow> (unit, ClientError) result \<times> 's" where
  "check_cancelled tr s =
     (let (c, s') = tr_cancelled tr s in
      (if c then Err (ClientError_new Cancelled) else Ok (), s'))"

section \<open>Upload capability\<close>

definition valid_asset_id :: "string \<Rightarrow> bool" where
  "valid_asset_id i \<longleftrightarrow> i \<noteq> [] \<and> length i \<le> 4096"

definition duplicate_answer :: "string \<Rightarrow> BulkCheckResult list \<Rightarrow> (DuplicateCheck, ClientError) result" where
  "duplicate_answer operation_id results =
     (case results of
        [result] \<Rightarrow>
          if bcr_id result \<noteq> operation_id then Err (ClientError_new Protocol)
          else (case (bcr_action result, bcr_asset_id result) of
                  (ActionAccept, None) \<Rightarrow> Ok Accept
                | (ActionReject, Some asset_id) \<Rightarrow>
                    if valid_asset_id asset_id then Ok (Duplicate_of asset_id)
                    else Err (ClientError_new Protocol)
                | _ \<Rightarrow> Err (ClientError_new Protocol))
      | _ \<Rightarrow> Err (ClientError_new Protocol))"

definition duplicate_check ::
  "'s transport \<Rightarrow> string \<Rightarrow> string \<Rightarrow> 's \<Rightarrow> (DuplicateCheck, ClientError) result \<times> 's" where
  "duplicate_check tr operation_id sha1_base64 s =
     (case check_cancelled tr s of
        (Err e, s1) \<Rightarrow> (Err e, s1)
      | (Ok _, s1) \<Rightarrow>
          (let (r, s2) = exchange tr ''api/assets/bulk-upload-check'' (PostBulkCheck operation_id sha1_base64) (tr_bulk_check_json tr) s1 in
           (and_then r (duplicate_answer operation_id), s2)))"

definition validate_upload_request :: "UploadRequest \<Rightarrow> (unit, ClientError) result" where
  "validate_upload_request r =
     ensure (ur_operation_id r \<noteq> [] \<and> ur_file_name r \<noteq> []
        \<and> CHR ''/'' \<notin> set (ur_file_name r) \<and> CHR 0x5C \<notin> set (ur_file_name r)
        \<and> ur_media_len r > 0 \<and> ur_sha1_base64 r \<noteq> [] \<and> length (ur_sha1_base64 r) \<le> 128
        \<and> is_none_or (ur_live_photo_video_id r) valid_asset_id
        \<and> is_none_or (ur_xmp r) (\<lambda>(_, len). len > 0))
       (ClientError_new Protocol)"

definition format_timestamp :: "'s transport \<Rightarrow> int \<Rightarrow> (string, ClientError) result" where
  "format_timestamp tr unix_ms = ok_or (tr_format_timestamp tr (unix_ms * 1000000)) (ClientError_new Protocol)"

definition multipart ::
  "'s transport \<Rightarrow> UploadRequest \<Rightarrow> 's \<Rightarrow> (multipart_form, ClientError) result \<times> 's" where
  "multipart tr r s =
     (let (opened, s1) = tr_open tr (ur_media_path r) s in
      if \<not> opened then (Err (ClientError_new Source), s1)
      else case format_timestamp tr (ur_created_at_unix_ms r) of Err e \<Rightarrow> (Err e, s1) | Ok created \<Rightarrow>
        (case format_timestamp tr (ur_modified_at_unix_ms r) of Err e \<Rightarrow> (Err e, s1) | Ok modified \<Rightarrow>
           (let (sidecar_ok, s2) = (case ur_xmp r of None \<Rightarrow> (True, s1) | Some (path, len) \<Rightarrow> tr_open tr path s1) in
            if \<not> sidecar_ok then (Err (ClientError_new Source), s2)
            else (Ok \<lparr>mf_asset_data = (ur_media_path r, ur_media_len r, ur_file_name r),
                      mf_device_asset_id = ur_operation_id r,
                      mf_file_created_at = created, mf_file_modified_at = modified,
                      mf_sidecar = ur_xmp r, mf_live_photo_video_id = ur_live_photo_video_id r\<rparr>, s2))))"

definition upload_answer :: "UploadResponse \<Rightarrow> (UploadResult \<times> string, ClientError) result" where
  "upload_answer body =
     (if upr_id body = [] \<or> length (upr_id body) > 4096 then Err (ClientError_new Protocol)
      else Ok (upr_status body, upr_id body))"

definition upload ::
  "'s transport \<Rightarrow> UploadRequest \<Rightarrow> 's \<Rightarrow> (UploadResult \<times> string, ClientError) result \<times> 's" where
  "upload tr r s =
     (case check_cancelled tr s of
        (Err e, s1) \<Rightarrow> (Err e, s1)
      | (Ok _, s1) \<Rightarrow>
          (case validate_upload_request r of Err e \<Rightarrow> (Err e, s1) | Ok _ \<Rightarrow>
             (case multipart tr r s1 of
                (Err e, s2) \<Rightarrow> (Err e, s2)
              | (Ok form, s2) \<Rightarrow>
                  (let (a, s3) = exchange tr ''api/assets'' (PostAsset form (ur_sha1_base64 r)) (tr_upload_json tr) s2 in
                   (and_then a upload_answer, s3)))))"

section \<open>Import capability\<close>

definition MAX_ALBUM_ASSETS :: nat where
  "MAX_ALBUM_ASSETS = 100000"

definition valid_remote_id :: "string \<Rightarrow> bool" where
  "valid_remote_id v \<longleftrightarrow> length v = 36 \<and> v ! 8 = CHR ''-'' \<and> v ! 13 = CHR ''-'' \<and> v ! 14 = CHR ''4'' \<and>
     v ! 18 = CHR ''-'' \<and> v ! 19 \<in> {CHR ''8'', CHR ''9'', CHR ''a'', CHR ''b'', CHR ''A'', CHR ''B''} \<and>
     v ! 23 = CHR ''-'' \<and>
     list_all (\<lambda>(i, b). i \<in> {8, 13, 18, 23} \<or> is_ascii_hexdigit b) (enumerate 0 v)"

definition valid_timestamp :: "rfc3339 \<Rightarrow> string \<Rightarrow> bool" where
  "valid_timestamp rfc v = is_some_and (rfc v) (\<lambda>canonical. canonical = v \<and> ends_with v ''Z'')"

definition metadata_request :: "rfc3339 \<Rightarrow> NormalizedMetadata \<Rightarrow> (UpdateAssetRequest, ClientError) result" where
  "metadata_request rfc m =
     (if is_some_and (nm_description m) (\<lambda>v. v = [] \<or> length v > 16 * 1024
            \<or> any_control_except [CHR 0x0A, CHR 0x0D, CHR 0x09] v)
         \<or> is_some_and (nm_taken_at_utc m) (\<lambda>v. \<not> valid_timestamp rfc v)
      then Err (ClientError_new Protocol)
      else and_then
        (case nm_location m of
           None \<Rightarrow> Ok (None, None)
         | Some location \<Rightarrow>
             (case (parse_f64 (geo_latitude location), parse_f64 (geo_longitude location)) of
                (Some lat, Some lon) \<Rightarrow>
                  if f64_is_finite lat \<and> f64_is_finite lon \<and> f64_in_range (-90) 90 lat \<and> f64_in_range (-180) 180 lon
                  then Ok (Some lat, Some lon) else Err (ClientError_new Protocol)
              | _ \<Rightarrow> Err (ClientError_new Protocol)))
        (\<lambda>(lat, lon).
           let request = \<lparr>uar_date_time_original = nm_taken_at_utc m, uar_description = nm_description m,
                          uar_latitude = lat, uar_longitude = lon\<rparr> in
           if uar_date_time_original request \<noteq> None \<or> uar_description request \<noteq> None \<or> uar_latitude request \<noteq> None
           then Ok request else Err (ClientError_new Protocol)))"

definition update_asset_metadata ::
  "'s transport \<Rightarrow> string \<Rightarrow> NormalizedMetadata \<Rightarrow> 's \<Rightarrow> (unit, ClientError) result \<times> 's" where
  "update_asset_metadata tr asset_id m s =
     (case check_cancelled tr s of
        (Err e, s1) \<Rightarrow> (Err e, s1)
      | (Ok _, s1) \<Rightarrow>
          (case metadata_request (tr_rfc3339 tr) m of Err e \<Rightarrow> (Err e, s1) | Ok request \<Rightarrow>
             (let (a, s2) = exchange tr (''api/assets/'' @ asset_id) (PutAsset asset_id request) (tr_asset_json tr) s1 in
              (and_then a (\<lambda>body_id.
                 ensure (body_id = asset_id \<and> valid_remote_id body_id) (ClientError_new Protocol)), s2))))"

definition validate_album_name :: "string \<Rightarrow> (unit, ClientError) result" where
  "validate_album_name name =
     ensure (name \<noteq> [] \<and> length name \<le> 4096 \<and> CHR ''/'' \<notin> set name \<and> CHR 0x5C \<notin> set name
       \<and> \<not> any_control name) (ClientError_new Protocol)"

definition album_answer :: "string \<Rightarrow> AlbumResponse \<Rightarrow> (RemoteAlbum, ClientError) result" where
  "album_answer name album =
     (if alr_album_name album \<noteq> name \<or> \<not> valid_remote_id (alr_id album)
      then Err (ClientError_new Protocol)
      else Ok \<lparr>ra_id = alr_id album, ra_name = alr_album_name album\<rparr>)"

definition find_owned_albums ::
  "'s transport \<Rightarrow> string \<Rightarrow> 's \<Rightarrow> (RemoteAlbum list, ClientError) result \<times> 's" where
  "find_owned_albums tr name s =
     (case check_cancelled tr s of
        (Err e, s1) \<Rightarrow> (Err e, s1)
      | (Ok _, s1) \<Rightarrow>
          (case validate_album_name name of Err e \<Rightarrow> (Err e, s1) | Ok _ \<Rightarrow>
             (let (a, s2) = exchange tr ''api/albums'' (GetOwnedAlbums name) (tr_albums_json tr) s1 in
              (and_then a (\<lambda>albums. map_ok (sort_key ra_id) (collect_result (album_answer name) albums)), s2))))"

definition create_album ::
  "'s transport \<Rightarrow> string \<Rightarrow> 's \<Rightarrow> (RemoteAlbum, ClientError) result \<times> 's" where
  "create_album tr name s =
     (case check_cancelled tr s of
        (Err e, s1) \<Rightarrow> (Err e, s1)
      | (Ok _, s1) \<Rightarrow>
          (case validate_album_name name of Err e \<Rightarrow> (Err e, s1) | Ok _ \<Rightarrow>
             (let (a, s2) = exchange tr ''api/albums'' (PostAlbum name) (tr_album_json tr) s1 in
              (and_then a (album_answer name), s2))))"

definition validate_ids :: "string \<Rightarrow> string list \<Rightarrow> (unit, ClientError) result" where
  "validate_ids album_id asset_ids =
     ensure (valid_remote_id album_id \<and> asset_ids \<noteq> [] \<and> length asset_ids \<le> MAX_ALBUM_ASSETS
       \<and> list_all valid_remote_id asset_ids \<and> windows2_all (<) asset_ids) (ClientError_new Protocol)"

definition bulk_id_converged :: "BulkIdResponse \<Rightarrow> bool" where
  "bulk_id_converged r \<longleftrightarrow> bir_success r \<or> bir_error r = Some BulkDuplicate"

definition validate_membership_results ::
  "string list \<Rightarrow> BulkIdResponse list \<Rightarrow> (unit, ClientError) result" where
  "validate_membership_results expected results =
     (let actual = fold (\<lambda>r. btm_insert (bir_id r) (bulk_id_converged r)) results [] in
      ensure (length actual = length expected \<and> list_all (\<lambda>i. btm_get actual i = Some True) expected)
        (ClientError_new Protocol))"

definition add_album_assets ::
  "'s transport \<Rightarrow> string \<Rightarrow> string list \<Rightarrow> 's \<Rightarrow> (unit, ClientError) result \<times> 's" where
  "add_album_assets tr album_id asset_ids s =
     (case check_cancelled tr s of
        (Err e, s1) \<Rightarrow> (Err e, s1)
      | (Ok _, s1) \<Rightarrow>
          (case validate_ids album_id asset_ids of Err e \<Rightarrow> (Err e, s1) | Ok _ \<Rightarrow>
             (let (a, s2) = exchange tr (''api/albums/'' @ album_id @ ''/assets'') (PutAlbumAssets album_id asset_ids) (tr_bulk_ids_json tr) s1 in
              (and_then a (validate_membership_results asset_ids), s2))))"

section \<open>Facts\<close>

lemma duplicate_answer_id:
  "duplicate_answer oid rs = Ok (Duplicate_of i) \<Longrightarrow> valid_asset_id i"
  by (auto simp: duplicate_answer_def split: list.splits if_splits BulkCheckAction.splits option.splits)

lemma duplicate_check_id:
  "duplicate_check tr oid sha s = (Ok (Duplicate_of i), s') \<Longrightarrow> valid_asset_id i"
  by (auto simp: duplicate_check_def and_then_eq_Ok dest: duplicate_answer_id
      split: prod.splits result.splits)

lemma upload_id: "upload tr r s = (Ok (k, i), s') \<Longrightarrow> valid_asset_id i"
  by (auto simp: upload_def upload_answer_def and_then_eq_Ok valid_asset_id_def
      split: prod.splits result.splits if_splits)

lemma create_album_id: "create_album tr name s = (Ok a, s') \<Longrightarrow> valid_remote_id (ra_id a) \<and> ra_name a = name"
  by (auto simp: create_album_def album_answer_def and_then_eq_Ok split: prod.splits result.splits if_splits)

lemma find_owned_albums_id:
  assumes "find_owned_albums tr name s = (Ok as, s')" "a \<in> set as"
  shows "valid_remote_id (ra_id a)" and "ra_name a = name"
proof -
  obtain bs albums where "collect_result (album_answer name) albums = Ok bs" "as = sort_key ra_id bs"
    using assms(1) by (auto simp: find_owned_albums_def and_then_eq_Ok map_ok_eq_Ok split: prod.splits result.splits)
  then have "\<exists>r. album_answer name r = Ok a"
    using assms(2) by (auto simp: collect_result_eq_Ok list_all2_conv_all_nth in_set_conv_nth)
  then show "valid_remote_id (ra_id a)" "ra_name a = name"
    by (auto simp: album_answer_def split: if_splits)
qed

lemma valid_remote_id_asset: "valid_remote_id i \<Longrightarrow> valid_asset_id i"
  by (auto simp: valid_remote_id_def valid_asset_id_def)

text \<open>A membership answer is accepted only when it covers the requested assets exactly.\<close>

lemma membership_results_exact:
  assumes "validate_membership_results expected results = Ok ()" "distinct expected"
  shows "set (map bir_id results) = set expected"
    and "\<forall>i \<in> set expected. \<exists>r \<in> set results. bir_id r = i \<and> bulk_id_converged r"
proof -
  let ?es = "map (\<lambda>r. (bir_id r, bulk_id_converged r)) results"
  let ?m = "fold (\<lambda>r. btm_insert (bir_id r) (bulk_id_converged r)) results []"
  have m: "?m = btm.insert_all ?es []"
    by (simp add: btm.insert_all_def fold_map comp_def)
  have get: "btm_get ?m = map_of (rev ?es)" and wf: "btm_wf ?m"
    by (simp_all add: m btm.get_insert_all btm.insert_all_wf)
  have len: "length ?m = length expected" and all: "\<forall>i \<in> set expected. btm_get ?m i = Some True"
    using assms(1) by (auto simp: validate_membership_results_def Let_def list_all_iff)
  have dom: "dom (btm_get ?m) = set (map bir_id results)"
    by (simp add: get dom_map_of_conv_image_fst image_image)
  have "set expected \<subseteq> dom (btm_get ?m)" using all by auto
  moreover have "card (set expected) = card (dom (btm_get ?m))"
    using len wf assms(2) by (simp add: length_btm_wf distinct_card)
  ultimately show "set (map bir_id results) = set expected"
    using card_subset_eq [of "dom (btm_get ?m)" "set expected"] finite_dom_map_of dom by metis
  show "\<forall>i \<in> set expected. \<exists>r \<in> set results. bir_id r = i \<and> bulk_id_converged r"
  proof
    fix i assume "i \<in> set expected"
    then have "map_of (rev ?es) i = Some True" using all get by metis
    then have "(i, True) \<in> set (rev ?es)" by (rule map_of_SomeD)
    then show "\<exists>r \<in> set results. bir_id r = i \<and> bulk_id_converged r" by auto
  qed
qed

end
