(* ===== verification/Client_Authorize.thy ===== *)
theory Client_Authorize
  imports Client_Api Core_Reports Core_Migration
begin

text \<open>
  \<open>immich-client/src/endpoint.rs\<close>, \<open>network_policy.rs\<close>, \<open>read.rs\<close> and \<open>production.rs\<close>: which
  endpoints exist, how a read client becomes a write capability, and what a
  production authorization is bound to. The \<open>url\<close> crate is the record \<open>url\<close> of the
  parts of a parsed URL; SHA-256 (hexadecimal) and the JSON encoder are
  parameters.
\<close>

section \<open>Endpoints\<close>

datatype ip_addr = V4 "32 word" | V6 "128 word"

text \<open>\<open>url::Host\<close>: a registered name, or a literal address.\<close>

datatype host = Domain string | Literal ip_addr

record url =
  url_scheme :: string
  url_username :: string
  url_password :: "string option"
  url_host :: "host option"
  url_port_or_known_default :: "nat option"
  url_path :: string
  url_query :: "string option"
  url_fragment :: "string option"
  url_as_str :: string

record ImmichEndpoint =
  ep_origin :: url
  ep_loopback :: bool

datatype AccessMode = Disposable | ProductionRead

datatype EndpointError =
    InvalidOrigin | UnsupportedScheme | InsecureRemoteOrigin | DisposableRequiresLoopback
  | ProductionReadNotAcknowledged | ProductionReadRequiresRemoteHttps

definition ip_is_loopback :: "ip_addr \<Rightarrow> bool" where
  "ip_is_loopback a = (case a of V4 w \<Rightarrow> drop_bit 24 w = 127 | V6 w \<Rightarrow> w = 1)"

definition is_loopback_host :: "host \<Rightarrow> bool" where
  "is_loopback_host h =
     (case h of
        Domain domain \<Rightarrow>
          eq_ignore_ascii_case domain ''localhost''
          \<or> is_some_and (strip_suffix ''.localhost'' (to_ascii_lowercase domain)) (\<lambda>prefix. prefix \<noteq> [])
      | Literal a \<Rightarrow> ip_is_loopback a)"

text \<open>\<open>set_path("/")\<close> is the identity on the serialisation of an HTTP origin, whose path is
  already \<open>/\<close>.\<close>

definition ImmichEndpoint_parse ::
  "(string \<Rightarrow> url option) \<Rightarrow> string \<Rightarrow> (ImmichEndpoint, EndpointError) result" where
  "ImmichEndpoint_parse url_parse v =
     and_then (ok_or (url_parse v) InvalidOrigin) (\<lambda>origin.
       if url_username origin \<noteq> [] \<or> url_password origin \<noteq> None \<or> url_query origin \<noteq> None
          \<or> url_fragment origin \<noteq> None \<or> \<not> (url_path origin = [] \<or> url_path origin = ''/'')
       then Err InvalidOrigin
       else let loopback = is_some_and (url_host origin) is_loopback_host in
            if url_scheme origin = ''https'' \<or> (url_scheme origin = ''http'' \<and> loopback)
            then Ok \<lparr>ep_origin = origin \<lparr>url_path := ''/''\<rparr>, ep_loopback = loopback\<rparr>
            else if url_scheme origin = ''http'' then Err InsecureRemoteOrigin
            else Err UnsupportedScheme)"

definition EndpointAccess_disposable :: "ImmichEndpoint \<Rightarrow> (AccessMode, EndpointError) result" where
  "EndpointAccess_disposable e = (if ep_loopback e then Ok Disposable else Err DisposableRequiresLoopback)"

definition EndpointAccess_production_read :: "ImmichEndpoint \<Rightarrow> bool \<Rightarrow> (AccessMode, EndpointError) result" where
  "EndpointAccess_production_read e acknowledged =
     (if \<not> acknowledged then Err ProductionReadNotAcknowledged
      else if ep_loopback e \<or> url_scheme (ep_origin e) \<noteq> ''https'' then Err ProductionReadRequiresRemoteHttps
      else Ok ProductionRead)"

definition canonical_origin :: "ImmichEndpoint \<Rightarrow> string" where
  "canonical_origin e = url_as_str (ep_origin e)"

section \<open>Pinned addresses\<close>

definition MAX_PINNED_ADDRESSES :: nat where
  "MAX_PINNED_ADDRESSES = 8"

record PinnedEndpointAddresses =
  pin_host :: host
  pin_addresses :: "(ip_addr \<times> nat) list"
  pin_endpoint_sha256 :: string

text \<open>\<open>resolution_target\<close>: \<open>host_str().parse::<IpAddr>()\<close> reads back an IPv4 literal; the text of
  an IPv6 literal host carries brackets, which \<open>IpAddr\<close> does not parse.\<close>

definition literal_ip :: "host \<Rightarrow> ip_addr option" where
  "literal_ip h = (case h of Literal (V4 w) \<Rightarrow> Some (V4 w) | _ \<Rightarrow> None)"

definition resolution_target :: "ImmichEndpoint \<Rightarrow> (host \<times> nat \<times> ip_addr option, EndpointError) result" where
  "resolution_target e =
     and_then (ok_or (url_host (ep_origin e)) InvalidOrigin) (\<lambda>h.
     and_then (ok_or (url_port_or_known_default (ep_origin e)) InvalidOrigin) (\<lambda>port.
       Ok (h, port, literal_ip h)))"

definition PinnedEndpointAddresses_new ::
  "(string \<Rightarrow> string) \<Rightarrow> ImmichEndpoint \<Rightarrow> (ip_addr \<times> nat) list \<Rightarrow> (PinnedEndpointAddresses, ClientError) result" where
  "PinnedEndpointAddresses_new sha256 e addresses =
     and_then (map_err (\<lambda>_. ClientError_new Protocol) (resolution_target e)) (\<lambda>(h, port, literal).
       if 1 \<le> length addresses \<and> length addresses \<le> MAX_PINNED_ADDRESSES \<and> distinct addresses
          \<and> list_all (\<lambda>(ip, p). p = port \<and> is_none_or literal (\<lambda>l. ip = l)) addresses
       then Ok \<lparr>pin_host = h, pin_addresses = addresses, pin_endpoint_sha256 = sha256 (canonical_origin e)\<rparr>
       else Err (ClientError_new Protocol))"

definition PinnedEndpointAddresses_matches ::
  "(string \<Rightarrow> string) \<Rightarrow> PinnedEndpointAddresses \<Rightarrow> ImmichEndpoint \<Rightarrow> bool" where
  "PinnedEndpointAddresses_matches sha256 pin e \<longleftrightarrow> sha256 (canonical_origin e) = pin_endpoint_sha256 pin"

section \<open>Read clients\<close>

record ClientConfig =
  cc_request_timeout :: duration
  cc_max_response_bytes :: nat
  cc_retry_after_cap :: duration
  cc_upload_buffer_bytes :: nat

definition ClientConfig_default :: ClientConfig where
  "ClientConfig_default =
     \<lparr>cc_request_timeout = from_secs 30, cc_max_response_bytes = 64 * 1024,
      cc_retry_after_cap = from_secs 60, cc_upload_buffer_bytes = 64 * 1024\<rparr>"

definition ClientConfig_validate :: "ClientConfig \<Rightarrow> (ClientConfig, ClientError) result" where
  "ClientConfig_validate c =
     (if cc_request_timeout c \<noteq> 0 \<and> 1024 \<le> cc_max_response_bytes c \<and> cc_max_response_bytes c \<le> 1024 * 1024
         \<and> 4 * 1024 \<le> cc_upload_buffer_bytes c \<and> cc_upload_buffer_bytes c \<le> 4 * 1024 * 1024
         \<and> cc_retry_after_cap c \<le> from_secs 300
      then Ok c else Err (ClientError_new Protocol))"

record ImmichReadClient =
  rc_endpoint :: ImmichEndpoint
  rc_api_key :: string
  rc_config :: ClientConfig
  rc_access :: AccessMode

text \<open>\<open>build_ok\<close> is the outcome of \<open>reqwest\<close>'s builder.\<close>

definition build_http_client ::
  "(string \<Rightarrow> string) \<Rightarrow> bool \<Rightarrow> ImmichEndpoint \<Rightarrow> PinnedEndpointAddresses option \<Rightarrow> (unit, ClientError) result" where
  "build_http_client sha256 build_ok e addresses =
     (if is_some_and addresses (\<lambda>pin. \<not> PinnedEndpointAddresses_matches sha256 pin e)
      then Err (ClientError_new Protocol)
      else ensure build_ok (ClientError_new Protocol))"

definition new_with_access ::
  "(string \<Rightarrow> string) \<Rightarrow> bool \<Rightarrow> ImmichEndpoint \<Rightarrow> string \<Rightarrow> ClientConfig \<Rightarrow> AccessMode
     \<Rightarrow> PinnedEndpointAddresses option \<Rightarrow> (ImmichReadClient, ClientError) result" where
  "new_with_access sha256 build_ok e key config access addresses =
     and_then (ClientConfig_validate config) (\<lambda>config'.
     and_then (build_http_client sha256 build_ok e addresses) (\<lambda>_.
       Ok \<lparr>rc_endpoint = e, rc_api_key = key, rc_config = config', rc_access = access\<rparr>))"

definition ImmichReadClient_new ::
  "(string \<Rightarrow> string) \<Rightarrow> bool \<Rightarrow> ImmichEndpoint \<Rightarrow> string \<Rightarrow> ClientConfig \<Rightarrow> PinnedEndpointAddresses option
     \<Rightarrow> (ImmichReadClient, ClientError) result" where
  "ImmichReadClient_new sha256 build_ok e key config addresses =
     and_then (map_err (\<lambda>_. ClientError_new Compatibility) (EndpointAccess_disposable e)) (\<lambda>access.
       new_with_access sha256 build_ok e key config access addresses)"

definition ImmichReadClient_new_production_read ::
  "(string \<Rightarrow> string) \<Rightarrow> bool \<Rightarrow> ImmichEndpoint \<Rightarrow> string \<Rightarrow> ClientConfig \<Rightarrow> bool \<Rightarrow> PinnedEndpointAddresses option
     \<Rightarrow> (ImmichReadClient, ClientError) result" where
  "ImmichReadClient_new_production_read sha256 build_ok e key config acknowledged addresses =
     and_then (map_err (\<lambda>_. ClientError_new Compatibility) (EndpointAccess_production_read e acknowledged)) (\<lambda>access.
       new_with_access sha256 build_ok e key config access addresses)"

record NegotiatedServer =
  ns_compatibility :: ServerCompatibility
  ns_origin_sha256 :: string

record VersionResponse =
  vr_major :: u32
  vr_minor :: u32
  vr_patch :: u32
  vr_prerelease :: "u32 option"

definition identity_digest :: "(string \<Rightarrow> string) \<Rightarrow> string \<Rightarrow> string \<Rightarrow> string" where
  "identity_digest sha256 origin user_id = sha256 (origin @ [CHR 0x00] @ user_id)"

text \<open>\<open>probe\<close>: the two \<open>get_json\<close> requests are the parameters \<open>get_version\<close> and \<open>get_user\<close>.\<close>

definition probe ::
  "(string \<Rightarrow> string) \<Rightarrow> ('s \<Rightarrow> bool \<times> 's) \<Rightarrow> ('s \<Rightarrow> (VersionResponse, ClientError) result \<times> 's)
     \<Rightarrow> ('s \<Rightarrow> (string, ClientError) result \<times> 's) \<Rightarrow> ImmichReadClient \<Rightarrow> 's
     \<Rightarrow> (NegotiatedServer, ClientError) result \<times> 's" where
  "probe sha256 cancelled get_version get_user client s =
     (case cancelled s of (True, s1) \<Rightarrow> (Err (ClientError_new Cancelled), s1) | (False, s1) \<Rightarrow>
     (case get_version s1 of (Err e, s2) \<Rightarrow> (Err e, s2) | (Ok version, s2) \<Rightarrow>
      if vr_major version \<noteq> 3 \<or> vr_minor version \<noteq> 1 \<or> vr_prerelease version \<noteq> None
      then (Err (ClientError_new Compatibility), s2)
      else (case cancelled s2 of (True, s3) \<Rightarrow> (Err (ClientError_new Cancelled), s3) | (False, s3) \<Rightarrow>
        (case get_user s3 of (Err e, s4) \<Rightarrow> (Err e, s4) | (Ok user_id, s4) \<Rightarrow>
         if user_id = [] \<or> length user_id > 4096 then (Err (ClientError_new Protocol), s4)
         else (Ok \<lparr>ns_compatibility = \<lparr>sc_version = \<lparr>sv_major = vr_major version, sv_minor = vr_minor version,
                      sv_patch = vr_patch version\<rparr>,
                      sc_identity_sha256 = identity_digest sha256 (canonical_origin (rc_endpoint client)) user_id\<rparr>,
                   ns_origin_sha256 = sha256 (canonical_origin (rc_endpoint client))\<rparr>, s4)))))"

section \<open>Write capabilities\<close>

record ImmichUploadClient =
  uc_read :: ImmichReadClient
  uc_compatibility :: ServerCompatibility
  uc_production :: bool

definition validate_negotiated_binding ::
  "(string \<Rightarrow> string) \<Rightarrow> ImmichReadClient \<Rightarrow> NegotiatedServer \<Rightarrow> (unit, ClientError) result" where
  "validate_negotiated_binding sha256 client negotiated =
     ensure (sha256 (canonical_origin (rc_endpoint client)) = ns_origin_sha256 negotiated)
       (ClientError_new Compatibility)"

definition authorize_upload ::
  "(string \<Rightarrow> string) \<Rightarrow> ImmichReadClient \<Rightarrow> NegotiatedServer \<Rightarrow> (ImmichUploadClient, ClientError) result" where
  "authorize_upload sha256 client negotiated =
     (if rc_access client \<noteq> Disposable then Err (ClientError_new Compatibility)
      else and_then (validate_negotiated_binding sha256 client negotiated) (\<lambda>_.
        Ok \<lparr>uc_read = client, uc_compatibility = ns_compatibility negotiated, uc_production = False\<rparr>))"

text \<open>\<open>authorize_import\<close> wraps the same upload capability.\<close>

definition authorize_import ::
  "(string \<Rightarrow> string) \<Rightarrow> ImmichReadClient \<Rightarrow> NegotiatedServer \<Rightarrow> (ImmichUploadClient, ClientError) result" where
  "authorize_import sha256 client negotiated =
     (if rc_access client \<noteq> Disposable then Err (ClientError_new Compatibility)
      else and_then (validate_negotiated_binding sha256 client negotiated) (\<lambda>_.
        Ok \<lparr>uc_read = client, uc_compatibility = ns_compatibility negotiated, uc_production = False\<rparr>))"

definition upload_plan_sha256 ::
  "rfc3339 \<Rightarrow> (UploadPlan \<Rightarrow> string option) \<Rightarrow> (string \<Rightarrow> string) \<Rightarrow> UploadPlan \<Rightarrow> (string, ClientError) result" where
  "upload_plan_sha256 rfc to_vec sha256 plan =
     and_then (map_err (\<lambda>_. ClientError_new Compatibility) (UploadPlan_validate rfc plan)) (\<lambda>_.
       map_ok sha256 (ok_or (to_vec plan) (ClientError_new Protocol)))"

definition migration_plan_sha256 ::
  "rfc3339 \<Rightarrow> (int \<Rightarrow> bool) \<Rightarrow> (MigrationPlan \<Rightarrow> string option) \<Rightarrow> (string \<Rightarrow> string) \<Rightarrow> MigrationPlan
     \<Rightarrow> (string, ClientError) result" where
  "migration_plan_sha256 rfc unix_nanos to_vec sha256 plan =
     (if mp_schema_version plan \<noteq> MIGRATION_PLAN_SCHEMA_VERSION then Err (ClientError_new Compatibility)
      else and_then (map_err (\<lambda>_. ClientError_new Compatibility) (MigrationPlan_validate rfc unix_nanos plan)) (\<lambda>_.
        map_ok sha256 (ok_or (to_vec plan) (ClientError_new Protocol))))"

text \<open>The authorization of an upload (\<open>pa_expected\<close> counts operations) and of an import (it is
  the mutation ceiling).\<close>

record ProductionAuthorization =
  pa_plan_sha256 :: string
  pa_expected :: u64
  pa_backup_reference_sha256 :: string

definition ProductionUploadAuthorization_matches_plan ::
  "rfc3339 \<Rightarrow> (UploadPlan \<Rightarrow> string option) \<Rightarrow> (string \<Rightarrow> string) \<Rightarrow> ProductionAuthorization \<Rightarrow> UploadPlan \<Rightarrow> bool" where
  "ProductionUploadAuthorization_matches_plan rfc to_vec sha256 a plan =
     (case upload_plan_sha256 rfc to_vec sha256 plan of
        Ok digest \<Rightarrow> digest = pa_plan_sha256 a \<and> sum_operations (up_summary plan) = pa_expected a
          \<and> of_nat (length (up_operations plan)) = pa_expected a
      | Err _ \<Rightarrow> False)"

definition ProductionImportAuthorization_matches_plan ::
  "rfc3339 \<Rightarrow> (UploadPlan \<Rightarrow> string option) \<Rightarrow> (string \<Rightarrow> string) \<Rightarrow> ProductionAuthorization \<Rightarrow> UploadPlan \<Rightarrow> bool" where
  "ProductionImportAuthorization_matches_plan rfc to_vec sha256 a plan \<longleftrightarrow>
     up_schema_version plan = UPLOAD_PLAN_SCHEMA_VERSION_V2 \<and>
     (case upload_plan_sha256 rfc to_vec sha256 plan of
        Ok digest \<Rightarrow> digest = pa_plan_sha256 a \<and> sum_max_mutations (up_summary plan) = pa_expected a
      | Err _ \<Rightarrow> False)"

definition authorize_production_upload ::
  "rfc3339 \<Rightarrow> (UploadPlan \<Rightarrow> string option) \<Rightarrow> (string \<Rightarrow> string) \<Rightarrow> ImmichReadClient \<Rightarrow> NegotiatedServer \<Rightarrow> UploadPlan
     \<Rightarrow> ProductionWriteConfirmation \<Rightarrow> (ImmichUploadClient \<times> ProductionAuthorization, ClientError) result" where
  "authorize_production_upload rfc to_vec sha256 client negotiated plan confirmation =
     (if rc_access client \<noteq> ProductionRead then Err (ClientError_new Compatibility)
      else and_then (validate_negotiated_binding sha256 client negotiated) (\<lambda>_.
        if ns_compatibility negotiated \<noteq> up_server plan then Err (ClientError_new Compatibility)
        else and_then (upload_plan_sha256 rfc to_vec sha256 plan) (\<lambda>plan_sha256.
          if pwc_plan_sha256 confirmation \<noteq> plan_sha256
             \<or> pwc_expected_operations confirmation \<noteq> sum_operations (up_summary plan)
             \<or> pwc_expected_operations confirmation \<noteq> of_nat (length (up_operations plan))
          then Err (ClientError_new Compatibility)
          else Ok (\<lparr>uc_read = client, uc_compatibility = ns_compatibility negotiated, uc_production = True\<rparr>,
                   \<lparr>pa_plan_sha256 = plan_sha256, pa_expected = pwc_expected_operations confirmation,
                    pa_backup_reference_sha256 = sha256 (pwc_backup_reference confirmation)\<rparr>))))"

definition authorize_production_import ::
  "rfc3339 \<Rightarrow> (UploadPlan \<Rightarrow> string option) \<Rightarrow> (string \<Rightarrow> string) \<Rightarrow> ImmichReadClient \<Rightarrow> NegotiatedServer \<Rightarrow> UploadPlan
     \<Rightarrow> ProductionWriteConfirmation \<Rightarrow> (ImmichUploadClient \<times> ProductionAuthorization, ClientError) result" where
  "authorize_production_import rfc to_vec sha256 client negotiated plan confirmation =
     (if rc_access client \<noteq> ProductionRead then Err (ClientError_new Compatibility)
      else and_then (validate_negotiated_binding sha256 client negotiated) (\<lambda>_.
        if ns_compatibility negotiated \<noteq> up_server plan then Err (ClientError_new Compatibility)
        else and_then (upload_plan_sha256 rfc to_vec sha256 plan) (\<lambda>plan_sha256.
          if pwc_plan_sha256 confirmation \<noteq> plan_sha256
             \<or> pwc_expected_operations confirmation \<noteq> sum_max_mutations (up_summary plan)
             \<or> up_schema_version plan \<noteq> UPLOAD_PLAN_SCHEMA_VERSION_V2
          then Err (ClientError_new Compatibility)
          else Ok (\<lparr>uc_read = client, uc_compatibility = ns_compatibility negotiated, uc_production = True\<rparr>,
                   \<lparr>pa_plan_sha256 = plan_sha256, pa_expected = pwc_expected_operations confirmation,
                    pa_backup_reference_sha256 = sha256 (pwc_backup_reference confirmation)\<rparr>))))"

section \<open>Facts\<close>

text \<open>A read client made by one of the public constructors from a parsed endpoint.\<close>

inductive constructed :: "(string \<Rightarrow> url option) \<Rightarrow> (string \<Rightarrow> string) \<Rightarrow> ImmichReadClient \<Rightarrow> bool"
  for url_parse sha256 where
  disposable: "ImmichEndpoint_parse url_parse v = Ok e \<Longrightarrow>
     ImmichReadClient_new sha256 build_ok e key config pins = Ok client \<Longrightarrow> constructed url_parse sha256 client"
| production: "ImmichEndpoint_parse url_parse v = Ok e \<Longrightarrow>
     ImmichReadClient_new_production_read sha256 build_ok e key config acknowledged pins = Ok client \<Longrightarrow>
     constructed url_parse sha256 client"

lemma constructed_access:
  assumes "constructed url_parse sha256 client"
  shows "rc_access client = Disposable \<longleftrightarrow> ep_loopback (rc_endpoint client)"
    and "rc_access client = ProductionRead \<Longrightarrow> url_scheme (ep_origin (rc_endpoint client)) = ''https''"
  using assms
  by (auto simp: ImmichReadClient_new_def ImmichReadClient_new_production_read_def new_with_access_def
      and_then_eq_Ok EndpointAccess_disposable_def EndpointAccess_production_read_def elim!: constructed.cases
      split: if_splits)

lemma parse_loopback:
  "ImmichEndpoint_parse url_parse v = Ok e \<Longrightarrow> ep_loopback e = is_some_and (url_host (ep_origin e)) is_loopback_host"
  by (auto simp: ImmichEndpoint_parse_def and_then_eq_Ok Let_def split: if_splits)

lemma constructed_loopback:
  assumes "constructed url_parse sha256 client"
  shows "ep_loopback (rc_endpoint client) = is_some_and (url_host (ep_origin (rc_endpoint client))) is_loopback_host"
proof -
  obtain v where "ImmichEndpoint_parse url_parse v = Ok (rc_endpoint client)"
    using assms
    by (auto simp: ImmichReadClient_new_def ImmichReadClient_new_production_read_def new_with_access_def
        and_then_eq_Ok elim!: constructed.cases split: if_splits)
  then show ?thesis by (rule parse_loopback)
qed

text \<open>What a loopback host is, without the code's string functions.\<close>

lemma is_loopback_host_iff:
  "is_loopback_host h \<longleftrightarrow>
     (\<exists>d. h = Domain d \<and> (to_ascii_lowercase d = ''localhost'' \<or> (\<exists>p. p \<noteq> [] \<and> to_ascii_lowercase d = p @ ''.localhost''))) \<or>
     (\<exists>w. h = Literal (V4 w) \<and> unat w div 2 ^ 24 = 127) \<or> h = Literal (V6 1)"
proof -
  have "drop_bit 24 w = 127 \<longleftrightarrow> unat w div 2 ^ 24 = 127" for w :: "32 word"
  proof -
    have "drop_bit 24 w = 127 \<longleftrightarrow> unat (drop_bit 24 w) = unat (127 :: 32 word)" by (rule word_unat_eq_iff)
    also have "unat (drop_bit 24 w) = unat w div 2 ^ 24" by (simp add: drop_bit_eq_div unat_div)
    finally show ?thesis by simp
  qed
  moreover have "to_ascii_lowercase ''localhost'' = ''localhost''" by code_simp
  then have "eq_ignore_ascii_case d ''localhost'' \<longleftrightarrow> to_ascii_lowercase d = ''localhost''" for d
    by (simp add: eq_ignore_ascii_case_def)
  ultimately show ?thesis
    by (auto simp: is_loopback_host_def ip_is_loopback_def is_some_and_iff strip_suffix_eq_Some
        split: host.splits ip_addr.splits)
qed

lemma upload_plan_sha256_valid:
  "upload_plan_sha256 rfc to_vec sha256 plan = Ok d \<Longrightarrow>
     upload_plan_ok rfc plan \<and> (\<exists>bytes. to_vec plan = Some bytes \<and> d = sha256 bytes)"
  using UploadPlan_validate_ok_iff [of rfc plan]
  by (auto simp: upload_plan_sha256_def and_then_eq_Ok map_ok_eq_Ok is_ok_iff)

section \<open>Properties\<close>

text \<open>C19: a disposable write capability (upload or import) exists only for a client whose host
  names this machine: the name \<open>localhost\<close> in any case, a non-empty name ending in \<open>.localhost\<close>, an
  IPv4 literal with first octet 127, or the IPv6 literal \<open>::1\<close>. It is made with a probe of that same
  origin, carries the server facts of the probe, and is never a production capability.\<close>

theorem disposable_write_loopback_only:
  assumes "constructed url_parse sha256 client"
    and "authorize_upload sha256 client negotiated = Ok u \<or> authorize_import sha256 client negotiated = Ok u"
  shows "((\<exists>d. url_host (ep_origin (rc_endpoint client)) = Some (Domain d) \<and>
         (to_ascii_lowercase d = ''localhost'' \<or> (\<exists>p. p \<noteq> [] \<and> to_ascii_lowercase d = p @ ''.localhost''))) \<or>
      (\<exists>w. url_host (ep_origin (rc_endpoint client)) = Some (Literal (V4 w)) \<and> unat w div 2 ^ 24 = 127) \<or>
      url_host (ep_origin (rc_endpoint client)) = Some (Literal (V6 1))) \<and>
    \<not> uc_production u \<and> uc_read u = client \<and>
    ns_origin_sha256 negotiated = sha256 (canonical_origin (rc_endpoint client)) \<and>
    uc_compatibility u = ns_compatibility negotiated"
proof -
  have "ep_loopback (rc_endpoint client)"
    using assms constructed_access(1) [OF assms(1)]
    by (auto simp: authorize_upload_def authorize_import_def and_then_eq_Ok split: if_splits)
  then obtain h where h: "url_host (ep_origin (rc_endpoint client)) = Some h" "is_loopback_host h"
    using constructed_loopback [OF assms(1)] by (auto simp: is_some_and_iff)
  then show ?thesis
    using assms(2) by (auto simp: is_loopback_host_iff authorize_upload_def authorize_import_def
        validate_negotiated_binding_def and_then_eq_Ok split: if_splits)
qed

definition sample_url :: "string \<Rightarrow> host \<Rightarrow> url" where
  "sample_url scheme h =
     \<lparr>url_scheme = scheme, url_username = [], url_password = None, url_host = Some h,
      url_port_or_known_default = Some 443, url_path = ''/'', url_query = None, url_fragment = None,
      url_as_str = scheme @ ''://host/''\<rparr>"

definition sample_client :: "string \<Rightarrow> host \<Rightarrow> AccessMode \<Rightarrow> ImmichReadClient" where
  "sample_client scheme h access =
     \<lparr>rc_endpoint = \<lparr>ep_origin = sample_url scheme h, ep_loopback = is_loopback_host h\<rparr>,
      rc_api_key = ''key'', rc_config = ClientConfig_default, rc_access = access\<rparr>"

definition toy_hash :: "string \<Rightarrow> string" where
  "toy_hash s = hex64 (if s = [] then CHR ''0'' else if length s mod 2 = 0 then CHR ''a'' else CHR ''b'')"

theorem disposable_write_loopback_only_witness:
  "\<exists>u :: ImmichUploadClient. uc_read u = sample_client ''http'' (Domain ''Immich.LocalHost'') Disposable \<and> \<not> uc_production u \<and>
     (\<exists>p. p \<noteq> [] \<and> to_ascii_lowercase ''Immich.LocalHost'' = p @ ''.localhost'')"
proof -
  let ?c = "sample_client ''http'' (Domain ''Immich.LocalHost'') Disposable"
  let ?n = "\<lparr>ns_compatibility = sample_server, ns_origin_sha256 = toy_hash (canonical_origin (rc_endpoint ?c))\<rparr>"
  let ?u = "\<lparr>uc_read = ?c, uc_compatibility = sample_server, uc_production = False\<rparr>"
  have "ImmichEndpoint_parse (\<lambda>_. Some (sample_url ''http'' (Domain ''Immich.LocalHost''))) ''x'' = Ok (rc_endpoint ?c)"
    by code_simp
  moreover have "ImmichReadClient_new toy_hash True (rc_endpoint ?c) ''key'' ClientConfig_default None = Ok ?c"
    by code_simp
  ultimately have made: "constructed (\<lambda>_. Some (sample_url ''http'' (Domain ''Immich.LocalHost''))) toy_hash ?c"
    by (rule constructed.disposable)
  have "authorize_upload toy_hash ?c ?n = Ok ?u" by code_simp
  note safe = disposable_write_loopback_only [OF made disjI1 [OF this]]
  moreover have "url_host (ep_origin (rc_endpoint ?c)) = Some (Domain ''Immich.LocalHost'')"
    "to_ascii_lowercase ''Immich.LocalHost'' \<noteq> ''localhost''" by code_simp+
  ultimately have "\<exists>p. p \<noteq> [] \<and> to_ascii_lowercase ''Immich.LocalHost'' = p @ ''.localhost''" by auto
  then show ?thesis by (intro exI [of _ ?u]) simp
qed

text \<open>C18: a production upload capability exists only for an HTTPS endpoint that is not
  loopback, with a probe of that origin whose server facts are the plan's; the plan
  is valid, its digest and its operation count are exactly what the operator
  confirmed; and the authorization carries the hash of the operator's backup
  reference and matches that plan.\<close>

theorem production_upload_exactly_confirmed:
  assumes "constructed url_parse sha256 client"
    and "authorize_production_upload rfc to_vec sha256 client negotiated plan confirmation = Ok (u, proof)"
  shows "\<not> ep_loopback (rc_endpoint client) \<and> url_scheme (ep_origin (rc_endpoint client)) = ''https'' \<and>
    uc_production u \<and> uc_compatibility u = up_server plan \<and> upload_plan_ok rfc plan \<and>
    ns_origin_sha256 negotiated = sha256 (canonical_origin (rc_endpoint client)) \<and>
    (\<exists>bytes. to_vec plan = Some bytes \<and> pwc_plan_sha256 confirmation = sha256 bytes) \<and>
    pwc_expected_operations confirmation = of_nat (length (up_operations plan)) \<and>
    pa_backup_reference_sha256 proof = sha256 (pwc_backup_reference confirmation) \<and>
    ProductionUploadAuthorization_matches_plan rfc to_vec sha256 proof plan"
  using assms constructed_access [OF assms(1)]
  by (cases "rc_access client")
    (auto simp: authorize_production_upload_def validate_negotiated_binding_def and_then_eq_Ok
      ProductionUploadAuthorization_matches_plan_def dest!: upload_plan_sha256_valid split: if_splits)

definition sample_folder_plan :: UploadPlan where
  "sample_folder_plan =
     (let ops = [sample_operation CHR ''a'' ''a.jpg'' MediaImage None (LivePhotoImage ''p'' (hex64 CHR ''b'')),
                 sample_operation CHR ''b'' ''a.mov'' MediaVideo None (LivePhotoVideo ''p'')] in
      \<lparr>up_schema_version = 1, up_normalized_plan_sha256 = hex64 CHR ''3'', up_source = sample_source Folder,
       up_configuration_sha256 = hex64 CHR ''4'', up_server = sample_server,
       up_operations = ops, up_summary = expected_summary 1 ops\<rparr>)"

lemma sample_folder_plan_valid: "UploadPlan_validate Some sample_folder_plan = Ok ()"
  by code_simp

theorem production_upload_exactly_confirmed_witness:
  "pa_backup_reference_sha256
     (snd (case authorize_production_upload Some (\<lambda>_. Some ''{}'') toy_hash
        (sample_client ''https'' (Domain ''photos.example'') ProductionRead)
        \<lparr>ns_compatibility = sample_server, ns_origin_sha256 = toy_hash ''https://host/''\<rparr> sample_folder_plan
        \<lparr>pwc_plan_sha256 = toy_hash ''{}'', pwc_expected_operations = 2, pwc_backup_reference = ''nas''\<rparr>
      of Ok p \<Rightarrow> p | Err e \<Rightarrow> undefined)) = toy_hash ''nas''"
proof -
  let ?c = "sample_client ''https'' (Domain ''photos.example'') ProductionRead"
  have "ImmichEndpoint_parse (\<lambda>_. Some (sample_url ''https'' (Domain ''photos.example''))) ''x'' = Ok (rc_endpoint ?c)"
    by code_simp
  moreover have "ImmichReadClient_new_production_read toy_hash True (rc_endpoint ?c) ''key'' ClientConfig_default True None = Ok ?c"
    by code_simp
  ultimately have c: "constructed (\<lambda>_. Some (sample_url ''https'' (Domain ''photos.example''))) toy_hash ?c"
    by (rule constructed.production)
  have "is_ok (authorize_production_upload Some (\<lambda>_. Some ''{}'') toy_hash ?c
        \<lparr>ns_compatibility = sample_server, ns_origin_sha256 = toy_hash ''https://host/''\<rparr> sample_folder_plan
        \<lparr>pwc_plan_sha256 = toy_hash ''{}'', pwc_expected_operations = 2, pwc_backup_reference = ''nas''\<rparr>)"
    by code_simp
  then obtain u proof' where "authorize_production_upload Some (\<lambda>_. Some ''{}'') toy_hash ?c
        \<lparr>ns_compatibility = sample_server, ns_origin_sha256 = toy_hash ''https://host/''\<rparr> sample_folder_plan
        \<lparr>pwc_plan_sha256 = toy_hash ''{}'', pwc_expected_operations = 2, pwc_backup_reference = ''nas''\<rparr> = Ok (u, proof')"
    by (auto simp: is_ok_iff)
  with production_upload_exactly_confirmed [OF c this] show ?thesis by simp
qed

text \<open>Pinned addresses of an endpoint whose host is an IPv6 literal need not be that
  literal: the check that compares them is skipped, because the bracketed host
  text does not parse as an address.\<close>

theorem pinned_ipv6_literal_unchecked:
  "is_ok (PinnedEndpointAddresses_new toy_hash
     \<lparr>ep_origin = sample_url ''https'' (Literal (V6 0x20010DB8000000000000000000000001)), ep_loopback = False\<rparr>
     [(V4 0x0A000001, 443)])"
  by code_simp

end
