(* ===== verification/Client_Inventory.thy ===== *)
theory Client_Inventory
  imports Client_Authorize
begin

text \<open>
  \<open>immich-client/src/archive.rs\<close> and \<open>migration.rs\<close>: the read-only inventory of a server, one
  bounded page at a time, the owned albums projected on it and the download of originals.
  The state \<open>'s\<close> is everything outside the client; \<open>inventory_io\<close> is how the client reaches it.
  The crates \<open>base64\<close>, \<open>sha2\<close>, \<open>time\<close> and \<open>serde_json\<close> are fields of it.
\<close>

section \<open>Requests and responses\<close>

datatype ArchiveVisibility = VisibilityTimeline | VisibilityArchive | VisibilityHidden

fun api_value :: "ArchiveVisibility \<Rightarrow> string" where
  "api_value VisibilityTimeline = ''timeline''"
| "api_value VisibilityArchive = ''archive''"
| "api_value VisibilityHidden = ''hidden''"

record ArchiveListConfig =
  alc_visibility :: ArchiveVisibility
  alc_include_trashed :: bool
  alc_page_size :: nat
  alc_max_assets :: nat

definition ArchiveListConfig_default :: ArchiveListConfig where
  "ArchiveListConfig_default =
     \<lparr>alc_visibility = VisibilityTimeline, alc_include_trashed = False, alc_page_size = 100, alc_max_assets = 100000\<rparr>"

abbreviation protocol :: ClientError where
  "protocol \<equiv> ClientError_new Protocol"

definition ArchiveListConfig_validate :: "ArchiveListConfig \<Rightarrow> (ArchiveListConfig, ClientError) result" where
  "ArchiveListConfig_validate c =
     (if 1 \<le> alc_page_size c \<and> alc_page_size c \<le> 1000 \<and> alc_max_assets c > 0 then Ok c else Err protocol)"

record RemoteArchiveAsset =
  rar_asset_id :: string
  rar_original_file_name :: string
  rar_media_kind :: MediaKind
  rar_byte_len :: u64
  rar_checksum_sha1 :: string

record ArchiveSearchRequest =
  asq_page :: u64
  asq_size :: nat
  asq_order :: string
  asq_with_exif :: bool
  asq_album_ids :: "string list option"
  asq_visibility :: string
  asq_with_deleted :: "bool option"

datatype AssetTypeResponse = TypeImage | TypeVideo | TypeAudio | TypeOther

record ArchiveExifResponse =
  aer_file_size_in_byte :: "u64 option"
  aer_date_time_original :: "string option"
  aer_description :: "string option"
  aer_latitude :: "f64 option"
  aer_longitude :: "f64 option"

record ArchiveAssetResponse =
  aar_id :: string
  aar_original_file_name :: string
  aar_checksum :: string
  aar_type :: AssetTypeResponse
  aar_exif_info :: "ArchiveExifResponse option"
  aar_file_created_at :: "string option"
  aar_file_modified_at :: "string option"
  aar_live_photo_video_id :: "string option"

record ArchiveSearchAssets =
  asa_items :: "ArchiveAssetResponse list"
  asa_count :: u64
  asa_next_page :: "string option"
  asa_total :: u64

record MigrationAlbumResponse =
  mar_id :: string
  mar_album_name :: string
  mar_asset_count :: u64

datatype read_request =
    PostSearch ArchiveSearchRequest
  | GetAsset string
  | GetOwned
  | GetOriginal string

text \<open>The answer to the request for an original: status and headers, the declared length and
  what the calls of \<open>next_chunk\<close> will give, \<open>None\<close> where cancellation wins the race. The end of
  the list is the end of the body.\<close>

record original_response =
  or_response :: http_response
  or_content_length :: "u64 option"
  or_chunks :: "(string, reqwest_error) result option list"

record 's inventory_io =
  ii_cancelled :: "'s \<Rightarrow> bool \<times> 's"
  ii_api_url :: "string \<Rightarrow> bool"
  ii_send :: "read_request \<Rightarrow> 's \<Rightarrow> (http_response, reqwest_error) result \<times> 's"
  ii_send_cancellable :: "read_request \<Rightarrow> 's \<Rightarrow> (http_response, reqwest_error) result option \<times> 's"
  ii_open_original :: "string \<Rightarrow> 's \<Rightarrow> (original_response, reqwest_error) result option \<times> 's"
  ii_search_json :: "string \<Rightarrow> ArchiveSearchAssets option"
  ii_asset_json :: "string \<Rightarrow> ArchiveAssetResponse option"
  ii_albums_json :: "string \<Rightarrow> MigrationAlbumResponse list option"
  ii_sha256 :: "string \<Rightarrow> string"
  ii_base64_decode :: "string \<Rightarrow> string option"
  ii_unix_nanos :: "string \<Rightarrow> int option"
  ii_canonical_timestamp :: "string \<Rightarrow> string option"

section \<open>The two ways to ask for JSON\<close>

definition inv_check_cancelled :: "'s inventory_io \<Rightarrow> 's \<Rightarrow> (unit, ClientError) result \<times> 's" where
  "inv_check_cancelled io s =
     (let (c, s1) = ii_cancelled io s in (if c then Err (ClientError_new Cancelled) else Ok (), s1))"

definition read_json :: "ImmichReadClient \<Rightarrow> (string \<Rightarrow> 'a option) \<Rightarrow> http_response \<Rightarrow> ('a, ClientError) result" where
  "read_json client decode response =
     bounded_json decode (cc_max_response_bytes (rc_config client)) (cc_retry_after_cap (rc_config client)) response"

definition get_json ::
  "'s inventory_io \<Rightarrow> ImmichReadClient \<Rightarrow> string \<Rightarrow> read_request \<Rightarrow> (string \<Rightarrow> 'a option) \<Rightarrow> 's
     \<Rightarrow> ('a, ClientError) result \<times> 's" where
  "get_json io client path req decode s =
     (if \<not> ii_api_url io path then (Err protocol, s)
      else case ii_send io req s of
        (Err e, s1) \<Rightarrow> (Err (classify_transport e), s1)
      | (Ok response, s1) \<Rightarrow> (read_json client decode response, s1))"

definition post_json ::
  "'s inventory_io \<Rightarrow> ImmichReadClient \<Rightarrow> string \<Rightarrow> read_request \<Rightarrow> (string \<Rightarrow> 'a option) \<Rightarrow> 's
     \<Rightarrow> ('a, ClientError) result \<times> 's" where
  "post_json io client path req decode s =
     (if \<not> ii_api_url io path then (Err protocol, s)
      else case ii_send_cancellable io req s of
        (None, s1) \<Rightarrow> (Err (ClientError_new Cancelled), s1)
      | (Some (Err e), s1) \<Rightarrow> (Err (classify_transport e), s1)
      | (Some (Ok response), s1) \<Rightarrow> (read_json client decode response, s1))"

section \<open>Archive inventory\<close>

definition lowercase_hex :: "string \<Rightarrow> string" where
  "lowercase_hex bytes =
     concat (map (\<lambda>b. [''0123456789abcdef'' ! (byte_of b div 16), ''0123456789abcdef'' ! (byte_of b mod 16)]) bytes)"

fun response_media_kind :: "AssetTypeResponse \<Rightarrow> (MediaKind, ClientError) result" where
  "response_media_kind TypeImage = Ok MediaImage"
| "response_media_kind TypeVideo = Ok MediaVideo"
| "response_media_kind TypeAudio = Err protocol"
| "response_media_kind TypeOther = Err protocol"

definition decode_sha1 :: "'s inventory_io \<Rightarrow> string \<Rightarrow> (string, ClientError) result" where
  "decode_sha1 io v =
     and_then (ok_or (ii_base64_decode io v) protocol) (\<lambda>bytes.
       if length bytes \<noteq> 20 then Err protocol else Ok (lowercase_hex bytes))"

definition convert_asset ::
  "'s inventory_io \<Rightarrow> ArchiveAssetResponse \<Rightarrow> (RemoteArchiveAsset \<times> string option, ClientError) result" where
  "convert_asset io item =
     and_then (response_media_kind (aar_type item)) (\<lambda>media_kind.
     and_then (ok_or (ii_base64_decode io (aar_checksum item)) protocol) (\<lambda>decoded.
       if length decoded \<noteq> 20 then Err protocol
       else and_then (ok_or (Option.bind (aar_exif_info item) aer_file_size_in_byte) protocol) (\<lambda>byte_len.
         Ok (\<lparr>rar_asset_id = aar_id item, rar_original_file_name = aar_original_file_name item,
              rar_media_kind = media_kind, rar_byte_len = byte_len, rar_checksum_sha1 = lowercase_hex decoded\<rparr>,
             aar_live_photo_video_id item))))"

definition validate_binding :: "'s inventory_io \<Rightarrow> ImmichReadClient \<Rightarrow> NegotiatedServer \<Rightarrow> (unit, ClientError) result" where
  "validate_binding io client negotiated =
     ensure (ii_sha256 io (canonical_origin (rc_endpoint client)) = ns_origin_sha256 negotiated)
       (ClientError_new Compatibility)"

text \<open>The loop over the items of one page.\<close>

fun take_items ::
  "'s inventory_io \<Rightarrow> nat \<Rightarrow> ArchiveAssetResponse list \<Rightarrow> RemoteArchiveAsset list \<Rightarrow> string list
     \<Rightarrow> (RemoteArchiveAsset list \<times> string list, ClientError) result" where
  "take_items io max_assets [] assets related = Ok (assets, related)"
| "take_items io max_assets (item # items) assets related =
     (if length assets \<ge> max_assets then Err protocol
      else and_then (convert_asset io item) (\<lambda>(asset, related_id).
        take_items io max_assets items (assets @ [asset])
          (case related_id of Some i \<Rightarrow> related @ [i] | None \<Rightarrow> related)))"

lemma take_items_length:
  "take_items io m items assets related = Ok (assets', related') \<Longrightarrow>
     length assets' = length assets + length items \<and> (items \<noteq> [] \<longrightarrow> length assets' \<le> m)"
  by (induction io m items assets related rule: take_items.induct)
    (fastforce simp: and_then_eq_Ok split: if_splits prod.splits)+

lemma take_items_progress:
  assumes "take_items io m (asa_items response) assets related = Ok (assets', related')"
    and "asa_count response = of_nat (length (asa_items response))" "asa_count response \<noteq> 0"
  shows "m - length assets' < m - length assets"
proof -
  have "asa_items response \<noteq> []" using assms(2,3) by auto
  with take_items_length [OF assms(1)] show ?thesis by (cases "asa_items response") auto
qed

text \<open>The link to the next page, shared by the loops over the assets and over an album: it must be
  the direct successor.\<close>

definition next_page_number :: "u64 \<Rightarrow> string \<Rightarrow> (u64, ClientError) result" where
  "next_page_number page next_page =
     and_then (ok_or (parse_u64 next_page) protocol) (\<lambda>parsed.
       if of_nat parsed \<noteq> saturating_add page 1 then Err protocol else Ok (of_nat parsed))"

definition archive_request :: "ArchiveListConfig \<Rightarrow> u64 \<Rightarrow> ArchiveSearchRequest" where
  "archive_request config page =
     \<lparr>asq_page = page, asq_size = alc_page_size config, asq_order = ''asc'', asq_with_exif = True,
      asq_album_ids = None, asq_visibility = api_value (alc_visibility config),
      asq_with_deleted = (if alc_include_trashed config then Some True else None)\<rparr>"

function list_pages ::
  "'s inventory_io \<Rightarrow> ImmichReadClient \<Rightarrow> ArchiveListConfig \<Rightarrow> RemoteArchiveAsset list \<Rightarrow> string list \<Rightarrow> u64 \<Rightarrow> 's
     \<Rightarrow> (RemoteArchiveAsset list \<times> string list, ClientError) result \<times> 's" where
  "list_pages io client config assets related page s =
     (case inv_check_cancelled io s of (Err e, s1) \<Rightarrow> (Err e, s1) | (Ok _, s1) \<Rightarrow>
      case post_json io client ''api/search/metadata'' (PostSearch (archive_request config page)) (ii_search_json io) s1 of
        (Err e, s2) \<Rightarrow> (Err e, s2)
      | (Ok response, s2) \<Rightarrow>
          if unat (asa_total response) > alc_max_assets config then (Err protocol, s2)
          else if asa_count response \<noteq> of_nat (length (asa_items response)) then (Err protocol, s2)
          else case take_items io (alc_max_assets config) (asa_items response) assets related of
            Err e \<Rightarrow> (Err e, s2)
          | Ok (assets', related') \<Rightarrow>
              (case asa_next_page response of
                 None \<Rightarrow> (Ok (assets', related'), s2)
               | Some next_page \<Rightarrow>
                   if asa_count response = 0 then (Err protocol, s2)
                   else case next_page_number page next_page of
                     Err e \<Rightarrow> (Err e, s2)
                   | Ok page' \<Rightarrow> list_pages io client config assets' related' page' s2))"
  by pat_completeness auto

text \<open>A page that names a successor holds an asset, and the number of assets is capped.\<close>

termination list_pages
proof (relation "measure (\<lambda>(io, client, config, assets, related, page, s). alc_max_assets config - length assets)", goal_cases)
  case 2
  then show ?case by (auto dest: take_items_progress)
qed simp

declare list_pages.simps [simp del]

definition asset_path :: "string \<Rightarrow> string" where
  "asset_path asset_id = ''api/assets/'' @ asset_id"

text \<open>The loop over the motion videos that no page held.\<close>

fun list_related ::
  "'s inventory_io \<Rightarrow> ImmichReadClient \<Rightarrow> nat \<Rightarrow> string list \<Rightarrow> RemoteArchiveAsset list \<Rightarrow> 's
     \<Rightarrow> (RemoteArchiveAsset list, ClientError) result \<times> 's" where
  "list_related io client max_assets [] assets s = (Ok assets, s)"
| "list_related io client max_assets (identifier # ids) assets s =
     (if list_ex (\<lambda>asset. rar_asset_id asset = identifier) assets
      then list_related io client max_assets ids assets s
      else if length assets \<ge> max_assets then (Err protocol, s)
      else case inv_check_cancelled io s of (Err e, s1) \<Rightarrow> (Err e, s1) | (Ok _, s1) \<Rightarrow>
      case get_json io client (asset_path identifier) (GetAsset identifier) (ii_asset_json io) s1 of
        (Err e, s2) \<Rightarrow> (Err e, s2)
      | (Ok item, s2) \<Rightarrow>
          (case convert_asset io item of
             Err e \<Rightarrow> (Err e, s2)
           | Ok (asset, _) \<Rightarrow>
               if rar_asset_id asset \<noteq> identifier then (Err protocol, s2)
               else list_related io client max_assets ids (assets @ [asset]) s2))"

definition list_archive_assets ::
  "'s inventory_io \<Rightarrow> ImmichReadClient \<Rightarrow> NegotiatedServer \<Rightarrow> ArchiveListConfig \<Rightarrow> 's
     \<Rightarrow> (RemoteArchiveAsset list, ClientError) result \<times> 's" where
  "list_archive_assets io client negotiated config s =
     (case and_then (validate_binding io client negotiated) (\<lambda>_. ArchiveListConfig_validate config) of
        Err e \<Rightarrow> (Err e, s)
      | Ok config \<Rightarrow>
          (case list_pages io client config [] [] 1 s of
             (Err e, s1) \<Rightarrow> (Err e, s1)
           | (Ok (assets, related_ids), s1) \<Rightarrow>
               list_related io client (alc_max_assets config) (remdups_adj (sort related_ids)) assets s1))"

definition download_original ::
  "'s inventory_io \<Rightarrow> ImmichReadClient \<Rightarrow> NegotiatedServer \<Rightarrow> string \<Rightarrow> 's
     \<Rightarrow> (original_response, ClientError) result \<times> 's" where
  "download_original io client negotiated asset_id s =
     (case validate_binding io client negotiated of Err e \<Rightarrow> (Err e, s) | Ok _ \<Rightarrow>
      case inv_check_cancelled io s of (Err e, s1) \<Rightarrow> (Err e, s1) | (Ok _, s1) \<Rightarrow>
      if \<not> ii_api_url io (asset_path asset_id @ ''/original'') then (Err protocol, s1)
      else case ii_open_original io asset_id s1 of
        (None, s2) \<Rightarrow> (Err (ClientError_new Cancelled), s2)
      | (Some (Err e), s2) \<Rightarrow> (Err (classify_transport e), s2)
      | (Some (Ok response), s2) \<Rightarrow>
          let status = hr_status (or_response response) in
          if \<not> (200 \<le> status \<and> status \<le> 299)
          then (Err (status_error (or_response response) (cc_retry_after_cap (rc_config client))), s2)
          else (Ok response, s2))"

text \<open>\<open>next_chunk\<close> on what is left of the body.\<close>

fun next_chunk ::
  "(string, reqwest_error) result option list
     \<Rightarrow> (string option, ClientError) result \<times> (string, reqwest_error) result option list" where
  "next_chunk [] = (Ok None, [])"
| "next_chunk (None # rest) = (Err (ClientError_new Cancelled), rest)"
| "next_chunk (Some (Err e) # rest) = (Err (classify_transport e), rest)"
| "next_chunk (Some (Ok chunk) # rest) = (Ok (Some chunk), rest)"

lemma next_chunk_shorter: "next_chunk cs = (Ok (Some c), rest) \<Longrightarrow> length rest < length cs"
  by (induction cs rule: next_chunk.induct) auto

section \<open>Migration inventory\<close>

record MigrationListConfig =
  mlc_page_size :: nat
  mlc_max_assets :: nat
  mlc_max_albums :: nat
  mlc_max_album_memberships :: nat

definition MigrationListConfig_default :: MigrationListConfig where
  "MigrationListConfig_default =
     \<lparr>mlc_page_size = 100, mlc_max_assets = 100000, mlc_max_albums = 10000, mlc_max_album_memberships = 1000000\<rparr>"

definition MigrationListConfig_validate :: "MigrationListConfig \<Rightarrow> (MigrationListConfig, ClientError) result" where
  "MigrationListConfig_validate c =
     (if 1 \<le> mlc_page_size c \<and> mlc_page_size c \<le> 1000 \<and> mlc_max_assets c > 0 \<and> mlc_max_albums c > 0
         \<and> mlc_max_album_memberships c > 0
      then Ok c else Err protocol)"

record RemoteMigrationAsset =
  rma_asset_id :: string
  rma_original_file_name :: string
  rma_media_kind :: MediaKind
  rma_byte_len :: u64
  rma_checksum_sha1 :: string
  rma_created_at_unix_ms :: int
  rma_modified_at_unix_ms :: int
  rma_normalized_metadata :: "NormalizedMetadata option"
  rma_live_photo_video_id :: "string option"

record RemoteOwnedAlbum =
  roa_album_id :: string
  roa_name :: string
  roa_asset_ids :: "string list"

record RemoteMigrationInventory =
  rmi_assets :: "RemoteMigrationAsset list"
  rmi_albums :: "RemoteOwnedAlbum list"

text \<open>Division of signed integers truncates towards zero; \<open>i64::try_from\<close> refuses what does not fit.\<close>

definition truncated_div :: "int \<Rightarrow> int \<Rightarrow> int" where
  "truncated_div a b = (if 0 \<le> a then a div b else - (- a div b))"

definition timestamp_millis :: "'s inventory_io \<Rightarrow> string \<Rightarrow> (int, ClientError) result" where
  "timestamp_millis io v =
     and_then (ok_or (ii_unix_nanos io v) protocol) (\<lambda>nanos.
       let ms = truncated_div nanos 1000000 in
       if - (2 ^ 63) \<le> ms \<and> ms < 2 ^ 63 then Ok ms else Err protocol)"

definition canonical_timestamp :: "'s inventory_io \<Rightarrow> string \<Rightarrow> (string, ClientError) result" where
  "canonical_timestamp io v = ok_or (ii_canonical_timestamp io v) protocol"

definition remote_decimal :: "f64 \<Rightarrow> string" where
  "remote_decimal v = (if f64_is_zero v then ''0'' else f64_to_string v)"

definition normalized_metadata ::
  "'s inventory_io \<Rightarrow> string option \<Rightarrow> string option \<Rightarrow> f64 option \<Rightarrow> f64 option
     \<Rightarrow> (NormalizedMetadata option, ClientError) result" where
  "normalized_metadata io description taken_at latitude longitude =
     (let description' = (case description of Some v \<Rightarrow> if v \<noteq> [] then Some v else None | None \<Rightarrow> None) in
      and_then (case taken_at of None \<Rightarrow> Ok None | Some v \<Rightarrow> map_ok Some (canonical_timestamp io v)) (\<lambda>taken_at_utc.
      and_then (case (latitude, longitude) of
                  (None, None) \<Rightarrow> Ok None
                | (Some lat, Some lon) \<Rightarrow>
                    if f64_is_finite lat \<and> f64_is_finite lon
                    then Ok (Some \<lparr>geo_latitude = remote_decimal lat, geo_longitude = remote_decimal lon\<rparr>)
                    else Err protocol
                | _ \<Rightarrow> Err protocol) (\<lambda>location.
        let metadata = \<lparr>nm_description = description', nm_taken_at_utc = taken_at_utc, nm_location = location, nm_albums = []\<rparr>
        in Ok (if metadata \<noteq> NormalizedMetadata_default then Some metadata else None))))"

definition migration_asset :: "'s inventory_io \<Rightarrow> ArchiveAssetResponse \<Rightarrow> (RemoteMigrationAsset, ClientError) result" where
  "migration_asset io item =
     and_then (response_media_kind (aar_type item)) (\<lambda>media_kind.
     and_then (decode_sha1 io (aar_checksum item)) (\<lambda>checksum_sha1.
     and_then (ok_or (aar_exif_info item) protocol) (\<lambda>exif.
     and_then (and_then (ok_or (aer_file_size_in_byte exif) protocol)
                 (\<lambda>len. if len > 0 then Ok len else Err protocol)) (\<lambda>byte_len.
     and_then (and_then (ok_or (aar_file_created_at item) protocol) (timestamp_millis io)) (\<lambda>created.
     and_then (and_then (ok_or (aar_file_modified_at item) protocol) (timestamp_millis io)) (\<lambda>modified.
     and_then (normalized_metadata io (aer_description exif)
                 (case aer_date_time_original exif of Some t \<Rightarrow> Some t | None \<Rightarrow> aar_file_created_at item)
                 (aer_latitude exif) (aer_longitude exif)) (\<lambda>metadata.
       Ok \<lparr>rma_asset_id = aar_id item, rma_original_file_name = aar_original_file_name item,
           rma_media_kind = media_kind, rma_byte_len = byte_len, rma_checksum_sha1 = checksum_sha1,
           rma_created_at_unix_ms = created, rma_modified_at_unix_ms = modified,
           rma_normalized_metadata = metadata, rma_live_photo_video_id = aar_live_photo_video_id item\<rparr>)))))))"

definition valid_album_name :: "string \<Rightarrow> bool" where
  "valid_album_name v \<longleftrightarrow> v \<noteq> [] \<and> length v \<le> 4096 \<and> CHR 0x5C \<notin> set v \<and> \<not> any_control v"

definition validate_migration_binding ::
  "'s inventory_io \<Rightarrow> ImmichReadClient \<Rightarrow> NegotiatedServer \<Rightarrow> (unit, ClientError) result" where
  "validate_migration_binding io client negotiated =
     ensure (ii_sha256 io (canonical_origin (rc_endpoint client)) = ns_origin_sha256 negotiated) protocol"

fun take_members :: "nat \<Rightarrow> ArchiveAssetResponse list \<Rightarrow> string list \<Rightarrow> (string list, ClientError) result" where
  "take_members limit [] acc = Ok acc"
| "take_members limit (asset # items) acc =
     (if length acc \<ge> limit \<or> \<not> uuid_v4 (aar_id asset) then Err protocol
      else take_members limit items (acc @ [aar_id asset]))"

lemma take_members_Ok:
  "take_members limit items acc = Ok acc' \<Longrightarrow>
     acc' = acc @ map aar_id items \<and> (items \<noteq> [] \<longrightarrow> length acc' \<le> limit)"
  by (induction limit items acc rule: take_members.induct) (auto split: if_splits)

lemma take_members_progress:
  assumes "take_members limit (asa_items response) acc = Ok acc'"
    and "asa_count response = of_nat (length (asa_items response))" "asa_count response > 0"
  shows "limit - length acc' < limit - length acc"
proof -
  have "asa_items response \<noteq> []" using assms(2,3) by auto
  with take_members_Ok [OF assms(1)] show ?thesis by (cases "asa_items response") auto
qed

definition album_request :: "MigrationListConfig \<Rightarrow> string \<Rightarrow> u64 \<Rightarrow> ArchiveSearchRequest" where
  "album_request config album_id page =
     \<lparr>asq_page = page, asq_size = mlc_page_size config, asq_order = ''asc'', asq_with_exif = False,
      asq_album_ids = Some [album_id], asq_visibility = ''timeline'', asq_with_deleted = None\<rparr>"

text \<open>The loop of \<open>migration_album_assets\<close>.\<close>

function album_pages ::
  "'s inventory_io \<Rightarrow> ImmichReadClient \<Rightarrow> MigrationListConfig \<Rightarrow> string \<Rightarrow> string list \<Rightarrow> u64 \<Rightarrow> 's
     \<Rightarrow> (string list, ClientError) result \<times> 's" where
  "album_pages io client config album_id acc page s =
     (case inv_check_cancelled io s of (Err e, s1) \<Rightarrow> (Err e, s1) | (Ok _, s1) \<Rightarrow>
      case post_json io client ''api/search/metadata'' (PostSearch (album_request config album_id page))
             (ii_search_json io) s1 of
        (Err e, s2) \<Rightarrow> (Err e, s2)
      | (Ok response, s2) \<Rightarrow>
          if asa_count response \<noteq> of_nat (length (asa_items response)) then (Err protocol, s2)
          else case take_members (mlc_max_album_memberships config) (asa_items response) acc of
            Err e \<Rightarrow> (Err e, s2)
          | Ok acc' \<Rightarrow>
              (case asa_next_page response of
                 None \<Rightarrow> (Ok acc', s2)
               | Some next_page \<Rightarrow>
                   if asa_count response > 0
                   then case next_page_number page next_page of
                       Err e \<Rightarrow> (Err e, s2)
                     | Ok page' \<Rightarrow> album_pages io client config album_id acc' page' s2
                   else (Err protocol, s2)))"
  by pat_completeness auto

termination album_pages
proof (relation "measure (\<lambda>(io, client, config, album_id, acc, page, s). mlc_max_album_memberships config - length acc)", goal_cases)
  case 2
  then show ?case by (auto dest: take_members_progress)
qed simp

declare album_pages.simps [simp del]

definition migration_album_assets ::
  "'s inventory_io \<Rightarrow> ImmichReadClient \<Rightarrow> string \<Rightarrow> MigrationListConfig \<Rightarrow> 's
     \<Rightarrow> (string list, ClientError) result \<times> 's" where
  "migration_album_assets io client album_id config s = album_pages io client config album_id [] 1 s"

text \<open>The members in scope, sorted and without repetition.\<close>

definition project_ids :: "string btree_set \<Rightarrow> string list \<Rightarrow> string list" where
  "project_ids allowed ids = remdups_adj (sort (filter (bts_contains allowed) ids))"

definition push_owned_album :: "MigrationAlbumResponse \<Rightarrow> string list \<Rightarrow> RemoteOwnedAlbum list \<Rightarrow> RemoteOwnedAlbum list" where
  "push_owned_album header asset_ids albums =
     (if asset_ids \<noteq> []
      then albums @ [\<lparr>roa_album_id = mar_id header, roa_name = mar_album_name header, roa_asset_ids = asset_ids\<rparr>]
      else albums)"

fun project_albums ::
  "'s inventory_io \<Rightarrow> ImmichReadClient \<Rightarrow> MigrationListConfig \<Rightarrow> string btree_set \<Rightarrow> MigrationAlbumResponse list
     \<Rightarrow> nat \<Rightarrow> RemoteOwnedAlbum list \<Rightarrow> 's \<Rightarrow> (RemoteOwnedAlbum list, ClientError) result \<times> 's" where
  "project_albums io client config allowed [] memberships albums s = (Ok albums, s)"
| "project_albums io client config allowed (header # headers) memberships albums s =
     (case inv_check_cancelled io s of (Err e, s1) \<Rightarrow> (Err e, s1) | (Ok _, s1) \<Rightarrow>
      if \<not> uuid_v4 (mar_id header) \<or> \<not> valid_album_name (mar_album_name header)
         \<or> unat (mar_asset_count header) > mlc_max_album_memberships config
      then (Err protocol, s1)
      else case migration_album_assets io client (mar_id header) config s1 of
        (Err e, s2) \<Rightarrow> (Err e, s2)
      | (Ok ids, s2) \<Rightarrow>
          let asset_ids = project_ids allowed ids;
              memberships' = min u64_max (memberships + length asset_ids) in
          if memberships' > mlc_max_album_memberships config then (Err protocol, s2)
          else project_albums io client config allowed headers memberships'
                 (push_owned_album header asset_ids albums) s2)"

definition migration_albums ::
  "'s inventory_io \<Rightarrow> ImmichReadClient \<Rightarrow> NegotiatedServer \<Rightarrow> MigrationListConfig \<Rightarrow> string btree_set \<Rightarrow> 's
     \<Rightarrow> (RemoteOwnedAlbum list, ClientError) result \<times> 's" where
  "migration_albums io client negotiated config allowed s =
     (case validate_migration_binding io client negotiated of Err e \<Rightarrow> (Err e, s) | Ok _ \<Rightarrow>
      case inv_check_cancelled io s of (Err e, s1) \<Rightarrow> (Err e, s1) | (Ok _, s1) \<Rightarrow>
      case get_json io client ''api/albums?isOwned=true'' GetOwned (ii_albums_json io) s1 of
        (Err e, s2) \<Rightarrow> (Err e, s2)
      | (Ok headers, s2) \<Rightarrow>
          if length headers > mlc_max_albums config then (Err protocol, s2)
          else case project_albums io client config allowed headers 0 [] s2 of
            (Err e, s3) \<Rightarrow> (Err e, s3)
          | (Ok albums, s3) \<Rightarrow> (Ok (sort_key (\<lambda>a. (roa_name a, roa_album_id a)) albums), s3))"

text \<open>The loop that asks for each listed asset again, in full.\<close>

fun inventory_assets ::
  "'s inventory_io \<Rightarrow> ImmichReadClient \<Rightarrow> RemoteArchiveAsset list \<Rightarrow> RemoteMigrationAsset list \<Rightarrow> 's
     \<Rightarrow> (RemoteMigrationAsset list, ClientError) result \<times> 's" where
  "inventory_assets io client [] assets s = (Ok assets, s)"
| "inventory_assets io client (expected # rest) assets s =
     (case inv_check_cancelled io s of (Err e, s1) \<Rightarrow> (Err e, s1) | (Ok _, s1) \<Rightarrow>
      case get_json io client (asset_path (rar_asset_id expected)) (GetAsset (rar_asset_id expected)) (ii_asset_json io) s1 of
        (Err e, s2) \<Rightarrow> (Err e, s2)
      | (Ok response, s2) \<Rightarrow>
          (case migration_asset io response of
             Err e \<Rightarrow> (Err e, s2)
           | Ok asset \<Rightarrow>
               if rma_asset_id asset \<noteq> rar_asset_id expected
                  \<or> rma_original_file_name asset \<noteq> rar_original_file_name expected
                  \<or> rma_media_kind asset \<noteq> rar_media_kind expected
                  \<or> rma_byte_len asset \<noteq> rar_byte_len expected
                  \<or> rma_checksum_sha1 asset \<noteq> rar_checksum_sha1 expected
               then (Err protocol, s2)
               else inventory_assets io client rest (assets @ [asset]) s2))"

definition timeline_config :: "MigrationListConfig \<Rightarrow> ArchiveListConfig" where
  "timeline_config config =
     \<lparr>alc_visibility = VisibilityTimeline, alc_include_trashed = False, alc_page_size = mlc_page_size config,
      alc_max_assets = mlc_max_assets config\<rparr>"

definition migration_inventory ::
  "'s inventory_io \<Rightarrow> ImmichReadClient \<Rightarrow> NegotiatedServer \<Rightarrow> MigrationListConfig \<Rightarrow> 's
     \<Rightarrow> (RemoteMigrationInventory, ClientError) result \<times> 's" where
  "migration_inventory io client negotiated config s =
     (case MigrationListConfig_validate config of Err e \<Rightarrow> (Err e, s) | Ok config \<Rightarrow>
      case list_archive_assets io client negotiated (timeline_config config) s of
        (Err e, s1) \<Rightarrow> (Err e, s1)
      | (Ok archive, s1) \<Rightarrow>
          (case inventory_assets io client archive [] s1 of
             (Err e, s2) \<Rightarrow> (Err e, s2)
           | (Ok unsorted, s2) \<Rightarrow>
               let assets = sort_key rma_asset_id unsorted in
               if \<not> windows2_all (<) (map rma_asset_id assets) then (Err protocol, s2)
               else case migration_albums io client negotiated config (bts_collect (map rma_asset_id assets)) s2 of
                 (Err e, s3) \<Rightarrow> (Err e, s3)
               | (Ok albums, s3) \<Rightarrow> (Ok \<lparr>rmi_assets = assets, rmi_albums = albums\<rparr>, s3)))"

end
