(* ===== verification/Client_Inventory_Laws.thy ===== *)
theory Client_Inventory_Laws
  imports Client_Inventory "HOL-Library.Multiset"
begin

text \<open>
  What the remote inventory guarantees whatever the server answers: how many requests it can
  send, and the shape of an accepted inventory.
\<close>

section \<open>Counting the requests\<close>

declare list_pages.simps [simp del] album_pages.simps [simp del]

text \<open>A transport that also keeps the requests sent so far.\<close>

definition log_io :: "'s inventory_io \<Rightarrow> (read_request list \<times> 's) inventory_io" where
  "log_io io =
     \<lparr>ii_cancelled = (\<lambda>(sent, s). let (c, s1) = ii_cancelled io s in (c, sent, s1)),
      ii_api_url = ii_api_url io,
      ii_send = (\<lambda>req (sent, s). let (r, s1) = ii_send io req s in (r, sent @ [req], s1)),
      ii_send_cancellable = (\<lambda>req (sent, s). let (r, s1) = ii_send_cancellable io req s in (r, sent @ [req], s1)),
      ii_open_original = (\<lambda>i (sent, s). let (r, s1) = ii_open_original io i s in (r, sent @ [GetOriginal i], s1)),
      ii_search_json = ii_search_json io, ii_asset_json = ii_asset_json io, ii_albums_json = ii_albums_json io,
      ii_sha256 = ii_sha256 io, ii_base64_decode = ii_base64_decode io,
      ii_unix_nanos = ii_unix_nanos io, ii_canonical_timestamp = ii_canonical_timestamp io\<rparr>"

text \<open>What the loops rely on: reading the cancellation flag sends nothing, one call sends one request.\<close>

lemma take_items_max:
  "take_items io m items assets related = Ok (assets', related') \<Longrightarrow>
     length assets' = length assets + length items \<and> length assets' \<le> max m (length assets)"
  using take_items_length [of io m items assets related assets' related'] by (cases items) auto

locale counted_io =
  fixes io :: "'s inventory_io" and sent :: "'s \<Rightarrow> nat"
  assumes cancelled_sent: "sent (snd (ii_cancelled io s)) = sent s"
    and send_sent: "sent (snd (ii_send io req s)) \<le> Suc (sent s)"
    and send_cancellable_sent: "sent (snd (ii_send_cancellable io req s)) \<le> Suc (sent s)"
begin

lemma check_cancelled_sent: "inv_check_cancelled io s = (a, s') \<Longrightarrow> sent s' = sent s"
  using cancelled_sent [of s] by (auto simp: inv_check_cancelled_def split: prod.splits)

lemma get_json_sent: "get_json io client path req decode s = (a, s') \<Longrightarrow> sent s' \<le> Suc (sent s)"
  using send_sent [of req s] by (auto simp: get_json_def split: prod.splits if_splits result.splits)

lemma post_json_sent: "post_json io client path req decode s = (a, s') \<Longrightarrow> sent s' \<le> Suc (sent s)"
  using send_cancellable_sent [of req s]
  by (auto simp: post_json_def split: prod.splits if_splits result.splits option.splits)

text \<open>The pages: each of them but the last brings at least one asset.\<close>

lemma list_pages_sent:
  "list_pages io client config assets related page s = (a, s') \<Longrightarrow>
     (case a of
        Ok (assets', _) \<Rightarrow> sent s' + length assets \<le> sent s + length assets' + 1
          \<and> length assets' \<le> max (alc_max_assets config) (length assets)
      | Err _ \<Rightarrow> sent s' \<le> sent s + (alc_max_assets config - length assets) + 1)"
proof (induction "alc_max_assets config - length assets" arbitrary: assets related page s a s' rule: less_induct)
  case less
  note step = less.prems [unfolded list_pages.simps [of io client config assets related page s]]
  obtain c s1 where c: "inv_check_cancelled io s = (c, s1)" by (meson surj_pair)
  obtain q s2 where q: "post_json io client ''api/search/metadata'' (PostSearch (archive_request config page)) (ii_search_json io) s1 = (q, s2)"
    by (meson surj_pair)
  have n: "sent s1 = sent s" "sent s2 \<le> Suc (sent s)"
    using check_cancelled_sent [OF c] post_json_sent [OF q] by simp_all
  show ?case
  proof (cases "\<exists>response page' assets' related'. c = Ok () \<and> q = Ok response \<and>
      take_items io (alc_max_assets config) (asa_items response) assets related = Ok (assets', related') \<and>
      asa_count response = of_nat (length (asa_items response)) \<and> asa_count response \<noteq> 0 \<and>
      list_pages io client config assets' related' page' s2 = (a, s')")
    case True
    then obtain response :: ArchiveSearchAssets and page' assets' related' where
      t: "take_items io (alc_max_assets config) (asa_items response) assets related = Ok (assets', related')"
        "asa_count response = of_nat (length (asa_items response))" "asa_count response \<noteq> 0"
      and r: "list_pages io client config assets' related' page' s2 = (a, s')" by blast
    have "length assets < length assets'" "length assets' \<le> alc_max_assets config"
      using take_items_length [OF t(1)] t(2,3) by (cases "asa_items response"; simp)+
    then show ?thesis using less.hyps [OF take_items_progress [OF t] r] n by (auto split: result.splits)
  next
    case False
    then show ?thesis using step n
      by (auto simp: c q split: result.splits option.splits if_splits dest!: take_items_max)
  qed
qed

lemma list_related_sent:
  "list_related io client m ids assets s = (a, s') \<Longrightarrow>
     (case a of
        Ok assets' \<Rightarrow> sent s' + length assets \<le> sent s + length assets' \<and> length assets' \<le> max m (length assets)
      | Err _ \<Rightarrow> sent s' \<le> sent s + (m - length assets))"
proof (induction ids arbitrary: assets s)
  case (Cons i ids)
  obtain c s1 where c: "inv_check_cancelled io s = (c, s1)" by (meson surj_pair)
  obtain q s2 where q: "get_json io client (asset_path i) (GetAsset i) (ii_asset_json io) s1 = (q, s2)"
    by (meson surj_pair)
  have n: "sent s1 = sent s" "sent s2 \<le> Suc (sent s)"
    using check_cancelled_sent [OF c] get_json_sent [OF q] by simp_all
  consider (known) "list_related io client m ids assets s = (a, s')"
    | (stop) e where "a = Err e" "sent s' \<le> sent s + (m - length assets)"
    | (again) asset where "list_related io client m ids (assets @ [asset]) s2 = (a, s')" "length assets < m"
    using Cons.prems n by (auto simp: c q split: if_splits result.splits prod.splits)
  then show ?case
  proof cases
    case again
    with Cons.IH [OF again(1)] n show ?thesis by (auto split: result.splits)
  qed (use Cons.IH in auto)
qed auto

lemma list_archive_assets_sent:
  assumes "list_archive_assets io client negotiated config s = (a, s')"
  shows "sent s' \<le> sent s + alc_max_assets config + 1"
    and "a = Ok assets \<Longrightarrow> length assets \<le> alc_max_assets config"
proof -
  have "sent s' \<le> sent s + alc_max_assets config + 1 \<and>
      (\<forall>assets. a = Ok assets \<longrightarrow> length assets \<le> alc_max_assets config)"
  proof (cases "and_then (validate_binding io client negotiated) (\<lambda>_. ArchiveListConfig_validate config)")
    case (Ok config')
    then have [simp]: "config' = config" by (auto simp: and_then_eq_Ok ArchiveListConfig_validate_def split: if_splits)
    obtain p s1 where p: "list_pages io client config [] [] 1 s = (p, s1)" by (meson surj_pair)
    show ?thesis
    proof (cases p)
      case (Ok pair)
      obtain listed related where [simp]: "pair = (listed, related)" by fastforce
      have r: "list_related io client (alc_max_assets config) (remdups_adj (sort related)) listed s1 = (a, s')"
        using assms \<open>and_then _ _ = Ok config'\<close> p Ok by (simp add: list_archive_assets_def)
      show ?thesis using list_related_sent [OF r] list_pages_sent [OF p] Ok by (auto split: result.splits)
    next
      case (Err e)
      then show ?thesis using assms list_pages_sent [OF p] \<open>and_then _ _ = Ok config'\<close> p
        by (auto simp: list_archive_assets_def)
    qed
  qed (use assms in \<open>auto simp: list_archive_assets_def\<close>)
  then show "sent s' \<le> sent s + alc_max_assets config + 1"
    and "a = Ok assets \<Longrightarrow> length assets \<le> alc_max_assets config" by auto
qed

lemma inventory_assets_sent:
  "inventory_assets io client archive assets s = (a, s') \<Longrightarrow> sent s' \<le> sent s + length archive"
proof (induction archive arbitrary: assets s)
  case (Cons expected rest)
  obtain c s1 where c: "inv_check_cancelled io s = (c, s1)" by (meson surj_pair)
  obtain q s2 where q: "get_json io client (asset_path (rar_asset_id expected)) (GetAsset (rar_asset_id expected))
      (ii_asset_json io) s1 = (q, s2)" by (meson surj_pair)
  have n: "sent s1 = sent s" "sent s2 \<le> Suc (sent s)"
    using check_cancelled_sent [OF c] get_json_sent [OF q] by simp_all
  consider (stop) "sent s' \<le> Suc (sent s)" | (again) asset where "inventory_assets io client rest (assets @ [asset]) s2 = (a, s')"
    using Cons.prems n by (auto simp: c q split: if_splits result.splits prod.splits)
  then show ?case using Cons.IH n by cases force+
qed auto

lemma album_pages_sent:
  "album_pages io client config album_id acc page s = (a, s') \<Longrightarrow>
     sent s' \<le> sent s + (mlc_max_album_memberships config - length acc) + 1"
proof (induction "mlc_max_album_memberships config - length acc" arbitrary: acc page s rule: less_induct)
  case less
  note step = less.prems [unfolded album_pages.simps [of io client config album_id acc page s]]
  obtain c s1 where c: "inv_check_cancelled io s = (c, s1)" by (meson surj_pair)
  obtain q s2 where q: "post_json io client ''api/search/metadata'' (PostSearch (album_request config album_id page)) (ii_search_json io) s1 = (q, s2)"
    by (meson surj_pair)
  have n: "sent s1 = sent s" "sent s2 \<le> Suc (sent s)"
    using check_cancelled_sent [OF c] post_json_sent [OF q] by simp_all
  show ?case
  proof (cases "\<exists>response page' acc'. q = Ok response \<and>
      take_members (mlc_max_album_memberships config) (asa_items response) acc = Ok acc' \<and>
      asa_count response = of_nat (length (asa_items response)) \<and> asa_count response > 0 \<and>
      album_pages io client config album_id acc' page' s2 = (a, s')")
    case True
    then obtain response :: ArchiveSearchAssets and page' acc' where
      t: "take_members (mlc_max_album_memberships config) (asa_items response) acc = Ok acc'"
        "asa_count response = of_nat (length (asa_items response))" "asa_count response > 0"
      and r: "album_pages io client config album_id acc' page' s2 = (a, s')" by blast
    from less.hyps [OF take_members_progress [OF t] r] take_members_progress [OF t] n show ?thesis by linarith
  next
    case False
    then show ?thesis using step n
      by (auto simp: c q split: result.splits option.splits if_splits)
  qed
qed

lemma project_albums_sent:
  "project_albums io client config allowed headers memberships albums s = (a, s') \<Longrightarrow>
     sent s' \<le> sent s + length headers * (mlc_max_album_memberships config + 1)"
proof (induction headers arbitrary: memberships albums s)
  case (Cons header headers)
  obtain c s1 where c: "inv_check_cancelled io s = (c, s1)" by (meson surj_pair)
  obtain q s2 where q: "migration_album_assets io client (mar_id header) config s1 = (q, s2)" by (meson surj_pair)
  have n: "sent s1 = sent s" "sent s2 \<le> sent s + (mlc_max_album_memberships config + 1)"
    using check_cancelled_sent [OF c] album_pages_sent [OF q [unfolded migration_album_assets_def]] by simp_all
  consider (stop) "sent s' \<le> sent s + (mlc_max_album_memberships config + 1)"
    | (again) memberships' albums' where "project_albums io client config allowed headers memberships' albums' s2 = (a, s')"
    using Cons.prems n by (auto simp: c q Let_def split: if_splits result.splits prod.splits)
  then show ?case using Cons.IH n by cases force+
qed auto

lemma migration_albums_sent:
  assumes "migration_albums io client negotiated config allowed s = (a, s')"
  shows "sent s' \<le> sent s + 1 + mlc_max_albums config * (mlc_max_album_memberships config + 1)"
proof -
  obtain c s1 where c: "inv_check_cancelled io s = (c, s1)" by (meson surj_pair)
  obtain q s2 where q: "get_json io client ''api/albums?isOwned=true'' GetOwned (ii_albums_json io) s1 = (q, s2)"
    by (meson surj_pair)
  have n: "sent s1 = sent s" "sent s2 \<le> Suc (sent s)"
    using check_cancelled_sent [OF c] get_json_sent [OF q] by simp_all
  consider (stop) "sent s' \<le> Suc (sent s)"
    | (project) headers b where "length headers \<le> mlc_max_albums config"
        "project_albums io client config allowed headers 0 [] s2 = (b, s')"
    using assms n by (auto simp: migration_albums_def c q not_less split: if_splits result.splits prod.splits)
  then show ?thesis
  proof cases
    case (project headers b)
    from project_albums_sent [OF project(2)] n
      mult_le_mono1 [OF project(1), of "mlc_max_album_memberships config + 1"]
    show ?thesis by linarith
  qed simp
qed

lemma migration_inventory_sent:
  assumes "migration_inventory io client negotiated config s = (a, s')"
  shows "sent s' \<le> sent s + 2 * mlc_max_assets config + 2
    + mlc_max_albums config * (mlc_max_album_memberships config + 1)"
proof (cases "MigrationListConfig_validate config")
  case (Ok config')
  then have [simp]: "config' = config" by (auto simp: MigrationListConfig_validate_def split: if_splits)
  obtain p s1 where p: "list_archive_assets io client negotiated (timeline_config config) s = (p, s1)" by (meson surj_pair)
  have n1: "sent s1 \<le> sent s + mlc_max_assets config + 1"
    using list_archive_assets_sent(1) [OF p] by (simp add: timeline_config_def)
  show ?thesis
  proof (cases p)
    case (Err e)
    then show ?thesis using assms Ok p n1 by (auto simp: migration_inventory_def)
  next
    case archive: (Ok archive)
    then have "length archive \<le> mlc_max_assets config"
      using list_archive_assets_sent(2) [OF p] by (simp add: timeline_config_def)
    moreover obtain q s2 where q: "inventory_assets io client archive [] s1 = (q, s2)" by (meson surj_pair)
    ultimately have n2: "sent s2 \<le> sent s + 2 * mlc_max_assets config + 1"
      using inventory_assets_sent [OF q] n1 by simp
    consider (stop) "s' = s2" | (albums) allowed b where
        "migration_albums io client negotiated config allowed s2 = (b, s')"
      using assms Ok archive by (auto simp: migration_inventory_def p q Let_def split: if_splits result.splits prod.splits)
    then show ?thesis using n2 migration_albums_sent by cases force+
  qed
qed (use assms in \<open>simp add: migration_inventory_def\<close>)

end

text \<open>The client's transport, with the log of its requests.\<close>

interpretation logged: counted_io "log_io io" "\<lambda>st. length (fst st)" for io
  by unfold_locales (auto simp: log_io_def split: prod.splits)

text \<open>Without a log, only the results of the loops.\<close>

interpretation uncounted: counted_io io "\<lambda>_. 0" for io
  by unfold_locales auto

section \<open>The shape of an accepted inventory\<close>

definition remote_asset_ok :: "RemoteMigrationAsset \<Rightarrow> bool" where
  "remote_asset_ok a \<longleftrightarrow> rma_byte_len a \<noteq> 0 \<and> lower_hex (rma_checksum_sha1 a) 40 \<and>
     - (2 ^ 63) \<le> rma_created_at_unix_ms a \<and> rma_created_at_unix_ms a < 2 ^ 63 \<and>
     - (2 ^ 63) \<le> rma_modified_at_unix_ms a \<and> rma_modified_at_unix_ms a < 2 ^ 63 \<and>
     is_none_or (rma_normalized_metadata a) (\<lambda>m. nm_albums m = [] \<and> has_metadata m)"

definition remote_album_ok :: "string set \<Rightarrow> RemoteOwnedAlbum \<Rightarrow> bool" where
  "remote_album_ok ids album \<longleftrightarrow> uuid_v4 (roa_album_id album) \<and> valid_album_name (roa_name album) \<and>
     roa_asset_ids album \<noteq> [] \<and> sorted_wrt (<) (roa_asset_ids album) \<and> set (roa_asset_ids album) \<subseteq> ids"

definition remote_inventory_ok :: "MigrationListConfig \<Rightarrow> RemoteMigrationInventory \<Rightarrow> bool" where
  "remote_inventory_ok config inventory \<longleftrightarrow>
     length (rmi_assets inventory) \<le> mlc_max_assets config \<and> length (rmi_albums inventory) \<le> mlc_max_albums config \<and>
     sum_list (map (length \<circ> roa_asset_ids) (rmi_albums inventory)) \<le> mlc_max_album_memberships config \<and>
     sorted_wrt (<) (map rma_asset_id (rmi_assets inventory)) \<and> list_all remote_asset_ok (rmi_assets inventory) \<and>
     sorted (map (\<lambda>a. (roa_name a, roa_album_id a)) (rmi_albums inventory)) \<and>
     list_all (remote_album_ok (rma_asset_id ` set (rmi_assets inventory))) (rmi_albums inventory)"

lemma length_lowercase_hex: "length (lowercase_hex bs) = 2 * length bs"
  by (induction bs) (simp_all add: lowercase_hex_def)

lemma hex_digits: "n < 16 \<Longrightarrow> is_ascii_hexdigit (''0123456789abcdef'' ! n) \<and> \<not> is_ascii_upper (''0123456789abcdef'' ! n)"
proof -
  have "list_all (\<lambda>c. is_ascii_hexdigit c \<and> \<not> is_ascii_upper c) ''0123456789abcdef''" by code_simp
  then show "n < 16 \<Longrightarrow> ?thesis" by (simp only: list_all_length) simp
qed

lemma lowercase_hex_ok: "length bs = 20 \<Longrightarrow> lower_hex (lowercase_hex bs) 40"
proof -
  have "list_all (\<lambda>b. is_ascii_hexdigit b \<and> \<not> is_ascii_upper b) (lowercase_hex bs)"
    by (induction bs) (simp_all add: lowercase_hex_def hex_digits less_mult_imp_div_less)
  then show "length bs = 20 \<Longrightarrow> ?thesis" by (simp add: lower_hex_def length_lowercase_hex)
qed

lemma decode_sha1_Ok: "decode_sha1 io v = Ok h \<Longrightarrow> lower_hex h 40"
  by (auto simp: decode_sha1_def and_then_eq_Ok intro!: lowercase_hex_ok split: if_splits)

lemma timestamp_millis_Ok: "timestamp_millis io v = Ok ms \<Longrightarrow> - (2 ^ 63) \<le> ms \<and> ms < 2 ^ 63"
  by (auto simp: timestamp_millis_def and_then_eq_Ok Let_def split: if_splits)

lemma normalized_metadata_Ok:
  "normalized_metadata io description taken_at latitude longitude = Ok (Some m) \<Longrightarrow> nm_albums m = [] \<and> has_metadata m"
  by (auto simp: normalized_metadata_def and_then_eq_Ok Let_def NormalizedMetadata_default_def has_metadata_def
      split: if_splits)

lemma migration_asset_Ok: "migration_asset io item = Ok a \<Longrightarrow> remote_asset_ok a"
proof -
  assume "migration_asset io item = Ok a"
  then obtain exif :: ArchiveExifResponse and created modified where
    "decode_sha1 io (aar_checksum item) = Ok (rma_checksum_sha1 a)" "rma_byte_len a > 0"
    "timestamp_millis io created = Ok (rma_created_at_unix_ms a)"
    "timestamp_millis io modified = Ok (rma_modified_at_unix_ms a)"
    "normalized_metadata io (aer_description exif)
       (case aer_date_time_original exif of Some t \<Rightarrow> Some t | None \<Rightarrow> aar_file_created_at item)
       (aer_latitude exif) (aer_longitude exif) = Ok (rma_normalized_metadata a)"
    by (auto simp: migration_asset_def and_then_eq_Ok split: if_splits)
  then show ?thesis
    by (auto simp: remote_asset_ok_def is_none_or_iff dest!: timestamp_millis_Ok decode_sha1_Ok dest: normalized_metadata_Ok)
qed

lemma inventory_assets_Ok:
  "inventory_assets io client archive assets s = (Ok assets', s') \<Longrightarrow>
     length assets' = length assets + length archive \<and> (list_all remote_asset_ok assets \<longrightarrow> list_all remote_asset_ok assets')"
  by (induction io client archive assets s rule: inventory_assets.induct)
    (auto split: result.splits prod.splits if_splits dest!: migration_asset_Ok)

lemma project_albums_Ok:
  "project_albums io client config allowed headers memberships albums s = (Ok albums', s') \<Longrightarrow>
     memberships = sum_list (map (length \<circ> roa_asset_ids) albums) \<Longrightarrow> memberships \<le> mlc_max_album_memberships config \<Longrightarrow>
     mlc_max_album_memberships config < u64_max \<Longrightarrow> list_all (remote_album_ok (set allowed)) albums \<Longrightarrow>
     sum_list (map (length \<circ> roa_asset_ids) albums') \<le> mlc_max_album_memberships config \<and>
     length albums' \<le> length albums + length headers \<and> list_all (remote_album_ok (set allowed)) albums'"
proof (induction headers arbitrary: memberships albums s)
  case (Cons header headers)
  obtain c s1 where c: "inv_check_cancelled io s = (c, s1)" by (meson surj_pair)
  obtain q s2 where q: "migration_album_assets io client (mar_id header) config s1 = (q, s2)" by (meson surj_pair)
  obtain ids where ids: "q = Ok ids" using Cons.prems(1) by (auto simp: c q split: result.splits if_splits)
  let ?ids = "project_ids allowed ids"
  have header: "uuid_v4 (mar_id header)" "valid_album_name (mar_album_name header)"
    and m: "memberships + length ?ids \<le> mlc_max_album_memberships config"
    and rest: "project_albums io client config allowed headers (memberships + length ?ids)
        (push_owned_album header ?ids albums) s2 = (Ok albums', s')"
    using Cons.prems(1,4) by (auto simp: c q ids Let_def min_def split: result.splits if_splits)
  have "sorted_wrt (<) ?ids" "set ?ids \<subseteq> set allowed"
    unfolding project_ids_def by (auto simp: remdups_sort_strict)
  then have "list_all (remote_album_ok (set allowed)) (push_owned_album header ?ids albums)"
    using Cons.prems(5) header by (simp add: push_owned_album_def) (simp add: remote_album_ok_def)
  moreover have "sum_list (map (length \<circ> roa_asset_ids) (push_owned_album header ?ids albums)) = memberships + length ?ids"
    "length (push_owned_album header ?ids albums) \<le> Suc (length albums)"
    using Cons.prems(2) by (simp_all add: push_owned_album_def comp_def)
  ultimately show ?case using Cons.IH [OF rest] m Cons.prems(4) by (simp add: comp_def)
qed auto

lemma sum_list_sort_key:
  fixes f :: "'a \<Rightarrow> nat"
  shows "sum_list (map f (sort_key key xs)) = sum_list (map f xs)"
proof -
  have "mset (map f (sort_key key xs)) = mset (map f xs)" by simp
  then have "sum_mset (mset (map f (sort_key key xs))) = sum_mset (mset (map f xs))" by (rule arg_cong)
  then show ?thesis by (simp only: sum_mset_sum_list)
qed

lemma migration_albums_Ok:
  assumes "migration_albums io client negotiated config allowed s = (Ok albums, s')"
    and "mlc_max_album_memberships config < u64_max"
  shows "length albums \<le> mlc_max_albums config"
    and "sum_list (map (length \<circ> roa_asset_ids) albums) \<le> mlc_max_album_memberships config"
    and "list_all (remote_album_ok (set allowed)) albums"
    and "sorted (map (\<lambda>a. (roa_name a, roa_album_id a)) albums)"
proof -
  obtain c s1 where c: "inv_check_cancelled io s = (c, s1)" by (meson surj_pair)
  obtain q s2 where q: "get_json io client ''api/albums?isOwned=true'' GetOwned (ii_albums_json io) s1 = (q, s2)"
    by (meson surj_pair)
  obtain headers unsorted where n: "length headers \<le> mlc_max_albums config"
    and p: "project_albums io client config allowed headers 0 [] s2 = (Ok unsorted, s')"
    and a: "albums = sort_key (\<lambda>a. (roa_name a, roa_album_id a)) unsorted"
    using assms(1) by (auto simp: migration_albums_def c q not_less split: prod.splits result.splits if_splits)
  show "length albums \<le> mlc_max_albums config" using project_albums_Ok [OF p] assms(2) n by (simp add: a)
  have "sum_list (map (length \<circ> roa_asset_ids) albums) = sum_list (map (length \<circ> roa_asset_ids) unsorted)"
    unfolding a by (rule sum_list_sort_key)
  then show "sum_list (map (length \<circ> roa_asset_ids) albums) \<le> mlc_max_album_memberships config"
    using project_albums_Ok [OF p] assms(2) by simp
  show "list_all (remote_album_ok (set allowed)) albums"
    using project_albums_Ok [OF p] assms(2) by (simp add: a list_all_iff)
  show "sorted (map (\<lambda>a. (roa_name a, roa_album_id a)) albums)"
    unfolding a by (rule sorted_sort_key)
qed

section \<open>Properties\<close>

text \<open>C13: the inventory of a source server ends, whatever the server answers: pages that never
  stop, empty pages that name a successor, duplicated motion videos and endless albums are all
  cut off. At most two requests per admitted asset, two more, and one page more than the
  admitted memberships for every admitted album are sent.\<close>

theorem inventory_requests_bounded:
  "length (fst (snd (migration_inventory (log_io io) client negotiated config ([], w))))
     \<le> 2 * mlc_max_assets config + 2 + mlc_max_albums config * (mlc_max_album_memberships config + 1)"
proof -
  obtain a st where "migration_inventory (log_io io) client negotiated config ([], w) = (a, st)" by (meson surj_pair)
  with logged.migration_inventory_sent [OF this] show ?thesis by simp
qed

text \<open>C14: an accepted inventory is within every configured limit and well-formed, whatever the
  server answered: assets strictly ascending by identifier, each with a positive length, a
  lowercase SHA-1 and timestamps that fit, albums ascending by name and identifier, each with an
  accepted name and strictly ascending members that are assets of the inventory. The configured limit on
  memberships must be below \<open>u64::MAX\<close>, where the code's counter saturates.\<close>

theorem inventory_well_formed:
  assumes "migration_inventory io client negotiated config w = (Ok inventory, w')"
    and "mlc_max_album_memberships config < u64_max"
  shows "remote_inventory_ok config inventory"
proof -
  obtain archive unsorted w1 w2 where
    archive: "list_archive_assets io client negotiated (timeline_config config) w = (Ok archive, w1)"
    and full: "inventory_assets io client archive [] w1 = (Ok unsorted, w2)"
    and assets: "rmi_assets inventory = sort_key rma_asset_id unsorted"
    and strict: "windows2_all (<) (map rma_asset_id (rmi_assets inventory))"
    and albums: "migration_albums io client negotiated config (bts_collect (map rma_asset_id (rmi_assets inventory))) w2
        = (Ok (rmi_albums inventory), w')"
    using assms(1)
    by (auto simp: migration_inventory_def Let_def MigrationListConfig_validate_def split: prod.splits result.splits if_splits)
  have "length archive \<le> mlc_max_assets config"
    using uncounted.list_archive_assets_sent(2) [OF archive] by (simp add: timeline_config_def)
  then show ?thesis
    using inventory_assets_Ok [OF full] strict migration_albums_Ok [OF albums assms(2)]
    by (simp add: remote_inventory_ok_def assets windows2_all_less list_all_iff)
qed

text \<open>A server with one Live Photo, whose motion video is not on the timeline, in one album.\<close>

definition uuid_of :: "char \<Rightarrow> string" where
  "uuid_of c = ''00000000-0000-4000-8000-00000000000'' @ [c]"

definition remote_answer :: "string \<Rightarrow> AssetTypeResponse \<Rightarrow> string \<Rightarrow> string option \<Rightarrow> ArchiveAssetResponse" where
  "remote_answer i type name video =
     \<lparr>aar_id = i, aar_original_file_name = name, aar_checksum = name, aar_type = type,
      aar_exif_info = Some \<lparr>aer_file_size_in_byte = Some 3, aer_date_time_original = None, aer_description = Some ''sea'',
                            aer_latitude = None, aer_longitude = None\<rparr>,
      aar_file_created_at = Some ''1970-01-01T00:00:01Z'', aar_file_modified_at = Some ''1970-01-01T00:00:01Z'',
      aar_live_photo_video_id = video\<rparr>"

definition answer_body :: "string \<Rightarrow> http_response" where
  "answer_body body = \<lparr>hr_status = 200, hr_retry_after = None, hr_chunks = [Ok body]\<rparr>"

definition remote_assets :: "string \<Rightarrow> ArchiveAssetResponse option" where
  "remote_assets i =
     (if i = uuid_of CHR ''1'' then Some (remote_answer i TypeImage ''a.jpg'' (Some (uuid_of CHR ''2'')))
      else if i = uuid_of CHR ''2'' then Some (remote_answer i TypeVideo ''a.mov'' None) else None)"

definition sample_inventory_io :: "'s inventory_io" where
  "sample_inventory_io =
     \<lparr>ii_cancelled = (\<lambda>s. (False, s)), ii_api_url = (\<lambda>_. True),
      ii_send = (\<lambda>req s. (Ok (answer_body (case req of GetAsset i \<Rightarrow> i | _ \<Rightarrow> ''albums'')), s)),
      ii_send_cancellable = (\<lambda>req s. (Some (Ok (answer_body ''page'')), s)),
      ii_open_original = (\<lambda>i s. (Some (Ok \<lparr>or_response = answer_body [], or_content_length = Some 3,
         or_chunks = [Some (Ok ''ab''), Some (Ok ''c'')]\<rparr>), s)),
      ii_search_json = (\<lambda>body. Some \<lparr>asa_items = [the (remote_assets (uuid_of CHR ''1''))], asa_count = 1,
         asa_next_page = None, asa_total = 1\<rparr>),
      ii_asset_json = remote_assets,
      ii_albums_json = (\<lambda>_. Some [\<lparr>mar_id = uuid_of CHR ''3'', mar_album_name = ''trip'', mar_asset_count = 1\<rparr>]),
      ii_sha256 = toy_hash, ii_base64_decode = (\<lambda>_. Some (replicate 20 CHR ''a'')),
      ii_unix_nanos = (\<lambda>_. Some 1000000000), ii_canonical_timestamp = (\<lambda>_. Some ''1970-01-01T00:00:01Z'')\<rparr>"

definition source_client :: ImmichReadClient where
  "source_client = sample_client ''source'' (Literal (V4 0x7F000001)) Disposable"

definition source_negotiated :: NegotiatedServer where
  "source_negotiated = \<lparr>ns_compatibility = \<lparr>sc_version = \<lparr>sv_major = 3, sv_minor = 1, sv_patch = 0\<rparr>,
      sc_identity_sha256 = toy_hash ''source''\<rparr>,
     ns_origin_sha256 = toy_hash (canonical_origin (rc_endpoint source_client))\<rparr>"

abbreviation sample_inventory where
  "sample_inventory \<equiv>
     migration_inventory sample_inventory_io source_client source_negotiated MigrationListConfig_default ()"

lemma sample_inventory_assets:
  "map_ok (\<lambda>i. map rma_original_file_name (rmi_assets i)) (fst sample_inventory) = Ok [''a.jpg'', ''a.mov'']"
  by code_simp

lemma sample_inventory_albums:
  "map_ok (\<lambda>i. map (length o roa_asset_ids) (rmi_albums i)) (fst sample_inventory) = Ok [1]"
  by code_simp

theorem inventory_well_formed_witness:
  "\<exists>inventory. sample_inventory = (Ok inventory, ()) \<and>
     map rma_original_file_name (rmi_assets inventory) = [''a.jpg'', ''a.mov''] \<and>
     map (length o roa_asset_ids) (rmi_albums inventory) = [1] \<and>
     remote_inventory_ok MigrationListConfig_default inventory"
proof -
  obtain inventory where run: "fst sample_inventory = Ok inventory"
    and names: "map rma_original_file_name (rmi_assets inventory) = [''a.jpg'', ''a.mov'']"
      "map (length o roa_asset_ids) (rmi_albums inventory) = [1]"
    using sample_inventory_assets sample_inventory_albums by (auto simp del: map_eq_Cons_conv simp: map_ok_eq_Ok)
  then have "sample_inventory = (Ok inventory, ())" by (simp add: prod_eq_iff)
  moreover have "mlc_max_album_memberships MigrationListConfig_default < u64_max" by code_simp
  ultimately have "remote_inventory_ok MigrationListConfig_default inventory" by (rule inventory_well_formed)
  with run names show ?thesis by (auto simp: prod_eq_iff simp del: map_eq_Cons_conv)
qed

end
