(* ===== verification/Source_Config.thy ===== *)
theory Source_Config
  imports Core_Reports
begin

text \<open>
  \<open>immich-sources/src/scan.rs\<close>, with the Apple Photos and Picasa limits of \<open>apple_photos.rs\<close> and
  \<open>picasa.rs\<close>: the memory and portability limits of a scan, their validation and the
  failures of a scan. Buffer sizes and entry counts are \<open>usize\<close> values and stand as natural
  numbers; the byte limits of archives are 64-bit words.
\<close>

datatype ScanError =
    ScanInvalidConfiguration string
  | ScanInvalidRoot
  | ScanUnsupportedLayout string
  | ScanInvalidArchive string
  | ScanLimitExceeded string
  | ScanCancelled
  | ScanInvalidPlan PlanValidationError

section \<open>Folder limits\<close>

record FolderScanConfig =
  fs_buffer_bytes :: nat
  fs_max_entries :: nat
  fs_max_directory_entries :: nat
  fs_max_path_bytes :: nat
  fs_case_sensitive :: bool

definition FolderScanConfig_default :: FolderScanConfig where
  "FolderScanConfig_default =
     \<lparr>fs_buffer_bytes = 64 * 1024, fs_max_entries = 100000, fs_max_directory_entries = 10000,
      fs_max_path_bytes = 4096, fs_case_sensitive = True\<rparr>"

definition FolderScanConfig_validate :: "FolderScanConfig \<Rightarrow> (unit, ScanError) result" where
  "FolderScanConfig_validate c =
     (if \<not> (4 * 1024 \<le> fs_buffer_bytes c \<and> fs_buffer_bytes c \<le> 4 * 1024 * 1024)
      then Err (ScanInvalidConfiguration ''buffer_bytes must be in 4096..=4194304'')
      else if fs_max_entries c = 0 \<or> fs_max_directory_entries c = 0
      then Err (ScanInvalidConfiguration ''entry limits must be greater than zero'')
      else if \<not> (64 \<le> fs_max_path_bytes c \<and> fs_max_path_bytes c \<le> 65536)
      then Err (ScanInvalidConfiguration ''max_path_bytes must be in 64..=65536'')
      else Ok ())"

section \<open>Archive limits\<close>

record TakeoutScanConfig =
  tc_scan :: FolderScanConfig
  tc_max_archives :: nat
  tc_max_archive_entry_bytes :: u64
  tc_max_compression_ratio :: u64
  tc_compression_ratio_grace_bytes :: u64

definition TakeoutScanConfig_default :: TakeoutScanConfig where
  "TakeoutScanConfig_default =
     \<lparr>tc_scan = FolderScanConfig_default, tc_max_archives = 64, tc_max_archive_entry_bytes = 1099511627776,
      tc_max_compression_ratio = 200, tc_compression_ratio_grace_bytes = 1048576\<rparr>"

definition TakeoutScanConfig_validate :: "TakeoutScanConfig \<Rightarrow> (unit, ScanError) result" where
  "TakeoutScanConfig_validate c =
     and_then (FolderScanConfig_validate (tc_scan c)) (\<lambda>_.
       if \<not> (1 \<le> tc_max_archives c \<and> tc_max_archives c \<le> 64)
       then Err (ScanInvalidConfiguration ''max_archives must be in 1..=64'')
       else if tc_max_archive_entry_bytes c = 0 \<or> \<not> (1 \<le> tc_max_compression_ratio c \<and> tc_max_compression_ratio c \<le> 10000)
       then Err (ScanInvalidConfiguration ''archive byte and compression limits must be positive and bounded'')
       else Ok ())"

text \<open>The Apple Photos limits add how albums are read off folders.\<close>

datatype AlbumMode = AlbumNone | AlbumFolder | AlbumPath

record ApplePhotosScanConfig =
  ac_scan :: FolderScanConfig
  ac_max_archives :: nat
  ac_max_archive_entry_bytes :: u64
  ac_max_compression_ratio :: u64
  ac_compression_ratio_grace_bytes :: u64
  ac_album_mode :: AlbumMode
  ac_album_path_joiner :: string

definition ApplePhotosScanConfig_default :: ApplePhotosScanConfig where
  "ApplePhotosScanConfig_default =
     \<lparr>ac_scan = FolderScanConfig_default, ac_max_archives = 64, ac_max_archive_entry_bytes = 1099511627776,
      ac_max_compression_ratio = 200, ac_compression_ratio_grace_bytes = 1048576,
      ac_album_mode = AlbumNone, ac_album_path_joiner = '' - ''\<rparr>"

definition ApplePhotosScanConfig_validate :: "ApplePhotosScanConfig \<Rightarrow> (unit, ScanError) result" where
  "ApplePhotosScanConfig_validate c =
     and_then (FolderScanConfig_validate (ac_scan c)) (\<lambda>_.
       if \<not> (1 \<le> ac_max_archives c \<and> ac_max_archives c \<le> 64)
       then Err (ScanInvalidConfiguration ''max_archives must be in 1..=64'')
       else if ac_max_archive_entry_bytes c = 0 \<or> \<not> (1 \<le> ac_max_compression_ratio c \<and> ac_max_compression_ratio c \<le> 10000)
       then Err (ScanInvalidConfiguration ''archive byte and compression limits must be positive and bounded'')
       else let joiner = ac_album_path_joiner c in
         if joiner = [] \<or> length joiner > 32 \<or> CHR ''/'' \<in> set joiner \<or> CHR 0x5C \<in> set joiner \<or> any_control joiner
         then Err (ScanInvalidConfiguration ''album_path_joiner must be 1..=32 safe UTF-8 bytes'')
         else Ok ())"

record PicasaScanConfig =
  pc_scan :: FolderScanConfig
  pc_max_archives :: nat
  pc_max_archive_entry_bytes :: u64
  pc_max_compression_ratio :: u64
  pc_compression_ratio_grace_bytes :: u64
  pc_album_mode :: AlbumMode
  pc_album_path_joiner :: string
  pc_picasa_albums :: bool
  pc_filename_date :: bool

definition PicasaScanConfig_default :: PicasaScanConfig where
  "PicasaScanConfig_default =
     (let common = ApplePhotosScanConfig_default in
      \<lparr>pc_scan = ac_scan common, pc_max_archives = ac_max_archives common,
       pc_max_archive_entry_bytes = ac_max_archive_entry_bytes common,
       pc_max_compression_ratio = ac_max_compression_ratio common,
       pc_compression_ratio_grace_bytes = ac_compression_ratio_grace_bytes common,
       pc_album_mode = AlbumNone, pc_album_path_joiner = '' / '',
       pc_picasa_albums = True, pc_filename_date = True\<rparr>)"

definition PicasaScanConfig_validate :: "PicasaScanConfig \<Rightarrow> (unit, ScanError) result" where
  "PicasaScanConfig_validate c =
     and_then (FolderScanConfig_validate (pc_scan c)) (\<lambda>_.
       if \<not> (1 \<le> pc_max_archives c \<and> pc_max_archives c \<le> 64) \<or> pc_max_archive_entry_bytes c = 0
          \<or> \<not> (1 \<le> pc_max_compression_ratio c \<and> pc_max_compression_ratio c \<le> 10000)
       then Err (ScanInvalidConfiguration ''Picasa archive limits must be positive and bounded'')
       else let joiner = pc_album_path_joiner c in
         if joiner = [] \<or> length joiner > 32 \<or> CHR 0x5C \<in> set joiner \<or> any_control joiner
         then Err (ScanInvalidConfiguration ''album_path_joiner must be 1..=32 safe UTF-8 bytes'')
         else Ok ())"

definition as_archive_config :: "PicasaScanConfig \<Rightarrow> ApplePhotosScanConfig" where
  "as_archive_config c =
     \<lparr>ac_scan = pc_scan c, ac_max_archives = pc_max_archives c,
      ac_max_archive_entry_bytes = pc_max_archive_entry_bytes c,
      ac_max_compression_ratio = pc_max_compression_ratio c,
      ac_compression_ratio_grace_bytes = pc_compression_ratio_grace_bytes c,
      ac_album_mode = AlbumNone, ac_album_path_joiner = ''-''\<rparr>"

text \<open>A Picasa configuration that validates also validates as the archive configuration it is
  scanned with.\<close>

lemma as_archive_config_valid:
  "PicasaScanConfig_validate c = Ok () \<Longrightarrow> ApplePhotosScanConfig_validate (as_archive_config c) = Ok ()"
  by (auto simp: PicasaScanConfig_validate_def ApplePhotosScanConfig_validate_def as_archive_config_def
      and_then_eq_Ok Let_def ascii_control_def split: if_splits)

end
