(* ===== verification/Exec_Retry.thy ===== *)
theory Exec_Retry
  imports Client_Http Source_Config
begin

text \<open>
  \<open>immich-executor/src/error.rs\<close>, \<open>config.rs\<close> and \<open>retry.rs\<close>: the executor's failure
  classes, its bounded configuration and its retry policy. SHA-256 (raw digest)
  and the JSON encoding of the configuration identity are parameters.
\<close>

datatype ExecutorErrorClass =
    EE_InvalidConfiguration | EE_InvalidPlan | EE_SourceDiagnostics | EE_UnsupportedMetadata
  | EE_SourceChanged | EE_Cancelled | EE_Checkpoint | EE_Destination | EE_Client | EE_Invariant

section \<open>Configuration\<close>

record UploadExecutionConfig =
  ec_scan :: FolderScanConfig
  ec_verification_buffer_bytes :: nat
  ec_concurrency :: nat
  ec_max_attempts_per_operation :: nat
  ec_max_retries_per_run :: nat
  ec_retry_base_delay :: duration
  ec_retry_delay_cap :: duration

definition UploadExecutionConfig_default :: UploadExecutionConfig where
  "UploadExecutionConfig_default =
     \<lparr>ec_scan = FolderScanConfig_default, ec_verification_buffer_bytes = 64 * 1024, ec_concurrency = 1,
      ec_max_attempts_per_operation = 3, ec_max_retries_per_run = 100,
      ec_retry_base_delay = from_millis 100, ec_retry_delay_cap = from_secs 10\<rparr>"

definition UploadExecutionConfig_validate :: "UploadExecutionConfig \<Rightarrow> (unit, ExecutorErrorClass) result" where
  "UploadExecutionConfig_validate c =
     ensure (4 * 1024 \<le> ec_verification_buffer_bytes c \<and> ec_verification_buffer_bytes c \<le> 4 * 1024 * 1024
        \<and> 1 \<le> ec_concurrency c \<and> ec_concurrency c \<le> 8
        \<and> 1 \<le> ec_max_attempts_per_operation c \<and> ec_max_attempts_per_operation c \<le> 10
        \<and> ec_max_retries_per_run c \<le> 10000
        \<and> ec_retry_base_delay c \<noteq> 0
        \<and> ec_retry_base_delay c \<le> ec_retry_delay_cap c
        \<and> ec_retry_delay_cap c \<le> from_secs 300)
       EE_InvalidConfiguration"

record ConfigurationIdentity =
  ci_scan_buffer_bytes :: nat
  ci_max_entries :: nat
  ci_max_directory_entries :: nat
  ci_max_path_bytes :: nat
  ci_case_sensitive :: bool
  ci_verification_buffer_bytes :: nat
  ci_concurrency :: nat
  ci_max_attempts_per_operation :: nat
  ci_max_retries_per_run :: nat
  ci_retry_base_delay_ms :: nat
  ci_retry_delay_cap_ms :: nat

definition config_duration_millis :: "duration \<Rightarrow> (nat, ExecutorErrorClass) result" where
  "config_duration_millis d =
     (if d div 1000000 \<le> u64_max then Ok (d div 1000000) else Err EE_InvalidConfiguration)"

definition identity_sha256 ::
  "(ConfigurationIdentity \<Rightarrow> string option) \<Rightarrow> (string \<Rightarrow> string) \<Rightarrow> UploadExecutionConfig
     \<Rightarrow> (string, ExecutorErrorClass) result" where
  "identity_sha256 to_vec sha256_hex c =
     and_then (UploadExecutionConfig_validate c) (\<lambda>_.
     and_then (config_duration_millis (ec_retry_base_delay c)) (\<lambda>base.
     and_then (config_duration_millis (ec_retry_delay_cap c)) (\<lambda>cap.
     let identity =
        \<lparr>ci_scan_buffer_bytes = fs_buffer_bytes (ec_scan c), ci_max_entries = fs_max_entries (ec_scan c),
         ci_max_directory_entries = fs_max_directory_entries (ec_scan c),
         ci_max_path_bytes = fs_max_path_bytes (ec_scan c), ci_case_sensitive = fs_case_sensitive (ec_scan c),
         ci_verification_buffer_bytes = ec_verification_buffer_bytes c, ci_concurrency = ec_concurrency c,
         ci_max_attempts_per_operation = ec_max_attempts_per_operation c,
         ci_max_retries_per_run = ec_max_retries_per_run c,
         ci_retry_base_delay_ms = base, ci_retry_delay_cap_ms = cap\<rparr> in
     map_ok sha256_hex (ok_or (to_vec identity) EE_Invariant))))"

section \<open>Retry budget\<close>

record RetryBudget =
  rb_used :: nat
  rb_maximum :: nat

definition RetryBudget_new :: "nat \<Rightarrow> RetryBudget" where
  "RetryBudget_new maximum = \<lparr>rb_used = 0, rb_maximum = maximum\<rparr>"

text \<open>The atomic \<open>fetch_update\<close>: whether a retry was granted, and the budget after it. The
  counter stays at most the maximum, so its saturating increment never saturates.\<close>

definition RetryBudget_claim :: "RetryBudget \<Rightarrow> bool \<times> RetryBudget" where
  "RetryBudget_claim b =
     (if rb_used b < rb_maximum b then (True, b \<lparr>rb_used := rb_used b + 1\<rparr>) else (False, b))"

section \<open>Backoff\<close>

definition u32_to_be_bytes :: "nat \<Rightarrow> string" where
  "u32_to_be_bytes n = map (\<lambda>k. char_of ((n div 256 ^ k) mod 256)) [3, 2, 1, 0]"

definition u64_from_be_bytes :: "string \<Rightarrow> nat" where
  "u64_from_be_bytes bs = foldl (\<lambda>n c. 256 * n + byte_of c) 0 bs"

definition DURATION_MAX :: duration where
  "DURATION_MAX = u64_max * 1000000000 + 999999999"

definition duration_millis :: "duration \<Rightarrow> nat" where
  "duration_millis d = min (d div 1000000) u64_max"

definition delay ::
  "(string \<Rightarrow> string) \<Rightarrow> string \<Rightarrow> nat \<Rightarrow> ClientError \<Rightarrow> UploadExecutionConfig \<Rightarrow> duration" where
  "delay sha256 operation_id retry_count e config =
     (case ce_retry_after e of
        Some server_delay \<Rightarrow> min server_delay (ec_retry_delay_cap config)
      | None \<Rightarrow>
          let exponent = min (retry_count - 1) 20;
              factor = 2 ^ exponent;
              exponential = min (min (ec_retry_base_delay config * factor) DURATION_MAX) (ec_retry_delay_cap config);
              jitter_window = duration_millis (ec_retry_base_delay config) div 4
          in if jitter_window = 0 then exponential
             else let digest = sha256 (operation_id @ u32_to_be_bytes retry_count);
                      jitter = u64_from_be_bytes (take 8 digest) mod jitter_window
                  in min (min (exponential + from_millis jitter) DURATION_MAX) (ec_retry_delay_cap config))"

section \<open>Facts\<close>

definition budget_ok :: "RetryBudget \<Rightarrow> bool" where
  "budget_ok b \<longleftrightarrow> rb_used b \<le> rb_maximum b"

lemma claim_ok [simp]: "budget_ok b \<Longrightarrow> budget_ok (snd (RetryBudget_claim b))"
  by (simp add: budget_ok_def RetryBudget_claim_def)

lemma claim_maximum [simp]: "rb_maximum (snd (RetryBudget_claim b)) = rb_maximum b"
  by (simp add: RetryBudget_claim_def)

lemma new_ok [simp]: "budget_ok (RetryBudget_new m)"
  by (simp add: budget_ok_def RetryBudget_new_def)

text \<open>Any sequence of claims by the concurrent groups, in the order the atomic updates take
  effect.\<close>

primrec claims :: "nat \<Rightarrow> RetryBudget \<Rightarrow> bool list \<times> RetryBudget" where
  "claims 0 b = ([], b)"
| "claims (Suc n) b =
     (let (granted, b1) = RetryBudget_claim b; (rest, b2) = claims n b1 in (granted # rest, b2))"

lemma claims_granted:
  "rb_used b \<le> rb_maximum b \<Longrightarrow>
     length (filter id (fst (claims n b))) = min n (rb_maximum b - rb_used b)"
proof (induction n arbitrary: b)
  case (Suc n)
  show ?case
  proof (cases "rb_used b < rb_maximum b")
    case True
    then show ?thesis
      using Suc.IH [of "b \<lparr>rb_used := Suc (rb_used b)\<rparr>"]
      by (auto simp: RetryBudget_claim_def split: prod.splits)
  next
    case False
    then show ?thesis
      using Suc.IH [of b] Suc.prems by (auto simp: RetryBudget_claim_def split: prod.splits)
  qed
qed simp

lemma validate_config_iff:
  "UploadExecutionConfig_validate c = Ok () \<longleftrightarrow>
     ec_verification_buffer_bytes c \<in> {4096..4194304} \<and> ec_concurrency c \<in> {1..8} \<and>
     ec_max_attempts_per_operation c \<in> {1..10} \<and> ec_max_retries_per_run c \<le> 10000 \<and>
     0 < ec_retry_base_delay c \<and> ec_retry_base_delay c \<le> ec_retry_delay_cap c \<and>
     ec_retry_delay_cap c \<le> 300000000000"
  by (auto simp: UploadExecutionConfig_validate_def from_secs_def)

lemma delay_le_cap: "delay sha256 i n e c \<le> ec_retry_delay_cap c"
  unfolding delay_def Let_def
  by (cases "ce_retry_after e"; cases "duration_millis (ec_retry_base_delay c) div 4 = 0")
    (simp_all only: option.case refl if_True if_False min.cobounded2)

text \<open>The deterministic part of the backoff: the base delay doubled per retry, within the cap.\<close>

definition exponential_delay :: "nat \<Rightarrow> UploadExecutionConfig \<Rightarrow> duration" where
  "exponential_delay n c = min (ec_retry_base_delay c * 2 ^ min (n - 1) 20) (ec_retry_delay_cap c)"

lemma delay_window:
  assumes "ce_retry_after e = None" "ec_retry_delay_cap c \<le> DURATION_MAX"
  shows "exponential_delay n c \<le> delay sha256 i n e c"
    and "delay sha256 i n e c \<le> exponential_delay n c + ec_retry_base_delay c div 4"
proof -
  let ?j = "u64_from_be_bytes (take 8 (sha256 (i @ u32_to_be_bytes n))) mod (duration_millis (ec_retry_base_delay c) div 4)"
  have exp: "min (min (ec_retry_base_delay c * 2 ^ min (n - 1) 20) DURATION_MAX) (ec_retry_delay_cap c)
      = exponential_delay n c"
    using assms(2) by (simp add: exponential_delay_def min_def)
  have le: "exponential_delay n c \<le> DURATION_MAX" "exponential_delay n c \<le> ec_retry_delay_cap c"
    using assms(2) by (auto simp: exponential_delay_def)
  show "exponential_delay n c \<le> delay sha256 i n e c"
    using assms(1) le by (simp add: delay_def Let_def exp del: One_nat_def)
  have "from_millis ?j \<le> ec_retry_base_delay c div 4" if "duration_millis (ec_retry_base_delay c) div 4 \<noteq> 0"
  proof -
    have "?j < duration_millis (ec_retry_base_delay c) div 4" using that by (intro mod_less_divisor) simp
    then have "?j * 1000000 \<le> (duration_millis (ec_retry_base_delay c) div 4) * 1000000" by simp
    also have "\<dots> \<le> ((ec_retry_base_delay c div 1000000) div 4) * 1000000"
      by (intro mult_le_mono1 div_le_mono) (simp add: duration_millis_def)
    also have "\<dots> \<le> ec_retry_base_delay c div 4"
      by (metis div_mult2_eq mult.commute div_times_less_eq_dividend)
    finally show ?thesis by (simp add: from_millis_def)
  qed
  then show "delay sha256 i n e c \<le> exponential_delay n c + ec_retry_base_delay c div 4"
    using assms(1) by (auto simp: delay_def Let_def exp min_le_iff_disj simp del: One_nat_def)
qed

section \<open>Properties\<close>

text \<open>C24: a valid configuration never waits longer than its cap, at most five minutes, before
  a retry, whatever the server asks for; and without a server-requested delay the
  wait is at least the doubled base delay and exceeds it by at most a quarter of
  the base delay (the deterministic jitter).\<close>

theorem retry_delay_bounds:
  assumes "UploadExecutionConfig_validate config = Ok ()"
  shows "delay sha256 i n e config \<le> from_secs 300 \<and> delay sha256 i n e config \<le> ec_retry_delay_cap config \<and>
    (ce_retry_after e = None \<longrightarrow>
       exponential_delay n config \<le> delay sha256 i n e config \<and>
       delay sha256 i n e config \<le> exponential_delay n config + ec_retry_base_delay config div 4)"
proof -
  have cap: "ec_retry_delay_cap config \<le> from_secs 300" "ec_retry_delay_cap config \<le> DURATION_MAX"
    using assms by (auto simp: validate_config_iff from_secs_def DURATION_MAX_def u64_max_val)
  then show ?thesis
    using delay_le_cap [of sha256 i n e config] delay_window [of e config] by auto
qed

theorem retry_delay_bounds_witness:
  "delay (\<lambda>_. replicate 32 CHR 0x07) ''op'' 2 (ClientError_new Timeout) UploadExecutionConfig_default
     \<in> {from_millis 200..from_millis 225}"
proof -
  have "UploadExecutionConfig_validate UploadExecutionConfig_default = Ok ()" by code_simp
  from retry_delay_bounds [OF this, of "\<lambda>_. replicate 32 CHR 0x07" "''op''" 2 "ClientError_new Timeout"]
  show ?thesis
    by (simp add: exponential_delay_def UploadExecutionConfig_default_def from_millis_def from_secs_def)
qed

text \<open>However the concurrent groups of a run interleave their claims, a fresh budget
  grants exactly as many retries as are claimed, up to its maximum, and no more.\<close>

theorem retry_budget_exact:
  "length (filter id (fst (claims n (RetryBudget_new m)))) = min n m"
  using claims_granted [of "RetryBudget_new m" n] by (simp add: RetryBudget_new_def)

end
