(* ===== verification/Disk.thy ===== *)
theory Disk
  imports Prelude
begin

text \<open>
  The file system as the executor sees it: \<open>dk_tree p\<close> is the node that a look at path \<open>p\<close> finds, behind
  calls that may fail. A path is the list of its components from the root. Links, sockets and other
  special nodes are one kind of node; no two paths are taken to name the same node. Each call takes
  the next entry of \<open>dk_faults\<close>: \<open>None\<close> when the system lets it through, \<open>Some n\<close> when it fails, for a
  write after \<open>n\<close> bytes; a component longer than \<open>dk_name_max\<close> is refused, and so is a path below a
  regular file. Nobody else writes to the tree while a run lasts.
\<close>

type_synonym path = "string list"

datatype node = DirNode | FileNode string | OtherNode

record disk =
  dk_tree :: "path \<Rightarrow> node option"
  dk_faults :: "nat option list"
  dk_name_max :: nat

datatype io_error = IoNotFound | IoOther

definition next_fault :: "disk \<Rightarrow> nat option \<times> disk" where
  "next_fault d = (case dk_faults d of [] \<Rightarrow> (None, d) | f # fs \<Rightarrow> (f, d \<lparr>dk_faults := fs\<rparr>))"

definition set_node :: "path \<Rightarrow> node option \<Rightarrow> disk \<Rightarrow> disk" where
  "set_node p n d = d \<lparr>dk_tree := (dk_tree d) (p := n)\<rparr>"

definition names_fit :: "disk \<Rightarrow> path \<Rightarrow> bool" where
  "names_fit d p = list_all (\<lambda>c. length c \<le> dk_name_max d) p"

definition below_file :: "disk \<Rightarrow> path \<Rightarrow> bool" where
  "below_file d p = list_ex (\<lambda>n. case dk_tree d (take n p) of Some (FileNode _) \<Rightarrow> True | _ \<Rightarrow> False) [0..<length p]"

section \<open>Calls\<close>

definition symlink_metadata :: "path \<Rightarrow> disk \<Rightarrow> (node, io_error) result \<times> disk" where
  "symlink_metadata p d =
     (let (f, d1) = next_fault d in
      (if f \<noteq> None \<or> \<not> names_fit d1 p \<or> below_file d1 p then Err IoOther
       else (case dk_tree d1 p of None \<Rightarrow> Err IoNotFound | Some n \<Rightarrow> Ok n), d1))"

definition create_dir :: "path \<Rightarrow> disk \<Rightarrow> bool \<times> disk" where
  "create_dir p d =
     (let (f, d1) = next_fault d in
      if f \<noteq> None \<or> \<not> names_fit d1 p \<or> dk_tree d1 p \<noteq> None \<or> p = [] \<or> dk_tree d1 (butlast p) \<noteq> Some DirNode then (False, d1)
      else (True, set_node p (Some DirNode) d1))"

definition create_new :: "path \<Rightarrow> disk \<Rightarrow> bool \<times> disk" where
  "create_new p d =
     (let (f, d1) = next_fault d in
      if f \<noteq> None \<or> \<not> names_fit d1 p \<or> dk_tree d1 p \<noteq> None \<or> p = [] \<or> dk_tree d1 (butlast p) \<noteq> Some DirNode then (False, d1)
      else (True, set_node p (Some (FileNode [])) d1))"

text \<open>\<open>write_all\<close> on an open file: a failed write may have stored a part.\<close>

definition write_all :: "path \<Rightarrow> string \<Rightarrow> disk \<Rightarrow> bool \<times> disk" where
  "write_all p chunk d =
     (let (f, d1) = next_fault d in
      case dk_tree d1 p of
        Some (FileNode content) \<Rightarrow>
          (f = None, set_node p (Some (FileNode (content @ (case f of None \<Rightarrow> chunk | Some n \<Rightarrow> take n chunk)))) d1)
      | _ \<Rightarrow> (False, d1))"

definition sync_all :: "path \<Rightarrow> disk \<Rightarrow> bool \<times> disk" where
  "sync_all p d = (let (f, d1) = next_fault d in (f = None, d1))"

definition rename :: "path \<Rightarrow> path \<Rightarrow> disk \<Rightarrow> bool \<times> disk" where
  "rename p q d =
     (let (f, d1) = next_fault d in
      if f \<noteq> None \<or> \<not> names_fit d1 q \<or> dk_tree d1 p = None \<or> dk_tree d1 p = Some DirNode \<or> dk_tree d1 q = Some DirNode
         \<or> dk_tree d1 (butlast q) \<noteq> Some DirNode
      then (False, d1)
      else (True, set_node q (dk_tree d1 p) (if p = q then d1 else set_node p None d1)))"

definition remove_file :: "path \<Rightarrow> disk \<Rightarrow> bool \<times> disk" where
  "remove_file p d =
     (let (f, d1) = next_fault d in
      if f \<noteq> None \<or> dk_tree d1 p = None \<or> dk_tree d1 p = Some DirNode then (False, d1)
      else (True, set_node p None d1))"

text \<open>Opening a file for reading gives its bytes.\<close>

definition open_file :: "path \<Rightarrow> disk \<Rightarrow> string option \<times> disk" where
  "open_file p d =
     (let (f, d1) = next_fault d in
      (if f \<noteq> None then None else (case dk_tree d1 p of Some (FileNode content) \<Rightarrow> Some content | _ \<Rightarrow> None), d1))"

section \<open>Frame\<close>

text \<open>What a call leaves alone.\<close>

lemma tree_set_node [simp]: "dk_tree (set_node p n d) = (dk_tree d) (p := n)"
  by (simp add: set_node_def)

lemma tree_next_fault [simp]: "dk_tree (snd (next_fault d)) = dk_tree d"
  by (simp add: next_fault_def split: list.split)

lemma next_fault_tree: "next_fault d = (f, d1) \<Longrightarrow> dk_tree d1 = dk_tree d"
  using tree_next_fault [of d] by simp

lemma symlink_metadata_tree: "symlink_metadata p d = (r, d') \<Longrightarrow> dk_tree d' = dk_tree d"
  by (auto simp: symlink_metadata_def dest: next_fault_tree split: prod.splits)

lemma symlink_metadata_Ok: "symlink_metadata p d = (Ok n, d') \<Longrightarrow> dk_tree d p = Some n"
  by (auto simp: symlink_metadata_def dest: next_fault_tree split: prod.splits if_splits option.splits)

lemma symlink_metadata_missing: "symlink_metadata p d = (Err IoNotFound, d') \<Longrightarrow> dk_tree d p = None"
  by (auto simp: symlink_metadata_def dest: next_fault_tree split: prod.splits if_splits option.splits)

lemma create_dir_tree:
  "create_dir p d = (ok, d') \<Longrightarrow> dk_tree d' = (if ok then (dk_tree d) (p \<mapsto> DirNode) else dk_tree d) \<and> (ok \<longrightarrow> dk_tree d p = None)"
  by (auto simp: create_dir_def dest: next_fault_tree split: prod.splits if_splits)

lemma create_new_tree:
  "create_new p d = (ok, d') \<Longrightarrow> dk_tree d' = (if ok then (dk_tree d) (p \<mapsto> FileNode []) else dk_tree d) \<and> (ok \<longrightarrow> dk_tree d p = None)"
  by (auto simp: create_new_def dest: next_fault_tree split: prod.splits if_splits)

lemma write_all_tree:
  "write_all p chunk d = (ok, d') \<Longrightarrow> dk_tree d p = Some (FileNode content) \<Longrightarrow>
     \<exists>more. dk_tree d' = (dk_tree d) (p \<mapsto> FileNode (content @ more)) \<and> (ok \<longrightarrow> more = chunk)"
  by (auto simp: write_all_def dest!: next_fault_tree split: prod.splits option.splits node.splits)

lemma sync_all_tree: "sync_all p d = (ok, d') \<Longrightarrow> dk_tree d' = dk_tree d"
  by (auto simp: sync_all_def dest: next_fault_tree split: prod.splits)

lemma rename_tree:
  "rename p q d = (ok, d') \<Longrightarrow> p \<noteq> q \<Longrightarrow>
     dk_tree d' = (if ok then (dk_tree d) (p := None, q := dk_tree d p) else dk_tree d)"
  by (auto simp: rename_def dest: next_fault_tree split: prod.splits if_splits)

lemma remove_file_tree:
  "remove_file p d = (ok, d') \<Longrightarrow> dk_tree d' = (if ok then (dk_tree d) (p := None) else dk_tree d)"
  by (auto simp: remove_file_def dest: next_fault_tree split: prod.splits if_splits)

lemma remove_file_changes: "remove_file p d = (ok, d') \<Longrightarrow> x \<noteq> p \<Longrightarrow> dk_tree d' x = dk_tree d x"
  by (simp add: remove_file_tree)

lemma open_file_tree: "open_file p d = (r, d') \<Longrightarrow> dk_tree d' = dk_tree d"
  by (auto simp: open_file_def dest: next_fault_tree split: prod.splits)

lemma open_file_Some: "open_file p d = (Some content, d') \<Longrightarrow> dk_tree d p = Some (FileNode content)"
  by (auto simp: open_file_def dest: next_fault_tree split: prod.splits if_splits option.splits node.splits)

text \<open>No call changes what names the system takes.\<close>

lemma next_fault_name_max: "next_fault d = (f, d1) \<Longrightarrow> dk_name_max d1 = dk_name_max d"
  by (auto simp: next_fault_def split: list.splits)

lemma set_node_name_max [simp]: "dk_name_max (set_node p n d) = dk_name_max d"
  by (simp add: set_node_def)

lemma call_name_max:
  "symlink_metadata p d = (r, d') \<Longrightarrow> dk_name_max d' = dk_name_max d"
  "create_dir p d = (ok, d') \<Longrightarrow> dk_name_max d' = dk_name_max d"
  "create_new p d = (ok, d') \<Longrightarrow> dk_name_max d' = dk_name_max d"
  "write_all p chunk d = (ok, d') \<Longrightarrow> dk_name_max d' = dk_name_max d"
  "sync_all p d = (ok, d') \<Longrightarrow> dk_name_max d' = dk_name_max d"
  "rename p q d = (ok, d') \<Longrightarrow> dk_name_max d' = dk_name_max d"
  "remove_file p d = (ok, d') \<Longrightarrow> dk_name_max d' = dk_name_max d"
  "open_file p d = (c, d') \<Longrightarrow> dk_name_max d' = dk_name_max d"
  by (auto simp: symlink_metadata_def create_dir_def create_new_def write_all_def sync_all_def rename_def
      remove_file_def open_file_def dest: next_fault_name_max split: prod.splits if_splits option.splits node.splits)

lemma create_new_names_fit: "create_new p d = (True, d') \<Longrightarrow> list_all (\<lambda>c. length c \<le> dk_name_max d) p"
  by (auto simp: create_new_def names_fit_def dest: next_fault_name_max split: prod.splits if_splits)

end
