(* ===== verification/Exec_Archive.thy ===== *)
theory Exec_Archive
  imports Client_Inventory Core_Archive Exec_Retry Disk
begin

text \<open>
  \<open>immich-executor/src/archive_plan.rs\<close> and \<open>archive_apply.rs\<close>: from the inventory of a server to an
  archive manifest, and the download of the originals of a manifest below a local directory. The
  disk is that of theory \<open>Disk\<close>; SHA-1, SHA-256 and the JSON encoders are parameters.
\<close>

section \<open>Manifests\<close>

datatype ArchiveSelection = SelectTimeline | SelectArchive | SelectHidden | SelectAll

record ArchivePlanningConfig =
  apc_selection :: ArchiveSelection
  apc_include_trashed :: bool
  apc_page_size :: nat
  apc_max_assets :: nat

definition ArchivePlanningConfig_default :: ArchivePlanningConfig where
  "ArchivePlanningConfig_default =
     \<lparr>apc_selection = SelectTimeline, apc_include_trashed = False, apc_page_size = 100, apc_max_assets = 100000\<rparr>"

definition ArchivePlanningConfig_validate :: "ArchivePlanningConfig \<Rightarrow> (unit, ExecutorErrorClass) result" where
  "ArchivePlanningConfig_validate c =
     (if 1 \<le> apc_page_size c \<and> apc_page_size c \<le> 1000 \<and> apc_max_assets c > 0 then Ok () else Err EE_InvalidConfiguration)"

definition manifest_asset :: "RemoteArchiveAsset \<Rightarrow> ArchiveAsset" where
  "manifest_asset remote =
     \<lparr>aa_asset_id = rar_asset_id remote,
      aa_original_file_name = rar_original_file_name remote,
      aa_target_path = ''assets/'' @ rar_asset_id remote @ ''/'' @ rar_original_file_name remote,
      aa_media_kind = rar_media_kind remote,
      aa_byte_len = rar_byte_len remote, aa_checksum_sha1 = rar_checksum_sha1 remote\<rparr>"

text \<open>Validation of a manifest can panic (\<open>Core_Archive.archive_validate_panics\<close>); a panic ends the call.\<close>

definition invalid_plan :: "'a fault \<Rightarrow> ExecutorErrorClass fault" where
  "invalid_plan f = (case f of Panic \<Rightarrow> Panic | Raise _ \<Rightarrow> Raise EE_InvalidPlan)"

definition create_archive_manifest ::
  "(ArchivePlanningConfig \<Rightarrow> string option) \<Rightarrow> (string \<Rightarrow> string) \<Rightarrow> RemoteArchiveAsset list \<Rightarrow> ServerCompatibility
     \<Rightarrow> ArchivePlanningConfig \<Rightarrow> (ArchiveManifest, ExecutorErrorClass fault) result" where
  "create_archive_manifest to_vec sha256 remote_assets server config =
     and_then (map_err Raise (ArchivePlanningConfig_validate config)) (\<lambda>_.
       if length remote_assets > apc_max_assets config \<or> sv_major (sc_version server) \<noteq> 3 \<or> sv_minor (sc_version server) \<noteq> 1
       then Err (Raise EE_InvalidPlan)
       else
         let assets = sort_key aa_target_path (map manifest_asset remote_assets) in
         and_then (fold_result (\<lambda>asset bytes. ok_or (checked_add bytes (aa_byte_len asset)) (Raise EE_InvalidPlan)) assets 0)
           (\<lambda>media_bytes.
         and_then (ok_or (to_vec config) (Raise EE_Invariant)) (\<lambda>configuration.
           let manifest = \<lparr>am_schema_version = ARCHIVE_MANIFEST_SCHEMA_VERSION, am_server = server,
                 am_configuration_sha256 = sha256 configuration, am_assets = assets,
                 am_summary = \<lparr>ams_assets = of_nat (length assets), ams_media_bytes = media_bytes\<rparr>\<rparr> in
           and_then (map_err invalid_plan (ArchiveManifest_validate manifest)) (\<lambda>_. Ok manifest))))"

section \<open>Directories\<close>

datatype path_component = RootDir | CurDir | ParentDir | Normal string

definition create_or_validate_directory :: "path \<Rightarrow> disk \<Rightarrow> (unit, ExecutorErrorClass) result \<times> disk" where
  "create_or_validate_directory p d =
     (case symlink_metadata p d of
        (Ok DirNode, d1) \<Rightarrow> (Ok (), d1)
      | (Err IoNotFound, d1) \<Rightarrow>
          (let (ok, d2) = create_dir p d1 in (if ok then Ok () else Err EE_Destination, d2))
      | (_, d1) \<Rightarrow> (Err EE_Destination, d1))"

definition ensure_real_directory :: "path \<Rightarrow> disk \<Rightarrow> (unit, ExecutorErrorClass) result \<times> disk" where
  "ensure_real_directory p d =
     (case symlink_metadata p d of (Ok DirNode, d1) \<Rightarrow> (Ok (), d1) | (_, d1) \<Rightarrow> (Err EE_Destination, d1))"

fun ensure_components :: "path_component list \<Rightarrow> path \<Rightarrow> disk \<Rightarrow> (path, ExecutorErrorClass) result \<times> disk" where
  "ensure_components [] current d = (Ok current, d)"
| "ensure_components (component # rest) current d =
     (case (case component of RootDir \<Rightarrow> Some current | Normal c \<Rightarrow> Some (current @ [c]) | CurDir \<Rightarrow> None | ParentDir \<Rightarrow> None) of
        None \<Rightarrow> (Err EE_Destination, d)
      | Some p \<Rightarrow>
          (case create_or_validate_directory p d of
             (Err e, d1) \<Rightarrow> (Err e, d1)
           | (Ok _, d1) \<Rightarrow> ensure_components rest p d1))"

definition ensure_destination :: "path_component list \<Rightarrow> disk \<Rightarrow> (path, ExecutorErrorClass) result \<times> disk" where
  "ensure_destination destination d =
     (if destination = [] then (Err EE_Destination, d)
      else case ensure_components destination [] d of
        (Err e, d1) \<Rightarrow> (Err e, d1)
      | (Ok p, d1) \<Rightarrow>
          (case ensure_real_directory p d1 of (Err e, d2) \<Rightarrow> (Err e, d2) | (Ok _, d2) \<Rightarrow> (Ok p, d2)))"

definition ensure_asset_directory :: "path \<Rightarrow> string \<Rightarrow> disk \<Rightarrow> (unit, ExecutorErrorClass) result \<times> disk" where
  "ensure_asset_directory destination asset_id d =
     (case create_or_validate_directory (destination @ [''assets'']) d of
        (Err e, d1) \<Rightarrow> (Err e, d1)
      | (Ok _, d1) \<Rightarrow> create_or_validate_directory (destination @ [''assets'', asset_id]) d1)"

section \<open>Files\<close>

definition path_exists :: "path \<Rightarrow> disk \<Rightarrow> (bool, ExecutorErrorClass) result \<times> disk" where
  "path_exists p d =
     (case symlink_metadata p d of
        (Ok _, d1) \<Rightarrow> (Ok True, d1)
      | (Err IoNotFound, d1) \<Rightarrow> (Ok False, d1)
      | (Err IoOther, d1) \<Rightarrow> (Err EE_Destination, d1))"

text \<open>\<open>destination.join(target_path)\<close>; a validated target path has three plain components.\<close>

definition asset_final_path :: "path \<Rightarrow> ArchiveAsset \<Rightarrow> path" where
  "asset_final_path destination asset = destination @ split_on CHR ''/'' (aa_target_path asset)"

definition part_path :: "path \<Rightarrow> path" where
  "part_path final_path = butlast final_path @ [''.'' @ last final_path @ ''.immich-rs.part'']"

definition remove_stale_part :: "path \<Rightarrow> disk \<Rightarrow> (unit, ExecutorErrorClass) result \<times> disk" where
  "remove_stale_part p d =
     (case symlink_metadata p d of
        (Ok (FileNode _), d1) \<Rightarrow> (let (ok, d2) = remove_file p d1 in (if ok then Ok () else Err EE_Destination, d2))
      | (Err IoNotFound, d1) \<Rightarrow> (Ok (), d1)
      | (_, d1) \<Rightarrow> (Err EE_Destination, d1))"

definition remove_created_part :: "path \<Rightarrow> disk \<Rightarrow> disk" where
  "remove_created_part p d = snd (remove_file p d)"

definition VERIFY_BUFFER_BYTES :: nat where
  "VERIFY_BUFFER_BYTES = 64 * 1024"

text \<open>The loop of \<open>verify_existing\<close>: what is left to read and what the hash has been fed.\<close>

function verify_read ::
  "('s \<Rightarrow> bool \<times> 's) \<Rightarrow> string \<Rightarrow> string \<Rightarrow> 's \<Rightarrow> disk \<Rightarrow> (string, ExecutorErrorClass) result \<times> 's \<times> disk" where
  "verify_read cancelled left fed s d =
     (let (c, s1) = cancelled s in
      if c then (Err EE_Cancelled, s1, d)
      else
        let (f, d1) = next_fault d in
        if f \<noteq> None then (Err EE_Destination, s1, d1)
        else if take VERIFY_BUFFER_BYTES left = [] then (Ok fed, s1, d1)
        else verify_read cancelled (drop VERIFY_BUFFER_BYTES left) (fed @ take VERIFY_BUFFER_BYTES left) s1 d1)"
  by pat_completeness auto
termination
  by (relation "measure (\<lambda>(cancelled, left, fed, s, d). length left)") (auto simp: VERIFY_BUFFER_BYTES_def)

declare verify_read.simps [simp del]

definition verify_existing ::
  "('s \<Rightarrow> bool \<times> 's) \<Rightarrow> (string \<Rightarrow> string) \<Rightarrow> path \<Rightarrow> ArchiveAsset \<Rightarrow> 's \<Rightarrow> disk
     \<Rightarrow> (unit, ExecutorErrorClass) result \<times> 's \<times> disk" where
  "verify_existing cancelled sha1 p asset s d =
     (case symlink_metadata p d of
        (Ok (FileNode content), d1) \<Rightarrow>
          if length content \<noteq> unat (aa_byte_len asset) then (Err EE_Destination, s, d1)
          else (case open_file p d1 of
             (None, d2) \<Rightarrow> (Err EE_Destination, s, d2)
           | (Some bytes, d2) \<Rightarrow>
               (case verify_read cancelled bytes [] s d2 of
                  (Err e, s1, d3) \<Rightarrow> (Err e, s1, d3)
                | (Ok fed, s1, d3) \<Rightarrow>
                    (if sha1 fed \<noteq> aa_checksum_sha1 asset then Err EE_Destination else Ok (), s1, d3)))
      | (_, d1) \<Rightarrow> (Err EE_Destination, s, d1))"

section \<open>One download\<close>

definition archive_client_error :: "ClientError \<Rightarrow> ExecutorErrorClass" where
  "archive_client_error e = (if ce_class e = Cancelled then EE_Cancelled else EE_Client)"

definition validate_content_length :: "original_response \<Rightarrow> u64 \<Rightarrow> (unit, ExecutorErrorClass) result" where
  "validate_content_length download expected =
     (if is_some_and (or_content_length download) (\<lambda>n. n \<noteq> expected) then Err EE_Client else Ok ())"

function write_chunks ::
  "path \<Rightarrow> u64 \<Rightarrow> (string, reqwest_error) result option list \<Rightarrow> u64 \<Rightarrow> string \<Rightarrow> disk
     \<Rightarrow> (u64 \<times> string, ExecutorErrorClass) result \<times> disk" where
  "write_chunks p expected download bytes fed d =
     (case next_chunk download of
        (Err e, _) \<Rightarrow> (Err (archive_client_error e), d)
      | (Ok None, _) \<Rightarrow> (Ok (bytes, fed), d)
      | (Ok (Some chunk), rest) \<Rightarrow>
          (case checked_add bytes (of_nat (length chunk)) of
             None \<Rightarrow> (Err EE_Client, d)
           | Some bytes' \<Rightarrow>
               if bytes' > expected then (Err EE_Client, d)
               else let (ok, d1) = write_all p chunk d in
                 if ok then write_chunks p expected rest bytes' (fed @ chunk) d1 else (Err EE_Destination, d1)))"
  by pat_completeness auto
termination
  by (relation "measure (\<lambda>(p, expected, download, bytes, fed, d). length download)") (auto dest: next_chunk_shorter [OF sym])

declare write_chunks.simps [simp del]

definition download_asset ::
  "'s inventory_io \<Rightarrow> (string \<Rightarrow> string) \<Rightarrow> ImmichReadClient \<Rightarrow> NegotiatedServer \<Rightarrow> ArchiveAsset \<Rightarrow> path \<Rightarrow> 's \<Rightarrow> disk
     \<Rightarrow> (unit, ExecutorErrorClass) result \<times> 's \<times> disk" where
  "download_asset io sha1 client negotiated asset part s d =
     (case download_original io client negotiated (aa_asset_id asset) s of
        (Err e, s1) \<Rightarrow> (Err (archive_client_error e), s1, d)
      | (Ok download, s1) \<Rightarrow>
          (case validate_content_length download (aa_byte_len asset) of
             Err e \<Rightarrow> (Err e, s1, d)
           | Ok _ \<Rightarrow>
               (let (ok, d1) = create_new part d in
                if \<not> ok then (Err EE_Destination, s1, d1)
                else case write_chunks part (aa_byte_len asset) (or_chunks download) 0 [] d1 of
                  (Err e, d2) \<Rightarrow> (Err e, s1, d2)
                | (Ok (bytes, fed), d2) \<Rightarrow>
                    (let (synced, d3) = sync_all part d2 in
                     (if \<not> synced then Err EE_Destination
                      else if bytes \<noteq> aa_byte_len asset \<or> sha1 fed \<noteq> aa_checksum_sha1 asset then Err EE_Client
                      else Ok (), s1, d3)))))"

section \<open>The run\<close>

record archive_tables =
  at_manifest_json :: "ArchiveManifest \<Rightarrow> string option"
  at_sha256 :: "string \<Rightarrow> string"
  at_sha1 :: "string \<Rightarrow> string"

text \<open>One asset: whether it was downloaded (\<open>True\<close>) or found complete.\<close>

definition archive_asset ::
  "archive_tables \<Rightarrow> 's inventory_io \<Rightarrow> ImmichReadClient \<Rightarrow> NegotiatedServer \<Rightarrow> path \<Rightarrow> ArchiveAsset \<Rightarrow> 's \<Rightarrow> disk
     \<Rightarrow> (bool, ExecutorErrorClass) result \<times> 's \<times> disk" where
  "archive_asset tb io client negotiated destination asset s d =
     (let (c, s1) = ii_cancelled io s in
      if c then (Err EE_Cancelled, s1, d)
      else
        let final_path = asset_final_path destination asset in
        case path_exists final_path d of
          (Err e, d1) \<Rightarrow> (Err e, s1, d1)
        | (Ok True, d1) \<Rightarrow>
            (case verify_existing (ii_cancelled io) (at_sha1 tb) final_path asset s1 d1 of
               (Err e, s2, d2) \<Rightarrow> (Err e, s2, d2)
             | (Ok _, s2, d2) \<Rightarrow> (Ok False, s2, d2))
        | (Ok False, d1) \<Rightarrow>
            (case ensure_asset_directory destination (aa_asset_id asset) d1 of
               (Err e, d2) \<Rightarrow> (Err e, s1, d2)
             | (Ok _, d2) \<Rightarrow>
                 let part = part_path final_path in
                 (case remove_stale_part part d2 of
                    (Err e, d3) \<Rightarrow> (Err e, s1, d3)
                  | (Ok _, d3) \<Rightarrow>
                      (case download_asset io (at_sha1 tb) client negotiated asset part s1 d3 of
                         (Err e, s2, d4) \<Rightarrow> (Err e, s2, remove_created_part part d4)
                       | (Ok _, s2, d4) \<Rightarrow>
                           (let (ok, d5) = rename part final_path d4 in
                            if ok then (Ok True, s2, d5)
                            else (Err EE_Destination, s2, remove_created_part part d5))))))"

fun archive_loop ::
  "archive_tables \<Rightarrow> 's inventory_io \<Rightarrow> ImmichReadClient \<Rightarrow> NegotiatedServer \<Rightarrow> path \<Rightarrow> ArchiveAsset list
     \<Rightarrow> ArchiveApplyReport \<Rightarrow> 's \<Rightarrow> disk \<Rightarrow> (ArchiveApplyReport, ExecutorErrorClass) result \<times> 's \<times> disk" where
  "archive_loop tb io client negotiated destination [] report s d = (Ok report, s, d)"
| "archive_loop tb io client negotiated destination (asset # assets) report s d =
     (case archive_asset tb io client negotiated destination asset s d of
        (Err e, s1, d1) \<Rightarrow> (Err e, s1, d1)
      | (Ok downloaded, s1, d1) \<Rightarrow>
          archive_loop tb io client negotiated destination assets
            (if downloaded
             then report \<lparr>aar_downloaded := saturating_add (aar_downloaded report) 1,
                          aar_bytes_written := saturating_add (aar_bytes_written report) (aa_byte_len asset)\<rparr>
             else report \<lparr>aar_already_complete := saturating_add (aar_already_complete report) 1\<rparr>) s1 d1)"

definition archive_report :: "string \<Rightarrow> ArchiveApplyReport" where
  "archive_report manifest_sha256 =
     \<lparr>aar_schema_version = ARCHIVE_APPLY_REPORT_SCHEMA_VERSION, aar_manifest_sha256 = manifest_sha256, aar_downloaded = 0,
      aar_already_complete = 0, aar_bytes_written = 0, aar_retries = 0\<rparr>"

definition apply_archive ::
  "archive_tables \<Rightarrow> 's inventory_io \<Rightarrow> ArchiveManifest \<Rightarrow> path_component list \<Rightarrow> ImmichReadClient \<Rightarrow> NegotiatedServer
     \<Rightarrow> 's \<Rightarrow> disk \<Rightarrow> (ArchiveApplyReport, ExecutorErrorClass fault) result \<times> 's \<times> disk" where
  "apply_archive tb io manifest destination client negotiated s d =
     (case map_err invalid_plan (ArchiveManifest_validate manifest) of Err e \<Rightarrow> (Err e, s, d) | Ok _ \<Rightarrow>
      if ns_compatibility negotiated \<noteq> am_server manifest then (Err (Raise EE_InvalidPlan), s, d)
      else case ensure_destination destination d of (Err e, d1) \<Rightarrow> (Err (Raise e), s, d1) | (Ok root, d1) \<Rightarrow>
      case at_manifest_json tb manifest of None \<Rightarrow> (Err (Raise EE_Invariant), s, d1) | Some bytes \<Rightarrow>
      case archive_loop tb io client negotiated root (am_assets manifest) (archive_report (at_sha256 tb bytes)) s d1 of
        (Err e, s2, d2) \<Rightarrow> (Err (Raise e), s2, d2)
      | (Ok report, s2, d2) \<Rightarrow>
          (and_then (map_err (\<lambda>_. Raise EE_Invariant) (ArchiveApplyReport_validate report (ams_assets (am_summary manifest))))
             (\<lambda>_. Ok report), s2, d2))"

end
