(* ===== verification/Exec_Archive_Safety.thy ===== *)
theory Exec_Archive_Safety
  imports Exec_Archive Client_Inventory_Laws
begin

text \<open>
  What a run of \<open>immich-executor/src/archive_apply.rs\<close> does to the disk, whatever its end: the frame
  of a run, what a report stands for, and the names for which it cannot succeed.
\<close>

section \<open>The frame of a run\<close>

definition destination_path :: "path_component list \<Rightarrow> path" where
  "destination_path cs = concat (map (\<lambda>c. case c of Normal n \<Rightarrow> [n] | _ \<Rightarrow> []) cs)"

definition verified_original :: "(string \<Rightarrow> string) \<Rightarrow> ArchiveAsset \<Rightarrow> node option \<Rightarrow> bool" where
  "verified_original sha1 a n \<longleftrightarrow>
     (\<exists>c. n = Some (FileNode c) \<and> of_nat (length c) = aa_byte_len a \<and> sha1 c = aa_checksum_sha1 a)"

lemma verified_original_None [simp]: "\<not> verified_original sha1 a None"
  by (simp add: verified_original_def)

definition archive_directory :: "path \<Rightarrow> ArchiveAsset set \<Rightarrow> path \<Rightarrow> bool" where
  "archive_directory root assets x \<longleftrightarrow>
     (\<exists>ys. root = x @ ys) \<or> x = root @ [''assets''] \<or> (\<exists>a \<in> assets. x = root @ [''assets'', aa_asset_id a])"

definition archive_frame ::
  "(string \<Rightarrow> string) \<Rightarrow> path \<Rightarrow> ArchiveAsset set \<Rightarrow> (path \<Rightarrow> node option) \<Rightarrow> (path \<Rightarrow> node option) \<Rightarrow> bool" where
  "archive_frame sha1 root assets t t' \<longleftrightarrow>
     (\<forall>x. t' x = t x \<or> (\<exists>a \<in> assets. x = part_path (asset_final_path root a)) \<or>
        t x = None \<and> (t' x = Some DirNode \<and> archive_directory root assets x \<or>
                       (\<exists>a \<in> assets. x = asset_final_path root a \<and> verified_original sha1 a (t' x))))"

lemma archive_frame_refl [simp]: "archive_frame sha1 root assets t t"
  by (simp add: archive_frame_def)

lemma archive_frame_trans:
  assumes "archive_frame sha1 root A t u" and "archive_frame sha1 root B u v" and "A \<subseteq> C" and "B \<subseteq> C"
  shows "archive_frame sha1 root C t v"
  unfolding archive_frame_def
proof
  fix x
  have mono: "archive_directory root D x \<Longrightarrow> archive_directory root C x" if "D \<subseteq> C" for D
    using that by (auto simp: archive_directory_def)
  show "v x = t x \<or> (\<exists>a\<in>C. x = part_path (asset_final_path root a)) \<or>
        t x = None \<and> (v x = Some DirNode \<and> archive_directory root C x \<or>
          (\<exists>a\<in>C. x = asset_final_path root a \<and> verified_original sha1 a (v x)))"
    using assms(1,2) [unfolded archive_frame_def, rule_format, of x] assms(3,4) mono
    by (elim disjE) (auto simp: verified_original_def)
qed

lemma archive_frame_directory:
  "archive_directory root A p \<Longrightarrow> t p = None \<Longrightarrow> archive_frame sha1 root A t (t(p \<mapsto> DirNode))"
  by (simp add: archive_frame_def)

lemma archive_frame_part: "a \<in> A \<Longrightarrow> archive_frame sha1 root A t (t(part_path (asset_final_path root a) := n))"
  by (auto simp: archive_frame_def)

section \<open>The steps\<close>

lemma create_or_validate_directory_tree:
  assumes "create_or_validate_directory p d = (r, d')"
  shows "dk_tree d' = dk_tree d \<or> dk_tree d p = None \<and> dk_tree d' = (dk_tree d)(p \<mapsto> DirNode)"
    and "dk_name_max d' = dk_name_max d"
  using assms
  by (auto simp: create_or_validate_directory_def Let_def symlink_metadata_tree symlink_metadata_missing call_name_max
      dest!: create_dir_tree split: prod.splits result.splits node.splits io_error.splits if_splits)

lemma create_or_validate_directory_frame:
  "create_or_validate_directory p d = (r, d') \<Longrightarrow> archive_directory root A p \<Longrightarrow>
     archive_frame sha1 root A (dk_tree d) (dk_tree d')"
  by (auto dest!: create_or_validate_directory_tree(1) intro: archive_frame_directory)

lemma ensure_real_directory_tree:
  "ensure_real_directory p d = (r, d') \<Longrightarrow> dk_tree d' = dk_tree d \<and> dk_name_max d' = dk_name_max d"
  by (auto simp: ensure_real_directory_def dest: symlink_metadata_tree call_name_max
      split: prod.splits result.splits node.splits io_error.splits)

lemma ensure_components_frame:
  "ensure_components cs current d = (r, d') \<Longrightarrow> current @ destination_path cs = root \<Longrightarrow>
     archive_frame sha1 root {} (dk_tree d) (dk_tree d') \<and> dk_name_max d' = dk_name_max d \<and> (\<forall>p. r = Ok p \<longrightarrow> p = root)"
proof (induction cs arbitrary: current d)
  case (Cons c cs)
  have step: ?case if p: "p @ destination_path cs = root"
    and eq: "ensure_components (c # cs) current d =
        (case create_or_validate_directory p d of (Err e, d1) \<Rightarrow> (Err e, d1) | (Ok _, d1) \<Rightarrow> ensure_components cs p d1)" for p
  proof -
    obtain r1 d1 where c: "create_or_validate_directory p d = (r1, d1)" by fastforce
    have f: "archive_frame sha1 root {} (dk_tree d) (dk_tree d1)"
      using create_or_validate_directory_frame [OF c] p by (auto simp: archive_directory_def)
    note n = create_or_validate_directory_tree(2) [OF c]
    show ?thesis
    proof (cases r1)
      case (Ok u)
      then have "ensure_components cs p d1 = (r, d')" using Cons.prems(1) eq c by simp
      from Cons.IH [OF this p] show ?thesis using f n by (auto intro: archive_frame_trans)
    qed (use Cons.prems(1) eq c f n in auto)
  qed
  show ?case
  proof (cases c)
    case RootDir
    then show ?thesis using Cons.prems by (intro step [of current]) (auto simp: destination_path_def)
  next
    case (Normal name)
    then show ?thesis using Cons.prems by (intro step [of "current @ [name]"]) (auto simp: destination_path_def)
  qed (use Cons.prems in auto)
qed (auto simp: destination_path_def)

lemma ensure_destination_frame:
  assumes "ensure_destination dest d = (r, d')"
  shows "archive_frame sha1 (destination_path dest) A (dk_tree d) (dk_tree d')"
    and "dk_name_max d' = dk_name_max d" and "r = Ok p \<Longrightarrow> p = destination_path dest"
proof -
  have "archive_frame sha1 (destination_path dest) {} (dk_tree d) (dk_tree d') \<and> dk_name_max d' = dk_name_max d \<and>
      (r = Ok p \<longrightarrow> p = destination_path dest)"
    using assms ensure_components_frame [of dest "[]" d _ _ "destination_path dest" sha1]
    by (fastforce simp: ensure_destination_def dest: ensure_real_directory_tree
        split: if_splits prod.splits result.splits)
  then show "archive_frame sha1 (destination_path dest) A (dk_tree d) (dk_tree d')"
    and "dk_name_max d' = dk_name_max d" and "r = Ok p \<Longrightarrow> p = destination_path dest"
    by (auto intro: archive_frame_trans [where B = A])
qed

lemma ensure_asset_directory_frame:
  assumes "ensure_asset_directory root (aa_asset_id a) d = (r, d')" and "a \<in> A"
  shows "archive_frame sha1 root A (dk_tree d) (dk_tree d')" and "dk_name_max d' = dk_name_max d"
proof -
  have dirs: "archive_directory root A (root @ [''assets''])" "archive_directory root A (root @ [''assets'', aa_asset_id a])"
    using assms(2) by (auto simp: archive_directory_def)
  then show "archive_frame sha1 root A (dk_tree d) (dk_tree d')" and "dk_name_max d' = dk_name_max d"
    using assms(1)
    by (auto simp: ensure_asset_directory_def create_or_validate_directory_tree(2) split: prod.splits result.splits
        intro: archive_frame_trans dest: create_or_validate_directory_frame create_or_validate_directory_tree(2))
qed

lemma path_exists_tree:
  "path_exists p d = (r, d') \<Longrightarrow> dk_tree d' = dk_tree d \<and> dk_name_max d' = dk_name_max d \<and> (r = Ok False \<longrightarrow> dk_tree d p = None)"
  by (auto simp: path_exists_def dest: symlink_metadata_tree symlink_metadata_missing call_name_max
      split: prod.splits result.splits io_error.splits)

lemma remove_stale_part_tree:
  "remove_stale_part p d = (r, d') \<Longrightarrow> (dk_tree d' = dk_tree d \<or> dk_tree d' = (dk_tree d)(p := None)) \<and> dk_name_max d' = dk_name_max d"
  by (auto simp: remove_stale_part_def Let_def symlink_metadata_tree call_name_max
      dest!: remove_file_tree split: prod.splits result.splits node.splits io_error.splits if_splits)

lemma remove_created_part_tree:
  "(dk_tree (remove_created_part p d) = dk_tree d \<or> dk_tree (remove_created_part p d) = (dk_tree d)(p := None)) \<and>
   dk_name_max (remove_created_part p d) = dk_name_max d"
  using remove_file_tree [of p d] call_name_max(7) [of p d]
  by (cases "remove_file p d") (auto simp: remove_created_part_def)

lemma verify_read_Ok:
  "verify_read cancelled left fed s d = (r, s', d') \<Longrightarrow>
     dk_tree d' = dk_tree d \<and> dk_name_max d' = dk_name_max d \<and> (\<forall>h. r = Ok h \<longrightarrow> h = fed @ left)"
proof (induction cancelled left fed s d rule: verify_read.induct)
  case (1 cancelled left fed s d)
  obtain c s1 where c: "cancelled s = (c, s1)" by fastforce
  obtain f d1 where f: "next_fault d = (f, d1)" by fastforce
  note d1 = next_fault_tree [OF f] next_fault_name_max [OF f]
  show ?case
  proof (cases "c \<or> f \<noteq> None \<or> take VERIFY_BUFFER_BYTES left = []")
    case True
    then show ?thesis
      using 1(2) d1 c f
      by (subst (asm) verify_read.simps) (auto simp: VERIFY_BUFFER_BYTES_def split: if_splits)
  next
    case False
    then have "verify_read cancelled (drop VERIFY_BUFFER_BYTES left) (fed @ take VERIFY_BUFFER_BYTES left) s1 d1 = (r, s', d')"
      using 1(2) c f by (subst (asm) verify_read.simps) (simp add: Let_def)
    with 1(1) [OF c [symmetric] refl _ f [symmetric] refl] False show ?thesis
      by (simp add: d1)
  qed
qed

lemma verify_existing_Ok:
  assumes "verify_existing cancelled sha1 p a s d = (r, s', d')"
  shows "dk_tree d' = dk_tree d \<and> dk_name_max d' = dk_name_max d \<and> (r = Ok () \<longrightarrow> verified_original sha1 a (dk_tree d p))"
proof (cases "symlink_metadata p d")
  case (Pair n d1)
  have found: "n = Ok (FileNode c) \<Longrightarrow> dk_tree d p = Some (FileNode c)" for c
    using Pair by (auto dest: symlink_metadata_Ok)
  have opened: "open_file p d1 = (Some b, d2) \<Longrightarrow>
      dk_tree d p = Some (FileNode b) \<and> dk_tree d2 = dk_tree d \<and> dk_name_max d2 = dk_name_max d" for b d2
    using symlink_metadata_tree [OF Pair] call_name_max(1) [OF Pair] call_name_max(8) [of p d1]
    by (auto dest: open_file_Some open_file_tree)
  show ?thesis
    using assms Pair symlink_metadata_tree [OF Pair] call_name_max(1) [OF Pair]
    by (auto simp: verify_existing_def verified_original_def open_file_tree call_name_max(8)
        dest!: verify_read_Ok found opened split: prod.splits result.splits node.splits if_splits option.splits)
qed

lemma write_chunks_tree:
  "write_chunks p expected chunks bytes fed d = (r, d') \<Longrightarrow>
     dk_tree d p = Some (FileNode fed) \<Longrightarrow> bytes = of_nat (length fed) \<Longrightarrow>
     dk_name_max d' = dk_name_max d \<and> (\<exists>c. dk_tree d' = (dk_tree d)(p \<mapsto> FileNode c)) \<and>
     (\<forall>n h. r = Ok (n, h) \<longrightarrow> dk_tree d' p = Some (FileNode h) \<and> n = of_nat (length h))"
proof (induction p expected chunks bytes fed d rule: write_chunks.induct)
  case (1 p expected chunks bytes fed d)
  obtain o' rest where next_eq: "next_chunk chunks = (o', rest)" by fastforce
  have self: "dk_tree d = (dk_tree d)(p \<mapsto> FileNode fed)" using "1.prems"(2) by auto
  show ?case
  proof (cases "\<exists>chunk bytes'. o' = Ok (Some chunk) \<and> checked_add bytes (of_nat (length chunk)) = Some bytes' \<and> \<not> bytes' > expected")
    case True
    then obtain chunk bytes' where ok: "o' = Ok (Some chunk)" "checked_add bytes (of_nat (length chunk)) = Some bytes'" "\<not> bytes' > expected"
      by blast
    obtain w d1 where w: "write_all p chunk d = (w, d1)" by fastforce
    from write_all_tree [OF w "1.prems"(2)] obtain more
      where more: "dk_tree d1 = (dk_tree d)(p \<mapsto> FileNode (fed @ more))" "w \<longrightarrow> more = chunk" by blast
    have bytes': "bytes' = of_nat (length (fed @ chunk))"
    proof -
      have "unat bytes' = unat bytes + unat (of_nat (length chunk) :: u64)"
        using ok(2) by (simp add: checked_add_eq_Some)
      then have "of_nat (unat bytes') = (of_nat (unat bytes + unat (of_nat (length chunk) :: u64)) :: u64)"
        by (simp only:)
      then have "bytes' = bytes + of_nat (length chunk)" by (simp add: of_nat_add)
      then show ?thesis using "1.prems"(3) by simp
    qed
    show ?thesis
    proof (cases w)
      case True
      then have eq: "write_chunks p expected rest bytes' (fed @ chunk) d1 = (r, d')"
        using "1.prems"(1) next_eq ok w by (subst (asm) write_chunks.simps) simp
      have t1: "dk_tree d1 p = Some (FileNode (fed @ chunk))" using more True by simp
      have "dk_name_max d' = dk_name_max d1 \<and> (\<exists>c. dk_tree d' = (dk_tree d1)(p \<mapsto> FileNode c)) \<and>
          (\<forall>n h. r = Ok (n, h) \<longrightarrow> dk_tree d' p = Some (FileNode h) \<and> n = of_nat (length h))"
        by (rule "1.IH" [OF next_eq [symmetric] ok(1) refl ok(2) ok(3) refl w [symmetric] True eq t1 bytes'])
      then obtain c where "dk_name_max d' = dk_name_max d1" "dk_tree d' = (dk_tree d)(p \<mapsto> FileNode c)"
          "\<forall>n h. r = Ok (n, h) \<longrightarrow> dk_tree d' p = Some (FileNode h) \<and> n = of_nat (length h)"
        using more by auto
      then show ?thesis using call_name_max(4) [OF w] by metis
    next
      case False
      then show ?thesis
        using "1.prems"(1) next_eq ok w more call_name_max(4) [OF w] by (subst (asm) write_chunks.simps) auto
    qed
  next
    case False
    then have "d' = d \<and> (\<forall>n h. r = Ok (n, h) \<longrightarrow> n = bytes \<and> h = fed)"
      using "1.prems"(1) next_eq
      by (subst (asm) write_chunks.simps) (auto split: result.splits option.splits if_splits)
    then show ?thesis using self "1.prems"(2,3) by (intro conjI exI [of _ fed]) auto
  qed
qed

lemma download_asset_tree:
  assumes "download_asset io sha1 client neg a part s d = (r, s', d')"
  shows "dk_name_max d' = dk_name_max d \<and> (dk_tree d' = dk_tree d \<or> (\<exists>n. dk_tree d' = (dk_tree d)(part := n))) \<and>
     (r = Ok () \<longrightarrow> verified_original sha1 a (dk_tree d' part) \<and> list_all (\<lambda>c. length c \<le> dk_name_max d) part)"
proof -
  obtain ro s1 where o: "download_original io client neg (aa_asset_id a) s = (ro, s1)" by fastforce
  obtain ok d1 where n: "create_new part d = (ok, d1)" by fastforce
  show ?thesis
  proof (cases "\<exists>dl. ro = Ok dl \<and> is_ok (validate_content_length dl (aa_byte_len a)) \<and> ok")
    case False
    then show ?thesis
      using assms o n create_new_tree [OF n] call_name_max(3) [OF n]
      by (auto simp: download_asset_def split: result.splits)
  next
    case True
    then obtain dl u where dl: "ro = Ok dl" "validate_content_length dl (aa_byte_len a) = Ok u" "ok"
      by (auto simp: is_ok_iff)
    have t1: "dk_tree d1 part = Some (FileNode [])" "dk_tree d1 = (dk_tree d)(part \<mapsto> FileNode [])" "dk_name_max d1 = dk_name_max d"
      using create_new_tree [OF n] call_name_max(3) [OF n] dl(3) by auto
    note fit = create_new_names_fit [OF n [unfolded eqTrueI [OF dl(3)]]]
    obtain rw d2 where w: "write_chunks part (aa_byte_len a) (or_chunks dl) 0 [] d1 = (rw, d2)" by fastforce
    note w' = write_chunks_tree [OF w t1(1)]
    obtain sy d3 where sy: "sync_all part d2 = (sy, d3)" by fastforce
    show ?thesis
      using assms o n dl w w' t1 sy fit sync_all_tree [OF sy] call_name_max(5) [OF sy]
      by (auto simp: download_asset_def verified_original_def split: result.splits if_splits)
  qed
qed

lemma part_path_not_final: "part_path p \<noteq> p"
proof
  assume "part_path p = p"
  then have "last (part_path p) = last p" by simp
  then show False by (simp add: part_path_def)
qed

text \<open>One asset: its frame, and that it is present and verified once the step succeeded.\<close>

lemma archive_asset_frame:
  assumes "archive_asset tb io client neg root a s d = (r, s', d')" and "a \<in> A"
  shows "archive_frame (at_sha1 tb) root A (dk_tree d) (dk_tree d')"
    and "dk_name_max d' = dk_name_max d"
    and "r = Ok b \<Longrightarrow> verified_original (at_sha1 tb) a (dk_tree d' (asset_final_path root a))"
    and "r = Ok b \<Longrightarrow> dk_tree d (asset_final_path root a) = None \<Longrightarrow>
           list_all (\<lambda>c. length c \<le> dk_name_max d) (part_path (asset_final_path root a))"
proof -
  let ?fin = "asset_final_path root a" and ?part = "part_path (asset_final_path root a)"
  let ?goal = "archive_frame (at_sha1 tb) root A (dk_tree d) (dk_tree d') \<and> dk_name_max d' = dk_name_max d \<and>
     (r = Ok b \<longrightarrow> verified_original (at_sha1 tb) a (dk_tree d' ?fin) \<and>
        (dk_tree d ?fin = None \<longrightarrow> list_all (\<lambda>c. length c \<le> dk_name_max d) ?part))"
  note trans = archive_frame_trans [where ?sha1.0 = "at_sha1 tb" and root = root and A = A and B = A and C = A, OF _ _ subset_refl subset_refl]
  have part: "archive_frame (at_sha1 tb) root A t t'" if "t' = t \<or> (\<exists>n. t' = t(?part := n))" for t t'
    using that archive_frame_part [OF assms(2)] by auto
  obtain c s1 where c: "ii_cancelled io s = (c, s1)" by fastforce
  obtain e d1 where e: "path_exists ?fin d = (e, d1)" by fastforce
  note t1 = path_exists_tree [OF e]
  have goal: ?goal
  proof (cases "\<not> c \<and> e = Ok False")
    case False
    show ?thesis
    proof (cases "\<not> c \<and> e = Ok True")
      case True
      obtain v s2 d2 where v: "verify_existing (ii_cancelled io) (at_sha1 tb) ?fin a s1 d1 = (v, s2, d2)" by (metis prod_cases3)
      show ?thesis
        using assms(1) c e t1 v verify_existing_Ok [OF v] True by (auto simp: archive_asset_def split: result.splits)
    next
      case no: False
      with False consider "c" | er where "\<not> c" "e = Err er" by (cases e) auto
      then show ?thesis using assms(1) c e t1 by cases (auto simp: archive_asset_def)
    qed
  next
    case True
    obtain m d2 where m: "ensure_asset_directory root (aa_asset_id a) d1 = (m, d2)" by fastforce
    note f2 = ensure_asset_directory_frame [OF m assms(2)]
    obtain k d3 where k: "remove_stale_part ?part d2 = (k, d3)" by fastforce
    have f3: "archive_frame (at_sha1 tb) root A (dk_tree d2) (dk_tree d3)" "dk_name_max d3 = dk_name_max d2"
      using remove_stale_part_tree [OF k] by (auto intro: part)
    obtain rd s2 d4 where w: "download_asset io (at_sha1 tb) client neg a ?part s1 d3 = (rd, s2, d4)" by (metis prod_cases3)
    note w' = download_asset_tree [OF w]
    have f4: "archive_frame (at_sha1 tb) root A (dk_tree d3) (dk_tree d4)" "dk_name_max d4 = dk_name_max d3"
      using w' by (auto intro: part)
    have f14: "archive_frame (at_sha1 tb) root A (dk_tree d) (dk_tree d2)" "archive_frame (at_sha1 tb) root A (dk_tree d) (dk_tree d3)"
        "archive_frame (at_sha1 tb) root A (dk_tree d) (dk_tree d4)"
      using f2(1) f3(1) f4(1) t1 trans by metis+
    have gone: "archive_frame (at_sha1 tb) root A (dk_tree d) (dk_tree (remove_created_part ?part x))"
      if "archive_frame (at_sha1 tb) root A (dk_tree d) (dk_tree x)" for x
      using that remove_created_part_tree [of ?part x] part trans by metis
    obtain ok d5 where n: "rename ?part ?fin d4 = (ok, d5)" by fastforce
    note n' = rename_tree [OF n part_path_not_final] and n5 = call_name_max(6) [OF n]
    show ?thesis
    proof (cases "m = Ok () \<and> k = Ok () \<and> rd = Ok ()")
      case False
      then show ?thesis
        using assms(1) c e m k w True t1 f2(2) f3(2) f4(2) f14 gone [OF f14(3)] remove_created_part_tree [of ?part d4]
        by (auto simp: archive_asset_def Let_def split: result.splits)
    next
      case all: True
      show ?thesis
      proof (cases ok)
        case False
        then have "archive_frame (at_sha1 tb) root A (dk_tree d) (dk_tree d5)" using n' f14(3) by simp
        then show ?thesis
          using assms(1) c e m k w n n5 all True False t1 f2(2) f3(2) f4(2) gone [of d5] remove_created_part_tree [of ?part d5]
          by (auto simp: archive_asset_def Let_def)
      next
        case ok: True
        have v: "verified_original (at_sha1 tb) a (dk_tree d5 ?fin)" using w' all n' ok by simp
        have fin: "dk_tree d ?fin = None" using t1 True by simp
        have "archive_frame (at_sha1 tb) root A (dk_tree d) (dk_tree d5)"
          unfolding archive_frame_def
        proof
          fix x
          show "dk_tree d5 x = dk_tree d x \<or> (\<exists>a\<in>A. x = part_path (asset_final_path root a)) \<or>
              dk_tree d x = None \<and> (dk_tree d5 x = Some DirNode \<and> archive_directory root A x \<or>
                (\<exists>a\<in>A. x = asset_final_path root a \<and> verified_original (at_sha1 tb) a (dk_tree d5 x)))"
          proof (cases "x = ?fin \<or> x = ?part")
            case False
            then have "dk_tree d5 x = dk_tree d4 x" using n' ok by simp
            then show ?thesis using f14(3) [unfolded archive_frame_def, rule_format, of x] by simp
          qed (use v fin assms(2) in auto)
        qed
        then show ?thesis
          using assms(1) c e m k w w' n n5 all True ok v t1 f2(2) f3(2) f4(2)
          by (auto simp: archive_asset_def Let_def)
      qed
    qed
  qed
  from goal show "archive_frame (at_sha1 tb) root A (dk_tree d) (dk_tree d')" "dk_name_max d' = dk_name_max d"
    "r = Ok b \<Longrightarrow> verified_original (at_sha1 tb) a (dk_tree d' ?fin)"
    "r = Ok b \<Longrightarrow> dk_tree d ?fin = None \<Longrightarrow> list_all (\<lambda>c. length c \<le> dk_name_max d) ?part"
    by auto
qed

section \<open>The run\<close>

definition plain_target :: "ArchiveAsset \<Rightarrow> bool" where
  "plain_target a \<longleftrightarrow> split_on CHR ''/'' (aa_target_path a) = [''assets'', aa_asset_id a, aa_original_file_name a]"

lemma asset_paths:
  shows "plain_target a \<Longrightarrow> asset_final_path root a = root @ [''assets'', aa_asset_id a, aa_original_file_name a]"
    and "part_path (root @ [x, y, n]) = root @ [x, y, ''.'' @ n @ ''.immich-rs.part'']"
  by (simp_all add: plain_target_def asset_final_path_def part_path_def butlast_append)

text \<open>Work on other assets leaves the file of an asset alone.\<close>

lemma archive_frame_other:
  assumes "archive_frame sha1 root A t t'" and "plain_target a" and "\<forall>x \<in> A. plain_target x \<and> aa_asset_id x \<noteq> aa_asset_id a"
  shows "t' (asset_final_path root a) = t (asset_final_path root a)"
proof -
  have "\<not> archive_directory root A (asset_final_path root a)"
    using assms(2) by (auto simp: archive_directory_def asset_paths(1))
  then show ?thesis
    using assms(1) [unfolded archive_frame_def, rule_format, of "asset_final_path root a"] assms(2,3)
    by (auto simp: asset_paths)
qed

lemma archive_loop_frame:
  "archive_loop tb io client neg root assets report s d = (r, s', d') \<Longrightarrow>
     archive_frame (at_sha1 tb) root (set assets) (dk_tree d) (dk_tree d')"
proof (induction assets arbitrary: report s d)
  case (Cons a assets)
  obtain ra s1 d1 where a: "archive_asset tb io client neg root a s d = (ra, s1, d1)" by (metis prod_cases3)
  have f: "archive_frame (at_sha1 tb) root (set (a # assets)) (dk_tree d) (dk_tree d1)"
    by (rule archive_asset_frame(1) [OF a]) simp
  show ?case
  proof (cases ra)
    case (Ok b)
    from Cons.prems a Ok obtain rep where "archive_loop tb io client neg root assets rep s1 d1 = (r, s', d')" by auto
    from Cons.IH [OF this] show ?thesis by (rule archive_frame_trans [OF f]) auto
  qed (use Cons.prems a f in auto)
qed simp

lemma archive_loop_Ok:
  "archive_loop tb io client neg root assets report s d = (Ok report', s', d') \<Longrightarrow>
     \<forall>a \<in> set assets. plain_target a \<Longrightarrow> distinct (map aa_asset_id assets) \<Longrightarrow>
     (\<forall>a \<in> set assets. verified_original (at_sha1 tb) a (dk_tree d' (asset_final_path root a)) \<and>
        (dk_tree d (asset_final_path root a) = None \<longrightarrow>
           list_all (\<lambda>c. length c \<le> dk_name_max d) (part_path (asset_final_path root a))))"
proof (induction assets arbitrary: report s d)
  case (Cons a assets)
  obtain ra s1 d1 where a: "archive_asset tb io client neg root a s d = (ra, s1, d1)" by (metis prod_cases3)
  from Cons.prems(1) a obtain b where b: "ra = Ok b" by (cases ra) auto
  from Cons.prems(1) a b obtain rep where loop: "archive_loop tb io client neg root assets rep s1 d1 = (Ok report', s', d')" by auto
  note step = archive_asset_frame [OF a insertI1 [of a "{}"]]
  note rest = Cons.IH [OF loop]
  have "dk_tree d' (asset_final_path root a) = dk_tree d1 (asset_final_path root a)"
    using Cons.prems(2,3) by (intro archive_frame_other [OF archive_loop_frame [OF loop]]) (auto simp: image_iff)
  moreover have "dk_tree d1 (asset_final_path root x) = dk_tree d (asset_final_path root x)" if "x \<in> set assets" for x
    using archive_frame_other [OF step(1)] Cons.prems(2,3) that by force
  ultimately show ?case
    using step(2) step(3) [OF b] step(4) [OF b] rest Cons.prems(2,3) by auto
qed simp

lemma manifest_plain:
  assumes "ArchiveManifest_validate m = Ok ()"
  shows "\<forall>a \<in> set (am_assets m). plain_target a" and "distinct (map aa_asset_id (am_assets m))"
  using assms ArchiveManifest_validate_ok_iff [of m]
  by (auto simp: archive_manifest_ok_def plain_target_def archive_asset_ok_path)

lemma apply_archive_Ok:
  assumes "apply_archive tb io m destination client neg s d = (Ok report, s', d')"
  obtains s1 d1 report0 where "ArchiveManifest_validate m = Ok ()"
    and "archive_frame (at_sha1 tb) (destination_path destination) {} (dk_tree d) (dk_tree d1)" and "dk_name_max d1 = dk_name_max d"
    and "archive_loop tb io client neg (destination_path destination) (am_assets m) report0 s1 d1 = (Ok report, s', d')"
    and "ArchiveApplyReport_validate report (ams_assets (am_summary m)) = Ok ()"
proof -
  obtain e d1 where e: "ensure_destination destination d = (e, d1)" by fastforce
  from assms e obtain root bytes where *: "ArchiveManifest_validate m = Ok ()" "e = Ok root"
      "archive_loop tb io client neg root (am_assets m) (archive_report (at_sha256 tb bytes)) s d1 = (Ok report, s', d')"
      "ArchiveApplyReport_validate report (ams_assets (am_summary m)) = Ok ()"
    by (auto simp: apply_archive_def and_then_eq_Ok split: result.splits if_splits option.splits prod.splits)
  moreover from ensure_destination_frame [OF e] *(2) have "root = destination_path destination" by blast
  ultimately show ?thesis
    using that ensure_destination_frame(1) [OF e, where A = "{}"] ensure_destination_frame(2) [OF e] by blast
qed

section \<open>Samples\<close>

text \<open>A server that answers every request for an original with the three bytes \<open>abc\<close>, a manifest with
  one such asset and an empty disk.\<close>

definition archive_sample :: "string \<Rightarrow> ArchiveManifest" where
  "archive_sample name =
     \<lparr>am_schema_version = 1, am_server = ns_compatibility source_negotiated, am_configuration_sha256 = hex64 CHR ''5'',
      am_assets =
        [\<lparr>aa_asset_id = ''11111111-1111-4111-8111-111111111111'', aa_original_file_name = name,
          aa_target_path = ''assets/11111111-1111-4111-8111-111111111111/'' @ name,
          aa_media_kind = MediaImage, aa_byte_len = 3, aa_checksum_sha1 = replicate 40 CHR ''a''\<rparr>],
      am_summary = \<lparr>ams_assets = 1, ams_media_bytes = 3\<rparr>\<rparr>"

definition archive_sample_tables :: archive_tables where
  "archive_sample_tables =
     \<lparr>at_manifest_json = (\<lambda>_. Some []), at_sha256 = (\<lambda>_. hex64 CHR ''7''),
      at_sha1 = (\<lambda>bytes. if bytes = ''abc'' then replicate 40 CHR ''a'' else replicate 40 CHR ''b'')\<rparr>"

definition empty_disk :: disk where
  "empty_disk = \<lparr>dk_tree = [[] \<mapsto> DirNode], dk_faults = [], dk_name_max = 255\<rparr>"

abbreviation archive_sample_run where
  "archive_sample_run name \<equiv> apply_archive archive_sample_tables sample_inventory_io (archive_sample name)
     [RootDir, Normal ''backup''] source_client source_negotiated () empty_disk"

section \<open>Properties\<close>

text \<open>C15: whatever the end of an archive run - a report, a refused manifest, a failed or cut download, a
  full disk, a cancellation after any step - it has not touched what was on the disk: a node that
  existed is still there with its content, the part files of the manifest's assets aside, and what is
  new is a directory on the way to an asset, a part file, or the file of an asset complete with its
  declared length and SHA-1 digest. No partial original ever shows under its final name.\<close>

theorem archive_run_frame:
  "archive_frame (at_sha1 tb) (destination_path destination) (set (am_assets manifest)) (dk_tree d)
     (dk_tree (snd (snd (apply_archive tb io manifest destination client negotiated s d))))"
proof -
  obtain e d1 where e: "ensure_destination destination d = (e, d1)" by fastforce
  note f1 = ensure_destination_frame(1) [OF e, where A = "set (am_assets manifest)"]
  have f2: "archive_frame (at_sha1 tb) (destination_path destination) (set (am_assets manifest)) (dk_tree d) (dk_tree d2)"
    if "archive_loop tb io client negotiated root (am_assets manifest) report s d1 = (r, s2, d2)" and "e = Ok root"
    for root report r s2 d2
  proof -
    have "root = destination_path destination" using ensure_destination_frame(3) [OF e] that(2) by blast
    then show ?thesis using archive_loop_frame [OF that(1)] by (intro archive_frame_trans [OF f1]) auto
  qed
  show ?thesis
    using e f1 by (auto simp: apply_archive_def f2 split: result.split option.split prod.split)
qed

text \<open>C16: a report is evidence for every asset of the manifest: when an archive run returns one, the
  manifest was valid and the file \<open>assets/<id>/<name>\<close> below the destination holds, for every asset,
  bytes of the declared length with the declared SHA-1 digest, whether this run downloaded them or
  found them; and the two counts of the report add up to the assets the manifest declares.\<close>

theorem archive_report_complete:
  assumes "apply_archive tb io m destination client negotiated s d = (Ok report, s', d')"
  shows "ArchiveManifest_validate m = Ok () \<and>
    (\<forall>a \<in> set (am_assets m).
      verified_original (at_sha1 tb) a
        (dk_tree d' (destination_path destination @ [''assets'', aa_asset_id a, aa_original_file_name a]))) \<and>
    saturating_add (aar_downloaded report) (aar_already_complete report) = ams_assets (am_summary m)"
  using assms
proof (rule apply_archive_Ok)
  fix s1 d1 report0
  assume m: "ArchiveManifest_validate m = Ok ()"
    and loop: "archive_loop tb io client negotiated (destination_path destination) (am_assets m) report0 s1 d1 = (Ok report, s', d')"
    and report: "ArchiveApplyReport_validate report (ams_assets (am_summary m)) = Ok ()"
  show ?thesis
    using m archive_loop_Ok [OF loop] manifest_plain [OF m] report
    by (auto simp: asset_paths(1) ArchiveApplyReport_validate_def split: if_splits)
qed

text \<open>On a file system that takes names of up to 255 bytes, an asset whose file name has 240 bytes or
  more and is not there yet is never downloaded: validation accepts such a manifest, but the name of
  the part file is sixteen bytes longer than the name, so no run of the manifest returns a report.\<close>

theorem archive_long_name_fails:
  assumes "a \<in> set (am_assets m)" and "240 \<le> length (aa_original_file_name a)" and "dk_name_max d = 255"
    and "dk_tree d (destination_path destination @ [''assets'', aa_asset_id a, aa_original_file_name a]) = None"
  shows "fst (apply_archive tb io m destination client negotiated s d) \<noteq> Ok report"
proof
  assume "fst (apply_archive tb io m destination client negotiated s d) = Ok report"
  then obtain s' d' where "apply_archive tb io m destination client negotiated s d = (Ok report, s', d')"
    by (metis prod_cases3 fst_conv)
  then show False
  proof (rule apply_archive_Ok)
    fix s1 d1 report0
    assume m: "ArchiveManifest_validate m = Ok ()"
      and frame: "archive_frame (at_sha1 tb) (destination_path destination) {} (dk_tree d) (dk_tree d1)"
      and max: "dk_name_max d1 = dk_name_max d"
      and loop: "archive_loop tb io client negotiated (destination_path destination) (am_assets m) report0 s1 d1 = (Ok report, s', d')"
    have plain: "plain_target a" using manifest_plain(1) [OF m] assms(1) by blast
    have "dk_tree d1 (asset_final_path (destination_path destination) a) = None"
      using archive_frame_other [OF frame plain] assms(4) by (simp add: asset_paths(1) [OF plain])
    then show False
      using archive_loop_Ok [OF loop manifest_plain [OF m]] assms(1-3) max by (auto simp: asset_paths(1) [OF plain] asset_paths(2))
  qed
qed

theorem archive_report_complete_witness:
  "\<exists>report d'. archive_sample_run ''a.jpg'' = (Ok report, (), d') \<and> aar_downloaded report = 1 \<and>
     verified_original (at_sha1 archive_sample_tables) (hd (am_assets (archive_sample ''a.jpg'')))
       (dk_tree d' [''backup'', ''assets'', ''11111111-1111-4111-8111-111111111111'', ''a.jpg''])"
proof -
  have "map_ok aar_downloaded (fst (archive_sample_run ''a.jpg'')) = Ok 1" by code_simp
  then obtain report d' where run: "archive_sample_run ''a.jpg'' = (Ok report, (), d')" and one: "aar_downloaded report = 1"
    by (cases "archive_sample_run ''a.jpg''") (auto simp: map_ok_eq_Ok)
  from archive_report_complete [OF run] run one show ?thesis
    by (auto simp: archive_sample_def destination_path_def)
qed

theorem archive_long_name_fails_witness:
  "is_ok (ArchiveManifest_validate (archive_sample (replicate 240 CHR ''a''))) \<and>
   (\<forall>report. fst (archive_sample_run (replicate 240 CHR ''a'')) \<noteq> Ok report)"
proof -
  have valid: "is_ok (ArchiveManifest_validate (archive_sample (replicate 240 CHR ''a'')))" by code_simp
  have "fst (archive_sample_run (replicate 240 CHR ''a'')) \<noteq> Ok report" for report
    by (rule archive_long_name_fails [where a = "hd (am_assets (archive_sample (replicate 240 CHR ''a'')))"])
      (simp_all add: archive_sample_def empty_disk_def destination_path_def)
  with valid show ?thesis by blast
qed

end
