(* ===== verification/Effect_Log.thy ===== *)
theory Effect_Log
  imports Ordered_Containers
begin

text \<open>
  The contract between the executor and its durable journals: an append-only log
  of outcomes whose \<open>view\<close> is the outcome of the latest event per key. Both journals
  (\<open>journal.rs\<close> keyed by operation, \<open>import_journal.rs\<close> keyed by effect) provide it; the
  resume guarantees of the executor are proved here once.
\<close>

locale effect_log =
  fixes view :: "'j \<Rightarrow> 'k \<Rightarrow> 'v option"
    and record_event :: "'e \<Rightarrow> 'j \<Rightarrow> 'j"
    and key_of :: "'e \<Rightarrow> 'k"
    and result_of :: "'e \<Rightarrow> 'v option"
    and log_ok :: "'j \<Rightarrow> bool"
    and event_ok :: "'e \<Rightarrow> bool"
  assumes view_record: "log_ok j \<Longrightarrow> event_ok e \<Longrightarrow> view (record_event e j) = (view j)(key_of e := result_of e)"
    and ok_record: "log_ok j \<Longrightarrow> event_ok e \<Longrightarrow> log_ok (record_event e j)"
begin

lemma ok_fold: "log_ok j \<Longrightarrow> (\<forall>e \<in> set es. event_ok e) \<Longrightarrow> log_ok (fold record_event es j)"
  by (induction es arbitrary: j) (auto simp: ok_record)

text \<open>Keys without an event keep their outcome; a key with events has that of the last one.\<close>

lemma view_untouched:
  "log_ok j \<Longrightarrow> (\<forall>e \<in> set es. event_ok e) \<Longrightarrow> k \<notin> key_of ` set es \<Longrightarrow> view (fold record_event es j) k = view j k"
  by (induction es arbitrary: j) (auto simp: ok_record view_record)

lemma view_last:
  assumes "log_ok j" "\<forall>e \<in> set (es @ e # fs). event_ok e" "key_of e \<notin> key_of ` set fs"
  shows "view (fold record_event (es @ e # fs) j) (key_of e) = result_of e"
proof -
  have "log_ok (fold record_event es j)" using assms by (simp add: ok_fold)
  then show ?thesis
    using assms view_untouched [of "record_event e (fold record_event es j)" fs "key_of e"]
    by (simp add: ok_record view_record)
qed

lemma view_distinct:
  assumes "log_ok j" "\<forall>e \<in> set es. event_ok e" "distinct (map key_of es)" "e \<in> set es"
  shows "view (fold record_event es j) (key_of e) = result_of e"
proof -
  obtain fs gs where es: "es = fs @ e # gs" using assms(4) by (meson split_list)
  then have "key_of e \<notin> key_of ` set gs" using assms(3) by simp
  then show ?thesis
    using view_last [of j fs e gs] assms(1,2) unfolding es by blast
qed

text \<open>A run whose events are all for unfinished keys keeps every finished one.\<close>

lemma view_monotone:
  assumes "log_ok j" "\<forall>e \<in> set es. event_ok e" "\<forall>e \<in> set es. view j (key_of e) = None"
  shows "view j \<subseteq>\<^sub>m view (fold record_event es j)"
proof (unfold map_le_def, intro ballI)
  fix k assume "k \<in> dom (view j)"
  with assms(3) have "k \<notin> key_of ` set es" by auto
  then show "view j k = view (fold record_event es j) k"
    using assms by (simp add: view_untouched)
qed

end

end
