(* ===== verification/Exec_Journal.thy ===== *)
theory Exec_Journal
  imports Effect_Log Exec_Retry Core_Reports
begin

text \<open>
  \<open>immich-executor/src/journal.rs\<close>: the SQLite checkpoint of an upload run. A database is
  its application identifiers, its \<open>metadata\<close> table (primary key \<open>key\<close>) and the rows
  of its append-only \<open>events\<close> table in sequence order. SQLite itself is not modelled:
  a failing statement is the \<open>io_ok\<close> argument, and a file that SQLite cannot use is
  the variant \<open>Corrupt\<close>. \<open>plan_sha256\<close> is the SHA-256 of the plan's JSON, \<open>None\<close> when
  the encoder fails.
\<close>

datatype OutcomeKind = Created | Duplicate | Failed | Indeterminate

definition OutcomeKind_as_str :: "OutcomeKind \<Rightarrow> string" where
  "OutcomeKind_as_str k =
     (case k of Created \<Rightarrow> ''created'' | Duplicate \<Rightarrow> ''duplicate'' | Failed \<Rightarrow> ''failed''
      | Indeterminate \<Rightarrow> ''indeterminate'')"

record JournalEvent =
  je_operation_id :: string
  je_kind :: OutcomeKind
  je_asset_id :: "string option"
  je_retry_count :: nat

text \<open>A row of the \<open>events\<close> table.\<close>

record journal_row =
  jr_operation_id :: string
  jr_outcome :: string
  jr_asset_id :: "string option"
  jr_retry_count :: nat
  jr_recorded_unix_ms :: int

record checkpoint_db =
  db_application_id :: int
  db_user_version :: int
  db_metadata :: "(string, string) btree_map"
  db_events :: "journal_row list"

text \<open>What is at the checkpoint path; \<open>Symlink exists\<close> says whether the target exists.\<close>

datatype checkpoint_file = Missing | Symlink bool | Inaccessible | Corrupt | Database checkpoint_db

definition CHECKPOINT_SCHEMA :: string where
  "CHECKPOINT_SCHEMA = ''checkpoint-v1''"

definition APPLICATION_ID :: int where
  "APPLICATION_ID = 0x49525331"

definition EXECUTION_SCOPE_KEY :: string where
  "EXECUTION_SCOPE_KEY = ''execution_scope''"

definition BACKUP_REFERENCE_KEY :: string where
  "BACKUP_REFERENCE_KEY = ''backup_reference_sha256''"

definition PRODUCTION_SCOPE :: string where
  "PRODUCTION_SCOPE = ''production''"

section \<open>Opening and binding\<close>

definition reject_symlink :: "checkpoint_file \<Rightarrow> (unit, ExecutorErrorClass) result" where
  "reject_symlink f = (case f of Symlink _ \<Rightarrow> Err EE_Checkpoint | Inaccessible \<Rightarrow> Err EE_Checkpoint | _ \<Rightarrow> Ok ())"

definition empty_db :: checkpoint_db where
  "empty_db = \<lparr>db_application_id = 0, db_user_version = 0, db_metadata = [], db_events = []\<rparr>"

definition configure :: "checkpoint_db \<Rightarrow> checkpoint_db" where
  "configure db = db \<lparr>db_application_id := 1230132017, db_user_version := 1\<rparr>"

definition show_version :: "ServerVersion \<Rightarrow> string" where
  "show_version v =
     show_nat (uint (sv_major v)) @ ''.'' @ show_nat (uint (sv_minor v)) @ ''.'' @ show_nat (uint (sv_patch v))"

definition binding_entries :: "UploadPlan \<Rightarrow> string \<Rightarrow> (string \<times> string) list" where
  "binding_entries plan digest =
     [(''schema'', CHECKPOINT_SCHEMA), (''upload_plan_sha256'', digest),
      (''normalized_plan_sha256'', up_normalized_plan_sha256 plan),
      (''source_sha256'', sd_fingerprint_sha256 (up_source plan)),
      (''configuration_sha256'', up_configuration_sha256 plan),
      (''server_identity_sha256'', sc_identity_sha256 (up_server plan)),
      (''server_version'', show_version (sc_version (up_server plan)))]"

definition expected_binding ::
  "(UploadPlan \<Rightarrow> string option) \<Rightarrow> UploadPlan \<Rightarrow> string option
     \<Rightarrow> ((string, string) btree_map, ExecutorErrorClass) result" where
  "expected_binding plan_sha256 plan backup =
     and_then (ok_or (plan_sha256 plan) EE_Invariant) (\<lambda>digest.
       let binding = btm_extend (binding_entries plan digest) []
       in Ok (case backup of None \<Rightarrow> binding
              | Some d \<Rightarrow> btm_insert BACKUP_REFERENCE_KEY d (btm_insert EXECUTION_SCOPE_KEY PRODUCTION_SCOPE binding)))"

definition validate_application :: "checkpoint_db \<Rightarrow> (unit, ExecutorErrorClass) result" where
  "validate_application db =
     (if db_application_id db \<noteq> APPLICATION_ID \<or> db_user_version db \<noteq> 1 then Err EE_Checkpoint else Ok ())"

definition read_binding :: "checkpoint_db \<Rightarrow> ((string, string) btree_map, ExecutorErrorClass) result" where
  "read_binding db = and_then (validate_application db) (\<lambda>_. Ok (db_metadata db))"

definition validate_binding_for_scope ::
  "(UploadPlan \<Rightarrow> string option) \<Rightarrow> checkpoint_db \<Rightarrow> UploadPlan \<Rightarrow> string option
     \<Rightarrow> (unit, ExecutorErrorClass) result" where
  "validate_binding_for_scope plan_sha256 db plan backup =
     and_then (read_binding db) (\<lambda>actual.
     and_then (expected_binding plan_sha256 plan backup) (\<lambda>expected.
       if actual \<noteq> expected then Err EE_Checkpoint else Ok ()))"

definition validate_binding_any_scope ::
  "(UploadPlan \<Rightarrow> string option) \<Rightarrow> checkpoint_db \<Rightarrow> UploadPlan \<Rightarrow> (unit, ExecutorErrorClass) result" where
  "validate_binding_any_scope plan_sha256 db plan =
     and_then (read_binding db) (\<lambda>actual.
       let scope = btm_get actual EXECUTION_SCOPE_KEY;
           backup = btm_get actual BACKUP_REFERENCE_KEY;
           rest = btm_remove BACKUP_REFERENCE_KEY (btm_remove EXECUTION_SCOPE_KEY actual);
           valid_scope = (case (scope, backup) of
               (None, None) \<Rightarrow> True
             | (Some s, Some digest) \<Rightarrow> s = PRODUCTION_SCOPE \<and> is_lower_sha256 digest
             | _ \<Rightarrow> False)
       in if \<not> valid_scope then Err EE_Checkpoint
          else and_then (expected_binding plan_sha256 plan None) (\<lambda>expected.
            if rest \<noteq> expected then Err EE_Checkpoint else Ok ()))"

definition bind_or_validate ::
  "(UploadPlan \<Rightarrow> string option) \<Rightarrow> checkpoint_db \<Rightarrow> UploadPlan \<Rightarrow> string option
     \<Rightarrow> (checkpoint_db, ExecutorErrorClass) result" where
  "bind_or_validate plan_sha256 db plan backup =
     (if db_metadata db = []
      then and_then (expected_binding plan_sha256 plan backup) (\<lambda>expected.
             Ok (db \<lparr>db_metadata := btm_extend expected []\<rparr>))
      else and_then (validate_binding_for_scope plan_sha256 db plan backup) (\<lambda>_. Ok db))"

definition open_with_scope ::
  "(UploadPlan \<Rightarrow> string option) \<Rightarrow> bool \<Rightarrow> checkpoint_file \<Rightarrow> UploadPlan \<Rightarrow> string option
     \<Rightarrow> (checkpoint_db, ExecutorErrorClass) result" where
  "open_with_scope plan_sha256 io_ok f plan backup =
     and_then (reject_symlink f) (\<lambda>_.
       if \<not> io_ok then Err EE_Checkpoint
       else case f of
          Missing \<Rightarrow> bind_or_validate plan_sha256 (configure empty_db) plan backup
        | Database db \<Rightarrow> bind_or_validate plan_sha256 (configure db) plan backup
        | _ \<Rightarrow> Err EE_Checkpoint)"

definition Journal_open ::
  "(UploadPlan \<Rightarrow> string option) \<Rightarrow> bool \<Rightarrow> checkpoint_file \<Rightarrow> UploadPlan \<Rightarrow> (checkpoint_db, ExecutorErrorClass) result" where
  "Journal_open plan_sha256 io_ok f plan = open_with_scope plan_sha256 io_ok f plan None"

definition Journal_open_production ::
  "(UploadPlan \<Rightarrow> string option) \<Rightarrow> bool \<Rightarrow> checkpoint_file \<Rightarrow> UploadPlan \<Rightarrow> string
     \<Rightarrow> (checkpoint_db, ExecutorErrorClass) result" where
  "Journal_open_production plan_sha256 io_ok f plan digest =
     (if \<not> is_lower_sha256 digest then Err EE_Checkpoint
      else open_with_scope plan_sha256 io_ok f plan (Some digest))"

section \<open>Events\<close>

definition asset_contract :: "JournalEvent \<Rightarrow> bool" where
  "asset_contract e =
     (case je_kind e of
        Created \<Rightarrow> is_some_and (je_asset_id e) (\<lambda>i. i \<noteq> [] \<and> length i \<le> 4096)
      | Duplicate \<Rightarrow> is_some_and (je_asset_id e) (\<lambda>i. i \<noteq> [] \<and> length i \<le> 4096)
      | Failed \<Rightarrow> je_asset_id e = None
      | Indeterminate \<Rightarrow> je_asset_id e = None)"

definition insert_row :: "int \<Rightarrow> JournalEvent \<Rightarrow> checkpoint_db \<Rightarrow> checkpoint_db" where
  "insert_row now e db =
     db \<lparr>db_events := db_events db @
        [\<lparr>jr_operation_id = je_operation_id e, jr_outcome = OutcomeKind_as_str (je_kind e),
          jr_asset_id = je_asset_id e, jr_retry_count = je_retry_count e, jr_recorded_unix_ms = now\<rparr>]\<rparr>"

text \<open>\<open>now\<close> is the clock, \<open>None\<close> when it is before the epoch or out of range.\<close>

definition Journal_append ::
  "bool \<Rightarrow> int option \<Rightarrow> JournalEvent \<Rightarrow> checkpoint_db \<Rightarrow> (checkpoint_db, ExecutorErrorClass) result" where
  "Journal_append io_ok now e db =
     (if je_operation_id e = [] \<or> \<not> asset_contract e then Err EE_Invariant
      else case now of
          None \<Rightarrow> Err EE_Checkpoint
        | Some t \<Rightarrow> if io_ok then Ok (insert_row t e db) else Err EE_Checkpoint)"

text \<open>The query of \<open>completed_assets\<close>: the latest row of every operation, kept when its
  outcome is a success, in operation order.\<close>

definition latest_rows :: "journal_row list \<Rightarrow> (string, journal_row) btree_map" where
  "latest_rows rows = fold (\<lambda>r. btm_insert (jr_operation_id r) r) rows []"

definition completed_row ::
  "journal_row \<Rightarrow> (string, string) btree_map \<Rightarrow> ((string, string) btree_map, ExecutorErrorClass) result" where
  "completed_row r completed =
     (case jr_asset_id r of
        None \<Rightarrow> Err EE_Checkpoint
      | Some asset_id \<Rightarrow>
          if jr_operation_id r = [] \<or> asset_id = [] \<or> length asset_id > 4096
             \<or> btm_get completed (jr_operation_id r) \<noteq> None
          then Err EE_Checkpoint
          else Ok (btm_insert (jr_operation_id r) asset_id completed))"

definition completed_assets :: "checkpoint_db \<Rightarrow> ((string, string) btree_map, ExecutorErrorClass) result" where
  "completed_assets db =
     fold_result completed_row
       (filter (\<lambda>r. jr_outcome r \<in> {''created'', ''duplicate''}) (map snd (latest_rows (db_events db)))) []"

definition Journal_completed :: "checkpoint_db \<Rightarrow> ((string, string) btree_map, ExecutorErrorClass) result" where
  "Journal_completed db = completed_assets db"

definition Journal_validate_existing ::
  "(UploadPlan \<Rightarrow> string option) \<Rightarrow> bool \<Rightarrow> checkpoint_file \<Rightarrow> UploadPlan
     \<Rightarrow> ((string, string) btree_map, ExecutorErrorClass) result" where
  "Journal_validate_existing plan_sha256 io_ok f plan =
     (if f \<in> {Missing, Symlink False, Inaccessible} then Ok []
      else and_then (reject_symlink f) (\<lambda>_.
        case f of
          Database db \<Rightarrow>
            if \<not> io_ok then Err EE_Checkpoint
            else and_then (validate_application db) (\<lambda>_.
              and_then (validate_binding_any_scope plan_sha256 db plan) (\<lambda>_. completed_assets db))
        | _ \<Rightarrow> Err EE_Checkpoint))"

section \<open>The view of a journal\<close>

definition row_result :: "journal_row \<Rightarrow> string option" where
  "row_result r = (if jr_outcome r \<in> {''created'', ''duplicate''} then jr_asset_id r else None)"

text \<open>Abstractly a journal is the map from operation to asset of the successful operations.\<close>

definition journal_view :: "checkpoint_db \<Rightarrow> string \<Rightarrow> string option" where
  "journal_view db i = Option.bind (map_of (map (\<lambda>r. (jr_operation_id r, r)) (rev (db_events db))) i) row_result"

definition row_ok :: "journal_row \<Rightarrow> bool" where
  "row_ok r \<longleftrightarrow> jr_operation_id r \<noteq> [] \<and>
     (jr_outcome r \<in> {''created'', ''duplicate''} \<longrightarrow>
        is_some_and (jr_asset_id r) (\<lambda>i. i \<noteq> [] \<and> length i \<le> 4096))"

definition journal_ok :: "checkpoint_db \<Rightarrow> bool" where
  "journal_ok db \<longleftrightarrow> (\<forall>r \<in> set (db_events db). row_ok r)"

definition event_ok :: "JournalEvent \<Rightarrow> bool" where
  "event_ok e \<longleftrightarrow> je_operation_id e \<noteq> [] \<and> asset_contract e"

lemma as_str_success [simp]: "OutcomeKind_as_str k \<in> {''created'', ''duplicate''} \<longleftrightarrow> k \<in> {Created, Duplicate}"
  by (cases k) (auto simp: OutcomeKind_as_str_def)

lemma inserted_row_result:
  "event_ok e \<Longrightarrow> journal_view (insert_row now e db) = (journal_view db)(je_operation_id e := je_asset_id e)"
  using as_str_success [of "je_kind e"]
  by (rule_tac ext) (cases "je_kind e"; auto simp: journal_view_def insert_row_def row_result_def event_ok_def asset_contract_def)

text \<open>An event with the instant it is recorded at.\<close>

type_synonym timed_event = "int \<times> JournalEvent"

abbreviation record_timed :: "timed_event \<Rightarrow> checkpoint_db \<Rightarrow> checkpoint_db" where
  "record_timed te \<equiv> insert_row (fst te) (snd te)"

interpretation upload_log: effect_log journal_view record_timed "je_operation_id \<circ> snd" "je_asset_id \<circ> snd"
    journal_ok "event_ok \<circ> snd"
proof unfold_locales
  fix db and te :: timed_event
  assume "journal_ok db" "(event_ok \<circ> snd) te"
  then show "journal_view (record_timed te db) = (journal_view db)((je_operation_id \<circ> snd) te := (je_asset_id \<circ> snd) te)"
    by (simp add: inserted_row_result)
  show "journal_ok (record_timed te db)"
    using \<open>journal_ok db\<close> \<open>(event_ok \<circ> snd) te\<close> as_str_success [of "je_kind (snd te)"]
    by (cases "je_kind (snd te)") (auto simp: journal_ok_def insert_row_def row_ok_def event_ok_def asset_contract_def)
qed

lemma latest_rows_eq: "latest_rows rows = btm.insert_all (map (\<lambda>r. (jr_operation_id r, r)) rows) []"
  by (simp add: latest_rows_def btm.insert_all_def fold_map comp_def)

lemma latest_rows_get: "btm_get (latest_rows rows) = map_of (map (\<lambda>r. (jr_operation_id r, r)) (rev rows))"
  by (simp add: latest_rows_eq btm.get_insert_all rev_map)

lemma latest_rows_wf: "btm_wf (latest_rows rows)"
  by (simp add: latest_rows_eq btm.insert_all_wf)

lemma latest_rows_entry: "(i, r) \<in> set (latest_rows rows) \<Longrightarrow> jr_operation_id r = i \<and> r \<in> set rows"
proof -
  assume "(i, r) \<in> set (latest_rows rows)"
  then have "btm_get (latest_rows rows) i = Some r"
    by (simp add: latest_rows_wf btm_wf_distinct)
  then show ?thesis
    unfolding latest_rows_get by (auto dest!: map_of_SomeD)
qed

lemma fold_completed_row:
  assumes "\<forall>r \<in> set rows. row_ok r \<and> jr_outcome r \<in> {''created'', ''duplicate''}"
    and "distinct (map jr_operation_id rows)" "\<forall>r \<in> set rows. btm_get m (jr_operation_id r) = None" "btm_wf m"
  shows "\<exists>m'. fold_result completed_row rows m = Ok m' \<and> btm_wf m' \<and>
    btm_get m' = btm_get m ++ map_of (map (\<lambda>r. (jr_operation_id r, the (jr_asset_id r))) rows)"
  using assms
proof (induction rows arbitrary: m)
  case (Cons r rows)
  obtain a where a: "jr_asset_id r = Some a" "a \<noteq> []" "length a \<le> 4096" "jr_operation_id r \<noteq> []"
    using Cons.prems(1) by (auto simp: row_ok_def is_some_and_iff)
  let ?m = "btm_insert (jr_operation_id r) a m"
  have step: "completed_row r m = Ok ?m"
    using a Cons.prems(3) by (simp add: completed_row_def)
  have "\<forall>r' \<in> set rows. jr_operation_id r' \<noteq> jr_operation_id r"
    using Cons.prems(2) by (metis distinct.simps(2) image_eqI list.set_map list.simps(9))
  then have "\<exists>m'. fold_result completed_row rows ?m = Ok m' \<and> btm_wf m' \<and>
      btm_get m' = btm_get ?m ++ map_of (map (\<lambda>r. (jr_operation_id r, the (jr_asset_id r))) rows)"
    by (intro Cons.IH) (use Cons.prems in auto)
  then obtain m' where m': "fold_result completed_row rows ?m = Ok m'" "btm_wf m'"
      "btm_get m' = btm_get ?m ++ map_of (map (\<lambda>r. (jr_operation_id r, the (jr_asset_id r))) rows)"
    by blast
  have "jr_operation_id r \<notin> dom (map_of (map (\<lambda>r. (jr_operation_id r, the (jr_asset_id r))) rows))"
    using \<open>\<forall>r' \<in> set rows. jr_operation_id r' \<noteq> jr_operation_id r\<close>
    by (auto simp: dom_map_of_conv_image_fst)
  then have "btm_get m' = btm_get m ++ map_of (map (\<lambda>r. (jr_operation_id r, the (jr_asset_id r))) (r # rows))"
    using a(1) unfolding m'(3) btm_get_insert by (simp add: map_add_upd_left)
  moreover have "fold_result completed_row (r # rows) m = Ok m'" using m'(1) step by simp
  ultimately show ?case using m'(2) by blast
qed auto

text \<open>On a well-formed journal the query succeeds and returns exactly the view.\<close>

lemma completed_assets_view:
  assumes "journal_ok db"
  shows "\<exists>m. completed_assets db = Ok m \<and> btm_wf m \<and> btm_get m = journal_view db"
proof -
  let ?L = "latest_rows (db_events db)"
  let ?ok = "\<lambda>r. jr_outcome r \<in> {''created'', ''duplicate''}"
  let ?rows = "filter ?ok (map snd ?L)"
  have entry: "(i, r) \<in> set ?L \<Longrightarrow> jr_operation_id r = i \<and> row_ok r" for i r
    using assms latest_rows_entry by (fastforce simp: journal_ok_def)
  have ids: "map jr_operation_id (map snd ?L) = map fst ?L"
    using entry by (auto intro!: map_cong)
  then have dist: "distinct (map jr_operation_id ?rows)"
    using btm_wf_distinct [OF latest_rows_wf [of "db_events db"]] by (metis distinct_map_filter)
  obtain m where m: "fold_result completed_row ?rows [] = Ok m" "btm_wf m"
      "btm_get m = map_of (map (\<lambda>r. (jr_operation_id r, the (jr_asset_id r))) ?rows)"
    using fold_completed_row [of ?rows "[]"] dist entry by force
  have "btm_get m i = journal_view db i" for i
  proof -
    have view: "journal_view db i = Option.bind (btm_get ?L i) row_result"
      by (simp add: journal_view_def latest_rows_get)
    have "btm_get m i = Some a \<longleftrightarrow> (\<exists>r. (i, r) \<in> set ?L \<and> ?ok r \<and> a = the (jr_asset_id r))" for a
    proof -
      have "btm_get m i = Some a \<longleftrightarrow> (\<exists>r \<in> set ?rows. jr_operation_id r = i \<and> a = the (jr_asset_id r))"
        using dist by (auto simp: m(3) comp_def map_of_eq_Some_iff)
      also have "\<dots> \<longleftrightarrow> (\<exists>r. (i, r) \<in> set ?L \<and> ?ok r \<and> a = the (jr_asset_id r))"
        using entry by force
      finally show ?thesis .
    qed
    moreover have "(i, r) \<in> set ?L \<longleftrightarrow> btm_get ?L i = Some r" for r
      by (simp add: latest_rows_wf btm_wf_distinct)
    moreover have "row_result r = (if ?ok r then Some (the (jr_asset_id r)) else None)" if "(i, r) \<in> set ?L" for r
      using entry [OF that] by (auto simp: row_result_def row_ok_def is_some_and_iff)
    ultimately have "btm_get m i = Some a \<longleftrightarrow> journal_view db i = Some a" for a
      unfolding view by (cases "btm_get ?L i") auto
    then show ?thesis by (metis option.exhaust)
  qed
  then show ?thesis using m by (auto simp: completed_assets_def)
qed

section \<open>Binding\<close>

lemma expected_binding_wf: "expected_binding ps plan b = Ok m \<Longrightarrow> btm_wf m"
  by (auto simp: expected_binding_def and_then_eq_Ok Let_def btm.insert_all_wf split: option.splits)

lemma expected_binding_eq:
  "expected_binding ps plan b = Ok m \<Longrightarrow> \<exists>d. ps plan = Some d \<and>
     btm_get m = (case b of None \<Rightarrow> map_of (rev (binding_entries plan d))
       | Some r \<Rightarrow> (map_of (rev (binding_entries plan d)))(EXECUTION_SCOPE_KEY \<mapsto> PRODUCTION_SCOPE, BACKUP_REFERENCE_KEY \<mapsto> r))"
  by (cases b) (auto simp: expected_binding_def and_then_eq_Ok btm.get_insert_all)

lemma binding_entries_get:
  "map_of (rev (binding_entries plan d)) ''upload_plan_sha256'' = Some d"
  "map_of (rev (binding_entries plan d)) BACKUP_REFERENCE_KEY = None"
  by (simp_all add: binding_entries_def BACKUP_REFERENCE_KEY_def)

lemma expected_binding_get:
  assumes "expected_binding ps plan b = Ok m"
  shows "btm_get m ''upload_plan_sha256'' = ps plan" "btm_get m BACKUP_REFERENCE_KEY = b"
proof -
  obtain d where d: "ps plan = Some d"
     "btm_get m = (case b of None \<Rightarrow> map_of (rev (binding_entries plan d))
       | Some r \<Rightarrow> (map_of (rev (binding_entries plan d)))(EXECUTION_SCOPE_KEY \<mapsto> PRODUCTION_SCOPE, BACKUP_REFERENCE_KEY \<mapsto> r))"
    using expected_binding_eq [OF assms] by blast
  show "btm_get m ''upload_plan_sha256'' = ps plan"
    unfolding d using binding_entries_get(1)
    by (auto simp: EXECUTION_SCOPE_KEY_def BACKUP_REFERENCE_KEY_def split: option.split)
  show "btm_get m BACKUP_REFERENCE_KEY = b"
    unfolding d(2) using binding_entries_get(2) by (auto split: option.split)
qed

lemma expected_binding_nonempty:
  assumes "expected_binding ps plan b = Ok m"
  shows "m \<noteq> []"
proof
  assume "m = []"
  then have "ps plan = None" using expected_binding_get(1) [OF assms] by simp
  then show False using expected_binding_eq [OF assms] by simp
qed

text \<open>A database the executor bound to a plan and a scope.\<close>

definition bound_to :: "(UploadPlan \<Rightarrow> string option) \<Rightarrow> UploadPlan \<Rightarrow> string option \<Rightarrow> checkpoint_db \<Rightarrow> bool" where
  "bound_to ps plan b db \<longleftrightarrow> expected_binding ps plan b = Ok (db_metadata db) \<and>
     db_application_id db = APPLICATION_ID \<and> db_user_version db = 1"

lemma open_missing_bound:
  "open_with_scope ps io Missing plan b = Ok db \<Longrightarrow> bound_to ps plan b db \<and> db_events db = []"
  by (auto simp: open_with_scope_def reject_symlink_def bind_or_validate_def and_then_eq_Ok configure_def
      empty_db_def bound_to_def APPLICATION_ID_def insert_all_self expected_binding_wf split: if_splits)

lemma open_bound:
  assumes "bound_to ps plan b db"
  shows "open_with_scope ps True (Database db) plan' b' = Ok db' \<longleftrightarrow>
    db' = db \<and> expected_binding ps plan' b' = expected_binding ps plan b"
proof -
  have "db_metadata db \<noteq> []" "configure db = db"
    using assms expected_binding_nonempty
    by (auto simp: bound_to_def configure_def APPLICATION_ID_def)
  then show ?thesis
    using assms
    by (auto simp: open_with_scope_def reject_symlink_def bind_or_validate_def and_then_eq_Ok bound_to_def
        validate_binding_for_scope_def read_binding_def validate_application_def)
qed

section \<open>Properties\<close>

text \<open>C4: reading back a well-formed journal after any sequence of well-formed appends
  succeeds and returns, for every operation, the asset of its latest event when
  that event was a success, and nothing when its latest event was a failure or
  indeterminate; operations without an event keep what they had.\<close>

theorem journal_latest_outcome:
  assumes "journal_ok db" "\<forall>te \<in> set es. event_ok (snd te)"
  shows "\<exists>m. Journal_completed (fold record_timed es db) = Ok m \<and>
    (\<forall>i. btm_get m i = (case find (\<lambda>te. je_operation_id (snd te) = i) (rev es) of
        Some te \<Rightarrow> je_asset_id (snd te) | None \<Rightarrow> journal_view db i))"
proof -
  have ok: "journal_ok (fold record_timed es db)"
    using assms by (intro upload_log.ok_fold) auto
  have "journal_view (fold record_timed es db) i = (case find (\<lambda>te. je_operation_id (snd te) = i) (rev es) of
        Some te \<Rightarrow> je_asset_id (snd te) | None \<Rightarrow> journal_view db i)" for i
    using assms(2)
  proof (induction es rule: rev_induct)
    case (snoc e es)
    then show ?case
      using upload_log.view_record [of "fold record_timed es db" e] upload_log.ok_fold [OF assms(1), of es]
      by auto
  qed simp
  with completed_assets_view [OF ok] show ?thesis by (auto simp: Journal_completed_def)
qed

definition sample_event :: "char \<Rightarrow> OutcomeKind \<Rightarrow> string option \<Rightarrow> JournalEvent" where
  "sample_event c k a = \<lparr>je_operation_id = hex64 c, je_kind = k, je_asset_id = a, je_retry_count = 0\<rparr>"

definition sample_events :: "timed_event list" where
  "sample_events = [(5, sample_event CHR ''a'' Failed None), (6, sample_event CHR ''b'' Duplicate (Some ''y'')),
     (7, sample_event CHR ''a'' Created (Some ''x''))]"

theorem journal_latest_outcome_witness:
  "\<exists>m. Journal_completed (fold record_timed sample_events empty_db) = Ok m \<and>
    btm_get m (hex64 CHR ''a'') = Some ''x'' \<and> btm_get m (hex64 CHR ''b'') = Some ''y''"
proof -
  have "journal_ok empty_db" by (simp add: journal_ok_def empty_db_def)
  moreover have "\<forall>te \<in> set sample_events. event_ok (snd te)"
    by (simp add: event_ok_def sample_events_def sample_event_def asset_contract_def hex64_def)
  ultimately obtain m where "Journal_completed (fold record_timed sample_events empty_db) = Ok m"
    and get: "\<forall>i. btm_get m i = (case find (\<lambda>te. je_operation_id (snd te) = i) (rev sample_events) of
        Some te \<Rightarrow> je_asset_id (snd te) | None \<Rightarrow> journal_view empty_db i)"
    using journal_latest_outcome by blast
  moreover have "btm_get m (hex64 CHR ''a'') = Some ''x''" "btm_get m (hex64 CHR ''b'') = Some ''y''"
    using get by (simp_all add: sample_events_def sample_event_def hex64_def)
  ultimately show ?thesis by blast
qed

text \<open>C20: a checkpoint belongs to one plan and one scope. After it was created for a plan,
  with or without a backup reference, and whatever events were appended, opening
  it for the same plan and scope succeeds and changes nothing, and opening it
  succeeds for no plan with another digest and for no other scope.\<close>

theorem checkpoint_binding:
  assumes "open_with_scope ps io Missing plan backup = Ok db"
    and "db' = db \<lparr>db_events := events\<rparr>"
  shows "open_with_scope ps True (Database db') plan backup = Ok db' \<and>
    (\<forall>plan2 backup2 db2. open_with_scope ps True (Database db') plan2 backup2 = Ok db2 \<longrightarrow>
       ps plan2 = ps plan \<and> backup2 = backup \<and> db2 = db')"
proof -
  have bound: "bound_to ps plan backup db'"
    using open_missing_bound [OF assms(1)] assms(2) by (simp add: bound_to_def)
  then have "expected_binding ps plan backup = Ok (db_metadata db')" by (simp add: bound_to_def)
  then show ?thesis
    using open_bound [OF bound] expected_binding_get [of ps] by metis
qed

theorem checkpoint_binding_witness:
  "is_ok (open_with_scope (\<lambda>p. Some (up_normalized_plan_sha256 p)) True Missing sample_import_plan None) \<and>
   \<not> is_ok (open_with_scope (\<lambda>p. Some (up_normalized_plan_sha256 p)) True
      (case open_with_scope (\<lambda>p. Some (up_normalized_plan_sha256 p)) True Missing sample_import_plan None of
         Ok db \<Rightarrow> Database db | Err e \<Rightarrow> Missing) sample_import_plan (Some (hex64 CHR ''b'')))"
proof -
  obtain db where db: "open_with_scope (\<lambda>p. Some (up_normalized_plan_sha256 p)) True Missing sample_import_plan None = Ok db"
    by (simp add: open_with_scope_def reject_symlink_def bind_or_validate_def expected_binding_def configure_def empty_db_def)
  have "db = db \<lparr>db_events := db_events db\<rparr>" by simp
  from checkpoint_binding [OF db this] db show ?thesis by (auto simp: is_ok_iff)
qed

end
