(* ===== verification/Exec_Operation.thy ===== *)
theory Exec_Operation
  imports Client_Api Exec_Journal
begin

text \<open>
  \<open>immich-executor/src/operation.rs\<close>: one upload operation with its duplicate preflight,
  its bounded retries and the reconciliation of an uncertain answer. The state is
  the outside world together with the retry budget, which other groups of the
  same run share: the transport acts on both, so whatever concurrent groups do at
  an await point is part of what the transport does.
\<close>

record 'w exec =
  ex_world :: 'w
  ex_budget :: RetryBudget

text \<open>\<open>verify.rs\<close>: what source verification keeps of one asset.\<close>

record VerifiedAsset =
  va_media_path :: string
  va_file_name :: string
  va_sha1_base64 :: string
  va_xmp :: "(string \<times> u64) option"

record OperationOutcome =
  oo_operation_id :: string
  oo_kind :: OutcomeKind
  oo_asset_id :: "string option"
  oo_retries :: nat

datatype OperationResult = OpCompleted OperationOutcome | OpCancelled "OperationOutcome option"

definition successful :: "UploadOperation \<Rightarrow> OutcomeKind \<Rightarrow> string \<Rightarrow> nat \<Rightarrow> OperationOutcome" where
  "successful oper kind asset_id retries =
     \<lparr>oo_operation_id = op_operation_id oper, oo_kind = kind, oo_asset_id = Some asset_id, oo_retries = retries\<rparr>"

definition failed :: "UploadOperation \<Rightarrow> nat \<Rightarrow> OperationOutcome" where
  "failed oper retries =
     \<lparr>oo_operation_id = op_operation_id oper, oo_kind = Failed, oo_asset_id = None, oo_retries = retries\<rparr>"

definition indeterminate :: "UploadOperation \<Rightarrow> nat \<Rightarrow> OperationOutcome" where
  "indeterminate oper retries =
     \<lparr>oo_operation_id = op_operation_id oper, oo_kind = Indeterminate, oo_asset_id = None, oo_retries = retries\<rparr>"

definition uncertain :: "ClientError \<Rightarrow> bool" where
  "uncertain e \<longleftrightarrow> ce_class e \<in> {Disconnect, Timeout}"

definition retry_allowed ::
  "ClientError \<Rightarrow> nat \<Rightarrow> UploadExecutionConfig \<Rightarrow> 'w exec \<Rightarrow> bool \<times> 'w exec" where
  "retry_allowed e retries config st =
     (if is_retryable e \<and> retries + 1 < ec_max_attempts_per_operation config
      then let (granted, b) = RetryBudget_claim (ex_budget st) in (granted, st \<lparr>ex_budget := b\<rparr>)
      else (False, st))"

definition reconcile_uncertain ::
  "'w exec transport \<Rightarrow> UploadOperation \<Rightarrow> VerifiedAsset \<Rightarrow> nat \<Rightarrow> 'w exec \<Rightarrow> OperationResult \<times> 'w exec" where
  "reconcile_uncertain tr oper source retries st =
     (case duplicate_check tr (op_operation_id oper) (va_sha1_base64 source) st of
        (Ok (Duplicate_of asset_id), s1) \<Rightarrow> (OpCompleted (successful oper Duplicate asset_id retries), s1)
      | (_, s1) \<Rightarrow>
          (case tr_cancelled tr s1 of
             (True, s2) \<Rightarrow> (OpCancelled (Some (indeterminate oper retries)), s2)
           | (False, s2) \<Rightarrow> (OpCompleted (indeterminate oper retries), s2)))"

definition upload_request :: "UploadOperation \<Rightarrow> VerifiedAsset \<Rightarrow> string option \<Rightarrow> UploadRequest" where
  "upload_request oper source video =
     \<lparr>ur_operation_id = op_operation_id oper, ur_file_name = va_file_name source,
      ur_media_path = va_media_path source, ur_media_len = op_byte_len oper,
      ur_sha1_base64 = va_sha1_base64 source, ur_created_at_unix_ms = op_created_at_unix_ms oper,
      ur_modified_at_unix_ms = op_modified_at_unix_ms oper, ur_xmp = va_xmp source,
      ur_live_photo_video_id = video\<rparr>"

definition outcome_kind :: "UploadResult \<Rightarrow> OutcomeKind" where
  "outcome_kind r = (case r of UploadCreated \<Rightarrow> Created | UploadDuplicate \<Rightarrow> Duplicate)"

lemma retry_allowed_bound: "retry_allowed e n c st = (True, st') \<Longrightarrow> n + 1 < ec_max_attempts_per_operation c"
  by (auto simp: retry_allowed_def split: if_splits prod.splits)

text \<open>The body of the loop of \<open>apply\<close>: it returns a result, or continues (\<open>None\<close>) with one
  more retry.\<close>

definition apply_attempt ::
  "(string \<Rightarrow> string) \<Rightarrow> 'w exec transport \<Rightarrow> UploadExecutionConfig \<Rightarrow> UploadOperation \<Rightarrow> VerifiedAsset
     \<Rightarrow> string option \<Rightarrow> nat \<Rightarrow> 'w exec \<Rightarrow> OperationResult option \<times> 'w exec" where
  "apply_attempt sha tr config oper source video retries st =
     (case duplicate_check tr (op_operation_id oper) (va_sha1_base64 source) st of
        (Ok (Duplicate_of asset_id), s1) \<Rightarrow> (Some (OpCompleted (successful oper Duplicate asset_id retries)), s1)
      | (Err e, s1) \<Rightarrow>
          if ce_class e = Cancelled then (Some (OpCancelled None), s1)
          else (case retry_allowed e retries config s1 of
             (True, s2) \<Rightarrow>
               (case tr_wait tr (delay sha (op_operation_id oper) (retries + 1) e config) s2 of
                  (False, s3) \<Rightarrow> (Some (OpCancelled None), s3)
                | (True, s3) \<Rightarrow> (None, s3))
           | (False, s2) \<Rightarrow> (Some (OpCompleted (failed oper retries)), s2))
      | (Ok Accept, s1) \<Rightarrow>
          (case upload tr (upload_request oper source video) s1 of
             (Ok (status, asset_id), s2) \<Rightarrow>
               (Some (OpCompleted (successful oper (outcome_kind status) asset_id retries)), s2)
           | (Err e, s2) \<Rightarrow>
               if ce_class e = Cancelled then (Some (OpCancelled (Some (indeterminate oper retries))), s2)
               else (case retry_allowed e retries config s2 of
                  (True, s3) \<Rightarrow>
                    (case tr_wait tr (delay sha (op_operation_id oper) (retries + 1) e config) s3 of
                       (False, s4) \<Rightarrow> (Some (OpCancelled (Some (indeterminate oper retries))), s4)
                     | (True, s4) \<Rightarrow> (None, s4))
                | (False, s3) \<Rightarrow>
                    if uncertain e
                    then (let (r, s4) = reconcile_uncertain tr oper source retries s3 in (Some r, s4))
                    else (Some (OpCompleted (failed oper retries)), s3))))"

lemma apply_attempt_retry:
  "apply_attempt sha tr c oper source video n st = (None, st') \<Longrightarrow> n + 1 < ec_max_attempts_per_operation c"
  by (auto simp: apply_attempt_def dest: retry_allowed_bound
      split: prod.splits result.splits DuplicateCheck.splits bool.splits if_splits)

text \<open>The loop of \<open>apply\<close>: it ends because a retry needs \<open>retries + 1\<close> below the attempt limit.\<close>

function apply_loop ::
  "(string \<Rightarrow> string) \<Rightarrow> 'w exec transport \<Rightarrow> UploadExecutionConfig \<Rightarrow> UploadOperation \<Rightarrow> VerifiedAsset
     \<Rightarrow> string option \<Rightarrow> nat \<Rightarrow> 'w exec \<Rightarrow> OperationResult \<times> 'w exec" where
  "apply_loop sha tr config oper source video retries st =
     (case apply_attempt sha tr config oper source video retries st of
        (Some r, s1) \<Rightarrow> (r, s1)
      | (None, s1) \<Rightarrow> apply_loop sha tr config oper source video (retries + 1) s1)"
  by pat_completeness auto
termination
  by (relation "measure (\<lambda>(sha, tr, config, oper, source, video, retries, st).
        ec_max_attempts_per_operation config - retries)")
    (auto dest: apply_attempt_retry [OF sym])

declare apply_loop.simps [simp del]

definition operation_apply ::
  "(string \<Rightarrow> string) \<Rightarrow> 'w exec transport \<Rightarrow> UploadExecutionConfig \<Rightarrow> UploadOperation \<Rightarrow> VerifiedAsset
     \<Rightarrow> string option \<Rightarrow> 'w exec \<Rightarrow> OperationResult \<times> 'w exec" where
  "operation_apply sha tr config oper source video st = apply_loop sha tr config oper source video 0 st"

section \<open>Outcomes\<close>

text \<open>What the journal and the report require of an outcome.\<close>

definition outcome_ok :: "UploadExecutionConfig \<Rightarrow> UploadOperation \<Rightarrow> OperationOutcome \<Rightarrow> bool" where
  "outcome_ok config oper o' \<longleftrightarrow>
     oo_operation_id o' = op_operation_id oper \<and> oo_retries o' < ec_max_attempts_per_operation config \<and>
     (if oo_kind o' \<in> {Created, Duplicate} then is_some_and (oo_asset_id o') valid_asset_id
      else oo_asset_id o' = None)"

primrec result_outcomes :: "OperationResult \<Rightarrow> OperationOutcome list" where
  "result_outcomes (OpCompleted o') = [o']"
| "result_outcomes (OpCancelled o') = (case o' of None \<Rightarrow> [] | Some x \<Rightarrow> [x])"

lemma outcome_ok_intros:
  "n < ec_max_attempts_per_operation c \<Longrightarrow> outcome_ok c oper (failed oper n)"
  "n < ec_max_attempts_per_operation c \<Longrightarrow> outcome_ok c oper (indeterminate oper n)"
  "n < ec_max_attempts_per_operation c \<Longrightarrow> valid_asset_id i \<Longrightarrow> k \<in> {Created, Duplicate} \<Longrightarrow>
     outcome_ok c oper (successful oper k i n)"
  by (auto simp: outcome_ok_def failed_def indeterminate_def successful_def)

lemma outcome_ok_uploaded:
  "n < ec_max_attempts_per_operation c \<Longrightarrow> valid_asset_id i \<Longrightarrow>
     outcome_ok c oper (successful oper (outcome_kind r) i n)"
  by (cases r) (auto simp: outcome_kind_def outcome_ok_intros)

lemma reconcile_outcomes:
  assumes "reconcile_uncertain tr oper source n st = (res, st')" "n < ec_max_attempts_per_operation c"
  shows "\<forall>x \<in> set (result_outcomes res). outcome_ok c oper x"
  using assms
  by (auto simp: reconcile_uncertain_def outcome_ok_intros
      split: prod.splits result.splits DuplicateCheck.splits bool.splits dest: duplicate_check_id)

lemma apply_attempt_outcomes:
  assumes "apply_attempt sha tr c oper source video n st = (Some res, st')" "n < ec_max_attempts_per_operation c"
  shows "\<forall>x \<in> set (result_outcomes res). outcome_ok c oper x"
  using assms
  by (auto simp: apply_attempt_def outcome_ok_intros outcome_ok_uploaded
      split: prod.splits result.splits DuplicateCheck.splits bool.splits if_splits
      dest: duplicate_check_id upload_id reconcile_outcomes)

lemma apply_loop_outcomes:
  assumes "apply_loop sha tr c oper source video n st = (res, st')" "n < ec_max_attempts_per_operation c"
  shows "\<forall>x \<in> set (result_outcomes res). outcome_ok c oper x"
  using assms
proof (induction sha tr c oper source video n st rule: apply_loop.induct)
  case (1 sha tr c oper source video n st)
  obtain r s1 where att: "apply_attempt sha tr c oper source video n st = (r, s1)" by fastforce
  show ?case
  proof (cases r)
    case None
    then show ?thesis
      using "1.IH" [of r s1] att "1.prems" apply_attempt_retry [of sha tr c oper source video n st s1]
      by (simp add: apply_loop.simps [of sha tr c oper source video n st])
  next
    case (Some res')
    then show ?thesis
      using att "1.prems" apply_attempt_outcomes
      by (fastforce simp: apply_loop.simps [of sha tr c oper source video n st])
  qed
qed

section \<open>The requests of one operation\<close>

text \<open>The same transport with a log of the requests this operation sends.\<close>

definition plain :: "('w \<times> http_request list) exec \<Rightarrow> 'w exec" where
  "plain st = \<lparr>ex_world = fst (ex_world st), ex_budget = ex_budget st\<rparr>"

definition with_log :: "http_request list \<Rightarrow> 'w exec \<Rightarrow> ('w \<times> http_request list) exec" where
  "with_log l st = \<lparr>ex_world = (ex_world st, l), ex_budget = ex_budget st\<rparr>"

definition log_of :: "('w \<times> http_request list) exec \<Rightarrow> http_request list" where
  "log_of st = snd (ex_world st)"

definition keep_log ::
  "('w exec \<Rightarrow> 'a \<times> 'w exec) \<Rightarrow> ('w \<times> http_request list) exec \<Rightarrow> 'a \<times> ('w \<times> http_request list) exec" where
  "keep_log f st = (let (r, s) = f (plain st) in (r, with_log (log_of st) s))"

definition log_transport :: "'w exec transport \<Rightarrow> ('w \<times> http_request list) exec transport" where
  "log_transport tr =
     \<lparr>tr_cancelled = keep_log (tr_cancelled tr), tr_api_url = tr_api_url tr,
      tr_send = (\<lambda>q st. let (r, s) = tr_send tr q (plain st) in (r, with_log (log_of st @ [q]) s)),
      tr_open = (\<lambda>p. keep_log (tr_open tr p)), tr_wait = (\<lambda>d. keep_log (tr_wait tr d)),
      tr_max_response_bytes = tr_max_response_bytes tr, tr_retry_after_cap = tr_retry_after_cap tr,
      tr_rfc3339 = tr_rfc3339 tr, tr_format_timestamp = tr_format_timestamp tr,
      tr_bulk_check_json = tr_bulk_check_json tr, tr_upload_json = tr_upload_json tr,
      tr_asset_json = tr_asset_json tr, tr_albums_json = tr_albums_json tr,
      tr_album_json = tr_album_json tr, tr_bulk_ids_json = tr_bulk_ids_json tr\<rparr>"

text \<open>Only checks and uploads of this operation, each upload with the given motion video and
  with a check of the same content right before it.\<close>

fun checked_log :: "string \<Rightarrow> string option \<Rightarrow> http_request list \<Rightarrow> bool" where
  "checked_log i v [] = True"
| "checked_log i v (PostBulkCheck j s # PostAsset f h # rest) =
     (i = j \<and> mf_device_asset_id f = i \<and> mf_live_photo_video_id f = v \<and> s = h \<and> checked_log i v rest)"
| "checked_log i v (PostBulkCheck j s # rest) = (i = j \<and> checked_log i v rest)"
| "checked_log i v _ = False"

definition is_post_asset :: "http_request \<Rightarrow> bool" where
  "is_post_asset q = (case q of PostAsset _ _ \<Rightarrow> True | _ \<Rightarrow> False)"

lemma log_simps [simp]:
  "log_of (with_log l s) = l"
  "keep_log f st = (r, st') \<Longrightarrow> log_of st' = log_of st"
  by (auto simp: log_of_def with_log_def keep_log_def split: prod.splits)

lemma log_transport_keeps:
  "tr_cancelled (log_transport tr) st = (c, st') \<Longrightarrow> log_of st' = log_of st"
  "tr_open (log_transport tr) p st = (c, st') \<Longrightarrow> log_of st' = log_of st"
  "tr_wait (log_transport tr) d st = (c, st') \<Longrightarrow> log_of st' = log_of st"
  "tr_send (log_transport tr) q st = (a, st') \<Longrightarrow> log_of st' = log_of st @ [q]"
  by (auto simp: log_transport_def split: prod.splits)

lemma exchange_log:
  "exchange (log_transport tr) path q dec st = (a, st') \<Longrightarrow>
     log_of st' = log_of st @ [q] \<or> (log_of st' = log_of st \<and> a = Err (ClientError_new Protocol))"
  by (auto simp: exchange_def dest: log_transport_keeps split: if_splits prod.splits option.splits result.splits)

lemma check_cancelled_log:
  "check_cancelled (log_transport tr) st = (a, st') \<Longrightarrow> log_of st' = log_of st"
  by (auto simp: check_cancelled_def dest: log_transport_keeps split: prod.splits)

lemma duplicate_check_log:
  assumes "duplicate_check (log_transport tr) i h st = (a, st')"
  shows "log_of st' = log_of st @ [PostBulkCheck i h] \<or> (log_of st' = log_of st \<and> \<not> is_ok a)"
  using assms
  by (auto simp: duplicate_check_def dest!: exchange_log check_cancelled_log
      split: prod.splits result.splits)

lemma multipart_log:
  assumes "multipart (log_transport tr) r st = (a, st')"
  shows "log_of st' = log_of st \<and> (\<forall>f. a = Ok f \<longrightarrow> mf_device_asset_id f = ur_operation_id r \<and> mf_live_photo_video_id f = ur_live_photo_video_id r)"
  using assms
  by (auto simp: multipart_def Let_def dest!: log_transport_keeps(2)
      split: prod.splits if_splits result.splits option.splits)

lemma upload_log:
  assumes "upload (log_transport tr) r st = (a, st')"
  shows "log_of st' = log_of st \<or>
    (\<exists>f. log_of st' = log_of st @ [PostAsset f (ur_sha1_base64 r)] \<and> mf_device_asset_id f = ur_operation_id r \<and>
       mf_live_photo_video_id f = ur_live_photo_video_id r)"
  using assms
  by (auto simp: upload_def dest!: exchange_log check_cancelled_log multipart_log
      split: prod.splits result.splits)

lemma retry_allowed_log: "retry_allowed e n c st = (g, st') \<Longrightarrow> log_of st' = log_of st"
  by (auto simp: retry_allowed_def log_of_def split: if_splits prod.splits)

lemma reconcile_log:
  assumes "reconcile_uncertain (log_transport tr) oper source n st = (r, st')"
  shows "log_of st' = log_of st \<or> log_of st' = log_of st @ [PostBulkCheck (op_operation_id oper) (va_sha1_base64 source)]"
proof -
  obtain a s1 where dup: "duplicate_check (log_transport tr) (op_operation_id oper) (va_sha1_base64 source) st = (a, s1)"
    by fastforce
  have "log_of st' = log_of s1"
    using assms dup
    by (auto simp: reconcile_uncertain_def dest!: log_transport_keeps(1)
        split: prod.splits result.splits DuplicateCheck.splits bool.splits)
  then show ?thesis using duplicate_check_log [OF dup] by auto
qed

text \<open>What one attempt can send: nothing; a check; a check and the upload it allowed; and,
  when that upload ended uncertain, one more check.\<close>

definition attempt_requests :: "UploadOperation \<Rightarrow> VerifiedAsset \<Rightarrow> string option \<Rightarrow> http_request list \<Rightarrow> bool" where
  "attempt_requests oper source video new \<longleftrightarrow>
     (let check = PostBulkCheck (op_operation_id oper) (va_sha1_base64 source) in
      new \<in> {[], [check], [check, check]} \<or>
      (\<exists>f. mf_device_asset_id f = op_operation_id oper \<and> mf_live_photo_video_id f = video \<and>
         (let asset = PostAsset f (va_sha1_base64 source) in new \<in> {[check, asset], [check, asset, check]})))"

lemma upload_request_simps [simp]:
  "ur_sha1_base64 (upload_request oper source video) = va_sha1_base64 source"
  "ur_operation_id (upload_request oper source video) = op_operation_id oper"
  "ur_live_photo_video_id (upload_request oper source video) = video"
  by (simp_all add: upload_request_def)

lemma apply_attempt_log:
  assumes att: "apply_attempt sha (log_transport tr) c oper source video n st = (r, st')"
  shows "\<exists>new. log_of st' = log_of st @ new \<and> attempt_requests oper source video new"
proof -
  let ?C = "PostBulkCheck (op_operation_id oper) (va_sha1_base64 source)"
  obtain a s1 where dup: "duplicate_check (log_transport tr) (op_operation_id oper) (va_sha1_base64 source) st = (a, s1)"
    by fastforce
  show ?thesis
  proof (cases "a = Ok Accept")
    case False
    then have "log_of st' = log_of s1"
      using att dup
      by (auto simp: apply_attempt_def dest!: log_transport_keeps(3) retry_allowed_log
          split: prod.splits result.splits DuplicateCheck.splits bool.splits if_splits)
    then show ?thesis using duplicate_check_log [OF dup] by (auto simp: attempt_requests_def Let_def)
  next
    case True
    then have s1: "log_of s1 = log_of st @ [?C]" using duplicate_check_log [OF dup] by auto
    obtain b s2 where up: "upload (log_transport tr) (upload_request oper source video) s1 = (b, s2)" by fastforce
    have "log_of st' = log_of s2 \<or> log_of st' = log_of s2 @ [?C]"
      using att dup up True
      by (auto simp: apply_attempt_def dest!: log_transport_keeps(3) retry_allowed_log reconcile_log
          split: prod.splits result.splits DuplicateCheck.splits bool.splits if_splits)
    moreover have "log_of s2 = log_of s1 \<or> (\<exists>f. log_of s2 = log_of s1 @ [PostAsset f (va_sha1_base64 source)]
        \<and> mf_device_asset_id f = op_operation_id oper \<and> mf_live_photo_video_id f = video)"
      using upload_log [OF up] by simp
    ultimately show ?thesis
      using s1 by (auto simp: attempt_requests_def Let_def)
  qed
qed

lemma checked_log_append: "checked_log i v xs \<Longrightarrow> checked_log i v ys \<Longrightarrow> checked_log i v (xs @ ys)"
  by (induction i v xs rule: checked_log.induct; cases ys rule: list.exhaust [case_product http_request.exhaust])
    (auto elim: checked_log.elims)

lemma attempt_requests_checked:
  assumes "attempt_requests oper source video new"
  shows "checked_log (op_operation_id oper) video new" and "length (filter is_post_asset new) \<le> 1"
  using assms by (auto simp: attempt_requests_def Let_def is_post_asset_def)

lemma apply_loop_log:
  assumes "apply_loop sha (log_transport tr) c oper source video n st = (r, st')" "n < ec_max_attempts_per_operation c"
  shows "\<exists>new. log_of st' = log_of st @ new \<and> checked_log (op_operation_id oper) video new \<and>
    length (filter is_post_asset new) \<le> ec_max_attempts_per_operation c - n"
  using assms
proof (induction "ec_max_attempts_per_operation c - n" arbitrary: n st rule: less_induct)
  case less
  obtain q s1 where att: "apply_attempt sha (log_transport tr) c oper source video n st = (q, s1)" by fastforce
  obtain new where new: "log_of s1 = log_of st @ new" "attempt_requests oper source video new"
    using apply_attempt_log [OF att] by blast
  note checked = attempt_requests_checked [OF new(2)]
  show ?case
  proof (cases q)
    case (Some r')
    then have "log_of st' = log_of st @ new"
      using att less.prems new by (simp add: apply_loop.simps [of sha "log_transport tr" c oper source video n st])
    then show ?thesis using checked less.prems(2) by (intro exI [of _ new]) auto
  next
    case None
    then have lt: "n + 1 < ec_max_attempts_per_operation c"
      using att apply_attempt_retry by blast
    moreover have "apply_loop sha (log_transport tr) c oper source video (n + 1) s1 = (r, st')"
      using att less.prems None by (simp add: apply_loop.simps [of sha "log_transport tr" c oper source video n st])
    ultimately obtain more where more: "log_of st' = log_of s1 @ more" "checked_log (op_operation_id oper) video more"
        "length (filter is_post_asset more) \<le> ec_max_attempts_per_operation c - (n + 1)"
      using less.hyps [of "n + 1" s1] less.prems(2) by (auto simp: diff_less_mono2)
    then show ?thesis
      using new checked lt by (intro exI [of _ "new @ more"]) (auto simp: checked_log_append)
  qed
qed

section \<open>Properties\<close>

text \<open>A transport that plays back a script of answers, for concrete runs.\<close>

type_synonym script = "(http_response, reqwest_error) result option list"

definition scripted :: "script exec transport" where
  "scripted =
     \<lparr>tr_cancelled = (\<lambda>st. (False, st)), tr_api_url = (\<lambda>_. True),
      tr_send = (\<lambda>_ st. case ex_world st of [] \<Rightarrow> (None, st) | a # as \<Rightarrow> (a, st \<lparr>ex_world := as\<rparr>)),
      tr_open = (\<lambda>_ st. (True, st)), tr_wait = (\<lambda>_ st. (True, st)),
      tr_max_response_bytes = 100, tr_retry_after_cap = from_secs 60,
      tr_rfc3339 = Some, tr_format_timestamp = (\<lambda>_. Some ''1970-01-01T00:00:00Z''),
      tr_bulk_check_json = (\<lambda>body. if body = ''accept''
         then Some [\<lparr>bcr_id = hex64 CHR ''b'', bcr_action = ActionAccept, bcr_asset_id = None\<rparr>] else None),
      tr_upload_json = (\<lambda>body. if body = ''created'' then Some \<lparr>upr_id = ''asset-1'', upr_status = UploadCreated\<rparr> else None),
      tr_asset_json = (\<lambda>_. None), tr_albums_json = (\<lambda>_. None), tr_album_json = (\<lambda>_. None),
      tr_bulk_ids_json = (\<lambda>_. None)\<rparr>"

definition answer :: "nat \<Rightarrow> string \<Rightarrow> (http_response, reqwest_error) result option" where
  "answer status body = Some (Ok \<lparr>hr_status = status, hr_retry_after = None, hr_chunks = [Ok body]\<rparr>)"

definition lost :: "(http_response, reqwest_error) result option" where
  "lost = Some (Err \<lparr>rq_timeout = False, rq_connect = False, rq_request = True, rq_body = False\<rparr>)"

definition sample_video :: UploadOperation where
  "sample_video = sample_operation CHR ''b'' ''a.mov'' MediaVideo None Standalone"

definition sample_verified :: VerifiedAsset where
  "sample_verified = \<lparr>va_media_path = ''/m/a.mov'', va_file_name = ''a.mov'', va_sha1_base64 = ''c2hh'', va_xmp = None\<rparr>"

definition start :: "script \<Rightarrow> script exec" where
  "start s = \<lparr>ex_world = s, ex_budget = RetryBudget_new 100\<rparr>"

text \<open>C17: one operation always returns, and every outcome it reports fits the journal: it
  names the operation, counts fewer retries than the attempt limit, and carries a
  usable asset identifier exactly when it is a success.\<close>

theorem operation_outcome_contract:
  assumes "UploadExecutionConfig_validate config = Ok ()"
    and "operation_apply sha tr config oper source video st = (res, st')"
    and "x \<in> set (result_outcomes res)"
  shows "outcome_ok config oper x"
  using assms apply_loop_outcomes [of sha tr config oper source video 0 st res st']
  by (auto simp: operation_apply_def validate_config_iff)

theorem operation_outcome_contract_witness:
  "outcome_ok UploadExecutionConfig_default sample_video
     \<lparr>oo_operation_id = hex64 CHR ''b'', oo_kind = Created, oo_asset_id = Some ''asset-1'', oo_retries = 1\<rparr>"
proof -
  have "UploadExecutionConfig_validate UploadExecutionConfig_default = Ok ()" by code_simp
  moreover have "operation_apply (\<lambda>_. replicate 32 CHR 0x07) scripted UploadExecutionConfig_default sample_video
      sample_verified None (start [answer 200 ''accept'', lost, answer 200 ''accept'', answer 201 ''created''])
    = (OpCompleted \<lparr>oo_operation_id = hex64 CHR ''b'', oo_kind = Created, oo_asset_id = Some ''asset-1'', oo_retries = 1\<rparr>,
       \<lparr>ex_world = [], ex_budget = \<lparr>rb_used = 1, rb_maximum = 100\<rparr>\<rparr>)"
    by code_simp
  ultimately show ?thesis
    by (rule operation_outcome_contract) simp
qed

text \<open>C2: the requests of one operation are duplicate checks and uploads of that operation
  only; every upload carries the given motion-video identifier and is immediately
  preceded by a duplicate check of the same content, so a lost answer is always reconciled before the body is sent again;
  and at most as many uploads are sent as the configuration has attempts.\<close>

theorem operation_check_before_upload:
  assumes "UploadExecutionConfig_validate config = Ok ()"
    and "operation_apply sha (log_transport tr) config oper source video st = (res, st')"
  shows "\<exists>new. log_of st' = log_of st @ new \<and> checked_log (op_operation_id oper) video new \<and>
    length (filter is_post_asset new) \<le> ec_max_attempts_per_operation config"
  using assms apply_loop_log [of sha tr config oper source video 0 st res st']
  by (auto simp: operation_apply_def validate_config_iff)

theorem operation_check_before_upload_witness:
  "\<exists>new. log_of (snd (operation_apply (\<lambda>_. replicate 32 CHR 0x07) (log_transport scripted) UploadExecutionConfig_default
       sample_video sample_verified None (with_log [] (start [answer 200 ''accept'', lost, answer 200 ''accept'', answer 201 ''created'']))))
      = new \<and> checked_log (hex64 CHR ''b'') None new \<and> length (filter is_post_asset new) \<le> 3"
proof -
  have valid: "UploadExecutionConfig_validate UploadExecutionConfig_default = Ok ()" by code_simp
  let ?run = "operation_apply (\<lambda>_. replicate 32 CHR 0x07) (log_transport scripted) UploadExecutionConfig_default
       sample_video sample_verified None (with_log [] (start [answer 200 ''accept'', lost, answer 200 ''accept'', answer 201 ''created'']))"
  have "?run = (fst ?run, snd ?run)" by simp
  from operation_check_before_upload [OF valid this] show ?thesis
    by (simp add: sample_video_def sample_operation_def UploadExecutionConfig_default_def)
qed

text \<open>An upload whose answer was lost can be reported as a definite failure: when the
  retry's duplicate check is then refused (here with status 401), the outcome is
  \<open>Failed\<close> and not \<open>Indeterminate\<close>, although the server may hold the asset.\<close>

theorem lost_upload_reported_failed:
  "fst (operation_apply (\<lambda>_. replicate 32 CHR 0x07) scripted UploadExecutionConfig_default sample_video
      sample_verified None (start [answer 200 ''accept'', lost, answer 401 '''']))
   = OpCompleted (failed sample_video 1)"
  by code_simp

end
