(* ===== verification/Exec_Apply.thy ===== *)
theory Exec_Apply
  imports Exec_Operation Client_Authorize "HOL-Library.Sublist" "HOL-Library.Multiset"
begin

text \<open>
  \<open>immich-executor/src/apply.rs\<close>: the execution of an upload plan. Source verification
  (\<open>verify.rs\<close>) enters as its result. The groups run concurrently in the source
  (\<open>buffer_unordered\<close>) and their results are journalled in completion order; here the
  scheduler is the argument \<open>order\<close>, any rearrangement of the groups, and what other
  groups do at the await points of one group is part of the transport.
\<close>

type_synonym completed_map = "(string, string) btree_map"

type_synonym OperationGroup = "UploadOperation list"

record GroupResult =
  gr_outcomes :: "OperationOutcome list"
  gr_cancelled :: bool

section \<open>Groups\<close>

definition is_image_of :: "string \<Rightarrow> UploadOperation \<Rightarrow> bool" where
  "is_image_of video_id candidate =
     (case op_role candidate of LivePhotoImage _ video_operation_id \<Rightarrow> video_operation_id = video_id | _ \<Rightarrow> False)"

definition is_video :: "UploadOperation \<Rightarrow> bool" where
  "is_video oper = (case op_role oper of LivePhotoVideo _ \<Rightarrow> True | _ \<Rightarrow> False)"

definition is_image :: "UploadOperation \<Rightarrow> bool" where
  "is_image oper = (case op_role oper of LivePhotoImage _ _ \<Rightarrow> True | _ \<Rightarrow> False)"

definition pending_step ::
  "UploadOperation list \<Rightarrow> completed_map \<Rightarrow> UploadOperation \<Rightarrow> OperationGroup list
     \<Rightarrow> (OperationGroup list, ExecutorErrorClass) result" where
  "pending_step operations completed oper groups =
     (case op_role oper of
        Standalone \<Rightarrow>
          Ok (if btm_get completed (op_operation_id oper) = None then groups @ [[oper]] else groups)
      | LivePhotoVideo _ \<Rightarrow>
          (case find (is_image_of (op_operation_id oper)) operations of
             None \<Rightarrow> Err EE_InvalidPlan
           | Some still \<Rightarrow>
               Ok (if btm_get completed (op_operation_id oper) = None
                      \<or> btm_get completed (op_operation_id still) = None
                   then groups @ [[oper, still]] else groups))
      | LivePhotoImage _ video_operation_id \<Rightarrow>
          if video_operation_id \<notin> op_operation_id ` set operations then Err EE_InvalidPlan else Ok groups)"

definition pending_groups ::
  "UploadPlan \<Rightarrow> completed_map \<Rightarrow> (OperationGroup list, ExecutorErrorClass) result" where
  "pending_groups plan completed =
     map_ok (sort_key (\<lambda>g. op_relative_path (hd g)))
       (fold_result (pending_step (up_operations plan) completed) (up_operations plan) [])"

definition validate_completed ::
  "UploadPlan \<Rightarrow> completed_map \<Rightarrow> (unit, ExecutorErrorClass) result" where
  "validate_completed plan completed =
     (let operation_ids = bts_collect (map op_operation_id (up_operations plan)) in
      if list_ex (\<lambda>i. \<not> bts_contains operation_ids i) (map fst completed) then Err EE_Checkpoint else Ok ())"

text \<open>The loop of \<open>apply_group\<close> over the operations of one group.\<close>

fun group_loop ::
  "(string \<Rightarrow> string) \<Rightarrow> 'w exec transport \<Rightarrow> UploadExecutionConfig \<Rightarrow> (string, VerifiedAsset) btree_map
     \<Rightarrow> completed_map \<Rightarrow> UploadOperation list \<Rightarrow> OperationOutcome list \<Rightarrow> string option \<Rightarrow> 'w exec
     \<Rightarrow> GroupResult \<times> 'w exec" where
  "group_loop sha tr config verified completed [] outcomes video st =
     (\<lparr>gr_outcomes = outcomes, gr_cancelled = False\<rparr>, st)"
| "group_loop sha tr config verified completed (oper # opers) outcomes video st =
     (case tr_cancelled tr st of
        (True, s1) \<Rightarrow> (\<lparr>gr_outcomes = outcomes, gr_cancelled = True\<rparr>, s1)
      | (False, s1) \<Rightarrow>
          (case btm_get completed (op_operation_id oper) of
             Some asset_id \<Rightarrow>
               group_loop sha tr config verified completed opers outcomes
                 (if is_video oper then Some asset_id else video) s1
           | None \<Rightarrow>
               if is_image oper \<and> video = None
               then group_loop sha tr config verified completed opers (outcomes @ [failed oper 0]) video s1
               else (case btm_get verified (op_operation_id oper) of
                  None \<Rightarrow> group_loop sha tr config verified completed opers (outcomes @ [failed oper 0]) video s1
                | Some source \<Rightarrow>
                    (case operation_apply sha tr config oper source video s1 of
                       (OpCancelled (Some x), s2) \<Rightarrow> (\<lparr>gr_outcomes = outcomes @ [x], gr_cancelled = True\<rparr>, s2)
                     | (OpCancelled None, s2) \<Rightarrow> (\<lparr>gr_outcomes = outcomes, gr_cancelled = True\<rparr>, s2)
                     | (OpCompleted x, s2) \<Rightarrow>
                         if oo_asset_id x = None \<and> is_video oper
                         then (\<lparr>gr_outcomes = outcomes @ [x], gr_cancelled = False\<rparr>, s2)
                         else group_loop sha tr config verified completed opers (outcomes @ [x])
                                (if is_video oper then oo_asset_id x else video) s2))))"

definition apply_group ::
  "(string \<Rightarrow> string) \<Rightarrow> 'w exec transport \<Rightarrow> UploadExecutionConfig \<Rightarrow> (string, VerifiedAsset) btree_map
     \<Rightarrow> completed_map \<Rightarrow> OperationGroup \<Rightarrow> 'w exec \<Rightarrow> GroupResult \<times> 'w exec" where
  "apply_group sha tr config verified completed g st = group_loop sha tr config verified completed g [] None st"

section \<open>Runs\<close>

definition record_report :: "OperationOutcome \<Rightarrow> ApplyReport \<Rightarrow> ApplyReport" where
  "record_report o' report =
     (let r = report \<lparr>ar_retried := saturating_add (ar_retried report) (of_nat (oo_retries o'))\<rparr> in
      case oo_kind o' of
        Created \<Rightarrow> r \<lparr>ar_created := saturating_add (ar_created r) 1\<rparr>
      | Duplicate \<Rightarrow> r \<lparr>ar_duplicate := saturating_add (ar_duplicate r) 1\<rparr>
      | Failed \<Rightarrow> r \<lparr>ar_failed := saturating_add (ar_failed r) 1\<rparr>
      | Indeterminate \<Rightarrow> r \<lparr>ar_indeterminate := saturating_add (ar_indeterminate r) 1\<rparr>)"

definition outcome_event :: "OperationOutcome \<Rightarrow> JournalEvent" where
  "outcome_event o' =
     \<lparr>je_operation_id = oo_operation_id o', je_kind = oo_kind o', je_asset_id = oo_asset_id o',
      je_retry_count = oo_retries o'\<rparr>"

text \<open>Journalling the outcomes of one group. \<open>env n\<close> is how SQLite and the clock behave for the
  append that follows \<open>n\<close> earlier rows. The journal reached is returned also when an
  append fails.\<close>

type_synonym append_env = "nat \<Rightarrow> bool \<times> int option"

primrec record_outcomes ::
  "append_env \<Rightarrow> OperationOutcome list \<Rightarrow> ApplyReport \<times> checkpoint_db
     \<Rightarrow> (ApplyReport, ExecutorErrorClass) result \<times> checkpoint_db" where
  "record_outcomes env [] s = (Ok (fst s), snd s)"
| "record_outcomes env (x # xs) s =
     (case Journal_append (fst (env (length (db_events (snd s))))) (snd (env (length (db_events (snd s)))))
            (outcome_event x) (snd s) of
        Err e \<Rightarrow> (Err e, snd s)
      | Ok db \<Rightarrow> record_outcomes env xs (record_report x (fst s), db))"

primrec run_groups ::
  "append_env \<Rightarrow> (OperationGroup \<Rightarrow> 'w exec \<Rightarrow> GroupResult \<times> 'w exec) \<Rightarrow> OperationGroup list
     \<Rightarrow> ApplyReport \<Rightarrow> checkpoint_db \<Rightarrow> 'w exec
     \<Rightarrow> (ApplyReport, ExecutorErrorClass) result \<times> checkpoint_db \<times> 'w exec" where
  "run_groups env run [] report db st = (Ok report, db, st)"
| "run_groups env run (g # gs) report db st =
     (let (res, st') = run g st;
          report' = (if gr_cancelled res then report \<lparr>ar_cancelled := True\<rparr> else report)
      in case record_outcomes env (gr_outcomes res) (report', db) of
           (Err e, db') \<Rightarrow> (Err e, db', st')
         | (Ok report'', db') \<Rightarrow> run_groups env run gs report'' db' st')"

text \<open>What \<open>apply_upload_inner\<close> is given beside the plan and the configuration. When the checkpoint
  cannot be opened, the file is returned as it was: \<open>configure\<close> and \<open>create_schema\<close> of
  \<open>journal.rs\<close> may by then have set a pragma or created an empty table of an otherwise rejected file,
  but they never touch a row of events, and the rows are what the properties below speak of.\<close>

record 'w apply_env =
  ae_sha256 :: "string \<Rightarrow> string"
  ae_plan_sha256 :: "UploadPlan \<Rightarrow> string option"
  ae_verified :: "((string, VerifiedAsset) btree_map, ExecutorErrorClass) result"
  ae_open_ok :: bool
  ae_append :: append_env
  ae_order :: "OperationGroup list \<Rightarrow> OperationGroup list"
  ae_transport :: "'w exec transport"

definition apply_upload_inner ::
  "'w apply_env \<Rightarrow> UploadPlan \<Rightarrow> checkpoint_file \<Rightarrow> UploadExecutionConfig \<Rightarrow> ImmichUploadClient \<Rightarrow> string option \<Rightarrow> 'w
     \<Rightarrow> (ApplyReport, ExecutorErrorClass) result \<times> checkpoint_file" where
  "apply_upload_inner ae plan f config client backup w =
     (case UploadExecutionConfig_validate config of Err e \<Rightarrow> (Err e, f) | Ok _ \<Rightarrow>
      if uc_compatibility client \<noteq> up_server plan then (Err EE_InvalidPlan, f)
      else case ae_verified ae of Err e \<Rightarrow> (Err e, f) | Ok verified \<Rightarrow>
      (case (case backup of Some digest \<Rightarrow> Journal_open_production (ae_plan_sha256 ae) (ae_open_ok ae) f plan digest
                  | None \<Rightarrow> Journal_open (ae_plan_sha256 ae) (ae_open_ok ae) f plan) of
         Err e \<Rightarrow> (Err e, f)
       | Ok db \<Rightarrow>
      (case Journal_completed db of Err e \<Rightarrow> (Err e, Database db) | Ok completed \<Rightarrow>
      (case validate_completed plan completed of Err e \<Rightarrow> (Err e, Database db) | Ok _ \<Rightarrow>
      (case pending_groups plan completed of Err e \<Rightarrow> (Err e, Database db) | Ok groups \<Rightarrow>
         (let report = (ApplyReport_new (sum_operations (up_summary plan)) False)
                         \<lparr>ar_resumed := of_nat (length completed)\<rparr>;
              st = \<lparr>ex_world = w, ex_budget = RetryBudget_new (ec_max_retries_per_run config)\<rparr>;
              (res, db', st') = run_groups (ae_append ae)
                 (apply_group (ae_sha256 ae) (ae_transport ae) config verified completed)
                 (ae_order ae groups) report db st
          in (res, Database db')))))))"

definition apply_upload ::
  "'w apply_env \<Rightarrow> UploadPlan \<Rightarrow> checkpoint_file \<Rightarrow> UploadExecutionConfig \<Rightarrow> ImmichUploadClient \<Rightarrow> 'w
     \<Rightarrow> (ApplyReport, ExecutorErrorClass) result \<times> checkpoint_file" where
  "apply_upload ae plan f config client w =
     (if uc_production client then (Err EE_InvalidPlan, f)
      else apply_upload_inner ae plan f config client None w)"

definition apply_production_upload ::
  "rfc3339 \<Rightarrow> (UploadPlan \<Rightarrow> string option) \<Rightarrow> (string \<Rightarrow> string) \<Rightarrow> 'w apply_env \<Rightarrow> UploadPlan \<Rightarrow> checkpoint_file
     \<Rightarrow> UploadExecutionConfig \<Rightarrow> ImmichUploadClient \<times> ProductionAuthorization \<Rightarrow> 'w
     \<Rightarrow> (ApplyReport, ExecutorErrorClass) result \<times> checkpoint_file" where
  "apply_production_upload rfc to_vec sha256 ae plan f config client w =
     (if \<not> ProductionUploadAuthorization_matches_plan rfc to_vec sha256 (snd client) plan
         \<or> \<not> uc_production (fst client)
      then (Err EE_InvalidPlan, f)
      else apply_upload_inner ae plan f config (fst client) (Some (pa_backup_reference_sha256 (snd client))) w)"

definition dry_run_upload ::
  "(UploadPlan \<Rightarrow> string option) \<Rightarrow> ((string, VerifiedAsset) btree_map, ExecutorErrorClass) result \<Rightarrow> bool
     \<Rightarrow> UploadPlan \<Rightarrow> checkpoint_file \<Rightarrow> UploadExecutionConfig \<Rightarrow> (ApplyReport, ExecutorErrorClass) result" where
  "dry_run_upload plan_sha256 verified io_ok plan f config =
     and_then (UploadExecutionConfig_validate config) (\<lambda>_.
     and_then verified (\<lambda>_.
     and_then (Journal_validate_existing plan_sha256 io_ok f plan) (\<lambda>completed.
     and_then (validate_completed plan completed) (\<lambda>_.
       let report = (ApplyReport_new (sum_operations (up_summary plan)) True)
              \<lparr>ar_resumed := of_nat (length completed)\<rparr> in
       Ok (report \<lparr>ar_would_upload := saturating_sub (ar_planned report) (ar_resumed report)\<rparr>)))))"

section \<open>What the groups are\<close>

lemma is_image_of_find:
  "find (is_image_of i) ops = Some im \<Longrightarrow> im \<in> set ops \<and> is_image_of i im"
  by (auto simp: find_Some_iff)

lemma is_image_of_unique: "is_image_of i im \<Longrightarrow> is_image_of j im \<Longrightarrow> i = j"
  by (auto simp: is_image_of_def split: UploadRole.splits)

lemma is_image_of_image: "is_image_of i im \<Longrightarrow> is_image im \<and> \<not> is_video im"
  by (auto simp: is_image_of_def is_image_def is_video_def split: UploadRole.splits)

text \<open>A pending group is one unfinished standalone operation, or a motion video and the first
  still image that names it, at least one of the two unfinished.\<close>

definition group_ok :: "UploadOperation list \<Rightarrow> completed_map \<Rightarrow> OperationGroup \<Rightarrow> bool" where
  "group_ok ops completed g \<longleftrightarrow>
     (\<exists>a \<in> set ops. op_role a = Standalone \<and> g = [a] \<and> btm_get completed (op_operation_id a) = None) \<or>
     (\<exists>v \<in> set ops. is_video v \<and> (\<exists>im. find (is_image_of (op_operation_id v)) ops = Some im \<and> g = [v, im] \<and>
        (btm_get completed (op_operation_id v) = None \<or> btm_get completed (op_operation_id im) = None)))"

lemma pending_step_Ok:
  assumes "pending_step ops completed oper gs = Ok gs'" "oper \<in> set ops"
  shows "gs' = gs \<or> (\<exists>g. gs' = gs @ [g] \<and> group_ok ops completed g \<and> hd g = oper)"
  using assms
  by (cases "op_role oper")
    (auto simp: pending_step_def group_ok_def is_video_def split: option.splits if_splits)

lemma pending_fold:
  assumes "fold_result (pending_step ops completed) xs gs = Ok gs'" "set xs \<subseteq> set ops"
  shows "\<exists>new. gs' = gs @ new \<and> (\<forall>g \<in> set new. group_ok ops completed g) \<and> subseq (map hd new) xs"
  using assms
proof (induction xs arbitrary: gs)
  case (Cons x xs)
  obtain gs1 where step: "pending_step ops completed x gs = Ok gs1"
      and rest: "fold_result (pending_step ops completed) xs gs1 = Ok gs'"
    using Cons.prems by (auto simp: and_then_eq_Ok)
  obtain new where new: "gs' = gs1 @ new" "\<forall>g \<in> set new. group_ok ops completed g" "subseq (map hd new) xs"
    using Cons.IH [OF rest] Cons.prems by auto
  consider "gs1 = gs" | g where "gs1 = gs @ [g]" "group_ok ops completed g" "hd g = x"
    using pending_step_Ok [OF step] Cons.prems by auto
  then show ?case
  proof cases
    case 1
    then show ?thesis using new by (intro exI [of _ new]) auto
  next
    case 2
    then show ?thesis using new by (intro exI [of _ "g # new"]) auto
  qed
qed auto

lemma group_ok_cases:
  assumes "group_ok ops completed g"
  obtains (single) a where "a \<in> set ops" "op_role a = Standalone" "g = [a]"
      "btm_get completed (op_operation_id a) = None"
  | (pair) v im where "v \<in> set ops" "is_video v" "im \<in> set ops" "is_image_of (op_operation_id v) im" "g = [v, im]"
      "find (is_image_of (op_operation_id v)) ops = Some im"
      "btm_get completed (op_operation_id v) = None \<or> btm_get completed (op_operation_id im) = None"
  using assms is_image_of_find unfolding group_ok_def by blast

lemma role_exclusive:
  "op_role a = Standalone \<Longrightarrow> \<not> is_image a \<and> \<not> is_video a" "is_video a \<Longrightarrow> \<not> is_image a"
  by (auto simp: is_image_def is_video_def split: UploadRole.splits)

lemma group_ok_members:
  assumes "group_ok ops completed g"
  shows "g \<noteq> []" "set g \<subseteq> set ops" "a \<in> set g \<Longrightarrow> a = hd g \<or> is_image_of (op_operation_id (hd g)) a"
    "hd g \<in> set ops" "\<not> is_image (hd g)" "inj_on op_operation_id (set ops) \<Longrightarrow> distinct (map op_operation_id g)"
  using assms
  by (atomize(full), elim group_ok_cases) (auto simp: role_exclusive dest: inj_onD is_image_of_image)

text \<open>The groups are disjoint: no operation is in two of them, or twice in one.\<close>

lemma groups_disjoint:
  assumes "\<forall>g \<in> set gs. group_ok ops completed g" "distinct (map hd gs)" "distinct (map op_operation_id ops)"
  shows "distinct (map op_operation_id (concat gs))"
  using assms(1,2)
proof (induction gs)
  case (Cons g gs)
  have g: "group_ok ops completed g" and gs: "\<forall>h \<in> set gs. group_ok ops completed h" "hd g \<notin> hd ` set gs"
    using Cons.prems by auto
  have inj: "a = b" if "a \<in> set ops" "b \<in> set ops" "op_operation_id a = op_operation_id b" for a b
    using assms(3) that by (meson distinct_map inj_onD)
  have "distinct (map op_operation_id g)"
    using group_ok_members(6) [OF g] assms(3) by (simp add: distinct_map)
  moreover have "op_operation_id a \<noteq> op_operation_id b" if a: "a \<in> set g" and b: "b \<in> set h" and h: "h \<in> set gs" for a b h
  proof
    assume eq: "op_operation_id a = op_operation_id b"
    note gm = group_ok_members [OF g] and hm = group_ok_members [OF gs(1) [rule_format, OF h]]
    have ab: "a = b" using inj [OF _ _ eq] gm(2) hm(2) a b by auto
    have ne: "hd g \<noteq> hd h" using gs(2) h by auto
    show False
      using gm(3) [OF a] hm(3) [OF b] ab ne gm(4,5) hm(4,5) is_image_of_image is_image_of_unique inj by metis
  qed
  ultimately show ?case using Cons.IH gs Cons.prems by auto
qed simp

lemma pending_groups_Ok:
  assumes "pending_groups plan completed = Ok gs" "distinct (map op_operation_id (up_operations plan))"
  shows "\<forall>g \<in> set gs. group_ok (up_operations plan) completed g"
    and "distinct (map op_operation_id (concat gs))"
proof -
  let ?ops = "up_operations plan"
  obtain new where new: "gs = sort_key (\<lambda>g. op_relative_path (hd g)) new"
      "\<forall>g \<in> set new. group_ok ?ops completed g" "subseq (map hd new) ?ops"
    using assms(1) pending_fold [of ?ops completed ?ops "[]"]
    by (auto simp: pending_groups_def map_ok_eq_Ok)
  have "distinct ?ops" using assms(2) by (simp add: distinct_map)
  then have "distinct (map hd new)" using new(3) by (auto simp: subseq_conv_nths)
  then have "distinct (map op_operation_id (concat new))"
    using groups_disjoint new(2) assms(2) by blast
  moreover have "mset (concat gs) = mset (concat new)"
    by (simp add: new(1) mset_concat flip: sum_mset_sum_list)
  ultimately show "distinct (map op_operation_id (concat gs))"
    by (metis mset_map mset_eq_imp_distinct_iff)
  show "\<forall>g \<in> set gs. group_ok ?ops completed g" using new by simp
qed

section \<open>Outcomes of a run\<close>

definition unfinished :: "completed_map \<Rightarrow> UploadOperation \<Rightarrow> bool" where
  "unfinished completed oper \<longleftrightarrow> btm_get completed (op_operation_id oper) = None"

text \<open>The outcomes of a group are for unfinished operations of the group, in its order, and
  fit the journal.\<close>

definition outcomes_for :: "UploadExecutionConfig \<Rightarrow> completed_map \<Rightarrow> UploadOperation list \<Rightarrow> OperationOutcome list \<Rightarrow> bool" where
  "outcomes_for config completed ops outs \<longleftrightarrow>
     subseq (map oo_operation_id outs) (map op_operation_id (filter (unfinished completed) ops)) \<and>
     (\<forall>x \<in> set outs. \<exists>oper \<in> set ops. outcome_ok config oper x)"

lemma outcomes_for_Nil: "outcomes_for config completed ops []"
  by (simp add: outcomes_for_def)

lemma outcomes_for_skip: "outcomes_for config completed ops outs \<Longrightarrow> outcomes_for config completed (oper # ops) outs"
  by (auto simp: outcomes_for_def)

lemma outcomes_for_Cons:
  "outcomes_for config completed ops outs \<Longrightarrow> unfinished completed oper \<Longrightarrow> outcome_ok config oper x \<Longrightarrow>
     outcomes_for config completed (oper # ops) (x # outs)"
  by (auto simp: outcomes_for_def outcome_ok_def)

lemma operation_outcomes:
  assumes "operation_apply sha tr config oper source video st = (res, st')" "0 < ec_max_attempts_per_operation config"
  shows "\<forall>x \<in> set (result_outcomes res). outcome_ok config oper x"
  using apply_loop_outcomes [of sha tr config oper source video 0 st res st'] assms
  by (simp add: operation_apply_def)

lemma group_loop_outcomes:
  assumes "group_loop sha tr config verified completed ops outs video st = (res, st')"
    and "0 < ec_max_attempts_per_operation config"
  shows "\<exists>new. gr_outcomes res = outs @ new \<and> outcomes_for config completed ops new"
  using assms
proof (induction ops arbitrary: outs video st)
  case Nil
  then show ?case by (auto intro: outcomes_for_Nil)
next
  case (Cons oper ops)
  have rec: "\<exists>new. gr_outcomes res = outs @ new \<and> outcomes_for config completed (oper # ops) new"
    if "group_loop sha tr config verified completed ops outs v s = (res, st')" for v s
    using Cons.IH [OF that Cons.prems(2)] by (blast intro: outcomes_for_skip)
  have rec1: "\<exists>new. gr_outcomes res = outs @ new \<and> outcomes_for config completed (oper # ops) new"
    if "group_loop sha tr config verified completed ops (outs @ [x]) v s = (res, st')"
      "unfinished completed oper" "outcome_ok config oper x" for v s x
    using Cons.IH [OF that(1) Cons.prems(2)] outcomes_for_Cons [OF _ that(2,3)] by fastforce
  have fail: "outcome_ok config oper (failed oper 0)"
    using Cons.prems(2) by (simp add: outcome_ok_intros)
  obtain c s1 where c: "tr_cancelled tr st = (c, s1)" by fastforce
  show ?case
  proof (cases "c \<or> \<not> unfinished completed oper \<or> (is_image oper \<and> video = None) \<or> btm_get verified (op_operation_id oper) = None")
    case True
    with Cons.prems(1) c show ?thesis
      by (auto simp: unfinished_def intro: rec rec1 fail outcomes_for_Nil split: option.splits if_splits bool.splits)
  next
    case False
    then obtain source where src: "btm_get verified (op_operation_id oper) = Some source" by auto
    obtain r s2 where r: "operation_apply sha tr config oper source video s1 = (r, s2)" by fastforce
    note ok = operation_outcomes [OF r Cons.prems(2)]
    have single: "\<exists>new. outs @ [x] = outs @ new \<and> outcomes_for config completed (oper # ops) new"
      if "x \<in> set (result_outcomes r)" for x
      using ok that False by (auto intro!: outcomes_for_Cons outcomes_for_Nil)
    show ?thesis
      using Cons.prems(1) c src r False ok single
      by (cases r) (auto simp: unfinished_def intro: rec1 outcomes_for_Nil split: option.splits if_splits)
  qed
qed

lemma apply_group_outcomes:
  "apply_group sha tr config verified completed g st = (res, st') \<Longrightarrow> 0 < ec_max_attempts_per_operation config \<Longrightarrow>
     outcomes_for config completed g (gr_outcomes res)"
  unfolding apply_group_def by (drule group_loop_outcomes) auto

lemma outcome_event_ok:
  "outcome_ok config oper x \<Longrightarrow> op_operation_id oper \<noteq> [] \<Longrightarrow> event_ok (outcome_event x)"
  by (cases "oo_kind x")
    (auto simp: outcome_ok_def event_ok_def outcome_event_def asset_contract_def valid_asset_id_def is_some_and_iff)

section \<open>Journalling a run\<close>

text \<open>The journal after recording is the journal with a prefix of the outcomes appended; with
  all of them when recording succeeds, and a failure is a checkpoint failure.\<close>

definition recorded :: "OperationOutcome list \<Rightarrow> checkpoint_db \<Rightarrow> checkpoint_db \<Rightarrow> bool" where
  "recorded outs db db' \<longleftrightarrow> (\<exists>tes. db' = fold record_timed tes db \<and> map snd tes = map outcome_event outs)"

lemma recorded_Nil [simp]: "recorded [] db db"
  by (auto simp: recorded_def intro: exI [of _ "[]"])

lemma recorded_append: "recorded xs db db1 \<Longrightarrow> recorded ys db1 db2 \<Longrightarrow> recorded (xs @ ys) db db2"
  unfolding recorded_def
proof (elim exE conjE)
  fix ts us assume "db1 = fold record_timed ts db" "map snd ts = map outcome_event xs"
    "db2 = fold record_timed us db1" "map snd us = map outcome_event ys"
  then show "\<exists>tes. db2 = fold record_timed tes db \<and> map snd tes = map outcome_event (xs @ ys)"
    by (intro exI [of _ "ts @ us"]) simp
qed

lemma recorded_Cons:
  "recorded xs (insert_row t (outcome_event x) db) db' \<Longrightarrow> recorded (x # xs) db db'"
  unfolding recorded_def
proof (elim exE conjE)
  fix tes assume "db' = fold record_timed tes (insert_row t (outcome_event x) db)" "map snd tes = map outcome_event xs"
  then show "\<exists>tes. db' = fold record_timed tes db \<and> map snd tes = map outcome_event (x # xs)"
    by (intro exI [of _ "(t, outcome_event x) # tes"]) simp
qed

lemma append_Ok: "event_ok e \<Longrightarrow> Journal_append io now e db = r \<Longrightarrow>
    r = Err EE_Checkpoint \<or> (\<exists>t. r = Ok (insert_row t e db))"
  by (auto simp: Journal_append_def event_ok_def split: option.splits if_splits)

lemma record_outcomes_spec:
  assumes "record_outcomes env xs (report, db) = (r, db')" "\<forall>x \<in> set xs. event_ok (outcome_event x)"
  shows "(r = Err EE_Checkpoint \<and> (\<exists>ys. prefix ys xs \<and> recorded ys db db')) \<or>
    (r = Ok (fold record_report xs report) \<and> recorded xs db db')"
  using assms
proof (induction xs arbitrary: report db)
  case (Cons x xs)
  let ?n = "length (db_events db)"
  have "Journal_append (fst (env ?n)) (snd (env ?n)) (outcome_event x) db = Err EE_Checkpoint \<or>
      (\<exists>t. Journal_append (fst (env ?n)) (snd (env ?n)) (outcome_event x) db = Ok (insert_row t (outcome_event x) db))"
    using append_Ok [of "outcome_event x"] Cons.prems(2) by auto
  then show ?case
  proof (elim disjE exE)
    assume "Journal_append (fst (env ?n)) (snd (env ?n)) (outcome_event x) db = Err EE_Checkpoint"
    then show ?thesis using Cons.prems(1) by (auto intro: exI [of _ "[]"])
  next
    fix t assume "Journal_append (fst (env ?n)) (snd (env ?n)) (outcome_event x) db = Ok (insert_row t (outcome_event x) db)"
    then have "record_outcomes env xs (record_report x report, insert_row t (outcome_event x) db) = (r, db')"
      using Cons.prems(1) by simp
    from Cons.IH [OF this] Cons.prems(2)
    consider ys where "r = Err EE_Checkpoint" "prefix ys xs" "recorded ys (insert_row t (outcome_event x) db) db'"
      | "r = Ok (fold record_report xs (record_report x report))" "recorded xs (insert_row t (outcome_event x) db) db'"
      by auto
    then show ?thesis
    proof cases
      case 1
      then show ?thesis by (intro disjI1 conjI exI [of _ "x # ys"]) (auto intro: recorded_Cons)
    next
      case 2
      then show ?thesis by (auto intro: recorded_Cons)
    qed
  qed
qed auto

definition cancel_report :: "bool \<Rightarrow> ApplyReport \<Rightarrow> ApplyReport" where
  "cancel_report c r = (if c then r \<lparr>ar_cancelled := True\<rparr> else r)"

lemma cancel_record: "record_report x (cancel_report c r) = cancel_report c (record_report x r)"
  by (cases "oo_kind x") (simp_all add: cancel_report_def record_report_def Let_def)

lemma cancel_fold: "fold record_report xs (cancel_report c r) = cancel_report c (fold record_report xs r)"
  by (induction xs arbitrary: r) (simp_all add: cancel_record)

lemma cancel_cancel: "cancel_report c (cancel_report d r) = cancel_report (c \<or> d) r"
  by (simp add: cancel_report_def)

text \<open>A run over groups whose outcomes satisfy \<open>P\<close>: either every group's outcomes are
  recorded and counted, or the run stopped at a checkpoint failure.\<close>

lemma run_groups_spec:
  assumes "run_groups env run gs report db st = (r, db', st')"
    and "\<And>g s. g \<in> set gs \<Longrightarrow> P g (gr_outcomes (fst (run g s)))"
    and "\<And>g outs. g \<in> set gs \<Longrightarrow> P g outs \<Longrightarrow> \<forall>x \<in> set outs. event_ok (outcome_event x)"
  shows "\<exists>os hs ks. gs = hs @ ks \<and> list_all2 P hs os \<and>
    ((r = Err EE_Checkpoint \<and> (\<exists>ys. prefix ys (concat os) \<and> recorded ys db db')) \<or>
     (ks = [] \<and> recorded (concat os) db db' \<and> (\<exists>c. r = Ok (cancel_report c (fold record_report (concat os) report)))))"
  using assms
proof (induction gs arbitrary: report db st)
  case Nil
  then show ?case by (auto simp: cancel_report_def intro!: exI [of _ False])
next
  case (Cons g gs)
  obtain res s1 where run: "run g st = (res, s1)" by fastforce
  let ?rep = "cancel_report (gr_cancelled res) report"
  obtain r1 db1 where rec: "record_outcomes env (gr_outcomes res) (?rep, db) = (r1, db1)" by fastforce
  have P: "P g (gr_outcomes res)" using Cons.prems(2) [of g st] run by simp
  then have ok: "\<forall>x \<in> set (gr_outcomes res). event_ok (outcome_event x)"
    using Cons.prems(3) [of g "gr_outcomes res"] by simp
  from record_outcomes_spec [OF rec ok] show ?case
  proof (elim disjE conjE exE)
    fix ys assume "r1 = Err EE_Checkpoint" "prefix ys (gr_outcomes res)" "recorded ys db db1"
    then show ?thesis
      using Cons.prems(1) run rec P
      by (intro exI [of _ "[gr_outcomes res]"] exI [of _ "[g]"] exI [of _ gs]) (auto simp: cancel_report_def)
  next
    assume r1: "r1 = Ok (fold record_report (gr_outcomes res) ?rep)" and recd: "recorded (gr_outcomes res) db db1"
    have next': "run_groups env run gs (fold record_report (gr_outcomes res) ?rep) db1 s1 = (r, db', st')"
      using Cons.prems(1) run rec r1 by (simp add: cancel_report_def split: if_splits)
    have "\<exists>os hs ks. gs = hs @ ks \<and> list_all2 P hs os \<and>
      ((r = Err EE_Checkpoint \<and> (\<exists>ys. prefix ys (concat os) \<and> recorded ys db1 db')) \<or>
       (ks = [] \<and> recorded (concat os) db1 db' \<and>
        (\<exists>c. r = Ok (cancel_report c (fold record_report (concat os) (fold record_report (gr_outcomes res) ?rep))))))"
      by (rule Cons.IH [OF next' Cons.prems(2) Cons.prems(3)]) simp_all
    then obtain os hs ks where IH: "gs = hs @ ks" "list_all2 P hs os"
      "(r = Err EE_Checkpoint \<and> (\<exists>ys. prefix ys (concat os) \<and> recorded ys db1 db')) \<or>
       (ks = [] \<and> recorded (concat os) db1 db' \<and>
        (\<exists>c. r = Ok (cancel_report c (fold record_report (concat os) (fold record_report (gr_outcomes res) ?rep)))))"
      by blast
    let ?os = "gr_outcomes res # os"
    have "(r = Err EE_Checkpoint \<and> (\<exists>ys. prefix ys (concat ?os) \<and> recorded ys db db')) \<or>
       (ks = [] \<and> recorded (concat ?os) db db' \<and>
        (\<exists>c. r = Ok (cancel_report c (fold record_report (concat ?os) report))))"
      using IH(3)
    proof (elim disjE conjE exE)
      fix ys assume "r = Err EE_Checkpoint" "prefix ys (concat os)" "recorded ys db1 db'"
      then show ?thesis using recorded_append [OF recd] by (auto intro!: exI [of _ "gr_outcomes res @ ys"])
    next
      fix c assume "ks = []" "recorded (concat os) db1 db'"
        "r = Ok (cancel_report c (fold record_report (concat os) (fold record_report (gr_outcomes res) ?rep)))"
      then show ?thesis using recorded_append [OF recd] by (auto simp: cancel_fold cancel_cancel)
    qed
    then show ?thesis
      using IH(1,2) P by (intro exI [of _ ?os] exI [of _ "g # hs"] exI [of _ ks]) auto
  qed
qed

section \<open>The whole run\<close>

text \<open>The journal at a checkpoint path, and its view.\<close>

definition file_ok :: "checkpoint_file \<Rightarrow> bool" where
  "file_ok f \<longleftrightarrow> (\<forall>db. f = Database db \<longrightarrow> journal_ok db)"

definition file_view :: "checkpoint_file \<Rightarrow> string \<Rightarrow> string option" where
  "file_view f = (case f of Database db \<Rightarrow> journal_view db | _ \<Rightarrow> Map.empty)"

lemma open_with_scope_view:
  assumes "open_with_scope ps io f plan b = Ok db" "file_ok f"
  shows "journal_ok db \<and> journal_view db = file_view f"
proof -
  have "db_events db = (case f of Database d \<Rightarrow> db_events d | _ \<Rightarrow> [])"
    using assms(1)
    by (auto simp: open_with_scope_def bind_or_validate_def configure_def empty_db_def and_then_eq_Ok
        split: checkpoint_file.splits if_splits)
  then show ?thesis
    using assms(2)
    by (auto simp: journal_ok_def file_ok_def file_view_def journal_view_def fun_eq_iff split: checkpoint_file.splits)
qed

definition open_journal ::
  "'w apply_env \<Rightarrow> checkpoint_file \<Rightarrow> UploadPlan \<Rightarrow> string option \<Rightarrow> (checkpoint_db, ExecutorErrorClass) result" where
  "open_journal ae f plan backup =
     (case backup of Some digest \<Rightarrow> Journal_open_production (ae_plan_sha256 ae) (ae_open_ok ae) f plan digest
      | None \<Rightarrow> Journal_open (ae_plan_sha256 ae) (ae_open_ok ae) f plan)"

lemma open_journal_view:
  "open_journal ae f plan backup = Ok db \<Longrightarrow> file_ok f \<Longrightarrow> journal_ok db \<and> journal_view db = file_view f"
  by (auto simp: open_journal_def Journal_open_def Journal_open_production_def dest: open_with_scope_view
      split: option.splits if_splits)

text \<open>A run either stops before any group, leaving the journal's events alone, or reaches the
  groups.\<close>

lemma apply_upload_inner_cases:
  assumes "apply_upload_inner ae plan f config client backup w = (r, f')"
  obtains (refused) e where "r = Err e" "f' = f"
  | (opened) e db where "open_journal ae f plan backup = Ok db" "r = Err e" "f' = Database db"
  | (run) verified db completed groups db' st' where
      "UploadExecutionConfig_validate config = Ok ()"
      "uc_compatibility client = up_server plan" "ae_verified ae = Ok verified"
      "open_journal ae f plan backup = Ok db"
      "Journal_completed db = Ok completed" "validate_completed plan completed = Ok ()"
      "pending_groups plan completed = Ok groups"
      "run_groups (ae_append ae) (apply_group (ae_sha256 ae) (ae_transport ae) config verified completed)
         (ae_order ae groups)
         ((ApplyReport_new (sum_operations (up_summary plan)) False) \<lparr>ar_resumed := of_nat (length completed)\<rparr>)
         db \<lparr>ex_world = w, ex_budget = RetryBudget_new (ec_max_retries_per_run config)\<rparr> = (r, db', st')"
      "f' = Database db'"
  using assms unfolding apply_upload_inner_def open_journal_def [symmetric]
  by (auto simp: Let_def split: result.splits if_splits prod.splits)

lemma outcomes_for_append:
  "outcomes_for config completed g a \<Longrightarrow> outcomes_for config completed h b \<Longrightarrow>
     outcomes_for config completed (g @ h) (a @ b)"
  unfolding outcomes_for_def map_append filter_append set_append
  by (intro conjI list_emb_append_mono ballI) (auto simp: Bex_def)

lemma outcomes_for_concat:
  "list_all2 (outcomes_for config completed) gs os \<Longrightarrow> outcomes_for config completed (concat gs) (concat os)"
  by (induction rule: list_all2_induct) (auto simp: outcomes_for_Nil intro: outcomes_for_append)

lemma outcomes_for_distinct:
  assumes "outcomes_for config completed ops outs" "distinct (map op_operation_id ops)"
  shows "distinct (map oo_operation_id outs)"
    and "x \<in> set outs \<Longrightarrow> \<exists>oper \<in> set ops. oo_operation_id x = op_operation_id oper \<and> unfinished completed oper"
proof -
  have sub: "subseq (map oo_operation_id outs) (map op_operation_id (filter (unfinished completed) ops))"
    using assms(1) by (simp add: outcomes_for_def)
  moreover have "distinct (map op_operation_id (filter (unfinished completed) ops))"
    using assms(2) by (simp add: distinct_map_filter)
  ultimately show "distinct (map oo_operation_id outs)" by (auto simp: subseq_conv_nths)
  assume "x \<in> set outs"
  then have "oo_operation_id x \<in> set (map oo_operation_id outs)" by simp
  then have "oo_operation_id x \<in> set (map op_operation_id (filter (unfinished completed) ops))"
    using list_emb_set [OF sub] by metis
  then show "\<exists>oper \<in> set ops. oo_operation_id x = op_operation_id oper \<and> unfinished completed oper" by auto
qed

text \<open>What the events of a run are: a prefix of outcomes for distinct unfinished operations of
  the plan, all of them when the run succeeds.\<close>

definition run_events ::
  "UploadPlan \<Rightarrow> (string \<Rightarrow> string option) \<Rightarrow> OperationOutcome list \<Rightarrow> bool" where
  "run_events plan done outs \<longleftrightarrow>
     distinct (map oo_operation_id outs) \<and> (\<forall>x \<in> set outs. event_ok (outcome_event x)) \<and>
     (\<forall>x \<in> set outs. oo_operation_id x \<in> op_operation_id ` set (up_operations plan) \<and> done (oo_operation_id x) = None)"

lemma run_events_prefix: "run_events plan d outs \<Longrightarrow> prefix ys outs \<Longrightarrow> run_events plan d ys"
  by (auto simp: run_events_def prefix_def)

lemma group_run_events:
  assumes run: "run_groups env (apply_group sha tr config verified completed) ordered report db st = (r, db', st')"
    and valid: "UploadExecutionConfig_validate config = Ok ()" and plan: "upload_plan_ok rfc plan"
    and pending: "pending_groups plan completed = Ok groups" and order: "mset ordered = mset groups"
  shows "\<exists>outs. run_events plan (btm_get completed) outs \<and> recorded outs db db' \<and>
    (\<forall>rep. r = Ok rep \<longrightarrow> (\<exists>c. rep = cancel_report c (fold record_report outs report)))"
proof -
  let ?ops = "up_operations plan"
  have ids: "distinct (map op_operation_id ?ops)" and nonempty: "\<forall>oper \<in> set ?ops. op_operation_id oper \<noteq> []"
    using plan by (auto simp: upload_plan_ok_def upload_operation_ok_def is_sha256_def)
  have att: "0 < ec_max_attempts_per_operation config" using valid by (simp add: validate_config_iff)
  note groups = pending_groups_Ok [OF pending ids]
  have set_eq: "set ordered = set groups" using order by (metis set_mset_mset)
  have members: "g \<in> set ordered \<Longrightarrow> set g \<subseteq> set ?ops" for g
    using groups(1) set_eq group_ok_members(2) by blast
  have P: "g \<in> set ordered \<Longrightarrow> outcomes_for config completed g
      (gr_outcomes (fst (apply_group sha tr config verified completed g s)))" for g s
    using apply_group_outcomes [OF _ att] by (metis prod.collapse)
  have ev: "g \<in> set ordered \<Longrightarrow> outcomes_for config completed g outs \<Longrightarrow>
      \<forall>x \<in> set outs. event_ok (outcome_event x)" for g outs
    unfolding outcomes_for_def using members nonempty outcome_event_ok by (metis subsetD)
  have "\<exists>os hs ks. ordered = hs @ ks \<and> list_all2 (outcomes_for config completed) hs os \<and>
      ((r = Err EE_Checkpoint \<and> (\<exists>ys. prefix ys (concat os) \<and> recorded ys db db')) \<or>
       (ks = [] \<and> recorded (concat os) db db' \<and> (\<exists>c. r = Ok (cancel_report c (fold record_report (concat os) report)))))"
    by (rule run_groups_spec [where P = "outcomes_for config completed", OF run]) (erule P, erule (1) ev)
  then obtain os hs ks where os: "ordered = hs @ ks" "list_all2 (outcomes_for config completed) hs os"
    and res: "(r = Err EE_Checkpoint \<and> (\<exists>ys. prefix ys (concat os) \<and> recorded ys db db')) \<or>
      (ks = [] \<and> recorded (concat os) db db' \<and> (\<exists>c. r = Ok (cancel_report c (fold record_report (concat os) report))))"
    by (elim exE conjE) (rule that)
  have "mset (concat ordered) = mset (concat groups)"
    using order by (simp add: mset_concat flip: sum_mset_sum_list)
  then have "distinct (map op_operation_id (concat ordered))"
    using groups(2) by (metis mset_map mset_eq_imp_distinct_iff)
  then have hs: "distinct (map op_operation_id (concat hs))" by (simp add: os(1))
  note conc = outcomes_for_concat [OF os(2)]
  have "set (concat hs) \<subseteq> set ?ops" using members os(1) by auto
  moreover have "\<forall>x \<in> set (concat os). event_ok (outcome_event x)"
    using conc calculation nonempty by (fastforce simp: outcomes_for_def intro: outcome_event_ok)
  ultimately have all: "run_events plan (btm_get completed) (concat os)"
    using outcomes_for_distinct [OF conc hs] by (fastforce simp: run_events_def unfinished_def)
  show ?thesis
    using res all run_events_prefix by blast
qed

lemma recorded_view:
  assumes "recorded outs db db'" "journal_ok db" "run_events plan d outs"
  shows "journal_ok db'" "x \<in> set outs \<Longrightarrow> journal_view db' (oo_operation_id x) = oo_asset_id x"
    "i \<notin> oo_operation_id ` set outs \<Longrightarrow> journal_view db' i = journal_view db i"
proof -
  obtain tes where tes: "db' = fold record_timed tes db" "map snd tes = map outcome_event outs"
    using assms(1) by (auto simp: recorded_def)
  have "snd ` set tes = outcome_event ` set outs"
    using arg_cong [OF tes(2), of set] by simp
  then have ev: "\<forall>te \<in> set tes. (event_ok \<circ> snd) te"
  proof (intro ballI)
    fix te assume "te \<in> set tes"
    then have "snd te \<in> outcome_event ` set outs"
      unfolding \<open>snd ` set tes = outcome_event ` set outs\<close> [symmetric] by (rule imageI)
    then show "(event_ok \<circ> snd) te" using assms(3) by (auto simp: run_events_def)
  qed
  have keys: "map (je_operation_id \<circ> snd) tes = map oo_operation_id outs"
    using arg_cong [OF tes(2), of "map je_operation_id"] by (simp add: outcome_event_def comp_def)
  show "journal_ok db'" unfolding tes(1) using assms(2) ev by (rule upload_log.ok_fold)
  have "distinct (map (je_operation_id \<circ> snd) tes)" using assms(3) keys by (simp add: run_events_def)
  note dist = upload_log.view_distinct [OF assms(2) ev this]
  show "journal_view db' (oo_operation_id x) = oo_asset_id x" if "x \<in> set outs"
  proof -
    have "outcome_event x \<in> snd ` set tes"
      unfolding \<open>snd ` set tes = outcome_event ` set outs\<close> using that by (rule imageI)
    then obtain te where te: "te \<in> set tes" "snd te = outcome_event x" by auto
    then show ?thesis using dist [OF te(1)] by (simp add: tes(1) outcome_event_def)
  qed
  show "journal_view db' i = journal_view db i" if "i \<notin> oo_operation_id ` set outs"
  proof -
    have "i \<notin> (je_operation_id \<circ> snd) ` set tes" using that arg_cong [OF keys, of set] by simp
    then show ?thesis unfolding tes(1) using assms(2) ev by (intro upload_log.view_untouched)
  qed
qed

text \<open>The summary of a run: from the file before to the file after, the outcomes that were
  journalled.\<close>

lemma apply_upload_inner_events:
  assumes "apply_upload_inner ae plan f config client backup w = (r, f')"
    and "upload_plan_ok rfc plan" "file_ok f" "\<And>gs. mset (ae_order ae gs) = mset gs"
  shows "f' = f \<and> \<not> is_ok r \<or> (\<exists>outs db db'. f' = Database db' \<and> journal_ok db \<and> journal_view db = file_view f \<and>
    run_events plan (file_view f) outs \<and> recorded outs db db' \<and>
    (\<forall>rep. r = Ok rep \<longrightarrow> (\<exists>c completed. btm_wf completed \<and> btm_get completed = file_view f \<and>
       fst ` set completed \<subseteq> op_operation_id ` set (up_operations plan) \<and>
       rep = cancel_report c (fold record_report outs
         ((ApplyReport_new (sum_operations (up_summary plan)) False) \<lparr>ar_resumed := of_nat (length completed)\<rparr>)))))"
  using assms(1)
proof (cases rule: apply_upload_inner_cases)
  case (opened e db)
  then show ?thesis
    using open_journal_view [OF opened(1) assms(3)]
    by (intro disjI2 exI [of _ "[]"] exI [of _ db]) (auto simp: run_events_def)
next
  case (run verified db completed groups db' st')
  have view: "journal_ok db" "journal_view db = file_view f"
    using open_journal_view [OF run(4) assms(3)] by auto
  have comp: "btm_wf completed" "btm_get completed = file_view f"
    using completed_assets_view [OF view(1)] run(5) view(2) by (auto simp: Journal_completed_def)
  from group_run_events [OF run(8,1) assms(2) run(7) assms(4)]
  obtain outs where "run_events plan (btm_get completed) outs" "recorded outs db db'"
      "\<forall>rep. r = Ok rep \<longrightarrow> (\<exists>c. rep = cancel_report c (fold record_report outs
         ((ApplyReport_new (sum_operations (up_summary plan)) False) \<lparr>ar_resumed := of_nat (length completed)\<rparr>)))"
    by (elim exE conjE) (rule that)
  note outs = this
  have "fst ` set completed \<subseteq> op_operation_id ` set (up_operations plan)"
    using run(6) by (auto simp: validate_completed_def list_ex_iff image_iff split: if_splits)
  then have "\<forall>rep. r = Ok rep \<longrightarrow> (\<exists>c completed. btm_wf completed \<and> btm_get completed = file_view f \<and>
       fst ` set completed \<subseteq> op_operation_id ` set (up_operations plan) \<and>
       rep = cancel_report c (fold record_report outs
         ((ApplyReport_new (sum_operations (up_summary plan)) False) \<lparr>ar_resumed := of_nat (length completed)\<rparr>)))"
    using outs(3) comp by blast
  then show ?thesis
    using view comp(2) run(9) outs(1,2) by (intro disjI2) (rule exI [of _ outs], rule exI [of _ db], rule exI [of _ db'], simp)
qed (auto simp: is_ok_iff)

section \<open>Counters\<close>

definition count_kind :: "OutcomeKind \<Rightarrow> OperationOutcome list \<Rightarrow> nat" where
  "count_kind k outs = length (filter (\<lambda>x. oo_kind x = k) outs)"

lemma fold_record_counts:
  assumes "length outs \<le> u64_max - unat n" "ar_created r = n" "ar_duplicate r = n" "ar_failed r = n" "ar_indeterminate r = n" "n = 0"
  shows "unat (ar_created (fold record_report outs r)) = count_kind Created outs"
    "unat (ar_duplicate (fold record_report outs r)) = count_kind Duplicate outs"
    "unat (ar_failed (fold record_report outs r)) = count_kind Failed outs"
    "unat (ar_indeterminate (fold record_report outs r)) = count_kind Indeterminate outs"
proof -
  have "length outs \<le> u64_max \<Longrightarrow>
     unat (ar_created (fold record_report outs r)) = count_kind Created outs \<and>
     unat (ar_duplicate (fold record_report outs r)) = count_kind Duplicate outs \<and>
     unat (ar_failed (fold record_report outs r)) = count_kind Failed outs \<and>
     unat (ar_indeterminate (fold record_report outs r)) = count_kind Indeterminate outs"
  proof (induction outs rule: rev_induct)
    case (snoc x outs)
    have "count_kind k outs \<le> length outs" for k by (simp add: count_kind_def)
    moreover have "length outs + 1 \<le> u64_max" using snoc.prems by simp
    ultimately have "count_kind k outs + 1 \<le> u64_max" for k by (meson add_le_mono1 le_trans)
    then show ?case
      using snoc by (cases "oo_kind x") (auto simp: record_report_def Let_def count_kind_def unat_saturating_add)
  qed (use assms in \<open>auto simp: count_kind_def\<close>)
  then show "unat (ar_created (fold record_report outs r)) = count_kind Created outs"
    "unat (ar_duplicate (fold record_report outs r)) = count_kind Duplicate outs"
    "unat (ar_failed (fold record_report outs r)) = count_kind Failed outs"
    "unat (ar_indeterminate (fold record_report outs r)) = count_kind Indeterminate outs"
    using assms by auto
qed

lemma fold_record_fixed:
  "ar_resumed (fold record_report outs r) = ar_resumed r" "ar_planned (fold record_report outs r) = ar_planned r"
proof -
  have "ar_resumed (record_report x r) = ar_resumed r \<and> ar_planned (record_report x r) = ar_planned r" for x r
    by (cases "oo_kind x") (auto simp: record_report_def Let_def)
  then show "ar_resumed (fold record_report outs r) = ar_resumed r" "ar_planned (fold record_report outs r) = ar_planned r"
    by (induction outs arbitrary: r) auto
qed

lemma count_kind_sum:
  "count_kind Created outs + count_kind Duplicate outs + count_kind Failed outs + count_kind Indeterminate outs = length outs"
proof (induction outs)
  case (Cons x outs)
  then show ?case by (cases "oo_kind x") (auto simp: count_kind_def)
qed (simp add: count_kind_def)

lemma event_ok_success:
  "event_ok (outcome_event x) \<Longrightarrow> oo_asset_id x \<noteq> None \<longleftrightarrow> oo_kind x \<in> {Created, Duplicate}"
  by (cases "oo_kind x") (auto simp: event_ok_def outcome_event_def asset_contract_def is_some_and_iff)

lemma count_success:
  assumes "distinct (map oo_operation_id outs)"
  shows "card (oo_operation_id ` {x \<in> set outs. oo_kind x \<in> {Created, Duplicate}}) = count_kind Created outs + count_kind Duplicate outs"
  using assms
proof (induction outs)
  case (Cons y outs)
  have "{x \<in> set (y # outs). oo_kind x \<in> {Created, Duplicate}} =
      (if oo_kind y \<in> {Created, Duplicate} then {y} else {}) \<union> {x \<in> set outs. oo_kind x \<in> {Created, Duplicate}}" by auto
  moreover have "oo_operation_id y \<notin> oo_operation_id ` {x \<in> set outs. oo_kind x \<in> {Created, Duplicate}}"
    using Cons.prems by auto
  ultimately show ?case
    using Cons by (cases "oo_kind y") (auto simp: count_kind_def image_Un)
qed (simp add: count_kind_def)

section \<open>Properties\<close>

text \<open>C1: resuming is safe. Whatever a run of an accepted plan does (it may be refused, be
  cancelled, or stop because the checkpoint cannot be written), in whatever order
  its concurrent groups finish, the journal it leaves is well formed, every
  operation finished before keeps its asset, and only operations of the plan are
  newly finished.\<close>

theorem apply_upload_resume_safe:
  assumes "apply_upload_inner ae plan f config client backup w = (r, f')"
    and "UploadPlan_validate rfc plan = Ok ()" "file_ok f" "\<And>gs. mset (ae_order ae gs) = mset gs"
  shows "file_ok f' \<and> file_view f \<subseteq>\<^sub>m file_view f' \<and>
    dom (file_view f') \<subseteq> dom (file_view f) \<union> op_operation_id ` set (up_operations plan)"
proof -
  have plan: "upload_plan_ok rfc plan" using assms(2) UploadPlan_validate_ok_iff [of rfc plan] by simp
  from apply_upload_inner_events [OF assms(1) plan assms(3,4)] show ?thesis
  proof (elim disjE exE conjE)
    fix outs db db'
    assume ev: "f' = Database db'" "journal_ok db" "journal_view db = file_view f"
      "run_events plan (file_view f) outs" "recorded outs db db'"
    note view = recorded_view [OF ev(5,2,4)]
    have "file_view f i = Some a \<Longrightarrow> journal_view db' i = Some a" for i a
      using view(3) [of i] ev(3,4) by (fastforce simp: run_events_def)
    moreover have "i \<in> op_operation_id ` set (up_operations plan)" if "file_view f i = None" "journal_view db' i = Some a" for i a
      using view(3) [of i] ev(3,4) that by (fastforce simp: run_events_def)
    moreover have "file_view f' = journal_view db'" by (simp add: ev(1) file_view_def)
    ultimately show ?thesis
      using view(1) ev(1) by (auto simp: file_ok_def map_le_def dom_def) (metis option.exhaust)
  qed (use assms(3) in auto)
qed

text \<open>C5: the report of a completed run is exact. Whatever the checkpoint held before (nothing, a part
  of the plan, all of it) and whether or not the run appends a row, the operations it counts as
  resumed are the ones finished before, those it counts as created or duplicate are exactly the
  ones finished by this run, and all its counts together stay within the planned
  operations. The plan is one that validates and has at most \<open>u64::MAX\<close> operations; the checkpoint is
  well formed; the groups may finish in any order.\<close>

theorem apply_upload_report_exact:
  assumes "apply_upload_inner ae plan f config client backup w = (Ok rep, f')"
    and "UploadPlan_validate rfc plan = Ok ()" "file_ok f" "\<And>gs. mset (ae_order ae gs) = mset gs"
    and "length (up_operations plan) \<le> u64_max"
  shows "unat (ar_resumed rep) = card (dom (file_view f)) \<and>
    unat (ar_created rep) + unat (ar_duplicate rep) = card (dom (file_view f') - dom (file_view f)) \<and>
    unat (ar_resumed rep) + unat (ar_created rep) + unat (ar_duplicate rep) + unat (ar_failed rep)
      + unat (ar_indeterminate rep) \<le> length (up_operations plan) \<and>
    unat (ar_planned rep) = length (up_operations plan)"
proof -
  let ?ids = "op_operation_id ` set (up_operations plan)"
  have plan: "upload_plan_ok rfc plan" using assms(2) UploadPlan_validate_ok_iff [of rfc plan] by simp
  from apply_upload_inner_events [OF assms(1) plan assms(3,4)]
  obtain outs db db' c completed where ev: "f' = Database db'" "journal_ok db" "journal_view db = file_view f"
      "run_events plan (file_view f) outs" "recorded outs db db'"
      and comp: "btm_wf completed" "btm_get completed = file_view f" "fst ` set completed \<subseteq> ?ids"
      and rep: "rep = cancel_report c (fold record_report outs
         ((ApplyReport_new (sum_operations (up_summary plan)) False) \<lparr>ar_resumed := of_nat (length completed)\<rparr>))"
    by (elim disjE exE conjE) (auto simp: is_ok_iff intro: that)
  note view = recorded_view [OF ev(5,2,4)]
  have fin: "finite (dom (file_view f))" unfolding comp(2) [symmetric] by (rule finite_dom_map_of)
  have len: "length completed = card (dom (file_view f))"
    using length_btm_wf [OF comp(1)] comp(2) by simp
  have sub: "dom (file_view f) \<union> oo_operation_id ` set outs \<subseteq> ?ids"
    using comp(2,3) ev(4) by (auto simp: run_events_def dom_map_of_conv_image_fst simp flip: comp(2))
  have disj: "dom (file_view f) \<inter> oo_operation_id ` set outs = {}"
    using ev(4) by (auto simp: run_events_def)
  have "card (dom (file_view f)) + length outs = card (dom (file_view f) \<union> oo_operation_id ` set outs)"
    using ev(4) fin disj by (subst card_Un_disjoint) (auto simp: run_events_def distinct_card simp flip: set_map)
  also have "\<dots> \<le> card ?ids" by (rule card_mono) (use sub in auto)
  also have "\<dots> \<le> length (up_operations plan)" using card_length [of "map op_operation_id (up_operations plan)"] by simp
  finally have total: "card (dom (file_view f)) + length outs \<le> length (up_operations plan)" .
  have planned: "sum_operations (up_summary plan) = of_nat (length (up_operations plan))"
    using plan by (simp add: upload_plan_ok_def expected_summary_def Let_def)
  have small: "length outs \<le> u64_max" "length completed \<le> u64_max" using total assms(5) len by auto
  have new: "dom (journal_view db') - dom (file_view f) = oo_operation_id ` {x \<in> set outs. oo_kind x \<in> {Created, Duplicate}}"
  proof -
    have "i \<in> dom (journal_view db') - dom (file_view f) \<longleftrightarrow> (\<exists>x \<in> set outs. oo_operation_id x = i \<and> oo_asset_id x \<noteq> None)" for i
    proof (cases "i \<in> oo_operation_id ` set outs")
      case True
      then have "file_view f i = None" using ev(4) by (auto simp: run_events_def)
      moreover have "\<forall>x \<in> set outs. oo_operation_id x = i \<longrightarrow> journal_view db' i = oo_asset_id x"
        using view(2) by metis
      ultimately show ?thesis using True by (auto simp: dom_def) metis+
    next
      case False
      then show ?thesis using view(3) [OF False] ev(3) by auto
    qed
    moreover have "x \<in> set outs \<Longrightarrow> oo_asset_id x \<noteq> None \<longleftrightarrow> oo_kind x \<in> {Created, Duplicate}" for x
      using ev(4) event_ok_success by (auto simp: run_events_def)
    ultimately show ?thesis by (auto simp: image_iff set_eq_iff)
  qed
  have counts: "unat (ar_created rep) = count_kind Created outs" "unat (ar_duplicate rep) = count_kind Duplicate outs"
      "unat (ar_failed rep) = count_kind Failed outs" "unat (ar_indeterminate rep) = count_kind Indeterminate outs"
      "ar_resumed rep = of_nat (length completed)" "ar_planned rep = sum_operations (up_summary plan)"
    using fold_record_counts [of outs 0] small fold_record_fixed
    by (simp_all add: rep cancel_report_def ApplyReport_new_def)
  show ?thesis
    using counts count_kind_sum [of outs] total len small planned assms(5) new
      count_success [of outs] ev(1,4)
    by (simp add: unat_of_nat_u64 file_view_def run_events_def)
qed

definition sample_apply_env :: "script apply_env" where
  "sample_apply_env =
     \<lparr>ae_sha256 = (\<lambda>_. replicate 32 CHR 0x07), ae_plan_sha256 = (\<lambda>_. Some (hex64 CHR ''e'')),
      ae_verified = Ok [(hex64 CHR ''a'', sample_verified), (hex64 CHR ''b'', sample_verified)],
      ae_open_ok = True, ae_append = (\<lambda>_. (True, Some 1)), ae_order = rev, ae_transport = scripted\<rparr>"

definition sample_upload_client :: ImmichUploadClient where
  "sample_upload_client =
     \<lparr>uc_read = sample_client ''http'' (Domain ''localhost'') Disposable, uc_compatibility = sample_server, uc_production = False\<rparr>"

text \<open>A first run in which the motion video is stored and the still image's answers never come.\<close>

definition sample_run :: "(ApplyReport, ExecutorErrorClass) result \<times> checkpoint_file" where
  "sample_run = apply_upload_inner sample_apply_env sample_folder_plan Missing UploadExecutionConfig_default
     sample_upload_client None [answer 200 ''accept'', answer 201 ''created'']"

lemma sample_order: "mset (ae_order sample_apply_env gs) = mset gs"
  by (simp add: sample_apply_env_def)

theorem apply_upload_resume_safe_witness:
  "file_ok (snd sample_run) \<and>
   dom (file_view (snd sample_run)) \<subseteq> op_operation_id ` set (up_operations sample_folder_plan)"
proof -
  have "apply_upload_inner sample_apply_env sample_folder_plan Missing UploadExecutionConfig_default
     sample_upload_client None [answer 200 ''accept'', answer 201 ''created''] = (fst sample_run, snd sample_run)"
    by (simp add: sample_run_def)
  from apply_upload_resume_safe [OF this sample_folder_plan_valid _ sample_order] show ?thesis
    by (simp add: file_ok_def file_view_def)
qed

text \<open>A second run on the checkpoint of the first, cancelled before its first request: it counts the
  stored video as resumed and leaves the file as it is.\<close>

definition resumed_run :: "(ApplyReport, ExecutorErrorClass) result \<times> checkpoint_file" where
  "resumed_run = apply_upload_inner sample_apply_env sample_folder_plan (snd sample_run) UploadExecutionConfig_default
     sample_upload_client None []"

theorem apply_upload_report_exact_witness:
  "\<exists>rep. resumed_run = (Ok rep, snd sample_run) \<and> ar_resumed rep = 1 \<and> card (dom (file_view (snd sample_run))) = 1 \<and>
    ar_created rep = 0 \<and> ar_duplicate rep = 0"
proof -
  have "map_ok ar_resumed (fst resumed_run) = Ok 1" by code_simp
  then obtain rep where rep: "fst resumed_run = Ok rep" "ar_resumed rep = 1" by (auto simp: map_ok_eq_Ok)
  have same: "snd resumed_run = snd sample_run" by code_simp
  have "case snd sample_run of Database db \<Rightarrow> journal_ok db | _ \<Rightarrow> True" by code_simp
  then have good: "file_ok (snd sample_run)" by (auto simp: file_ok_def)
  have run: "apply_upload_inner sample_apply_env sample_folder_plan (snd sample_run) UploadExecutionConfig_default
     sample_upload_client None [] = (Ok rep, snd sample_run)"
    using rep(1) same by (simp add: resumed_run_def prod_eq_iff)
  have "length (up_operations sample_folder_plan) \<le> u64_max"
    by (simp add: sample_folder_plan_def Let_def u64_max_val)
  from apply_upload_report_exact [OF run sample_folder_plan_valid good sample_order this]
  have "card (dom (file_view (snd sample_run))) = 1" "ar_created rep = 0" "ar_duplicate rep = 0"
    by (simp_all add: rep(2) unsigned_eq_0_iff)
  then show ?thesis using rep same by (simp add: prod_eq_iff)
qed

text \<open>A plan that validation accepts can name one motion video from two still images; the
  pending groups then contain the first image only, so the second is neither
  uploaded nor reported.\<close>

definition twin_image_plan :: UploadPlan where
  "twin_image_plan =
     (let ops = [sample_operation CHR ''a'' ''a.jpg'' MediaImage None (LivePhotoImage ''p'' (hex64 CHR ''b'')),
                 sample_operation CHR ''b'' ''a.mov'' MediaVideo None (LivePhotoVideo ''p''),
                 sample_operation CHR ''c'' ''b.jpg'' MediaImage None (LivePhotoImage ''p'' (hex64 CHR ''b''))] in
      sample_folder_plan \<lparr>up_operations := ops, up_summary := expected_summary 1 ops\<rparr>)"

theorem second_still_image_dropped:
  "UploadPlan_validate Some twin_image_plan = Ok () \<and>
   map_ok (map (map op_relative_path)) (pending_groups twin_image_plan []) = Ok [[''a.mov'', ''a.jpg'']]"
  by code_simp

section \<open>Completeness of the groups\<close>

text \<open>Every motion video has exactly one still image in the plan.\<close>

definition pairs_one_to_one :: "UploadOperation list \<Rightarrow> bool" where
  "pairs_one_to_one ops \<longleftrightarrow>
     (\<forall>v \<in> set ops. is_video v \<longrightarrow> length (filter (is_image_of (op_operation_id v)) ops) = 1)"

lemma filter_single:
  assumes "length (filter P xs) = 1"
  obtains y where "y \<in> set xs" "P y" "\<And>z. z \<in> set xs \<Longrightarrow> P z \<Longrightarrow> z = y"
proof -
  from assms obtain y where y: "filter P xs = [y]" by (auto simp: length_Suc_conv)
  have "\<And>z. z \<in> set xs \<and> P z \<longleftrightarrow> z = y" using arg_cong [OF y, of set] by auto
  then show thesis using that by blast
qed

definition step_group :: "UploadOperation list \<Rightarrow> completed_map \<Rightarrow> UploadOperation \<Rightarrow> OperationGroup list" where
  "step_group ops completed oper =
     (case pending_step ops completed oper [] of Ok gs \<Rightarrow> gs | Err e \<Rightarrow> [])"

lemma pending_step_append:
  "is_ok (pending_step ops completed oper []) \<Longrightarrow>
     pending_step ops completed oper gs = Ok (gs @ step_group ops completed oper)"
  by (cases "op_role oper") (auto simp: step_group_def pending_step_def split: option.splits)

lemma pending_fold_all:
  "\<forall>x \<in> set xs. is_ok (pending_step ops completed x []) \<Longrightarrow>
     fold_result (pending_step ops completed) xs gs = Ok (gs @ concat (map (step_group ops completed) xs))"
  by (induction xs arbitrary: gs) (auto simp: pending_step_append)

lemma pending_step_ok:
  assumes "live_photos_closed ops" "pairs_one_to_one ops" "oper \<in> set ops"
  shows "is_ok (pending_step ops completed oper [])"
proof (cases "op_role oper")
  case (LivePhotoVideo pair)
  then have "is_video oper" by (simp add: is_video_def)
  then have "length (filter (is_image_of (op_operation_id oper)) ops) = 1"
    using assms(2,3) unfolding pairs_one_to_one_def by blast
  then obtain im where "im \<in> set ops" "is_image_of (op_operation_id oper) im"
    by (rule filter_single)
  then have "find (is_image_of (op_operation_id oper)) ops \<noteq> None"
    by (auto simp: find_None_iff)
  then show ?thesis using LivePhotoVideo by (auto simp: pending_step_def)
next
  case (LivePhotoImage pair video)
  then show ?thesis using assms by (auto simp: pending_step_def live_photos_closed_def image_iff) metis
qed (simp add: pending_step_def)

lemma unfinished_in_group:
  assumes "live_photos_closed ops" "pairs_one_to_one ops" "oper \<in> set ops" "unfinished completed oper"
  shows "\<exists>x \<in> set ops. \<exists>g \<in> set (step_group ops completed x). oper \<in> set g"
proof (cases "op_role oper")
  case Standalone
  then show ?thesis using assms by (intro bexI [of _ oper]) (auto simp: step_group_def pending_step_def unfinished_def)
next
  case (LivePhotoVideo pair)
  then show ?thesis
    using assms pending_step_ok [OF assms(1-3), of completed]
    by (intro bexI [of _ oper]) (auto simp: step_group_def pending_step_def unfinished_def split: option.splits)
next
  case (LivePhotoImage pair video)
  then obtain v where v: "v \<in> set ops" "op_operation_id v = video" "op_role v = LivePhotoVideo pair"
    using assms unfolding live_photos_closed_def by metis
  have im: "is_image_of (op_operation_id v) oper" using LivePhotoImage v by (simp add: is_image_of_def)
  obtain im' where "find (is_image_of (op_operation_id v)) ops = Some im'"
    using im assms(3) by (cases "find (is_image_of (op_operation_id v)) ops") (auto simp: find_None_iff)
  moreover from this have "im' \<in> set ops" "is_image_of (op_operation_id v) im'"
    by (auto simp: find_Some_iff)
  moreover have "is_video v" using v by (simp add: is_video_def)
  then have "length (filter (is_image_of (op_operation_id v)) ops) = 1"
    using assms(2) v(1) unfolding pairs_one_to_one_def by blast
  ultimately have "find (is_image_of (op_operation_id v)) ops = Some oper"
    using im assms(3) by (metis filter_single)
  then show ?thesis
    using v assms(4) by (intro bexI [of _ v]) (auto simp: step_group_def pending_step_def unfinished_def)
qed

lemma pending_groups_cover:
  assumes "UploadPlan_validate rfc plan = Ok ()" "pairs_one_to_one (up_operations plan)"
  shows "\<exists>gs. pending_groups plan completed = Ok gs \<and> distinct (map op_operation_id (concat gs)) \<and>
    (\<forall>oper \<in> set (up_operations plan). unfinished completed oper \<longrightarrow> oper \<in> set (concat gs)) \<and>
    (\<forall>g \<in> set gs. group_ok (up_operations plan) completed g)"
proof -
  let ?ops = "up_operations plan"
  have plan: "upload_plan_ok rfc plan" using assms(1) UploadPlan_validate_ok_iff [of rfc plan] by simp
  then have closed: "live_photos_closed ?ops" and ids: "distinct (map op_operation_id ?ops)"
    by (auto simp: upload_plan_ok_def)
  have "fold_result (pending_step ?ops completed) ?ops [] = Ok (concat (map (step_group ?ops completed) ?ops))"
    using pending_fold_all [of ?ops ?ops completed "[]"] pending_step_ok [OF closed assms(2)] by simp
  then obtain gs where gs: "pending_groups plan completed = Ok gs"
      "gs = sort_key (\<lambda>g. op_relative_path (hd g)) (concat (map (step_group ?ops completed) ?ops))"
    by (simp add: pending_groups_def)
  then have "\<forall>oper \<in> set ?ops. unfinished completed oper \<longrightarrow> oper \<in> set (concat gs)"
    using unfinished_in_group [OF closed assms(2)] by fastforce
  then show ?thesis using gs(1) pending_groups_Ok [OF gs(1) ids] by blast
qed

text \<open>C6: when every motion video of an accepted plan has exactly one still image, the pending
  groups exist and cover the unfinished work exactly: every unfinished operation is
  in a group, none is in two, and every group is a single standalone operation or
  a motion video followed by its still image.\<close>

theorem pending_groups_complete:
  assumes "UploadPlan_validate rfc plan = Ok ()" "pairs_one_to_one (up_operations plan)"
  shows "\<exists>gs. pending_groups plan completed = Ok gs \<and> distinct (map op_operation_id (concat gs)) \<and>
    (\<forall>oper \<in> set (up_operations plan). unfinished completed oper \<longrightarrow> oper \<in> set (concat gs)) \<and>
    (\<forall>g \<in> set gs. group_ok (up_operations plan) completed g)"
  using pending_groups_cover [OF assms] .

theorem pending_groups_complete_witness:
  "\<exists>gs. pending_groups sample_folder_plan [] = Ok gs \<and> length (concat gs) = 2"
proof -
  have "pairs_one_to_one (up_operations sample_folder_plan)"
    by code_simp
  from pending_groups_complete [OF sample_folder_plan_valid this, of "[]"]
  obtain gs where "pending_groups sample_folder_plan [] = Ok gs" by auto
  moreover have "map_ok (length \<circ> concat) (pending_groups sample_folder_plan []) = Ok 2" by code_simp
  ultimately show ?thesis by auto
qed

end
