(* ===== verification/Exec_Import_Journal.thy ===== *)
theory Exec_Import_Journal
  imports Exec_Apply
begin

text \<open>
  \<open>immich-executor/src/import_journal.rs\<close> with \<open>import_journal_db.rs\<close>: the checkpoint of an
  import run. An import has four kinds of effects (the upload of an asset, its
  metadata, an album, the membership of an album), each with a key; the \<open>effects\<close> table
  is an append-only log of their outcomes and the state of a run is the latest outcome
  per key. The journal provides the \<open>effect_log\<close> interface.
\<close>

section \<open>Outcomes and events\<close>

datatype ImportOutcome = ImpCreated | ImpDuplicate | ImpCompleted | ImpReused | ImpFailed | ImpIndeterminate

primrec ImportOutcome_as_str :: "ImportOutcome \<Rightarrow> string" where
  "ImportOutcome_as_str ImpCreated = ''created''"
| "ImportOutcome_as_str ImpDuplicate = ''duplicate''"
| "ImportOutcome_as_str ImpCompleted = ''completed''"
| "ImportOutcome_as_str ImpReused = ''reused''"
| "ImportOutcome_as_str ImpFailed = ''failed''"
| "ImportOutcome_as_str ImpIndeterminate = ''indeterminate''"

definition ImportOutcome_parse :: "string \<Rightarrow> ImportOutcome option" where
  "ImportOutcome_parse value =
     (if value = ''created'' then Some ImpCreated else if value = ''duplicate'' then Some ImpDuplicate
      else if value = ''completed'' then Some ImpCompleted else if value = ''reused'' then Some ImpReused
      else if value = ''failed'' then Some ImpFailed else if value = ''indeterminate'' then Some ImpIndeterminate
      else None)"

lemma parse_as_str [simp]: "ImportOutcome_parse (ImportOutcome_as_str k) = Some k"
  by (cases k) (simp_all add: ImportOutcome_parse_def)

record ImportEvent =
  ie_effect_key :: string
  ie_outcome :: ImportOutcome
  ie_remote_id :: "string option"
  ie_retries :: nat

record StoredEffect =
  se_outcome :: ImportOutcome
  se_remote_id :: "string option"

type_synonym ImportState = "(string, StoredEffect) btree_map"

text \<open>A row of the \<open>effects\<close> table, and the database with its rows in sequence order.\<close>

record effect_row =
  er_effect_key :: string
  er_outcome :: string
  er_remote_id :: "string option"
  er_retry_count :: nat
  er_recorded_unix_ms :: int

record import_db =
  id_application_id :: int
  id_user_version :: int
  id_metadata :: "(string, string) btree_map"
  id_effects :: "effect_row list"

datatype import_file = NoImportFile | ImportSymlink | ImportInaccessible | ImportCorrupt | ImportDatabase import_db

section \<open>Keys\<close>

definition asset_key :: "string \<Rightarrow> string" where
  "asset_key operation_id = ''asset:'' @ operation_id"

definition metadata_key :: "string \<Rightarrow> string" where
  "metadata_key operation_id = ''metadata:'' @ operation_id"

text \<open>\<open>format!("album:{identity}")\<close> and \<open>format!("membership:{identity}")\<close>.\<close>

definition album_key :: "string \<Rightarrow> string" where
  "album_key identity = ''album:'' @ identity"

definition membership_key :: "string \<Rightarrow> string" where
  "membership_key identity = ''membership:'' @ identity"

text \<open>The hexadecimal SHA-256 of the name; the digest is a parameter.\<close>

definition album_identity :: "(string \<Rightarrow> string) \<Rightarrow> string \<Rightarrow> string" where
  "album_identity hex_sha256 name = hex_sha256 name"

definition has_metadata_assignment :: "NormalizedMetadata \<Rightarrow> bool" where
  "has_metadata_assignment m \<longleftrightarrow> nm_description m \<noteq> None \<or> nm_taken_at_utc m \<noteq> None \<or> nm_location m \<noteq> None"

lemma key_inject [simp]:
  "asset_key i = asset_key j \<longleftrightarrow> i = j" "metadata_key i = metadata_key j \<longleftrightarrow> i = j"
  "album_key i = album_key j \<longleftrightarrow> i = j" "membership_key i = membership_key j \<longleftrightarrow> i = j"
  "asset_key i \<noteq> metadata_key j" "metadata_key i \<noteq> asset_key j" "asset_key i \<noteq> album_key j" "album_key i \<noteq> asset_key j"
  "asset_key i \<noteq> membership_key j" "membership_key i \<noteq> asset_key j" "metadata_key i \<noteq> album_key j"
  "album_key i \<noteq> metadata_key j" "metadata_key i \<noteq> membership_key j" "membership_key i \<noteq> metadata_key j"
  "album_key i \<noteq> membership_key j" "membership_key i \<noteq> album_key j"
  by (simp_all add: asset_key_def metadata_key_def album_key_def membership_key_def)

section \<open>Opening and binding\<close>

definition import_reject_symlink :: "import_file \<Rightarrow> (unit, ExecutorErrorClass) result" where
  "import_reject_symlink f = (if f \<in> {ImportSymlink, ImportInaccessible} then Err EE_Checkpoint else Ok ())"

definition empty_import_db :: import_db where
  "empty_import_db = \<lparr>id_application_id = 0, id_user_version = 0, id_metadata = [], id_effects = []\<rparr>"

text \<open>The pragmas and \<open>CREATE TABLE IF NOT EXISTS\<close> of \<open>open_connection\<close>.\<close>

definition configure_import :: "import_db \<Rightarrow> import_db" where
  "configure_import db = db \<lparr>id_application_id := 1230132018, id_user_version := 2\<rparr>"

definition open_connection :: "bool \<Rightarrow> import_file \<Rightarrow> (import_db, ExecutorErrorClass) result" where
  "open_connection io_ok f =
     and_then (import_reject_symlink f) (\<lambda>_.
       if \<not> io_ok then Err EE_Checkpoint
       else case f of
          NoImportFile \<Rightarrow> Ok (configure_import empty_import_db)
        | ImportDatabase db \<Rightarrow> Ok (configure_import db)
        | _ \<Rightarrow> Err EE_Checkpoint)"

definition import_binding_entries :: "UploadPlan \<Rightarrow> string \<Rightarrow> (string \<times> string) list" where
  "import_binding_entries plan digest =
     [(''schema'', ''checkpoint-v2''), (''upload_plan_sha256'', digest),
      (''normalized_plan_sha256'', up_normalized_plan_sha256 plan),
      (''source_sha256'', sd_fingerprint_sha256 (up_source plan)),
      (''configuration_sha256'', up_configuration_sha256 plan),
      (''server_identity_sha256'', sc_identity_sha256 (up_server plan))]"

definition import_expected_binding ::
  "(UploadPlan \<Rightarrow> string option) \<Rightarrow> UploadPlan \<Rightarrow> string option
     \<Rightarrow> ((string, string) btree_map, ExecutorErrorClass) result" where
  "import_expected_binding plan_sha256 plan backup =
     and_then (ok_or (plan_sha256 plan) EE_Invariant) (\<lambda>digest.
       let binding = btm_extend (import_binding_entries plan digest) []
       in Ok (case backup of None \<Rightarrow> binding
              | Some d \<Rightarrow> btm_insert ''backup_reference_sha256'' d (btm_insert ''execution_scope'' ''production'' binding)))"

definition import_validate_application :: "import_db \<Rightarrow> (unit, ExecutorErrorClass) result" where
  "import_validate_application db =
     ensure (id_application_id db = 0x49525332 \<and> id_user_version db = 2) EE_Checkpoint"

definition import_read_binding :: "import_db \<Rightarrow> ((string, string) btree_map, ExecutorErrorClass) result" where
  "import_read_binding db = and_then (import_validate_application db) (\<lambda>_. Ok (id_metadata db))"

definition import_validate_plan :: "rfc3339 \<Rightarrow> UploadPlan \<Rightarrow> (unit, ExecutorErrorClass) result" where
  "import_validate_plan rfc plan =
     and_then (map_err (\<lambda>_. EE_InvalidPlan) (UploadPlan_validate rfc plan)) (\<lambda>_.
       ensure (up_schema_version plan = UPLOAD_PLAN_SCHEMA_VERSION_V2) EE_InvalidPlan)"

definition import_bind_or_validate ::
  "(UploadPlan \<Rightarrow> string option) \<Rightarrow> import_db \<Rightarrow> UploadPlan \<Rightarrow> string option \<Rightarrow> (import_db, ExecutorErrorClass) result" where
  "import_bind_or_validate plan_sha256 db plan backup =
     and_then (import_expected_binding plan_sha256 plan backup) (\<lambda>expected.
       if id_metadata db = [] then Ok (db \<lparr>id_metadata := btm_extend expected []\<rparr>)
       else and_then (import_read_binding db) (\<lambda>actual. if actual = expected then Ok db else Err EE_Checkpoint))"

definition import_open_with_scope ::
  "rfc3339 \<Rightarrow> (UploadPlan \<Rightarrow> string option) \<Rightarrow> bool \<Rightarrow> import_file \<Rightarrow> UploadPlan \<Rightarrow> string option
     \<Rightarrow> (import_db, ExecutorErrorClass) result" where
  "import_open_with_scope rfc plan_sha256 io_ok f plan backup =
     and_then (import_validate_plan rfc plan) (\<lambda>_.
     and_then (open_connection io_ok f) (\<lambda>db. import_bind_or_validate plan_sha256 db plan backup))"

definition ImportJournal_open ::
  "rfc3339 \<Rightarrow> (UploadPlan \<Rightarrow> string option) \<Rightarrow> bool \<Rightarrow> import_file \<Rightarrow> UploadPlan \<Rightarrow> (import_db, ExecutorErrorClass) result" where
  "ImportJournal_open rfc plan_sha256 io_ok f plan = import_open_with_scope rfc plan_sha256 io_ok f plan None"

definition ImportJournal_open_production ::
  "rfc3339 \<Rightarrow> (UploadPlan \<Rightarrow> string option) \<Rightarrow> bool \<Rightarrow> import_file \<Rightarrow> UploadPlan \<Rightarrow> string
     \<Rightarrow> (import_db, ExecutorErrorClass) result" where
  "ImportJournal_open_production rfc plan_sha256 io_ok f plan digest =
     (if \<not> is_lower_sha256 digest then Err EE_Checkpoint
      else import_open_with_scope rfc plan_sha256 io_ok f plan (Some digest))"

section \<open>Effects\<close>

definition validate_effect :: "string \<Rightarrow> ImportOutcome \<Rightarrow> string option \<Rightarrow> (unit, ExecutorErrorClass) result" where
  "validate_effect key outcome remote_id =
     (let known_prefix = list_ex (\<lambda>prefix. is_some_and (strip_prefix prefix key) is_lower_sha256)
            [''asset:'', ''metadata:'', ''album:'', ''membership:''];
          expects_id = (outcome \<in> {ImpCreated, ImpDuplicate, ImpReused});
          id_valid = is_some_and remote_id (\<lambda>i. i \<noteq> [] \<and> length i \<le> 4096)
      in if known_prefix \<and> expects_id = id_valid then Ok () else Err EE_Checkpoint)"

definition insert_effect :: "int \<Rightarrow> ImportEvent \<Rightarrow> import_db \<Rightarrow> import_db" where
  "insert_effect now e db =
     db \<lparr>id_effects := id_effects db @
        [\<lparr>er_effect_key = ie_effect_key e, er_outcome = ImportOutcome_as_str (ie_outcome e),
          er_remote_id = ie_remote_id e, er_retry_count = ie_retries e, er_recorded_unix_ms = now\<rparr>]\<rparr>"

definition ImportJournal_append ::
  "bool \<Rightarrow> int option \<Rightarrow> ImportEvent \<Rightarrow> import_db \<Rightarrow> (import_db, ExecutorErrorClass) result" where
  "ImportJournal_append io_ok now e db =
     and_then (validate_effect (ie_effect_key e) (ie_outcome e) (ie_remote_id e)) (\<lambda>_.
       case now of
         None \<Rightarrow> Err EE_Checkpoint
       | Some t \<Rightarrow> if io_ok then Ok (insert_effect t e db) else Err EE_Checkpoint)"

text \<open>The query of \<open>state\<close>: the latest row of every key, in key order, each checked and inserted.\<close>

definition latest_effects :: "effect_row list \<Rightarrow> (string, effect_row) btree_map" where
  "latest_effects rows = fold (\<lambda>r. btm_insert (er_effect_key r) r) rows []"

definition state_row :: "effect_row \<Rightarrow> ImportState \<Rightarrow> (ImportState, ExecutorErrorClass) result" where
  "state_row r latest =
     and_then (ok_or (ImportOutcome_parse (er_outcome r)) EE_Checkpoint) (\<lambda>outcome.
     and_then (validate_effect (er_effect_key r) outcome (er_remote_id r)) (\<lambda>_.
       if btm_get latest (er_effect_key r) \<noteq> None then Err EE_Checkpoint
       else Ok (btm_insert (er_effect_key r) \<lparr>se_outcome = outcome, se_remote_id = er_remote_id r\<rparr> latest)))"

definition ImportJournal_state :: "import_db \<Rightarrow> (ImportState, ExecutorErrorClass) result" where
  "ImportJournal_state db = fold_result state_row (map snd (latest_effects (id_effects db))) []"

section \<open>The state of a run\<close>

definition allowed_step :: "(string \<Rightarrow> string) \<Rightarrow> UploadOperation \<Rightarrow> string btree_set \<Rightarrow> string btree_set" where
  "allowed_step hex oper allowed =
     (let a1 = bts_insert (asset_key (op_operation_id oper)) allowed;
          a2 = (if is_some_and (op_normalized_metadata oper) has_metadata_assignment
                then bts_insert (metadata_key (op_operation_id oper)) a1 else a1) in
      case op_normalized_metadata oper of
        None \<Rightarrow> a2
      | Some m \<Rightarrow> fold (\<lambda>album a. bts_insert (membership_key (album_identity hex album))
                                   (bts_insert (album_key (album_identity hex album)) a)) (nm_albums m) a2)"

definition validate_for_plan :: "(string \<Rightarrow> string) \<Rightarrow> ImportState \<Rightarrow> UploadPlan \<Rightarrow> (unit, ExecutorErrorClass) result" where
  "validate_for_plan hex state plan =
     ensure (list_all (bts_contains (fold (allowed_step hex) (up_operations plan) [])) (map fst state)) EE_Checkpoint"

definition state_remote_id :: "ImportState \<Rightarrow> string \<Rightarrow> ImportOutcome list \<Rightarrow> string option" where
  "state_remote_id state key outcomes =
     (case btm_get state key of
        None \<Rightarrow> None
      | Some effect \<Rightarrow> if se_outcome effect \<in> set outcomes then se_remote_id effect else None)"

definition state_completed :: "ImportState \<Rightarrow> string \<Rightarrow> bool" where
  "state_completed state key = is_some_and (btm_get state key) (\<lambda>effect. se_outcome effect = ImpCompleted)"

definition state_asset_id :: "ImportState \<Rightarrow> string \<Rightarrow> string option" where
  "state_asset_id state operation_id = state_remote_id state (asset_key operation_id) [ImpCreated, ImpDuplicate]"

definition metadata_done :: "ImportState \<Rightarrow> string \<Rightarrow> bool" where
  "metadata_done state operation_id = state_completed state (metadata_key operation_id)"

definition state_album :: "ImportState \<Rightarrow> string \<Rightarrow> (ImportOutcome \<times> string) option" where
  "state_album state identity =
     (case btm_get state (album_key identity) of
        None \<Rightarrow> None
      | Some effect \<Rightarrow>
          if se_outcome effect \<in> {ImpCreated, ImpReused}
          then map_option (\<lambda>i. (se_outcome effect, i)) (se_remote_id effect) else None)"

definition membership_done :: "ImportState \<Rightarrow> string \<Rightarrow> bool" where
  "membership_done state identity = state_completed state (membership_key identity)"

section \<open>The journal as an effect log\<close>

text \<open>An effect is done when its latest outcome is a success; failed and indeterminate effects are
  open again.\<close>

definition success :: "ImportOutcome \<Rightarrow> bool" where
  "success k \<longleftrightarrow> k \<in> {ImpCreated, ImpDuplicate, ImpCompleted, ImpReused}"

definition event_result :: "ImportEvent \<Rightarrow> StoredEffect option" where
  "event_result e = (if success (ie_outcome e) then Some \<lparr>se_outcome = ie_outcome e, se_remote_id = ie_remote_id e\<rparr> else None)"

definition row_effect :: "effect_row \<Rightarrow> StoredEffect option" where
  "row_effect r = map_option (\<lambda>k. \<lparr>se_outcome = k, se_remote_id = er_remote_id r\<rparr>) (ImportOutcome_parse (er_outcome r))"

definition effect_view :: "import_db \<Rightarrow> string \<Rightarrow> StoredEffect option" where
  "effect_view db key =
     Option.bind (Option.bind (map_of (map (\<lambda>r. (er_effect_key r, r)) (rev (id_effects db))) key) row_effect)
       (\<lambda>e. if success (se_outcome e) then Some e else None)"

definition effect_ok :: "ImportEvent \<Rightarrow> bool" where
  "effect_ok e \<longleftrightarrow> is_ok (validate_effect (ie_effect_key e) (ie_outcome e) (ie_remote_id e))"

definition effect_row_ok :: "effect_row \<Rightarrow> bool" where
  "effect_row_ok r \<longleftrightarrow> is_some_and (ImportOutcome_parse (er_outcome r)) (\<lambda>k. is_ok (validate_effect (er_effect_key r) k (er_remote_id r)))"

definition import_ok :: "import_db \<Rightarrow> bool" where
  "import_ok db \<longleftrightarrow> (\<forall>r \<in> set (id_effects db). effect_row_ok r)"

abbreviation record_effect :: "int \<times> ImportEvent \<Rightarrow> import_db \<Rightarrow> import_db" where
  "record_effect te \<equiv> insert_effect (fst te) (snd te)"

interpretation import_log: effect_log effect_view record_effect "ie_effect_key \<circ> snd" "event_result \<circ> snd"
    import_ok "effect_ok \<circ> snd"
proof unfold_locales
  fix db and te :: "int \<times> ImportEvent"
  assume ok: "import_ok db" "(effect_ok \<circ> snd) te"
  show "effect_view (record_effect te db) = (effect_view db)((ie_effect_key \<circ> snd) te := (event_result \<circ> snd) te)"
    by (auto simp: effect_view_def insert_effect_def row_effect_def event_result_def fun_eq_iff)
  show "import_ok (record_effect te db)"
    using ok by (auto simp: import_ok_def insert_effect_def effect_row_ok_def effect_ok_def)
qed

lemma latest_effects_eq: "latest_effects rows = btm.insert_all (map (\<lambda>r. (er_effect_key r, r)) rows) []"
  by (simp add: latest_effects_def btm.insert_all_def fold_map comp_def)

lemma latest_effects_get: "btm_get (latest_effects rows) = map_of (map (\<lambda>r. (er_effect_key r, r)) (rev rows))"
  by (simp add: latest_effects_eq btm.get_insert_all rev_map)

lemma latest_effects_wf: "btm_wf (latest_effects rows)"
  by (simp add: latest_effects_eq btm.insert_all_wf)

lemma latest_effects_entry: "e \<in> set (latest_effects rows) \<Longrightarrow> er_effect_key (snd e) = fst e \<and> snd e \<in> set rows"
proof -
  assume "e \<in> set (latest_effects rows)"
  then have "btm_get (latest_effects rows) (fst e) = Some (snd e)" by (simp add: latest_effects_wf btm_wf_distinct)
  then show ?thesis unfolding latest_effects_get by (auto dest!: map_of_SomeD)
qed

lemma map_of_values: "map_of (map (\<lambda>e. (fst e, f (snd e))) es) k = map_option f (map_of es k)"
  by (induction es) auto

lemma fold_state_row:
  assumes "\<forall>e \<in> set es. er_effect_key (snd e) = fst e \<and> effect_row_ok (snd e)" "btm_wf (m @ es')"
    "es' = map (\<lambda>e. (fst e, the (row_effect (snd e)))) es"
  shows "fold_result state_row (map snd es) m = Ok (m @ es')"
  using assms
proof (induction es arbitrary: m es')
  case (Cons e es)
  obtain k where k: "ImportOutcome_parse (er_outcome (snd e)) = Some k" "validate_effect (er_effect_key (snd e)) k (er_remote_id (snd e)) = Ok ()"
    using Cons.prems(1) by (auto simp: effect_row_ok_def is_some_and_iff is_ok_iff)
  let ?x = "(fst e, the (row_effect (snd e)))" and ?es = "map (\<lambda>e. (fst e, the (row_effect (snd e)))) es"
  have "\<forall>x \<in> set m. fst x < fst e" using Cons.prems(2,3) by (auto simp: btm_wf_def sorted_wrt_append)
  then have "btm_get m (fst e) = None" "btm_insert (fst e) (the (row_effect (snd e))) m = m @ [?x]"
    using btm_get_filter_None [of m "fst e"] btm_insert_last [of m "fst e"] by (fastforce, simp)
  then have "state_row (snd e) m = Ok (m @ [?x])"
    using k Cons.prems(1) by (simp add: state_row_def row_effect_def)
  then show ?case
    using Cons.IH [of "m @ [?x]" ?es] Cons.prems by simp
qed simp

text \<open>On a well-formed journal the query succeeds and gives the latest outcome of every key.\<close>

lemma import_state_ok:
  assumes "import_ok db"
  obtains state where "ImportJournal_state db = Ok state" "btm_wf state"
    "\<And>key. btm_get state key = Option.bind (map_of (map (\<lambda>r. (er_effect_key r, r)) (rev (id_effects db))) key) row_effect"
proof -
  let ?L = "latest_effects (id_effects db)"
  define state where "state = map (\<lambda>e. (fst e, the (row_effect (snd e)))) ?L"
  have entry: "\<forall>e \<in> set ?L. er_effect_key (snd e) = fst e \<and> effect_row_ok (snd e)"
    using latest_effects_entry assms by (fastforce simp: import_ok_def)
  have wf: "btm_wf state" using latest_effects_wf [of "id_effects db"] by (simp add: state_def btm_wf_def comp_def)
  then have "ImportJournal_state db = Ok state"
    using fold_state_row [OF entry, of "[]"] by (simp add: ImportJournal_state_def state_def)
  moreover have "btm_get state key = Option.bind (btm_get ?L key) row_effect" for key
  proof -
    have get: "btm_get state key = map_option (\<lambda>r. the (row_effect r)) (btm_get ?L key)"
      unfolding state_def by (rule map_of_values)
    show ?thesis
    proof (cases "btm_get ?L key")
      case (Some r)
      then have "effect_row_ok r" using entry map_of_SomeD [OF Some] by fastforce
      then have "row_effect r \<noteq> None" by (auto simp: effect_row_ok_def is_some_and_iff row_effect_def)
      then show ?thesis using Some get by auto
    qed (simp add: get)
  qed
  ultimately show ?thesis using that [of state] wf by (simp add: latest_effects_get)
qed

lemma state_view:
  assumes "import_ok db" "ImportJournal_state db = Ok state"
  shows "effect_view db key = (case btm_get state key of Some e \<Rightarrow> if success (se_outcome e) then Some e else None | None \<Rightarrow> None)"
proof -
  obtain state' where "ImportJournal_state db = Ok state'"
    "\<And>key. btm_get state' key = Option.bind (map_of (map (\<lambda>r. (er_effect_key r, r)) (rev (id_effects db))) key) row_effect"
    using import_state_ok [OF assms(1)] by metis
  with assms(2) have "effect_view db key = Option.bind (btm_get state key) (\<lambda>e. if success (se_outcome e) then Some e else None)"
    by (simp add: effect_view_def)
  then show ?thesis by (simp split: option.split)
qed

end

