(* ===== verification/Exec_Import_Effects.thy ===== *)
theory Exec_Import_Effects
  imports Exec_Import_Journal
begin

text \<open>
  \<open>immich-executor/src/import_effects.rs\<close> with \<open>import_effect_support.rs\<close>: the effects of an import
  after an asset is stored. A run carries the outside world with the retry budget, the
  journal and the report; an append that fails ends the run with an error and leaves the
  journal as it was. The loops over attempts end because a retry needs \<open>retries + 1\<close>
  below the attempt limit.
\<close>

record 'w import_run =
  run_exec :: "'w exec"
  run_db :: import_db
  run_report :: ImportApplyReport

text \<open>What the effects are given: the digests, the transport, the upload configuration, and how
  SQLite and the clock behave for the append that follows a given number of rows.\<close>

record 'w effect_env =
  ev_sha256 :: "string \<Rightarrow> string"
  ev_hex_sha256 :: "string \<Rightarrow> string"
  ev_transport :: "'w exec transport"
  ev_config :: UploadExecutionConfig
  ev_append :: append_env

section \<open>Support\<close>

definition album_members :: "UploadPlan \<Rightarrow> (string, string) btree_map \<Rightarrow> (string, string btree_set) btree_map" where
  "album_members plan asset_ids =
     fold (\<lambda>oper albums.
        case btm_get asset_ids (op_operation_id oper) of
          None \<Rightarrow> albums
        | Some asset_id \<Rightarrow>
            (case op_normalized_metadata oper of
               None \<Rightarrow> albums
             | Some m \<Rightarrow>
                 fold (\<lambda>album a. btm_insert album
                         (bts_insert asset_id (case btm_get a album of None \<Rightarrow> [] | Some ids \<Rightarrow> ids)) a) (nm_albums m) albums))
       (up_operations plan) []"

definition has_assignment :: "NormalizedMetadata \<Rightarrow> bool" where
  "has_assignment m \<longleftrightarrow> nm_description m \<noteq> None \<or> nm_taken_at_utc m \<noteq> None \<or> nm_location m \<noteq> None"

definition effect_retry_allowed ::
  "'w effect_env \<Rightarrow> ClientError \<Rightarrow> nat \<Rightarrow> 'w exec \<Rightarrow> bool \<times> 'w exec" where
  "effect_retry_allowed ev e retries st =
     (if is_retryable e \<and> retries + 1 < ec_max_attempts_per_operation (ev_config ev)
      then let (granted, b) = RetryBudget_claim (ex_budget st) in (granted, st \<lparr>ex_budget := b\<rparr>)
      else (False, st))"

definition wait_retry :: "'w effect_env \<Rightarrow> string \<Rightarrow> nat \<Rightarrow> ClientError \<Rightarrow> 'w exec \<Rightarrow> bool \<times> 'w exec" where
  "wait_retry ev key retries e st = tr_wait (ev_transport ev) (delay (ev_sha256 ev) key (retries + 1) e (ev_config ev)) st"

definition effect_uncertain :: "ClientError \<Rightarrow> bool" where
  "effect_uncertain e \<longleftrightarrow> ce_class e \<in> {Disconnect, Timeout}"

lemma effect_retry_bound: "effect_retry_allowed ev e n st = (True, st') \<Longrightarrow> n + 1 < ec_max_attempts_per_operation (ev_config ev)"
  by (auto simp: effect_retry_allowed_def split: if_splits prod.splits)

section \<open>Recording\<close>

definition append_effect ::
  "'w effect_env \<Rightarrow> string \<Rightarrow> ImportOutcome \<Rightarrow> string option \<Rightarrow> nat \<Rightarrow> 'w import_run
     \<Rightarrow> (unit, ExecutorErrorClass) result \<times> 'w import_run" where
  "append_effect ev key outcome remote_id retries run =
     (let n = length (id_effects (run_db run)) in
      case ImportJournal_append (fst (ev_append ev n)) (snd (ev_append ev n))
             \<lparr>ie_effect_key = key, ie_outcome = outcome, ie_remote_id = remote_id, ie_retries = retries\<rparr> (run_db run) of
        Err e \<Rightarrow> (Err e, run)
      | Ok db \<Rightarrow> (Ok (), run \<lparr>run_db := db\<rparr>))"

definition count_retried :: "nat \<Rightarrow> ImportApplyReport \<Rightarrow> ImportApplyReport" where
  "count_retried retries r = r \<lparr>ir_retried := saturating_add (ir_retried r) (of_nat retries)\<rparr>"

definition count_failure :: "bool \<Rightarrow> ImportApplyReport \<Rightarrow> ImportApplyReport" where
  "count_failure indet r =
     (if indet then r \<lparr>ir_indeterminate := saturating_add (ir_indeterminate r) 1\<rparr>
      else r \<lparr>ir_failed := saturating_add (ir_failed r) 1\<rparr>)"

definition count_resumed :: "'w import_run \<Rightarrow> 'w import_run" where
  "count_resumed run = run \<lparr>run_report := (run_report run)
     \<lparr>ir_resumed_effects := saturating_add (ir_resumed_effects (run_report run)) 1\<rparr>\<rparr>"

definition record_effect_failure ::
  "'w effect_env \<Rightarrow> string \<Rightarrow> bool \<Rightarrow> nat \<Rightarrow> 'w import_run \<Rightarrow> (unit, ExecutorErrorClass) result \<times> 'w import_run" where
  "record_effect_failure ev key indet retries run =
     (case append_effect ev key (if indet then ImpIndeterminate else ImpFailed) None retries run of
        (Err e, r1) \<Rightarrow> (Err e, r1)
      | (Ok _, r1) \<Rightarrow> (Ok (), r1 \<lparr>run_report := count_retried retries (count_failure indet (run_report r1))\<rparr>))"

section \<open>Attempts\<close>

text \<open>The loop that \<open>apply_metadata\<close> and \<open>apply_membership\<close> share: how the effect ended, whether
  cancellation ended it, and the retries.\<close>

record effect_end =
  ee_outcome :: ImportOutcome
  ee_cancelled :: bool
  ee_retries :: nat

definition effect_attempt ::
  "'w effect_env \<Rightarrow> string \<Rightarrow> ('w exec \<Rightarrow> (unit, ClientError) result \<times> 'w exec) \<Rightarrow> nat \<Rightarrow> 'w exec
     \<Rightarrow> effect_end option \<times> 'w exec" where
  "effect_attempt ev key call retries st =
     (case call st of
        (Ok _, s1) \<Rightarrow> (Some \<lparr>ee_outcome = ImpCompleted, ee_cancelled = False, ee_retries = retries\<rparr>, s1)
      | (Err e, s1) \<Rightarrow>
          if ce_class e = Cancelled
          then (Some \<lparr>ee_outcome = ImpIndeterminate, ee_cancelled = True, ee_retries = retries\<rparr>, s1)
          else (case effect_retry_allowed ev e retries s1 of
             (True, s2) \<Rightarrow>
               (case wait_retry ev key retries e s2 of
                  (False, s3) \<Rightarrow> (Some \<lparr>ee_outcome = ImpIndeterminate, ee_cancelled = True, ee_retries = retries\<rparr>, s3)
                | (True, s3) \<Rightarrow> (None, s3))
           | (False, s2) \<Rightarrow>
               (Some \<lparr>ee_outcome = (if effect_uncertain e then ImpIndeterminate else ImpFailed),
                      ee_cancelled = False, ee_retries = retries\<rparr>, s2)))"

lemma effect_attempt_retry:
  "effect_attempt ev key call n st = (None, st') \<Longrightarrow> n + 1 < ec_max_attempts_per_operation (ev_config ev)"
  by (auto simp: effect_attempt_def dest: effect_retry_bound split: prod.splits result.splits bool.splits if_splits)

function effect_loop ::
  "'w effect_env \<Rightarrow> string \<Rightarrow> ('w exec \<Rightarrow> (unit, ClientError) result \<times> 'w exec) \<Rightarrow> nat \<Rightarrow> 'w exec
     \<Rightarrow> effect_end \<times> 'w exec" where
  "effect_loop ev key call retries st =
     (case effect_attempt ev key call retries st of
        (Some r, s1) \<Rightarrow> (r, s1)
      | (None, s1) \<Rightarrow> effect_loop ev key call (retries + 1) s1)"
  by pat_completeness auto
termination
  by (relation "measure (\<lambda>(ev, key, call, retries, st). ec_max_attempts_per_operation (ev_config ev) - retries)")
    (auto dest: effect_attempt_retry [OF sym])

declare effect_loop.simps [simp del]

definition apply_metadata ::
  "'w effect_env \<Rightarrow> UploadOperation \<Rightarrow> string \<Rightarrow> ImportState \<Rightarrow> 'w import_run
     \<Rightarrow> (bool, ExecutorErrorClass) result \<times> 'w import_run" where
  "apply_metadata ev oper asset_id state run =
     (case op_normalized_metadata oper of
        None \<Rightarrow> (Ok True, run)
      | Some m \<Rightarrow>
          if \<not> has_assignment m then (Ok True, run)
          else if metadata_done state (op_operation_id oper)
          then (Ok True, count_resumed run)
          else
            let key = metadata_key (op_operation_id oper);
                (r, st) = effect_loop ev key (update_asset_metadata (ev_transport ev) asset_id m) 0 (run_exec run) in
            (case append_effect ev key (ee_outcome r) None (ee_retries r) (run \<lparr>run_exec := st\<rparr>) of
               (Err e, r1) \<Rightarrow> (Err e, r1)
             | (Ok _, r1) \<Rightarrow>
                 (let rep = (if ee_outcome r = ImpCompleted
                             then (run_report r1) \<lparr>ir_metadata_updated := saturating_add (ir_metadata_updated (run_report r1)) 1\<rparr>
                             else count_failure (ee_outcome r = ImpIndeterminate) (run_report r1));
                      rep' = count_retried (ee_retries r) rep in
                  (Ok (\<not> ee_cancelled r),
                   r1 \<lparr>run_report := (if ee_cancelled r then rep' \<lparr>ir_cancelled := True\<rparr> else rep')\<rparr>))))"

definition apply_membership ::
  "'w effect_env \<Rightarrow> string \<Rightarrow> string \<Rightarrow> string list \<Rightarrow> 'w import_run
     \<Rightarrow> (bool, ExecutorErrorClass) result \<times> 'w import_run" where
  "apply_membership ev identity album_id members run =
     (let key = membership_key identity;
          (r, st) = effect_loop ev key (add_album_assets (ev_transport ev) album_id members) 0 (run_exec run);
          run1 = run \<lparr>run_exec := st\<rparr> in
      if ee_outcome r = ImpCompleted
      then (case append_effect ev key ImpCompleted None (ee_retries r) run1 of
              (Err e, r1) \<Rightarrow> (Err e, r1)
            | (Ok _, r1) \<Rightarrow>
                (Ok True, r1 \<lparr>run_report := count_retried (ee_retries r) ((run_report r1)
                   \<lparr>ir_album_memberships_updated := saturating_add (ir_album_memberships_updated (run_report r1)) 1\<rparr>)\<rparr>))
      else (case record_effect_failure ev key (ee_outcome r = ImpIndeterminate) (ee_retries r) run1 of
              (Err e, r1) \<Rightarrow> (Err e, r1)
            | (Ok _, r1) \<Rightarrow>
                (Ok (\<not> ee_cancelled r),
                 if ee_cancelled r then r1 \<lparr>run_report := (run_report r1) \<lparr>ir_cancelled := True\<rparr>\<rparr> else r1)))"

section \<open>Albums\<close>

datatype effect_result =
    EffDone string ImportOutcome nat
  | EffFailed bool nat
  | EffCancelled bool nat

text \<open>One pass of the loop of \<open>lookup_albums\<close>: \<open>None\<close> when it goes on with one more retry.\<close>

definition lookup_attempt ::
  "'w effect_env \<Rightarrow> string \<Rightarrow> nat \<Rightarrow> 'w exec \<Rightarrow> (RemoteAlbum list, effect_result) result option \<times> 'w exec" where
  "lookup_attempt ev name retries st =
     (case find_owned_albums (ev_transport ev) name st of
        (Ok albums, s1) \<Rightarrow> (Some (Ok albums), s1)
      | (Err e, s1) \<Rightarrow>
          if ce_class e = Cancelled then (Some (Err (EffCancelled False retries)), s1)
          else (case effect_retry_allowed ev e retries s1 of
             (True, s2) \<Rightarrow>
               (case wait_retry ev name retries e s2 of
                  (False, s3) \<Rightarrow> (Some (Err (EffCancelled False retries)), s3)
                | (True, s3) \<Rightarrow> (None, s3))
           | (False, s2) \<Rightarrow> (Some (Err (EffFailed False retries)), s2)))"

lemma lookup_attempt_retry:
  "lookup_attempt ev name n st = (None, st') \<Longrightarrow> n + 1 < ec_max_attempts_per_operation (ev_config ev)"
  by (auto simp: lookup_attempt_def dest: effect_retry_bound split: prod.splits result.splits bool.splits if_splits)

function lookup_albums ::
  "'w effect_env \<Rightarrow> string \<Rightarrow> nat \<Rightarrow> 'w exec \<Rightarrow> (RemoteAlbum list, effect_result) result \<times> nat \<times> 'w exec" where
  "lookup_albums ev name retries st =
     (case lookup_attempt ev name retries st of
        (Some r, s1) \<Rightarrow> (r, retries, s1)
      | (None, s1) \<Rightarrow> lookup_albums ev name (retries + 1) s1)"
  by pat_completeness auto
termination
  by (relation "measure (\<lambda>(ev, name, retries, st). ec_max_attempts_per_operation (ev_config ev) - retries)")
    (auto dest: lookup_attempt_retry [OF sym])

declare lookup_albums.simps [simp del]

lemma lookup_albums_retries: "lookup_albums ev name n st = (r, m, st') \<Longrightarrow> n \<le> m"
proof (induction ev name n st rule: lookup_albums.induct)
  case (1 ev name n st)
  then show ?case
    by (cases "lookup_attempt ev name n st") (force simp: lookup_albums.simps [of ev name n st] split: option.splits)
qed

text \<open>One pass of the loop that creates an album; the value is the retries to go on with.\<close>

definition create_attempt ::
  "'w effect_env \<Rightarrow> string \<Rightarrow> nat \<Rightarrow> 'w exec \<Rightarrow> effect_result option \<times> nat \<times> 'w exec" where
  "create_attempt ev name retries st =
     (case create_album (ev_transport ev) name st of
        (Ok album, s1) \<Rightarrow> (Some (EffDone (ra_id album) ImpCreated retries), retries, s1)
      | (Err e, s1) \<Rightarrow>
          if ce_class e = Cancelled then (Some (EffCancelled True retries), retries, s1)
          else if is_retryable e then
            (case lookup_albums ev name retries s1 of
               (Ok [album], n, s2) \<Rightarrow> (Some (EffDone (ra_id album) ImpCreated n), n, s2)
             | (Ok [], n, s2) \<Rightarrow>
                 (case effect_retry_allowed ev e n s2 of
                    (True, s3) \<Rightarrow>
                      (case wait_retry ev name n e s3 of
                         (True, s4) \<Rightarrow> (None, n + 1, s4)
                       | (False, s4) \<Rightarrow>
                           (let (c, s5) = tr_cancelled (ev_transport ev) s4 in
                            (Some (if c then EffCancelled True n else EffFailed (effect_uncertain e) n), n, s5)))
                  | (False, s3) \<Rightarrow>
                      (let (c, s4) = tr_cancelled (ev_transport ev) s3 in
                       (Some (if c then EffCancelled True n else EffFailed (effect_uncertain e) n), n, s4)))
             | (Ok _, n, s2) \<Rightarrow> (Some (EffFailed True n), n, s2)
             | (Err (EffCancelled _ counted), n, s2) \<Rightarrow> (Some (EffCancelled True counted), n, s2)
             | (Err (EffFailed _ counted), n, s2) \<Rightarrow> (Some (EffFailed True counted), n, s2)
             | (Err (EffDone _ _ _), n, s2) \<Rightarrow> (Some (EffFailed True n), n, s2))
          else (Some (EffFailed False retries), retries, s1))"

lemma create_attempt_retry:
  "create_attempt ev name n st = (None, m, st') \<Longrightarrow> n < m \<and> m < ec_max_attempts_per_operation (ev_config ev)"
  by (auto simp: create_attempt_def Let_def dest!: effect_retry_bound lookup_albums_retries
      split: prod.splits result.splits bool.splits if_splits list.splits effect_result.splits)

function create_loop :: "'w effect_env \<Rightarrow> string \<Rightarrow> nat \<Rightarrow> 'w exec \<Rightarrow> effect_result \<times> 'w exec" where
  "create_loop ev name retries st =
     (case create_attempt ev name retries st of
        (Some r, _, s1) \<Rightarrow> (r, s1)
      | (None, n, s1) \<Rightarrow> create_loop ev name n s1)"
  by pat_completeness auto
termination
  by (relation "measure (\<lambda>(ev, name, retries, st). ec_max_attempts_per_operation (ev_config ev) - retries)")
    (auto dest: create_attempt_retry [OF sym])

declare create_loop.simps [simp del]

definition converge_album :: "'w effect_env \<Rightarrow> string \<Rightarrow> 'w exec \<Rightarrow> effect_result \<times> 'w exec" where
  "converge_album ev name st =
     (case lookup_albums ev name 0 st of
        (Err r, _, s1) \<Rightarrow> (r, s1)
      | (Ok [album], n, s1) \<Rightarrow> (EffDone (ra_id album) ImpReused n, s1)
      | (Ok [], n, s1) \<Rightarrow> create_loop ev name n s1
      | (Ok _, n, s1) \<Rightarrow> (EffFailed False n, s1))"

definition record_album ::
  "'w effect_env \<Rightarrow> string \<Rightarrow> effect_result \<Rightarrow> 'w import_run
     \<Rightarrow> (string option, ExecutorErrorClass) result \<times> 'w import_run" where
  "record_album ev identity effect run =
     (let key = album_key identity in
      case effect of
        EffDone album outcome retries \<Rightarrow>
          (case append_effect ev key outcome (Some album) retries run of
             (Err e, r1) \<Rightarrow> (Err e, r1)
           | (Ok _, r1) \<Rightarrow>
               (let rep = run_report r1;
                    rep1 = (if outcome = ImpCreated then rep \<lparr>ir_albums_created := saturating_add (ir_albums_created rep) 1\<rparr>
                            else if outcome = ImpReused then rep \<lparr>ir_albums_reused := saturating_add (ir_albums_reused rep) 1\<rparr>
                            else rep) in
                (Ok (Some album), r1 \<lparr>run_report := count_retried retries rep1\<rparr>)))
      | EffFailed indet retries \<Rightarrow>
          (case record_effect_failure ev key indet retries run of
             (Err e, r1) \<Rightarrow> (Err e, r1)
           | (Ok _, r1) \<Rightarrow> (Ok None, r1))
      | EffCancelled indet retries \<Rightarrow>
          (case record_effect_failure ev key indet retries run of
             (Err e, r1) \<Rightarrow> (Err e, r1)
           | (Ok _, r1) \<Rightarrow> (Ok None, r1 \<lparr>run_report := (run_report r1) \<lparr>ir_cancelled := True\<rparr>\<rparr>)))"

text \<open>The membership part of one album: whether the loop over the albums goes on.\<close>

definition album_membership ::
  "'w effect_env \<Rightarrow> ImportState \<Rightarrow> string \<Rightarrow> string \<Rightarrow> string list \<Rightarrow> 'w import_run
     \<Rightarrow> (bool, ExecutorErrorClass) result \<times> 'w import_run" where
  "album_membership ev state identity album_id members run =
     (if membership_done state identity then (Ok True, count_resumed run)
      else apply_membership ev identity album_id members run)"

fun apply_albums_loop ::
  "'w effect_env \<Rightarrow> ImportState \<Rightarrow> (string \<times> string btree_set) list \<Rightarrow> 'w import_run
     \<Rightarrow> (unit, ExecutorErrorClass) result \<times> 'w import_run" where
  "apply_albums_loop ev state [] run = (Ok (), run)"
| "apply_albums_loop ev state ((name, members) # albums) run =
     (let (c, st) = tr_cancelled (ev_transport ev) (run_exec run); run0 = run \<lparr>run_exec := st\<rparr> in
      if c then (Ok (), run0 \<lparr>run_report := (run_report run0) \<lparr>ir_cancelled := True\<rparr>\<rparr>)
      else
        let identity = album_identity (ev_hex_sha256 ev) name;
            (album, run1) = (case state_album state identity of
                Some (_, album_id) \<Rightarrow> (Ok (Some album_id), count_resumed run0)
              | None \<Rightarrow> (let (effect, st') = converge_album ev name (run_exec run0) in
                         record_album ev identity effect (run0 \<lparr>run_exec := st'\<rparr>))) in
        (case album of
           Err e \<Rightarrow> (Err e, run1)
         | Ok None \<Rightarrow> if ir_cancelled (run_report run1) then (Ok (), run1) else apply_albums_loop ev state albums run1
         | Ok (Some album_id) \<Rightarrow>
             (case album_membership ev state identity album_id members run1 of
                (Err e, run2) \<Rightarrow> (Err e, run2)
              | (Ok go_on, run2) \<Rightarrow> if go_on then apply_albums_loop ev state albums run2 else (Ok (), run2))))"

definition apply_albums ::
  "'w effect_env \<Rightarrow> UploadPlan \<Rightarrow> (string, string) btree_map \<Rightarrow> ImportState \<Rightarrow> 'w import_run
     \<Rightarrow> (unit, ExecutorErrorClass) result \<times> 'w import_run" where
  "apply_albums ev plan asset_ids state run = apply_albums_loop ev state (album_members plan asset_ids) run"

end

