(* ===== verification/Source_Scan.thy ===== *)
theory Source_Scan
  imports Source_Config
begin

text \<open>
  \<open>immich-sources/src/lib.rs\<close>: what a scan discovers, the state it accumulates, the resolution of
  portable paths to native files, and the portable-path helpers of \<open>discovery.rs\<close> and
  \<open>reconcile.rs\<close>. Portable paths are UTF-8 byte strings whose components are separated by a slash.
  Native paths are opaque values of a type parameter; Unicode lower-casing is a parameter of the
  definitions that use it.
\<close>

section \<open>Discovered files\<close>

record TakeoutDocument =
  td_title :: string
  td_metadata :: NormalizedMetadata

datatype ParseError = ParseInvalid | ParseOversized | ParseSourceChanged

record 'p DiscoveredMedia =
  dm_native_path :: 'p
  dm_archive_index :: "nat option"
  dm_relative_path :: string
  dm_kind :: MediaKind
  dm_byte_len :: u64
  dm_content_sha256 :: string
  dm_content_sha1_base64 :: string
  dm_created_at_unix_ms :: "int option"
  dm_modified_at_unix_ms :: "int option"
  dm_metadata :: "MetadataCandidate list"
  dm_normalized_metadata :: "NormalizedMetadata option"
  dm_live_photo :: "LivePhotoMember option"
  dm_evidence :: "RuleEvidence list"

record 'p DiscoveredSidecar =
  dsc_native_path :: 'p
  dsc_archive_index :: "nat option"
  dsc_relative_path :: string
  dsc_kind :: MetadataKind
  dsc_byte_len :: u64
  dsc_content_sha256 :: string
  dsc_content_sha1_base64 :: string
  dsc_created_at_unix_ms :: "int option"
  dsc_modified_at_unix_ms :: "int option"
  dsc_takeout_document :: "TakeoutDocument option"
  dsc_takeout_parse_error :: "ParseError option"

record 'p ScanState =
  ss_media :: "'p DiscoveredMedia list"
  ss_sidecars :: "'p DiscoveredSidecar list"
  ss_warnings :: "PlanDiagnostic list"
  ss_errors :: "PlanDiagnostic list"
  ss_entries_seen :: nat
  ss_bytes_read :: u64
  ss_event_sequence :: u64

definition ScanState_new :: "'p ScanState" where
  "ScanState_new =
     \<lparr>ss_media = [], ss_sidecars = [], ss_warnings = [], ss_errors = [], ss_entries_seen = 0,
      ss_bytes_read = 0, ss_event_sequence = 0\<rparr>"

definition PROGRESS_EVENT_SCHEMA_VERSION :: u32 where
  "PROGRESS_EVENT_SCHEMA_VERSION = 1"

text \<open>\<open>progress\<close> bumps the sequence number; the event is the observer's argument.\<close>

definition ScanState_progress :: "ProgressStage \<Rightarrow> 'p ScanState \<Rightarrow> ProgressEvent \<times> 'p ScanState" where
  "ScanState_progress stage st =
     (let n = saturating_add (ss_event_sequence st) 1 in
      (\<lparr>pe_schema_version = PROGRESS_EVENT_SCHEMA_VERSION, pe_sequence = n, pe_stage = stage,
        pe_assets_observed = of_nat (length (ss_media st)), pe_bytes_read = ss_bytes_read st\<rparr>,
       st \<lparr>ss_event_sequence := n\<rparr>))"

section \<open>Resolution\<close>

record 'p ResolvedSourceFile =
  rf_native_path :: 'p
  rf_archive_index :: "nat option"
  rf_byte_len :: u64
  rf_content_sha256 :: string
  rf_content_sha1_base64 :: string
  rf_created_at_unix_ms :: "int option"
  rf_modified_at_unix_ms :: "int option"

record 'p ResolvedFolderPlan =
  rp_plan :: NormalizedPlan
  rp_files :: "(string, 'p ResolvedSourceFile) btree_map"

definition resolved_native_path :: "'p ResolvedFolderPlan \<Rightarrow> string \<Rightarrow> 'p option" where
  "resolved_native_path r path = map_option rf_native_path (btm_get (rp_files r) path)"

definition source_file :: "'p ResolvedFolderPlan \<Rightarrow> string \<Rightarrow> 'p ResolvedSourceFile option" where
  "source_file r path = btm_get (rp_files r) path"

definition media_file :: "'p DiscoveredMedia \<Rightarrow> 'p ResolvedSourceFile" where
  "media_file m =
     \<lparr>rf_native_path = dm_native_path m, rf_archive_index = dm_archive_index m, rf_byte_len = dm_byte_len m,
      rf_content_sha256 = dm_content_sha256 m, rf_content_sha1_base64 = dm_content_sha1_base64 m,
      rf_created_at_unix_ms = dm_created_at_unix_ms m, rf_modified_at_unix_ms = dm_modified_at_unix_ms m\<rparr>"

definition sidecar_file :: "'p DiscoveredSidecar \<Rightarrow> 'p ResolvedSourceFile" where
  "sidecar_file s =
     \<lparr>rf_native_path = dsc_native_path s, rf_archive_index = dsc_archive_index s, rf_byte_len = dsc_byte_len s,
      rf_content_sha256 = dsc_content_sha256 s, rf_content_sha1_base64 = dsc_content_sha1_base64 s,
      rf_created_at_unix_ms = dsc_created_at_unix_ms s, rf_modified_at_unix_ms = dsc_modified_at_unix_ms s\<rparr>"

definition resolved_files :: "'p ScanState \<Rightarrow> (string, 'p ResolvedSourceFile) btree_map" where
  "resolved_files st =
     fold (\<lambda>(path, file). btm_insert path file)
       (map (\<lambda>m. (dm_relative_path m, media_file m)) (ss_media st)
        @ map (\<lambda>s. (dsc_relative_path s, sidecar_file s)) (ss_sidecars st)) []"

definition finish_resolved ::
  "rfc3339 \<Rightarrow> NormalizedPlan \<Rightarrow> (string, 'p ResolvedSourceFile) btree_map \<Rightarrow> u64
     \<Rightarrow> (ProgressEvent \<times> 'p ResolvedFolderPlan, ScanError) result" where
  "finish_resolved rfc plan files complete_sequence =
     and_then (map_err ScanInvalidPlan (NormalizedPlan_validate rfc plan)) (\<lambda>_.
       Ok (\<lparr>pe_schema_version = PROGRESS_EVENT_SCHEMA_VERSION, pe_sequence = complete_sequence,
            pe_stage = Complete, pe_assets_observed = ps_assets (np_summary plan),
            pe_bytes_read = ps_bytes_read (np_summary plan)\<rparr>,
           \<lparr>rp_plan = plan, rp_files = files\<rparr>))"

section \<open>Portable paths\<close>

definition path_parent :: "string \<Rightarrow> string" where
  "path_parent path = (case rsplit_once (CHR ''/'') path of None \<Rightarrow> [] | Some (p, _) \<Rightarrow> p)"

definition path_filename :: "string \<Rightarrow> string" where
  "path_filename path = (case rsplit_once (CHR ''/'') path of None \<Rightarrow> path | Some (_, f) \<Rightarrow> f)"

definition path_stem :: "string \<Rightarrow> string" where
  "path_stem path =
     (let filename = path_filename path in
      case rsplit_once (CHR ''.'') filename of None \<Rightarrow> filename | Some (s, _) \<Rightarrow> s)"

text \<open>\<open>Path::file_name\<close> of a UTF-8 path: the last component when it is a normal one. Empty and
  current-directory components are not components of a path except a leading dot, which is
  not a normal one.\<close>

definition os_file_name :: "string \<Rightarrow> string option" where
  "os_file_name path =
     (case rev (filter (\<lambda>c. c \<noteq> [] \<and> c \<noteq> ''.'') (split_on (CHR ''/'') path)) of
        [] \<Rightarrow> None
      | c # _ \<Rightarrow> if c = ''..'' then None else Some c)"

text \<open>\<open>Path::extension\<close>: a leading dot of the name does not start an extension.\<close>

definition os_extension :: "string \<Rightarrow> string option" where
  "os_extension path =
     Option.bind (os_file_name path) (\<lambda>name.
       case rsplit_once (CHR ''.'') name of
         None \<Rightarrow> None
       | Some (front, after) \<Rightarrow> if front = [] then None else Some after)"

definition path_extension :: "(string \<Rightarrow> string) \<Rightarrow> string \<Rightarrow> string option" where
  "path_extension to_lowercase path = map_option to_lowercase (os_extension path)"

definition media_kind :: "(string \<Rightarrow> string) \<Rightarrow> string \<Rightarrow> MediaKind option" where
  "media_kind to_lowercase path =
     Option.bind (path_extension to_lowercase path) (\<lambda>ext.
       if ext \<in> {''jpg'', ''jpeg'', ''png'', ''heic'', ''heif'', ''webp'', ''gif'', ''tif'', ''tiff'', ''dng'',
                 ''cr2'', ''cr3'', ''arw'', ''raf'', ''nef''} then Some MediaImage
       else if ext \<in> {''mp4'', ''mov'', ''avi'', ''mkv'', ''m4v'', ''3gp''} then Some MediaVideo
       else None)"

definition metadata_kind :: "(string \<Rightarrow> string) \<Rightarrow> string \<Rightarrow> MetadataKind option" where
  "metadata_kind to_lowercase path =
     Option.bind (path_extension to_lowercase path) (\<lambda>ext.
       if ext = ''json'' then Some Json else if ext = ''xmp'' then Some Xmp else None)"

section \<open>Diagnostics\<close>

definition MAX_DIAGNOSTIC_PATHS :: nat where
  "MAX_DIAGNOSTIC_PATHS = 8"

definition diagnostic :: "string \<Rightarrow> string \<Rightarrow> string list \<Rightarrow> PlanDiagnostic" where
  "diagnostic rule code paths =
     \<lparr>pd_rule_id = rule, pd_code = code, pd_paths = take MAX_DIAGNOSTIC_PATHS (remdups_adj (sort paths))\<rparr>"

definition push_error :: "PlanDiagnostic \<Rightarrow> 'p ScanState \<Rightarrow> 'p ScanState" where
  "push_error d st = st \<lparr>ss_errors := ss_errors st @ [d]\<rparr>"

definition push_warning :: "PlanDiagnostic \<Rightarrow> 'p ScanState \<Rightarrow> 'p ScanState" where
  "push_warning d st = st \<lparr>ss_warnings := ss_warnings st @ [d]\<rparr>"

section \<open>Grouping\<close>

text \<open>\<open>groups.entry(key).or_default().push(value)\<close>, and the loop that groups a list.\<close>

definition group_push :: "'k :: linorder \<Rightarrow> 'v \<Rightarrow> ('k, 'v list) btree_map \<Rightarrow> ('k, 'v list) btree_map" where
  "group_push k v groups = btm_insert k ((case btm_get groups k of None \<Rightarrow> [] | Some vs \<Rightarrow> vs) @ [v]) groups"

definition group_by :: "('a \<Rightarrow> 'k :: linorder) \<Rightarrow> ('a \<Rightarrow> 'v) \<Rightarrow> 'a list \<Rightarrow> ('k, 'v list) btree_map" where
  "group_by key val xs = fold (\<lambda>x. group_push (key x) (val x)) xs []"

lemma group_push_wf [simp]: "btm_wf g \<Longrightarrow> btm_wf (group_push k v g)"
  by (simp add: group_push_def)

lemma group_by_append: "group_by key val (xs @ [x]) = group_push (key x) (val x) (group_by key val xs)"
  by (simp add: group_by_def)

lemma group_by_wf [simp]: "btm_wf (group_by key val xs)"
  by (induction xs rule: rev_induct) (simp_all add: group_by_append, simp add: group_by_def)

lemma group_by_get:
  "btm_get (group_by key val xs) k =
     (let ys = filter (\<lambda>x. key x = k) xs in if ys = [] then None else Some (map val ys))"
proof (induction xs rule: rev_induct)
  case (snoc x xs)
  then show ?case by (auto simp: group_by_append group_push_def Let_def)
qed (simp add: group_by_def)

text \<open>The groups are the classes of the key, in ascending key order, each in list order.\<close>

lemma group_by_entry:
  "(k, vs) \<in> set (group_by key val xs) \<longleftrightarrow> vs \<noteq> [] \<and> vs = map val (filter (\<lambda>x. key x = k) xs)"
proof -
  have "(k, vs) \<in> set (group_by key val xs) \<longleftrightarrow> btm_get (group_by key val xs) k = Some vs"
    by (simp add: btm_wf_distinct)
  then show ?thesis by (auto simp: group_by_get Let_def)
qed

end
