(* ===== verification/Source_Reconcile.thy ===== *)
theory Source_Reconcile
  imports Source_Scan
begin

text \<open>
  \<open>immich-sources/src/reconcile.rs\<close>: from the files a scan discovered to a normalized plan. Native
  paths that share a portable path are dropped, sidecars are attached to media, live photos
  are paired, collisions are reported, and the plan is assembled with its fingerprint. SHA-256
  (as hexadecimal text) and Unicode lower-casing are parameters.
\<close>

section \<open>Fingerprints\<close>

definition usize_to_le_bytes :: "nat \<Rightarrow> string" where
  "usize_to_le_bytes n = map (\<lambda>k. char_of ((n div 256 ^ k) mod 256)) [0..<8]"

definition field_bytes :: "string \<Rightarrow> string" where
  "field_bytes field = usize_to_le_bytes (length field) @ field"

definition sha256_fields :: "(string \<Rightarrow> string) \<Rightarrow> string list \<Rightarrow> string" where
  "sha256_fields hex_sha256 parts = hex_sha256 (concat (map field_bytes parts))"

definition u64_to_string :: "u64 \<Rightarrow> string" where
  "u64_to_string n = show_nat (uint n)"

section \<open>Collisions of portable paths\<close>

text \<open>\<open>*counts.entry(path).or_default() += 1\<close>.\<close>

definition count_path :: "string \<Rightarrow> (string, nat) btree_map \<Rightarrow> (string, nat) btree_map" where
  "count_path path counts = btm_insert path (Suc (case btm_get counts path of None \<Rightarrow> 0 | Some n \<Rightarrow> n)) counts"

definition unicode_collisions :: "'p ScanState \<Rightarrow> string btree_set" where
  "unicode_collisions st =
     (let counts = fold count_path (map dm_relative_path (ss_media st) @ map dsc_relative_path (ss_sidecars st)) [] in
      map fst (filter (\<lambda>e. snd e > 1) counts))"

definition remove_unicode_collisions :: "'p ScanState \<Rightarrow> 'p ScanState" where
  "remove_unicode_collisions st =
     (let collisions = unicode_collisions st;
          st1 = fold (\<lambda>path. push_error (diagnostic ''FS_UNICODE_COLLISION_V1'' ''native_paths_share_nfc_path'' [path]))
                  collisions st in
      st1 \<lparr>ss_media := filter (\<lambda>m. \<not> bts_contains collisions (dm_relative_path m)) (ss_media st1),
           ss_sidecars := filter (\<lambda>s. \<not> bts_contains collisions (dsc_relative_path s)) (ss_sidecars st1)\<rparr>)"

definition reconcile_prepare :: "'p ScanState \<Rightarrow> 'p ScanState" where
  "reconcile_prepare st =
     (let st1 = remove_unicode_collisions st in
      st1 \<lparr>ss_media := sort_key dm_relative_path (ss_media st1),
           ss_sidecars := sort_key dsc_relative_path (ss_sidecars st1)\<rparr>)"

section \<open>Sidecars\<close>

definition attach_sidecar :: "'p DiscoveredSidecar \<Rightarrow> string \<Rightarrow> 'p DiscoveredMedia \<Rightarrow> 'p DiscoveredMedia" where
  "attach_sidecar s selected_rule m =
     m \<lparr>dm_metadata := dm_metadata m @
          [\<lparr>mc_relative_path = dsc_relative_path s, mc_kind = dsc_kind s, mc_rule_id = selected_rule\<rparr>],
        dm_evidence := dm_evidence m @
          [\<lparr>re_rule_id = selected_rule, re_outcome = ''metadata_candidate_associated''\<rparr>]\<rparr>"

definition update_media :: "nat \<Rightarrow> ('p DiscoveredMedia \<Rightarrow> 'p DiscoveredMedia) \<Rightarrow> 'p ScanState \<Rightarrow> 'p ScanState" where
  "update_media i f st = st \<lparr>ss_media := (ss_media st)[i := f (ss_media st ! i)]\<rparr>"

definition media_indices :: "('p DiscoveredMedia \<Rightarrow> bool) \<Rightarrow> 'p ScanState \<Rightarrow> nat list" where
  "media_indices p st = filter (\<lambda>i. p (ss_media st ! i)) [0..<length (ss_media st)]"

text \<open>The media a sidecar may belong to by directory and stem; a single image wins.\<close>

definition basename_matches :: "'p DiscoveredSidecar \<Rightarrow> 'p ScanState \<Rightarrow> nat list" where
  "basename_matches s st =
     (let matching = media_indices (\<lambda>m. path_parent (dm_relative_path m) = path_parent (dsc_relative_path s)
                                   \<and> path_stem (dm_relative_path m) = path_stem (dsc_relative_path s)) st;
          image_matches = filter (\<lambda>i. dm_kind (ss_media st ! i) = MediaImage) matching in
      if length image_matches = 1 then image_matches else matching)"

definition reconcile_sidecar :: "'p DiscoveredSidecar \<Rightarrow> 'p ScanState \<Rightarrow> 'p ScanState" where
  "reconcile_sidecar s st =
     (let exact_target = (case dsc_kind s of Json \<Rightarrow> strip_suffix ''.json'' (dsc_relative_path s) | Xmp \<Rightarrow> None);
          exact_match = Option.bind exact_target (\<lambda>target.
            find (\<lambda>i. dm_relative_path (ss_media st ! i) = target) [0..<length (ss_media st)]) in
      case exact_match of
        Some i \<Rightarrow> update_media i (attach_sidecar s ''META_SIDECAR_EXACT_NAME_V1'') st
      | None \<Rightarrow>
          (case basename_matches s st of
             [i] \<Rightarrow> update_media i (attach_sidecar s ''META_SIDECAR_BASENAME_V1'') st
           | [] \<Rightarrow> push_warning (diagnostic ''META_ORPHAN_SIDECAR_V1'' ''sidecar_without_media'' [dsc_relative_path s]) st
           | matches \<Rightarrow>
               push_error (diagnostic ''META_AMBIGUOUS_SIDECAR_V1'' ''ambiguous_sidecar_match''
                 (dsc_relative_path s # map (\<lambda>i. dm_relative_path (ss_media st ! i)) (take (MAX_DIAGNOSTIC_PATHS - 1) matches))) st))"

definition reconcile_sidecars :: "'p ScanState \<Rightarrow> 'p ScanState" where
  "reconcile_sidecars st = fold reconcile_sidecar (ss_sidecars st) st"

section \<open>Live photos\<close>

definition live_photo_evidence :: RuleEvidence where
  "live_photo_evidence = \<lparr>re_rule_id = ''PAIR_LIVE_PHOTO_BASENAME_V1'', re_outcome = ''live_photo_member''\<rparr>"

definition mark_live :: "string \<Rightarrow> LivePhotoRole \<Rightarrow> 'p DiscoveredMedia \<Rightarrow> 'p DiscoveredMedia" where
  "mark_live pair role m =
     m \<lparr>dm_live_photo := Some \<lparr>lp_pair_id = pair, lp_role = role\<rparr>,
        dm_evidence := dm_evidence m @ [live_photo_evidence]\<rparr>"

definition pair_group ::
  "(string \<Rightarrow> string) \<Rightarrow> (string \<Rightarrow> string) \<Rightarrow> nat list \<Rightarrow> 'p DiscoveredMedia list \<Rightarrow> 'p DiscoveredMedia list" where
  "pair_group hex_sha256 to_lowercase indices media =
     (let images = filter (\<lambda>i. dm_kind (media ! i) = MediaImage) indices;
          motion_videos = filter (\<lambda>i. dm_kind (media ! i) = MediaVideo
             \<and> path_extension to_lowercase (dm_relative_path (media ! i)) = Some ''mov'') indices in
      case (images, motion_videos) of
        ([img], [vid]) \<Rightarrow>
          (let pair_id = sha256_fields hex_sha256
                 [''live-photo-v1'', dm_relative_path (media ! img), dm_relative_path (media ! vid)];
               media1 = media[img := mark_live pair_id RoleImage (media ! img)] in
           media1[vid := mark_live pair_id RoleVideo (media1 ! vid)])
      | _ \<Rightarrow> media)"

definition live_key :: "'p DiscoveredMedia \<Rightarrow> string \<times> string" where
  "live_key m = (path_parent (dm_relative_path m), path_stem (dm_relative_path m))"

definition reconcile_live_photos ::
  "(string \<Rightarrow> string) \<Rightarrow> (string \<Rightarrow> string) \<Rightarrow> 'p DiscoveredMedia list \<Rightarrow> 'p DiscoveredMedia list" where
  "reconcile_live_photos hex_sha256 to_lowercase media =
     fold (pair_group hex_sha256 to_lowercase)
       (map snd (group_by (\<lambda>i. live_key (media ! i)) (\<lambda>i. i) [0..<length media])) media"

section \<open>Reports on the whole set\<close>

definition detect_case_collisions :: "(string \<Rightarrow> string) \<Rightarrow> 'p DiscoveredMedia list \<Rightarrow> PlanDiagnostic list" where
  "detect_case_collisions to_lowercase media =
     map (\<lambda>paths. diagnostic ''FS_CASE_COLLISION_V1'' ''portable_case_collision'' (take MAX_DIAGNOSTIC_PATHS paths))
       (filter (\<lambda>paths. length paths > 1)
         (map snd (group_by (\<lambda>m. to_lowercase (dm_relative_path m)) dm_relative_path media)))"

definition lower_basename :: "(string \<Rightarrow> string) \<Rightarrow> string \<Rightarrow> string" where
  "lower_basename to_lowercase path = (case os_file_name path of None \<Rightarrow> [] | Some name \<Rightarrow> to_lowercase name)"

definition detect_duplicate_basenames :: "(string \<Rightarrow> string) \<Rightarrow> 'p DiscoveredMedia list \<Rightarrow> PlanDiagnostic list" where
  "detect_duplicate_basenames to_lowercase media =
     map (\<lambda>paths. diagnostic ''FS_DUPLICATE_BASENAME_V1'' ''duplicate_basename_across_directories'' (take MAX_DIAGNOSTIC_PATHS paths))
       (filter (\<lambda>paths. length paths > 1 \<and> \<not> windows2_all (=) (map path_parent paths))
         (map snd (group_by (\<lambda>m. lower_basename to_lowercase (dm_relative_path m)) dm_relative_path media)))"

text \<open>The derived \<open>Ord\<close> of candidates and evidence: lexicographic in declaration order.\<close>

definition mc_key :: "MetadataCandidate \<Rightarrow> string \<times> MetadataKind \<times> string" where
  "mc_key c = (mc_relative_path c, mc_kind c, mc_rule_id c)"

definition re_key :: "RuleEvidence \<Rightarrow> string \<times> string" where
  "re_key e = (re_rule_id e, re_outcome e)"

definition canonical_media :: "'p DiscoveredMedia \<Rightarrow> 'p DiscoveredMedia" where
  "canonical_media m =
     m \<lparr>dm_metadata := remdups_adj (sort_key mc_key (dm_metadata m)),
        dm_evidence := remdups_adj (sort_key re_key (dm_evidence m))\<rparr>"

definition canonical_diagnostics :: "PlanDiagnostic list \<Rightarrow> PlanDiagnostic list" where
  "canonical_diagnostics ds = remdups_adj (sort_key pd_key ds)"

definition reconcile_complete :: "(string \<Rightarrow> string) \<Rightarrow> (string \<Rightarrow> string) \<Rightarrow> 'p ScanState \<Rightarrow> 'p ScanState" where
  "reconcile_complete hex_sha256 to_lowercase st =
     (let media = reconcile_live_photos hex_sha256 to_lowercase (ss_media st) in
      st \<lparr>ss_media := map canonical_media media,
          ss_warnings := canonical_diagnostics (ss_warnings st @ detect_duplicate_basenames to_lowercase media),
          ss_errors := canonical_diagnostics (ss_errors st @ detect_case_collisions to_lowercase media)\<rparr>)"

definition reconcile :: "(string \<Rightarrow> string) \<Rightarrow> (string \<Rightarrow> string) \<Rightarrow> 'p ScanState \<Rightarrow> 'p ScanState" where
  "reconcile hex_sha256 to_lowercase st =
     reconcile_complete hex_sha256 to_lowercase (reconcile_sidecars (reconcile_prepare st))"

section \<open>The plan\<close>

definition source_fingerprint ::
  "(string \<Rightarrow> string) \<Rightarrow> CandidateAsset list \<Rightarrow> 'p DiscoveredSidecar list \<Rightarrow> PlanDiagnostic list \<Rightarrow> PlanDiagnostic list \<Rightarrow> string" where
  "source_fingerprint hex_sha256 assets sidecars warnings errors =
     hex_sha256 (''normalized-plan-source-v1'' @ [CHR 0x00]
       @ concat (map (\<lambda>a. field_bytes (ca_relative_path a) @ field_bytes (ca_content_sha256 a)
            @ field_bytes (u64_to_string (ca_byte_len a))
            @ concat (map (\<lambda>c. field_bytes (mc_relative_path c) @ field_bytes (mc_rule_id c)) (ca_metadata a))) assets)
       @ concat (map (\<lambda>s. field_bytes (dsc_relative_path s) @ field_bytes (u64_to_string (dsc_byte_len s))
            @ field_bytes (dsc_content_sha256 s)) sidecars)
       @ concat (map (\<lambda>d. field_bytes (pd_rule_id d) @ concat (map field_bytes (pd_paths d))) (warnings @ errors)))"

definition media_operation_id :: "(string \<Rightarrow> string) \<Rightarrow> 'p DiscoveredMedia \<Rightarrow> string" where
  "media_operation_id hex_sha256 m =
     sha256_fields hex_sha256 [''normalized-plan-operation-v1'', dm_relative_path m, dm_content_sha256 m,
       u64_to_string (dm_byte_len m)]"

definition candidate_asset :: "(string \<Rightarrow> string) \<Rightarrow> 'p DiscoveredMedia \<Rightarrow> CandidateAsset" where
  "candidate_asset hex_sha256 m =
     \<lparr>ca_operation_id = media_operation_id hex_sha256 m, ca_relative_path = dm_relative_path m,
      ca_media_kind = dm_kind m, ca_byte_len = dm_byte_len m, ca_content_sha256 = dm_content_sha256 m,
      ca_metadata = dm_metadata m, ca_normalized_metadata = dm_normalized_metadata m,
      ca_live_photo = dm_live_photo m, ca_evidence = dm_evidence m\<rparr>"

definition finalize_plan ::
  "(string \<Rightarrow> string) \<Rightarrow> u32 \<Rightarrow> SourceKind \<Rightarrow> string \<Rightarrow> FolderScanConfig \<Rightarrow> 'p ScanState \<Rightarrow> NormalizedPlan" where
  "finalize_plan hex_sha256 schema_version source_kind source_label config st =
     (let assets = sort_key ca_relative_path (map (candidate_asset hex_sha256) (ss_media st)) in
      \<lparr>np_schema_version = schema_version,
       np_source = \<lparr>sd_kind = source_kind, sd_label = source_label,
         sd_fingerprint_sha256 = source_fingerprint hex_sha256 assets (ss_sidecars st) (ss_warnings st) (ss_errors st),
         sd_case_sensitive = fs_case_sensitive config, sd_unicode_normalization = Nfc\<rparr>,
       np_assets = assets, np_warnings = ss_warnings st, np_errors = ss_errors st,
       np_summary = \<lparr>ps_assets = of_nat (length assets),
         ps_sidecars = sum_list (map (\<lambda>a. of_nat (length (ca_metadata a))) assets),
         ps_bytes_read = ss_bytes_read st\<rparr>\<rparr>)"

end
