(* ===== verification/Source_Plan.thy ===== *)
theory Source_Plan
  imports Source_Reconcile "HOL-Library.Multiset"
begin

text \<open>
  What reconciliation guarantees: its result does not depend on the order in which files
  were discovered, the portable paths of the media it keeps are pairwise different, the plan
  assembled from it passes its own validation, and live photos are paired one to one.
\<close>

section \<open>Order of discovery\<close>

lemma count_mset_notin: "x \<notin> set xs \<Longrightarrow> count (mset xs) x = 0"
  by (simp add: count_eq_zero_iff)

lemma fold_count_path_get:
  "btm_get (fold count_path ps m) p =
     (let n = count (mset ps) p in
      if n = 0 then btm_get m p else Some (n + (case btm_get m p of None \<Rightarrow> 0 | Some k \<Rightarrow> k)))"
  by (induction ps arbitrary: m) (auto simp: count_path_def Let_def split: option.splits)

lemma fold_count_path_wf: "btm_wf m \<Longrightarrow> btm_wf (fold count_path ps m)"
  by (induction ps arbitrary: m) (auto simp: count_path_def)

definition scan_paths :: "'p ScanState \<Rightarrow> string list" where
  "scan_paths st = map dm_relative_path (ss_media st) @ map dsc_relative_path (ss_sidecars st)"

lemma unicode_collisions_eq: "unicode_collisions st = map fst (filter (\<lambda>e. snd e > 1) (fold count_path (scan_paths st) []))"
  by (simp only: unicode_collisions_def Let_def scan_paths_def)

lemma unicode_collisions_wf: "bts_wf (unicode_collisions st)"
  using fold_count_path_wf [of "[]" "scan_paths st"]
  by (simp add: unicode_collisions_eq btm_wf_def bts_wf_def sorted_wrt_map sorted_wrt_filter)

text \<open>The collisions are the portable paths of more than one discovered file.\<close>

lemma unicode_collisions_set: "p \<in> set (unicode_collisions st) \<longleftrightarrow> count (mset (scan_paths st)) p > 1"
proof -
  let ?m = "fold count_path (scan_paths st) []"
  have wf: "distinct (map fst ?m)" by (simp add: btm_wf_distinct fold_count_path_wf)
  have "p \<in> set (map fst (filter (\<lambda>e. snd e > 1) ?m)) \<longleftrightarrow> (\<exists>n > 1. btm_get ?m p = Some n)"
    unfolding map_of_eq_Some_iff [OF wf] by (auto simp: image_iff)
  also have "\<dots> \<longleftrightarrow> count (mset (scan_paths st)) p > 1"
    unfolding fold_count_path_get by (auto simp: Let_def dest: count_mset_notin)
  finally show ?thesis by (simp add: unicode_collisions_eq)
qed

lemma sorted_set_unique: "bts_wf s \<Longrightarrow> bts_wf t \<Longrightarrow> set s = set t \<Longrightarrow> s = t"
  by (simp add: bts_wf_def strict_sorted_equal)

definition same_files :: "'p ScanState \<Rightarrow> 'p ScanState \<Rightarrow> bool" where
  "same_files st st' \<longleftrightarrow>
     mset (ss_media st) = mset (ss_media st') \<and> mset (ss_sidecars st) = mset (ss_sidecars st') \<and>
     mset (ss_warnings st) = mset (ss_warnings st') \<and> mset (ss_errors st) = mset (ss_errors st') \<and>
     ss_entries_seen st = ss_entries_seen st' \<and> ss_bytes_read st = ss_bytes_read st' \<and>
     ss_event_sequence st = ss_event_sequence st'"

lemma unicode_collisions_cong: "same_files st st' \<Longrightarrow> unicode_collisions st = unicode_collisions st'"
proof -
  assume "same_files st st'"
  then have "mset (scan_paths st) = mset (scan_paths st')"
    by (simp add: same_files_def scan_paths_def)
  then have "set (unicode_collisions st) = set (unicode_collisions st')"
    by (auto simp: unicode_collisions_set)
  then show ?thesis using unicode_collisions_wf sorted_set_unique by blast
qed

lemma fold_push_error: "fold (\<lambda>x. push_error (f x)) xs st = st \<lparr>ss_errors := ss_errors st @ map f xs\<rparr>"
  by (induction xs arbitrary: st) (simp_all add: push_error_def)

lemma remove_unicode_collisions_eq:
  "remove_unicode_collisions st =
     st \<lparr>ss_media := filter (\<lambda>m. dm_relative_path m \<notin> set (unicode_collisions st)) (ss_media st),
         ss_sidecars := filter (\<lambda>s. dsc_relative_path s \<notin> set (unicode_collisions st)) (ss_sidecars st),
         ss_errors := ss_errors st @ map (\<lambda>p. diagnostic ''FS_UNICODE_COLLISION_V1'' ''native_paths_share_nfc_path'' [p]) (unicode_collisions st)\<rparr>"
  by (simp add: remove_unicode_collisions_def Let_def fold_push_error)

lemma distinct_count_le: "distinct xs \<longleftrightarrow> (\<forall>x. count (mset xs) x \<le> 1)"
proof
  assume "distinct xs"
  then show "\<forall>x. count (mset xs) x \<le> 1" by (simp add: distinct_count_atmost_1)
next
  assume "\<forall>x. count (mset xs) x \<le> 1"
  then show "distinct xs"
  proof (induction xs)
    case (Cons a xs)
    from spec [OF Cons.prems, of a] have "count (mset xs) a = 0" by simp
    moreover have "\<forall>x. count (mset xs) x \<le> 1"
    proof
      fix x
      from spec [OF Cons.prems, of x] show "count (mset xs) x \<le> 1" by (auto simp: count_mset_notin split: if_splits)
    qed
    ultimately show ?case using Cons.IH by (simp add: count_eq_zero_iff)
  qed simp
qed

text \<open>The files that stay have pairwise different portable paths.\<close>

lemma remove_unicode_collisions_distinct: "distinct (scan_paths (remove_unicode_collisions st))"
proof -
  let ?P = "\<lambda>p. p \<notin> set (unicode_collisions st)"
  have "scan_paths (remove_unicode_collisions st) = filter ?P (scan_paths st)"
    by (simp add: remove_unicode_collisions_eq scan_paths_def filter_map comp_def)
  moreover have "count (mset (filter ?P (scan_paths st))) p \<le> 1" for p
    by (simp add: unicode_collisions_set not_less)
  ultimately show ?thesis by (simp add: distinct_count_le)
qed

lemma sort_key_unique:
  assumes "mset xs = mset ys" "inj_on key (set xs)"
  shows "sort_key key xs = sort_key key ys"
  by (rule sort_key_inj_key_eq) (use assms in simp_all)

text \<open>What is left of the order of discovery after preparation: the order of the diagnostics.\<close>

definition same_prepared :: "'p ScanState \<Rightarrow> 'p ScanState \<Rightarrow> bool" where
  "same_prepared st st' \<longleftrightarrow> ss_media st = ss_media st' \<and> ss_sidecars st = ss_sidecars st' \<and> same_files st st'"

lemma reconcile_prepare_cong:
  assumes "same_files st st'"
  shows "same_prepared (reconcile_prepare st) (reconcile_prepare st')"
proof -
  let ?r = "remove_unicode_collisions st" and ?r' = "remove_unicode_collisions st'"
  have r: "same_files ?r ?r'"
    using assms unicode_collisions_cong [OF assms] by (simp add: same_files_def remove_unicode_collisions_eq)
  have "inj_on dm_relative_path (set (ss_media ?r))" "inj_on dsc_relative_path (set (ss_sidecars ?r))"
    using remove_unicode_collisions_distinct [of st] by (simp_all add: scan_paths_def distinct_map)
  then have "sort_key dm_relative_path (ss_media ?r) = sort_key dm_relative_path (ss_media ?r')"
      "sort_key dsc_relative_path (ss_sidecars ?r) = sort_key dsc_relative_path (ss_sidecars ?r')"
    using r by (simp_all add: same_files_def sort_key_unique)
  then show ?thesis
    using r by (simp add: reconcile_prepare_def Let_def same_prepared_def same_files_def)
qed

lemma reconcile_sidecar_cong:
  assumes "same_prepared st st'"
  shows "same_prepared (reconcile_sidecar s st) (reconcile_sidecar s st')"
proof -
  have m: "ss_media st = ss_media st'" using assms by (simp add: same_prepared_def)
  have b: "basename_matches s st = basename_matches s st'"
    by (simp add: basename_matches_def media_indices_def m)
  show ?thesis
    using assms
    by (auto simp: reconcile_sidecar_def Let_def b m same_prepared_def same_files_def update_media_def
        push_warning_def push_error_def split: option.split list.split)
qed

lemma reconcile_sidecars_cong:
  assumes "same_prepared st st'"
  shows "same_prepared (reconcile_sidecars st) (reconcile_sidecars st')"
proof -
  have "same_prepared (fold reconcile_sidecar ss st) (fold reconcile_sidecar ss st')" for ss
    using assms by (induction ss arbitrary: st st') (auto intro: reconcile_sidecar_cong)
  moreover have "ss_sidecars st = ss_sidecars st'" using assms by (simp add: same_prepared_def)
  ultimately show ?thesis by (simp add: reconcile_sidecars_def)
qed

lemma pd_key_inj: "inj pd_key"
  by (auto simp: inj_def pd_key_def)

lemma canonical_diagnostics_cong: "mset ds = mset ds' \<Longrightarrow> canonical_diagnostics ds = canonical_diagnostics ds'"
  by (simp add: canonical_diagnostics_def sort_key_unique [of ds ds' pd_key] inj_on_subset [OF pd_key_inj])

lemma reconcile_complete_cong:
  assumes "same_prepared st st'"
  shows "reconcile_complete hex lower st = reconcile_complete hex lower st'"
proof -
  have eq: "ss_media st = ss_media st'" "ss_sidecars st = ss_sidecars st'" "ss_entries_seen st = ss_entries_seen st'"
      "ss_bytes_read st = ss_bytes_read st'" "ss_event_sequence st = ss_event_sequence st'"
    and ms: "mset (ss_warnings st) = mset (ss_warnings st')" "mset (ss_errors st) = mset (ss_errors st')"
    using assms by (simp_all add: same_prepared_def same_files_def)
  have "canonical_diagnostics (ss_warnings st @ ds) = canonical_diagnostics (ss_warnings st' @ ds)"
    "canonical_diagnostics (ss_errors st @ ds) = canonical_diagnostics (ss_errors st' @ ds)" for ds
    using ms by (simp_all add: canonical_diagnostics_cong)
  then show ?thesis by (simp add: reconcile_complete_def Let_def eq)
qed

lemma reconcile_cong: "same_files st st' \<Longrightarrow> reconcile hex lower st = reconcile hex lower st'"
  by (simp add: reconcile_def reconcile_complete_cong reconcile_sidecars_cong reconcile_prepare_cong)

section \<open>What stays of a discovered file\<close>

text \<open>Everything the plan takes over unchanged: reconciliation only adds candidates, evidence and
  live-photo membership.\<close>

definition media_core :: "'p DiscoveredMedia \<Rightarrow> 'p DiscoveredMedia" where
  "media_core m = m \<lparr>dm_metadata := [], dm_live_photo := None, dm_evidence := []\<rparr>"

definition rules_named :: "'p DiscoveredMedia \<Rightarrow> bool" where
  "rules_named m \<longleftrightarrow> (\<forall>c \<in> set (dm_metadata m). mc_rule_id c \<noteq> []) \<and> (\<forall>e \<in> set (dm_evidence m). re_rule_id e \<noteq> [])"

lemma media_core_simps [simp]:
  "media_core (attach_sidecar s rule m) = media_core m" "media_core (mark_live pair role m) = media_core m"
  "media_core (canonical_media m) = media_core m"
  by (simp_all add: media_core_def attach_sidecar_def mark_live_def canonical_media_def)

lemma media_core_fields:
  assumes "media_core m = media_core m'"
  shows "dm_relative_path m = dm_relative_path m'" "dm_content_sha256 m = dm_content_sha256 m'" "dm_byte_len m = dm_byte_len m'"
    "dm_kind m = dm_kind m'" "dm_normalized_metadata m = dm_normalized_metadata m'" "media_file m = media_file m'"
  using assms by (cases m; cases m'; simp add: media_core_def media_file_def)+

lemma rules_named_simps [simp]:
  "rule \<noteq> [] \<Longrightarrow> rules_named (attach_sidecar s rule m) = rules_named m"
  "rules_named (mark_live pair role m) = rules_named m" "rules_named (canonical_media m) = rules_named m"
  by (auto simp: rules_named_def attach_sidecar_def mark_live_def canonical_media_def live_photo_evidence_def)

lemma map_media_core_update:
  "media_core x = media_core (ms ! i) \<Longrightarrow> map media_core (ms[i := x]) = map media_core ms"
  by (metis list_update_id map_update)

lemma basename_matches_range: "i \<in> set (basename_matches s st) \<Longrightarrow> i < length (ss_media st)"
  by (auto simp: basename_matches_def media_indices_def Let_def split: if_splits)

text \<open>A sidecar is attached to one medium or reported.\<close>

lemma reconcile_sidecar_cases:
  obtains (attach) i rule where "i < length (ss_media st)" "rule \<noteq> []"
      "reconcile_sidecar s st = update_media i (attach_sidecar s rule) st"
  | (warn) d where "reconcile_sidecar s st = push_warning d st"
  | (err) d where "reconcile_sidecar s st = push_error d st"
proof -
  let ?e = "Option.bind (case dsc_kind s of Json \<Rightarrow> strip_suffix ''.json'' (dsc_relative_path s) | Xmp \<Rightarrow> None) (\<lambda>target.
            find (\<lambda>i. dm_relative_path (ss_media st ! i) = target) [0..<length (ss_media st)])"
  show thesis
  proof (cases ?e)
    case (Some i)
    then have "i < length (ss_media st)" by (auto simp: bind_eq_Some_conv find_Some_iff)
    with Some show thesis by (intro attach [of i]) (auto simp: reconcile_sidecar_def Let_def)
  next
    case None
    show thesis
    proof (cases "basename_matches s st")
      case Nil
      with None show thesis by (intro warn) (simp add: reconcile_sidecar_def Let_def)
    next
      case (Cons i js)
      with None show thesis
        using attach [of i "''META_SIDECAR_BASENAME_V1''"] err basename_matches_range [of i s st]
        by (cases js) (auto simp: reconcile_sidecar_def Let_def)
    qed
  qed
qed

lemma reconcile_sidecar_media:
  "map media_core (ss_media (reconcile_sidecar s st)) = map media_core (ss_media st)"
  "list_all rules_named (ss_media st) \<Longrightarrow> list_all rules_named (ss_media (reconcile_sidecar s st))"
  "ss_sidecars (reconcile_sidecar s st) = ss_sidecars st" "ss_bytes_read (reconcile_sidecar s st) = ss_bytes_read st"
  by (cases rule: reconcile_sidecar_cases [of st s];
      simp add: update_media_def push_warning_def push_error_def map_media_core_update list_all_length nth_list_update)+

lemma reconcile_sidecars_media:
  "map media_core (ss_media (reconcile_sidecars st)) = map media_core (ss_media st)"
  "list_all rules_named (ss_media st) \<Longrightarrow> list_all rules_named (ss_media (reconcile_sidecars st))"
  "ss_sidecars (reconcile_sidecars st) = ss_sidecars st" "ss_bytes_read (reconcile_sidecars st) = ss_bytes_read st"
proof -
  have "map media_core (ss_media (fold reconcile_sidecar ss st)) = map media_core (ss_media st) \<and>
      (list_all rules_named (ss_media st) \<longrightarrow> list_all rules_named (ss_media (fold reconcile_sidecar ss st))) \<and>
      ss_sidecars (fold reconcile_sidecar ss st) = ss_sidecars st \<and> ss_bytes_read (fold reconcile_sidecar ss st) = ss_bytes_read st" for ss
    by (induction ss arbitrary: st) (auto simp: reconcile_sidecar_media)
  then show "map media_core (ss_media (reconcile_sidecars st)) = map media_core (ss_media st)"
    "list_all rules_named (ss_media st) \<Longrightarrow> list_all rules_named (ss_media (reconcile_sidecars st))"
    "ss_sidecars (reconcile_sidecars st) = ss_sidecars st" "ss_bytes_read (reconcile_sidecars st) = ss_bytes_read st"
    by (simp_all add: reconcile_sidecars_def)
qed

section \<open>Live photos\<close>

definition group_images :: "'p DiscoveredMedia list \<Rightarrow> nat list \<Rightarrow> nat list" where
  "group_images ms g = filter (\<lambda>i. dm_kind (ms ! i) = MediaImage) g"

definition group_videos :: "(string \<Rightarrow> string) \<Rightarrow> 'p DiscoveredMedia list \<Rightarrow> nat list \<Rightarrow> nat list" where
  "group_videos lower ms g =
     filter (\<lambda>i. dm_kind (ms ! i) = MediaVideo \<and> path_extension lower (dm_relative_path (ms ! i)) = Some ''mov'') g"

definition live_pair_id :: "(string \<Rightarrow> string) \<Rightarrow> 'p DiscoveredMedia \<Rightarrow> 'p DiscoveredMedia \<Rightarrow> string" where
  "live_pair_id hex i v = sha256_fields hex [''live-photo-v1'', dm_relative_path i, dm_relative_path v]"

text \<open>What happens to the medium at index \<open>j\<close> of the group \<open>g\<close>.\<close>

definition live_mark ::
  "(string \<Rightarrow> string) \<Rightarrow> (string \<Rightarrow> string) \<Rightarrow> 'p DiscoveredMedia list \<Rightarrow> nat list \<Rightarrow> nat \<Rightarrow> 'p DiscoveredMedia" where
  "live_mark hex lower ms g j =
     (case (group_images ms g, group_videos lower ms g) of
        ([i], [v]) \<Rightarrow>
          (if j = i then mark_live (live_pair_id hex (ms ! i) (ms ! v)) RoleImage (ms ! j)
           else if j = v then mark_live (live_pair_id hex (ms ! i) (ms ! v)) RoleVideo (ms ! j)
           else ms ! j)
      | _ \<Rightarrow> ms ! j)"

lemma pair_group_length [simp]: "length (pair_group hex lower g m) = length m"
  by (auto simp: pair_group_def Let_def split: list.split)

lemma pair_group_nth:
  assumes "\<forall>i \<in> set g. i < length m \<and> m ! i = ms ! i" "j < length m"
  shows "pair_group hex lower g m ! j = (if j \<in> set g then live_mark hex lower ms g j else m ! j)"
proof -
  have images: "filter (\<lambda>i. dm_kind (m ! i) = MediaImage) g = group_images ms g"
    and videos: "filter (\<lambda>i. dm_kind (m ! i) = MediaVideo \<and> path_extension lower (dm_relative_path (m ! i)) = Some ''mov'') g
      = group_videos lower ms g"
    using assms(1) by (auto simp: group_images_def group_videos_def intro!: filter_cong)
  have same: "j \<in> set g \<Longrightarrow> m ! j = ms ! j" using assms by simp
  show ?thesis
  proof (cases "\<exists>i v. group_images ms g = [i] \<and> group_videos lower ms g = [v]")
    case True
    then obtain i v where iv: "group_images ms g = [i]" "group_videos lower ms g = [v]" by blast
    then have "i \<in> set (group_images ms g)" "v \<in> set (group_videos lower ms g)" by simp_all
    then have "i \<in> set g" "v \<in> set g" and ne: "i \<noteq> v" by (auto simp: group_images_def group_videos_def)
    then have "i < length m" "v < length m" "m ! i = ms ! i" "m ! v = ms ! v" using assms(1) by auto
    then show ?thesis
      using iv ne same assms(2) \<open>i \<in> set g\<close> \<open>v \<in> set g\<close>
      by (auto simp: pair_group_def live_mark_def live_pair_id_def images videos Let_def nth_list_update)
  next
    case False
    then have "pair_group hex lower g m = m" "live_mark hex lower ms g j = ms ! j"
      by (auto simp: pair_group_def live_mark_def images videos Let_def split: list.splits)
    then show ?thesis using same by simp
  qed
qed

lemma fold_pair_group_nth:
  assumes "distinct (map fst es)" "\<forall>e \<in> set es. \<forall>i \<in> set (snd e). key i = fst e \<and> i < length m"
    "\<forall>i < length m. key i \<in> fst ` set es \<longrightarrow> m ! i = ms ! i" "j < length m"
  shows "fold (pair_group hex lower) (map snd es) m ! j =
      (case map_of es (key j) of Some g \<Rightarrow> if j \<in> set g then live_mark hex lower ms g j else m ! j | None \<Rightarrow> m ! j)"
  using assms
proof (induction es arbitrary: m)
  case (Cons e es)
  let ?m = "pair_group hex lower (snd e) m"
  have first: "\<And>i. i < length m \<Longrightarrow> ?m ! i = (if i \<in> set (snd e) then live_mark hex lower ms (snd e) i else m ! i)"
    using Cons.prems by (intro pair_group_nth) auto
  have rest: "\<forall>i < length m. key i \<in> fst ` set es \<longrightarrow> ?m ! i = ms ! i"
    using Cons.prems(1-3) by (auto simp: first)
  have "fold (pair_group hex lower) (map snd es) ?m ! j =
      (case map_of es (key j) of Some g \<Rightarrow> if j \<in> set g then live_mark hex lower ms g j else ?m ! j | None \<Rightarrow> ?m ! j)"
    using Cons.prems rest by (intro Cons.IH) auto
  moreover have "key j = fst e \<Longrightarrow> map_of es (key j) = None" "j \<in> set (snd e) \<Longrightarrow> key j = fst e"
    using Cons.prems(1,2) by (auto simp: map_of_eq_None_iff)
  ultimately show ?case
    using first [of j] Cons.prems(4) by (cases e) (auto split: option.split)
qed simp

definition live_group :: "'p DiscoveredMedia list \<Rightarrow> nat \<Rightarrow> nat list" where
  "live_group ms j = filter (\<lambda>i. live_key (ms ! i) = live_key (ms ! j)) [0..<length ms]"

lemma fold_pair_group_length: "length (fold (pair_group hex lower) gs m) = length m"
  by (induction gs arbitrary: m) simp_all

lemma reconcile_live_photos_nth:
  assumes "j < length ms"
  shows "reconcile_live_photos hex lower ms ! j = live_mark hex lower ms (live_group ms j) j"
proof -
  let ?es = "group_by (\<lambda>i. live_key (ms ! i)) (\<lambda>i. i) [0..<length ms]"
  have "btm_get ?es (live_key (ms ! j)) = Some (live_group ms j)"
    using assms by (auto simp: group_by_get Let_def live_group_def filter_empty_conv)
  moreover have "j \<in> set (live_group ms j)" using assms by (simp add: live_group_def)
  moreover have "fold (pair_group hex lower) (map snd ?es) ms ! j =
      (case map_of ?es (live_key (ms ! j)) of Some g \<Rightarrow> if j \<in> set g then live_mark hex lower ms g j else ms ! j | None \<Rightarrow> ms ! j)"
    using assms by (intro fold_pair_group_nth) (auto simp: btm_wf_distinct group_by_entry)
  ultimately show ?thesis by (simp add: reconcile_live_photos_def)
qed

lemma reconcile_live_photos_length [simp]: "length (reconcile_live_photos hex lower ms) = length ms"
  by (simp add: reconcile_live_photos_def fold_pair_group_length)

lemma live_mark_core: "media_core (live_mark hex lower ms g j) = media_core (ms ! j)"
  by (auto simp: live_mark_def split: list.split)

lemma live_mark_named: "rules_named (live_mark hex lower ms g j) = rules_named (ms ! j)"
  by (auto simp: live_mark_def split: list.split)

lemma reconcile_live_photos_media:
  "map media_core (reconcile_live_photos hex lower ms) = map media_core ms"
  "list_all rules_named ms \<Longrightarrow> list_all rules_named (reconcile_live_photos hex lower ms)"
  by (auto simp: reconcile_live_photos_nth live_mark_core live_mark_named list_all_length intro!: nth_equalityI)

section \<open>Framing\<close>

text \<open>Each field is preceded by its length, so different field lists give different byte strings.\<close>

definition from_le_bytes :: "string \<Rightarrow> nat" where
  "from_le_bytes bs = foldr (\<lambda>c n. byte_of c + 256 * n) bs 0"

lemma from_le_digits: "from_le_bytes (map (\<lambda>k. char_of ((n div 256 ^ k) mod 256)) [0..<d]) = n mod 256 ^ d"
proof (induction d arbitrary: n)
  case (Suc d)
  have "from_le_bytes (map (\<lambda>k. char_of ((n div 256 ^ k) mod 256)) [0..<Suc d])
      = n mod 256 + 256 * from_le_bytes (map (\<lambda>k. char_of ((n div 256 div 256 ^ k) mod 256)) [0..<d])"
    by (simp add: upt_conv_Cons map_Suc_upt [symmetric] comp_def from_le_bytes_def div_mult2_eq del: upt_Suc)
  also have "\<dots> = n mod 256 + 256 * (n div 256 mod 256 ^ d)" by (simp only: Suc.IH)
  also have "\<dots> = n mod 256 ^ Suc d" by (simp add: mod_mult2_eq)
  finally show ?case .
qed (simp add: from_le_bytes_def)

lemma field_bytes_inject:
  assumes "field_bytes x @ r = field_bytes y @ s" "length x < 2 ^ 64" "length y < 2 ^ 64"
  shows "x = y \<and> r = s"
proof -
  have len: "length (usize_to_le_bytes n) = 8" for n by (simp add: usize_to_le_bytes_def)
  from assms(1) have eq: "usize_to_le_bytes (length x) = usize_to_le_bytes (length y)" "x @ r = y @ s"
    using len by (simp_all add: field_bytes_def)
  have "n = from_le_bytes (usize_to_le_bytes n)" if "n < 2 ^ 64" for n
    unfolding usize_to_le_bytes_def from_le_digits using that by simp
  then have "length x = length y" using assms(2,3) eq(1) by metis
  with eq(2) show ?thesis by simp
qed

lemma fields_inject:
  assumes "concat (map field_bytes xs) = concat (map field_bytes ys)"
    "\<forall>x \<in> set xs. length x < 2 ^ 64" "\<forall>y \<in> set ys. length y < 2 ^ 64"
  shows "xs = ys"
  using assms
proof (induction xs arbitrary: ys)
  case Nil
  then show ?case by (cases ys) (auto simp: field_bytes_def usize_to_le_bytes_def)
next
  case (Cons x xs)
  then obtain y ys' where "ys = y # ys'" by (cases ys) (auto simp: field_bytes_def usize_to_le_bytes_def)
  with Cons field_bytes_inject [of x "concat (map field_bytes xs)" y "concat (map field_bytes ys')"]
  show ?case by simp
qed

section \<open>The plan validates\<close>

text \<open>What discovery establishes of a medium (schema version and digests apart), and what it needs
  for its identifier: fields whose lengths fit a machine word.\<close>

definition media_ready :: "rfc3339 \<Rightarrow> u32 \<Rightarrow> 'p DiscoveredMedia \<Rightarrow> bool" where
  "media_ready rfc schema m \<longleftrightarrow>
     dm_relative_path m \<noteq> [] \<and> length (dm_relative_path m) < 2 ^ 64 \<and> length (dm_content_sha256 m) = 64 \<and> rules_named m \<and>
     (\<forall>n. dm_normalized_metadata m = Some n \<longrightarrow> schema \<noteq> 1 \<and> NormalizedMetadata_is_valid rfc n)"

text \<open>The byte string an operation identifier is the digest of.\<close>

definition operation_bytes :: "'p DiscoveredMedia \<Rightarrow> string" where
  "operation_bytes m = concat (map field_bytes [''normalized-plan-operation-v1'', dm_relative_path m, dm_content_sha256 m,
       u64_to_string (dm_byte_len m)])"

lemma show_nat_length: "0 \<le> n \<Longrightarrow> n < 10 ^ Suc d \<Longrightarrow> length (show_nat n) \<le> Suc d"
proof (induction d arbitrary: n)
  case 0
  then show ?case by (simp add: show_nat.simps [of n])
next
  case (Suc d)
  then have "length (show_nat (n div 10)) \<le> Suc d" by (intro Suc.IH) (auto simp: div_less_iff_less_mult)
  then show ?case by (simp add: show_nat.simps [of n])
qed

lemma u64_to_string_length: "length (u64_to_string n) \<le> 20"
proof -
  have "uint n < 2 ^ 64" using uint_lt2p [of n] by simp
  then have "uint n < 10 ^ Suc 19" by simp
  then show ?thesis using show_nat_length [of "uint n" 19] by (simp add: u64_to_string_def)
qed

lemma operation_bytes_path:
  assumes "operation_bytes m = operation_bytes m'" "media_ready rfc schema m" "media_ready rfc schema m'"
  shows "dm_relative_path m = dm_relative_path m'"
proof -
  have "length (u64_to_string n) < 2 ^ 64" for n using u64_to_string_length [of n] by (simp add: le_less_trans)
  then show ?thesis
    using assms fields_inject [OF assms(1) [unfolded operation_bytes_def]] by (simp add: media_ready_def)
qed

lemma finalize_plan_ok:
  assumes ready: "\<forall>m \<in> set (ss_media st). media_ready rfc schema m"
    and paths: "distinct (map dm_relative_path (ss_media st))"
    and sorted: "sorted (map pd_key (ss_warnings st))" "sorted (map pd_key (ss_errors st))"
    and source: "schema_source_ok schema kind" "label \<noteq> []"
    and hex: "\<And>bytes. length (hex bytes) = 64" "inj_on hex (operation_bytes ` set (ss_media st))"
  shows "normalized_plan_ok rfc (finalize_plan hex schema kind label config st)"
proof -
  let ?ms = "ss_media st" and ?as = "sort_key ca_relative_path (map (candidate_asset hex) (ss_media st))"
  have id: "media_operation_id hex m = hex (operation_bytes m)" for m
    by (simp add: media_operation_id_def sha256_fields_def operation_bytes_def)
  have "inj_on (\<lambda>m. hex (operation_bytes m)) (set ?ms)"
  proof (rule inj_onI)
    fix x y assume x: "x \<in> set ?ms" and y: "y \<in> set ?ms" and "hex (operation_bytes x) = hex (operation_bytes y)"
    then have "operation_bytes x = operation_bytes y" using hex(2) by (simp add: inj_on_def)
    then have "dm_relative_path x = dm_relative_path y" using ready x y by (auto intro: operation_bytes_path)
    then show "x = y" using paths x y by (auto simp: distinct_map inj_on_def)
  qed
  then have ids: "distinct (map ca_operation_id (map (candidate_asset hex) ?ms))"
    using paths by (simp add: candidate_asset_def id comp_def distinct_map)
  have "mset (map ca_operation_id ?as) = mset (map ca_operation_id (map (candidate_asset hex) ?ms))" by (simp only: mset_map mset_sort)
  then have ids': "distinct (map ca_operation_id ?as)" using ids mset_eq_imp_distinct_iff by blast
  have "distinct (map ca_relative_path (map (candidate_asset hex) ?ms))" using paths by (simp add: candidate_asset_def comp_def)
  moreover have "mset (map ca_relative_path ?as) = mset (map ca_relative_path (map (candidate_asset hex) ?ms))" by (simp only: mset_map mset_sort)
  ultimately have "distinct (map ca_relative_path ?as)" using mset_eq_imp_distinct_iff by blast
  then have paths': "sorted_wrt (<) (map ca_relative_path ?as)" by (simp add: strict_sorted_iff)
  have "candidate_asset_ok rfc schema (candidate_asset hex m)" if "m \<in> set ?ms" for m
    using ready that hex(1) by (auto simp: candidate_asset_ok_def candidate_asset_def media_ready_def rules_named_def id)
  then show ?thesis
    using ids' paths' sorted source hex(1)
    by (auto simp: normalized_plan_ok_def finalize_plan_def Let_def sidecar_count_def source_fingerprint_def)
qed

section \<open>Reconciliation as a whole\<close>

lemma reconcile_prepare_media:
  "mset (ss_media (reconcile_prepare st)) = mset (filter (\<lambda>m. dm_relative_path m \<notin> set (unicode_collisions st)) (ss_media st))"
  "distinct (scan_paths (reconcile_prepare st))"
proof -
  let ?r = "remove_unicode_collisions st"
  show "mset (ss_media (reconcile_prepare st)) = mset (filter (\<lambda>m. dm_relative_path m \<notin> set (unicode_collisions st)) (ss_media st))"
    by (simp add: reconcile_prepare_def Let_def remove_unicode_collisions_eq)
  have "mset (scan_paths (reconcile_prepare st)) = mset (scan_paths ?r)"
    by (simp add: reconcile_prepare_def Let_def scan_paths_def)
  then show "distinct (scan_paths (reconcile_prepare st))"
    using remove_unicode_collisions_distinct mset_eq_imp_distinct_iff by blast
qed

lemma map_media_core_paths:
  "map media_core ms = map media_core ms' \<Longrightarrow> map dm_relative_path ms = map dm_relative_path ms'"
proof -
  have "map (dm_relative_path \<circ> media_core) ms = map dm_relative_path ms" for ms :: "'a DiscoveredMedia list"
    by (simp add: media_core_def)
  then show "map media_core ms = map media_core ms' \<Longrightarrow> map dm_relative_path ms = map dm_relative_path ms'" by (metis map_map)
qed

lemma reconcile_core: "map media_core (ss_media (reconcile hex lower st)) = map media_core (ss_media (reconcile_prepare st))"
proof -
  have "map (\<lambda>m. media_core (canonical_media m)) ms = map media_core ms" for ms :: "'a DiscoveredMedia list" by simp
  then show ?thesis
    by (simp add: reconcile_def reconcile_complete_def Let_def comp_def reconcile_live_photos_media(1) reconcile_sidecars_media(1))
qed

lemma reconcile_sidecars_kept: "ss_sidecars (reconcile hex lower st) = ss_sidecars (reconcile_prepare st)"
  by (simp add: reconcile_def reconcile_complete_def Let_def reconcile_sidecars_media)

lemma reconcile_paths_distinct: "distinct (scan_paths (reconcile hex lower st))"
proof -
  have "scan_paths (reconcile hex lower st) = scan_paths (reconcile_prepare st)"
    using map_media_core_paths [OF reconcile_core] by (simp add: scan_paths_def reconcile_sidecars_kept)
  then show ?thesis by (simp add: reconcile_prepare_media(2))
qed

lemma sorted_canonical: "sorted (map pd_key (canonical_diagnostics ds))"
proof -
  have "sorted (map f (remdups_adj xs))" if "sorted (map f xs)" for f :: "PlanDiagnostic \<Rightarrow> string \<times> string \<times> string list" and xs
    using that by (induction xs rule: remdups_adj.induct) auto
  then show ?thesis by (simp add: canonical_diagnostics_def)
qed

lemma media_ready_core:
  "media_core m = media_core m' \<Longrightarrow> rules_named m' \<Longrightarrow> media_ready rfc schema m \<Longrightarrow> media_ready rfc schema m'"
  using media_core_fields [of m m'] by (simp add: media_ready_def)

lemma reconcile_origin:
  assumes "m \<in> set (ss_media (reconcile hex lower st))"
  obtains m0 where "m0 \<in> set (ss_media st)" "media_core m = media_core m0"
proof -
  have "media_core m \<in> set (map media_core (ss_media (reconcile_prepare st)))"
    using assms reconcile_core [of hex lower st] by (metis image_eqI set_map)
  moreover have "set (ss_media (reconcile_prepare st)) \<subseteq> set (ss_media st)"
    using mset_eq_setD [OF reconcile_prepare_media(1), of st] by auto
  ultimately show ?thesis using that by auto
qed

lemma reconcile_ready:
  assumes "\<forall>m \<in> set (ss_media st). media_ready rfc schema m"
  shows "\<forall>m \<in> set (ss_media (reconcile hex lower st)). media_ready rfc schema m"
proof
  fix m assume m: "m \<in> set (ss_media (reconcile hex lower st))"
  then obtain m0 where m0: "m0 \<in> set (ss_media st)" "media_core m = media_core m0" by (rule reconcile_origin)
  have "list_all rules_named (ss_media (reconcile_prepare st))"
    using assms mset_eq_setD [OF reconcile_prepare_media(1), of st] by (auto simp: list_all_iff media_ready_def)
  then have "list_all rules_named (reconcile_live_photos hex lower (ss_media (reconcile_sidecars (reconcile_prepare st))))"
    by (simp add: reconcile_live_photos_media(2) reconcile_sidecars_media(2))
  then have "list_all rules_named (ss_media (reconcile hex lower st))"
    by (simp add: reconcile_def reconcile_complete_def Let_def list_all_iff)
  then show "media_ready rfc schema m"
    using m m0 assms media_ready_core [of m0 m] by (simp add: list_all_iff)
qed

lemma operation_bytes_core: "media_core m = media_core m' \<Longrightarrow> operation_bytes m = operation_bytes m'"
  using media_core_fields [of m m'] by (simp add: operation_bytes_def)

lemma reconciled_plan_ok:
  assumes "\<forall>m \<in> set (ss_media st). media_ready rfc schema m" "schema_source_ok schema kind" "label \<noteq> []"
    "\<And>bytes. length (hex bytes) = 64" "inj_on hex (operation_bytes ` set (ss_media st))"
  shows "normalized_plan_ok rfc (finalize_plan hex schema kind label config (reconcile hex lower st))"
proof (rule finalize_plan_ok)
  show "distinct (map dm_relative_path (ss_media (reconcile hex lower st)))"
    using reconcile_paths_distinct [of hex lower st] by (simp add: scan_paths_def)
  show "inj_on hex (operation_bytes ` set (ss_media (reconcile hex lower st)))"
    by (rule inj_on_subset [OF assms(5)]) (auto elim!: reconcile_origin dest!: operation_bytes_core)
qed (use assms reconcile_ready [OF assms(1)] in \<open>auto simp: reconcile_def reconcile_complete_def Let_def sorted_canonical\<close>)

section \<open>Pairs are one to one\<close>

definition live_pair :: "(string \<Rightarrow> string) \<Rightarrow> 'p DiscoveredMedia list \<Rightarrow> nat \<Rightarrow> nat \<Rightarrow> bool" where
  "live_pair lower ms i v \<longleftrightarrow> i < length ms \<and> v < length ms \<and> i \<noteq> v \<and> live_key (ms ! v) = live_key (ms ! i) \<and>
     group_images ms (live_group ms i) = [i] \<and> group_videos lower ms (live_group ms i) = [v]"

lemma live_group_key: "live_key (ms ! i) = live_key (ms ! j) \<Longrightarrow> live_group ms i = live_group ms j"
  by (simp add: live_group_def)

lemma live_pairI:
  assumes "j < length ms" "group_images ms (live_group ms j) = [i]" "group_videos lower ms (live_group ms j) = [v]"
  shows "live_pair lower ms i v"
proof -
  have "i \<in> set (group_images ms (live_group ms j))" "v \<in> set (group_videos lower ms (live_group ms j))" using assms by simp_all
  then have i: "i \<in> set (live_group ms j)" "dm_kind (ms ! i) = MediaImage"
    and v: "v \<in> set (live_group ms j)" "dm_kind (ms ! v) = MediaVideo"
    by (simp_all add: group_images_def group_videos_def)
  then have *: "i < length ms" "v < length ms" "i \<noteq> v" "live_key (ms ! i) = live_key (ms ! j)" "live_key (ms ! v) = live_key (ms ! j)"
    unfolding live_group_def by auto
  then have "live_group ms i = live_group ms j" by (intro live_group_key)
  with * assms show ?thesis by (simp add: live_pair_def)
qed

text \<open>Who becomes a member of which live photo.\<close>

lemma live_photo_member_iff:
  assumes "j < length ms" "dm_live_photo (ms ! j) = None"
  shows "dm_live_photo (reconcile_live_photos hex lower ms ! j) = Some \<lparr>lp_pair_id = p, lp_role = r\<rparr> \<longleftrightarrow>
     (\<exists>i v. live_pair lower ms i v \<and> p = live_pair_id hex (ms ! i) (ms ! v) \<and>
        (r = RoleImage \<and> j = i \<or> r = RoleVideo \<and> j = v))"
    (is "?L \<longleftrightarrow> ?R")
proof
  assume ?L
  then obtain i v where "group_images ms (live_group ms j) = [i]" "group_videos lower ms (live_group ms j) = [v]"
      "p = live_pair_id hex (ms ! i) (ms ! v)" "r = RoleImage \<and> j = i \<or> r = RoleVideo \<and> j = v"
    using assms by (auto simp: reconcile_live_photos_nth live_mark_def mark_live_def split: list.splits if_splits)
  then show ?R using live_pairI [OF assms(1)] by blast
next
  assume ?R
  then obtain i v where iv: "live_pair lower ms i v" "p = live_pair_id hex (ms ! i) (ms ! v)"
    "r = RoleImage \<and> j = i \<or> r = RoleVideo \<and> j = v" by blast
  then have "live_group ms j = live_group ms i" by (auto simp: live_pair_def intro: live_group_key)
  then show ?L
    using iv assms(1) by (auto simp: reconcile_live_photos_nth live_mark_def mark_live_def live_pair_def)
qed

definition pair_bytes :: "string \<Rightarrow> string \<Rightarrow> string" where
  "pair_bytes i v = concat (map field_bytes [''live-photo-v1'', i, v])"

definition is_member :: "string \<Rightarrow> LivePhotoRole \<Rightarrow> LivePhotoMember option \<Rightarrow> bool" where
  "is_member p r lp \<longleftrightarrow> lp = Some \<lparr>lp_pair_id = p, lp_role = r\<rparr>"

text \<open>Every pair identifier in use has exactly one still image and one motion video.\<close>

definition live_pairs_ok :: "LivePhotoMember option list \<Rightarrow> bool" where
  "live_pairs_ok ls \<longleftrightarrow> (\<forall>p r. (\<exists>l \<in> set ls. is_member p r l) \<longrightarrow>
     length (filter (is_member p RoleImage) ls) = 1 \<and> length (filter (is_member p RoleVideo) ls) = 1)"

lemma pair_bytes_inject:
  assumes "pair_bytes i v = pair_bytes i' v'" "length i < 2 ^ 64" "length v < 2 ^ 64" "length i' < 2 ^ 64" "length v' < 2 ^ 64"
  shows "i = i' \<and> v = v'"
proof -
  have "[''live-photo-v1'', i, v] = [''live-photo-v1'', i', v']"
    by (rule fields_inject [OF assms(1) [unfolded pair_bytes_def]]) (use assms(2-5) in simp_all)
  then show ?thesis by simp
qed

lemma live_pair_id_inject:
  assumes "live_pair lower ms i v" "live_pair lower ms i' v'" "distinct (map dm_relative_path ms)"
    "\<forall>m \<in> set ms. length (dm_relative_path m) < 2 ^ 64"
    "inj_on hex {pair_bytes (dm_relative_path a) (dm_relative_path b) |a b. a \<in> set ms \<and> b \<in> set ms}"
    "live_pair_id hex (ms ! i) (ms ! v) = live_pair_id hex (ms ! i') (ms ! v')"
  shows "i = i' \<and> v = v'"
proof -
  let ?p = "\<lambda>k. dm_relative_path (ms ! k)"
  have r: "i < length ms" "v < length ms" "i' < length ms" "v' < length ms" using assms(1,2) by (auto simp: live_pair_def)
  then have m: "ms ! i \<in> set ms" "ms ! v \<in> set ms" "ms ! i' \<in> set ms" "ms ! v' \<in> set ms" by simp_all
  have "hex (pair_bytes (?p i) (?p v)) = hex (pair_bytes (?p i') (?p v'))"
    using assms(6) by (simp only: live_pair_id_def sha256_fields_def pair_bytes_def)
  then have "pair_bytes (?p i) (?p v) = pair_bytes (?p i') (?p v')"
    by (rule inj_onD [OF assms(5)]) (use m in blast)+
  then have "?p i = ?p i' \<and> ?p v = ?p v'" by (rule pair_bytes_inject) (use assms(4) m in blast)+
  then show ?thesis using r nth_eq_iff_index_eq [OF assms(3)] by simp
qed

lemma reconcile_live_pairs:
  assumes "\<forall>m \<in> set ms. dm_live_photo m = None \<and> length (dm_relative_path m) < 2 ^ 64" "distinct (map dm_relative_path ms)"
    "inj_on hex {pair_bytes (dm_relative_path a) (dm_relative_path b) |a b. a \<in> set ms \<and> b \<in> set ms}"
  shows "live_pairs_ok (map dm_live_photo (reconcile_live_photos hex lower ms))"
  unfolding live_pairs_ok_def
proof (intro allI impI)
  fix p r
  let ?R = "reconcile_live_photos hex lower ms" and ?ls = "map dm_live_photo (reconcile_live_photos hex lower ms)"
  have mem: "is_member p r (?ls ! j) \<longleftrightarrow> (\<exists>i v. live_pair lower ms i v \<and> p = live_pair_id hex (ms ! i) (ms ! v) \<and>
        (r = RoleImage \<and> j = i \<or> r = RoleVideo \<and> j = v))" if "j < length ms" for j r
    using live_photo_member_iff [OF that, of hex lower p r] assms(1) that by (simp add: is_member_def)
  assume "\<exists>l \<in> set ?ls. is_member p r l"
  then obtain i v where iv: "live_pair lower ms i v" "p = live_pair_id hex (ms ! i) (ms ! v)"
    using mem [of _ r] by (auto simp: in_set_conv_nth)
  have uniq: "i' = i \<and> v' = v" if "live_pair lower ms i' v'" "p = live_pair_id hex (ms ! i') (ms ! v')" for i' v'
    using live_pair_id_inject [OF that(1) iv(1) assms(2) _ assms(3)] assms(1) that(2) iv(2) by simp
  have range: "i < length ms" "v < length ms" using iv(1) by (simp_all add: live_pair_def)
  have "is_member p RoleImage (?ls ! j) \<longleftrightarrow> j = i" "is_member p RoleVideo (?ls ! j) \<longleftrightarrow> j = v" if "j < length ms" for j
    unfolding mem [OF that] using iv uniq by blast+
  then have "{j. j < length ?ls \<and> is_member p RoleImage (?ls ! j)} = {i}" "{j. j < length ?ls \<and> is_member p RoleVideo (?ls ! j)} = {v}"
    using range by auto
  then show "length (filter (is_member p RoleImage) ?ls) = 1 \<and> length (filter (is_member p RoleVideo) ?ls) = 1"
    by (simp add: length_filter_conv_card)
qed

text \<open>The same for a whole reconciled state.\<close>

lemma reconcile_sidecars_live:
  "list_all (\<lambda>m. dm_live_photo m = None) (ss_media st) \<Longrightarrow> list_all (\<lambda>m. dm_live_photo m = None) (ss_media (reconcile_sidecars st))"
proof -
  have step: "list_all (\<lambda>m. dm_live_photo m = None) (ss_media (reconcile_sidecar s st))"
    if "list_all (\<lambda>m. dm_live_photo m = None) (ss_media st)" for s and st :: "'a ScanState"
    using that
    by (cases rule: reconcile_sidecar_cases [of st s])
      (simp_all add: update_media_def push_warning_def push_error_def list_all_length nth_list_update attach_sidecar_def)
  have "list_all (\<lambda>m. dm_live_photo m = None) (ss_media (fold reconcile_sidecar ss st))"
    if "list_all (\<lambda>m. dm_live_photo m = None) (ss_media st)" for ss and st :: "'a ScanState"
    using that by (induction ss arbitrary: st) (simp_all add: step)
  then show "list_all (\<lambda>m. dm_live_photo m = None) (ss_media st) \<Longrightarrow> ?thesis" by (simp add: reconcile_sidecars_def)
qed

lemma live_pairs_ok_mset: "mset xs = mset ys \<Longrightarrow> live_pairs_ok xs = live_pairs_ok ys"
  unfolding live_pairs_ok_def by (metis mset_eq_setD mset_filter size_mset)

lemma reconcile_live_photo_list:
  "map dm_live_photo (ss_media (reconcile hex lower st)) =
     map dm_live_photo (reconcile_live_photos hex lower (ss_media (reconcile_sidecars (reconcile_prepare st))))"
  by (simp add: reconcile_def reconcile_complete_def Let_def canonical_media_def)

lemma reconcile_pairs_ok:
  assumes fresh: "\<forall>m \<in> set (ss_media st). dm_live_photo m = None \<and> length (dm_relative_path m) < 2 ^ 64"
    and inj: "inj_on hex {pair_bytes p q |p q. p \<in> set (map dm_relative_path (ss_media (reconcile hex lower st)))
        \<and> q \<in> set (map dm_relative_path (ss_media (reconcile hex lower st)))}"
  shows "live_pairs_ok (map dm_live_photo (ss_media (reconcile hex lower st)))"
proof -
  let ?ms = "ss_media (reconcile_sidecars (reconcile_prepare st))"
  have sub: "set (ss_media (reconcile_prepare st)) \<subseteq> set (ss_media st)"
    using mset_eq_setD [OF reconcile_prepare_media(1), of st] by auto
  have paths: "map dm_relative_path ?ms = map dm_relative_path (ss_media (reconcile_prepare st))"
    by (rule map_media_core_paths) (rule reconcile_sidecars_media(1))
  have paths': "map dm_relative_path (ss_media (reconcile hex lower st)) = map dm_relative_path ?ms"
    using map_media_core_paths [OF reconcile_core, of hex lower st] paths by simp
  have "\<forall>m \<in> set ?ms. dm_live_photo m = None"
    using reconcile_sidecars_live [of "reconcile_prepare st"] sub fresh by (auto simp: list_all_iff)
  moreover have "dm_relative_path m \<in> set (map dm_relative_path (ss_media (reconcile_prepare st)))" if "m \<in> set ?ms" for m
    unfolding paths [symmetric] using that by simp
  then have "\<forall>m \<in> set ?ms. length (dm_relative_path m) < 2 ^ 64" using sub fresh by fastforce
  moreover have "distinct (map dm_relative_path ?ms)"
    unfolding paths using reconcile_prepare_media(2) [of st] by (simp add: scan_paths_def)
  moreover have "inj_on hex {pair_bytes (dm_relative_path a) (dm_relative_path b) |a b. a \<in> set ?ms \<and> b \<in> set ?ms}"
    by (rule inj_on_subset [OF inj]) (auto simp: paths' simp del: set_map; auto)
  ultimately show ?thesis
    unfolding reconcile_live_photo_list by (intro reconcile_live_pairs) auto
qed

end
