(* ===== verification/Source_Discovery.thy ===== *)
theory Source_Discovery
  imports Source_Plan
begin

text \<open>
  \<open>immich-sources/src/discovery.rs\<close> and \<open>identity.rs\<close>, with \<open>scan_resolved_internal\<close> of \<open>lib.rs\<close>: the
  bounded depth-first walk over a directory tree, the streaming read of every supported file
  and the folder scan built on them. The file system, the cancellation flag and the observers
  are functions on an abstract world that may change between any two calls; nothing is assumed
  of them. A native path is the list of its components. SHA-256, SHA-1 with Base64, Unicode
  lower-casing and normalization form C are parameters.
\<close>

section \<open>The outside world\<close>

type_synonym native = "string list"

datatype FileType = TypeDir | TypeSymlink | TypeFile | TypeOther

text \<open>Times are nanoseconds since the Unix epoch; \<open>None\<close> when the platform has none.\<close>

record FileMetadata =
  fm_type :: FileType
  fm_len :: u64
  fm_modified :: "int option"
  fm_created :: "int option"
  fm_mode :: u32
  fm_dev :: u64
  fm_ino :: u64

record 'w scan_io =
  io_cancelled :: "'w \<Rightarrow> bool \<times> 'w"
  io_read_dir :: "native \<Rightarrow> 'w \<Rightarrow> (native, unit) result list option \<times> 'w"
  io_symlink_metadata :: "native \<Rightarrow> 'w \<Rightarrow> FileMetadata option \<times> 'w"
  io_metadata :: "native \<Rightarrow> 'w \<Rightarrow> FileMetadata option \<times> 'w"
  io_open :: "native \<Rightarrow> 'w \<Rightarrow> nat option \<times> 'w"
  io_file_metadata :: "nat \<Rightarrow> 'w \<Rightarrow> FileMetadata option \<times> 'w"
  io_read :: "nat \<Rightarrow> nat \<Rightarrow> 'w \<Rightarrow> string option \<times> 'w"
  io_before_read :: "native \<Rightarrow> 'w \<Rightarrow> 'w"
  io_observe :: "ProgressEvent \<Rightarrow> 'w \<Rightarrow> 'w"

text \<open>The digests and Unicode tables.\<close>

record scan_tables =
  tb_hex_sha256 :: "string \<Rightarrow> string"
  tb_sha1_base64 :: "string \<Rightarrow> string"
  tb_to_lowercase :: "string \<Rightarrow> string"
  tb_nfc :: "string \<Rightarrow> string"
  tb_rfc3339 :: rfc3339

section \<open>Content identity\<close>

record FileSnapshot =
  sn_len :: u64
  sn_modified_nanos :: "int option"
  sn_platform_identity :: "u64 \<times> u64"

definition FileSnapshot_from_metadata :: "FileMetadata \<Rightarrow> FileSnapshot" where
  "FileSnapshot_from_metadata m =
     \<lparr>sn_len = fm_len m,
      sn_modified_nanos = Option.bind (fm_modified m) (\<lambda>t. if 0 \<le> t then Some t else None),
      sn_platform_identity = (fm_dev m, fm_ino m)\<rparr>"

definition lacks_read_permissions :: "FileMetadata \<Rightarrow> bool" where
  "lacks_read_permissions m \<longleftrightarrow> and (fm_mode m) 292 = 0"

datatype StreamError = StreamCancelled | StreamUnreadable

text \<open>The read loop; a read fills at most the buffer it is given.\<close>

function read_loop ::
  "'w scan_io \<Rightarrow> nat \<Rightarrow> nat \<Rightarrow> nat \<Rightarrow> string \<Rightarrow> 'w \<Rightarrow> (string, StreamError) result \<times> 'w" where
  "read_loop io handle buffer_bytes file_len content w =
     (if length content < file_len then
        let (cancelled, w1) = io_cancelled io w in
        if cancelled then (Err StreamCancelled, w1)
        else
          let read_limit = min (file_len - length content) buffer_bytes in
          case io_read io handle read_limit w1 of
            (None, w2) \<Rightarrow> (Err StreamUnreadable, w2)
          | (Some bytes, w2) \<Rightarrow>
              (let chunk = take read_limit bytes in
               if chunk = [] then (Ok content, w2)
               else if length content + length chunk > u64_max then (Err StreamUnreadable, w2)
               else read_loop io handle buffer_bytes file_len (content @ chunk) w2)
      else (Ok content, w))"
  by pat_completeness auto
termination
  by (relation "measure (\<lambda>(io, handle, buffer_bytes, file_len, content, w). file_len - length content)")
    (auto simp flip: length_greater_0_conv)

declare read_loop.simps [simp del]

definition stream_identity ::
  "scan_tables \<Rightarrow> 'w scan_io \<Rightarrow> native \<Rightarrow> FileMetadata \<Rightarrow> nat \<Rightarrow> 'w
     \<Rightarrow> (u64 \<times> string \<times> string \<times> bool, StreamError) result \<times> 'w" where
  "stream_identity tb io path discovered_metadata buffer_bytes w =
     (if lacks_read_permissions discovered_metadata then (Err StreamUnreadable, w)
      else
        let before_open = FileSnapshot_from_metadata discovered_metadata in
        case io_open io path w of
          (None, w1) \<Rightarrow> (Err StreamUnreadable, w1)
        | (Some handle, w1) \<Rightarrow>
        (case io_file_metadata io handle w1 of
          (None, w2) \<Rightarrow> (Err StreamUnreadable, w2)
        | (Some opened, w2) \<Rightarrow>
        (let opened_snapshot = FileSnapshot_from_metadata opened in
         case read_loop io handle buffer_bytes (unat (sn_len opened_snapshot)) [] w2 of
          (Err e, w3) \<Rightarrow> (Err e, w3)
        | (Ok content, w3) \<Rightarrow>
        (case io_file_metadata io handle w3 of
          (None, w4) \<Rightarrow> (Err StreamUnreadable, w4)
        | (Some after_open, w4) \<Rightarrow>
        (case io_metadata io path w4 of
          (None, w5) \<Rightarrow> (Err StreamUnreadable, w5)
        | (Some after_path, w5) \<Rightarrow>
            (let bytes_read = of_nat (length content);
                 changed = (before_open \<noteq> opened_snapshot
                   \<or> opened_snapshot \<noteq> FileSnapshot_from_metadata after_open
                   \<or> opened_snapshot \<noteq> FileSnapshot_from_metadata after_path
                   \<or> bytes_read \<noteq> sn_len opened_snapshot) in
             (Ok (bytes_read, tb_hex_sha256 tb content, tb_sha1_base64 tb content, changed), w5)))))))"

section \<open>Paths\<close>

text \<open>Whether a byte string is well-formed UTF-8, as \<open>OsStr::to_str\<close> decides on Unix.\<close>

definition continuation :: "nat \<Rightarrow> nat \<Rightarrow> char \<Rightarrow> bool" where
  "continuation lo hi c \<longleftrightarrow> lo \<le> byte_of c \<and> byte_of c \<le> hi"

fun valid_utf8 :: "string \<Rightarrow> bool" where
  "valid_utf8 [] = True"
| "valid_utf8 (a # s) =
     (let n = byte_of a in
      if n < 0x80 then valid_utf8 s
      else if 0xC2 \<le> n \<and> n \<le> 0xDF then
        (case s of b # t \<Rightarrow> continuation 0x80 0xBF b \<and> valid_utf8 t | [] \<Rightarrow> False)
      else if 0xE0 \<le> n \<and> n \<le> 0xEF then
        (case s of b # c # t \<Rightarrow>
            continuation (if n = 0xE0 then 0xA0 else 0x80) (if n = 0xED then 0x9F else 0xBF) b
            \<and> continuation 0x80 0xBF c \<and> valid_utf8 t
         | _ \<Rightarrow> False)
      else if 0xF0 \<le> n \<and> n \<le> 0xF4 then
        (case s of b # c # d # t \<Rightarrow>
            continuation (if n = 0xF0 then 0x90 else 0x80) (if n = 0xF4 then 0x8F else 0xBF) b
            \<and> continuation 0x80 0xBF c \<and> continuation 0x80 0xBF d \<and> valid_utf8 t
         | _ \<Rightarrow> False)
      else False)"

datatype PortablePathError = PathOutsideRoot | PathNonUnicode | PathTooLong

definition path_strip_prefix :: "native \<Rightarrow> native \<Rightarrow> native option" where
  "path_strip_prefix root path = (if take (length root) path = root then Some (drop (length root) path) else None)"

definition portable_path :: "(string \<Rightarrow> string) \<Rightarrow> native \<Rightarrow> native \<Rightarrow> nat option \<Rightarrow> (string, PortablePathError) result" where
  "portable_path nfc root path max_bytes =
     and_then (ok_or (path_strip_prefix root path) PathOutsideRoot) (\<lambda>relative.
     and_then (collect_result (\<lambda>c. if valid_utf8 c then Ok (nfc c) else Err PathNonUnicode) relative) (\<lambda>components.
       let portable = join ''/'' components in
       if portable = [] then Err PathOutsideRoot
       else if is_some_and max_bytes (\<lambda>m. length portable > m) then Err PathTooLong
       else Ok portable))"

text \<open>The sort key has no length limit (\<open>usize::MAX\<close>); a path that has no portable form is sorted
  by its encoded bytes.\<close>

definition portable_sort_key :: "(string \<Rightarrow> string) \<Rightarrow> native \<Rightarrow> native \<Rightarrow> string" where
  "portable_sort_key nfc root path =
     (case portable_path nfc root path None of
        Ok portable \<Rightarrow> portable
      | Err _ \<Rightarrow> join ''/'' (case path_strip_prefix root path of None \<Rightarrow> path | Some relative \<Rightarrow> relative))"

definition portable_directory :: "(string \<Rightarrow> string) \<Rightarrow> native \<Rightarrow> native \<Rightarrow> nat \<Rightarrow> string" where
  "portable_directory nfc root path max_bytes =
     (if path = root then ''.''
      else case portable_path nfc root path (Some max_bytes) of Ok p \<Rightarrow> p | Err _ \<Rightarrow> ''<non-unicode>'')"

definition unix_millis :: "int \<Rightarrow> int option" where
  "unix_millis t = (if t < 0 then None else let ms = t div 1000000 in if ms < 2 ^ 63 then Some ms else None)"

definition validate_source_label :: "string \<Rightarrow> (unit, ScanError) result" where
  "validate_source_label label =
     (if label = [] \<or> length label > 128 \<or> any_control label
      then Err (ScanInvalidConfiguration ''source label must be 1..=128 non-control characters'') else Ok ())"

definition validate_root_and_label :: "'w scan_io \<Rightarrow> native \<Rightarrow> string \<Rightarrow> 'w \<Rightarrow> (unit, ScanError) result \<times> 'w" where
  "validate_root_and_label io root label w =
     (case validate_source_label label of
        Err e \<Rightarrow> (Err e, w)
      | Ok _ \<Rightarrow>
          (case io_symlink_metadata io root w of
             (None, w1) \<Rightarrow> (Err ScanInvalidRoot, w1)
           | (Some m, w1) \<Rightarrow> (if fm_type m = TypeDir then Ok () else Err ScanInvalidRoot, w1)))"

definition scan_check_cancelled :: "'w scan_io \<Rightarrow> 'w \<Rightarrow> (unit, ScanError) result \<times> 'w" where
  "scan_check_cancelled io w = (let (c, w1) = io_cancelled io w in (if c then Err ScanCancelled else Ok (), w1))"

definition report_progress :: "'w scan_io \<Rightarrow> ProgressStage \<Rightarrow> 'p ScanState \<Rightarrow> 'w \<Rightarrow> 'p ScanState \<times> 'w" where
  "report_progress io stage st w = (let (event, st1) = ScanState_progress stage st in (st1, io_observe io event w))"

section \<open>The walk\<close>

text \<open>Reading one directory: cancellation is checked before every entry, and the number of entries
  is bounded.\<close>

fun collect_entries ::
  "scan_tables \<Rightarrow> 'w scan_io \<Rightarrow> FolderScanConfig \<Rightarrow> native \<Rightarrow> native \<Rightarrow> (native, unit) result list \<Rightarrow> native list
     \<Rightarrow> native ScanState \<Rightarrow> 'w \<Rightarrow> (native list, ScanError) result \<times> native ScanState \<times> 'w" where
  "collect_entries tb io config root directory [] entries st w = (Ok entries, st, w)"
| "collect_entries tb io config root directory (r # rs) entries st w =
     (case scan_check_cancelled io w of
        (Err e, w1) \<Rightarrow> (Err e, st, w1)
      | (Ok _, w1) \<Rightarrow>
          if length entries \<ge> fs_max_directory_entries config
          then (Err (ScanLimitExceeded ''max_directory_entries''), st, w1)
          else case r of
            Ok path \<Rightarrow> collect_entries tb io config root directory rs (entries @ [path]) st w1
          | Err _ \<Rightarrow>
              collect_entries tb io config root directory rs entries
                (push_error (diagnostic ''FS_UNREADABLE_FILE_V1'' ''unreadable_directory_entry''
                   [portable_directory (tb_nfc tb) root directory (fs_max_path_bytes config)]) st) w1)"

definition directory_entries ::
  "scan_tables \<Rightarrow> 'w scan_io \<Rightarrow> FolderScanConfig \<Rightarrow> native \<Rightarrow> native \<Rightarrow> native ScanState \<Rightarrow> 'w
     \<Rightarrow> (native list, ScanError) result \<times> native ScanState \<times> 'w" where
  "directory_entries tb io config root directory st w =
     (case io_read_dir io directory w of
        (None, w1) \<Rightarrow>
          (Ok [], push_error (diagnostic ''FS_UNREADABLE_FILE_V1'' ''unreadable_directory''
             [portable_directory (tb_nfc tb) root directory (fs_max_path_bytes config)]) st, w1)
      | (Some rs, w1) \<Rightarrow>
          (case collect_entries tb io config root directory rs [] st w1 of
             (Err e, st1, w2) \<Rightarrow> (Err e, st1, w2)
           | (Ok entries, st1, w2) \<Rightarrow> (Ok (sort_key (portable_sort_key (tb_nfc tb) root) entries), st1, w2)))"

definition discovered_media ::
  "native \<Rightarrow> string \<Rightarrow> MediaKind \<Rightarrow> FileMetadata \<Rightarrow> u64 \<Rightarrow> string \<Rightarrow> string \<Rightarrow> native DiscoveredMedia" where
  "discovered_media path relative_path kind m byte_len sha256 sha1 =
     \<lparr>dm_native_path = path, dm_archive_index = None, dm_relative_path = relative_path, dm_kind = kind,
      dm_byte_len = byte_len, dm_content_sha256 = sha256, dm_content_sha1_base64 = sha1,
      dm_created_at_unix_ms = Option.bind (fm_created m) unix_millis,
      dm_modified_at_unix_ms = Option.bind (fm_modified m) unix_millis,
      dm_metadata = [], dm_normalized_metadata = None, dm_live_photo = None,
      dm_evidence = [\<lparr>re_rule_id = ''FS_REGULAR_MEDIA_V1'', re_outcome = ''streamed_content_identity''\<rparr>]\<rparr>"

definition discovered_sidecar ::
  "native \<Rightarrow> string \<Rightarrow> MetadataKind \<Rightarrow> FileMetadata \<Rightarrow> u64 \<Rightarrow> string \<Rightarrow> string \<Rightarrow> native DiscoveredSidecar" where
  "discovered_sidecar path relative_path kind m byte_len sha256 sha1 =
     \<lparr>dsc_native_path = path, dsc_archive_index = None, dsc_relative_path = relative_path, dsc_kind = kind,
      dsc_byte_len = byte_len, dsc_content_sha256 = sha256, dsc_content_sha1_base64 = sha1,
      dsc_created_at_unix_ms = Option.bind (fm_created m) unix_millis,
      dsc_modified_at_unix_ms = Option.bind (fm_modified m) unix_millis,
      dsc_takeout_document = None, dsc_takeout_parse_error = None\<rparr>"

definition process_regular_file ::
  "scan_tables \<Rightarrow> 'w scan_io \<Rightarrow> FolderScanConfig \<Rightarrow> native \<Rightarrow> string \<Rightarrow> FileMetadata \<Rightarrow> native ScanState \<Rightarrow> 'w
     \<Rightarrow> (unit, ScanError) result \<times> native ScanState \<times> 'w" where
  "process_regular_file tb io config path relative_path m st w =
     (let media = media_kind (tb_to_lowercase tb) relative_path;
          sidecar = metadata_kind (tb_to_lowercase tb) relative_path in
      if media = None \<and> sidecar = None then (Ok (), st, w)
      else
        case stream_identity tb io path m (fs_buffer_bytes config) (io_before_read io path w) of
          (Err StreamCancelled, w1) \<Rightarrow> (Err ScanCancelled, st, w1)
        | (Err StreamUnreadable, w1) \<Rightarrow>
            (Ok (), push_error (diagnostic ''FS_UNREADABLE_FILE_V1'' ''unreadable_source_file'' [relative_path]) st, w1)
        | (Ok (byte_len, sha256, sha1, changed), w1) \<Rightarrow>
            (let st1 = st \<lparr>ss_bytes_read := saturating_add (ss_bytes_read st) byte_len\<rparr>;
                 st2 = (if changed
                        then push_error (diagnostic ''FS_SOURCE_CHANGED_V1'' ''source_changed_during_scan'' [relative_path]) st1
                        else st1);
                 st3 = (case media of
                    Some kind \<Rightarrow> st2 \<lparr>ss_media := ss_media st2 @ [discovered_media path relative_path kind m byte_len sha256 sha1]\<rparr>
                  | None \<Rightarrow>
                      (case sidecar of
                         Some kind \<Rightarrow> st2 \<lparr>ss_sidecars := ss_sidecars st2 @ [discovered_sidecar path relative_path kind m byte_len sha256 sha1]\<rparr>
                       | None \<Rightarrow> st2));
                 (st4, w2) = report_progress io ContentIdentity st3 w1 in
             (Ok (), st4, w2)))"

definition process_entry ::
  "scan_tables \<Rightarrow> 'w scan_io \<Rightarrow> FolderScanConfig \<Rightarrow> (string \<Rightarrow> string option) \<Rightarrow> native \<Rightarrow> native \<Rightarrow> native ScanState \<Rightarrow> 'w
     \<Rightarrow> (native option, ScanError) result \<times> native ScanState \<times> 'w" where
  "process_entry tb io config skip_path root path st w =
     (let portable = portable_path (tb_nfc tb) root path (Some (fs_max_path_bytes config)) in
      case io_symlink_metadata io path w of
        (None, w1) \<Rightarrow>
          (Ok None, push_error (diagnostic ''FS_UNREADABLE_FILE_V1'' ''unreadable_metadata''
             (case portable of Ok p \<Rightarrow> [p] | Err _ \<Rightarrow> [])) st, w1)
      | (Some m, w1) \<Rightarrow>
          (case portable of
             Err PathTooLong \<Rightarrow>
               (Ok None, push_error (diagnostic ''FS_PATH_LIMIT_EXCEEDED_V1'' ''portable_path_too_long'' [''<path-over-limit>'']) st, w1)
           | Err _ \<Rightarrow>
               (Ok None, push_error (diagnostic ''FS_NON_UNICODE_PATH_V1'' ''non_unicode_path'' [''<non-unicode>'']) st, w1)
           | Ok relative_path \<Rightarrow>
               (case skip_path relative_path of
                  Some diagnostic_path \<Rightarrow>
                    (Ok None, push_warning (diagnostic ''APPLE_EXPORT_NOISE_SKIPPED_V1'' ''known_apple_export_noise'' [diagnostic_path]) st, w1)
                | None \<Rightarrow>
                    (case fm_type m of
                       TypeDir \<Rightarrow> (Ok (Some path), st, w1)
                     | TypeSymlink \<Rightarrow>
                         (Ok None, push_warning (diagnostic ''FS_SYMLINK_SKIPPED_V1'' ''symlink_not_followed'' [relative_path]) st, w1)
                     | TypeFile \<Rightarrow>
                         (case process_regular_file tb io config path relative_path m st w1 of
                            (Err e, st1, w2) \<Rightarrow> (Err e, st1, w2)
                          | (Ok _, st1, w2) \<Rightarrow> (Ok None, st1, w2))
                     | TypeOther \<Rightarrow>
                         (Ok None, push_warning (diagnostic ''FS_SPECIAL_FILE_SKIPPED_V1'' ''special_file_not_read'' [relative_path]) st, w1)))))"

text \<open>The loop over the entries of one directory; \<open>directories\<close> is the stack, its top first. The
  counter of entries is a \<open>usize\<close> that saturates; it is compared with the limit after every
  step, so saturation shows only for the limit \<open>usize::MAX\<close>.\<close>

fun walk_entries ::
  "scan_tables \<Rightarrow> 'w scan_io \<Rightarrow> FolderScanConfig \<Rightarrow> (string \<Rightarrow> string option) \<Rightarrow> native \<Rightarrow> native list \<Rightarrow> native list
     \<Rightarrow> native ScanState \<Rightarrow> 'w \<Rightarrow> (native list, ScanError) result \<times> native ScanState \<times> 'w" where
  "walk_entries tb io config skip_path root [] directories st w = (Ok directories, st, w)"
| "walk_entries tb io config skip_path root (path # paths) directories st w =
     (let st1 = st \<lparr>ss_entries_seen := Suc (ss_entries_seen st)\<rparr> in
      if ss_entries_seen st1 > fs_max_entries config then (Err (ScanLimitExceeded ''max_entries''), st1, w)
      else
        case process_entry tb io config skip_path root path st1 w of
          (Err e, st2, w1) \<Rightarrow> (Err e, st2, w1)
        | (Ok child, st2, w1) \<Rightarrow>
            (let (st3, w2) = report_progress io Discovery st2 w1 in
             walk_entries tb io config skip_path root paths
               (case child of Some d \<Rightarrow> d # directories | None \<Rightarrow> directories) st3 w2))"

lemma push_simps [simp]:
  "ss_media (push_error d st) = ss_media st" "ss_media (push_warning d st) = ss_media st"
  "ss_sidecars (push_error d st) = ss_sidecars st" "ss_sidecars (push_warning d st) = ss_sidecars st"
  "ss_entries_seen (push_error d st) = ss_entries_seen st" "ss_entries_seen (push_warning d st) = ss_entries_seen st"
  by (simp_all add: push_error_def push_warning_def)

lemma report_progress_simps [simp]:
  "ss_media (fst (report_progress io stage st w)) = ss_media st"
  "ss_sidecars (fst (report_progress io stage st w)) = ss_sidecars st"
  "ss_entries_seen (fst (report_progress io stage st w)) = ss_entries_seen st"
  by (simp_all add: report_progress_def ScanState_progress_def Let_def)

text \<open>What one entry may add to the state: nothing, one medium or one sidecar, under a portable
  path within the limit and with a digest of its content.\<close>

definition media_found :: "scan_tables \<Rightarrow> FolderScanConfig \<Rightarrow> native DiscoveredMedia \<Rightarrow> bool" where
  "media_found tb config d \<longleftrightarrow>
     (\<exists>path p kind m len content sha1. p \<noteq> [] \<and> length p \<le> fs_max_path_bytes config \<and>
        d = discovered_media path p kind m len (tb_hex_sha256 tb content) sha1)"

definition sidecar_found :: "scan_tables \<Rightarrow> FolderScanConfig \<Rightarrow> native DiscoveredSidecar \<Rightarrow> bool" where
  "sidecar_found tb config d \<longleftrightarrow>
     (\<exists>path p kind m len content sha1. p \<noteq> [] \<and> length p \<le> fs_max_path_bytes config \<and>
        d = discovered_sidecar path p kind m len (tb_hex_sha256 tb content) sha1)"

definition entry_adds :: "scan_tables \<Rightarrow> FolderScanConfig \<Rightarrow> native ScanState \<Rightarrow> native ScanState \<Rightarrow> bool" where
  "entry_adds tb config st st' \<longleftrightarrow>
     ss_entries_seen st' = ss_entries_seen st \<and>
     (ss_media st' = ss_media st \<and> ss_sidecars st' = ss_sidecars st \<or>
      (\<exists>d. media_found tb config d \<and> ss_media st' = ss_media st @ [d] \<and> ss_sidecars st' = ss_sidecars st) \<or>
      (\<exists>d. sidecar_found tb config d \<and> ss_sidecars st' = ss_sidecars st @ [d] \<and> ss_media st' = ss_media st))"

lemma stream_identity_digest:
  assumes "stream_identity tb io path m n w = (Ok (len, sha256, sha1, changed), w')"
  shows "\<exists>content. sha256 = tb_hex_sha256 tb content"
  using assms by (auto simp: stream_identity_def Let_def split: if_splits prod.splits option.splits result.splits)

lemma portable_path_Ok:
  "portable_path nfc root path (Some n) = Ok p \<Longrightarrow> p \<noteq> [] \<and> length p \<le> n"
  by (auto simp: portable_path_def and_then_eq_Ok Let_def split: if_splits)

lemma process_regular_file_adds:
  assumes "process_regular_file tb io config path p m st w = (r, st', w')" "p \<noteq> []" "length p \<le> fs_max_path_bytes config"
  shows "entry_adds tb config st st'"
proof (cases "media_kind (tb_to_lowercase tb) p = None \<and> metadata_kind (tb_to_lowercase tb) p = None")
  case True
  then show ?thesis using assms by (simp add: process_regular_file_def entry_adds_def)
next
  case False
  obtain s w1 where s: "stream_identity tb io path m (fs_buffer_bytes config) (io_before_read io path w) = (s, w1)" by fastforce
  show ?thesis
  proof (cases s)
    case (Err e)
    then show ?thesis using assms(1) False s by (cases e) (auto simp: process_regular_file_def entry_adds_def Let_def)
  next
    case (Ok x)
    obtain len sha256 sha1 changed where x: "x = (len, sha256, sha1, changed)" by (cases x) auto
    from s Ok x have s': "stream_identity tb io path m (fs_buffer_bytes config) (io_before_read io path w) = (Ok (len, sha256, sha1, changed), w1)" by simp
    obtain content where c: "sha256 = tb_hex_sha256 tb content" using stream_identity_digest [OF s'] by blast
    define st2 where "st2 = (let st1 = st \<lparr>ss_bytes_read := saturating_add (ss_bytes_read st) len\<rparr> in
      if changed then push_error (diagnostic ''FS_SOURCE_CHANGED_V1'' ''source_changed_during_scan'' [p]) st1 else st1)"
    define st3 where "st3 = (case media_kind (tb_to_lowercase tb) p of
        Some kind \<Rightarrow> st2 \<lparr>ss_media := ss_media st2 @ [discovered_media path p kind m len sha256 sha1]\<rparr>
      | None \<Rightarrow> (case metadata_kind (tb_to_lowercase tb) p of
          Some kind \<Rightarrow> st2 \<lparr>ss_sidecars := ss_sidecars st2 @ [discovered_sidecar path p kind m len sha256 sha1]\<rparr>
        | None \<Rightarrow> st2))"
    have "process_regular_file tb io config path p m st w = (Ok (), report_progress io ContentIdentity st3 w1)"
      using False s' unfolding process_regular_file_def Let_def st3_def st2_def by (auto split: prod.split)
    then have "st' = fst (report_progress io ContentIdentity st3 w1)" using assms(1) by (metis fst_conv snd_conv)
    moreover have "ss_media st2 = ss_media st" "ss_sidecars st2 = ss_sidecars st" "ss_entries_seen st2 = ss_entries_seen st"
      by (simp_all add: st2_def Let_def)
    moreover have "media_found tb config (discovered_media path p k m len sha256 sha1)"
        "sidecar_found tb config (discovered_sidecar path p k' m len sha256 sha1)" for k k'
      unfolding media_found_def sidecar_found_def c using assms(2,3) by blast+
    ultimately show ?thesis
      unfolding entry_adds_def st3_def by (auto split: option.split)
  qed
qed

lemma process_entry_adds:
  assumes "process_entry tb io config skip_path root path st w = (r, st', w')"
  shows "entry_adds tb config st st'"
proof -
  have same: "entry_adds tb config st st" "entry_adds tb config st (push_error d st)" "entry_adds tb config st (push_warning d st)" for d
    by (simp_all add: entry_adds_def)
  obtain mo w1 where m: "io_symlink_metadata io path w = (mo, w1)" by fastforce
  show ?thesis
  proof (cases "\<exists>m p. mo = Some m \<and> portable_path (tb_nfc tb) root path (Some (fs_max_path_bytes config)) = Ok p
      \<and> skip_path p = None \<and> fm_type m = TypeFile")
    case True
    then obtain md p where p: "mo = Some md" "portable_path (tb_nfc tb) root path (Some (fs_max_path_bytes config)) = Ok p"
        "skip_path p = None" "fm_type md = TypeFile" by blast
    obtain r1 st1 w2 where f: "process_regular_file tb io config path p md st w1 = (r1, st1, w2)" by (metis prod_cases3)
    then have "st' = st1" using assms m p by (simp add: process_entry_def split: result.splits)
    then show ?thesis using process_regular_file_adds [OF f] portable_path_Ok [OF p(2)] by simp
  next
    case False
    then show ?thesis
      using assms m same
      by (auto simp: process_entry_def Let_def split: option.splits result.splits PortablePathError.splits FileType.splits)
  qed
qed

lemma walk_entries_bound:
  assumes "walk_entries tb io config skip_path root paths dirs st w = (Ok dirs', st', w')"
  shows "length dirs' + (fs_max_entries config - ss_entries_seen st') \<le> length dirs + (fs_max_entries config - ss_entries_seen st)
    \<and> ss_entries_seen st \<le> ss_entries_seen st' \<and> (ss_entries_seen st \<le> fs_max_entries config \<longrightarrow> ss_entries_seen st' \<le> fs_max_entries config)"
  using assms
proof (induction paths arbitrary: dirs st w)
  case (Cons path paths)
  let ?st1 = "st \<lparr>ss_entries_seen := Suc (ss_entries_seen st)\<rparr>"
  have le: "Suc (ss_entries_seen st) \<le> fs_max_entries config" using Cons.prems by (auto simp: Let_def split: if_splits)
  with Cons.prems obtain child st2 w1 where pe: "process_entry tb io config skip_path root path ?st1 w = (Ok child, st2, w1)"
    by (auto simp: Let_def not_less split: prod.splits result.splits)
  obtain st3 w2 where rp: "report_progress io Discovery st2 w1 = (st3, w2)" by fastforce
  have "ss_entries_seen st2 = Suc (ss_entries_seen st)" using process_entry_adds [OF pe] by (simp add: entry_adds_def)
  moreover have "ss_entries_seen st3 = ss_entries_seen st2"
    using report_progress_simps(3) [of io Discovery st2 w1] rp by simp
  moreover have "walk_entries tb io config skip_path root paths (case child of Some d \<Rightarrow> d # dirs | None \<Rightarrow> dirs) st3 w2 = (Ok dirs', st', w')"
    using Cons.prems le pe rp by (simp add: Let_def)
  ultimately show ?case
    using Cons.IH [of "case child of Some d \<Rightarrow> d # dirs | None \<Rightarrow> dirs" st3 w2] le by (cases child) auto
qed simp

lemma collect_entries_kept:
  "collect_entries tb io config root dir rs es st w = (r, st', w') \<Longrightarrow>
     ss_media st' = ss_media st \<and> ss_sidecars st' = ss_sidecars st \<and> ss_entries_seen st' = ss_entries_seen st"
  by (induction rs arbitrary: es st w) (fastforce split: prod.splits result.splits if_splits)+

lemma directory_entries_kept:
  "directory_entries tb io config root dir st w = (r, st', w') \<Longrightarrow>
     ss_media st' = ss_media st \<and> ss_sidecars st' = ss_sidecars st \<and> ss_entries_seen st' = ss_entries_seen st"
  by (auto simp: directory_entries_def dest!: collect_entries_kept split: prod.splits option.splits result.splits)

text \<open>The walk: one round takes the top directory of the stack. It ends whatever the file system
  answers, because every directory that is pushed was counted as an entry.\<close>

definition walk_directory ::
  "scan_tables \<Rightarrow> 'w scan_io \<Rightarrow> FolderScanConfig \<Rightarrow> (string \<Rightarrow> string option) \<Rightarrow> native \<Rightarrow> native \<Rightarrow> native list
     \<Rightarrow> native ScanState \<Rightarrow> 'w \<Rightarrow> (native list, ScanError) result \<times> native ScanState \<times> 'w" where
  "walk_directory tb io config skip_path root directory directories st w =
     (case scan_check_cancelled io w of
        (Err e, w1) \<Rightarrow> (Err e, st, w1)
      | (Ok _, w1) \<Rightarrow>
          (case directory_entries tb io config root directory st w1 of
             (Err e, st1, w2) \<Rightarrow> (Err e, st1, w2)
           | (Ok entries, st1, w2) \<Rightarrow>
               walk_entries tb io config skip_path root (rev entries) directories st1 w2))"

lemma walk_directory_bound:
  assumes "walk_directory tb io config skip_path root d dirs st w = (Ok dirs', st', w')"
  shows "length dirs' + (fs_max_entries config - ss_entries_seen st') \<le> length dirs + (fs_max_entries config - ss_entries_seen st)
    \<and> ss_entries_seen st \<le> ss_entries_seen st' \<and> (ss_entries_seen st \<le> fs_max_entries config \<longrightarrow> ss_entries_seen st' \<le> fs_max_entries config)"
proof -
  from assms obtain w1 entries st1 w2 where
    d: "directory_entries tb io config root d st w1 = (Ok entries, st1, w2)"
       "walk_entries tb io config skip_path root (rev entries) dirs st1 w2 = (Ok dirs', st', w')"
    by (auto simp: walk_directory_def split: prod.splits result.splits)
  then show ?thesis using walk_entries_bound [OF d(2)] directory_entries_kept [OF d(1)] by simp
qed

lemma walk_directory_decreases:
  assumes "(Ok dirs', st', w') = walk_directory tb io config skip_path root d dirs st w"
  shows "length dirs' + (fs_max_entries config - ss_entries_seen st')
      < Suc (length dirs + (fs_max_entries config - ss_entries_seen st))"
  using walk_directory_bound [OF assms [symmetric]] by simp

function discover_loop ::
  "scan_tables \<Rightarrow> 'w scan_io \<Rightarrow> FolderScanConfig \<Rightarrow> (string \<Rightarrow> string option) \<Rightarrow> native \<Rightarrow> native list
     \<Rightarrow> native ScanState \<Rightarrow> 'w \<Rightarrow> (unit, ScanError) result \<times> native ScanState \<times> 'w" where
  "discover_loop tb io config skip_path root [] st w = (Ok (), st, w)"
| "discover_loop tb io config skip_path root (d # dirs) st w =
     (case walk_directory tb io config skip_path root d dirs st w of
        (Err e, st1, w1) \<Rightarrow> (Err e, st1, w1)
      | (Ok dirs', st1, w1) \<Rightarrow> discover_loop tb io config skip_path root dirs' st1 w1)"
  by pat_completeness auto
termination
  by (relation "measure (\<lambda>(tb, io, config, skip_path, root, dirs, st, w). length dirs + (fs_max_entries config - ss_entries_seen st))")
    (auto dest: walk_directory_decreases)

definition discover ::
  "scan_tables \<Rightarrow> 'w scan_io \<Rightarrow> FolderScanConfig \<Rightarrow> (string \<Rightarrow> string option) \<Rightarrow> native \<Rightarrow> native ScanState \<Rightarrow> 'w
     \<Rightarrow> (unit, ScanError) result \<times> native ScanState \<times> 'w" where
  "discover tb io config skip_path root st w = discover_loop tb io config skip_path root [root] st w"

section \<open>The scan\<close>

text \<open>Reconciliation may read files again, so it is given the world.\<close>

record ('p, 'w) ScanStrategy =
  sg_source_kind :: SourceKind
  sg_schema_version :: u32
  sg_reconcile_state :: "'p ScanState \<Rightarrow> 'w \<Rightarrow> 'p ScanState \<times> 'w"
  sg_skip_path :: "string \<Rightarrow> string option"

definition keep_all_paths :: "string \<Rightarrow> string option" where
  "keep_all_paths path = None"

definition FOLDER_SCAN :: "scan_tables \<Rightarrow> (native, 'w) ScanStrategy" where
  "FOLDER_SCAN tb =
     \<lparr>sg_source_kind = Folder, sg_schema_version = NORMALIZED_PLAN_SCHEMA_VERSION,
      sg_reconcile_state = (\<lambda>st w. (reconcile (tb_hex_sha256 tb) (tb_to_lowercase tb) st, w)), sg_skip_path = keep_all_paths\<rparr>"

definition scan_resolved_internal ::
  "scan_tables \<Rightarrow> 'w scan_io \<Rightarrow> FolderScanConfig \<Rightarrow> native \<Rightarrow> string \<Rightarrow> (native, 'w) ScanStrategy \<Rightarrow> 'w
     \<Rightarrow> (native ResolvedFolderPlan, ScanError) result \<times> 'w" where
  "scan_resolved_internal tb io config root source_label strategy w =
     (case FolderScanConfig_validate config of
        Err e \<Rightarrow> (Err e, w)
      | Ok _ \<Rightarrow>
     (case validate_root_and_label io root source_label w of
        (Err e, w1) \<Rightarrow> (Err e, w1)
      | (Ok _, w1) \<Rightarrow>
     (case discover tb io config (sg_skip_path strategy) root ScanState_new w1 of
        (Err e, _, w2) \<Rightarrow> (Err e, w2)
      | (Ok _, st, w2) \<Rightarrow>
     (case scan_check_cancelled io w2 of
        (Err e, w3) \<Rightarrow> (Err e, w3)
      | (Ok _, w3) \<Rightarrow>
          (let (st1, w3') = sg_reconcile_state strategy st w3;
               (st2, w4) = report_progress io Reconciliation st1 w3';
               complete_sequence = saturating_add (ss_event_sequence st2) 1;
               files = resolved_files st2;
               plan = finalize_plan (tb_hex_sha256 tb) (sg_schema_version strategy) (sg_source_kind strategy) source_label config st2 in
           case finish_resolved (tb_rfc3339 tb) plan files complete_sequence of
             Err e \<Rightarrow> (Err e, w4)
           | Ok (event, resolved) \<Rightarrow> (Ok resolved, io_observe io event w4))))))"

definition scan_folder_resolved ::
  "scan_tables \<Rightarrow> 'w scan_io \<Rightarrow> FolderScanConfig \<Rightarrow> native \<Rightarrow> string \<Rightarrow> 'w \<Rightarrow> (native ResolvedFolderPlan, ScanError) result \<times> 'w" where
  "scan_folder_resolved tb io config root source_label w =
     scan_resolved_internal tb io config root source_label (FOLDER_SCAN tb) w"

definition scan_folder ::
  "scan_tables \<Rightarrow> 'w scan_io \<Rightarrow> FolderScanConfig \<Rightarrow> native \<Rightarrow> string \<Rightarrow> 'w \<Rightarrow> (NormalizedPlan, ScanError) result \<times> 'w" where
  "scan_folder tb io config root source_label w =
     (case scan_resolved_internal tb io config root source_label (FOLDER_SCAN tb) w of
        (r, w1) \<Rightarrow> (map_ok rp_plan r, w1))"

section \<open>What discovery establishes\<close>

definition discovered_ok :: "scan_tables \<Rightarrow> FolderScanConfig \<Rightarrow> native ScanState \<Rightarrow> bool" where
  "discovered_ok tb config st \<longleftrightarrow>
     list_all (media_found tb config) (ss_media st) \<and> list_all (sidecar_found tb config) (ss_sidecars st) \<and>
     length (ss_media st) + length (ss_sidecars st) \<le> ss_entries_seen st \<and> ss_entries_seen st \<le> fs_max_entries config"

lemma walk_entries_ok:
  assumes "walk_entries tb io config skip_path root paths dirs st w = (Ok dirs', st', w')" "discovered_ok tb config st"
  shows "discovered_ok tb config st'"
  using assms
proof (induction paths arbitrary: dirs st w)
  case (Cons path paths)
  let ?st1 = "st \<lparr>ss_entries_seen := Suc (ss_entries_seen st)\<rparr>"
  have le: "Suc (ss_entries_seen st) \<le> fs_max_entries config" using Cons.prems by (auto simp: Let_def split: if_splits)
  with Cons.prems obtain child st2 w1 where pe: "process_entry tb io config skip_path root path ?st1 w = (Ok child, st2, w1)"
    by (auto simp: Let_def not_less split: prod.splits result.splits)
  obtain st3 w2 where rp: "report_progress io Discovery st2 w1 = (st3, w2)" by fastforce
  have "discovered_ok tb config st2"
    using process_entry_adds [OF pe] Cons.prems(2) le by (auto simp: entry_adds_def discovered_ok_def)
  then have "discovered_ok tb config st3"
    using report_progress_simps [of io Discovery st2 w1] rp by (simp add: discovered_ok_def)
  moreover have "walk_entries tb io config skip_path root paths (case child of Some d \<Rightarrow> d # dirs | None \<Rightarrow> dirs) st3 w2 = (Ok dirs', st', w')"
    using Cons.prems le pe rp by (simp add: Let_def)
  ultimately show ?case using Cons.IH by blast
qed simp

lemma walk_directory_ok:
  assumes "walk_directory tb io config skip_path root d dirs st w = (Ok dirs', st', w')" "discovered_ok tb config st"
  shows "discovered_ok tb config st'"
proof -
  from assms(1) obtain w1 entries st1 w2 where
    d: "directory_entries tb io config root d st w1 = (Ok entries, st1, w2)"
       "walk_entries tb io config skip_path root (rev entries) dirs st1 w2 = (Ok dirs', st', w')"
    by (auto simp: walk_directory_def split: prod.splits result.splits)
  have "discovered_ok tb config st1" using directory_entries_kept [OF d(1)] assms(2) by (simp add: discovered_ok_def)
  then show ?thesis using walk_entries_ok [OF d(2)] by blast
qed

lemma discover_loop_ok:
  assumes "discover_loop tb io config skip_path root dirs st w = (Ok (), st', w')" "discovered_ok tb config st"
  shows "discovered_ok tb config st'"
  using assms
proof (induction tb io config skip_path root dirs st w rule: discover_loop.induct)
  case (2 tb io config skip_path root d dirs st w)
  then obtain dirs' st1 w1 where w: "walk_directory tb io config skip_path root d dirs st w = (Ok dirs', st1, w1)"
      "discover_loop tb io config skip_path root dirs' st1 w1 = (Ok (), st', w')"
    by (auto split: prod.splits result.splits)
  then show ?case using 2 walk_directory_ok [OF w(1)] by auto
qed simp

lemma discover_ok:
  "discover tb io config skip_path root ScanState_new w = (Ok (), st, w') \<Longrightarrow> discovered_ok tb config st"
  unfolding discover_def
  by (erule discover_loop_ok) (simp add: discovered_ok_def ScanState_new_def)

lemma media_found_fresh:
  "media_found tb config d \<Longrightarrow> dm_live_photo d = None \<and> length (dm_relative_path d) \<le> fs_max_path_bytes config"
  by (auto simp: media_found_def discovered_media_def)

lemma media_found_ready:
  assumes "media_found tb config d" "fs_max_path_bytes config \<le> 65536" "\<And>bytes. length (tb_hex_sha256 tb bytes) = 64"
  shows "media_ready rfc schema d" "dm_live_photo d = None" "length (dm_relative_path d) \<le> fs_max_path_bytes config"
  using assms by (auto simp: media_found_def discovered_media_def media_ready_def rules_named_def)

lemma validate_path_limit: "FolderScanConfig_validate config = Ok () \<Longrightarrow> fs_max_path_bytes config \<le> 65536"
  by (auto simp: FolderScanConfig_validate_def split: if_splits)

lemma report_progress_finalize:
  "finalize_plan hex schema kind label config (fst (report_progress io stage st w)) = finalize_plan hex schema kind label config st"
  by (simp add: report_progress_def ScanState_progress_def finalize_plan_def Let_def)

lemma finish_resolved_ok:
  "normalized_plan_ok rfc plan \<Longrightarrow> \<exists>event. finish_resolved rfc plan files n = Ok (event, \<lparr>rp_plan = plan, rp_files = files\<rparr>)"
  using NormalizedPlan_validate_ok_iff [of rfc plan] by (auto simp: finish_resolved_def is_ok_iff)

lemma scan_folder_eq:
  assumes "FolderScanConfig_validate config = Ok ()" "validate_root_and_label io root label w = (Ok (), w1)"
    "discover tb io config keep_all_paths root ScanState_new w1 = (Ok (), st, w2)" "scan_check_cancelled io w2 = (Ok (), w3)"
    "plan = finalize_plan (tb_hex_sha256 tb) 1 Folder label config (reconcile (tb_hex_sha256 tb) (tb_to_lowercase tb) st)"
    "normalized_plan_ok (tb_rfc3339 tb) plan"
  shows "fst (scan_folder tb io config root label w) = Ok plan"
proof -
  let ?st1 = "reconcile (tb_hex_sha256 tb) (tb_to_lowercase tb) st"
  obtain st2 w4 where rp: "report_progress io Reconciliation ?st1 w3 = (st2, w4)" by fastforce
  then have plan: "finalize_plan (tb_hex_sha256 tb) 1 Folder label config st2 = plan"
    using report_progress_finalize [of _ _ _ _ _ io Reconciliation ?st1 w3] assms(5) by simp
  obtain event where "finish_resolved (tb_rfc3339 tb) plan (resolved_files st2) (saturating_add (ss_event_sequence st2) 1)
      = Ok (event, \<lparr>rp_plan = plan, rp_files = resolved_files st2\<rparr>)"
    using finish_resolved_ok [OF assms(6)] by blast
  then show ?thesis
    using assms(1-4) rp plan
    by (simp add: scan_folder_def scan_resolved_internal_def FOLDER_SCAN_def Let_def NORMALIZED_PLAN_SCHEMA_VERSION_def)
qed

lemma validate_root_label: "validate_root_and_label io root label w = (Ok (), w1) \<Longrightarrow> label \<noteq> []"
  by (auto simp: validate_root_and_label_def validate_source_label_def split: result.splits if_splits)

lemma reconcile_prepare_le: "length (ss_media (reconcile_prepare st)) \<le> length (ss_media st)"
  using arg_cong [OF reconcile_prepare_media(1) [of st], of size] by (simp flip: mset_filter)

lemma length_reconcile: "length (ss_media (reconcile hex lower st)) \<le> length (ss_media st)"
  using arg_cong [OF reconcile_core [of hex lower st], of length] reconcile_prepare_le [of st] by simp

section \<open>Properties\<close>

text \<open>A directory with a still image and a motion video of the same name, listed in either order.\<close>

definition sample_io :: "native list \<Rightarrow> unit scan_io" where
  "sample_io listing =
     \<lparr>io_cancelled = (\<lambda>w. (False, w)),
      io_read_dir = (\<lambda>d w. (Some (map Ok listing), w)),
      io_symlink_metadata = (\<lambda>p w. (Some \<lparr>fm_type = (if p = [''r''] then TypeDir else TypeFile), fm_len = 2, fm_modified = Some 5000000,
          fm_created = None, fm_mode = 420, fm_dev = 1, fm_ino = 7\<rparr>, w)),
      io_metadata = (\<lambda>p w. (Some \<lparr>fm_type = TypeFile, fm_len = 2, fm_modified = Some 5000000, fm_created = None, fm_mode = 420, fm_dev = 1, fm_ino = 7\<rparr>, w)),
      io_open = (\<lambda>p w. (Some (length (last p)), w)),
      io_file_metadata = (\<lambda>h w. (Some \<lparr>fm_type = TypeFile, fm_len = 2, fm_modified = Some 5000000, fm_created = None, fm_mode = 420, fm_dev = 1, fm_ino = 7\<rparr>, w)),
      io_read = (\<lambda>h n w. (Some (replicate n CHR ''x''), w)),
      io_before_read = (\<lambda>p w. w), io_observe = (\<lambda>e w. w)\<rparr>"

text \<open>A digest for the examples: the hexadecimal text of the bytes after the first 29.\<close>

definition sample_nibble :: "nat \<Rightarrow> char" where
  "sample_nibble n = (if n < 10 then char_of (48 + n) else char_of (87 + n))"

definition sample_digest_of :: "string \<Rightarrow> string" where
  "sample_digest_of b = take 64 (concat (map (\<lambda>c. [sample_nibble (byte_of c div 16), sample_nibble (byte_of c mod 16)]) (drop 29 b))
     @ replicate 64 CHR ''0'')"

definition sample_tables :: scan_tables where
  "sample_tables =
     \<lparr>tb_hex_sha256 = sample_digest_of, tb_sha1_base64 = (\<lambda>b. b),
      tb_to_lowercase = to_ascii_lowercase, tb_nfc = (\<lambda>s. s), tb_rfc3339 = (\<lambda>s. Some s)\<rparr>"

definition sample_scan :: "native list \<Rightarrow> native ScanState" where
  "sample_scan listing =
     fst (snd (discover sample_tables (sample_io listing) FolderScanConfig_default keep_all_paths [''r''] ScanState_new ()))"

text \<open>C34: a folder scan that reaches the end of its walk without cancellation returns a plan: the
  plan passes its own validation (the scanner never reports its own plan as invalid), has no
  more assets than the entry limit, and every path in it respects the path limit. This holds
  whatever the file system answers, also when it changes during the walk; of SHA-256 it needs
  the digest length and that the identifiers of the files found do not collide.\<close>

theorem folder_scan_succeeds:
  assumes "FolderScanConfig_validate config = Ok ()" "validate_root_and_label io root label w = (Ok (), w1)"
    and walk: "discover tb io config keep_all_paths root ScanState_new w1 = (Ok (), st, w2)" "scan_check_cancelled io w2 = (Ok (), w3)"
    and digest: "\<And>bytes. length (tb_hex_sha256 tb bytes) = 64" "inj_on (tb_hex_sha256 tb) (operation_bytes ` set (ss_media st))"
  shows "\<exists>plan. fst (scan_folder tb io config root label w) = Ok plan \<and> NormalizedPlan_validate (tb_rfc3339 tb) plan = Ok () \<and>
    length (np_assets plan) \<le> fs_max_entries config \<and>
    (\<forall>a \<in> set (np_assets plan). length (ca_relative_path a) \<le> fs_max_path_bytes config)"
proof -
  let ?hex = "tb_hex_sha256 tb" and ?lower = "tb_to_lowercase tb"
  let ?plan = "finalize_plan ?hex 1 Folder label config (reconcile ?hex ?lower st)"
  have ok: "discovered_ok tb config st" using walk(1) by (rule discover_ok)
  have found: "\<forall>m \<in> set (ss_media st). media_ready (tb_rfc3339 tb) 1 m \<and> length (dm_relative_path m) \<le> fs_max_path_bytes config"
    using ok media_found_ready [OF _ validate_path_limit [OF assms(1)] digest(1)] by (auto simp: discovered_ok_def list_all_iff)
  have "normalized_plan_ok (tb_rfc3339 tb) ?plan"
    using found digest validate_root_label [OF assms(2)] by (intro reconciled_plan_ok) (auto simp: schema_source_ok_def)
  moreover from this have "fst (scan_folder tb io config root label w) = Ok ?plan"
    using assms(1,2) walk by (intro scan_folder_eq) auto
  moreover have "length (np_assets ?plan) \<le> fs_max_entries config"
    using length_reconcile [of ?hex ?lower st] ok by (simp add: finalize_plan_def Let_def discovered_ok_def)
  moreover have "length (ca_relative_path a) \<le> fs_max_path_bytes config" if "a \<in> set (np_assets ?plan)" for a
  proof -
    from that obtain m where m: "m \<in> set (ss_media (reconcile ?hex ?lower st))" "a = candidate_asset ?hex m"
      by (auto simp: finalize_plan_def Let_def)
    from m(1) obtain m0 where "m0 \<in> set (ss_media st)" "media_core m = media_core m0" by (rule reconcile_origin)
    then show ?thesis using found m(2) media_core_fields(1) [of m m0] by (simp add: candidate_asset_def)
  qed
  ultimately show ?thesis using NormalizedPlan_validate_ok_iff [of "tb_rfc3339 tb" ?plan] by (auto simp: is_ok_iff)
qed

abbreviation sample_listing :: "native list" where
  "sample_listing \<equiv> [[''r'', ''b.mov''], [''r'', ''b.jpg'']]"

lemma sample_discover:
  "discover sample_tables (sample_io sample_listing) FolderScanConfig_default keep_all_paths [''r''] ScanState_new ()
     = (Ok (), sample_scan sample_listing, ())"
proof -
  have "fst (discover sample_tables (sample_io sample_listing) FolderScanConfig_default keep_all_paths [''r''] ScanState_new ()) = Ok ()"
    by code_simp
  then show ?thesis by (simp add: sample_scan_def prod_eq_iff)
qed

lemma sample_digest: "length (tb_hex_sha256 sample_tables bytes) = 64"
  by (simp add: sample_tables_def sample_digest_of_def)

theorem folder_scan_succeeds_witness:
  "\<exists>plan. fst (scan_folder sample_tables (sample_io sample_listing) FolderScanConfig_default [''r''] ''label'' ()) = Ok plan \<and>
     NormalizedPlan_validate (tb_rfc3339 sample_tables) plan = Ok ()"
proof -
  have "distinct (map (tb_hex_sha256 sample_tables) (map operation_bytes (ss_media (sample_scan sample_listing))))" by code_simp
  then have inj: "inj_on (tb_hex_sha256 sample_tables) (operation_bytes ` set (ss_media (sample_scan sample_listing)))"
    by (simp only: distinct_map set_map)
  have "FolderScanConfig_validate FolderScanConfig_default = Ok ()" by code_simp
  moreover have "validate_root_and_label (sample_io sample_listing) [''r''] ''label'' () = (Ok (), ())" by code_simp
  moreover have "scan_check_cancelled (sample_io sample_listing) () = (Ok (), ())" by code_simp
  ultimately show ?thesis
    using folder_scan_succeeds [OF _ _ sample_discover _ sample_digest inj] by blast
qed

text \<open>C35: the plan and the path resolution of a scan depend on the set of files found and not on the
  order in which they were found: two states with the same files, diagnostics and counters,
  in any order, are reconciled to the same state.\<close>

theorem scan_order_independent:
  assumes "same_files st st'"
  shows "reconcile hex lower st = reconcile hex lower st' \<and>
    finalize_plan hex schema kind label config (reconcile hex lower st) = finalize_plan hex schema kind label config (reconcile hex lower st') \<and>
    resolved_files (reconcile hex lower st) = resolved_files (reconcile hex lower st')"
  using reconcile_cong [OF assms] by simp

theorem scan_order_independent_witness:
  "ss_media (sample_scan sample_listing) \<noteq> rev (ss_media (sample_scan sample_listing)) \<and>
   reconcile (tb_hex_sha256 sample_tables) to_ascii_lowercase (sample_scan sample_listing) =
   reconcile (tb_hex_sha256 sample_tables) to_ascii_lowercase
     ((sample_scan sample_listing) \<lparr>ss_media := rev (ss_media (sample_scan sample_listing))\<rparr>)"
proof -
  let ?s = "sample_scan sample_listing"
  have "same_files ?s (?s \<lparr>ss_media := rev (ss_media ?s)\<rparr>)" by (simp add: same_files_def)
  note order = scan_order_independent [OF this, of "tb_hex_sha256 sample_tables" to_ascii_lowercase]
  have ne: "map dm_relative_path (ss_media ?s) \<noteq> rev (map dm_relative_path (ss_media ?s))" by code_simp
  have "ss_media ?s \<noteq> rev (ss_media ?s)"
  proof
    assume "ss_media ?s = rev (ss_media ?s)"
    from arg_cong [OF this, of "map dm_relative_path"] ne show False unfolding rev_map [symmetric] by blast
  qed
  with order show ?thesis by blast
qed

end
