(* ===== verification/Exec_Planner.thy ===== *)
theory Exec_Planner
  imports Source_Discovery Exec_Apply
begin

text \<open>
  \<open>immich-executor/src/planner.rs\<close> and \<open>verify.rs\<close>: from a resolved
  scan to an upload plan, and the second look at the source before a plan is applied. The file
  system is the world of \<open>Source_Discovery\<close>; the JSON encodings with their digests are parameters.
\<close>

text \<open>The identity of an import configuration, as it is encoded for its digest.\<close>

record TakeoutConfigurationIdentity =
  ti_upload_sha256 :: string
  ti_max_archives :: nat
  ti_max_archive_entry_bytes :: u64
  ti_max_compression_ratio :: u64
  ti_compression_ratio_grace_bytes :: u64

record AppleConfigurationIdentity = TakeoutConfigurationIdentity +
  ti_album_mode :: string
  ti_album_path_joiner :: string

record PicasaConfigurationIdentity = AppleConfigurationIdentity +
  ti_picasa_albums :: bool
  ti_filename_date :: bool

text \<open>The JSON encoders: \<open>serde_json::to_vec\<close> of the values whose digests the executor takes.\<close>

record executor_tables =
  et_config_json :: "ConfigurationIdentity \<Rightarrow> string option"
  et_plan_json :: "NormalizedPlan \<Rightarrow> string option"
  et_takeout_json :: "TakeoutConfigurationIdentity \<Rightarrow> string option"
  et_apple_json :: "AppleConfigurationIdentity \<Rightarrow> string option"
  et_picasa_json :: "PicasaConfigurationIdentity \<Rightarrow> string option"

definition compact_sha256 :: "scan_tables \<Rightarrow> ('a \<Rightarrow> string option) \<Rightarrow> 'a \<Rightarrow> (string, ExecutorErrorClass) result" where
  "compact_sha256 tb to_vec value = map_ok (tb_hex_sha256 tb) (ok_or (to_vec value) EE_Invariant)"

definition upload_identity :: "scan_tables \<Rightarrow> executor_tables \<Rightarrow> UploadExecutionConfig \<Rightarrow> (string, ExecutorErrorClass) result" where
  "upload_identity tb et config = identity_sha256 (et_config_json et) (tb_hex_sha256 tb) config"

section \<open>Verification of the source\<close>

definition executor_check_cancelled :: "'w scan_io \<Rightarrow> 'w \<Rightarrow> (unit, ExecutorErrorClass) result \<times> 'w" where
  "executor_check_cancelled io w = (let (c, w1) = io_cancelled io w in (if c then Err EE_Cancelled else Ok (), w1))"

definition executor_unix_millis :: "int \<Rightarrow> (int, ExecutorErrorClass) result" where
  "executor_unix_millis t =
     (if t < 0 then Err EE_SourceChanged
      else let ms = t div 1000000 in if ms < 2 ^ 63 then Ok ms else Err EE_SourceChanged)"

definition source_timestamps ::
  "'w scan_io \<Rightarrow> native \<Rightarrow> u64 \<Rightarrow> 'w \<Rightarrow> (int \<times> int, ExecutorErrorClass) result \<times> 'w" where
  "source_timestamps io path expected_len w =
     (case io_symlink_metadata io path w of
        (None, w1) \<Rightarrow> (Err EE_SourceChanged, w1)
      | (Some m, w1) \<Rightarrow>
          (if fm_type m \<noteq> TypeFile \<or> fm_len m \<noteq> expected_len then Err EE_SourceChanged
           else case fm_modified m of
             None \<Rightarrow> Err EE_SourceChanged
           | Some modified \<Rightarrow>
               (let created = (case fm_created m of None \<Rightarrow> modified | Some t \<Rightarrow> t) in
                and_then (executor_unix_millis created) (\<lambda>c.
                and_then (executor_unix_millis modified) (\<lambda>n. Ok (c, n)))), w1))"

text \<open>The read loop of \<open>stream_content\<close> reads to the end of the file and stops as soon as more bytes
  arrive than expected; each read fills at most the buffer.\<close>

function content_loop ::
  "'w scan_io \<Rightarrow> nat \<Rightarrow> nat \<Rightarrow> nat \<Rightarrow> string \<Rightarrow> 'w \<Rightarrow> (string, ExecutorErrorClass) result \<times> 'w" where
  "content_loop io handle buffer_bytes expected_len content w =
     (case executor_check_cancelled io w of
        (Err e, w1) \<Rightarrow> (Err e, w1)
      | (Ok _, w1) \<Rightarrow>
          (case io_read io handle buffer_bytes w1 of
             (None, w2) \<Rightarrow> (Err EE_SourceChanged, w2)
           | (Some bytes, w2) \<Rightarrow>
               (let chunk = take buffer_bytes bytes in
                if chunk = [] then (Ok content, w2)
                else if length content + length chunk > u64_max then (Err EE_SourceChanged, w2)
                else if length content + length chunk > expected_len then (Err EE_SourceChanged, w2)
                else content_loop io handle buffer_bytes expected_len (content @ chunk) w2)))"
  by pat_completeness auto
termination
  by (relation "measure (\<lambda>(io, handle, buffer_bytes, expected_len, content, w). Suc expected_len - length content)")
    (auto simp flip: length_greater_0_conv)

declare content_loop.simps [simp del]

record StreamIdentity =
  si_sha256 :: string
  si_sha1_base64 :: string

definition stream_content ::
  "scan_tables \<Rightarrow> 'w scan_io \<Rightarrow> native \<Rightarrow> u64 \<Rightarrow> nat \<Rightarrow> 'w \<Rightarrow> (StreamIdentity, ExecutorErrorClass) result \<times> 'w" where
  "stream_content tb io path expected_len buffer_bytes w =
     (case io_open io path w of
        (None, w1) \<Rightarrow> (Err EE_SourceChanged, w1)
      | (Some handle, w1) \<Rightarrow>
          (case content_loop io handle buffer_bytes (unat expected_len) [] w1 of
             (Err e, w2) \<Rightarrow> (Err e, w2)
           | (Ok content, w2) \<Rightarrow>
               (if length content \<noteq> unat expected_len then Err EE_SourceChanged
                else Ok \<lparr>si_sha256 = tb_hex_sha256 tb content, si_sha1_base64 = tb_sha1_base64 tb content\<rparr>, w2)))"

definition verify_stream_identity ::
  "scan_tables \<Rightarrow> 'w scan_io \<Rightarrow> native \<Rightarrow> u64 \<Rightarrow> int \<Rightarrow> int \<Rightarrow> nat \<Rightarrow> 'w \<Rightarrow> (StreamIdentity, ExecutorErrorClass) result \<times> 'w" where
  "verify_stream_identity tb io path expected_len expected_created expected_modified buffer_bytes w =
     (case source_timestamps io path expected_len w of
        (Err e, w1) \<Rightarrow> (Err e, w1)
      | (Ok first, w1) \<Rightarrow>
          if first \<noteq> (expected_created, expected_modified) then (Err EE_SourceChanged, w1)
          else
            (case stream_content tb io path expected_len buffer_bytes w1 of
               (Err e, w2) \<Rightarrow> (Err e, w2)
             | (Ok identity, w2) \<Rightarrow>
                 (case source_timestamps io path expected_len w2 of
                    (Err e, w3) \<Rightarrow> (Err e, w3)
                  | (Ok second, w3) \<Rightarrow> (if second \<noteq> first then Err EE_SourceChanged else Ok identity, w3))))"

definition native_text :: "native \<Rightarrow> string" where
  "native_text path = join ''/'' path"

definition verify_sidecar ::
  "scan_tables \<Rightarrow> 'w scan_io \<Rightarrow> native ResolvedFolderPlan \<Rightarrow> UploadOperation \<Rightarrow> UploadExecutionConfig \<Rightarrow> 'w
     \<Rightarrow> ((string \<times> u64) option, ExecutorErrorClass) result \<times> 'w" where
  "verify_sidecar tb io resolved oper config w =
     (case op_xmp_sidecar oper of
        None \<Rightarrow> (Ok None, w)
      | Some expected \<Rightarrow>
          (case source_file resolved (us_relative_path expected) of
             None \<Rightarrow> (Err EE_SourceChanged, w)
           | Some source \<Rightarrow>
               (case stream_content tb io (rf_native_path source) (us_byte_len expected) (ec_verification_buffer_bytes config) w of
                  (Err e, w1) \<Rightarrow> (Err e, w1)
                | (Ok identity, w1) \<Rightarrow>
                    (if si_sha256 identity \<noteq> us_content_sha256 expected then Err EE_SourceChanged
                     else Ok (Some (native_text (rf_native_path source), us_byte_len expected)), w1))))"

definition require_same_normalized_plan ::
  "scan_tables \<Rightarrow> executor_tables \<Rightarrow> UploadPlan \<Rightarrow> 'p ResolvedFolderPlan \<Rightarrow> (unit, ExecutorErrorClass) result" where
  "require_same_normalized_plan tb et plan resolved =
     and_then (compact_sha256 tb (et_plan_json et) (rp_plan resolved)) (\<lambda>digest.
       if digest \<noteq> up_normalized_plan_sha256 plan \<or> np_source (rp_plan resolved) \<noteq> up_source plan
       then Err EE_SourceChanged else Ok ())"

definition verify_operation ::
  "scan_tables \<Rightarrow> 'w scan_io \<Rightarrow> native ResolvedFolderPlan \<Rightarrow> UploadExecutionConfig \<Rightarrow> UploadOperation \<Rightarrow> 'w
     \<Rightarrow> (VerifiedAsset, ExecutorErrorClass) result \<times> 'w" where
  "verify_operation tb io resolved config oper w =
     (case executor_check_cancelled io w of
        (Err e, w1) \<Rightarrow> (Err e, w1)
      | (Ok _, w1) \<Rightarrow>
     (case source_file resolved (op_relative_path oper) of
        None \<Rightarrow> (Err EE_SourceChanged, w1)
      | Some media \<Rightarrow>
     (case verify_stream_identity tb io (rf_native_path media) (op_byte_len oper) (op_created_at_unix_ms oper)
             (op_modified_at_unix_ms oper) (ec_verification_buffer_bytes config) w1 of
        (Err e, w2) \<Rightarrow> (Err e, w2)
      | (Ok identity, w2) \<Rightarrow>
          if si_sha256 identity \<noteq> op_content_sha256 oper then (Err EE_SourceChanged, w2)
          else
            (case verify_sidecar tb io resolved oper config w2 of
               (Err e, w3) \<Rightarrow> (Err e, w3)
             | (Ok xmp, w3) \<Rightarrow>
                 (Ok \<lparr>va_media_path = native_text (rf_native_path media), va_file_name = path_filename (op_relative_path oper),
                      va_sha1_base64 = si_sha1_base64 identity, va_xmp = xmp\<rparr>, w3)))))"

fun verify_operations ::
  "scan_tables \<Rightarrow> 'w scan_io \<Rightarrow> native ResolvedFolderPlan \<Rightarrow> UploadExecutionConfig \<Rightarrow> UploadOperation list
     \<Rightarrow> (string, VerifiedAsset) btree_map \<Rightarrow> 'w \<Rightarrow> ((string, VerifiedAsset) btree_map, ExecutorErrorClass) result \<times> 'w" where
  "verify_operations tb io resolved config [] verified w = (Ok verified, w)"
| "verify_operations tb io resolved config (oper # opers) verified w =
     (case verify_operation tb io resolved config oper w of
        (Err e, w1) \<Rightarrow> (Err e, w1)
      | (Ok asset, w1) \<Rightarrow> verify_operations tb io resolved config opers (btm_insert (op_operation_id oper) asset verified) w1)"

definition scan_failure :: "ScanError \<Rightarrow> ExecutorErrorClass" where
  "scan_failure e = (case e of ScanCancelled \<Rightarrow> EE_Cancelled | _ \<Rightarrow> EE_SourceChanged)"

definition verify_source ::
  "scan_tables \<Rightarrow> executor_tables \<Rightarrow> 'w scan_io \<Rightarrow> UploadPlan \<Rightarrow> native \<Rightarrow> UploadExecutionConfig \<Rightarrow> 'w
     \<Rightarrow> ((string, VerifiedAsset) btree_map, ExecutorErrorClass) result \<times> 'w" where
  "verify_source tb et io plan root config w =
     (case UploadPlan_validate (tb_rfc3339 tb) plan of
        Err _ \<Rightarrow> (Err EE_InvalidPlan, w)
      | Ok _ \<Rightarrow>
     (case upload_identity tb et config of
        Err e \<Rightarrow> (Err e, w)
      | Ok identity \<Rightarrow>
          if up_configuration_sha256 plan \<noteq> identity then (Err EE_InvalidPlan, w)
          else
            (case scan_folder_resolved tb io (ec_scan config) root (sd_label (up_source plan)) w of
               (Err e, w1) \<Rightarrow> (Err (scan_failure e), w1)
             | (Ok resolved, w1) \<Rightarrow>
                 (case require_same_normalized_plan tb et plan resolved of
                    Err e \<Rightarrow> (Err e, w1)
                  | Ok _ \<Rightarrow> verify_operations tb io resolved config (up_operations plan) [] w1))))"

section \<open>Upload plans of a folder scan\<close>

definition live_video_operations :: "'p ResolvedFolderPlan \<Rightarrow> (string, string) btree_map" where
  "live_video_operations resolved =
     fold (\<lambda>asset videos.
        case ca_live_photo asset of
          Some member \<Rightarrow> if lp_role member = RoleVideo then btm_insert (lp_pair_id member) (ca_operation_id asset) videos else videos
        | None \<Rightarrow> videos) (np_assets (rp_plan resolved)) []"

definition upload_role :: "CandidateAsset \<Rightarrow> (string, string) btree_map \<Rightarrow> (UploadRole, ExecutorErrorClass) result" where
  "upload_role asset videos =
     (case ca_live_photo asset of
        None \<Rightarrow> Ok Standalone
      | Some member \<Rightarrow>
          (case lp_role member of
             RoleVideo \<Rightarrow> Ok (LivePhotoVideo (lp_pair_id member))
           | RoleImage \<Rightarrow>
               map_ok (LivePhotoImage (lp_pair_id member)) (ok_or (btm_get videos (lp_pair_id member)) EE_InvalidPlan)))"

definition upload_sidecar :: "MetadataCandidate \<Rightarrow> 'p ResolvedSourceFile \<Rightarrow> UploadSidecar" where
  "upload_sidecar c source =
     \<lparr>us_relative_path = mc_relative_path c, us_byte_len = rf_byte_len source, us_content_sha256 = rf_content_sha256 source\<rparr>"

definition plan_sidecar :: "'p ResolvedFolderPlan \<Rightarrow> CandidateAsset \<Rightarrow> (UploadSidecar option, ExecutorErrorClass) result" where
  "plan_sidecar resolved asset =
     (if length (ca_metadata asset) > 1 \<or> list_ex (\<lambda>c. mc_kind c = Json) (ca_metadata asset) then Err EE_UnsupportedMetadata
      else case ca_metadata asset of
        [] \<Rightarrow> Ok None
      | c # _ \<Rightarrow>
          map_ok (\<lambda>source. Some (upload_sidecar c source)) (ok_or (source_file resolved (mc_relative_path c)) EE_Invariant))"

definition planned_operation ::
  "CandidateAsset \<Rightarrow> int \<times> int \<Rightarrow> UploadSidecar option \<Rightarrow> NormalizedMetadata option \<Rightarrow> UploadRole \<Rightarrow> UploadOperation" where
  "planned_operation asset timestamps xmp metadata role =
     \<lparr>op_operation_id = ca_operation_id asset, op_relative_path = ca_relative_path asset, op_media_kind = ca_media_kind asset,
      op_byte_len = ca_byte_len asset, op_content_sha256 = ca_content_sha256 asset,
      op_created_at_unix_ms = fst timestamps, op_modified_at_unix_ms = snd timestamps, op_xmp_sidecar = xmp,
      op_normalized_metadata = metadata, op_role = role\<rparr>"

text \<open>One asset: its source facts must be those of the plan, then timestamps, sidecar and role.\<close>

definition plan_asset ::
  "'w scan_io \<Rightarrow> native ResolvedFolderPlan \<Rightarrow> (string, string) btree_map \<Rightarrow> CandidateAsset \<Rightarrow> 'w
     \<Rightarrow> (UploadOperation, ExecutorErrorClass) result \<times> 'w" where
  "plan_asset io resolved videos asset w =
     (case source_file resolved (ca_relative_path asset) of
        None \<Rightarrow> (Err EE_Invariant, w)
      | Some source \<Rightarrow>
          if rf_byte_len source \<noteq> ca_byte_len asset \<or> rf_content_sha256 source \<noteq> ca_content_sha256 asset then (Err EE_Invariant, w)
          else
            (case source_timestamps io (rf_native_path source) (ca_byte_len asset) w of
               (Err e, w1) \<Rightarrow> (Err e, w1)
             | (Ok timestamps, w1) \<Rightarrow>
                 (and_then (plan_sidecar resolved asset) (\<lambda>xmp.
                  and_then (upload_role asset videos) (\<lambda>role. Ok (planned_operation asset timestamps xmp None role))), w1)))"

fun plan_assets ::
  "'w scan_io \<Rightarrow> native ResolvedFolderPlan \<Rightarrow> (string, string) btree_map \<Rightarrow> CandidateAsset list \<Rightarrow> 'w
     \<Rightarrow> (UploadOperation list, ExecutorErrorClass) result \<times> 'w" where
  "plan_assets io resolved videos [] w = (Ok [], w)"
| "plan_assets io resolved videos (asset # assets) w =
     (case plan_asset io resolved videos asset w of
        (Err e, w1) \<Rightarrow> (Err e, w1)
      | (Ok oper, w1) \<Rightarrow>
          (case plan_assets io resolved videos assets w1 of
             (Err e, w2) \<Rightarrow> (Err e, w2)
           | (Ok opers, w2) \<Rightarrow> (Ok (oper # opers), w2)))"

definition summarize :: "UploadOperation list \<Rightarrow> UploadPlanSummary" where
  "summarize operations =
     \<lparr>sum_operations = of_nat (length operations), sum_media_bytes = sum_list (map op_byte_len operations),
      sum_xmp_sidecars = of_nat (length (filter (\<lambda>oper. op_xmp_sidecar oper \<noteq> None) operations)),
      sum_live_photo_pairs = of_nat (length (filter is_image operations)),
      sum_metadata_updates = 0, sum_album_creates = 0, sum_album_memberships = 0, sum_max_mutations = 0\<rparr>"

definition supported_server :: "ServerCompatibility \<Rightarrow> bool" where
  "supported_server server \<longleftrightarrow> sv_major (sc_version server) = 3 \<and> sv_minor (sc_version server) = 1"

definition create_upload_plan ::
  "scan_tables \<Rightarrow> executor_tables \<Rightarrow> 'w scan_io \<Rightarrow> native ResolvedFolderPlan \<Rightarrow> ServerCompatibility \<Rightarrow> UploadExecutionConfig \<Rightarrow> 'w
     \<Rightarrow> (UploadPlan, ExecutorErrorClass) result \<times> 'w" where
  "create_upload_plan tb et io resolved server config w =
     (case UploadExecutionConfig_validate config of
        Err e \<Rightarrow> (Err e, w)
      | Ok _ \<Rightarrow>
     (case NormalizedPlan_validate (tb_rfc3339 tb) (rp_plan resolved) of
        Err _ \<Rightarrow> (Err EE_InvalidPlan, w)
      | Ok _ \<Rightarrow>
          if np_errors (rp_plan resolved) \<noteq> [] then (Err EE_SourceDiagnostics, w)
          else if \<not> supported_server server then (Err EE_InvalidPlan, w)
          else
            (case plan_assets io resolved (live_video_operations resolved) (np_assets (rp_plan resolved)) w of
               (Err e, w1) \<Rightarrow> (Err e, w1)
             | (Ok operations, w1) \<Rightarrow>
                 (and_then (compact_sha256 tb (et_plan_json et) (rp_plan resolved)) (\<lambda>normalized_sha256.
                  and_then (upload_identity tb et config) (\<lambda>identity.
                    let plan = \<lparr>up_schema_version = UPLOAD_PLAN_SCHEMA_VERSION, up_normalized_plan_sha256 = normalized_sha256,
                          up_source = np_source (rp_plan resolved), up_configuration_sha256 = identity, up_server = server,
                          up_operations = operations, up_summary = summarize operations\<rparr> in
                    and_then (map_err (\<lambda>_. EE_InvalidPlan) (UploadPlan_validate (tb_rfc3339 tb) plan)) (\<lambda>_. Ok plan))), w1))))"

section \<open>Pairs of a plan\<close>

lemma live_video_fold_get:
  "btm_get (fold (\<lambda>asset videos. case ca_live_photo asset of
        Some member \<Rightarrow> if lp_role member = RoleVideo then btm_insert (lp_pair_id member) (ca_operation_id asset) videos else videos
      | None \<Rightarrow> videos) assets m) p =
     (case filter (\<lambda>a. is_member p RoleVideo (ca_live_photo a)) assets of [] \<Rightarrow> btm_get m p | as \<Rightarrow> Some (ca_operation_id (last as)))"
proof (induction assets arbitrary: m)
  case (Cons a assets)
  show ?case
  proof (cases "\<exists>q. ca_live_photo a = Some \<lparr>lp_pair_id = q, lp_role = RoleVideo\<rparr>")
    case True
    then obtain q where "ca_live_photo a = Some \<lparr>lp_pair_id = q, lp_role = RoleVideo\<rparr>" by blast
    then show ?thesis using Cons.IH by (auto simp: is_member_def split: list.split)
  next
    case False
    then have "\<not> is_member p RoleVideo (ca_live_photo a)" by (auto simp: is_member_def)
    moreover have "(case ca_live_photo a of
        Some member \<Rightarrow> if lp_role member = RoleVideo then btm_insert (lp_pair_id member) (ca_operation_id a) m else m
      | None \<Rightarrow> m) = m" using False by (auto split: option.split) (metis LivePhotoMember.surjective old.unit.exhaust)
    ultimately show ?thesis using Cons.IH by simp
  qed
qed simp

lemma length_filter_list_all2:
  "list_all2 R xs ys \<Longrightarrow> (\<And>x y. x \<in> set xs \<Longrightarrow> R x y \<Longrightarrow> P x = Q y) \<Longrightarrow> length (filter P xs) = length (filter Q ys)"
  by (induction xs ys rule: list_all2_induct) auto

lemma filter_singleton: "filter P xs = [c] \<Longrightarrow> x \<in> set xs \<and> P x \<longleftrightarrow> x = c"
proof -
  assume "filter P xs = [c]"
  then have "set (filter P xs) = {c}" by simp
  then show ?thesis by auto
qed

text \<open>What the planners keep of an asset: its identity and content, and its role in a pair.\<close>

definition operation_facts :: "UploadOperation \<Rightarrow> string \<times> string \<times> MediaKind \<times> u64 \<times> string" where
  "operation_facts oper =
     (op_operation_id oper, op_relative_path oper, op_media_kind oper, op_byte_len oper, op_content_sha256 oper)"

definition asset_facts :: "CandidateAsset \<Rightarrow> string \<times> string \<times> MediaKind \<times> u64 \<times> string" where
  "asset_facts a =
     (ca_operation_id a, ca_relative_path a, ca_media_kind a, ca_byte_len a, ca_content_sha256 a)"

definition plans_asset :: "(string, string) btree_map \<Rightarrow> CandidateAsset \<Rightarrow> UploadOperation \<Rightarrow> bool" where
  "plans_asset videos a oper \<longleftrightarrow> operation_facts oper = asset_facts a \<and> upload_role a videos = Ok (op_role oper)"

lemma upload_role_cases:
  assumes "upload_role a videos = Ok r"
  shows "(r = Standalone \<longleftrightarrow> ca_live_photo a = None) \<and>
    (\<forall>p. r = LivePhotoVideo p \<longleftrightarrow> is_member p RoleVideo (ca_live_photo a)) \<and>
    (\<forall>p v. r = LivePhotoImage p v \<longleftrightarrow> is_member p RoleImage (ca_live_photo a) \<and> btm_get videos p = Some v)"
proof (cases "ca_live_photo a")
  case (Some m)
  then show ?thesis using assms by (cases m; cases "lp_role m") (auto simp: upload_role_def is_member_def map_ok_eq_Ok)
qed (use assms in \<open>auto simp: upload_role_def is_member_def\<close>)

text \<open>With pairs one to one, the map of motion videos gives each pair its video.\<close>

lemma pair_members_one:
  assumes "live_pairs_ok (map ca_live_photo as)" "b \<in> set as" "is_member q r' (ca_live_photo b)"
  shows "length (filter (\<lambda>b. is_member q r (ca_live_photo b)) as) = 1"
  using assms unfolding live_pairs_ok_def by (cases r) (force simp: filter_map comp_def)+

lemma video_get:
  assumes "live_pairs_ok (map ca_live_photo as)" "b \<in> set as" "is_member q RoleVideo (ca_live_photo b)" "np_assets (rp_plan r) = as"
  shows "btm_get (live_video_operations r) q = Some (ca_operation_id b)"
proof -
  obtain c where c: "filter (\<lambda>b. is_member q RoleVideo (ca_live_photo b)) as = [c]"
    using pair_members_one [OF assms(1-3), of RoleVideo] by (auto simp: length_Suc_conv)
  then have "b = c" using filter_singleton [OF c, of b] assms(2,3) by blast
  then show ?thesis using c assms(4) by (simp add: live_video_operations_def live_video_fold_get)
qed

lemma video_get_inject:
  assumes "live_pairs_ok (map ca_live_photo as)" "distinct (map ca_operation_id as)" "np_assets (rp_plan r) = as"
    "a \<in> set as" "is_member p RoleVideo (ca_live_photo a)" "b \<in> set as" "is_member q RoleImage (ca_live_photo b)"
    "btm_get (live_video_operations r) q = Some (ca_operation_id a)"
  shows "q = p"
proof -
  obtain c where c: "filter (\<lambda>b. is_member q RoleVideo (ca_live_photo b)) as = [c]"
    using pair_members_one [OF assms(1,6,7), of RoleVideo] by (auto simp: length_Suc_conv)
  then have cm: "c \<in> set as" "is_member q RoleVideo (ca_live_photo c)" using filter_singleton [OF c, of c] by simp_all
  then have "ca_operation_id c = ca_operation_id a" using video_get [OF assms(1) cm assms(3)] assms(8) by simp
  then have "c = a" using assms(2,4) cm(1) by (auto simp: distinct_map inj_on_def)
  then show ?thesis using cm(2) assms(5) by (simp add: is_member_def)
qed

lemma planned_pairs:
  assumes planned: "list_all2 (plans_asset (live_video_operations r)) as ops" and plan: "np_assets (rp_plan r) = as"
    and ids: "distinct (map ca_operation_id as)" and pairs: "live_pairs_ok (map ca_live_photo as)"
  shows "pairs_one_to_one ops"
  unfolding pairs_one_to_one_def
proof (intro ballI impI)
  fix v assume v: "v \<in> set ops" "is_video v"
  then obtain a where a: "a \<in> set as" "plans_asset (live_video_operations r) a v"
    using planned by (metis in_set_conv_nth list_all2_conv_all_nth)
  obtain p where "op_role v = LivePhotoVideo p" using v(2) by (auto simp: is_video_def split: UploadRole.splits)
  then have ap: "is_member p RoleVideo (ca_live_photo a)" using a(2) upload_role_cases by (fastforce simp: plans_asset_def)
  note get = video_get [OF pairs a(1) ap plan]
  have image: "is_image_of (op_operation_id v) oper = is_member p RoleImage (ca_live_photo b)"
    if b: "b \<in> set as" "plans_asset (live_video_operations r) b oper" for b oper
  proof -
    note role = upload_role_cases [of b "live_video_operations r" "op_role oper"]
    have "is_image_of (op_operation_id v) oper \<longleftrightarrow> (\<exists>q. op_role oper = LivePhotoImage q (op_operation_id v))"
      by (auto simp: is_image_of_def split: UploadRole.splits)
    also have "\<dots> \<longleftrightarrow> (\<exists>q. is_member q RoleImage (ca_live_photo b) \<and> btm_get (live_video_operations r) q = Some (ca_operation_id a))"
      using role b(2) a(2) by (simp add: plans_asset_def operation_facts_def asset_facts_def)
    also have "\<dots> \<longleftrightarrow> is_member p RoleImage (ca_live_photo b)"
      using get video_get_inject [OF pairs ids plan a(1) ap b(1)] by auto
    finally show ?thesis .
  qed
  have "length (filter (\<lambda>b. is_member p RoleImage (ca_live_photo b)) as) = length (filter (is_image_of (op_operation_id v)) ops)"
    by (rule length_filter_list_all2 [OF planned]) (simp add: image)
  then show "length (filter (is_image_of (op_operation_id v)) ops) = 1" using pair_members_one [OF pairs a(1) ap, of RoleImage] by simp
qed

lemma plan_asset_plans:
  "plan_asset io resolved videos a w = (Ok oper, w') \<Longrightarrow> plans_asset videos a oper"
  by (auto simp: plan_asset_def plans_asset_def planned_operation_def operation_facts_def asset_facts_def and_then_eq_Ok split: option.splits if_splits prod.splits result.splits)

lemma plan_assets_plans:
  "plan_assets io resolved videos as w = (Ok ops, w') \<Longrightarrow> list_all2 (plans_asset videos) as ops"
proof (induction as arbitrary: w ops)
  case (Cons a as)
  then obtain oper w1 ops' where "plan_asset io resolved videos a w = (Ok oper, w1)"
      "plan_assets io resolved videos as w1 = (Ok ops', w')" "ops = oper # ops'"
    by (auto split: prod.splits result.splits)
  then show ?case using Cons.IH plan_asset_plans by auto
qed simp

lemma planned_facts:
  "list_all2 (plans_asset videos) as ops \<Longrightarrow> map operation_facts ops = map asset_facts as"
  by (induction rule: list_all2_induct) (auto simp: plans_asset_def)

lemma create_upload_plan_Ok:
  assumes "create_upload_plan tb et io resolved server config w = (Ok plan, w')"
  shows "UploadPlan_validate (tb_rfc3339 tb) plan = Ok ()" "normalized_plan_ok (tb_rfc3339 tb) (rp_plan resolved)"
    "list_all2 (plans_asset (live_video_operations resolved)) (np_assets (rp_plan resolved)) (up_operations plan)"
proof -
  from assms obtain ops w1 where ops: "plan_assets io resolved (live_video_operations resolved) (np_assets (rp_plan resolved)) w = (Ok ops, w1)"
      "up_operations plan = ops"
    and valid: "NormalizedPlan_validate (tb_rfc3339 tb) (rp_plan resolved) = Ok ()"
    and "UploadPlan_validate (tb_rfc3339 tb) plan = Ok ()"
    by (auto simp: create_upload_plan_def and_then_eq_Ok map_err_eq_Ok Let_def split: result.splits if_splits prod.splits)
  then show "UploadPlan_validate (tb_rfc3339 tb) plan = Ok ()"
    "list_all2 (plans_asset (live_video_operations resolved)) (np_assets (rp_plan resolved)) (up_operations plan)"
    using plan_assets_plans by auto
  show "normalized_plan_ok (tb_rfc3339 tb) (rp_plan resolved)"
    using valid NormalizedPlan_validate_ok_iff [of "tb_rfc3339 tb" "rp_plan resolved"] by simp
qed

section \<open>From a scan to the uploads\<close>

lemma scan_folder_resolved_Ok:
  assumes "scan_folder_resolved tb io config root label w = (Ok resolved, w')"
  obtains st where "discovered_ok tb config st" "fs_max_path_bytes config \<le> 65536"
    "rp_plan resolved = finalize_plan (tb_hex_sha256 tb) 1 Folder label config (reconcile (tb_hex_sha256 tb) (tb_to_lowercase tb) st)"
proof -
  from assms obtain w1 st w2 w3 st2 w4 event where
    valid: "FolderScanConfig_validate config = Ok ()"
    and walk: "discover tb io config keep_all_paths root ScanState_new w1 = (Ok (), st, w2)"
    and rp: "report_progress io Reconciliation (reconcile (tb_hex_sha256 tb) (tb_to_lowercase tb) st) w3 = (st2, w4)"
    and fin: "finish_resolved (tb_rfc3339 tb) (finalize_plan (tb_hex_sha256 tb) 1 Folder label config st2)
        (resolved_files st2) (saturating_add (ss_event_sequence st2) 1) = Ok (event, resolved)"
    by (auto simp: scan_folder_resolved_def scan_resolved_internal_def FOLDER_SCAN_def Let_def NORMALIZED_PLAN_SCHEMA_VERSION_def
        split: result.splits prod.splits)
  have "rp_plan resolved = finalize_plan (tb_hex_sha256 tb) 1 Folder label config st2"
    using fin by (auto simp: finish_resolved_def and_then_eq_Ok)
  also have "\<dots> = finalize_plan (tb_hex_sha256 tb) 1 Folder label config (reconcile (tb_hex_sha256 tb) (tb_to_lowercase tb) st)"
    using report_progress_finalize [of _ _ _ _ _ io Reconciliation "reconcile (tb_hex_sha256 tb) (tb_to_lowercase tb) st" w3] rp by simp
  finally show ?thesis using that [OF discover_ok [OF walk] validate_path_limit [OF valid]] by blast
qed

lemma finalize_plan_assets:
  "mset (map ca_live_photo (np_assets (finalize_plan hex schema kind label config st))) = mset (map dm_live_photo (ss_media st))"
  "set (map ca_relative_path (np_assets (finalize_plan hex schema kind label config st))) = set (map dm_relative_path (ss_media st))"
  by (simp_all add: finalize_plan_def Let_def candidate_asset_def image_mset.compositionality comp_def image_image)

lemma scan_folder_pairs:
  assumes scan: "scan_folder_resolved tb io config root label w = (Ok resolved, w')"
    and inj: "inj_on (tb_hex_sha256 tb) {pair_bytes p q |p q. p \<in> set (map ca_relative_path (np_assets (rp_plan resolved)))
        \<and> q \<in> set (map ca_relative_path (np_assets (rp_plan resolved)))}"
  shows "live_pairs_ok (map ca_live_photo (np_assets (rp_plan resolved)))"
proof -
  obtain st where st: "discovered_ok tb config st" "fs_max_path_bytes config \<le> 65536"
    "rp_plan resolved = finalize_plan (tb_hex_sha256 tb) 1 Folder label config (reconcile (tb_hex_sha256 tb) (tb_to_lowercase tb) st)"
    using scan by (rule scan_folder_resolved_Ok)
  have "\<forall>m \<in> set (ss_media st). dm_live_photo m = None \<and> length (dm_relative_path m) < 2 ^ 64"
  proof
    fix m assume "m \<in> set (ss_media st)"
    then have "media_found tb config m" using st(1) by (simp add: discovered_ok_def list_all_iff)
    from media_found_fresh [OF this] show "dm_live_photo m = None \<and> length (dm_relative_path m) < 2 ^ 64"
      using st(2) by simp
  qed
  then have "live_pairs_ok (map dm_live_photo (ss_media (reconcile (tb_hex_sha256 tb) (tb_to_lowercase tb) st)))"
    using inj unfolding st(3) finalize_plan_assets(2) by (rule reconcile_pairs_ok)
  then show ?thesis unfolding st(3) using live_pairs_ok_mset [OF finalize_plan_assets(1)] by blast
qed

section \<open>Properties\<close>

definition sample_json :: executor_tables where
  "sample_json = \<lparr>et_config_json = (\<lambda>_. Some []), et_plan_json = (\<lambda>_. Some []), et_takeout_json = (\<lambda>_. Some []),
     et_apple_json = (\<lambda>_. Some []), et_picasa_json = (\<lambda>_. Some [])\<rparr>"

text \<open>C7: no asset of a folder scan's plan is lost on the way to the server. An upload plan created from
  a scan has exactly one operation for every asset of the normalized plan, in the same order, with its
  identifier, path, kind, length and digest; and for every checkpoint the groups of operations exist
  and hold every operation that is not yet done, none of them twice. The case of a plan with two still images for one motion
  video, where an image would be dropped, cannot come from a scan, because reconciliation pairs
  one to one. The digest must not collide on the pairs of paths of the scan.\<close>

theorem scanned_uploads_complete:
  assumes "scan_folder_resolved tb io config root label w = (Ok resolved, w1)"
    and "create_upload_plan tb et io' resolved server limits w2 = (Ok plan, w3)"
    and "inj_on (tb_hex_sha256 tb) {pair_bytes p q |p q. p \<in> set (map ca_relative_path (np_assets (rp_plan resolved)))
        \<and> q \<in> set (map ca_relative_path (np_assets (rp_plan resolved)))}"
  shows "map (\<lambda>oper. (op_operation_id oper, op_relative_path oper, op_media_kind oper, op_byte_len oper, op_content_sha256 oper))
      (up_operations plan) =
    map (\<lambda>a. (ca_operation_id a, ca_relative_path a, ca_media_kind a, ca_byte_len a, ca_content_sha256 a))
      (np_assets (rp_plan resolved)) \<and>
    (\<exists>gs. pending_groups plan completed = Ok gs \<and> distinct (map op_operation_id (concat gs)) \<and>
    (\<forall>oper \<in> set (up_operations plan). unfinished completed oper \<longrightarrow> oper \<in> set (concat gs)))"
proof -
  note plan = create_upload_plan_Ok [OF assms(2)]
  have facts: "map operation_facts (up_operations plan) = map asset_facts (np_assets (rp_plan resolved))"
    using plan(3) by (rule planned_facts)
  have "pairs_one_to_one (up_operations plan)"
    using planned_pairs [OF plan(3) refl _ scan_folder_pairs [OF assms(1,3)]] plan(2) by (simp add: normalized_plan_ok_def)
  then show ?thesis
    using pending_groups_cover [OF plan(1)] facts [unfolded operation_facts_def [abs_def] asset_facts_def [abs_def]]
    by blast
qed

abbreviation sample_scanned where
  "sample_scanned \<equiv> fst (scan_folder_resolved sample_tables (sample_io sample_listing) FolderScanConfig_default [''r''] ''label'' ())"

abbreviation sample_planned where
  "sample_planned r \<equiv>
     fst (create_upload_plan sample_tables sample_json (sample_io sample_listing) r sample_server UploadExecutionConfig_default ())"

lemma sample_pair_digests:
  "inj_on (tb_hex_sha256 sample_tables) {pair_bytes p q |p q. p \<in> set [''b.jpg'', ''b.mov''] \<and> q \<in> set [''b.jpg'', ''b.mov'']}"
proof -
  let ?l = "[pair_bytes ''b.jpg'' ''b.jpg'', pair_bytes ''b.jpg'' ''b.mov'', pair_bytes ''b.mov'' ''b.jpg'', pair_bytes ''b.mov'' ''b.mov'']"
  have "distinct (map (tb_hex_sha256 sample_tables) ?l)" by code_simp
  then have "inj_on (tb_hex_sha256 sample_tables) (set ?l)" by (simp only: distinct_map)
  then show ?thesis by (rule inj_on_subset) auto
qed

theorem scanned_uploads_complete_witness:
  "\<exists>resolved plan gs. sample_scanned = Ok resolved \<and> sample_planned resolved = Ok plan \<and>
     map op_relative_path (up_operations plan) = [''b.jpg'', ''b.mov''] \<and>
     pending_groups plan [] = Ok gs \<and> set (up_operations plan) \<subseteq> set (concat gs)"
proof -
  have "and_then sample_scanned (\<lambda>r. map_ok (\<lambda>p. (map ca_relative_path (np_assets (rp_plan r)), length (up_operations p)))
      (map_err (\<lambda>_. ScanInvalidRoot) (sample_planned r))) = Ok ([''b.jpg'', ''b.mov''], 2)" by code_simp
  then obtain resolved plan where scan: "sample_scanned = Ok resolved"
      and paths: "map ca_relative_path (np_assets (rp_plan resolved)) = [''b.jpg'', ''b.mov'']"
      and plan: "sample_planned resolved = Ok plan" "length (up_operations plan) = 2"
    by (auto simp: and_then_eq_Ok map_ok_eq_Ok map_err_eq_Ok)
  have "scan_folder_resolved sample_tables (sample_io sample_listing) FolderScanConfig_default [''r''] ''label'' () = (Ok resolved, ())"
    "create_upload_plan sample_tables sample_json (sample_io sample_listing) resolved sample_server UploadExecutionConfig_default () = (Ok plan, ())"
    using scan plan(1) by (simp_all add: prod_eq_iff)
  note complete = scanned_uploads_complete [OF this sample_pair_digests [folded paths], of "[]"]
  then have "map op_relative_path (up_operations plan) = map ca_relative_path (np_assets (rp_plan resolved))"
    by (elim conjE) (drule arg_cong [where f = "map (fst \<circ> snd)"], simp add: comp_def)
  with complete scan plan paths show ?thesis by (auto simp: unfinished_def)
qed

end
