(* ===== verification/Exec_Import_Plan.thy ===== *)
theory Exec_Import_Plan
  imports Exec_Planner
begin

text \<open>
  \<open>immich-executor/src/import_config.rs\<close> and \<open>import_planner.rs\<close>: the three import configurations behind
  the \<open>ImportConfig\<close> trait, and the import plan of a resolved scan. The RFC 3339 parser enters as
  the instant of a timestamp in nanoseconds since the Unix epoch.
\<close>

section \<open>Configurations\<close>

record TakeoutImportConfig =
  tk_source :: TakeoutScanConfig
  tk_upload :: UploadExecutionConfig

record ApplePhotosImportConfig =
  ap_source :: ApplePhotosScanConfig
  ap_upload :: UploadExecutionConfig

record PicasaImportConfig =
  pi_source :: PicasaScanConfig
  pi_upload :: UploadExecutionConfig

definition TakeoutImportConfig_default :: TakeoutImportConfig where
  "TakeoutImportConfig_default =
     (let limits = UploadExecutionConfig_default in
      \<lparr>tk_source = TakeoutScanConfig_default \<lparr>tc_scan := ec_scan limits\<rparr>, tk_upload = limits\<rparr>)"

definition ApplePhotosImportConfig_default :: ApplePhotosImportConfig where
  "ApplePhotosImportConfig_default =
     (let limits = UploadExecutionConfig_default in
      \<lparr>ap_source = ApplePhotosScanConfig_default \<lparr>ac_scan := ec_scan limits\<rparr>, ap_upload = limits\<rparr>)"

definition PicasaImportConfig_default :: PicasaImportConfig where
  "PicasaImportConfig_default =
     (let limits = UploadExecutionConfig_default in
      \<lparr>pi_source = PicasaScanConfig_default \<lparr>pc_scan := ec_scan limits\<rparr>, pi_upload = limits\<rparr>)"

text \<open>The checks the three \<open>validate\<close> methods share: upload limits, source limits, and one scan
  configuration for both.\<close>

definition validate_import_parts ::
  "UploadExecutionConfig \<Rightarrow> (unit, ScanError) result \<Rightarrow> FolderScanConfig \<Rightarrow> (unit, ExecutorErrorClass) result" where
  "validate_import_parts limits source_check scan =
     and_then (UploadExecutionConfig_validate limits) (\<lambda>_.
     and_then (map_err (\<lambda>_. EE_InvalidConfiguration) source_check) (\<lambda>_.
       if scan \<noteq> ec_scan limits then Err EE_InvalidConfiguration else Ok ()))"

definition TakeoutImportConfig_validate :: "TakeoutImportConfig \<Rightarrow> (unit, ExecutorErrorClass) result" where
  "TakeoutImportConfig_validate c =
     validate_import_parts (tk_upload c) (TakeoutScanConfig_validate (tk_source c)) (tc_scan (tk_source c))"

definition ApplePhotosImportConfig_validate :: "ApplePhotosImportConfig \<Rightarrow> (unit, ExecutorErrorClass) result" where
  "ApplePhotosImportConfig_validate c =
     validate_import_parts (ap_upload c) (ApplePhotosScanConfig_validate (ap_source c)) (ac_scan (ap_source c))"

definition PicasaImportConfig_validate :: "PicasaImportConfig \<Rightarrow> (unit, ExecutorErrorClass) result" where
  "PicasaImportConfig_validate c =
     validate_import_parts (pi_upload c) (PicasaScanConfig_validate (pi_source c)) (pc_scan (pi_source c))"

definition album_mode_name :: "AlbumMode \<Rightarrow> string" where
  "album_mode_name mode = (case mode of AlbumNone \<Rightarrow> ''none'' | AlbumFolder \<Rightarrow> ''folder'' | AlbumPath \<Rightarrow> ''path'')"

definition TakeoutImportConfig_identity ::
  "scan_tables \<Rightarrow> executor_tables \<Rightarrow> TakeoutImportConfig \<Rightarrow> (string, ExecutorErrorClass) result" where
  "TakeoutImportConfig_identity tb et c =
     and_then (TakeoutImportConfig_validate c) (\<lambda>_.
     and_then (upload_identity tb et (tk_upload c)) (\<lambda>upload_sha256.
       compact_sha256 tb (et_takeout_json et)
         \<lparr>ti_upload_sha256 = upload_sha256, ti_max_archives = tc_max_archives (tk_source c),
          ti_max_archive_entry_bytes = tc_max_archive_entry_bytes (tk_source c),
          ti_max_compression_ratio = tc_max_compression_ratio (tk_source c),
          ti_compression_ratio_grace_bytes = tc_compression_ratio_grace_bytes (tk_source c)\<rparr>))"

definition ApplePhotosImportConfig_identity ::
  "scan_tables \<Rightarrow> executor_tables \<Rightarrow> ApplePhotosImportConfig \<Rightarrow> (string, ExecutorErrorClass) result" where
  "ApplePhotosImportConfig_identity tb et c =
     and_then (ApplePhotosImportConfig_validate c) (\<lambda>_.
     and_then (upload_identity tb et (ap_upload c)) (\<lambda>upload_sha256.
       compact_sha256 tb (et_apple_json et)
         \<lparr>ti_upload_sha256 = upload_sha256, ti_max_archives = ac_max_archives (ap_source c),
          ti_max_archive_entry_bytes = ac_max_archive_entry_bytes (ap_source c),
          ti_max_compression_ratio = ac_max_compression_ratio (ap_source c),
          ti_compression_ratio_grace_bytes = ac_compression_ratio_grace_bytes (ap_source c),
          ti_album_mode = album_mode_name (ac_album_mode (ap_source c)),
          ti_album_path_joiner = ac_album_path_joiner (ap_source c)\<rparr>))"

definition PicasaImportConfig_identity ::
  "scan_tables \<Rightarrow> executor_tables \<Rightarrow> PicasaImportConfig \<Rightarrow> (string, ExecutorErrorClass) result" where
  "PicasaImportConfig_identity tb et c =
     and_then (PicasaImportConfig_validate c) (\<lambda>_.
     and_then (upload_identity tb et (pi_upload c)) (\<lambda>upload_sha256.
       compact_sha256 tb (et_picasa_json et)
         \<lparr>ti_upload_sha256 = upload_sha256, ti_max_archives = pc_max_archives (pi_source c),
          ti_max_archive_entry_bytes = pc_max_archive_entry_bytes (pi_source c),
          ti_max_compression_ratio = pc_max_compression_ratio (pi_source c),
          ti_compression_ratio_grace_bytes = pc_compression_ratio_grace_bytes (pi_source c),
          ti_album_mode = album_mode_name (pc_album_mode (pi_source c)),
          ti_album_path_joiner = pc_album_path_joiner (pi_source c),
          ti_picasa_albums = pc_picasa_albums (pi_source c), ti_filename_date = pc_filename_date (pi_source c)\<rparr>))"

text \<open>The trait and its three implementations.\<close>

datatype ImportConfig =
    TakeoutConfig TakeoutImportConfig
  | AppleConfig ApplePhotosImportConfig
  | PicasaConfig PicasaImportConfig

record ArchiveLimits =
  al_max_entry_bytes :: u64
  al_max_compression_ratio :: u64
  al_compression_ratio_grace_bytes :: u64

primrec validate_import :: "ImportConfig \<Rightarrow> (unit, ExecutorErrorClass) result" where
  "validate_import (TakeoutConfig c) = TakeoutImportConfig_validate c"
| "validate_import (AppleConfig c) = ApplePhotosImportConfig_validate c"
| "validate_import (PicasaConfig c) = PicasaImportConfig_validate c"

primrec import_identity :: "scan_tables \<Rightarrow> executor_tables \<Rightarrow> ImportConfig \<Rightarrow> (string, ExecutorErrorClass) result" where
  "import_identity tb et (TakeoutConfig c) = TakeoutImportConfig_identity tb et c"
| "import_identity tb et (AppleConfig c) = ApplePhotosImportConfig_identity tb et c"
| "import_identity tb et (PicasaConfig c) = PicasaImportConfig_identity tb et c"

primrec import_source_kind :: "ImportConfig \<Rightarrow> SourceKind" where
  "import_source_kind (TakeoutConfig c) = GoogleTakeout"
| "import_source_kind (AppleConfig c) = ApplePhotos"
| "import_source_kind (PicasaConfig c) = Picasa"

primrec import_upload :: "ImportConfig \<Rightarrow> UploadExecutionConfig" where
  "import_upload (TakeoutConfig c) = tk_upload c"
| "import_upload (AppleConfig c) = ap_upload c"
| "import_upload (PicasaConfig c) = pi_upload c"

primrec archive_limits :: "ImportConfig \<Rightarrow> ArchiveLimits" where
  "archive_limits (TakeoutConfig c) =
     \<lparr>al_max_entry_bytes = tc_max_archive_entry_bytes (tk_source c), al_max_compression_ratio = tc_max_compression_ratio (tk_source c),
      al_compression_ratio_grace_bytes = tc_compression_ratio_grace_bytes (tk_source c)\<rparr>"
| "archive_limits (AppleConfig c) =
     \<lparr>al_max_entry_bytes = ac_max_archive_entry_bytes (ap_source c), al_max_compression_ratio = ac_max_compression_ratio (ap_source c),
      al_compression_ratio_grace_bytes = ac_compression_ratio_grace_bytes (ap_source c)\<rparr>"
| "archive_limits (PicasaConfig c) =
     \<lparr>al_max_entry_bytes = pc_max_archive_entry_bytes (pi_source c), al_max_compression_ratio = pc_max_compression_ratio (pi_source c),
      al_compression_ratio_grace_bytes = pc_compression_ratio_grace_bytes (pi_source c)\<rparr>"

section \<open>Import plans\<close>

definition source_for ::
  "'p ResolvedFolderPlan \<Rightarrow> string \<Rightarrow> u64 \<Rightarrow> string \<Rightarrow> ('p ResolvedSourceFile, ExecutorErrorClass) result" where
  "source_for resolved path byte_len content_sha256 =
     and_then (ok_or (source_file resolved path) EE_Invariant) (\<lambda>source.
       if rf_byte_len source \<noteq> byte_len \<or> rf_content_sha256 source \<noteq> content_sha256 then Err EE_Invariant else Ok source)"

text \<open>Rust's integer division truncates towards zero.\<close>

definition nanos_to_millis :: "int \<Rightarrow> (int, ExecutorErrorClass) result" where
  "nanos_to_millis n =
     (let ms = (if n < 0 then - ((- n) div 1000000) else n div 1000000) in
      if - (2 ^ 63) \<le> ms \<and> ms < 2 ^ 63 then Ok ms else Err EE_InvalidPlan)"

definition import_timestamps ::
  "(string \<Rightarrow> int option) \<Rightarrow> CandidateAsset \<Rightarrow> 'p ResolvedSourceFile \<Rightarrow> SourceKind \<Rightarrow> (int \<times> int, ExecutorErrorClass) result" where
  "import_timestamps unix_nanos asset source source_kind =
     (case Option.bind (ca_normalized_metadata asset) nm_taken_at_utc of
        Some value \<Rightarrow>
          and_then (ok_or (unix_nanos value) EE_InvalidPlan) (\<lambda>instant.
          and_then (nanos_to_millis instant) (\<lambda>millis. Ok (millis, millis)))
      | None \<Rightarrow>
          Ok (if source_kind \<in> {ApplePhotos, Picasa} then
                let created = (case rf_created_at_unix_ms source of Some t \<Rightarrow> t
                                 | None \<Rightarrow> (case rf_modified_at_unix_ms source of Some t \<Rightarrow> t | None \<Rightarrow> 0));
                    modified = (case rf_modified_at_unix_ms source of Some t \<Rightarrow> t | None \<Rightarrow> created) in
                (created, modified)
              else (0, 0)))"

definition xmp_sidecar :: "'p ResolvedFolderPlan \<Rightarrow> CandidateAsset \<Rightarrow> (UploadSidecar option, ExecutorErrorClass) result" where
  "xmp_sidecar resolved asset =
     (case filter (\<lambda>c. mc_kind c = Xmp) (ca_metadata asset) of
        [] \<Rightarrow> Ok None
      | [c] \<Rightarrow> map_ok (\<lambda>source. Some (upload_sidecar c source)) (ok_or (source_file resolved (mc_relative_path c)) EE_Invariant)
      | _ \<Rightarrow> Err EE_UnsupportedMetadata)"

definition import_operation ::
  "(string \<Rightarrow> int option) \<Rightarrow> 'p ResolvedFolderPlan \<Rightarrow> ImportConfig \<Rightarrow> CandidateAsset \<Rightarrow> (UploadOperation, ExecutorErrorClass) result" where
  "import_operation unix_nanos resolved config asset =
     and_then (source_for resolved (ca_relative_path asset) (ca_byte_len asset) (ca_content_sha256 asset)) (\<lambda>source.
     and_then (import_timestamps unix_nanos asset source (import_source_kind config)) (\<lambda>timestamps.
     and_then (xmp_sidecar resolved asset) (\<lambda>xmp.
     and_then (upload_role asset (live_video_operations resolved)) (\<lambda>role.
       Ok (planned_operation asset timestamps xmp (ca_normalized_metadata asset) role)))))"

definition create_import_upload_plan ::
  "scan_tables \<Rightarrow> executor_tables \<Rightarrow> (string \<Rightarrow> int option) \<Rightarrow> 'p ResolvedFolderPlan \<Rightarrow> ServerCompatibility \<Rightarrow> ImportConfig
     \<Rightarrow> (UploadPlan, ExecutorErrorClass) result" where
  "create_import_upload_plan tb et unix_nanos resolved server config =
     and_then (validate_import config) (\<lambda>_.
     and_then (map_err (\<lambda>_. EE_InvalidPlan) (NormalizedPlan_validate (tb_rfc3339 tb) (rp_plan resolved))) (\<lambda>_.
       if np_errors (rp_plan resolved) \<noteq> [] \<or> sd_kind (np_source (rp_plan resolved)) \<noteq> import_source_kind config
          \<or> \<not> supported_server server
       then Err EE_InvalidPlan
       else
         and_then (collect_result (import_operation unix_nanos resolved config) (np_assets (rp_plan resolved))) (\<lambda>operations.
         and_then (compact_sha256 tb (et_plan_json et) (rp_plan resolved)) (\<lambda>normalized_sha256.
         and_then (import_identity tb et config) (\<lambda>identity.
           let plan = \<lparr>up_schema_version = UPLOAD_PLAN_SCHEMA_VERSION_V2, up_normalized_plan_sha256 = normalized_sha256,
                 up_source = np_source (rp_plan resolved), up_configuration_sha256 = identity, up_server = server,
                 up_operations = operations,
                 up_summary = UploadPlanSummary_from_operations UPLOAD_PLAN_SCHEMA_VERSION_V2 operations\<rparr> in
           and_then (map_err (\<lambda>_. EE_InvalidPlan) (UploadPlan_validate (tb_rfc3339 tb) plan)) (\<lambda>_. Ok plan))))))"

end
