(* ===== verification/Exec_Import_Apply.thy ===== *)
theory Exec_Import_Apply
  imports Exec_Import_Effects Exec_Import_Plan
begin

text \<open>
  \<open>immich-executor/src/import_apply.rs\<close> and \<open>import_dry_run.rs\<close>, with \<open>prepare\<close> of \<open>import_staging.rs\<close>: an
  import run. It checks the plan against the source, the configuration and the client, opens the
  checkpoint, uploads the assets in order with their metadata, and touches albums only when every
  operation of the plan has an asset. The scan of the three source adapters, the opening of the
  staging directory and the extraction of one archive entry enter as their results.
\<close>

section \<open>Order and bookkeeping\<close>

definition group_operation ::
  "UploadOperation list \<Rightarrow> UploadOperation \<Rightarrow> OperationGroup list \<Rightarrow> (OperationGroup list, ExecutorErrorClass) result" where
  "group_operation operations oper groups =
     (case op_role oper of
        Standalone \<Rightarrow> Ok (groups @ [[oper]])
      | LivePhotoVideo _ \<Rightarrow>
          map_ok (\<lambda>still. groups @ [[oper, still]]) (ok_or (find (is_image_of (op_operation_id oper)) operations) EE_InvalidPlan)
      | LivePhotoImage _ _ \<Rightarrow> Ok groups)"

definition ordered_operations :: "UploadPlan \<Rightarrow> (UploadOperation list, ExecutorErrorClass) result" where
  "ordered_operations plan =
     map_ok (\<lambda>groups. concat (sort_key (\<lambda>g. op_relative_path (hd g)) groups))
       (fold_result (group_operation (up_operations plan)) (up_operations plan) [])"

definition initial_asset_ids :: "UploadPlan \<Rightarrow> ImportState \<Rightarrow> (string, string) btree_map" where
  "initial_asset_ids plan state =
     fold (\<lambda>oper ids. case state_asset_id state (op_operation_id oper) of
         None \<Rightarrow> ids | Some i \<Rightarrow> btm_insert (op_operation_id oper) i ids) (up_operations plan) []"

definition live_video_id :: "UploadOperation \<Rightarrow> (string, string) btree_map \<Rightarrow> string option" where
  "live_video_id oper asset_ids =
     (case op_role oper of LivePhotoImage _ video_operation_id \<Rightarrow> btm_get asset_ids video_operation_id | _ \<Rightarrow> None)"

definition import_apply_report :: "UploadPlan \<Rightarrow> ImportApplyReport" where
  "import_apply_report plan =
     \<lparr>ir_schema_version = IMPORT_APPLY_REPORT_SCHEMA_VERSION, ir_dry_run = False, ir_planned = up_summary plan,
      ir_would_upload = 0, ir_would_update_metadata = 0, ir_would_create_albums = 0, ir_would_add_album_memberships = 0,
      ir_created = 0, ir_duplicate = 0, ir_metadata_updated = 0, ir_albums_created = 0,
      ir_albums_reused = 0, ir_album_memberships_updated = 0, ir_resumed_effects = 0,
      ir_retried = 0, ir_failed = 0, ir_indeterminate = 0, ir_cancelled = False\<rparr>"

definition import_outcome :: "OutcomeKind \<Rightarrow> ImportOutcome" where
  "import_outcome k =
     (case k of Created \<Rightarrow> ImpCreated | Duplicate \<Rightarrow> ImpDuplicate | Failed \<Rightarrow> ImpFailed | Indeterminate \<Rightarrow> ImpIndeterminate)"

definition count_asset :: "OutcomeKind \<Rightarrow> ImportApplyReport \<Rightarrow> ImportApplyReport" where
  "count_asset k r =
     (case k of
        Created \<Rightarrow> r \<lparr>ir_created := saturating_add (ir_created r) 1\<rparr>
      | Duplicate \<Rightarrow> r \<lparr>ir_duplicate := saturating_add (ir_duplicate r) 1\<rparr>
      | Failed \<Rightarrow> r \<lparr>ir_failed := saturating_add (ir_failed r) 1\<rparr>
      | Indeterminate \<Rightarrow> r \<lparr>ir_indeterminate := saturating_add (ir_indeterminate r) 1\<rparr>)"

definition record_completed_asset ::
  "'w effect_env \<Rightarrow> OperationOutcome \<Rightarrow> 'w import_run \<Rightarrow> (string option, ExecutorErrorClass) result \<times> 'w import_run" where
  "record_completed_asset ev outcome run =
     (case append_effect ev (asset_key (oo_operation_id outcome)) (import_outcome (oo_kind outcome)) (oo_asset_id outcome)
             (oo_retries outcome) run of
        (Err e, r1) \<Rightarrow> (Err e, r1)
      | (Ok _, r1) \<Rightarrow>
          (Ok (oo_asset_id outcome),
           r1 \<lparr>run_report := count_asset (oo_kind outcome) (count_retried (oo_retries outcome) (run_report r1))\<rparr>))"

definition record_asset ::
  "'w effect_env \<Rightarrow> UploadOperation \<Rightarrow> OperationResult \<Rightarrow> 'w import_run \<Rightarrow> (string option, ExecutorErrorClass) result \<times> 'w import_run" where
  "record_asset ev oper result run =
     (case result of
        OpCompleted outcome \<Rightarrow> record_completed_asset ev outcome run
      | OpCancelled outcome \<Rightarrow>
          (let run0 = run \<lparr>run_report := (run_report run) \<lparr>ir_cancelled := True\<rparr>\<rparr> in
           case outcome of
             None \<Rightarrow> (Ok None, run0)
           | Some o' \<Rightarrow>
               (case append_effect ev (asset_key (op_operation_id oper)) ImpIndeterminate None (oo_retries o') run0 of
                  (Err e, r1) \<Rightarrow> (Err e, r1)
                | (Ok _, r1) \<Rightarrow>
                    (Ok None, r1 \<lparr>run_report := count_failure True (count_retried (oo_retries o') (run_report r1))\<rparr>))))"

definition append_asset_failure ::
  "'w effect_env \<Rightarrow> UploadOperation \<Rightarrow> 'w import_run \<Rightarrow> (unit, ExecutorErrorClass) result \<times> 'w import_run" where
  "append_asset_failure ev oper run =
     (case append_effect ev (asset_key (op_operation_id oper)) ImpFailed None 0 run of
        (Err e, r1) \<Rightarrow> (Err e, r1)
      | (Ok _, r1) \<Rightarrow> (Ok (), r1 \<lparr>run_report := count_failure False (run_report r1)\<rparr>))"

section \<open>Staging\<close>

text \<open>The staging of a run: its limits, the extraction of one archive entry to a private file,
  given the source, the portable path, the operation and the suffix, and the removal of such a file.\<close>

record 'w import_staging =
  is_max_entry_bytes :: u64
  is_stage_entry :: "native ResolvedSourceFile \<Rightarrow> string \<Rightarrow> string \<Rightarrow> string \<Rightarrow> 'w exec \<Rightarrow> (string, ExecutorErrorClass) result \<times> 'w exec"
  is_remove_file :: "string \<Rightarrow> 'w exec \<Rightarrow> 'w exec"

definition resolved_source ::
  "'p ResolvedFolderPlan \<Rightarrow> string \<Rightarrow> u64 \<Rightarrow> string \<Rightarrow> ('p ResolvedSourceFile, ExecutorErrorClass) result" where
  "resolved_source resolved path byte_len content_sha256 =
     and_then (ok_or (source_file resolved path) EE_Invariant) (\<lambda>source.
       if rf_byte_len source \<noteq> byte_len \<or> rf_content_sha256 source \<noteq> content_sha256 then Err EE_SourceChanged else Ok source)"

definition staged_file_name :: "string \<Rightarrow> (string, ExecutorErrorClass) result" where
  "staged_file_name path =
     (case os_file_name path of
        Some name \<Rightarrow> if name \<noteq> [] \<and> CHR ''/'' \<notin> set name \<and> CHR 0x5C \<notin> set name then Ok name else Err EE_InvalidPlan
      | None \<Rightarrow> Err EE_InvalidPlan)"

definition staged_sources ::
  "'w import_staging \<Rightarrow> native ResolvedFolderPlan \<Rightarrow> UploadOperation
     \<Rightarrow> (native ResolvedSourceFile \<times> native ResolvedSourceFile option \<times> string, ExecutorErrorClass) result" where
  "staged_sources staging resolved oper =
     and_then (resolved_source resolved (op_relative_path oper) (op_byte_len oper) (op_content_sha256 oper)) (\<lambda>media.
     and_then (case op_xmp_sidecar oper of
                 None \<Rightarrow> Ok None
               | Some x \<Rightarrow> map_ok Some (resolved_source resolved (us_relative_path x) (us_byte_len x) (us_content_sha256 x))) (\<lambda>sidecar.
       let archive_backed = (rf_archive_index media \<noteq> None) in
       if is_some_and sidecar (\<lambda>s. (rf_archive_index s \<noteq> None) \<noteq> archive_backed) then Err EE_Invariant
       else
         let staged_bytes = saturating_add (rf_byte_len media) (case sidecar of None \<Rightarrow> 0 | Some s \<Rightarrow> rf_byte_len s) in
         if archive_backed \<and> staged_bytes > saturating_mul (is_max_entry_bytes staging) 2 then Err EE_InvalidConfiguration
         else map_ok (\<lambda>file_name. (media, sidecar, file_name)) (staged_file_name (op_relative_path oper))))"

definition stage_prepare ::
  "'w effect_env \<Rightarrow> 'w import_staging \<Rightarrow> native ResolvedFolderPlan \<Rightarrow> UploadOperation \<Rightarrow> 'w exec
     \<Rightarrow> (VerifiedAsset, ExecutorErrorClass) result \<times> 'w exec" where
  "stage_prepare ev staging resolved oper st =
     (let (c, s1) = tr_cancelled (ev_transport ev) st in
      if c then (Err EE_Cancelled, s1)
      else case staged_sources staging resolved oper of
        Err e \<Rightarrow> (Err e, s1)
      | Ok (media, sidecar, file_name) \<Rightarrow>
          if rf_archive_index media = None then
            (Ok \<lparr>va_media_path = native_text (rf_native_path media), va_file_name = file_name,
                 va_sha1_base64 = rf_content_sha1_base64 media,
                 va_xmp = map_option (\<lambda>s. (native_text (rf_native_path s), rf_byte_len s)) sidecar\<rparr>, s1)
          else
            (case is_stage_entry staging media (op_relative_path oper) (op_operation_id oper) ''media'' s1 of
               (Err e, s2) \<Rightarrow> (Err e, s2)
             | (Ok media_path, s2) \<Rightarrow>
                 (case (sidecar, op_xmp_sidecar oper) of
                    (Some source, Some expected) \<Rightarrow>
                      (case is_stage_entry staging source (us_relative_path expected) (op_operation_id oper) ''xmp'' s2 of
                         (Err e, s3) \<Rightarrow> (Err e, is_remove_file staging media_path s3)
                       | (Ok path, s3) \<Rightarrow>
                           (Ok \<lparr>va_media_path = media_path, va_file_name = file_name, va_sha1_base64 = rf_content_sha1_base64 media,
                                va_xmp = Some (path, rf_byte_len source)\<rparr>, s3))
                  | (None, None) \<Rightarrow>
                      (Ok \<lparr>va_media_path = media_path, va_file_name = file_name, va_sha1_base64 = rf_content_sha1_base64 media,
                           va_xmp = None\<rparr>, s2)
                  | _ \<Rightarrow> (Err EE_Invariant, s2))))"

text \<open>Dropping what \<open>prepare\<close> gave removes the files it staged.\<close>

definition stage_release ::
  "'w import_staging \<Rightarrow> native ResolvedFolderPlan \<Rightarrow> UploadOperation \<Rightarrow> VerifiedAsset \<Rightarrow> 'w exec \<Rightarrow> 'w exec" where
  "stage_release staging resolved oper source st =
     (case staged_sources staging resolved oper of
        Ok (media, _, _) \<Rightarrow>
          if rf_archive_index media = None then st
          else fold (is_remove_file staging)
            (va_media_path source # (case va_xmp source of None \<Rightarrow> [] | Some (path, _) \<Rightarrow> [path])) st
      | Err _ \<Rightarrow> st)"

section \<open>The run\<close>

text \<open>How a run gets at the bytes of an operation, and how it lets go of them after the upload.\<close>

record 'w stage =
  sg_prepare :: "UploadOperation \<Rightarrow> 'w exec \<Rightarrow> (VerifiedAsset, ExecutorErrorClass) result \<times> 'w exec"
  sg_release :: "UploadOperation \<Rightarrow> VerifiedAsset \<Rightarrow> 'w exec \<Rightarrow> 'w exec"

text \<open>What an upload of one asset does: the outcome, or the end of the run for this operation.\<close>

datatype asset_step = AssetStop | AssetSkip | AssetDone string

definition upload_asset ::
  "'w effect_env \<Rightarrow> 'w stage \<Rightarrow> (string, string) btree_map \<Rightarrow> UploadOperation \<Rightarrow> 'w import_run
     \<Rightarrow> (asset_step, ExecutorErrorClass) result \<times> 'w import_run" where
  "upload_asset ev stage asset_ids oper run =
     (let video = live_video_id oper asset_ids in
      if is_image oper \<and> video = None then
        (case append_asset_failure ev oper run of
           (Err e, r1) \<Rightarrow> (Err e, r1)
         | (Ok _, r1) \<Rightarrow> (Ok AssetSkip, r1))
      else
        (case sg_prepare stage oper (run_exec run) of
           (Err e, s1) \<Rightarrow> (Err e, run \<lparr>run_exec := s1\<rparr>)
         | (Ok source, s1) \<Rightarrow>
             (let (outcome, s2) = operation_apply (ev_sha256 ev) (ev_transport ev) (ev_config ev) oper source video s1 in
              case record_asset ev oper outcome (run \<lparr>run_exec := sg_release stage oper source s2\<rparr>) of
                (Err e, r1) \<Rightarrow> (Err e, r1)
              | (Ok (Some asset_id), r1) \<Rightarrow> (Ok (AssetDone asset_id), r1)
              | (Ok None, r1) \<Rightarrow> (Ok (if ir_cancelled (run_report r1) then AssetStop else AssetSkip), r1))))"

fun import_loop ::
  "'w effect_env \<Rightarrow> 'w stage \<Rightarrow> ImportState \<Rightarrow> UploadOperation list
     \<Rightarrow> (string, string) btree_map \<Rightarrow> 'w import_run \<Rightarrow> ((string, string) btree_map, ExecutorErrorClass) result \<times> 'w import_run" where
  "import_loop ev stage state [] asset_ids run = (Ok asset_ids, run)"
| "import_loop ev stage state (oper # opers) asset_ids run =
     (let (c, st) = tr_cancelled (ev_transport ev) (run_exec run); run0 = run \<lparr>run_exec := st\<rparr> in
      if c then (Ok asset_ids, run0 \<lparr>run_report := (run_report run0) \<lparr>ir_cancelled := True\<rparr>\<rparr>)
      else
        let (step, run1) = (case state_asset_id state (op_operation_id oper) of
              Some asset_id \<Rightarrow> (Ok (AssetDone asset_id), count_resumed run0)
            | None \<Rightarrow> upload_asset ev stage asset_ids oper run0);
            asset_ids1 = (case step of
              Ok (AssetDone asset_id) \<Rightarrow>
                if state_asset_id state (op_operation_id oper) = None then btm_insert (op_operation_id oper) asset_id asset_ids else asset_ids
            | _ \<Rightarrow> asset_ids) in
        (case step of
           Err e \<Rightarrow> (Err e, run1)
         | Ok AssetStop \<Rightarrow> (Ok asset_ids1, run1)
         | Ok AssetSkip \<Rightarrow> import_loop ev stage state opers asset_ids1 run1
         | Ok (AssetDone asset_id) \<Rightarrow>
             (case apply_metadata ev oper asset_id state run1 of
                (Err e, run2) \<Rightarrow> (Err e, run2)
              | (Ok go_on, run2) \<Rightarrow>
                  if go_on then import_loop ev stage state opers asset_ids1 run2 else (Ok asset_ids1, run2))))"

definition run_import ::
  "'w effect_env \<Rightarrow> 'w stage \<Rightarrow> UploadPlan \<Rightarrow> ImportState \<Rightarrow> 'w import_run
     \<Rightarrow> (ImportApplyReport, ExecutorErrorClass) result \<times> 'w import_run" where
  "run_import ev stage plan state run =
     (case ordered_operations plan of
        Err e \<Rightarrow> (Err e, run)
      | Ok opers \<Rightarrow>
          (case import_loop ev stage state opers (initial_asset_ids plan state) run of
             (Err e, run1) \<Rightarrow> (Err e, run1)
           | (Ok asset_ids, run1) \<Rightarrow>
               if \<not> ir_cancelled (run_report run1) \<and> length asset_ids = length (up_operations plan)
               then (case apply_albums ev plan asset_ids state run1 of
                       (Err e, run2) \<Rightarrow> (Err e, run2)
                     | (Ok _, run2) \<Rightarrow> (Ok (run_report run2), run2))
               else (Ok (run_report run1), run1)))"

section \<open>Before the run\<close>

text \<open>What an import run is given besides its plan: the tables, the adapter's scan of the inputs
  under the plan's label, the staging that was opened, and how SQLite behaved on opening.\<close>

record 'w import_env =
  iv_tables :: scan_tables
  iv_json :: executor_tables
  iv_unix_nanos :: "string \<Rightarrow> int option"
  iv_upload_json :: "UploadPlan \<Rightarrow> string option"
  iv_scan :: "(native ResolvedFolderPlan, ScanError) result"
  iv_staging :: "('w import_staging, ExecutorErrorClass) result"
  iv_open_ok :: bool
  iv_effects :: "'w effect_env"

definition iv_plan_sha256 :: "'w import_env \<Rightarrow> UploadPlan \<Rightarrow> string option" where
  "iv_plan_sha256 iv plan = map_option (tb_hex_sha256 (iv_tables iv)) (iv_upload_json iv plan)"

definition validate_context ::
  "'w import_env \<Rightarrow> UploadPlan \<Rightarrow> ImportConfig \<Rightarrow> ImmichUploadClient \<Rightarrow> bool \<Rightarrow> (unit, ExecutorErrorClass) result" where
  "validate_context iv plan config client production =
     and_then (validate_import config) (\<lambda>_.
     and_then (map_err (\<lambda>_. EE_InvalidPlan) (UploadPlan_validate (tb_rfc3339 (iv_tables iv)) plan)) (\<lambda>_.
       if up_schema_version plan \<noteq> UPLOAD_PLAN_SCHEMA_VERSION_V2 \<or> sd_kind (up_source plan) \<noteq> import_source_kind config
       then Err EE_InvalidPlan
       else and_then (import_identity (iv_tables iv) (iv_json iv) config) (\<lambda>identity.
         ensure (up_configuration_sha256 plan = identity \<and> uc_compatibility client = up_server plan
            \<and> uc_production client = production) EE_InvalidPlan)))"

definition import_rescan ::
  "'w import_env \<Rightarrow> UploadPlan \<Rightarrow> ImportConfig \<Rightarrow> (native ResolvedFolderPlan, ExecutorErrorClass) result" where
  "import_rescan iv plan config =
     and_then (map_err scan_failure (iv_scan iv)) (\<lambda>resolved.
     and_then (create_import_upload_plan (iv_tables iv) (iv_json iv) (iv_unix_nanos iv) resolved (up_server plan) config) (\<lambda>observed.
       if observed \<noteq> plan then Err EE_SourceChanged else Ok resolved))"

definition open_import_journal ::
  "'w import_env \<Rightarrow> import_file \<Rightarrow> UploadPlan \<Rightarrow> string option \<Rightarrow> (import_db, ExecutorErrorClass) result" where
  "open_import_journal iv f plan backup =
     (case backup of
        Some digest \<Rightarrow> ImportJournal_open_production (tb_rfc3339 (iv_tables iv)) (iv_plan_sha256 iv) (iv_open_ok iv) f plan digest
      | None \<Rightarrow> ImportJournal_open (tb_rfc3339 (iv_tables iv)) (iv_plan_sha256 iv) (iv_open_ok iv) f plan)"

definition apply_import_inner ::
  "'w import_env \<Rightarrow> UploadPlan \<Rightarrow> import_file \<Rightarrow> ImportConfig \<Rightarrow> ImmichUploadClient \<Rightarrow> string option \<Rightarrow> 'w
     \<Rightarrow> (ImportApplyReport, ExecutorErrorClass) result \<times> import_file" where
  "apply_import_inner iv plan f config client backup w =
     (case validate_context iv plan config client (backup \<noteq> None) of Err e \<Rightarrow> (Err e, f) | Ok _ \<Rightarrow>
     (case import_rescan iv plan config of Err e \<Rightarrow> (Err e, f) | Ok resolved \<Rightarrow>
     (case open_import_journal iv f plan backup of Err e \<Rightarrow> (Err e, f) | Ok db \<Rightarrow>
     (case ImportJournal_state db of Err e \<Rightarrow> (Err e, ImportDatabase db) | Ok state \<Rightarrow>
     (case validate_for_plan (ev_hex_sha256 (iv_effects iv)) state plan of Err e \<Rightarrow> (Err e, ImportDatabase db) | Ok _ \<Rightarrow>
     (case iv_staging iv of Err e \<Rightarrow> (Err e, ImportDatabase db) | Ok staging \<Rightarrow>
        (let st = \<lparr>ex_world = w, ex_budget = RetryBudget_new (ec_max_retries_per_run (import_upload config))\<rparr>;
             run = \<lparr>run_exec = st, run_db = db, run_report = import_apply_report plan\<rparr>;
             ev = (iv_effects iv) \<lparr>ev_config := import_upload config\<rparr>;
             (report, run') = run_import ev \<lparr>sg_prepare = stage_prepare ev staging resolved, sg_release = stage_release staging resolved\<rparr> plan state run in
         (report, ImportDatabase (run_db run')))))))))"

definition apply_import ::
  "'w import_env \<Rightarrow> UploadPlan \<Rightarrow> import_file \<Rightarrow> ImportConfig \<Rightarrow> ImmichUploadClient \<Rightarrow> 'w
     \<Rightarrow> (ImportApplyReport, ExecutorErrorClass) result \<times> import_file" where
  "apply_import iv plan f config client w = apply_import_inner iv plan f config client None w"

definition apply_production_import ::
  "(UploadPlan \<Rightarrow> string option) \<Rightarrow> (string \<Rightarrow> string) \<Rightarrow> 'w import_env \<Rightarrow> UploadPlan \<Rightarrow> import_file \<Rightarrow> ImportConfig
     \<Rightarrow> ImmichUploadClient \<times> ProductionAuthorization \<Rightarrow> 'w \<Rightarrow> (ImportApplyReport, ExecutorErrorClass) result \<times> import_file" where
  "apply_production_import to_vec sha256 iv plan f config client w =
     (if \<not> ProductionImportAuthorization_matches_plan (tb_rfc3339 (iv_tables iv)) to_vec sha256 (snd client) plan
         \<or> \<not> uc_production (fst client)
      then (Err EE_InvalidPlan, f)
      else apply_import_inner iv plan f config (fst client) (Some (pa_backup_reference_sha256 (snd client))) w)"

section \<open>Dry runs\<close>

definition checkpoint_exists :: "import_file \<Rightarrow> (bool, ExecutorErrorClass) result" where
  "checkpoint_exists f = (case f of NoImportFile \<Rightarrow> Ok False | ImportInaccessible \<Rightarrow> Err EE_Checkpoint | _ \<Rightarrow> Ok True)"

definition dry_run_import ::
  "'w import_env \<Rightarrow> UploadPlan \<Rightarrow> import_file \<Rightarrow> ImportConfig \<Rightarrow> (ImportApplyReport, ExecutorErrorClass) result" where
  "dry_run_import iv plan f config =
     and_then (validate_import config) (\<lambda>_.
     and_then (map_err (\<lambda>_. EE_InvalidPlan) (UploadPlan_validate (tb_rfc3339 (iv_tables iv)) plan)) (\<lambda>_.
       if up_schema_version plan \<noteq> UPLOAD_PLAN_SCHEMA_VERSION_V2 \<or> sd_kind (up_source plan) \<noteq> import_source_kind config
       then Err EE_InvalidPlan
       else and_then (import_identity (iv_tables iv) (iv_json iv) config) (\<lambda>identity.
         if up_configuration_sha256 plan \<noteq> identity then Err EE_InvalidPlan
         else and_then (checkpoint_exists f) (\<lambda>present.
           if present then Err EE_Checkpoint
           else and_then (import_rescan iv plan config) (\<lambda>_. Ok (ImportApplyReport_dry_run (up_summary plan)))))))"

end
