(* ===== verification/Exec_Import_Safety.thy ===== *)
theory Exec_Import_Safety
  imports Exec_Import_Apply
begin

text \<open>
  What an import run does to its checkpoint. Every step of the run appends rows for a list of keys that
  is known beforehand; the lists of the steps compose to the list of the run: the effects of the plan
  that the checkpoint does not hold yet, each at most once, albums after assets.
\<close>

section \<open>Appends\<close>

definition appends :: "string list \<Rightarrow> import_db \<Rightarrow> import_db \<Rightarrow> bool" where
  "appends ks db db' \<longleftrightarrow>
     (\<exists>tes. db' = fold record_effect tes db \<and> (\<forall>te \<in> set tes. effect_ok (snd te)) \<and>
        subseq (map (ie_effect_key \<circ> snd) tes) ks)"

lemma appends_refl [simp]: "appends ks db db"
  unfolding appends_def by (rule exI [of _ "[]"]) simp

lemma appends_trans:
  assumes "appends ks a b" "appends ls b c"
  shows "appends (ks @ ls) a c"
proof -
  obtain es where es: "b = fold record_effect es a" "\<forall>te \<in> set es. effect_ok (snd te)" "subseq (map (ie_effect_key \<circ> snd) es) ks"
    using assms(1) unfolding appends_def by blast
  obtain fs where fs: "c = fold record_effect fs b" "\<forall>te \<in> set fs. effect_ok (snd te)" "subseq (map (ie_effect_key \<circ> snd) fs) ls"
    using assms(2) unfolding appends_def by blast
  show ?thesis unfolding appends_def
    using es fs by (intro exI [of _ "es @ fs"]) (auto intro: list_emb_append_mono)
qed

lemma appends_mono: "appends ks db db' \<Longrightarrow> subseq ks ls \<Longrightarrow> appends ls db db'"
  unfolding appends_def by (elim exE conjE) (metis subseq_order.order_trans)

lemma appends_left: "appends ks db db' \<Longrightarrow> appends (ks @ ls) db db'"
  by (rule appends_mono) auto

lemma append_effect_appends:
  assumes "append_effect ev key outcome remote retries run = (r, run')"
  shows "appends [key] (run_db run) (run_db run')" "run_report run' = run_report run"
    "is_ok r \<Longrightarrow> \<exists>t. run_db run' = insert_effect t \<lparr>ie_effect_key = key, ie_outcome = outcome, ie_remote_id = remote, ie_retries = retries\<rparr> (run_db run)
       \<and> is_ok (validate_effect key outcome remote)"
proof -
  let ?e = "\<lparr>ie_effect_key = key, ie_outcome = outcome, ie_remote_id = remote, ie_retries = retries\<rparr>"
  consider "run' = run" "\<not> is_ok r"
    | t where "run' = run \<lparr>run_db := insert_effect t ?e (run_db run)\<rparr>" "effect_ok ?e"
    using assms by (auto simp: append_effect_def Let_def ImportJournal_append_def and_then_eq_Ok effect_ok_def
        split: result.splits option.splits if_splits)
  then have "appends [key] (run_db run) (run_db run') \<and> run_report run' = run_report run \<and>
    (is_ok r \<longrightarrow> (\<exists>t. run_db run' = insert_effect t ?e (run_db run) \<and> is_ok (validate_effect key outcome remote)))"
  proof cases
    case (2 t)
    then show ?thesis unfolding appends_def by (auto simp: effect_ok_def intro!: exI [of _ "[(t, ?e)]"])
  qed simp
  then show "appends [key] (run_db run) (run_db run')" "run_report run' = run_report run"
    "is_ok r \<Longrightarrow> \<exists>t. run_db run' = insert_effect t ?e (run_db run) \<and> is_ok (validate_effect key outcome remote)"
    by blast+
qed

named_theorems appends_intros \<open>the keys a step of the run may append\<close>

lemma count_resumed_db [simp]: "run_db (count_resumed run) = run_db run"
  by (simp add: count_resumed_def)

lemma record_effect_failure_appends [appends_intros]:
  "record_effect_failure ev key indet n run = (r, run') \<Longrightarrow> appends [key] (run_db run) (run_db run')"
  by (auto simp: record_effect_failure_def dest: append_effect_appends(1) split: prod.splits result.splits)

lemma record_album_appends [appends_intros]:
  "record_album ev i effect run = (r, run') \<Longrightarrow> appends [album_key i] (run_db run) (run_db run')"
  by (auto simp: record_album_def Let_def dest: append_effect_appends(1) record_effect_failure_appends
      split: effect_result.splits prod.splits result.splits)

lemma apply_membership_appends [appends_intros]:
  assumes "apply_membership ev i album members run = (r, run')"
  shows "appends [membership_key i] (run_db run) (run_db run')"
proof -
  obtain e st where loop: "effect_loop ev (membership_key i) (add_album_assets (ev_transport ev) album members) 0 (run_exec run) = (e, st)"
    by (cases "effect_loop ev (membership_key i) (add_album_assets (ev_transport ev) album members) 0 (run_exec run)")
  show ?thesis using assms append_effect_appends(1) [of ev "membership_key i" _ _ _ "run \<lparr>run_exec := st\<rparr>"]
      record_effect_failure_appends [of ev "membership_key i" _ _ "run \<lparr>run_exec := st\<rparr>"]
    by (auto simp: apply_membership_def loop Let_def split: prod.splits result.splits if_splits)
qed

section \<open>The effects of a run\<close>

definition metadata_effects :: "ImportState \<Rightarrow> UploadOperation \<Rightarrow> string list" where
  "metadata_effects state oper =
     (if is_some_and (op_normalized_metadata oper) has_metadata_assignment \<and> \<not> metadata_done state (op_operation_id oper)
      then [metadata_key (op_operation_id oper)] else [])"

definition asset_effects :: "ImportState \<Rightarrow> UploadOperation \<Rightarrow> string list" where
  "asset_effects state oper =
     (if state_asset_id state (op_operation_id oper) = None then [asset_key (op_operation_id oper)] else [])
     @ metadata_effects state oper"

definition album_effects :: "(string \<Rightarrow> string) \<Rightarrow> ImportState \<Rightarrow> string \<Rightarrow> string list" where
  "album_effects hex state name =
     (let identity = album_identity hex name in
      (if state_album state identity = None then [album_key identity] else [])
      @ (if membership_done state identity then [] else [membership_key identity]))"

lemma has_assignment_eq: "has_metadata_assignment = has_assignment"
  by (simp add: fun_eq_iff has_metadata_assignment_def has_assignment_def)

lemma apply_metadata_appends [appends_intros]:
  assumes "apply_metadata ev oper asset state run = (r, run')"
  shows "appends (metadata_effects state oper) (run_db run) (run_db run')"
proof (cases "is_some_and (op_normalized_metadata oper) has_assignment \<and> \<not> metadata_done state (op_operation_id oper)")
  case True
  then obtain m where m: "op_normalized_metadata oper = Some m" "has_assignment m" by (auto simp: is_some_and_iff)
  let ?key = "metadata_key (op_operation_id oper)"
  obtain e st where loop: "effect_loop ev ?key (update_asset_metadata (ev_transport ev) asset m) 0 (run_exec run) = (e, st)"
    by (cases "effect_loop ev ?key (update_asset_metadata (ev_transport ev) asset m) 0 (run_exec run)")
  show ?thesis using assms m True append_effect_appends(1) [of ev ?key _ _ _ "run \<lparr>run_exec := st\<rparr>"]
    by (auto simp: apply_metadata_def metadata_effects_def has_assignment_eq loop Let_def split: prod.splits result.splits)
next
  case False
  then have "run_db run' = run_db run"
    using assms by (auto simp: apply_metadata_def split: option.splits if_splits)
  then show ?thesis by simp
qed

lemma album_membership_appends [appends_intros]:
  "album_membership ev state i album members run = (r, run') \<Longrightarrow>
     appends (if membership_done state i then [] else [membership_key i]) (run_db run) (run_db run')"
  by (auto simp: album_membership_def intro: appends_intros)

lemma apply_albums_loop_appends:
  assumes "apply_albums_loop ev state albums run = (r, run')"
  shows "appends (concat (map (album_effects (ev_hex_sha256 ev) state \<circ> fst) albums)) (run_db run) (run_db run')"
  using assms
proof (induction albums arbitrary: run)
  case (Cons a albums)
  obtain name members where a: "a = (name, members)" by (cases a)
  let ?i = "album_identity (ev_hex_sha256 ev) name"
  let ?rest = "concat (map (album_effects (ev_hex_sha256 ev) state \<circ> fst) albums)"
  obtain c st where c: "tr_cancelled (ev_transport ev) (run_exec run) = (c, st)" by fastforce
  let ?run0 = "run \<lparr>run_exec := st\<rparr>"
  obtain album run1 where album: "(case state_album state ?i of
      Some (_, album_id) \<Rightarrow> (Ok (Some album_id), count_resumed ?run0)
    | None \<Rightarrow> (let (effect, st') = converge_album ev name (run_exec ?run0) in
               record_album ev ?i effect (?run0 \<lparr>run_exec := st'\<rparr>))) = (album, run1)" (is "?first = _")
    by (cases ?first)
  have first: "appends (if state_album state ?i = None then [album_key ?i] else []) (run_db run) (run_db run1)"
    using album record_album_appends by (fastforce split: option.splits prod.splits simp: Let_def)
  have second: "appends (if membership_done state ?i then [] else [membership_key ?i]) (run_db run1) (run_db run2)"
    if "album_membership ev state ?i album_id members run1 = (q, run2)" for album_id q run2
    using album_membership_appends [OF that] .
  have both: "appends (album_effects (ev_hex_sha256 ev) state name) (run_db run) (run_db run2)"
    if "run2 = run1 \<or> (\<exists>album_id q. album_membership ev state ?i album_id members run1 = (q, run2))" for run2
    using appends_trans [OF first] second that appends_refl unfolding album_effects_def Let_def by blast
  have rest: "appends ?rest (run_db run2) (run_db run')" if "apply_albums_loop ev state albums run2 = (r, run')" for run2
    using Cons.IH [OF that] .
  consider "run_db run' = run_db run" | "run' = run1" | "apply_albums_loop ev state albums run1 = (r, run')"
    | album_id q where "album_membership ev state ?i album_id members run1 = (q, run')"
    | album_id q run2 where "album_membership ev state ?i album_id members run1 = (q, run2)" "apply_albums_loop ev state albums run2 = (r, run')"
    using Cons.prems unfolding a apply_albums_loop.simps Let_def c prod.case album [unfolded Let_def]
    by (auto split: prod.splits result.splits option.splits if_splits)
  then show ?case
  proof cases
    case 3 then show ?thesis using appends_trans [OF both rest] by (auto simp: a comp_def)
  next
    case 5 then show ?thesis using appends_trans [OF both rest] by (auto simp: a comp_def)
  qed (use appends_left [OF both] in \<open>auto simp: a comp_def\<close>)
qed simp

text \<open>An operation ends with its asset exactly when the new row of its key holds a success.\<close>

lemma operation_apply_outcomes:
  assumes "UploadExecutionConfig_validate config = Ok ()" "operation_apply sha tr config oper source video st = (res, st')"
  shows "\<forall>x \<in> set (result_outcomes res). outcome_ok config oper x"
  using assms apply_loop_outcomes [of sha tr config oper source video 0 st res st']
  by (auto simp: operation_apply_def validate_config_iff)

definition asset_row :: "string \<Rightarrow> string \<Rightarrow> ImportEvent \<Rightarrow> bool" where
  "asset_row operation_id asset e \<longleftrightarrow>
     ie_effect_key e = asset_key operation_id \<and> ie_outcome e \<in> {ImpCreated, ImpDuplicate} \<and> ie_remote_id e = Some asset"

lemma record_asset_appends:
  assumes "record_asset ev oper res run = (r, run')" "\<forall>x \<in> set (result_outcomes res). outcome_ok config oper x"
  shows "appends [asset_key (op_operation_id oper)] (run_db run) (run_db run')"
    "r = Ok (Some asset) \<Longrightarrow> \<exists>t e. run_db run' = insert_effect t e (run_db run) \<and> effect_ok e \<and> asset_row (op_operation_id oper) asset e"
proof -
  show "appends [asset_key (op_operation_id oper)] (run_db run) (run_db run')"
    using assms by (auto simp: record_asset_def record_completed_asset_def Let_def outcome_ok_def
        dest: append_effect_appends(1) split: OperationResult.splits option.splits prod.splits result.splits)
  assume "r = Ok (Some asset)"
  then obtain x run1 where x: "res = OpCompleted x" "oo_asset_id x = Some asset"
      "append_effect ev (asset_key (oo_operation_id x)) (import_outcome (oo_kind x)) (oo_asset_id x) (oo_retries x) run = (Ok (), run1)"
      "run_db run' = run_db run1"
    using assms(1) by (auto simp: record_asset_def record_completed_asset_def Let_def
        split: OperationResult.splits option.splits prod.splits result.splits)
  have "oo_operation_id x = op_operation_id oper" "import_outcome (oo_kind x) \<in> {ImpCreated, ImpDuplicate}"
    using assms(2) x(1,2) by (auto simp: outcome_ok_def import_outcome_def asset_contract_def split: OutcomeKind.splits)
  then show "\<exists>t e. run_db run' = insert_effect t e (run_db run) \<and> effect_ok e \<and> asset_row (op_operation_id oper) asset e"
    using append_effect_appends(3) [OF x(3)] x(2,4) by (force simp: effect_ok_def asset_row_def)
qed

lemma append_asset_failure_appends:
  "append_asset_failure ev oper run = (r, run') \<Longrightarrow> appends [asset_key (op_operation_id oper)] (run_db run) (run_db run')"
  by (auto simp: append_asset_failure_def dest: append_effect_appends(1) split: prod.splits result.splits)

lemma upload_asset_appends:
  assumes "upload_asset ev stage ids oper run = (r, run')" "UploadExecutionConfig_validate (ev_config ev) = Ok ()"
  shows "appends [asset_key (op_operation_id oper)] (run_db run) (run_db run')"
    "r = Ok (AssetDone asset) \<Longrightarrow> \<exists>t e. run_db run' = insert_effect t e (run_db run) \<and> effect_ok e \<and> asset_row (op_operation_id oper) asset e"
proof -
  let ?P = "appends [asset_key (op_operation_id oper)] (run_db run) (run_db run') \<and>
    (r = Ok (AssetDone asset) \<longrightarrow> (\<exists>t e. run_db run' = insert_effect t e (run_db run) \<and> effect_ok e \<and> asset_row (op_operation_id oper) asset e))"
  consider (fail) r1 where "append_asset_failure ev oper run = (r1, run')" "\<forall>a. r \<noteq> Ok (AssetDone a)"
    | (stage) "run_db run' = run_db run" "\<forall>a. r \<noteq> Ok (AssetDone a)"
    | (applied) source video s1 res s2 s3 q where "operation_apply (ev_sha256 ev) (ev_transport ev) (ev_config ev) oper source video s1 = (res, s2)"
        "record_asset ev oper res (run \<lparr>run_exec := s3\<rparr>) = (q, run')" "\<forall>a. r = Ok (AssetDone a) \<longrightarrow> q = Ok (Some a)"
  proof (cases "is_image oper \<and> live_video_id oper ids = None")
    case True
    then show thesis using assms(1) fail
      by (cases "append_asset_failure ev oper run") (auto simp: upload_asset_def split: result.splits)
  next
    case False
    obtain p s1 where p: "sg_prepare stage oper (run_exec run) = (p, s1)" by fastforce
    show thesis
    proof (cases p)
      case (Err e)
      then show thesis using assms(1) False p stage by (auto simp: upload_asset_def Let_def)
    next
      case (Ok source)
      obtain res s2 where o: "operation_apply (ev_sha256 ev) (ev_transport ev) (ev_config ev) oper source (live_video_id oper ids) s1 = (res, s2)"
        by fastforce
      obtain q r1 where q: "record_asset ev oper res (run \<lparr>run_exec := sg_release stage oper source s2\<rparr>) = (q, r1)" by fastforce
      have "r1 = run'" "\<forall>a. r = Ok (AssetDone a) \<longrightarrow> q = Ok (Some a)"
        using assms(1) False p Ok o q by (auto simp: upload_asset_def Let_def split: result.splits option.splits if_splits)
      then show thesis using applied o q by blast
    qed
  qed
  then have ?P
  proof cases
    case fail
    then show ?thesis using append_asset_failure_appends by blast
  next
    case applied
    note out = operation_apply_outcomes [OF assms(2) applied(1)]
    show ?thesis using record_asset_appends [OF applied(2) out] applied(3) by auto
  qed simp
  then show "appends [asset_key (op_operation_id oper)] (run_db run) (run_db run')"
    "r = Ok (AssetDone asset) \<Longrightarrow> \<exists>t e. run_db run' = insert_effect t e (run_db run) \<and> effect_ok e \<and> asset_row (op_operation_id oper) asset e"
    by blast+
qed

section \<open>Assets\<close>

lemma subseq_set: "subseq xs ys \<Longrightarrow> set xs \<subseteq> set ys"
  by (auto simp: subseq_conv_nths dest: in_set_nthsD)

lemma subseq_distinct: "subseq xs ys \<Longrightarrow> distinct ys \<Longrightarrow> distinct xs"
  by (auto simp: subseq_conv_nths)

text \<open>The asset the journal holds for an operation.\<close>

definition asset_of :: "import_db \<Rightarrow> string \<Rightarrow> string option" where
  "asset_of db operation_id =
     (case effect_view db (asset_key operation_id) of
        None \<Rightarrow> None
      | Some e \<Rightarrow> if se_outcome e \<in> {ImpCreated, ImpDuplicate} then se_remote_id e else None)"

definition assets_known :: "import_db \<Rightarrow> (string, string) btree_map \<Rightarrow> bool" where
  "assets_known db ids \<longleftrightarrow> (\<forall>i asset. btm_get ids i = Some asset \<longrightarrow> asset_of db i = Some asset)"

lemma appends_ok: "appends ks db db' \<Longrightarrow> import_ok db \<Longrightarrow> import_ok db'"
  unfolding appends_def using import_log.ok_fold by fastforce

lemma appends_view:
  assumes "appends ks db db'" "import_ok db" "key \<notin> set ks"
  shows "effect_view db' key = effect_view db key"
proof -
  obtain tes where tes: "db' = fold record_effect tes db" "\<forall>te \<in> set tes. effect_ok (snd te)" "subseq (map (ie_effect_key \<circ> snd) tes) ks"
    using assms(1) unfolding appends_def by blast
  have "key \<notin> (ie_effect_key \<circ> snd) ` set tes"
    using assms(3) subseq_set [OF tes(3)] by auto
  with tes show ?thesis using import_log.view_untouched [OF assms(2), of tes key] by simp
qed

lemma asset_of_appends: "appends ks db db' \<Longrightarrow> import_ok db \<Longrightarrow> asset_key i \<notin> set ks \<Longrightarrow> asset_of db' i = asset_of db i"
  by (simp add: asset_of_def appends_view)

lemma asset_of_insert:
  assumes "import_ok db" "effect_ok e" "asset_row i asset e"
  shows "asset_of (insert_effect t e db) j = (if j = i then Some asset else asset_of db j)"
  using import_log.view_record [of db "(t, e)"] assms
  by (auto simp: asset_of_def asset_row_def event_result_def success_def)

lemma assets_known_appends:
  "assets_known db ids \<Longrightarrow> appends ks db db' \<Longrightarrow> import_ok db \<Longrightarrow> (\<And>i. asset_key i \<in> set ks \<Longrightarrow> btm_get ids i = None) \<Longrightarrow> assets_known db' ids"
  unfolding assets_known_def using asset_of_appends by (metis option.distinct(1))

lemma metadata_effects_assets: "asset_key i \<notin> set (metadata_effects state oper)"
  by (simp add: metadata_effects_def)

text \<open>What the loop over the operations keeps: the journal grows by the open effects of the
  operations, and every asset in the map is the journal's.\<close>

definition loop_result :: "ImportState \<Rightarrow> UploadOperation list \<Rightarrow> (string, string) btree_map \<Rightarrow> import_db
    \<Rightarrow> (string, string) btree_map option \<Rightarrow> import_db \<Rightarrow> bool" where
  "loop_result state opers ids db res db' \<longleftrightarrow>
     appends (concat (map (asset_effects state) opers)) db db' \<and>
     (\<forall>ids'. res = Some ids' \<longrightarrow> btm_wf ids' \<and> assets_known db' ids' \<and>
        fst ` set ids' \<subseteq> fst ` set ids \<union> op_operation_id ` set opers)"

lemma loop_result_stop:
  assumes "appends (asset_effects state oper) db db'" "\<And>ids'. res = Some ids' \<Longrightarrow> btm_wf ids' \<and> assets_known db' ids' \<and>
      fst ` set ids' \<subseteq> insert (op_operation_id oper) (fst ` set ids)"
  shows "loop_result state (oper # opers) ids db res db'"
  using assms appends_left [of "asset_effects state oper"] unfolding loop_result_def by auto

lemma loop_result_step:
  assumes "appends (asset_effects state oper) db db1" "fst ` set ids1 \<subseteq> insert (op_operation_id oper) (fst ` set ids)"
    "loop_result state opers ids1 db1 res db'"
  shows "loop_result state (oper # opers) ids db res db'"
proof -
  have "fst ` set ids' \<subseteq> fst ` set ids \<union> op_operation_id ` set (oper # opers)" if "res = Some ids'" for ids'
  proof -
    have "fst ` set ids' \<subseteq> fst ` set ids1 \<union> op_operation_id ` set opers" using assms(3) that by (simp add: loop_result_def)
    then show ?thesis using assms(2) by auto
  qed
  then show ?thesis using assms(3) appends_trans [OF assms(1)] unfolding loop_result_def by simp
qed

lemma btm_insert_keys: "fst ` set (btm_insert k v m) = insert k (fst ` set m)"
proof -
  have "dom (btm_get (btm_insert k v m)) = insert k (dom (btm_get m))" by simp
  then show ?thesis by (simp only: dom_map_of_conv_image_fst)
qed

definition ok_value :: "('a, 'e) result \<Rightarrow> 'a option" where
  "ok_value r = (case r of Ok x \<Rightarrow> Some x | Err _ \<Rightarrow> None)"

text \<open>One operation: its asset is resumed or uploaded.\<close>

lemma asset_phase:
  assumes step: "(case state_asset_id state (op_operation_id oper) of
      Some asset \<Rightarrow> (Ok (AssetDone asset), count_resumed run)
    | None \<Rightarrow> upload_asset ev stage ids oper run) = (step, run1)"
    and valid: "UploadExecutionConfig_validate (ev_config ev) = Ok ()" and ok: "import_ok (run_db run)" "btm_wf ids" "assets_known (run_db run) ids"
    and fresh: "state_asset_id state (op_operation_id oper) = None \<Longrightarrow> btm_get ids (op_operation_id oper) = None"
    and ids1: "ids1 = (case step of
        Ok (AssetDone asset) \<Rightarrow>
          if state_asset_id state (op_operation_id oper) = None then btm_insert (op_operation_id oper) asset ids else ids
      | _ \<Rightarrow> ids)"
  shows "appends (if state_asset_id state (op_operation_id oper) = None then [asset_key (op_operation_id oper)] else []) (run_db run) (run_db run1)"
    "btm_wf ids1" "assets_known (run_db run1) ids1" "fst ` set ids1 \<subseteq> insert (op_operation_id oper) (fst ` set ids)"
proof -
  let ?i = "op_operation_id oper"
  have "appends (if state_asset_id state ?i = None then [asset_key ?i] else []) (run_db run) (run_db run1) \<and>
    btm_wf ids1 \<and> assets_known (run_db run1) ids1 \<and> fst ` set ids1 \<subseteq> insert ?i (fst ` set ids)"
  proof (cases "state_asset_id state ?i")
    case (Some asset)
    then show ?thesis using step ids1 ok by auto
  next
    case None
    then have up: "upload_asset ev stage ids oper run = (step, run1)" using step by simp
    note app = upload_asset_appends [OF up valid]
    have keep: "assets_known (run_db run1) ids"
      using assets_known_appends [OF ok(3) app(1) ok(1)] fresh [OF None] by simp
    show ?thesis
    proof (cases "\<exists>asset. step = Ok (AssetDone asset)")
      case True
      then obtain asset t e where e: "step = Ok (AssetDone asset)" "run_db run1 = insert_effect t e (run_db run)" "effect_ok e" "asset_row ?i asset e"
        using app(2) by blast
      then have "assets_known (run_db run1) (btm_insert ?i asset ids)"
        using ok(3) asset_of_insert [OF ok(1) e(3,4)] by (simp add: assets_known_def)
      then show ?thesis using None app(1) ids1 e(1) ok(2) by (simp add: btm_insert_keys)
    next
      case False
      then have "ids1 = ids" using ids1 by (auto split: result.splits asset_step.splits)
      then show ?thesis using None app(1) keep ok(2) by auto
    qed
  qed
  then show "appends (if state_asset_id state ?i = None then [asset_key ?i] else []) (run_db run) (run_db run1)"
    "btm_wf ids1" "assets_known (run_db run1) ids1" "fst ` set ids1 \<subseteq> insert ?i (fst ` set ids)" by blast+
qed

lemma import_loop_result:
  assumes "import_loop ev stage state opers ids run = (r, run')" "UploadExecutionConfig_validate (ev_config ev) = Ok ()"
    "import_ok (run_db run)" "distinct (map op_operation_id opers)" "btm_wf ids" "assets_known (run_db run) ids"
    "\<forall>oper \<in> set opers. state_asset_id state (op_operation_id oper) = None \<longrightarrow> op_operation_id oper \<notin> fst ` set ids"
  shows "loop_result state opers ids (run_db run) (ok_value r) (run_db run')"
  using assms
proof (induction opers arbitrary: ids run)
  case Nil
  then show ?case by (auto simp: loop_result_def ok_value_def)
next
  case (Cons oper opers)
  obtain c st where c: "tr_cancelled (ev_transport ev) (run_exec run) = (c, st)" by fastforce
  let ?i = "op_operation_id oper" and ?run0 = "run \<lparr>run_exec := st\<rparr>"
  obtain step run1 where step: "(case state_asset_id state ?i of
      Some asset \<Rightarrow> (Ok (AssetDone asset), count_resumed ?run0)
    | None \<Rightarrow> upload_asset ev stage ids oper ?run0) = (step, run1)" (is "?first = _")
    by (cases ?first)
  define ids1 where "ids1 = (case step of
        Ok (AssetDone asset) \<Rightarrow> if state_asset_id state ?i = None then btm_insert ?i asset ids else ids
      | _ \<Rightarrow> ids)"
  have none: "state_asset_id state ?i = None \<Longrightarrow> btm_get ids ?i = None"
    using Cons.prems(7) by (auto simp: map_of_eq_None_iff)
  have phase: "appends (if state_asset_id state ?i = None then [asset_key ?i] else []) (run_db run) (run_db run1)"
      "btm_wf ids1" "assets_known (run_db run1) ids1" "fst ` set ids1 \<subseteq> insert ?i (fst ` set ids)"
    using asset_phase [OF step Cons.prems(2) _ Cons.prems(5) _ none ids1_def] Cons.prems(3,6) by simp_all
  have meta: "appends (asset_effects state oper) (run_db run) (run_db run2)" "import_ok (run_db run2)" "assets_known (run_db run2) ids1"
    if "run2 = run1 \<or> (\<exists>asset q. apply_metadata ev oper asset state run1 = (q, run2))" for run2
  proof -
    have md: "appends (metadata_effects state oper) (run_db run1) (run_db run2)" using that apply_metadata_appends by auto
    show app: "appends (asset_effects state oper) (run_db run) (run_db run2)"
      using appends_trans [OF phase(1) md] by (simp add: asset_effects_def)
    show "import_ok (run_db run2)" using appends_ok [OF app Cons.prems(3)] .
    show "assets_known (run_db run2) ids1"
      using assets_known_appends [OF phase(3) md appends_ok [OF phase(1) Cons.prems(3)]] metadata_effects_assets by blast
  qed
  have stop: "loop_result state (oper # opers) ids (run_db run) (ok_value r) (run_db run')"
    if "run' = run1 \<or> (\<exists>asset q. apply_metadata ev oper asset state run1 = (q, run'))" "r = Ok ids1 \<or> \<not> is_ok r"
    using meta [OF that(1)] that(2) phase(2,4) by (intro loop_result_stop) (auto simp: ok_value_def split: result.splits)
  have go: "loop_result state (oper # opers) ids (run_db run) (ok_value r) (run_db run')"
    if r2: "run2 = run1 \<or> (\<exists>asset q. apply_metadata ev oper asset state run1 = (q, run2))"
      and rest: "import_loop ev stage state opers ids1 run2 = (r, run')" for run2
  proof (rule loop_result_step [OF meta(1) [OF r2] phase(4)])
    have "op_operation_id oper' \<notin> fst ` set ids1"
      if o: "oper' \<in> set opers" "state_asset_id state (op_operation_id oper') = None" for oper'
    proof -
      have "?i \<notin> op_operation_id ` set opers" using Cons.prems(4) by simp
      then have "op_operation_id oper' \<noteq> ?i" using o(1) by (metis imageI)
      moreover have "op_operation_id oper' \<notin> fst ` set ids" using o Cons.prems(7) by simp
      ultimately show ?thesis using phase(4) by blast
    qed
    then show "loop_result state opers ids1 (run_db run2) (ok_value r) (run_db run')"
      using Cons.IH [OF rest Cons.prems(2) meta(2) [OF r2] _ phase(2) meta(3) [OF r2]] Cons.prems(4) by simp
  qed
  consider "c" "r = Ok ids" "run_db run' = run_db run"
    | "run' = run1" "r = Ok ids1 \<or> \<not> is_ok r"
    | "import_loop ev stage state opers ids1 run1 = (r, run')"
    | asset q where "apply_metadata ev oper asset state run1 = (q, run')" "r = Ok ids1 \<or> \<not> is_ok r"
    | asset q run2 where "apply_metadata ev oper asset state run1 = (q, run2)" "import_loop ev stage state opers ids1 run2 = (r, run')"
    using Cons.prems(1) unfolding import_loop.simps Let_def c prod.case step ids1_def [symmetric]
    by (auto split: prod.splits result.splits asset_step.splits if_splits)
  then show ?case
  proof cases
    case 1
    then show ?thesis using Cons.prems(5,6) by (auto simp: loop_result_def ok_value_def)
  qed (use stop go in blast)+
qed

section \<open>The run\<close>

text \<open>On a valid plan the order of an import is that of the upload groups with nothing done.\<close>

lemma ordered_operations_eq:
  assumes "live_photos_closed (up_operations plan)"
  shows "ordered_operations plan = map_ok concat (pending_groups plan [])"
proof -
  let ?ops = "up_operations plan"
  have step: "group_operation ?ops oper gs = pending_step ?ops [] oper gs" if "oper \<in> set ?ops" for oper gs
    using assms that by (cases "op_role oper")
      (force simp: group_operation_def pending_step_def live_photos_closed_def ok_or_def split: option.splits)+
  have "fold_result (group_operation ?ops) xs gs = fold_result (pending_step ?ops []) xs gs" if "set xs \<subseteq> set ?ops" for xs gs
    using that
  proof (induction xs arbitrary: gs)
    case (Cons x xs)
    then have "fold_result (group_operation ?ops) xs = fold_result (pending_step ?ops []) xs" by (intro ext) simp
    then show ?case using step Cons.prems by simp
  qed simp
  then show ?thesis
    by (cases "fold_result (pending_step ?ops []) ?ops []") (simp_all add: ordered_operations_def pending_groups_def)
qed

lemma initial_asset_ids_wf [simp]: "btm_wf (initial_asset_ids plan state)"
proof -
  have wf: "btm_wf m \<Longrightarrow> btm_wf (fold (\<lambda>oper ids. case state_asset_id state (op_operation_id oper) of
      None \<Rightarrow> ids | Some i \<Rightarrow> btm_insert (op_operation_id oper) i ids) ops m)" for ops m
    by (induction ops arbitrary: m) (auto split: option.split)
  show ?thesis unfolding initial_asset_ids_def by (rule wf) simp
qed

lemma initial_asset_ids_get:
  "btm_get (initial_asset_ids plan state) i = (if i \<in> op_operation_id ` set (up_operations plan) then state_asset_id state i else None)"
proof -
  have get: "btm_get (fold (\<lambda>oper ids. case state_asset_id state (op_operation_id oper) of
      None \<Rightarrow> ids | Some i \<Rightarrow> btm_insert (op_operation_id oper) i ids) ops m) i
    = (if i \<in> op_operation_id ` set ops \<and> state_asset_id state i \<noteq> None then state_asset_id state i else btm_get m i)" for ops m
    by (induction ops arbitrary: m) (auto split: option.split)
  show ?thesis unfolding initial_asset_ids_def get by (cases "state_asset_id state i") simp_all
qed

lemma state_asset_id_eq: "import_ok db \<Longrightarrow> ImportJournal_state db = Ok state \<Longrightarrow> state_asset_id state i = asset_of db i"
  by (auto simp: asset_of_def state_view state_asset_id_def state_remote_id_def success_def split: option.splits)

abbreviation add_members :: "string \<Rightarrow> string list \<Rightarrow> (string, string btree_set) btree_map \<Rightarrow> (string, string btree_set) btree_map" where
  "add_members asset names \<equiv> fold (\<lambda>album a. btm_insert album (bts_insert asset (case btm_get a album of None \<Rightarrow> [] | Some ids \<Rightarrow> ids)) a) names"

lemma add_members_names:
  "btm_wf m \<Longrightarrow> btm_wf (add_members asset names m)" "fst ` set (add_members asset names m) = fst ` set m \<union> set names"
proof -
  show "btm_wf m \<Longrightarrow> btm_wf (add_members asset names m)" by (induction names arbitrary: m) simp_all
  show "fst ` set (add_members asset names m) = fst ` set m \<union> set names"
  proof (induction names arbitrary: m)
    case (Cons n names)
    show ?case unfolding fold_Cons comp_apply Cons.IH btm_insert_keys by simp
  qed simp
qed

definition operation_albums :: "UploadOperation \<Rightarrow> string list" where
  "operation_albums oper = (case op_normalized_metadata oper of None \<Rightarrow> [] | Some m \<Rightarrow> nm_albums m)"

definition import_albums :: "UploadPlan \<Rightarrow> string list" where
  "import_albums plan = concat (map operation_albums (up_operations plan))"

lemma album_members_names:
  "btm_wf (album_members plan ids)" "fst ` set (album_members plan ids) \<subseteq> set (import_albums plan)"
proof -
  let ?step = "\<lambda>oper albums. case btm_get ids (op_operation_id oper) of
          None \<Rightarrow> albums
        | Some asset_id \<Rightarrow> (case op_normalized_metadata oper of None \<Rightarrow> albums | Some m \<Rightarrow> add_members asset_id (nm_albums m) albums)"
  have step: "btm_wf (?step oper m)" "fst ` set (?step oper m) \<subseteq> fst ` set m \<union> set (operation_albums oper)" if "btm_wf m" for oper m
  proof -
    show "btm_wf (?step oper m)" using that by (simp add: add_members_names(1) split: option.split)
    show "fst ` set (?step oper m) \<subseteq> fst ` set m \<union> set (operation_albums oper)"
      by (simp add: add_members_names(2) operation_albums_def split: option.split)
  qed
  have "btm_wf (fold ?step ops m) \<and> fst ` set (fold ?step ops m) \<subseteq> fst ` set m \<union> set (concat (map operation_albums ops))" if "btm_wf m" for ops m
    using that
  proof (induction ops arbitrary: m)
    case (Cons oper ops)
    have "fst ` set (fold ?step ops (?step oper m)) \<subseteq> fst ` set (?step oper m) \<union> set (concat (map operation_albums ops))"
      "btm_wf (fold ?step ops (?step oper m))"
      using Cons.IH [OF step(1) [OF Cons.prems, of oper]] by blast+
    moreover have "fold ?step (oper # ops) m = fold ?step ops (?step oper m)" by simp
    ultimately show ?case using step(2) [OF Cons.prems, of oper] unfolding list.map concat.simps set_append by auto
  qed simp
  from this [of "[]" "up_operations plan"] have "btm_wf (album_members plan ids) \<and> fst ` set (album_members plan ids) \<subseteq> set (import_albums plan)"
    unfolding album_members_def import_albums_def by simp
  then show "btm_wf (album_members plan ids)" "fst ` set (album_members plan ids) \<subseteq> set (import_albums plan)" by blast+
qed

lemma complete_assets:
  assumes "btm_wf ids" "fst ` set ids \<subseteq> op_operation_id ` set ops" "length ids = length ops" "distinct (map op_operation_id ops)"
    "assets_known db ids" "oper \<in> set ops"
  shows "asset_of db (op_operation_id oper) \<noteq> None"
proof -
  have "card (fst ` set ids) = card (op_operation_id ` set ops)"
    using distinct_card [OF btm_wf_distinct [OF assms(1)]] distinct_card [OF assms(4)] assms(3) by simp
  then have "fst ` set ids = op_operation_id ` set ops" using card_subset_eq [OF _ assms(2)] by simp
  then have "op_operation_id oper \<in> fst ` set ids" using assms(6) by simp
  then obtain asset where "btm_get ids (op_operation_id oper) = Some asset"
    by (metis map_of_eq_None_iff not_None_eq)
  then show ?thesis using assms(5) by (auto simp: assets_known_def)
qed

lemma run_import_result:
  assumes run: "run_import ev stage plan state run = (r, run')"
    and valid: "UploadExecutionConfig_validate (ev_config ev) = Ok ()" "UploadPlan_validate rfc plan = Ok ()"
    and ok: "import_ok (run_db run)" "ImportJournal_state (run_db run) = Ok state"
  obtains opers names db1 where "set opers \<subseteq> set (up_operations plan)" "distinct (map op_operation_id opers)"
    "set names \<subseteq> set (import_albums plan)" "distinct names"
    "appends (concat (map (asset_effects state) opers)) (run_db run) db1"
    "appends (concat (map (album_effects (ev_hex_sha256 ev) state) names)) db1 (run_db run')"
    "db1 \<noteq> run_db run' \<Longrightarrow> \<forall>oper \<in> set (up_operations plan). asset_of db1 (op_operation_id oper) \<noteq> None"
proof -
  let ?ops = "up_operations plan" and ?ids = "initial_asset_ids plan state"
  have plan: "live_photos_closed ?ops" "distinct (map op_operation_id ?ops)"
    using valid(2) UploadPlan_validate_ok_iff [of rfc plan] by (simp_all add: upload_plan_ok_def)
  show ?thesis
  proof (cases "ordered_operations plan")
    case (Err e)
    then show ?thesis using run that [of "[]" "[]" "run_db run"] by (simp add: run_import_def)
  next
    case (Ok opers)
    obtain gs where gs: "pending_groups plan [] = Ok gs" "opers = concat gs"
      using Ok ordered_operations_eq [OF plan(1)] by (auto simp: map_ok_eq_Ok)
    note groups = pending_groups_Ok [OF gs(1) plan(2)]
    have sub: "set opers \<subseteq> set ?ops" and ids: "distinct (map op_operation_id opers)"
      using groups group_ok_members(2) gs(2) by fastforce+
    obtain q run1 where loop: "import_loop ev stage state opers ?ids run = (q, run1)"
      by (cases "import_loop ev stage state opers ?ids run")
    have "assets_known (run_db run) ?ids"
      using ok state_asset_id_eq by (auto simp: assets_known_def initial_asset_ids_get split: if_splits)
    moreover have "\<forall>oper \<in> set opers. state_asset_id state (op_operation_id oper) = None \<longrightarrow> op_operation_id oper \<notin> fst ` set ?ids"
      by (metis initial_asset_ids_get map_of_eq_None_iff)
    ultimately have res: "loop_result state opers ?ids (run_db run) (ok_value q) (run_db run1)"
      using import_loop_result [OF loop valid(1) ok(1) ids] by simp
    then have app: "appends (concat (map (asset_effects state) opers)) (run_db run) (run_db run1)" by (simp add: loop_result_def)
    show ?thesis
    proof (cases "run_db run' = run_db run1")
      case True
      then show ?thesis using that [of opers "[]" "run_db run1"] sub ids app by simp
    next
      case False
      then obtain final p where fin: "q = Ok final" "length final = length ?ops" "apply_albums ev plan final state run1 = (p, run')"
        using run loop Ok by (auto simp: run_import_def split: result.splits prod.splits if_splits)
      have known: "btm_wf final" "assets_known (run_db run1) final" "fst ` set final \<subseteq> fst ` set ?ids \<union> op_operation_id ` set opers"
        using res fin(1) by (simp_all add: loop_result_def ok_value_def)
      have "fst ` set ?ids \<subseteq> op_operation_id ` set ?ops"
        using initial_asset_ids_get [of plan state] by (metis domIff dom_map_of_conv_image_fst subsetI)
      then have "fst ` set final \<subseteq> op_operation_id ` set ?ops" using known(3) sub by blast
      then have assets: "\<forall>oper \<in> set ?ops. asset_of (run_db run1) (op_operation_id oper) \<noteq> None"
        using complete_assets [OF known(1) _ fin(2) plan(2) known(2)] by blast
      have "appends (concat (map (album_effects (ev_hex_sha256 ev) state) (map fst (album_members plan final)))) (run_db run1) (run_db run')"
        using apply_albums_loop_appends fin(3) by (fastforce simp: apply_albums_def comp_def)
      then show ?thesis
        using that [of opers "map fst (album_members plan final)" "run_db run1"] sub ids app assets
          album_members_names(2) [of plan final] btm_wf_distinct [OF album_members_names(1), of plan final] by simp
    qed
  qed
qed

section \<open>Rows of the checkpoint\<close>

definition import_rows :: "import_file \<Rightarrow> effect_row list" where
  "import_rows f = (case f of ImportDatabase db \<Rightarrow> id_effects db | _ \<Rightarrow> [])"

definition kind_done :: "string \<Rightarrow> ImportOutcome \<Rightarrow> bool" where
  "kind_done key k \<longleftrightarrow>
     (if take 6 key = ''asset:'' then k \<in> {ImpCreated, ImpDuplicate}
      else if take 6 key = ''album:'' then k \<in> {ImpCreated, ImpReused} else k = ImpCompleted)"

text \<open>An effect is done when its latest row holds a success of its kind.\<close>

definition effect_done :: "effect_row list \<Rightarrow> string \<Rightarrow> bool" where
  "effect_done rows key \<longleftrightarrow>
     is_some_and (btm_get (latest_effects rows) key) (\<lambda>r. is_some_and (ImportOutcome_parse (er_outcome r)) (kind_done key))"

lemma state_get:
  assumes "import_ok db" "ImportJournal_state db = Ok state"
  shows "btm_get state key = Option.bind (btm_get (latest_effects (id_effects db)) key) row_effect"
    "btm_get state key = Some e \<Longrightarrow> is_ok (validate_effect key (se_outcome e) (se_remote_id e))"
proof -
  show get: "btm_get state key = Option.bind (btm_get (latest_effects (id_effects db)) key) row_effect"
    using import_state_ok [OF assms(1)] assms(2) by (metis latest_effects_get result.inject(1))
  assume "btm_get state key = Some e"
  then obtain r where r: "btm_get (latest_effects (id_effects db)) key = Some r" "row_effect r = Some e"
    using get by (metis bind_eq_Some_conv)
  then have "er_effect_key r = key" "r \<in> set (id_effects db)"
    using latest_effects_entry [of "(key, r)" "id_effects db"] by (auto dest: map_of_SomeD)
  then show "is_ok (validate_effect key (se_outcome e) (se_remote_id e))"
    using assms(1) r(2) by (fastforce simp: import_ok_def effect_row_ok_def row_effect_def is_some_and_iff)
qed

lemma validate_effect_id:
  "is_ok (validate_effect key k remote) \<Longrightarrow> k \<in> {ImpCreated, ImpDuplicate, ImpReused} \<Longrightarrow> remote \<noteq> None"
  by (cases remote) (auto simp: validate_effect_def Let_def split: if_splits)

lemma state_done:
  assumes "import_ok db" "ImportJournal_state db = Ok state"
  shows "effect_done (id_effects db) key \<longleftrightarrow> is_some_and (btm_get state key) (\<lambda>e. kind_done key (se_outcome e))"
  unfolding state_get [OF assms] effect_done_def
  by (cases "btm_get (latest_effects (id_effects db)) key") (auto simp: row_effect_def is_some_and_iff)

lemma effect_done_simps:
  assumes "import_ok db" "ImportJournal_state db = Ok state"
  shows "state_asset_id state i = None \<longleftrightarrow> \<not> effect_done (id_effects db) (asset_key i)"
    "metadata_done state i \<longleftrightarrow> effect_done (id_effects db) (metadata_key i)"
    "state_album state i = None \<longleftrightarrow> \<not> effect_done (id_effects db) (album_key i)"
    "membership_done state i \<longleftrightarrow> effect_done (id_effects db) (membership_key i)"
  using validate_effect_id [OF state_get(2) [OF assms]]
  by (force simp: state_done [OF assms] state_asset_id_def state_remote_id_def metadata_done_def state_completed_def
      state_album_def membership_done_def kind_done_def asset_key_def metadata_key_def album_key_def membership_key_def
      is_some_and_iff split: option.splits)+

lemma appends_rows:
  assumes "appends ks db db'"
  obtains new where "id_effects db' = id_effects db @ new" "list_all effect_row_ok new" "subseq (map er_effect_key new) ks"
proof -
  obtain tes where tes: "db' = fold record_effect tes db" "\<forall>te \<in> set tes. effect_ok (snd te)" "subseq (map (ie_effect_key \<circ> snd) tes) ks"
    using assms unfolding appends_def by blast
  have "\<exists>new. id_effects (fold record_effect tes d) = id_effects d @ new \<and> list_all effect_row_ok new \<and>
      map er_effect_key new = map (ie_effect_key \<circ> snd) tes" if "\<forall>te \<in> set tes. effect_ok (snd te)" for tes d
    using that
  proof (induction tes arbitrary: d)
    case (Cons te tes)
    let ?r = "\<lparr>er_effect_key = ie_effect_key (snd te), er_outcome = ImportOutcome_as_str (ie_outcome (snd te)),
      er_remote_id = ie_remote_id (snd te), er_retry_count = ie_retries (snd te), er_recorded_unix_ms = fst te\<rparr>"
    obtain new where "id_effects (fold record_effect tes (record_effect te d)) = id_effects (record_effect te d) @ new"
        "list_all effect_row_ok new" "map er_effect_key new = map (ie_effect_key \<circ> snd) tes"
      using Cons.IH Cons.prems by (meson list.set_intros(2))
    moreover have "effect_row_ok ?r" using Cons.prems by (simp add: effect_row_ok_def effect_ok_def)
    moreover have "id_effects (record_effect te d) = id_effects d @ [?r]" by (simp add: insert_effect_def)
    ultimately show ?case by (intro exI [of _ "?r # new"]) simp
  qed simp
  from this [OF tes(2), of db] show ?thesis using that tes(1,3) by metis
qed

lemma asset_done:
  assumes "import_ok db"
  shows "asset_of db i \<noteq> None \<longleftrightarrow> effect_done (id_effects db) (asset_key i)"
proof -
  obtain state where state: "ImportJournal_state db = Ok state" using import_state_ok [OF assms] by metis
  show ?thesis using effect_done_simps(1) [OF assms state, of i] state_asset_id_eq [OF assms state] by simp
qed

lemma allowed_keys:
  "set (fold (allowed_step hex) ops a) = set a \<union>
     (\<Union>oper \<in> set ops. {asset_key (op_operation_id oper)} \<union>
        (if is_some_and (op_normalized_metadata oper) has_metadata_assignment then {metadata_key (op_operation_id oper)} else {}) \<union>
        (\<lambda>n. album_key (album_identity hex n)) ` set (operation_albums oper) \<union>
        (\<lambda>n. membership_key (album_identity hex n)) ` set (operation_albums oper))"
proof (induction ops arbitrary: a)
  case (Cons oper ops)
  have albums: "set (fold (\<lambda>album a. bts_insert (membership_key (album_identity hex album))
      (bts_insert (album_key (album_identity hex album)) a)) names b) = set b \<union>
      (\<lambda>n. album_key (album_identity hex n)) ` set names \<union> (\<lambda>n. membership_key (album_identity hex n)) ` set names" for names b
    by (induction names arbitrary: b) auto
  have step: "set (allowed_step hex oper a) = set a \<union> ({asset_key (op_operation_id oper)} \<union>
      (if is_some_and (op_normalized_metadata oper) has_metadata_assignment then {metadata_key (op_operation_id oper)} else {}) \<union>
      (\<lambda>n. album_key (album_identity hex n)) ` set (operation_albums oper) \<union>
      (\<lambda>n. membership_key (album_identity hex n)) ` set (operation_albums oper))"
    by (auto simp: allowed_step_def operation_albums_def albums Let_def split: option.split)
  show ?case unfolding fold_Cons comp_apply Cons.IH step by auto
qed simp

text \<open>The keys of a run: distinct, planned and open.\<close>

lemma asset_effects_keys:
  assumes "import_ok db" "ImportJournal_state db = Ok state" "set opers \<subseteq> set ops" "distinct (map op_operation_id opers)"
  shows "distinct (concat (map (asset_effects state) opers))"
    "key \<in> set (concat (map (asset_effects state) opers)) \<Longrightarrow> \<not> effect_done (id_effects db) key \<and> key \<in> set (fold (allowed_step hex) ops [])
      \<and> (\<exists>i. key = asset_key i \<or> key = metadata_key i)"
proof -
  show "distinct (concat (map (asset_effects state) opers))"
    using assms(4) by (induction opers) (auto simp: asset_effects_def metadata_effects_def split: if_splits)
  assume "key \<in> set (concat (map (asset_effects state) opers))"
  then show "\<not> effect_done (id_effects db) key \<and> key \<in> set (fold (allowed_step hex) ops []) \<and> (\<exists>i. key = asset_key i \<or> key = metadata_key i)"
    using assms(3) effect_done_simps [OF assms(1,2)]
    by (auto simp: allowed_keys asset_effects_def metadata_effects_def split: if_splits)
qed

lemma album_effects_keys:
  assumes "import_ok db" "ImportJournal_state db = Ok state" "set names \<subseteq> set (concat (map operation_albums ops))" "distinct names"
    "inj_on (album_identity hex) (set (concat (map operation_albums ops)))"
  shows "distinct (concat (map (album_effects hex state) names))"
    "key \<in> set (concat (map (album_effects hex state) names)) \<Longrightarrow> \<not> effect_done (id_effects db) key \<and> key \<in> set (fold (allowed_step hex) ops [])"
    "key \<in> set (concat (map (album_effects hex state) names)) \<Longrightarrow> \<exists>i. key = album_key i \<or> key = membership_key i"
proof -
  have "inj_on (album_identity hex) (set names)" using assms(3,5) inj_on_subset by blast
  then show "distinct (concat (map (album_effects hex state) names))"
    using assms(4) by (induction names) (auto simp: album_effects_def Let_def split: if_splits)
  assume "key \<in> set (concat (map (album_effects hex state) names))"
  then obtain n where n: "n \<in> set names" "key \<in> set (album_effects hex state n)" by auto
  then show "\<exists>i. key = album_key i \<or> key = membership_key i" by (auto simp: album_effects_def Let_def split: if_splits)
  obtain oper where "oper \<in> set ops" "n \<in> set (operation_albums oper)" using n(1) assms(3) by auto
  then have "album_key (album_identity hex n) \<in> set (fold (allowed_step hex) ops [])"
    "membership_key (album_identity hex n) \<in> set (fold (allowed_step hex) ops [])"
    unfolding allowed_keys by blast+
  then show "\<not> effect_done (id_effects db) key \<and> key \<in> set (fold (allowed_step hex) ops [])"
    using n(2) effect_done_simps [OF assms(1,2)] by (auto simp: album_effects_def Let_def split: if_splits)
qed

lemma validate_import_upload: "validate_import config = Ok () \<Longrightarrow> UploadExecutionConfig_validate (import_upload config) = Ok ()"
  by (cases config) (auto simp: TakeoutImportConfig_validate_def ApplePhotosImportConfig_validate_def PicasaImportConfig_validate_def
      validate_import_parts_def and_then_eq_Ok)

lemma import_open_with_scope_rows:
  assumes "import_open_with_scope rfc plan_sha256 io_ok f plan backup = Ok db"
  shows "id_effects db = import_rows f"
proof -
  have "id_effects db' = import_rows f" if "open_connection io_ok f = Ok db'" for io_ok db'
    using that by (auto simp: open_connection_def import_rows_def configure_import_def empty_import_db_def and_then_eq_Ok
        split: import_file.splits if_splits)
  moreover have "id_effects d' = id_effects d" if "import_bind_or_validate sha d plan b = Ok d'" for sha d d' b
    using that by (auto simp: import_bind_or_validate_def and_then_eq_Ok split: if_splits)
  ultimately show ?thesis
    using assms by (auto simp: import_open_with_scope_def and_then_eq_Ok split: option.splits if_splits)
qed

lemma ImportJournal_open_rows:
  "ImportJournal_open rfc plan_sha256 io_ok f plan = Ok db \<Longrightarrow> id_effects db = import_rows f"
  unfolding ImportJournal_open_def by (rule import_open_with_scope_rows)

lemma open_import_journal_rows:
  "open_import_journal iv f plan backup = Ok db \<Longrightarrow> id_effects db = import_rows f"
  by (auto simp: open_import_journal_def ImportJournal_open_def ImportJournal_open_production_def
      dest: import_open_with_scope_rows split: option.splits)

abbreviation iv_hex :: "'w import_env \<Rightarrow> string \<Rightarrow> string" where
  "iv_hex iv \<equiv> ev_hex_sha256 (iv_effects iv)"

text \<open>What a run can have done to the checkpoint: nothing, or the rows of some operations and then,
  when every operation has its asset, of some albums.\<close>

definition run_rows :: "(string \<Rightarrow> string) \<Rightarrow> UploadPlan \<Rightarrow> import_file \<Rightarrow> import_file \<Rightarrow> bool" where
  "run_rows hex plan f f' \<longleftrightarrow> import_rows f' = import_rows f \<or>
     (\<exists>db state opers names db1 db'. f' = ImportDatabase db' \<and> import_ok db \<and> id_effects db = import_rows f \<and>
        ImportJournal_state db = Ok state \<and> set opers \<subseteq> set (up_operations plan) \<and> distinct (map op_operation_id opers) \<and>
        set names \<subseteq> set (import_albums plan) \<and> distinct names \<and>
        appends (concat (map (asset_effects state) opers)) db db1 \<and>
        appends (concat (map (album_effects hex state) names)) db1 db' \<and>
        (db1 \<noteq> db' \<longrightarrow> (\<forall>oper \<in> set (up_operations plan). asset_of db1 (op_operation_id oper) \<noteq> None)))"

lemma run_rowsE:
  assumes "run_rows hex plan f f'"
  obtains "import_rows f' = import_rows f"
  | db state opers names db1 db' where "f' = ImportDatabase db'" "import_ok db" "id_effects db = import_rows f" "ImportJournal_state db = Ok state"
    "set opers \<subseteq> set (up_operations plan)" "distinct (map op_operation_id opers)"
    "set names \<subseteq> set (import_albums plan)" "distinct names"
    "appends (concat (map (asset_effects state) opers)) db db1"
    "appends (concat (map (album_effects hex state) names)) db1 db'"
    "db1 \<noteq> db' \<Longrightarrow> \<forall>oper \<in> set (up_operations plan). asset_of db1 (op_operation_id oper) \<noteq> None"
  using assms unfolding run_rows_def by metis

lemma run_rows_run:
  assumes exec: "run_import ev stage plan state run = (r, run')"
    and valid: "UploadExecutionConfig_validate (ev_config ev) = Ok ()" "UploadPlan_validate rfc plan = Ok ()"
    and db: "ImportJournal_state (run_db run) = Ok state" "id_effects (run_db run) = import_rows f"
    and rows: "list_all effect_row_ok (import_rows f)"
  shows "run_rows (ev_hex_sha256 ev) plan f (ImportDatabase (run_db run'))"
proof -
  have ok: "import_ok (run_db run)" using rows db(2) by (simp add: import_ok_def list_all_iff)
  show ?thesis
    unfolding run_rows_def
    by (rule disjI2, rule run_import_result [OF exec valid ok db(1)]) (use ok db in blast)
qed

lemma apply_import_rows:
  assumes run: "apply_import_inner iv plan f config client backup w = (res, f')"
    and rows: "list_all effect_row_ok (import_rows f)"
  shows "run_rows (iv_hex iv) plan f f'"
proof (cases "import_rows f' = import_rows f")
  case False
  with run obtain db state stage r run' where
      ctx: "validate_context iv plan config client (backup \<noteq> None) = Ok ()"
      and db: "open_import_journal iv f plan backup = Ok db" "ImportJournal_state db = Ok state"
      and exec: "run_import ((iv_effects iv) \<lparr>ev_config := import_upload config\<rparr>) stage plan state
         \<lparr>run_exec = \<lparr>ex_world = w, ex_budget = RetryBudget_new (ec_max_retries_per_run (import_upload config))\<rparr>,
          run_db = db, run_report = import_apply_report plan\<rparr> = (r, run')" and f': "f' = ImportDatabase (run_db run')"
    using open_import_journal_rows [of iv f plan backup]
    by (auto simp: apply_import_inner_def Let_def import_rows_def split: result.splits prod.splits)
  have valid: "UploadExecutionConfig_validate (import_upload config) = Ok ()" "UploadPlan_validate (tb_rfc3339 (iv_tables iv)) plan = Ok ()"
    using ctx validate_import_upload by (auto simp: validate_context_def and_then_eq_Ok map_err_eq_Ok)
  show ?thesis
    unfolding f' using run_rows_run [OF exec _ valid(2) _ _ rows] valid(1) db(2) open_import_journal_rows [OF db(1)] by simp
qed (simp add: run_rows_def)

lemma run_rows_resume:
  assumes run: "run_rows hex plan f f'" and inj: "inj_on (album_identity hex) (set (import_albums plan))"
  shows "\<exists>new. import_rows f' = import_rows f @ new \<and> distinct (map er_effect_key new) \<and> list_all effect_row_ok new \<and>
    (\<forall>r \<in> set new. \<not> effect_done (import_rows f) (er_effect_key r) \<and>
       bts_contains (fold (allowed_step hex) (up_operations plan) []) (er_effect_key r))"
  using run
proof (cases rule: run_rowsE)
  case 1
  then show ?thesis by simp
next
  case (2 db state opers names db1 db')
  obtain a where a: "id_effects db1 = id_effects db @ a" "list_all effect_row_ok a" "subseq (map er_effect_key a) (concat (map (asset_effects state) opers))"
    using 2(9) by (rule appends_rows)
  obtain b where b: "id_effects db' = id_effects db1 @ b" "list_all effect_row_ok b" "subseq (map er_effect_key b) (concat (map (album_effects hex state) names))"
    using 2(10) by (rule appends_rows)
  note akeys = asset_effects_keys [OF 2(2,4,5,6)]
  note bkeys = album_effects_keys [OF 2(2,4) 2(7) [unfolded import_albums_def] 2(8) inj [unfolded import_albums_def]]
  have "distinct (map er_effect_key (a @ b))"
    using akeys bkeys subseq_set [OF a(3)] subseq_set [OF b(3)] subseq_distinct [OF a(3) akeys(1)] subseq_distinct [OF b(3) bkeys(1)]
    by fastforce
  moreover have "\<forall>r \<in> set (a @ b). \<not> effect_done (import_rows f) (er_effect_key r) \<and>
      er_effect_key r \<in> set (fold (allowed_step hex) (up_operations plan) [])"
    using akeys(2) bkeys(2) subseq_set [OF a(3)] subseq_set [OF b(3)] 2(3) by fastforce
  ultimately show ?thesis using a b 2(1,3) by (intro exI [of _ "a @ b"]) (simp add: import_rows_def)
qed


lemma run_rows_albums:
  assumes run: "run_rows hex plan f f'"
    and row: "r \<in> set (drop (length (import_rows f)) (import_rows f'))" "er_effect_key r \<in> {album_key i, membership_key i}"
    and oper: "oper \<in> set (up_operations plan)"
  shows "effect_done (import_rows f') (asset_key (op_operation_id oper))"
  using run
proof (cases rule: run_rowsE)
  case 1
  then show ?thesis using row(1) by simp
next
  case (2 db state opers names db1 db')
  obtain a where a: "id_effects db1 = id_effects db @ a" "subseq (map er_effect_key a) (concat (map (asset_effects state) opers))"
    using 2(9) by (rule appends_rows)
  have "er_effect_key r \<notin> er_effect_key ` set a"
    using asset_effects_keys(2) [OF 2(2,4,5,6), of _ hex] subseq_set [OF a(2)] row(2) by fastforce
  then have "db1 \<noteq> db'" using row(1) a(1) 2(1,3) by (auto simp: import_rows_def)
  then have "asset_of db1 (op_operation_id oper) \<noteq> None" using 2(11) oper by blast
  moreover have ok1: "import_ok db1" using appends_ok [OF 2(9,2)] .
  moreover have "asset_key j \<notin> set (concat (map (album_effects hex state) names))" for j
    by (auto simp: album_effects_def Let_def split: if_splits)
  ultimately have "asset_of db' (op_operation_id oper) \<noteq> None" using asset_of_appends [OF 2(10)] by metis
  then show ?thesis using asset_done [OF appends_ok [OF 2(10) ok1]] 2(1) by (simp add: import_rows_def)
qed


section \<open>Properties\<close>

text \<open>C8: an import run only appends to its checkpoint, whatever the server, the clock and the disk do and
  however the run ends: one row at most per effect, for effects of the plan that the checkpoint did not
  hold as done when the run began, each row well-formed. So an interrupted run can be resumed from
  what it wrote, and what was done stays done. The digest must not collide on the album names of the plan.\<close>

theorem import_resume_safe:
  assumes run: "apply_import_inner iv plan f config client backup w = (res, f')"
    and rows: "list_all effect_row_ok (import_rows f)"
    and inj: "inj_on (album_identity (iv_hex iv)) (set (import_albums plan))"
  shows "\<exists>new. import_rows f' = import_rows f @ new \<and> distinct (map er_effect_key new) \<and> list_all effect_row_ok new \<and>
    (\<forall>r \<in> set new. \<not> effect_done (import_rows f) (er_effect_key r) \<and>
       bts_contains (fold (allowed_step (iv_hex iv)) (up_operations plan) []) (er_effect_key r))"
  using apply_import_rows [OF run rows] inj by (rule run_rows_resume)

text \<open>C9: albums come last: when a run has written any row for an album or its members, every operation
  of the plan has its asset in the checkpoint, so no album is created or filled for a partial upload.\<close>

theorem import_albums_after_assets:
  assumes run: "apply_import_inner iv plan f config client backup w = (res, f')"
    and rows: "list_all effect_row_ok (import_rows f)"
    and row: "r \<in> set (drop (length (import_rows f)) (import_rows f'))" "er_effect_key r \<in> {album_key i, membership_key i}"
    and oper: "oper \<in> set (up_operations plan)"
  shows "effect_done (import_rows f') (asset_key (op_operation_id oper))"
  using apply_import_rows [OF run rows] row oper by (rule run_rows_albums)

definition sample_uuid :: "char \<Rightarrow> string" where
  "sample_uuid c = ''00000000-0000-4000-8000-00000000000'' @ [c]"

definition sample_import_env :: "script import_env" where
  "sample_import_env =
     \<lparr>iv_tables = sample_tables \<lparr>tb_hex_sha256 := \<lambda>_. hex64 CHR ''e''\<rparr>, iv_json = sample_json, iv_unix_nanos = (\<lambda>_. None),
      iv_upload_json = (\<lambda>_. Some []),
      iv_scan = Ok
        \<lparr>rp_plan = \<lparr>np_schema_version = 2,
           np_source = \<lparr>sd_kind = GoogleTakeout, sd_label = ''t'', sd_fingerprint_sha256 = hex64 CHR ''1'', sd_case_sensitive = True,
             sd_unicode_normalization = Nfc\<rparr>,
           np_assets = [\<lparr>ca_operation_id = hex64 CHR ''b'', ca_relative_path = ''t/a.jpg'', ca_media_kind = MediaImage, ca_byte_len = 1,
             ca_content_sha256 = hex64 CHR ''2'', ca_metadata = [],
             ca_normalized_metadata = Some (NormalizedMetadata_default \<lparr>nm_albums := [''Trip'']\<rparr>), ca_live_photo = None, ca_evidence = []\<rparr>],
           np_warnings = [], np_errors = [], np_summary = \<lparr>ps_assets = 1, ps_sidecars = 0, ps_bytes_read = 1\<rparr>\<rparr>,
         rp_files = [(''t/a.jpg'', \<lparr>rf_native_path = [''t'', ''a.jpg''], rf_archive_index = None, rf_byte_len = 1,
           rf_content_sha256 = hex64 CHR ''2'', rf_content_sha1_base64 = ''c2hh'', rf_created_at_unix_ms = None,
           rf_modified_at_unix_ms = None\<rparr>)]\<rparr>,
      iv_staging = Ok \<lparr>is_max_entry_bytes = 1, is_stage_entry = (\<lambda>_ _ _ _ st. (Err EE_SourceChanged, st)), is_remove_file = (\<lambda>_ st. st)\<rparr>, iv_open_ok = True,
      iv_effects = \<lparr>ev_sha256 = (\<lambda>_. replicate 32 CHR 0x07), ev_hex_sha256 = (\<lambda>_. hex64 CHR ''d''),
        ev_transport = scripted \<lparr>tr_upload_json := \<lambda>_. Some \<lparr>upr_id = sample_uuid CHR ''b'', upr_status = UploadCreated\<rparr>,
          tr_albums_json := \<lambda>_. Some [], tr_album_json := \<lambda>_. Some \<lparr>alr_id = sample_uuid CHR ''a'', alr_album_name = ''Trip''\<rparr>,
          tr_bulk_ids_json := \<lambda>_. Some [\<lparr>bir_id = sample_uuid CHR ''b'', bir_success = True, bir_error = None\<rparr>]\<rparr>,
        ev_config = UploadExecutionConfig_default, ev_append = (\<lambda>_. (True, Some 1))\<rparr>\<rparr>"

abbreviation sample_import_config :: ImportConfig where
  "sample_import_config \<equiv> TakeoutConfig TakeoutImportConfig_default"

definition sample_takeout_plan :: UploadPlan where
  "sample_takeout_plan =
     (case and_then (map_err (\<lambda>_. EE_Invariant) (iv_scan sample_import_env)) (\<lambda>r.
        create_import_upload_plan (iv_tables sample_import_env) sample_json (\<lambda>_. None) r sample_server sample_import_config) of
        Ok p \<Rightarrow> p | Err _ \<Rightarrow> sample_folder_plan)"

definition sample_import_run :: "(ImportApplyReport, ExecutorErrorClass) result \<times> import_file" where
  "sample_import_run = apply_import_inner sample_import_env sample_takeout_plan NoImportFile sample_import_config sample_upload_client None
     [answer 200 ''accept'', answer 201 ''created'', answer 200 [], answer 201 [], answer 200 []]"
lemma sample_import_keys: "map er_effect_key (import_rows (snd sample_import_run)) = [asset_key (hex64 CHR ''b''), album_key (hex64 CHR ''d''), membership_key (hex64 CHR ''d'')]" by code_simp

theorem import_resume_safe_witness:
  "distinct (map er_effect_key (import_rows (snd sample_import_run))) \<and> list_all effect_row_ok (import_rows (snd sample_import_run)) \<and>
     length (import_rows (snd sample_import_run)) = 3"
proof -
  have "import_albums sample_takeout_plan = [''Trip'']" by code_simp
  then have "inj_on (album_identity (iv_hex sample_import_env)) (set (import_albums sample_takeout_plan))" by simp
  moreover have "sample_import_run = (fst sample_import_run, snd sample_import_run)" by simp
  moreover have "length (import_rows (snd sample_import_run)) = 3" using arg_cong [OF sample_import_keys, of length] by simp
  ultimately show ?thesis
    using import_resume_safe [of sample_import_env sample_takeout_plan NoImportFile sample_import_config sample_upload_client None]
    unfolding sample_import_run_def by (fastforce simp: import_rows_def [of NoImportFile])
qed

theorem import_albums_after_assets_witness:
  "\<exists>oper \<in> set (up_operations sample_takeout_plan). effect_done (import_rows (snd sample_import_run)) (asset_key (op_operation_id oper))"
proof -
  have "up_operations sample_takeout_plan \<noteq> []" by code_simp
  then obtain oper where oper: "oper \<in> set (up_operations sample_takeout_plan)" by (meson list.set_sel(1))
  have none: "import_rows NoImportFile = []" by (simp add: import_rows_def)
  obtain r where r: "r \<in> set (import_rows (snd sample_import_run))" "er_effect_key r = album_key (hex64 CHR ''d'')"
  proof -
    have "album_key (hex64 CHR ''d'') \<in> set (map er_effect_key (import_rows (snd sample_import_run)))" unfolding sample_import_keys by simp
    then show thesis using that unfolding set_map by (auto simp: image_iff)
  qed
  moreover have run: "apply_import_inner sample_import_env sample_takeout_plan NoImportFile sample_import_config sample_upload_client None
      [answer 200 ''accept'', answer 201 ''created'', answer 200 [], answer 201 [], answer 200 []] = (fst sample_import_run, snd sample_import_run)"
    by (simp add: sample_import_run_def)
  ultimately have "effect_done (import_rows (snd sample_import_run)) (asset_key (op_operation_id oper))"
    using import_albums_after_assets [OF run _ _ _ oper, of r "hex64 CHR ''d''"] none by simp
  then show ?thesis using oper by blast
qed

end
