(* ===== verification/Exec_Migration_Plan.thy ===== *)
theory Exec_Migration_Plan
  imports Client_Inventory Exec_Retry
begin

text \<open>
  \<open>immich-executor/src/migration_plan.rs\<close> and \<open>migration_execution_plan.rs\<close>: from the inventory of
  a source server and its verified originals to a migration plan, and from a migration plan to the
  upload plan that carries it out. SHA-1, SHA-256, the JSON encoders and the \<open>time\<close> crate are the
  fields of \<open>migration_tables\<close>.
\<close>

record migration_tables =
  mt_rfc3339 :: rfc3339
  mt_unix_nanos :: "int \<Rightarrow> bool"
  mt_sha256 :: "string \<Rightarrow> string"
  mt_sha1 :: "string \<Rightarrow> string"
  mt_config_json :: "ConfigurationIdentity \<Rightarrow> string option"
  mt_metadata_json :: "NormalizedMetadata option \<Rightarrow> string option"
  mt_fingerprint_json :: "MigrationServer \<times> MigrationAsset list \<times> MigrationAlbum list \<Rightarrow> string option"
  mt_plan_json :: "MigrationPlan \<Rightarrow> string option"

section \<open>Configuration\<close>

record MigrationPlanningConfig =
  mpc_inventory :: MigrationListConfig
  mpc_max_asset_bytes :: u64
  mpc_max_total_bytes :: u64
  mpc_upload :: UploadExecutionConfig

definition MigrationPlanningConfig_default :: MigrationPlanningConfig where
  "MigrationPlanningConfig_default =
     \<lparr>mpc_inventory = MigrationListConfig_default, mpc_max_asset_bytes = 1024 ^ 4,
      mpc_max_total_bytes = 16 * 1024 ^ 4, mpc_upload = UploadExecutionConfig_default\<rparr>"

definition MigrationPlanningConfig_validate ::
  "MigrationPlanningConfig \<Rightarrow> (MigrationPlanningConfig, ExecutorErrorClass) result" where
  "MigrationPlanningConfig_validate c =
     and_then (UploadExecutionConfig_validate (mpc_upload c)) (\<lambda>_.
       let inventory = mpc_inventory c;
           valid_inventory = (1 \<le> mlc_page_size inventory \<and> mlc_page_size inventory \<le> 1000 \<and>
             mlc_max_assets inventory > 0 \<and> mlc_max_albums inventory > 0 \<and> mlc_max_album_memberships inventory > 0) in
       if valid_inventory \<and> ec_concurrency (mpc_upload c) = 1 \<and> mpc_max_asset_bytes c > 0
          \<and> mpc_max_total_bytes c \<ge> mpc_max_asset_bytes c
       then Ok c else Err EE_InvalidConfiguration)"

definition nul :: string where
  "nul = [CHR 0x00]"

definition MigrationPlanningConfig_identity ::
  "migration_tables \<Rightarrow> MigrationPlanningConfig \<Rightarrow> (string, ExecutorErrorClass) result" where
  "MigrationPlanningConfig_identity tb c =
     and_then (identity_sha256 (mt_config_json tb) (mt_sha256 tb) (mpc_upload c)) (\<lambda>upload.
       let inventory = mpc_inventory c in
       Ok (mt_sha256 tb (''migration-config-v1'' @ nul @ show_nat (int (mlc_page_size inventory))
         @ nul @ show_nat (int (mlc_max_assets inventory)) @ nul @ show_nat (int (mlc_max_albums inventory))
         @ nul @ show_nat (int (mlc_max_album_memberships inventory)) @ nul @ show_nat (uint (mpc_max_asset_bytes c))
         @ nul @ show_nat (uint (mpc_max_total_bytes c)) @ nul @ upload)))"

section \<open>Originals\<close>

definition map_client_error :: "ClientError \<Rightarrow> ExecutorErrorClass" where
  "map_client_error e = (if ce_class e = Cancelled then EE_Cancelled else EE_Client)"

text \<open>The loop over the chunks; what both digests have been fed is the last argument.\<close>

function read_original ::
  "u64 \<Rightarrow> u64 \<Rightarrow> (string, reqwest_error) result option list \<Rightarrow> u64 \<Rightarrow> string
     \<Rightarrow> (u64 \<times> string, ExecutorErrorClass) result" where
  "read_original byte_len max_bytes download bytes fed =
     (case next_chunk download of
        (Err e, _) \<Rightarrow> Err (map_client_error e)
      | (Ok None, _) \<Rightarrow> Ok (bytes, fed)
      | (Ok (Some chunk), rest) \<Rightarrow>
          (case checked_add bytes (of_nat (length chunk)) of
             None \<Rightarrow> Err EE_SourceChanged
           | Some bytes' \<Rightarrow>
               if bytes' > byte_len \<or> bytes' > max_bytes then Err EE_SourceChanged
               else read_original byte_len max_bytes rest bytes' (fed @ chunk)))"
  by pat_completeness auto
termination
  by (relation "measure (\<lambda>(byte_len, max_bytes, download, bytes, fed). length download)") (auto dest: next_chunk_shorter [OF sym])

declare read_original.simps [simp del]

definition verify_original ::
  "migration_tables \<Rightarrow> 's inventory_io \<Rightarrow> ImmichReadClient \<Rightarrow> NegotiatedServer \<Rightarrow> RemoteMigrationAsset \<Rightarrow> u64 \<Rightarrow> 's
     \<Rightarrow> (string, ExecutorErrorClass) result \<times> 's" where
  "verify_original tb io client server asset max_bytes s =
     (case download_original io client server (rma_asset_id asset) s of
        (Err e, s1) \<Rightarrow> (Err (map_client_error e), s1)
      | (Ok download, s1) \<Rightarrow>
          (if is_some_and (or_content_length download) (\<lambda>n. n \<noteq> rma_byte_len asset \<or> n > max_bytes)
           then Err EE_SourceChanged
           else and_then (read_original (rma_byte_len asset) max_bytes (or_chunks download) 0 []) (\<lambda>(bytes, fed).
             if bytes \<noteq> rma_byte_len asset \<or> mt_sha1 tb fed \<noteq> rma_checksum_sha1 asset then Err EE_SourceChanged
             else Ok (mt_sha256 tb fed)), s1))"

section \<open>Identities\<close>

definition be_bytes :: "int \<Rightarrow> string" where
  "be_bytes n = map (\<lambda>k. char_of (nat ((n div 256 ^ k) mod 256))) [7, 6, 5, 4, 3, 2, 1, 0]"

definition operation_id ::
  "migration_tables \<Rightarrow> MigrationServer \<Rightarrow> RemoteMigrationAsset \<Rightarrow> string \<Rightarrow> (string, ExecutorErrorClass) result" where
  "operation_id tb source asset content_sha256 =
     and_then (ok_or (mt_metadata_json tb (rma_normalized_metadata asset)) EE_Invariant) (\<lambda>metadata.
       Ok (mt_sha256 tb (concat (map (\<lambda>bytes. bytes @ nul)
           [''immich-migration-operation-v1'', sc_identity_sha256 (ms_compatibility source), rma_asset_id asset,
            rma_original_file_name asset, rma_checksum_sha1 asset, content_sha256, metadata])
         @ be_bytes (uint (rma_byte_len asset)) @ be_bytes (rma_created_at_unix_ms asset)
         @ be_bytes (rma_modified_at_unix_ms asset))))"

definition migration_pair_id :: "migration_tables \<Rightarrow> string \<Rightarrow> string \<Rightarrow> string" where
  "migration_pair_id tb image_id video_id =
     mt_sha256 tb (''immich-migration-live-photo-v1'' @ nul @ image_id @ nul @ video_id)"

definition migration_fingerprint ::
  "migration_tables \<Rightarrow> MigrationServer \<Rightarrow> MigrationAsset list \<Rightarrow> MigrationAlbum list \<Rightarrow> (string, ExecutorErrorClass) result" where
  "migration_fingerprint tb source assets albums =
     map_ok (mt_sha256 tb) (ok_or (mt_fingerprint_json tb (source, assets, albums)) EE_Invariant)"

section \<open>Live Photos\<close>

type_synonym role_scan = "(string, UploadRole) btree_map \<times> (string, string) btree_map"

text \<open>One image of the loop of \<open>live_photo_roles\<close>: roles so far and the owners of the videos.\<close>

definition live_photo_step ::
  "migration_tables \<Rightarrow> (string, RemoteMigrationAsset) btree_map \<Rightarrow> (string, string) btree_map \<Rightarrow> RemoteMigrationAsset
     \<Rightarrow> role_scan \<Rightarrow> (role_scan, ExecutorErrorClass) result" where
  "live_photo_step tb by_id operation_ids still st =
     (let (roles, video_owners) = st in
      and_then (ok_or (rma_live_photo_video_id still) EE_Invariant) (\<lambda>video_id.
      and_then (ok_or (btm_get by_id video_id) EE_UnsupportedMetadata) (\<lambda>video.
        if rma_media_kind still \<noteq> MediaImage \<or> rma_media_kind video \<noteq> MediaVideo
           \<or> rma_live_photo_video_id video \<noteq> None \<or> btm_get video_owners video_id \<noteq> None
        then Err EE_UnsupportedMetadata
        else
          let pair = migration_pair_id tb (rma_asset_id still) video_id in
          and_then (ok_or (btm_get operation_ids video_id) EE_Invariant) (\<lambda>video_operation.
            Ok (btm_insert video_id (LivePhotoVideo pair)
                  (btm_insert (rma_asset_id still) (LivePhotoImage pair video_operation) roles),
                btm_insert video_id (rma_asset_id still) video_owners)))))"

definition live_photo_roles ::
  "migration_tables \<Rightarrow> RemoteMigrationAsset list \<Rightarrow> (string, string) btree_map
     \<Rightarrow> ((string, UploadRole) btree_map, ExecutorErrorClass) result" where
  "live_photo_roles tb assets operation_ids =
     (let by_id = btm_extend (map (\<lambda>a. (rma_asset_id a, a)) assets) [];
          roles = btm_extend (map (\<lambda>a. (rma_asset_id a, Standalone)) assets) [] in
      map_ok fst (fold_result (live_photo_step tb by_id operation_ids)
        (filter (\<lambda>a. rma_live_photo_video_id a \<noteq> None) assets) (roles, [])))"

section \<open>The plan\<close>

definition planned_album ::
  "(string, string) btree_map \<Rightarrow> RemoteOwnedAlbum \<Rightarrow> (MigrationAlbum, ExecutorErrorClass) result" where
  "planned_album operation_ids album =
     map_ok (\<lambda>members. \<lparr>mal_name = roa_name album, mal_member_operation_ids = remdups_adj (sort members)\<rparr>)
       (collect_result (\<lambda>i. ok_or (btm_get operation_ids i) EE_Invariant) (roa_asset_ids album))"

definition planned_albums ::
  "RemoteMigrationInventory \<Rightarrow> (string, string) btree_map \<Rightarrow> (MigrationAlbum list, ExecutorErrorClass) result" where
  "planned_albums inventory operation_ids =
     map_ok (sort_key mal_name) (collect_result (planned_album operation_ids) (rmi_albums inventory))"

definition planned_asset ::
  "(string, string) btree_map \<Rightarrow> (string, string) btree_map \<Rightarrow> (string, UploadRole) btree_map \<Rightarrow> RemoteMigrationAsset
     \<Rightarrow> (MigrationAsset, ExecutorErrorClass) result" where
  "planned_asset operation_ids content_sha256 roles asset =
     and_then (ok_or (btm_get operation_ids (rma_asset_id asset)) EE_Invariant) (\<lambda>operation.
     and_then (ok_or (btm_get content_sha256 (rma_asset_id asset)) EE_Invariant) (\<lambda>content.
     and_then (ok_or (btm_get roles (rma_asset_id asset)) EE_Invariant) (\<lambda>role.
       Ok \<lparr>ma_source_asset_id = rma_asset_id asset, ma_operation_id = operation,
           ma_original_file_name = rma_original_file_name asset, ma_media_kind = rma_media_kind asset,
           ma_byte_len = rma_byte_len asset, ma_checksum_sha1 = rma_checksum_sha1 asset,
           ma_content_sha256 = content, ma_created_at_unix_ms = rma_created_at_unix_ms asset,
           ma_modified_at_unix_ms = rma_modified_at_unix_ms asset,
           ma_normalized_metadata = rma_normalized_metadata asset, ma_role = role\<rparr>)))"

definition migration_summary :: "MigrationAsset list \<Rightarrow> MigrationAlbum list \<Rightarrow> MigrationPlanSummary" where
  "migration_summary assets albums =
     (let metadata_updates = of_nat (length (filter (\<lambda>a. is_some_and (ma_normalized_metadata a)
            (\<lambda>m. nm_description m \<noteq> None \<or> nm_taken_at_utc m \<noteq> None \<or> nm_location m \<noteq> None)) assets));
          assets_count = of_nat (length assets);
          album_count = of_nat (length albums)
      in \<lparr>mps_assets = assets_count, mps_media_bytes = sum_list (map ma_byte_len assets),
          mps_metadata_updates = metadata_updates, mps_album_creates = album_count,
          mps_album_memberships = album_count,
          mps_max_mutations = saturating_add (saturating_add assets_count metadata_updates)
                                (saturating_mul album_count 2)\<rparr>)"

definition planned_operation_id ::
  "migration_tables \<Rightarrow> MigrationServer \<Rightarrow> (string, string) btree_map \<Rightarrow> RemoteMigrationAsset
     \<Rightarrow> (string \<times> string, ExecutorErrorClass) result" where
  "planned_operation_id tb source content_sha256 asset =
     and_then (ok_or (btm_get content_sha256 (rma_asset_id asset)) EE_SourceChanged) (\<lambda>body.
       map_ok (Pair (rma_asset_id asset)) (operation_id tb source asset body))"

definition planned_operation_ids ::
  "migration_tables \<Rightarrow> MigrationServer \<Rightarrow> (string, string) btree_map \<Rightarrow> RemoteMigrationAsset list
     \<Rightarrow> ((string, string) btree_map, ExecutorErrorClass) result" where
  "planned_operation_ids tb source content_sha256 assets =
     map_ok (\<lambda>entries. btm_extend entries []) (collect_result (planned_operation_id tb source content_sha256) assets)"

definition assemble_migration_plan ::
  "migration_tables \<Rightarrow> RemoteMigrationInventory \<Rightarrow> MigrationServer \<Rightarrow> MigrationServer \<Rightarrow> (string, string) btree_map
     \<Rightarrow> MigrationPlanningConfig \<Rightarrow> (MigrationPlan, ExecutorErrorClass) result" where
  "assemble_migration_plan tb inventory source destination content_sha256 config =
     and_then (MigrationPlanningConfig_validate config) (\<lambda>config.
     and_then (planned_operation_ids tb source content_sha256 (rmi_assets inventory)) (\<lambda>operation_ids.
       if length operation_ids \<noteq> length (rmi_assets inventory) \<or> length content_sha256 \<noteq> length (rmi_assets inventory)
       then Err EE_SourceChanged
       else
         and_then (live_photo_roles tb (rmi_assets inventory) operation_ids) (\<lambda>roles.
         and_then (collect_result (planned_asset operation_ids content_sha256 roles) (rmi_assets inventory)) (\<lambda>assets.
         and_then (planned_albums inventory operation_ids) (\<lambda>albums.
         and_then (migration_fingerprint tb source assets albums) (\<lambda>fingerprint.
         and_then (MigrationPlanningConfig_identity tb config) (\<lambda>identity.
           let plan = \<lparr>mp_schema_version = MIGRATION_PLAN_SCHEMA_VERSION, mp_source_server = source,
                 mp_destination_server = destination, mp_source_fingerprint_sha256 = fingerprint,
                 mp_configuration_sha256 = identity, mp_assets = assets, mp_albums = albums,
                 mp_summary = migration_summary assets albums\<rparr> in
           and_then (map_err (\<lambda>_. EE_InvalidPlan) (MigrationPlan_validate (mt_rfc3339 tb) (mt_unix_nanos tb) plan))
             (\<lambda>_. Ok plan))))))))"

text \<open>The loop that downloads and hashes every original.\<close>

fun verify_originals ::
  "migration_tables \<Rightarrow> 's inventory_io \<Rightarrow> ImmichReadClient \<Rightarrow> NegotiatedServer \<Rightarrow> u64 \<Rightarrow> RemoteMigrationAsset list
     \<Rightarrow> (string, string) btree_map \<Rightarrow> 's \<Rightarrow> ((string, string) btree_map, ExecutorErrorClass) result \<times> 's" where
  "verify_originals tb io client server max_bytes [] hashes s = (Ok hashes, s)"
| "verify_originals tb io client server max_bytes (asset # assets) hashes s =
     (case verify_original tb io client server asset max_bytes s of
        (Err e, s1) \<Rightarrow> (Err e, s1)
      | (Ok digest, s1) \<Rightarrow>
          verify_originals tb io client server max_bytes assets (btm_insert (rma_asset_id asset) digest hashes) s1)"

definition migration_server :: "NegotiatedServer \<Rightarrow> MigrationServer" where
  "migration_server server = \<lparr>ms_compatibility = ns_compatibility server, ms_origin_sha256 = ns_origin_sha256 server\<rparr>"

definition declared_total :: "RemoteMigrationAsset list \<Rightarrow> (u64, ExecutorErrorClass) result" where
  "declared_total assets =
     fold_result (\<lambda>asset sum. ok_or (checked_add sum (rma_byte_len asset)) EE_InvalidConfiguration) assets 0"

definition create_migration_plan ::
  "migration_tables \<Rightarrow> 's inventory_io \<Rightarrow> ImmichReadClient \<Rightarrow> NegotiatedServer \<Rightarrow> NegotiatedServer
     \<Rightarrow> MigrationPlanningConfig \<Rightarrow> 's \<Rightarrow> (MigrationPlan, ExecutorErrorClass) result \<times> 's" where
  "create_migration_plan tb io source_client source_server destination_server config s =
     (case MigrationPlanningConfig_validate config of Err e \<Rightarrow> (Err e, s) | Ok config \<Rightarrow>
      let source = migration_server source_server; destination = migration_server destination_server in
      if ms_origin_sha256 source = ms_origin_sha256 destination
         \<or> sc_identity_sha256 (ms_compatibility source) = sc_identity_sha256 (ms_compatibility destination)
      then (Err EE_InvalidConfiguration, s)
      else case migration_inventory io source_client source_server (mpc_inventory config) s of
        (Err e, s1) \<Rightarrow> (Err (map_client_error e), s1)
      | (Ok inventory, s1) \<Rightarrow>
          (case declared_total (rmi_assets inventory) of
             Err e \<Rightarrow> (Err e, s1)
           | Ok declared \<Rightarrow>
               if declared > mpc_max_total_bytes config
                  \<or> list_ex (\<lambda>asset. rma_byte_len asset > mpc_max_asset_bytes config) (rmi_assets inventory)
               then (Err EE_InvalidConfiguration, s1)
               else case verify_originals tb io source_client source_server (mpc_max_asset_bytes config)
                           (rmi_assets inventory) [] s1 of
                 (Err e, s2) \<Rightarrow> (Err e, s2)
               | (Ok hashes, s2) \<Rightarrow> (assemble_migration_plan tb inventory source destination hashes config, s2)))"

section \<open>The upload plan of a migration\<close>

text \<open>\<open>albums.entry(operation).or_default().push(name)\<close>.\<close>

definition push_member :: "string \<Rightarrow> string \<Rightarrow> (string, string list) btree_map \<Rightarrow> (string, string list) btree_map" where
  "push_member name oper albums =
     btm_insert oper ((case btm_get albums oper of Some names \<Rightarrow> names | None \<Rightarrow> []) @ [name]) albums"

definition album_names :: "MigrationAlbum list \<Rightarrow> (string, string list) btree_map" where
  "album_names albums =
     fold (\<lambda>album m. fold (push_member (mal_name album)) (mal_member_operation_ids album) m) albums []"

definition execution_operation :: "MigrationAsset \<Rightarrow> string list \<Rightarrow> UploadOperation" where
  "execution_operation asset names =
     (let metadata = (case ma_normalized_metadata asset of Some m \<Rightarrow> m | None \<Rightarrow> NormalizedMetadata_default)
            \<lparr>nm_albums := names\<rparr> in
      \<lparr>op_operation_id = ma_operation_id asset,
       op_relative_path = ''assets/'' @ ma_source_asset_id asset @ ''/'' @ ma_original_file_name asset,
       op_media_kind = ma_media_kind asset, op_byte_len = ma_byte_len asset,
       op_content_sha256 = ma_content_sha256 asset, op_created_at_unix_ms = ma_created_at_unix_ms asset,
       op_modified_at_unix_ms = ma_modified_at_unix_ms asset, op_xmp_sidecar = None,
       op_normalized_metadata = (if metadata \<noteq> NormalizedMetadata_default then Some metadata else None),
       op_role = ma_role asset\<rparr>)"

text \<open>The closure removes the names of each operation from the map as it goes.\<close>

fun execution_operations ::
  "MigrationAsset list \<Rightarrow> (string, string list) btree_map \<Rightarrow> UploadOperation list \<times> (string, string list) btree_map" where
  "execution_operations [] albums = ([], albums)"
| "execution_operations (asset # assets) albums =
     (let names = (case btm_get albums (ma_operation_id asset) of Some names \<Rightarrow> names | None \<Rightarrow> []);
          (rest, left) = execution_operations assets (btm_remove (ma_operation_id asset) albums)
      in (execution_operation asset names # rest, left))"

definition execution_plan :: "migration_tables \<Rightarrow> MigrationPlan \<Rightarrow> (UploadPlan, ExecutorErrorClass) result" where
  "execution_plan tb plan =
     and_then (map_err (\<lambda>_. EE_InvalidPlan) (MigrationPlan_validate (mt_rfc3339 tb) (mt_unix_nanos tb) plan)) (\<lambda>_.
     and_then (map_err (\<lambda>_. EE_InvalidPlan)
         (migration_plan_sha256 (mt_rfc3339 tb) (mt_unix_nanos tb) (mt_plan_json tb) (mt_sha256 tb) plan)) (\<lambda>migration_sha256.
       let (operations, left) = execution_operations (mp_assets plan) (album_names (mp_albums plan)) in
       if left \<noteq> [] then Err EE_InvalidPlan
       else
         let summary = UploadPlanSummary_from_operations UPLOAD_PLAN_SCHEMA_VERSION_V2 operations in
         if sum_operations summary \<noteq> mps_assets (mp_summary plan)
            \<or> sum_media_bytes summary \<noteq> mps_media_bytes (mp_summary plan)
            \<or> sum_metadata_updates summary \<noteq> mps_metadata_updates (mp_summary plan)
            \<or> sum_album_creates summary \<noteq> mps_album_creates (mp_summary plan)
            \<or> sum_album_memberships summary \<noteq> mps_album_memberships (mp_summary plan)
            \<or> sum_max_mutations summary \<noteq> mps_max_mutations (mp_summary plan)
         then Err EE_InvalidPlan
         else
           let execution = \<lparr>up_schema_version = UPLOAD_PLAN_SCHEMA_VERSION_V2, up_normalized_plan_sha256 = migration_sha256,
                 up_source = \<lparr>sd_kind = Immich, sd_label = ''immich-migration'',
                   sd_fingerprint_sha256 = mp_source_fingerprint_sha256 plan, sd_case_sensitive = True,
                   sd_unicode_normalization = Nfc\<rparr>,
                 up_configuration_sha256 = mp_configuration_sha256 plan,
                 up_server = ms_compatibility (mp_destination_server plan),
                 up_operations = operations, up_summary = summary\<rparr> in
           and_then (map_err (\<lambda>_. EE_InvalidPlan) (UploadPlan_validate (mt_rfc3339 tb) execution)) (\<lambda>_. Ok execution)))"

end
