(* ===== verification/Exec_Migration_Laws.thy ===== *)
theory Exec_Migration_Laws
  imports Exec_Migration_Plan Client_Inventory_Laws
begin

text \<open>
  What holds between a migration plan, the inventory it was made from and the upload plan that
  carries it out.
\<close>

section \<open>The albums of an operation\<close>

definition names_of :: "MigrationAlbum list \<Rightarrow> string \<Rightarrow> string list" where
  "names_of albums oper = map mal_name (filter (\<lambda>a. oper \<in> set (mal_member_operation_ids a)) albums)"

definition entry_names :: "(string, string list) btree_map \<Rightarrow> string \<Rightarrow> string list" where
  "entry_names m oper = (case btm_get m oper of Some names \<Rightarrow> names | None \<Rightarrow> [])"

lemma push_member_entry:
  "entry_names (push_member name oper m) k = entry_names m k @ (if k = oper then [name] else [])"
  by (auto simp: push_member_def entry_names_def split: option.splits)

lemma push_member_dom: "dom (btm_get (push_member name oper m)) = insert oper (dom (btm_get m))"
  by (simp add: push_member_def)

lemma push_member_wf: "btm_wf m \<Longrightarrow> btm_wf (push_member name oper m)"
  by (simp add: push_member_def)

lemma push_members:
  "distinct members \<Longrightarrow> entry_names (fold (push_member name) members m) k
     = entry_names m k @ (if k \<in> set members then [name] else [])"
  "dom (btm_get (fold (push_member name) members m)) = set members \<union> dom (btm_get m)"
  "btm_wf m \<Longrightarrow> btm_wf (fold (push_member name) members m)"
  by (induction members arbitrary: m) (auto simp: push_member_entry push_member_dom push_member_wf)

lemma album_names_fold:
  assumes "\<forall>a \<in> set albums. distinct (mal_member_operation_ids a)"
  shows "entry_names (fold (\<lambda>album. fold (push_member (mal_name album)) (mal_member_operation_ids album)) albums m) k
      = entry_names m k @ names_of albums k"
    and "dom (btm_get (fold (\<lambda>album. fold (push_member (mal_name album)) (mal_member_operation_ids album)) albums m))
      = (\<Union>a \<in> set albums. set (mal_member_operation_ids a)) \<union> dom (btm_get m)"
    and "btm_wf m \<Longrightarrow> btm_wf (fold (\<lambda>album. fold (push_member (mal_name album)) (mal_member_operation_ids album)) albums m)"
  using assms by (induction albums arbitrary: m) (auto simp: push_members names_of_def)

lemma album_names:
  assumes "\<forall>a \<in> set albums. distinct (mal_member_operation_ids a)"
  shows "entry_names (album_names albums) k = names_of albums k"
    and "dom (btm_get (album_names albums)) = (\<Union>a \<in> set albums. set (mal_member_operation_ids a))"
    and "btm_wf (album_names albums)"
  using album_names_fold [OF assms, of "[]"] by (simp_all add: album_names_def entry_names_def)

lemma execution_operations_eq:
  assumes "distinct (map ma_operation_id assets)"
  shows "execution_operations assets m =
    (map (\<lambda>a. execution_operation a (entry_names m (ma_operation_id a))) assets,
     filter (\<lambda>e. fst e \<notin> ma_operation_id ` set assets) m)"
  using assms
proof (induction assets arbitrary: m)
  case (Cons a assets)
  have "entry_names (btm_remove (ma_operation_id a) m) (ma_operation_id b) = entry_names m (ma_operation_id b)"
    if "b \<in> set assets" for b
  proof -
    have "ma_operation_id b \<noteq> ma_operation_id a" using that Cons.prems by (metis distinct.simps(2) image_eqI list.set_map list.simps(9))
    then show ?thesis by (simp add: entry_names_def)
  qed
  then have "map (\<lambda>b. execution_operation b (entry_names (btm_remove (ma_operation_id a) m) (ma_operation_id b))) assets
      = map (\<lambda>b. execution_operation b (entry_names m (ma_operation_id b))) assets" by simp
  moreover have "filter (\<lambda>e. fst e \<notin> ma_operation_id ` set assets) (btm_remove (ma_operation_id a) m)
      = filter (\<lambda>e. fst e \<notin> ma_operation_id ` set (a # assets)) m"
    by (auto simp: btm_remove_def intro: filter_cong)
  ultimately show ?case using Cons by (simp add: entry_names_def)
qed simp

section \<open>The operations are valid\<close>

lemma less_append: "xs < ys \<Longrightarrow> length xs = length ys \<Longrightarrow> xs @ us < ys @ (vs :: string)"
  by (induction xs ys rule: list_induct2') auto

lemma less_append_left [simp]: "ps @ xs < ps @ ys \<longleftrightarrow> xs < (ys :: string)"
  by (induction ps) auto

lemma lower_hex_sha256: "lower_hex v 64 \<Longrightarrow> is_sha256 v"
  by (auto simp: lower_hex_def is_sha256_def list_all_iff)

lemma execution_operation_fields [simp]:
  "op_operation_id (execution_operation a ns) = ma_operation_id a"
  "op_content_sha256 (execution_operation a ns) = ma_content_sha256 a"
  "op_byte_len (execution_operation a ns) = ma_byte_len a"
  "op_role (execution_operation a ns) = ma_role a"
  "op_xmp_sidecar (execution_operation a ns) = None"
  "op_relative_path (execution_operation a ns) = ''assets/'' @ ma_source_asset_id a @ ''/'' @ ma_original_file_name a"
  by (simp_all add: execution_operation_def Let_def)

lemma execution_operation_metadata:
  assumes "op_normalized_metadata (execution_operation a ns) = Some m"
  shows "m = (case ma_normalized_metadata a of Some n \<Rightarrow> n | None \<Rightarrow> NormalizedMetadata_default) \<lparr>nm_albums := ns\<rparr>"
  using assms by (simp add: execution_operation_def Let_def split: if_splits)

lemma execution_operation_has_metadata:
  "is_some_and (op_normalized_metadata (execution_operation a ns)) has_metadata
     = is_some_and (ma_normalized_metadata a) has_metadata"
  by (cases "ma_normalized_metadata a"; cases "the (ma_normalized_metadata a)")
    (auto simp: execution_operation_def Let_def has_metadata_def NormalizedMetadata_default_def)

definition op_albums :: "UploadOperation \<Rightarrow> string list" where
  "op_albums oper = (case op_normalized_metadata oper of Some m \<Rightarrow> nm_albums m | None \<Rightarrow> [])"

lemma execution_operation_albums: "op_albums (execution_operation a ns) = ns"
  by (auto simp: op_albums_def execution_operation_def Let_def NormalizedMetadata_default_def dest: arg_cong [where f = nm_albums])

lemma sorted_wrt_names_of: "sorted_wrt (<) (map mal_name albums) \<Longrightarrow> sorted_wrt (<) (names_of albums k)"
  by (induction albums) (auto simp: names_of_def)

lemma execution_operation_ok:
  assumes "migration_asset_ok rfc un a" "\<forall>album \<in> set albums. valid_album (mal_name album)"
    and "sorted_wrt (<) (map mal_name albums)"
  shows "upload_operation_ok rfc (execution_operation a (names_of albums k))"
proof -
  have "NormalizedMetadata_is_valid rfc m" if "op_normalized_metadata (execution_operation a (names_of albums k)) = Some m" for m
  proof -
    let ?n = "case ma_normalized_metadata a of Some n \<Rightarrow> n | None \<Rightarrow> NormalizedMetadata_default"
    have "NormalizedMetadata_is_valid rfc ?n"
      using assms(1) default_metadata_valid by (auto simp: migration_asset_ok_def split: option.split)
    moreover have "list_all valid_album (names_of albums k)" using assms(2) by (auto simp: names_of_def list_all_iff)
    ultimately show ?thesis
      using sorted_wrt_names_of [OF assms(3)] unfolding execution_operation_metadata [OF that]
      by (simp add: NormalizedMetadata_is_valid_def windows2_all_less)
  qed
  then show ?thesis using assms(1) by (auto simp: upload_operation_ok_def migration_asset_ok_def lower_hex_sha256)
qed

lemma execution_paths_sorted:
  assumes "sorted_wrt (<) (map ma_source_asset_id assets)" "\<forall>a \<in> set assets. length (ma_source_asset_id a) = 36"
  shows "sorted_wrt (<) (map (\<lambda>a. op_relative_path (execution_operation a (f a))) assets)"
  using assms by (induction assets) (auto simp: less_append)

lemma plan_albums_set: "set (plan_albums ops) = (\<Union>oper \<in> set ops. set (op_albums oper))"
  by (induction ops) (auto simp: op_albums_def plan_albums_def List.map_filter_def split: option.splits)

lemma execution_albums:
  assumes "\<forall>album \<in> set albums. mal_member_operation_ids album \<noteq> [] \<and>
      set (mal_member_operation_ids album) \<subseteq> ma_operation_id ` set assets"
    and "distinct (map mal_name albums)"
  shows "length (plan_albums (map (\<lambda>a. execution_operation a (names_of albums (ma_operation_id a))) assets)) = length albums"
proof -
  let ?ops = "map (\<lambda>a. execution_operation a (names_of albums (ma_operation_id a))) assets"
  have "set (plan_albums ?ops) = (\<Union>a \<in> set assets. set (names_of albums (ma_operation_id a)))"
    by (simp add: plan_albums_set execution_operation_albums)
  also have "\<dots> = mal_name ` set albums"
  proof (intro equalityI subsetI)
    fix n assume "n \<in> mal_name ` set albums"
    then obtain album where album: "album \<in> set albums" "n = mal_name album" by auto
    then obtain oper where "oper \<in> set (mal_member_operation_ids album)" using assms(1) by (meson last_in_set)
    with album assms(1) show "n \<in> (\<Union>a \<in> set assets. set (names_of albums (ma_operation_id a)))"
      by (fastforce simp: names_of_def)
  qed (auto simp: names_of_def)
  finally have "card (set (plan_albums ?ops)) = length albums"
    using assms(2) by (metis distinct_card length_map list.set_map)
  then show ?thesis by (simp add: plan_albums_def length_bts_collect)
qed

lemma execution_summary:
  fixes p :: MigrationPlan
  assumes "migration_plan_ok rfc un p"
  defines "ops \<equiv> map (\<lambda>a. execution_operation a (names_of (mp_albums p) (ma_operation_id a))) (mp_assets p)"
  shows "sum_operations (expected_summary 2 ops) = mps_assets (mp_summary p)"
    and "sum_media_bytes (expected_summary 2 ops) = mps_media_bytes (mp_summary p)"
    and "sum_metadata_updates (expected_summary 2 ops) = mps_metadata_updates (mp_summary p)"
    and "sum_album_creates (expected_summary 2 ops) = mps_album_creates (mp_summary p)"
    and "sum_album_memberships (expected_summary 2 ops) = mps_album_memberships (mp_summary p)"
    and "sum_max_mutations (expected_summary 2 ops) = mps_max_mutations (mp_summary p)"
proof -
  have "length (filter (\<lambda>o'. is_some_and (op_normalized_metadata o') has_metadata) ops)
      = length (filter (\<lambda>a. is_some_and (ma_normalized_metadata a) has_metadata) (mp_assets p))"
    by (simp add: ops_def filter_map comp_def execution_operation_has_metadata)
  moreover have "length (plan_albums ops) = length (mp_albums p)"
    unfolding ops_def using assms(1)
    by (intro execution_albums) (auto simp: migration_plan_ok_def migration_album_ok_def dest: sorted_wrt_less_distinct)
  moreover have "map op_byte_len ops = map ma_byte_len (mp_assets p)" "length ops = length (mp_assets p)"
    by (simp_all add: ops_def)
  moreover have "mp_summary p = migration_expected_summary (mp_assets p) (mp_albums p)"
    using assms(1) by (simp add: migration_plan_ok_def)
  ultimately show "sum_operations (expected_summary 2 ops) = mps_assets (mp_summary p)"
    "sum_media_bytes (expected_summary 2 ops) = mps_media_bytes (mp_summary p)"
    "sum_metadata_updates (expected_summary 2 ops) = mps_metadata_updates (mp_summary p)"
    "sum_album_creates (expected_summary 2 ops) = mps_album_creates (mp_summary p)"
    "sum_album_memberships (expected_summary 2 ops) = mps_album_memberships (mp_summary p)"
    "sum_max_mutations (expected_summary 2 ops) = mps_max_mutations (mp_summary p)"
    by (simp_all add: expected_summary_def migration_expected_summary_def Let_def UPLOAD_PLAN_SCHEMA_VERSION_V2_def)
qed

section \<open>What an assembled plan holds\<close>

lemma planned_asset_Ok:
  assumes "planned_asset operation_ids content roles asset = Ok a"
  shows "ma_source_asset_id a = rma_asset_id asset" "ma_original_file_name a = rma_original_file_name asset"
    "ma_media_kind a = rma_media_kind asset" "ma_byte_len a = rma_byte_len asset"
    "ma_checksum_sha1 a = rma_checksum_sha1 asset" "btm_get content (rma_asset_id asset) = Some (ma_content_sha256 a)"
    "ma_created_at_unix_ms a = rma_created_at_unix_ms asset" "ma_modified_at_unix_ms a = rma_modified_at_unix_ms asset"
    "ma_normalized_metadata a = rma_normalized_metadata asset"
  using assms by (auto simp: planned_asset_def and_then_eq_Ok)

text \<open>What of an asset of the source a plan repeats.\<close>

definition remote_facts where
  "remote_facts a = (rma_asset_id a, rma_original_file_name a, rma_media_kind a, rma_byte_len a, rma_checksum_sha1 a,
     rma_created_at_unix_ms a, rma_modified_at_unix_ms a, rma_normalized_metadata a)"

definition planned_facts where
  "planned_facts a = (ma_source_asset_id a, ma_original_file_name a, ma_media_kind a, ma_byte_len a, ma_checksum_sha1 a,
     ma_created_at_unix_ms a, ma_modified_at_unix_ms a, ma_normalized_metadata a)"

definition content_hashes :: "MigrationPlan \<Rightarrow> (string, string) btree_map" where
  "content_hashes plan = map (\<lambda>a. (ma_source_asset_id a, ma_content_sha256 a)) (mp_assets plan)"

lemma assemble_Ok:
  assumes "assemble_migration_plan tb inventory source destination hashes config = Ok plan"
  shows "migration_plan_ok (mt_rfc3339 tb) (mt_unix_nanos tb) plan"
    and "mp_source_server plan = source" "mp_destination_server plan = destination"
    and "map planned_facts (mp_assets plan) = map remote_facts (rmi_assets inventory)"
    and "mset (map mal_name (mp_albums plan)) = mset (map roa_name (rmi_albums inventory))"
    and "length hashes = length (mp_assets plan)"
    and "\<forall>a \<in> set (mp_assets plan). btm_get hashes (ma_source_asset_id a) = Some (ma_content_sha256 a)"
    and "MigrationPlanningConfig_validate config = Ok config"
    and "MigrationPlanningConfig_identity tb config = Ok (mp_configuration_sha256 plan)"
proof -
  obtain ids roles where valid: "MigrationPlan_validate (mt_rfc3339 tb) (mt_unix_nanos tb) plan = Ok ()"
    and len: "length hashes = length (rmi_assets inventory)"
    and assets: "collect_result (planned_asset ids hashes roles) (rmi_assets inventory) = Ok (mp_assets plan)"
    and albums: "planned_albums inventory ids = Ok (mp_albums plan)"
    and servers: "mp_source_server plan = source" "mp_destination_server plan = destination"
    and config: "MigrationPlanningConfig_validate config = Ok config"
      "MigrationPlanningConfig_identity tb config = Ok (mp_configuration_sha256 plan)"
    using assms by (auto simp: assemble_migration_plan_def MigrationPlanningConfig_validate_def and_then_eq_Ok Let_def
        map_err_eq_Ok split: if_splits)
  then show "migration_plan_ok (mt_rfc3339 tb) (mt_unix_nanos tb) plan"
    using MigrationPlan_validate_ok_iff by (metis is_ok_iff)
  show "mp_source_server plan = source" "mp_destination_server plan = destination" by fact+
  show "MigrationPlanningConfig_validate config = Ok config"
    "MigrationPlanningConfig_identity tb config = Ok (mp_configuration_sha256 plan)" by fact+
  have pointwise: "list_all2 (\<lambda>r a. planned_asset ids hashes roles r = Ok a) (rmi_assets inventory) (mp_assets plan)"
    using assets by (simp add: collect_result_eq_Ok)
  then show "map planned_facts (mp_assets plan) = map remote_facts (rmi_assets inventory)"
    by (induction rule: list_all2_induct) (simp_all add: planned_facts_def remote_facts_def planned_asset_Ok)
  show "length hashes = length (mp_assets plan)" using len list_all2_lengthD [OF pointwise] by simp
  show "\<forall>a \<in> set (mp_assets plan). btm_get hashes (ma_source_asset_id a) = Some (ma_content_sha256 a)"
    using pointwise by (induction rule: list_all2_induct) (auto simp: planned_asset_Ok)
  obtain planned where "collect_result (planned_album ids) (rmi_albums inventory) = Ok planned"
    and sorted: "mp_albums plan = sort_key mal_name planned"
    using albums by (auto simp: planned_albums_def map_ok_eq_Ok)
  then have "list_all2 (\<lambda>r a. planned_album ids r = Ok a) (rmi_albums inventory) planned"
    by (simp add: collect_result_eq_Ok)
  then have "map mal_name planned = map roa_name (rmi_albums inventory)"
    by (induction rule: list_all2_induct) (auto simp: planned_album_def map_ok_eq_Ok)
  then show "mset (map mal_name (mp_albums plan)) = mset (map roa_name (rmi_albums inventory))"
    unfolding sorted by (metis mset_map mset_sort)
qed

text \<open>The hashes of a plan are those it was assembled from.\<close>

lemma assemble_hashes:
  assumes "assemble_migration_plan tb inventory source destination hashes config = Ok plan" "btm_wf hashes"
  shows "btm_extend (content_hashes plan) [] = hashes"
proof -
  note plan = assemble_Ok [OF assms(1)]
  have keys: "map fst (content_hashes plan) = map ma_source_asset_id (mp_assets plan)" by (simp add: content_hashes_def)
  then have wf: "btm_wf (content_hashes plan)" using plan(1) by (simp add: btm_wf_def migration_plan_ok_def)
  have "set (content_hashes plan) \<subseteq> set hashes"
    using plan(7) by (auto simp: content_hashes_def dest: map_of_SomeD)
  moreover have "card (set (content_hashes plan)) = card (set hashes)"
  proof -
    have "length (content_hashes plan) = length hashes" by (simp add: content_hashes_def plan(6))
    then show ?thesis
      using btm_wf_distinct [OF wf] btm_wf_distinct [OF assms(2)] by (simp add: distinct_map distinct_card)
  qed
  ultimately have "set (content_hashes plan) = set hashes" by (meson List.finite_set card_subset_eq)
  moreover have "inj_on fst (set (content_hashes plan) \<union> set hashes)"
    using calculation btm_wf_distinct [OF assms(2)] by (simp add: distinct_map)
  ultimately have "content_hashes plan = hashes"
    using wf assms(2) map_sorted_distinct_set_unique [of fst "content_hashes plan" hashes]
    by (simp only: btm_wf_def strict_sorted_iff)
  then show ?thesis using insert_all_self [OF wf] by simp
qed

lemma reassemble:
  assumes "assemble_migration_plan tb inventory source destination hashes config = Ok plan" "btm_wf hashes"
  shows "assemble_migration_plan tb inventory (mp_source_server plan) (mp_destination_server plan)
      (btm_extend (content_hashes plan) []) config = Ok plan"
  unfolding assemble_hashes [OF assms] assemble_Ok(2,3) [OF assms(1)] by (rule assms(1))

section \<open>Originals are hashed as they arrive\<close>

lemma read_original_Ok:
  "read_original byte_len max_bytes download bytes fed = Ok (bytes', fed') \<Longrightarrow> bytes = of_nat (length fed) \<Longrightarrow>
     bytes' = of_nat (length fed')"
proof (induction byte_len max_bytes download bytes fed rule: read_original.induct)
  case (1 byte_len max_bytes download bytes fed)
  have "read_original byte_len max_bytes download bytes fed = Ok (bytes', fed')" by fact
  note step = this [unfolded read_original.simps [of byte_len max_bytes download bytes fed]]
  show ?case
  proof (cases "\<exists>chunk rest b. next_chunk download = (Ok (Some chunk), rest) \<and>
      checked_add bytes (of_nat (length chunk)) = Some b \<and> b \<le> byte_len \<and> b \<le> max_bytes")
    case True
    then obtain chunk rest b where c: "next_chunk download = (Ok (Some chunk), rest)"
      "checked_add bytes (of_nat (length chunk)) = Some b" "b \<le> byte_len" "b \<le> max_bytes" by blast
    then have "b = of_nat (length (fed @ chunk))"
      using 1(3) by (auto simp: checked_add_def split: if_splits)
    moreover have "read_original byte_len max_bytes rest b (fed @ chunk) = Ok (bytes', fed')"
      using step c by (simp add: not_less)
    ultimately show ?thesis using c "1.IH" [OF c(1) [symmetric] refl refl c(2)] by (simp add: not_less)
  next
    case False
    then show ?thesis using step 1(3) by (auto split: prod.splits result.splits option.splits if_splits simp: not_less)
  qed
qed

lemma verify_original_Ok:
  assumes "verify_original tb io client server asset max_bytes s = (Ok digest, s')"
  shows "\<exists>content. rma_byte_len asset = of_nat (length content) \<and> mt_sha1 tb content = rma_checksum_sha1 asset \<and>
    mt_sha256 tb content = digest"
  using assms
  by (auto simp: verify_original_def and_then_eq_Ok dest!: read_original_Ok split: prod.splits result.splits if_splits)

lemma verify_originals_Ok:
  "verify_originals tb io client server max_bytes assets hashes s = (Ok hashes', s') \<Longrightarrow> distinct (map rma_asset_id assets) \<Longrightarrow>
     (\<forall>a \<in> set assets. \<exists>content. rma_byte_len a = of_nat (length content) \<and> mt_sha1 tb content = rma_checksum_sha1 a \<and>
        btm_get hashes' (rma_asset_id a) = Some (mt_sha256 tb content)) \<and>
     (\<forall>k. k \<notin> rma_asset_id ` set assets \<longrightarrow> btm_get hashes' k = btm_get hashes k) \<and> (btm_wf hashes \<longrightarrow> btm_wf hashes')"
proof (induction assets arbitrary: hashes s)
  case (Cons a assets)
  obtain digest s1 where v: "verify_original tb io client server a max_bytes s = (Ok digest, s1)"
    and rest: "verify_originals tb io client server max_bytes assets (btm_insert (rma_asset_id a) digest hashes) s1 = (Ok hashes', s')"
    using Cons.prems(1) by (auto split: prod.splits result.splits)
  have IH: "\<forall>b \<in> set assets. \<exists>content. rma_byte_len b = of_nat (length content) \<and> mt_sha1 tb content = rma_checksum_sha1 b \<and>
        btm_get hashes' (rma_asset_id b) = Some (mt_sha256 tb content)"
    "\<forall>k. k \<notin> rma_asset_id ` set assets \<longrightarrow> btm_get hashes' k = btm_get (btm_insert (rma_asset_id a) digest hashes) k"
    "btm_wf hashes \<longrightarrow> btm_wf hashes'"
    using Cons.IH [OF rest] Cons.prems(2) by simp_all
  moreover have "btm_get hashes' (rma_asset_id a) = Some digest" using IH(2) Cons.prems(2) by simp
  ultimately show ?case using verify_original_Ok [OF v] by auto
qed auto

lemma declared_total_Ok:
  "fold_result (\<lambda>asset sum. ok_or (checked_add sum (rma_byte_len asset)) EE_InvalidConfiguration) assets t = Ok t' \<Longrightarrow>
     unat t' = unat t + sum_list (map (unat \<circ> rma_byte_len) assets)"
  by (induction assets arbitrary: t) (auto simp: and_then_eq_Ok checked_add_def unat_add_u64 split: if_splits)

lemma create_migration_plan_Ok:
  assumes "create_migration_plan tb io client source destination config w = (Ok plan, w')"
  obtains inventory w1 hashes where
    "migration_inventory io client source (mpc_inventory config) w = (Ok inventory, w1)"
    "assemble_migration_plan tb inventory (migration_server source) (migration_server destination) hashes config = Ok plan"
    "btm_wf hashes"
    "\<forall>a \<in> set (rmi_assets inventory). rma_byte_len a \<le> mpc_max_asset_bytes config \<and>
       (\<exists>content. rma_byte_len a = of_nat (length content) \<and> mt_sha1 tb content = rma_checksum_sha1 a \<and>
          btm_get hashes (rma_asset_id a) = Some (mt_sha256 tb content))"
    "sum_list (map (unat \<circ> rma_byte_len) (rmi_assets inventory)) \<le> unat (mpc_max_total_bytes config)"
proof -
  obtain inventory w1 hashes total where i: "migration_inventory io client source (mpc_inventory config) w = (Ok inventory, w1)"
    and t: "declared_total (rmi_assets inventory) = Ok total" "total \<le> mpc_max_total_bytes config"
    and sizes: "\<forall>a \<in> set (rmi_assets inventory). rma_byte_len a \<le> mpc_max_asset_bytes config"
    and v: "verify_originals tb io client source (mpc_max_asset_bytes config) (rmi_assets inventory) [] w1 = (Ok hashes, w')"
    and a: "assemble_migration_plan tb inventory (migration_server source) (migration_server destination) hashes config = Ok plan"
    using assms by (auto simp: create_migration_plan_def MigrationPlanningConfig_validate_def and_then_eq_Ok Let_def
        list_ex_iff not_less split: prod.splits result.splits if_splits)
  have "map ma_source_asset_id (mp_assets plan) = map rma_asset_id (rmi_assets inventory)"
    using arg_cong [OF assemble_Ok(4) [OF a], of "map fst"] by (simp add: comp_def planned_facts_def remote_facts_def)
  then have "distinct (map rma_asset_id (rmi_assets inventory))"
    using assemble_Ok(1) [OF a] by (auto simp: migration_plan_ok_def dest: sorted_wrt_less_distinct)
  from verify_originals_Ok [OF v this] sizes have "btm_wf hashes"
    "\<forall>a \<in> set (rmi_assets inventory). rma_byte_len a \<le> mpc_max_asset_bytes config \<and>
       (\<exists>content. rma_byte_len a = of_nat (length content) \<and> mt_sha1 tb content = rma_checksum_sha1 a \<and>
          btm_get hashes (rma_asset_id a) = Some (mt_sha256 tb content))" by auto
  moreover have "sum_list (map (unat \<circ> rma_byte_len) (rmi_assets inventory)) \<le> unat (mpc_max_total_bytes config)"
    using declared_total_Ok [OF t(1) [unfolded declared_total_def]] t(2) by (simp add: word_le_nat_alt)
  ultimately show ?thesis using that i a by blast
qed

end
