(* ===== verification/Exec_Migration_Staging.thy ===== *)
theory Exec_Migration_Staging
  imports Exec_Migration_Plan Exec_Operation Disk
begin

text \<open>
  \<open>immich-executor/src/migration_staging.rs\<close> and \<open>import_staging_fs.rs\<close>: the private directory beside the
  checkpoint in which a migration keeps the original it is uploading. File modes are not
  modelled; the order in which the system lists a directory and the crate \<open>base64\<close> are arguments.
\<close>

section \<open>The staging directory\<close>

type_synonym read_dir = "path \<Rightarrow> disk \<Rightarrow> string list option"

definition STAGING_PREFIX :: string where
  "STAGING_PREFIX = ''.immich-rs-migration-stage-''"

definition valid_staging_name :: "string \<Rightarrow> bool" where
  "valid_staging_name name =
     (case split_once CHR ''.'' name of
        None \<Rightarrow> False
      | Some (oper, suffix) \<Rightarrow>
          length oper = 64 \<and> list_all is_lower_hex oper
          \<and> suffix \<in> {''media'', ''media.tmp'', ''xmp'', ''xmp.tmp''})"

fun cleanup_entries :: "path \<Rightarrow> string list \<Rightarrow> disk \<Rightarrow> (unit, ExecutorErrorClass) result \<times> disk" where
  "cleanup_entries root [] d = (Ok (), d)"
| "cleanup_entries root (name # names) d =
     (case symlink_metadata (root @ [name]) d of
        (Ok (FileNode _), d1) \<Rightarrow>
          if \<not> valid_staging_name name then (Err EE_Destination, d1)
          else let (ok, d2) = remove_file (root @ [name]) d1 in
            if ok then cleanup_entries root names d2 else (Err EE_Destination, d2)
      | (_, d1) \<Rightarrow> (Err EE_Destination, d1))"

definition remove_dir :: "read_dir \<Rightarrow> path \<Rightarrow> disk \<Rightarrow> bool \<times> disk" where
  "remove_dir read_dir p d =
     (let (f, d1) = next_fault d in
      if f \<noteq> None \<or> dk_tree d1 p \<noteq> Some DirNode \<or> read_dir p d1 \<noteq> Some [] then (False, d1)
      else (True, set_node p None d1))"

definition cleanup_exact_root :: "read_dir \<Rightarrow> path \<Rightarrow> disk \<Rightarrow> (unit, ExecutorErrorClass) result \<times> disk" where
  "cleanup_exact_root read_dir root d =
     (case symlink_metadata root d of
        (Err IoNotFound, d1) \<Rightarrow> (Ok (), d1)
      | (Ok DirNode, d1) \<Rightarrow>
          (case read_dir root d1 of
             None \<Rightarrow> (Err EE_Destination, d1)
           | Some names \<Rightarrow>
               (case cleanup_entries root names d1 of
                  (Err e, d2) \<Rightarrow> (Err e, d2)
                | (Ok _, d2) \<Rightarrow> (let (ok, d3) = remove_dir read_dir root d2 in (if ok then Ok () else Err EE_Destination, d3))))
      | (_, d1) \<Rightarrow> (Err EE_Destination, d1))"

definition validate_real_directory :: "path \<Rightarrow> disk \<Rightarrow> (unit, ExecutorErrorClass) result \<times> disk" where
  "validate_real_directory p d =
     (case symlink_metadata p d of (Ok DirNode, d1) \<Rightarrow> (Ok (), d1) | (_, d1) \<Rightarrow> (Err EE_Destination, d1))"

definition validate_real_file :: "path \<Rightarrow> disk \<Rightarrow> (unit, ExecutorErrorClass) result \<times> disk" where
  "validate_real_file p d =
     (case symlink_metadata p d of (Ok (FileNode _), d1) \<Rightarrow> (Ok (), d1) | (_, d1) \<Rightarrow> (Err EE_SourceChanged, d1))"

record MigrationStaging =
  mg_root :: path
  mg_max_asset_bytes :: u64

text \<open>\<open>checkpoint.parent()\<close>, or the working directory, which is the empty path here.\<close>

definition MigrationStaging_open ::
  "migration_tables \<Rightarrow> read_dir \<Rightarrow> path \<Rightarrow> MigrationPlan \<Rightarrow> u64 \<Rightarrow> disk \<Rightarrow> (MigrationStaging, ExecutorErrorClass) result \<times> disk" where
  "MigrationStaging_open tb read_dir checkpoint plan max_asset_bytes d =
     (case map_err (\<lambda>_. EE_InvalidPlan) (MigrationPlan_validate (mt_rfc3339 tb) (mt_unix_nanos tb) plan) of Err e \<Rightarrow> (Err e, d) | Ok _ \<Rightarrow>
      if max_asset_bytes = 0 then (Err EE_InvalidConfiguration, d)
      else case validate_real_directory (butlast checkpoint) d of (Err e, d1) \<Rightarrow> (Err e, d1) | (Ok _, d1) \<Rightarrow>
      case mt_plan_json tb plan of None \<Rightarrow> (Err EE_Invariant, d1) | Some bytes \<Rightarrow>
        let root = butlast checkpoint @ [STAGING_PREFIX @ mt_sha256 tb bytes] in
        case cleanup_exact_root read_dir root d1 of (Err e, d2) \<Rightarrow> (Err e, d2) | (Ok _, d2) \<Rightarrow>
          (let (ok, d3) = create_dir root d2 in
           (if ok then Ok \<lparr>mg_root = root, mg_max_asset_bytes = max_asset_bytes\<rparr> else Err EE_Destination, d3)))"

section \<open>Base64 of a hexadecimal digest\<close>

definition radix_digit :: "char \<Rightarrow> nat option" where
  "radix_digit c =
     (if is_ascii_digit c then Some (of_char c - of_char CHR ''0'')
      else if CHR ''a'' \<le> c \<and> c \<le> CHR ''f'' then Some (10 + of_char c - of_char CHR ''a'')
      else if CHR ''A'' \<le> c \<and> c \<le> CHR ''F'' then Some (10 + of_char c - of_char CHR ''A'')
      else None)"

text \<open>\<open>u8::from_str_radix\<close> of two bytes takes a leading plus sign.\<close>

definition hex_byte :: "char \<Rightarrow> char \<Rightarrow> (char, ExecutorErrorClass) result" where
  "hex_byte high low =
     (case (if high = CHR ''+'' then Some 0 else radix_digit high, radix_digit low) of
        (Some h, Some l) \<Rightarrow> Ok (char_of (16 * h + l))
      | _ \<Rightarrow> Err EE_SourceChanged)"

fun hex_bytes :: "string \<Rightarrow> (string, ExecutorErrorClass) result" where
  "hex_bytes (high # low # rest) =
     and_then (hex_byte high low) (\<lambda>byte. map_ok ((#) byte) (hex_bytes rest))"
| "hex_bytes _ = Ok []"

definition hex_sha1_base64 :: "(string \<Rightarrow> string) \<Rightarrow> string \<Rightarrow> (string, ExecutorErrorClass) result" where
  "hex_sha1_base64 base64 v = (if length v \<noteq> 40 then Err EE_SourceChanged else map_ok base64 (hex_bytes v))"

section \<open>One original\<close>

function stage_chunks ::
  "path \<Rightarrow> u64 \<Rightarrow> u64 \<Rightarrow> (string, reqwest_error) result option list \<Rightarrow> u64 \<Rightarrow> string \<Rightarrow> disk
     \<Rightarrow> (u64 \<times> string, ExecutorErrorClass) result \<times> disk" where
  "stage_chunks temporary byte_len max_bytes download observed fed d =
     (case next_chunk download of
        (Err e, _) \<Rightarrow> (Err (map_client_error e), d)
      | (Ok None, _) \<Rightarrow> (Ok (observed, fed), d)
      | (Ok (Some chunk), rest) \<Rightarrow>
          (case checked_add observed (of_nat (length chunk)) of
             None \<Rightarrow> (Err EE_SourceChanged, d)
           | Some observed' \<Rightarrow>
               if observed' > byte_len \<or> observed' > max_bytes then (Err EE_SourceChanged, d)
               else let (ok, d1) = write_all temporary chunk d in
                 if ok then stage_chunks temporary byte_len max_bytes rest observed' (fed @ chunk) d1 else (Err EE_Destination, d1)))"
  by pat_completeness auto
termination
  by (relation "measure (\<lambda>(temporary, byte_len, max_bytes, download, observed, fed, d). length download)")
    (auto dest: next_chunk_shorter [OF sym])

declare stage_chunks.simps [simp del]

definition migration_download ::
  "migration_tables \<Rightarrow> 's inventory_io \<Rightarrow> MigrationStaging \<Rightarrow> ImmichReadClient \<Rightarrow> NegotiatedServer \<Rightarrow> MigrationAsset
     \<Rightarrow> path \<Rightarrow> path \<Rightarrow> 's \<Rightarrow> disk \<Rightarrow> (unit, ExecutorErrorClass) result \<times> 's \<times> disk" where
  "migration_download tb io staging client server asset temporary final s d =
     (case download_original io client server (ma_source_asset_id asset) s of
        (Err e, s1) \<Rightarrow> (Err (map_client_error e), s1, d)
      | (Ok download, s1) \<Rightarrow>
          if is_some_and (or_content_length download) (\<lambda>n. n \<noteq> ma_byte_len asset \<or> n > mg_max_asset_bytes staging)
          then (Err EE_SourceChanged, s1, d)
          else let (created, d1) = create_new temporary d in
            if \<not> created then (Err EE_Destination, s1, d1)
            else case stage_chunks temporary (ma_byte_len asset) (mg_max_asset_bytes staging) (or_chunks download) 0 [] d1 of
              (Err e, d2) \<Rightarrow> (Err e, s1, d2)
            | (Ok (observed, fed), d2) \<Rightarrow>
                if observed \<noteq> ma_byte_len asset \<or> mt_sha1 tb fed \<noteq> ma_checksum_sha1 asset \<or> mt_sha256 tb fed \<noteq> ma_content_sha256 asset
                then (Err EE_SourceChanged, s1, d2)
                else let (synced, d3) = sync_all temporary d2 in
                  if \<not> synced then (Err EE_Destination, s1, d3)
                  else let (renamed, d4) = rename temporary final d3 in
                    if \<not> renamed then (Err EE_Destination, s1, d4)
                    else let (r, d5) = validate_real_file final d4 in (r, s1, d5))"

definition staged_path :: "MigrationStaging \<Rightarrow> MigrationAsset \<Rightarrow> string \<Rightarrow> path" where
  "staged_path staging asset suffix = mg_root staging @ [ma_operation_id asset @ suffix]"

definition path_text :: "path \<Rightarrow> string" where
  "path_text p = join [CHR ''/''] p"

definition migration_prepare ::
  "migration_tables \<Rightarrow> (string \<Rightarrow> string) \<Rightarrow> 's inventory_io \<Rightarrow> MigrationStaging \<Rightarrow> ImmichReadClient \<Rightarrow> NegotiatedServer
     \<Rightarrow> MigrationAsset \<Rightarrow> 's \<Rightarrow> disk \<Rightarrow> (VerifiedAsset, ExecutorErrorClass) result \<times> 's \<times> disk" where
  "migration_prepare tb base64 io staging client server asset s d =
     (if ma_byte_len asset > mg_max_asset_bytes staging then (Err EE_InvalidConfiguration, s, d)
      else
        let final = staged_path staging asset ''.media''; temporary = staged_path staging asset ''.media.tmp'' in
        case migration_download tb io staging client server asset temporary final s d of
          (Err e, s1, d1) \<Rightarrow> (Err e, s1, snd (remove_file final (snd (remove_file temporary d1))))
        | (Ok _, s1, d1) \<Rightarrow>
            (map_ok (\<lambda>sha1_base64. \<lparr>va_media_path = path_text final, va_file_name = ma_original_file_name asset,
                va_sha1_base64 = sha1_base64, va_xmp = None\<rparr>)
              (hex_sha1_base64 base64 (ma_checksum_sha1 asset)), s1, d1))"

text \<open>Dropping what \<open>prepare\<close> gave.\<close>

definition migration_release :: "MigrationStaging \<Rightarrow> MigrationAsset \<Rightarrow> disk \<Rightarrow> disk" where
  "migration_release staging asset d = snd (remove_file (staged_path staging asset ''.media'') d)"

end
