(* ===== verification/Exec_Migration_Sample.thy ===== *)
theory Exec_Migration_Sample
  imports Exec_Migration_Plan Client_Inventory_Laws
begin

text \<open>
  A migration computed step by step: the Live Photo of \<open>Client_Inventory_Laws\<close>, in one album, from
  its inventory to the plan. The witnesses of the migration properties use it.
\<close>

text \<open>A toy digest that tells the two operations of the sample apart.\<close>

definition letter_digest :: "string \<Rightarrow> string" where
  "letter_digest v = hex64 (if CHR ''j'' \<in> set v then CHR ''1'' else CHR ''2'')"

definition sample_sha1 :: string where
  "sample_sha1 = lowercase_hex (replicate 20 CHR ''a'')"

definition sample_migration_tables :: migration_tables where
  "sample_migration_tables =
     \<lparr>mt_rfc3339 = Some, mt_unix_nanos = (\<lambda>_. True), mt_sha256 = letter_digest,
      mt_sha1 = (\<lambda>_. sample_sha1), mt_config_json = (\<lambda>_. Some ''config''),
      mt_metadata_json = (\<lambda>_. Some ''metadata''), mt_fingerprint_json = (\<lambda>_. Some ''fingerprint''),
      mt_plan_json = (\<lambda>_. Some ''plan'')\<rparr>"

definition destination_negotiated :: NegotiatedServer where
  "destination_negotiated = \<lparr>ns_compatibility = \<lparr>sc_version = \<lparr>sv_major = 3, sv_minor = 1, sv_patch = 0\<rparr>,
      sc_identity_sha256 = hex64 CHR ''d''\<rparr>, ns_origin_sha256 = hex64 CHR ''e''\<rparr>"

definition sample_migration_metadata :: NormalizedMetadata where
  "sample_migration_metadata = \<lparr>nm_description = Some ''sea'', nm_taken_at_utc = Some ''1970-01-01T00:00:01Z'', nm_location = None,
     nm_albums = []\<rparr>"

definition sample_remote :: "char \<Rightarrow> string \<Rightarrow> MediaKind \<Rightarrow> string option \<Rightarrow> RemoteMigrationAsset" where
  "sample_remote c name kind video =
     \<lparr>rma_asset_id = uuid_of c, rma_original_file_name = name, rma_media_kind = kind, rma_byte_len = 3,
      rma_checksum_sha1 = sample_sha1, rma_created_at_unix_ms = 1000, rma_modified_at_unix_ms = 1000,
      rma_normalized_metadata = Some sample_migration_metadata, rma_live_photo_video_id = video\<rparr>"

definition sample_remote_assets :: "RemoteMigrationAsset list" where
  "sample_remote_assets =
     [sample_remote CHR ''1'' ''a.jpg'' MediaImage (Some (uuid_of CHR ''2'')), sample_remote CHR ''2'' ''a.mov'' MediaVideo None]"

definition sample_album :: "char \<Rightarrow> string \<Rightarrow> RemoteOwnedAlbum" where
  "sample_album c name = \<lparr>roa_album_id = uuid_of c, roa_name = name, roa_asset_ids = [uuid_of CHR ''1'']\<rparr>"

definition sample_remote_inventory :: "RemoteOwnedAlbum list \<Rightarrow> RemoteMigrationInventory" where
  "sample_remote_inventory albums = \<lparr>rmi_assets = sample_remote_assets, rmi_albums = albums\<rparr>"

text \<open>The outside state may be of any type, also one whose equality cannot be computed.\<close>

lemma sample_inventory_any:
  "(P :: _ \<Rightarrow> bool) (migration_inventory sample_inventory_io source_client source_negotiated MigrationListConfig_default s)
     = P (Ok (sample_remote_inventory [sample_album CHR ''3'' ''trip'']), s)"
  by code_simp

lemma sample_inventory_eq:
  "migration_inventory sample_inventory_io source_client source_negotiated MigrationListConfig_default s
     = (Ok (sample_remote_inventory [sample_album CHR ''3'' ''trip'']), s)"
  using sample_inventory_any [where P = "\<lambda>r. r = (Ok (sample_remote_inventory [sample_album CHR ''3'' ''trip'']), s)"] by simp

definition sample_hashes :: "(string, string) btree_map" where
  "sample_hashes = [(uuid_of CHR ''1'', hex64 CHR ''2''), (uuid_of CHR ''2'', hex64 CHR ''2'')]"

lemma sample_originals:
  "verify_originals sample_migration_tables sample_inventory_io source_client source_negotiated
     (mpc_max_asset_bytes MigrationPlanningConfig_default) sample_remote_assets [] () = (Ok sample_hashes, ())"
  by code_simp

definition sample_operation_ids :: "(string, string) btree_map" where
  "sample_operation_ids = [(uuid_of CHR ''1'', hex64 CHR ''1''), (uuid_of CHR ''2'', hex64 CHR ''2'')]"

lemma sample_planned_ids:
  "planned_operation_ids sample_migration_tables (migration_server source_negotiated) sample_hashes sample_remote_assets
     = Ok sample_operation_ids"
  by code_simp

definition sample_roles :: "(string, UploadRole) btree_map" where
  "sample_roles = [(uuid_of CHR ''1'', LivePhotoImage (hex64 CHR ''2'') (hex64 CHR ''2'')),
     (uuid_of CHR ''2'', LivePhotoVideo (hex64 CHR ''2''))]"

lemma sample_planned_roles: "live_photo_roles sample_migration_tables sample_remote_assets sample_operation_ids = Ok sample_roles"
  by code_simp

definition sample_planned_asset :: "char \<Rightarrow> char \<Rightarrow> string \<Rightarrow> MediaKind \<Rightarrow> UploadRole \<Rightarrow> MigrationAsset" where
  "sample_planned_asset c o' name kind role =
     \<lparr>ma_source_asset_id = uuid_of c, ma_operation_id = hex64 o', ma_original_file_name = name, ma_media_kind = kind,
      ma_byte_len = 3, ma_checksum_sha1 = sample_sha1, ma_content_sha256 = hex64 CHR ''2'',
      ma_created_at_unix_ms = 1000, ma_modified_at_unix_ms = 1000, ma_normalized_metadata = Some sample_migration_metadata,
      ma_role = role\<rparr>"

definition sample_planned_assets :: "MigrationAsset list" where
  "sample_planned_assets =
     [sample_planned_asset CHR ''1'' CHR ''1'' ''a.jpg'' MediaImage (LivePhotoImage (hex64 CHR ''2'') (hex64 CHR ''2'')),
      sample_planned_asset CHR ''2'' CHR ''2'' ''a.mov'' MediaVideo (LivePhotoVideo (hex64 CHR ''2''))]"

lemma sample_assets_planned:
  "collect_result (planned_asset sample_operation_ids sample_hashes sample_roles) sample_remote_assets = Ok sample_planned_assets"
  by code_simp

definition sample_planned_album :: "string \<Rightarrow> MigrationAlbum" where
  "sample_planned_album name = \<lparr>mal_name = name, mal_member_operation_ids = [hex64 CHR ''1'']\<rparr>"

lemma sample_album_planned: "planned_album sample_operation_ids (sample_album c name) = Ok (sample_planned_album name)"
proof -
  have "collect_result (\<lambda>i. ok_or (btm_get sample_operation_ids i) EE_Invariant) [uuid_of CHR ''1''] = Ok [hex64 CHR ''1'']"
    by code_simp
  then show ?thesis by (simp add: planned_album_def sample_album_def sample_planned_album_def)
qed

lemma sample_albums_planned:
  "planned_albums (sample_remote_inventory (map (\<lambda>(c, name). sample_album c name) albums)) sample_operation_ids
     = Ok (sort_key mal_name (map sample_planned_album (map snd albums)))"
proof -
  have "collect_result (planned_album sample_operation_ids) (map (\<lambda>(c, name). sample_album c name) albums)
      = Ok (map sample_planned_album (map snd albums))"
    by (induction albums) (auto simp: sample_album_planned)
  then show ?thesis by (simp add: planned_albums_def sample_remote_inventory_def)
qed

lemma sample_configuration:
  "MigrationPlanningConfig_validate MigrationPlanningConfig_default = Ok MigrationPlanningConfig_default"
  "MigrationPlanningConfig_identity sample_migration_tables MigrationPlanningConfig_default = Ok (hex64 CHR ''2'')"
  by code_simp+

definition sample_migration_plan :: "string list \<Rightarrow> MigrationPlan" where
  "sample_migration_plan names =
     (let albums = sort_key mal_name (map sample_planned_album names) in
      \<lparr>mp_schema_version = 1, mp_source_server = migration_server source_negotiated,
       mp_destination_server = migration_server destination_negotiated, mp_source_fingerprint_sha256 = hex64 CHR ''2'',
       mp_configuration_sha256 = hex64 CHR ''2'', mp_assets = sample_planned_assets, mp_albums = albums,
       mp_summary = migration_summary sample_planned_assets albums\<rparr>)"

lemma sample_sizes [simp]:
  "rmi_assets (sample_remote_inventory albums) = sample_remote_assets" "length sample_remote_assets = 2"
  "length sample_operation_ids = 2" "length sample_hashes = 2"
  "mt_rfc3339 sample_migration_tables = Some" "mt_unix_nanos sample_migration_tables = (\<lambda>_. True)"
  by (simp_all add: sample_remote_inventory_def sample_remote_assets_def sample_operation_ids_def sample_hashes_def
      sample_migration_tables_def)

text \<open>Assembly comes down to the validation of the plan above.\<close>

lemma sample_assembled:
  "assemble_migration_plan sample_migration_tables (sample_remote_inventory (map (\<lambda>(c, name). sample_album c name) albums))
      (migration_server source_negotiated) (migration_server destination_negotiated) sample_hashes MigrationPlanningConfig_default
    = and_then (map_err (\<lambda>_. EE_InvalidPlan) (MigrationPlan_validate Some (\<lambda>_. True) (sample_migration_plan (map snd albums))))
        (\<lambda>_. Ok (sample_migration_plan (map snd albums)))"
proof -
  have "migration_fingerprint sample_migration_tables source assets albums = Ok (hex64 CHR ''2'')" for source assets albums
    by (simp add: migration_fingerprint_def sample_migration_tables_def) code_simp
  then show ?thesis
    by (simp add: assemble_migration_plan_def sample_configuration sample_planned_ids sample_planned_roles sample_assets_planned
        sample_albums_planned sample_sizes MIGRATION_PLAN_SCHEMA_VERSION_def Let_def sample_migration_plan_def)
qed

lemma sample_plan_valid: "MigrationPlan_validate Some (\<lambda>_. True) (sample_migration_plan [''trip'']) = Ok ()"
  by code_simp

lemma sample_plan_same_names:
  "MigrationPlan_validate Some (\<lambda>_. True) (sample_migration_plan [''trip'', ''trip'']) = Err MPE_InvalidAlbum"
  by code_simp

section \<open>The run\<close>

definition sample_execution :: UploadPlan where
  "sample_execution =
     \<lparr>up_schema_version = 2, up_normalized_plan_sha256 = hex64 CHR ''2'',
      up_source = \<lparr>sd_kind = Immich, sd_label = ''immich-migration'', sd_fingerprint_sha256 = hex64 CHR ''2'',
        sd_case_sensitive = True, sd_unicode_normalization = Nfc\<rparr>,
      up_configuration_sha256 = hex64 CHR ''2'', up_server = ns_compatibility destination_negotiated,
      up_operations = map2 execution_operation sample_planned_assets [[''trip''], []],
      up_summary = \<lparr>sum_operations = 2, sum_media_bytes = 6, sum_xmp_sidecars = 0, sum_live_photo_pairs = 1, sum_metadata_updates = 2, sum_album_creates = 1,
        sum_album_memberships = 1, sum_max_mutations = 6\<rparr>\<rparr>"

lemma sample_execution: "execution_plan sample_migration_tables (sample_migration_plan [''trip'']) = Ok sample_execution"
  by code_simp

end
