(* ===== verification/Exec_Migration_Staging_Laws.thy ===== *)
theory Exec_Migration_Staging_Laws
  imports Exec_Migration_Staging Exec_Migration_Sample Exec_Archive_Safety
begin

text \<open>
  What the staging directory of a migration does to the disk: opening it empties and recreates one
  directory of a known shape, preparing an asset touches its two files only and gives a file with
  the planned content.
\<close>

section \<open>Opening\<close>

definition migration_staging_root :: "migration_tables \<Rightarrow> path \<Rightarrow> MigrationPlan \<Rightarrow> path" where
  "migration_staging_root tb checkpoint plan =
     butlast checkpoint @ [STAGING_PREFIX @ mt_sha256 tb (case mt_plan_json tb plan of None \<Rightarrow> [] | Some bytes \<Rightarrow> bytes)]"

definition staging_frame :: "path \<Rightarrow> (path \<Rightarrow> node option) \<Rightarrow> (path \<Rightarrow> node option) \<Rightarrow> bool" where
  "staging_frame root t t' \<longleftrightarrow>
     (\<forall>x. t' x = t x \<or>
        x = root \<and> t x \<in> {None, Some DirNode} \<and> t' x \<in> {None, Some DirNode} \<or>
        (\<exists>name content. x = root @ [name] \<and> valid_staging_name name \<and> t x = Some (FileNode content) \<and> t' x = None))"

lemma staging_frame_refl [simp]: "staging_frame root t t"
  by (simp add: staging_frame_def)

lemma staging_frame_trans:
  assumes "staging_frame root t u" and "staging_frame root u v"
  shows "staging_frame root t v"
  unfolding staging_frame_def
proof
  fix x
  show "v x = t x \<or> x = root \<and> t x \<in> {None, Some DirNode} \<and> v x \<in> {None, Some DirNode} \<or>
      (\<exists>name content. x = root @ [name] \<and> valid_staging_name name \<and> t x = Some (FileNode content) \<and> v x = None)"
    using assms(1) [unfolded staging_frame_def, rule_format, of x] assms(2) [unfolded staging_frame_def, rule_format, of x]
    by (elim disjE) auto
qed

lemma staging_frame_root:
  "t root \<in> {None, Some DirNode} \<Longrightarrow> n \<in> {None, Some DirNode} \<Longrightarrow> staging_frame root t (t(root := n))"
  by (auto simp: staging_frame_def)

lemma staging_frame_entry:
  "valid_staging_name name \<Longrightarrow> t (root @ [name]) = Some (FileNode content) \<Longrightarrow> staging_frame root t (t(root @ [name] := None))"
  by (auto simp: staging_frame_def)

lemma cleanup_entries_frame: "cleanup_entries root names d = (r, d') \<Longrightarrow> staging_frame root (dk_tree d) (dk_tree d')"
proof (induction names arbitrary: d)
  case (Cons name names)
  obtain m d1 where m: "symlink_metadata (root @ [name]) d = (m, d1)" by fastforce
  obtain ok d2 where k: "remove_file (root @ [name]) d1 = (ok, d2)" by fastforce
  note t1 = symlink_metadata_tree [OF m] and t2 = remove_file_tree [OF k]
  show ?case
  proof (cases "\<exists>content. m = Ok (FileNode content) \<and> valid_staging_name name")
    case True
    then obtain content where content: "m = Ok (FileNode content)" "valid_staging_name name" by blast
    then have "staging_frame root (dk_tree d) (dk_tree d2)"
      using t1 t2 m staging_frame_entry by (auto dest: symlink_metadata_Ok)
    then show ?thesis
      using Cons m k content staging_frame_trans by (auto simp: Let_def split: if_splits)
  next
    case False
    then show ?thesis using Cons.prems m t1 by (auto split: result.splits node.splits if_splits)
  qed
qed simp

lemma remove_dir_tree:
  "remove_dir read_dir p d = (ok, d') \<Longrightarrow>
     dk_tree d' = dk_tree d \<or> dk_tree d p = Some DirNode \<and> dk_tree d' = (dk_tree d)(p := None)"
  by (auto simp: remove_dir_def dest: next_fault_tree split: prod.splits if_splits)

lemma cleanup_exact_root_frame:
  assumes "cleanup_exact_root read_dir root d = (r, d')"
  shows "staging_frame root (dk_tree d) (dk_tree d')"
proof -
  obtain m d1 where m: "symlink_metadata root d = (m, d1)" by fastforce
  note t1 = symlink_metadata_tree [OF m]
  show ?thesis
  proof (cases "m = Ok DirNode \<and> read_dir root d1 \<noteq> None")
    case True
    then obtain names where names: "m = Ok DirNode" "read_dir root d1 = Some names" by blast
    obtain e d2 where e: "cleanup_entries root names d1 = (e, d2)" by fastforce
    note t2 = cleanup_entries_frame [OF e, unfolded t1]
    obtain ok d3 where k: "remove_dir read_dir root d2 = (ok, d3)" by fastforce
    have "staging_frame root (dk_tree d2) (dk_tree d3)"
      using remove_dir_tree [OF k] by (auto intro: staging_frame_root)
    then show ?thesis
      using assms m names e k t2 staging_frame_trans [OF t2] by (auto simp: cleanup_exact_root_def split: result.splits)
  next
    case False
    then show ?thesis
      using assms m t1 by (auto simp: cleanup_exact_root_def split: result.splits node.splits io_error.splits option.splits)
  qed
qed

lemma validate_real_directory_tree: "validate_real_directory p d = (r, d') \<Longrightarrow> dk_tree d' = dk_tree d"
  by (auto simp: validate_real_directory_def dest: symlink_metadata_tree split: prod.splits result.splits node.splits)

lemma validate_real_file_tree: "validate_real_file p d = (r, d') \<Longrightarrow> dk_tree d' = dk_tree d"
  by (auto simp: validate_real_file_def dest: symlink_metadata_tree split: prod.splits result.splits node.splits)

section \<open>One original\<close>

text \<open>Staging writes what a download with the smaller of the two limits would write.\<close>

lemma stage_chunks_writes:
  "stage_chunks p byte_len max_bytes chunks observed fed d = (r, d') \<Longrightarrow>
     \<exists>r'. write_chunks p (min byte_len max_bytes) chunks observed fed d = (r', d') \<and> (\<forall>x. r = Ok x \<longrightarrow> r' = Ok x)"
proof (induction p byte_len max_bytes chunks observed fed d rule: stage_chunks.induct)
  case (1 p byte_len max_bytes chunks observed fed d)
  have bound: "\<not> (byte_len < n \<or> max_bytes < n) \<longleftrightarrow> \<not> min byte_len max_bytes < n" for n
    by (auto simp: min_def)
  obtain o' rest where next_eq: "next_chunk chunks = (o', rest)" by fastforce
  show ?case
  proof (cases "\<exists>chunk n. o' = Ok (Some chunk) \<and> checked_add observed (of_nat (length chunk)) = Some n \<and> \<not> min byte_len max_bytes < n")
    case True
    then obtain chunk n where ok: "o' = Ok (Some chunk)" "checked_add observed (of_nat (length chunk)) = Some n"
      "\<not> min byte_len max_bytes < n" by blast
    note le = ok(3) [folded bound]
    obtain w d1 where w: "write_all p chunk d = (w, d1)" by fastforce
    show ?thesis
    proof (cases w)
      case True
      then have eq: "stage_chunks p byte_len max_bytes rest n (fed @ chunk) d1 = (r, d')"
        using "1.prems" next_eq ok le w by (subst (asm) stage_chunks.simps) simp
      from "1.IH" [OF next_eq [symmetric] ok(1) refl ok(2) le refl w [symmetric] True eq] show ?thesis
        using next_eq ok w True by (subst write_chunks.simps) simp
    next
      case False
      then show ?thesis
        using "1.prems" next_eq ok le w by (subst (asm) stage_chunks.simps, subst write_chunks.simps) simp
    qed
  next
    case False
    then show ?thesis
      using "1.prems" next_eq bound
      by (subst (asm) stage_chunks.simps, subst write_chunks.simps) (auto split: result.splits option.splits if_splits)
  qed
qed

lemma staged_path_neq: "staged_path staging a ''.media'' \<noteq> staged_path staging a ''.media.tmp''"
  by (simp add: staged_path_def)

definition only_changed :: "path set \<Rightarrow> disk \<Rightarrow> disk \<Rightarrow> bool" where
  "only_changed ps d d' \<longleftrightarrow> (\<forall>x. x \<notin> ps \<longrightarrow> dk_tree d' x = dk_tree d x)"

lemma only_changed_refl [simp]: "only_changed ps d d"
  by (simp add: only_changed_def)

definition staged_original :: "migration_tables \<Rightarrow> MigrationAsset \<Rightarrow> node option \<Rightarrow> bool" where
  "staged_original tb a n \<longleftrightarrow>
     (\<exists>content. n = Some (FileNode content) \<and> of_nat (length content) = ma_byte_len a \<and>
        mt_sha1 tb content = ma_checksum_sha1 a \<and> mt_sha256 tb content = ma_content_sha256 a)"

lemma migration_download_tree:
  assumes "migration_download tb io staging client server a tmp final s d = (r, s', d')" and "tmp \<noteq> final"
  shows "only_changed {tmp, final} d d' \<and> (r = Ok () \<longrightarrow> staged_original tb a (dk_tree d' final) \<and> dk_tree d' tmp = None)"
proof -
  obtain ro s1 where o: "download_original io client server (ma_source_asset_id a) s = (ro, s1)" by fastforce
  obtain created d1 where n: "create_new tmp d = (created, d1)" by fastforce
  show ?thesis
  proof (cases "\<exists>dl. ro = Ok dl \<and> \<not> is_some_and (or_content_length dl) (\<lambda>n. n \<noteq> ma_byte_len a \<or> n > mg_max_asset_bytes staging) \<and> created")
    case False
    then show ?thesis
      using assms o n create_new_tree [OF n]
      by (auto simp: migration_download_def only_changed_def split: result.splits if_splits)
  next
    case True
    then obtain dl where dl: "ro = Ok dl" "\<not> is_some_and (or_content_length dl) (\<lambda>n. n \<noteq> ma_byte_len a \<or> n > mg_max_asset_bytes staging)"
      "created" by blast
    have t1: "dk_tree d1 tmp = Some (FileNode [])" "dk_tree d1 = (dk_tree d)(tmp \<mapsto> FileNode [])"
      using create_new_tree [OF n] dl(3) by auto
    obtain rw d2 where w: "stage_chunks tmp (ma_byte_len a) (mg_max_asset_bytes staging) (or_chunks dl) 0 [] d1 = (rw, d2)" by fastforce
    from stage_chunks_writes [OF w] obtain r' where
      w': "write_chunks tmp (min (ma_byte_len a) (mg_max_asset_bytes staging)) (or_chunks dl) 0 [] d1 = (r', d2)" "\<forall>x. rw = Ok x \<longrightarrow> r' = Ok x"
      by blast
    note t2 = write_chunks_tree [OF w'(1) t1(1)]
    obtain sy d3 where sy: "sync_all tmp d2 = (sy, d3)" by fastforce
    obtain ok d4 where n: "rename tmp final d3 = (ok, d4)" by fastforce
    obtain v d5 where v: "validate_real_file final d4 = (v, d5)" by fastforce
    note tail = sync_all_tree [OF sy] rename_tree [OF n assms(2)] validate_real_file_tree [OF v]
    have changed: "only_changed {tmp, final} d d2" "only_changed {tmp, final} d d3" "only_changed {tmp, final} d d4" "only_changed {tmp, final} d d5"
      using t1(2) t2 tail by (auto simp: only_changed_def)
    show ?thesis
      using assms(1) o dl n w sy \<open>create_new tmp d = (created, d1)\<close> v changed t2 w'(2) tail assms(2)
      by (auto simp: migration_download_def Let_def staged_original_def split: result.splits if_splits)
  qed
qed

section \<open>Properties\<close>

text \<open>Opening the staging directory of a migration, whatever its end, changes nothing but that
  directory: it is created, or, when a run before left it behind, removed and created again; only regular files
  below it whose names have the form of a staged file are deleted, and a file, a link or a foreign
  entry in their place is left where it was.\<close>

theorem migration_staging_open_frame:
  "staging_frame (migration_staging_root tb checkpoint plan) (dk_tree d)
     (dk_tree (snd (MigrationStaging_open tb read_dir checkpoint plan max_asset_bytes d)))"
proof -
  let ?root = "migration_staging_root tb checkpoint plan"
  obtain v d1 where v: "validate_real_directory (butlast checkpoint) d = (v, d1)" by fastforce
  obtain c d2 where c: "cleanup_exact_root read_dir ?root d1 = (c, d2)" by fastforce
  obtain ok d3 where n: "create_dir ?root d2 = (ok, d3)" by fastforce
  have f2: "staging_frame ?root (dk_tree d) (dk_tree d2)"
    using cleanup_exact_root_frame [OF c] validate_real_directory_tree [OF v] by simp
  have "staging_frame ?root (dk_tree d2) (dk_tree d3)"
    using create_dir_tree [OF n] by (auto intro: staging_frame_root)
  from staging_frame_trans [OF f2 this] show ?thesis
    using v c n f2 validate_real_directory_tree [OF v]
    by (auto simp: MigrationStaging_open_def migration_staging_root_def Let_def split: result.splits option.splits)
qed

text \<open>Preparing one asset of a migration touches the two staged files of that asset only, and when it
  succeeds the staged file is complete: as many bytes as planned, with the planned SHA-1 and SHA-256
  digests, within the byte limit, and no temporary file is left.\<close>

theorem migration_prepare_verified:
  assumes "migration_prepare tb base64 io staging client server a s d = (r, s', d')"
  shows "only_changed {staged_path staging a ''.media.tmp'', staged_path staging a ''.media''} d d' \<and>
    (is_ok r \<longrightarrow> staged_original tb a (dk_tree d' (staged_path staging a ''.media'')) \<and>
       dk_tree d' (staged_path staging a ''.media.tmp'') = None \<and> ma_byte_len a \<le> mg_max_asset_bytes staging)"
proof -
  let ?tmp = "staged_path staging a ''.media.tmp''" and ?final = "staged_path staging a ''.media''"
  obtain rd s1 d1 where m: "migration_download tb io staging client server a ?tmp ?final s d = (rd, s1, d1)" by (metis prod_cases3)
  note changed = migration_download_tree [OF m staged_path_neq [symmetric]]
  have gone: "only_changed {?tmp, ?final} d (snd (remove_file ?final (snd (remove_file ?tmp d1))))"
    using changed remove_file_changes [of ?tmp d1] remove_file_changes [of ?final "snd (remove_file ?tmp d1)"]
    unfolding only_changed_def by (metis insertI1 insertI2 prod.collapse)
  show ?thesis
    using assms m changed gone
    by (auto simp: migration_prepare_def Let_def is_ok_iff map_ok_eq_Ok not_less split: if_splits result.splits)
qed

definition staging_sample_disk :: disk where
  "staging_sample_disk = \<lparr>dk_tree = [[] \<mapsto> DirNode, [''stage''] \<mapsto> DirNode], dk_faults = [], dk_name_max = 255\<rparr>"

definition sample_staging :: MigrationStaging where
  "sample_staging = \<lparr>mg_root = [''stage''], mg_max_asset_bytes = 1000\<rparr>"

abbreviation sample_prepare where
  "sample_prepare \<equiv> migration_prepare sample_migration_tables (\<lambda>bytes. bytes) sample_inventory_io sample_staging source_client
     source_negotiated (hd sample_planned_assets) () staging_sample_disk"

theorem migration_prepare_verified_witness:
  "\<exists>source d'. sample_prepare = (Ok source, (), d') \<and> va_file_name source = ''a.jpg'' \<and>
     dk_tree d' [''stage'', hex64 CHR ''1'' @ ''.media''] = Some (FileNode ''abc'') \<and>
     staged_original sample_migration_tables (hd sample_planned_assets)
       (dk_tree d' (staged_path sample_staging (hd sample_planned_assets) ''.media''))"
proof -
  have name: "map_ok va_file_name (fst sample_prepare) = Ok ''a.jpg''" by code_simp
  have staged: "dk_tree (snd (snd sample_prepare)) [''stage'', hex64 CHR ''1'' @ ''.media''] = Some (FileNode ''abc'')" by code_simp
  obtain source d' where run: "sample_prepare = (Ok source, (), d')" and "va_file_name source = ''a.jpg''"
    using name by (cases sample_prepare) (auto simp: map_ok_eq_Ok)
  with staged migration_prepare_verified [OF run] show ?thesis by simp
qed

end
