(* ===== verification/Exec_Migration_Apply.thy ===== *)
theory Exec_Migration_Apply
  imports Exec_Import_Apply Exec_Migration_Staging
begin

text \<open>
  \<open>immich-executor/src/migration_apply.rs\<close>: a migration run between two servers. It checks the plan
  against the configuration and both servers, lists the source again and requires the very same plan,
  opens the checkpoint and the staging directory, and then runs the import loop of
  \<open>Exec_Import_Apply\<close> with originals staged one at a time from the source server.
\<close>

text \<open>What a run is given besides the plan: the tables, the source server, the disk within the outside
  state, and the effects on the destination.\<close>

record 'w migration_env =
  me_tables :: migration_tables
  me_source :: "'w inventory_io"
  me_disk :: "'w \<Rightarrow> disk"
  me_set_disk :: "disk \<Rightarrow> 'w \<Rightarrow> 'w"
  me_read_dir :: read_dir
  me_base64 :: "string \<Rightarrow> string"
  me_upload_sha256 :: "UploadPlan \<Rightarrow> string option"
  me_open_ok :: bool
  me_effects :: "'w effect_env"

record MigrationApplyContext =
  mac_source_client :: ImmichReadClient
  mac_source_server :: NegotiatedServer
  mac_destination_client :: ImmichUploadClient
  mac_destination_server :: NegotiatedServer

section \<open>Checks\<close>

definition validate_plan_config ::
  "migration_tables \<Rightarrow> MigrationPlan \<Rightarrow> MigrationPlanningConfig \<Rightarrow> (unit, ExecutorErrorClass) result" where
  "validate_plan_config tb plan config =
     and_then (map_err (\<lambda>_. EE_InvalidPlan) (MigrationPlan_validate (mt_rfc3339 tb) (mt_unix_nanos tb) plan)) (\<lambda>_.
     and_then (MigrationPlanningConfig_validate config) (\<lambda>validated.
     and_then (MigrationPlanningConfig_identity tb validated) (\<lambda>identity.
       ensure (identity = mp_configuration_sha256 plan) EE_InvalidPlan)))"

definition migration_validate_context ::
  "migration_tables \<Rightarrow> MigrationPlan \<Rightarrow> MigrationPlanningConfig \<Rightarrow> NegotiatedServer \<Rightarrow> ImmichUploadClient \<Rightarrow> NegotiatedServer
     \<Rightarrow> (unit, ExecutorErrorClass) result" where
  "migration_validate_context tb plan config source_server destination destination_server =
     and_then (validate_plan_config tb plan config) (\<lambda>_.
       ensure (migration_server source_server = mp_source_server plan
         \<and> migration_server destination_server = mp_destination_server plan
         \<and> uc_compatibility destination = ms_compatibility (mp_destination_server plan)
         \<and> \<not> uc_production destination) EE_InvalidPlan)"

definition planned_hashes :: "MigrationPlan \<Rightarrow> (string, string) btree_map" where
  "planned_hashes plan = btm_extend (map (\<lambda>a. (ma_source_asset_id a, ma_content_sha256 a)) (mp_assets plan)) []"

definition verify_current_source ::
  "migration_tables \<Rightarrow> 's inventory_io \<Rightarrow> MigrationPlan \<Rightarrow> MigrationPlanningConfig \<Rightarrow> ImmichReadClient \<Rightarrow> NegotiatedServer \<Rightarrow> 's
     \<Rightarrow> (UploadPlan, ExecutorErrorClass) result \<times> 's" where
  "verify_current_source tb io plan config source_client source_server s =
     (case migration_inventory io source_client source_server (mpc_inventory config) s of
        (Err e, s1) \<Rightarrow> (Err (map_client_error e), s1)
      | (Ok inventory, s1) \<Rightarrow>
          (and_then (assemble_migration_plan tb inventory (mp_source_server plan) (mp_destination_server plan)
               (planned_hashes plan) config) (\<lambda>observed.
             if observed \<noteq> plan then Err EE_SourceChanged else execution_plan tb plan), s1))"

definition prepare_execution ::
  "migration_tables \<Rightarrow> 's inventory_io \<Rightarrow> MigrationPlan \<Rightarrow> MigrationPlanningConfig \<Rightarrow> MigrationApplyContext \<Rightarrow> 's
     \<Rightarrow> (UploadPlan, ExecutorErrorClass) result \<times> 's" where
  "prepare_execution tb io plan config context s =
     (case migration_validate_context tb plan config (mac_source_server context) (mac_destination_client context)
             (mac_destination_server context) of
        Err e \<Rightarrow> (Err e, s)
      | Ok _ \<Rightarrow> verify_current_source tb io plan config (mac_source_client context) (mac_source_server context) s)"

section \<open>Dry runs\<close>

definition dry_run_migration ::
  "migration_tables \<Rightarrow> ('s \<Rightarrow> bool \<times> 's) \<Rightarrow> MigrationPlan \<Rightarrow> MigrationPlanningConfig \<Rightarrow> 's
     \<Rightarrow> (ImportApplyReport, ExecutorErrorClass) result \<times> 's" where
  "dry_run_migration tb cancelled plan config s =
     (let (c, s1) = cancelled s in
      if c then (Err EE_Cancelled, s1)
      else (and_then (validate_plan_config tb plan config) (\<lambda>_.
            and_then (execution_plan tb plan) (\<lambda>execution.
              Ok (ImportApplyReport_dry_run (up_summary execution)))), s1))"

section \<open>The run\<close>

definition source_assets :: "MigrationPlan \<Rightarrow> (string, MigrationAsset) btree_map" where
  "source_assets plan = btm_extend (map (\<lambda>a. (ma_operation_id a, a)) (mp_assets plan)) []"

definition migration_stage ::
  "'w migration_env \<Rightarrow> MigrationPlan \<Rightarrow> MigrationStaging \<Rightarrow> MigrationApplyContext \<Rightarrow> 'w stage" where
  "migration_stage me plan staging context =
     \<lparr>sg_prepare = (\<lambda>oper st.
        case btm_get (source_assets plan) (op_operation_id oper) of
          None \<Rightarrow> (Err EE_InvalidPlan, st)
        | Some asset \<Rightarrow>
            (let w = ex_world st;
                 (r, w1, d1) = migration_prepare (me_tables me) (me_base64 me) (me_source me) staging (mac_source_client context)
                    (mac_source_server context) asset w (me_disk me w)
             in (r, st \<lparr>ex_world := me_set_disk me d1 w1\<rparr>))),
      sg_release = (\<lambda>oper source st.
        case btm_get (source_assets plan) (op_operation_id oper) of
          None \<Rightarrow> st
        | Some asset \<Rightarrow>
            (let w = ex_world st in st \<lparr>ex_world := me_set_disk me (migration_release staging asset (me_disk me w)) w\<rparr>))\<rparr>"

definition migration_journal ::
  "'w migration_env \<Rightarrow> import_file \<Rightarrow> UploadPlan \<Rightarrow> (import_db \<times> ImportState, ExecutorErrorClass) result \<times> import_file" where
  "migration_journal me f execution =
     (case ImportJournal_open (mt_rfc3339 (me_tables me)) (me_upload_sha256 me) (me_open_ok me) f execution of
        Err e \<Rightarrow> (Err e, f)
      | Ok db \<Rightarrow>
          (and_then (ImportJournal_state db) (\<lambda>state.
           and_then (validate_for_plan (ev_hex_sha256 (me_effects me)) state execution) (\<lambda>_. Ok (db, state))), ImportDatabase db))"

text \<open>The directory is cleaned up when the staging is dropped, however the run ended.\<close>

definition apply_migration ::
  "'w migration_env \<Rightarrow> MigrationPlan \<Rightarrow> path \<Rightarrow> import_file \<Rightarrow> MigrationPlanningConfig \<Rightarrow> MigrationApplyContext \<Rightarrow> 'w
     \<Rightarrow> (ImportApplyReport, ExecutorErrorClass) result \<times> import_file \<times> 'w" where
  "apply_migration me plan checkpoint f config context w =
     (case prepare_execution (me_tables me) (me_source me) plan config context w of
        (Err e, w1) \<Rightarrow> (Err e, f, w1)
      | (Ok execution, w1) \<Rightarrow>
          (case migration_journal me f execution of
             (Err e, f1) \<Rightarrow> (Err e, f1, w1)
           | (Ok (db, state), f1) \<Rightarrow>
               (case MigrationStaging_open (me_tables me) (me_read_dir me) checkpoint plan (mpc_max_asset_bytes config) (me_disk me w1) of
                  (Err e, d1) \<Rightarrow> (Err e, f1, me_set_disk me d1 w1)
                | (Ok staging, d1) \<Rightarrow>
                    (let st = \<lparr>ex_world = me_set_disk me d1 w1,
                           ex_budget = RetryBudget_new (ec_max_retries_per_run (mpc_upload config))\<rparr>;
                         run = \<lparr>run_exec = st, run_db = db, run_report = import_apply_report execution\<rparr>;
                         ev = (me_effects me) \<lparr>ev_config := mpc_upload config\<rparr>;
                         (report, run') = run_import ev (migration_stage me plan staging context) execution state run;
                         w2 = ex_world (run_exec run')
                     in (report, ImportDatabase (run_db run'),
                         me_set_disk me (snd (cleanup_exact_root (me_read_dir me) (mg_root staging) (me_disk me w2))) w2)))))"

end
