(* ===== verification/Exec_Migration_Safety.thy ===== *)
theory Exec_Migration_Safety
  imports Exec_Migration_Laws Exec_Migration_Staging_Laws Exec_Migration_Apply Exec_Import_Safety
begin

text \<open>
  What holds of a migration from plan to run: every accepted plan can be carried out, a created plan
  is backed by downloaded bytes, the run goes on only against the source it was planned from, keeps
  to its staging directory and writes a checkpoint that a later run resumes.
\<close>

section \<open>Execution\<close>

lemma execution_plan_accepts:
  assumes "MigrationPlan_validate (mt_rfc3339 tb) (mt_unix_nanos tb) p = Ok ()"
    and "mt_plan_json tb p = Some bytes" "is_sha256 (mt_sha256 tb bytes)"
  shows "\<exists>execution. execution_plan tb p = Ok execution \<and> upload_plan_ok (mt_rfc3339 tb) execution \<and>
    up_server execution = ms_compatibility (mp_destination_server p) \<and>
    sum_max_mutations (up_summary execution) = mps_max_mutations (mp_summary p) \<and>
    up_operations execution
      = map (\<lambda>a. execution_operation a (names_of (mp_albums p) (ma_operation_id a))) (mp_assets p)"
proof -
  let ?rfc = "mt_rfc3339 tb"
  let ?ops = "map (\<lambda>a. execution_operation a (names_of (mp_albums p) (ma_operation_id a))) (mp_assets p)"
  have ok: "migration_plan_ok ?rfc (mt_unix_nanos tb) p"
    using assms(1) MigrationPlan_validate_ok_iff [of ?rfc "mt_unix_nanos tb" p] by (simp add: is_ok_iff)
  have members: "\<forall>a \<in> set (mp_albums p). distinct (mal_member_operation_ids a)"
    using ok by (auto simp: migration_plan_ok_def migration_album_ok_def dest: sorted_wrt_less_distinct)
  have "filter (\<lambda>e. fst e \<notin> ma_operation_id ` set (mp_assets p)) (album_names (mp_albums p)) = []"
  proof -
    have "fst ` set (album_names (mp_albums p)) = (\<Union>a \<in> set (mp_albums p). set (mal_member_operation_ids a))"
      using album_names(2) [OF members] by (simp add: dom_map_of_conv_image_fst)
    also have "\<dots> \<subseteq> ma_operation_id ` set (mp_assets p)"
      using ok by (auto simp: migration_plan_ok_def migration_album_ok_def)
    finally show ?thesis by (auto simp: filter_empty_conv)
  qed
  then have ops: "execution_operations (mp_assets p) (album_names (mp_albums p)) = (?ops, [])"
    using execution_operations_eq [of "mp_assets p"] ok by (simp add: migration_plan_ok_def album_names(1) [OF members])
  have digest: "migration_plan_sha256 ?rfc (mt_unix_nanos tb) (mt_plan_json tb) (mt_sha256 tb) p = Ok (mt_sha256 tb bytes)"
    using assms ok by (simp add: migration_plan_sha256_def migration_plan_ok_def MIGRATION_PLAN_SCHEMA_VERSION_def)
  define execution where "execution = \<lparr>up_schema_version = UPLOAD_PLAN_SCHEMA_VERSION_V2,
      up_normalized_plan_sha256 = mt_sha256 tb bytes,
      up_source = \<lparr>sd_kind = Immich, sd_label = ''immich-migration'',
        sd_fingerprint_sha256 = mp_source_fingerprint_sha256 p, sd_case_sensitive = True, sd_unicode_normalization = Nfc\<rparr>,
      up_configuration_sha256 = mp_configuration_sha256 p, up_server = ms_compatibility (mp_destination_server p),
      up_operations = ?ops, up_summary = expected_summary UPLOAD_PLAN_SCHEMA_VERSION_V2 ?ops\<rparr>"
  have "upload_plan_ok ?rfc execution"
    unfolding execution_def upload_plan_ok_def
  proof (intro conjI; (simp add: UPLOAD_PLAN_SCHEMA_VERSION_V2_def)?)
    show "\<forall>a \<in> set (mp_assets p). upload_operation_ok ?rfc (execution_operation a (names_of (mp_albums p) (ma_operation_id a)))"
      using ok by (auto simp: migration_plan_ok_def migration_album_ok_def intro: execution_operation_ok)
    show "sorted_wrt (<) (map (op_relative_path \<circ> (\<lambda>a. execution_operation a (names_of (mp_albums p) (ma_operation_id a)))) (mp_assets p))"
      using ok execution_paths_sorted [of "mp_assets p"]
      by (auto simp: comp_def migration_plan_ok_def migration_asset_ok_def uuid_v4_def)
  qed (use ok assms(3) in \<open>auto simp: migration_plan_ok_def server_valid_def lower_hex_sha256 comp_def
        live_photos_closed_def migration_pairs_closed_def\<close>)
  moreover have "execution_plan tb p = Ok execution"
  proof -
    have "UploadPlan_validate ?rfc execution = Ok ()"
      using calculation UploadPlan_validate_ok_iff [of ?rfc execution] by (auto simp: is_ok_iff)
    then show ?thesis
      using assms(1) execution_summary [OF ok]
      by (simp add: execution_plan_def digest ops execution_def Let_def UploadPlanSummary_from_operations_def
          UPLOAD_PLAN_SCHEMA_VERSION_V2_def)
  qed
  ultimately show ?thesis
    using execution_summary(6) [OF ok] by (simp add: execution_def UPLOAD_PLAN_SCHEMA_VERSION_V2_def)
qed

lemma verify_current_source_Ok:
  assumes "verify_current_source tb io plan config client server w = (Ok execution, w')"
  obtains inventory where "migration_inventory io client server (mpc_inventory config) w = (Ok inventory, w')"
    and "assemble_migration_plan tb inventory (mp_source_server plan) (mp_destination_server plan) (planned_hashes plan) config = Ok plan"
    and "execution_plan tb plan = Ok execution"
  using assms by (auto simp: verify_current_source_def and_then_eq_Ok split: prod.splits result.splits if_splits)

text \<open>A run that ended well or touched the checkpoint went past every check.\<close>

lemma apply_migration_started:
  assumes "apply_migration me plan checkpoint f config context w = (res, f', w')" and "is_ok res \<or> f' \<noteq> f"
  obtains execution w1 where
    "migration_validate_context (me_tables me) plan config (mac_source_server context) (mac_destination_client context)
       (mac_destination_server context) = Ok ()"
    and "verify_current_source (me_tables me) (me_source me) plan config (mac_source_client context) (mac_source_server context) w
       = (Ok execution, w1)"
  using assms by (auto simp: apply_migration_def prepare_execution_def split: result.splits prod.splits)

lemma validate_plan_config_Ok:
  "validate_plan_config tb plan config = Ok () \<Longrightarrow> MigrationPlanningConfig_validate config = Ok config"
  by (auto simp: validate_plan_config_def MigrationPlanningConfig_validate_def and_then_eq_Ok Let_def split: if_splits)

lemma planning_config_upload:
  "MigrationPlanningConfig_validate config = Ok c \<Longrightarrow> UploadExecutionConfig_validate (mpc_upload config) = Ok ()"
  by (auto simp: MigrationPlanningConfig_validate_def and_then_eq_Ok)

lemma execution_plan_valid:
  assumes "execution_plan tb plan = Ok execution"
  shows "UploadPlan_validate (mt_rfc3339 tb) execution = Ok ()"
proof (cases "execution_operations (mp_assets plan) (album_names (mp_albums plan))")
  case (Pair operations left)
  have last: "(if c then Err EE_InvalidPlan else and_then (map_err (\<lambda>_. EE_InvalidPlan) (UploadPlan_validate (mt_rfc3339 tb) e)) (\<lambda>_. Ok e))
      = Ok execution \<Longrightarrow> ?thesis" for c e
    by (auto simp: and_then_eq_Ok map_err_eq_Ok split: if_splits)
  from assms show ?thesis
    unfolding execution_plan_def Pair Let_def prod.case
    by (elim and_then_eq_Ok [THEN iffD1, THEN exE] conjE) (auto split: if_splits intro: last)
qed

lemma apply_migration_rows:
  assumes run: "apply_migration me plan checkpoint f config context w = (res, f', w')"
    and execution: "execution_plan (me_tables me) plan = Ok execution"
    and rows: "list_all effect_row_ok (import_rows f)"
  shows "run_rows (ev_hex_sha256 (me_effects me)) execution f f'"
proof (cases "import_rows f' = import_rows f")
  case False
  then have "f' \<noteq> f" by auto
  with run obtain execution' w1 where ctx: "migration_validate_context (me_tables me) plan config (mac_source_server context)
         (mac_destination_client context) (mac_destination_server context) = Ok ()"
    and source: "verify_current_source (me_tables me) (me_source me) plan config (mac_source_client context) (mac_source_server context) w
       = (Ok execution', w1)"
    by (blast elim: apply_migration_started)
  have same: "execution' = execution" using source execution by (auto elim: verify_current_source_Ok)
  obtain jr f1 where j: "migration_journal me f execution = (jr, f1)" by fastforce
  have jr: "import_rows f1 = import_rows f" and
    open_ok: "jr = Ok (db, state) \<Longrightarrow> f1 = ImportDatabase db \<and> id_effects db = import_rows f \<and> ImportJournal_state db = Ok state" for db state
    using j ImportJournal_open_rows [of "mt_rfc3339 (me_tables me)" "me_upload_sha256 me" "me_open_ok me" f execution]
    by (auto simp: migration_journal_def and_then_eq_Ok import_rows_def split: result.splits)
  have "\<exists>db state. jr = Ok (db, state)"
    using run False j jr ctx source same by (cases jr) (auto simp: apply_migration_def prepare_execution_def)
  then obtain db state where db: "jr = Ok (db, state)" by blast
  note db' = open_ok [OF db]
  obtain sg d1 where sg: "MigrationStaging_open (me_tables me) (me_read_dir me) checkpoint plan (mpc_max_asset_bytes config) (me_disk me w1) = (sg, d1)"
    by fastforce
  have "is_ok sg"
    using run False j jr ctx source same db sg by (cases sg) (auto simp: apply_migration_def prepare_execution_def)
  then obtain staging where staging: "sg = Ok staging" by (auto simp: is_ok_iff)
  define start where "start = \<lparr>run_exec = \<lparr>ex_world = me_set_disk me d1 w1, ex_budget = RetryBudget_new (ec_max_retries_per_run (mpc_upload config))\<rparr>,
      run_db = db, run_report = import_apply_report execution\<rparr>"
  obtain r run' where exec: "run_import ((me_effects me) \<lparr>ev_config := mpc_upload config\<rparr>) (migration_stage me plan staging context)
      execution state start = (r, run')" by fastforce
  have f': "f' = ImportDatabase (run_db run')"
    using run j ctx source same db sg staging exec by (auto simp: apply_migration_def prepare_execution_def start_def Let_def)
  have "MigrationPlanningConfig_validate config = Ok config"
    using ctx by (auto simp: migration_validate_context_def and_then_eq_Ok dest: validate_plan_config_Ok)
  then have valid: "UploadExecutionConfig_validate (ev_config ((me_effects me) \<lparr>ev_config := mpc_upload config\<rparr>)) = Ok ()"
    using planning_config_upload by simp
  have plan_ok: "UploadPlan_validate (mt_rfc3339 (me_tables me)) execution = Ok ()"
    using execution by (rule execution_plan_valid)
  show ?thesis
    unfolding f' using run_rows_run [OF exec valid plan_ok _ _ rows] db' by (simp add: start_def)
qed (simp add: run_rows_def)

section \<open>Properties\<close>

text \<open>Every accepted migration plan can be carried out: its translation to an upload plan never
  fails, the result is itself a valid plan for the destination with the same counters, and it
  has one operation per asset, in the same order, with the asset's identity, content, times, role
  and metadata and with exactly the albums that list it, in ascending order.\<close>

theorem execution_plan_total:
  assumes "MigrationPlan_validate (mt_rfc3339 tb) (mt_unix_nanos tb) p = Ok ()"
    and "mt_plan_json tb p = Some bytes" "is_sha256 (mt_sha256 tb bytes)"
  shows "\<exists>execution. execution_plan tb p = Ok execution \<and> upload_plan_ok (mt_rfc3339 tb) execution \<and>
    up_server execution = ms_compatibility (mp_destination_server p) \<and>
    sum_max_mutations (up_summary execution) = mps_max_mutations (mp_summary p) \<and>
    up_operations execution
      = map (\<lambda>a. execution_operation a (names_of (mp_albums p) (ma_operation_id a))) (mp_assets p)"
  using assms by (rule execution_plan_accepts)

theorem execution_plan_total_witness:
  "\<exists>execution. execution_plan sample_migration_tables (sample_migration_plan [''trip'']) = Ok execution \<and>
     map (\<lambda>oper. nm_albums (the (op_normalized_metadata oper))) (up_operations execution) = [[''trip''], []]"
proof -
  have json: "mt_plan_json sample_migration_tables (sample_migration_plan [''trip'']) = Some ''plan''"
    and sha: "is_sha256 (mt_sha256 sample_migration_tables ''plan'')"
    by (simp add: sample_migration_tables_def) code_simp
  have valid: "MigrationPlan_validate (mt_rfc3339 sample_migration_tables) (mt_unix_nanos sample_migration_tables)
      (sample_migration_plan [''trip'']) = Ok ()"
    using sample_plan_valid by simp
  have "map (\<lambda>a. nm_albums (the (op_normalized_metadata (execution_operation a
      (names_of (mp_albums (sample_migration_plan [''trip''])) (ma_operation_id a)))))) (mp_assets (sample_migration_plan [''trip'']))
      = [[''trip''], []]"
    by code_simp
  with execution_plan_total [OF valid json sha] show ?thesis by (auto simp: comp_def)
qed

text \<open>C12: a migration plan that was created is valid, binds the two servers that answered, stays
  within the byte limits without overflow, and its content digest of every asset is the digest of
  bytes that were really downloaded, as many as the server declared and with the SHA-1 it
  declared.\<close>

theorem migration_plan_sound:
  assumes "create_migration_plan tb io client source destination config w = (Ok plan, w')"
  shows "migration_plan_ok (mt_rfc3339 tb) (mt_unix_nanos tb) plan \<and>
    mp_source_server plan = migration_server source \<and> mp_destination_server plan = migration_server destination \<and>
    sum_list (map (unat \<circ> ma_byte_len) (mp_assets plan)) \<le> unat (mpc_max_total_bytes config) \<and>
    (\<forall>a \<in> set (mp_assets plan). ma_byte_len a \<le> mpc_max_asset_bytes config \<and>
       (\<exists>content. ma_byte_len a = of_nat (length content) \<and> mt_sha1 tb content = ma_checksum_sha1 a \<and>
          mt_sha256 tb content = ma_content_sha256 a))"
proof -
  from assms obtain inventory w1 hashes where
    a: "assemble_migration_plan tb inventory (migration_server source) (migration_server destination) hashes config = Ok plan"
    and originals: "\<forall>a \<in> set (rmi_assets inventory). rma_byte_len a \<le> mpc_max_asset_bytes config \<and>
       (\<exists>content. rma_byte_len a = of_nat (length content) \<and> mt_sha1 tb content = rma_checksum_sha1 a \<and>
          btm_get hashes (rma_asset_id a) = Some (mt_sha256 tb content))"
    and total: "sum_list (map (unat \<circ> rma_byte_len) (rmi_assets inventory)) \<le> unat (mpc_max_total_bytes config)"
    by (rule create_migration_plan_Ok)
  note plan = assemble_Ok [OF a]
  have "planned_facts ` set (mp_assets plan) = remote_facts ` set (rmi_assets inventory)"
    using arg_cong [OF plan(4), of set] by simp
  then have same: "\<exists>r \<in> set (rmi_assets inventory). planned_facts m = remote_facts r" if "m \<in> set (mp_assets plan)" for m
    using that by blast
  have "map (unat \<circ> ma_byte_len) (mp_assets plan) = map (unat \<circ> rma_byte_len) (rmi_assets inventory)"
    using arg_cong [OF plan(4), of "map (\<lambda>(_, _, _, n, _). unat n)"] by (simp add: comp_def planned_facts_def remote_facts_def)
  moreover have "ma_byte_len m \<le> mpc_max_asset_bytes config \<and>
       (\<exists>content. ma_byte_len m = of_nat (length content) \<and> mt_sha1 tb content = ma_checksum_sha1 m \<and>
          mt_sha256 tb content = ma_content_sha256 m)" if "m \<in> set (mp_assets plan)" for m
    using same [OF that] originals plan(7) that by (fastforce simp: planned_facts_def remote_facts_def)
  ultimately show ?thesis using plan(1-3) total by simp
qed

abbreviation sample_created where
  "sample_created \<equiv> create_migration_plan sample_migration_tables sample_inventory_io source_client source_negotiated
     destination_negotiated MigrationPlanningConfig_default ()"

lemma sample_created: "sample_created = (Ok (sample_migration_plan [''trip'']), ())"
proof -
  have "declared_total sample_remote_assets = Ok 6" by code_simp
  moreover have "\<not> 6 > mpc_max_total_bytes MigrationPlanningConfig_default" by code_simp
  moreover have "list_ex (\<lambda>a. rma_byte_len a > mpc_max_asset_bytes MigrationPlanningConfig_default) sample_remote_assets = False"
    by code_simp
  moreover have "ms_origin_sha256 (migration_server source_negotiated) \<noteq> ms_origin_sha256 (migration_server destination_negotiated)"
      "sc_identity_sha256 (ms_compatibility (migration_server source_negotiated))
         \<noteq> sc_identity_sha256 (ms_compatibility (migration_server destination_negotiated))"
    by code_simp+
  moreover have "migration_inventory sample_inventory_io source_client source_negotiated (mpc_inventory MigrationPlanningConfig_default) ()
      = (Ok (sample_remote_inventory [sample_album CHR ''3'' ''trip'']), ())"
    using sample_inventory_eq by (simp add: MigrationPlanningConfig_default_def)
  ultimately show ?thesis
    using sample_originals sample_assembled [of "[(CHR ''3'', ''trip'')]"] sample_plan_valid
    by (simp add: create_migration_plan_def sample_configuration Let_def)
qed

theorem migration_plan_sound_witness:
  "sample_created = (Ok (sample_migration_plan [''trip'']), ()) \<and>
   list_all (\<lambda>a. \<exists>content. ma_byte_len a = of_nat (length content) \<and> mt_sha1 sample_migration_tables content = ma_checksum_sha1 a)
     (mp_assets (sample_migration_plan [''trip'']))"
  unfolding list_all_iff using migration_plan_sound [OF sample_created] sample_created by blast

text \<open>A source on which two owned albums have the same name, which the server allows, can never be
  migrated: the inventory keeps both, and the plan that is assembled from it is refused as invalid,
  while the same source with one of the two albums gives a plan.\<close>

theorem same_named_albums_refused:
  "is_ok (assemble_migration_plan sample_migration_tables (sample_remote_inventory [sample_album CHR ''3'' ''trip''])
      (migration_server source_negotiated) (migration_server destination_negotiated) sample_hashes MigrationPlanningConfig_default) \<and>
   assemble_migration_plan sample_migration_tables
      (sample_remote_inventory [sample_album CHR ''3'' ''trip'', sample_album CHR ''4'' ''trip''])
      (migration_server source_negotiated) (migration_server destination_negotiated) sample_hashes MigrationPlanningConfig_default
    = Err EE_InvalidPlan"
  using sample_assembled [of "[(CHR ''3'', ''trip'')]"] sample_assembled [of "[(CHR ''3'', ''trip''), (CHR ''4'', ''trip'')]"]
  by (simp add: sample_plan_valid sample_plan_same_names)

section \<open>A run\<close>

text \<open>The world of the sample run: a disk and the answers the destination still has to give.\<close>

type_synonym sample_world = "disk \<times> script"

definition migration_transport :: "sample_world exec transport" where
  "migration_transport =
     \<lparr>tr_cancelled = (\<lambda>st. (False, st)), tr_api_url = (\<lambda>_. True),
      tr_send = (\<lambda>_ st. case snd (ex_world st) of [] \<Rightarrow> (None, st) | a # as \<Rightarrow> (a, st \<lparr>ex_world := (fst (ex_world st), as)\<rparr>)),
      tr_open = (\<lambda>_ st. (True, st)), tr_wait = (\<lambda>_ st. (True, st)),
      tr_max_response_bytes = 100, tr_retry_after_cap = from_secs 60, tr_rfc3339 = Some, tr_format_timestamp = (\<lambda>_. Some ''t''),
      tr_bulk_check_json = (\<lambda>_. Some [\<lparr>bcr_id = hex64 CHR ''2'', bcr_action = ActionAccept, bcr_asset_id = None\<rparr>]),
      tr_upload_json = (\<lambda>_. Some \<lparr>upr_id = sample_uuid CHR ''b'', upr_status = UploadCreated\<rparr>),
      tr_asset_json = (\<lambda>_. None), tr_albums_json = (\<lambda>_. None), tr_album_json = (\<lambda>_. None), tr_bulk_ids_json = (\<lambda>_. None)\<rparr>"

definition sample_migration_env :: "sample_world migration_env" where
  "sample_migration_env =
     \<lparr>me_tables = sample_migration_tables, me_source = sample_inventory_io, me_disk = fst, me_set_disk = (\<lambda>d w. (d, snd w)),
      me_read_dir = (\<lambda>_ _. Some []), me_base64 = (\<lambda>bytes. ''c2hh''), me_upload_sha256 = (\<lambda>_. Some (hex64 CHR ''e'')), me_open_ok = True,
      me_effects = \<lparr>ev_sha256 = (\<lambda>_. replicate 32 CHR 0x07), ev_hex_sha256 = (\<lambda>_. hex64 CHR ''d''),
        ev_transport = migration_transport, ev_config = UploadExecutionConfig_default, ev_append = (\<lambda>_. (True, Some 1))\<rparr>\<rparr>"

definition sample_migration_context :: MigrationApplyContext where
  "sample_migration_context =
     \<lparr>mac_source_client = source_client, mac_source_server = source_negotiated,
      mac_destination_client = \<lparr>uc_read = source_client, uc_compatibility = ns_compatibility destination_negotiated, uc_production = False\<rparr>,
      mac_destination_server = destination_negotiated\<rparr>"

lemma sample_source_verified:
  "verify_current_source sample_migration_tables sample_inventory_io (sample_migration_plan [''trip'']) MigrationPlanningConfig_default
     source_client source_negotiated s = (Ok sample_execution, s)"
proof -
  have "planned_hashes (sample_migration_plan [''trip'']) = sample_hashes" by code_simp
  moreover have "mp_source_server (sample_migration_plan [''trip'']) = migration_server source_negotiated"
      "mp_destination_server (sample_migration_plan [''trip'']) = migration_server destination_negotiated"
    by (simp_all add: sample_migration_plan_def Let_def)
  ultimately show ?thesis
    using sample_assembled [of "[(CHR ''3'', ''trip'')]"] sample_plan_valid
    by (simp add: verify_current_source_def MigrationPlanningConfig_default_def [THEN arg_cong, of mpc_inventory]
        sample_inventory_eq sample_execution)
qed

lemma sample_context_valid:
  "migration_validate_context sample_migration_tables (sample_migration_plan [''trip'']) MigrationPlanningConfig_default source_negotiated
     (mac_destination_client sample_migration_context) destination_negotiated = Ok ()"
  by code_simp

abbreviation sample_migration_run where
  "sample_migration_run \<equiv> apply_migration sample_migration_env (sample_migration_plan [''trip'']) [''checkpoint''] NoImportFile
     MigrationPlanningConfig_default sample_migration_context (empty_disk, [answer 200 [], answer 201 []])"

lemma sample_migration_prepared:
  "prepare_execution (me_tables sample_migration_env) (me_source sample_migration_env) (sample_migration_plan [''trip''])
     MigrationPlanningConfig_default sample_migration_context s = (Ok sample_execution, s)"
  using sample_context_valid sample_source_verified
  by (simp add: prepare_execution_def sample_migration_env_def sample_migration_context_def)

lemma sample_migration_run_rows:
  "map_ok ir_created (fst sample_migration_run) = Ok 1 \<and>
   take 1 (map er_effect_key (import_rows (fst (snd sample_migration_run)))) = [asset_key (hex64 CHR ''2'')]"
  unfolding apply_migration_def sample_migration_prepared prod.case result.case by code_simp

lemma sample_migration_ran:
  obtains report f' w' where "sample_migration_run = (Ok report, f', w')" and "ir_created report = 1"
    and "asset_key (hex64 CHR ''2'') \<in> er_effect_key ` set (import_rows f')"
proof -
  obtain res f' w' where run: "sample_migration_run = (res, f', w')" by (metis prod_cases3)
  note rows = sample_migration_run_rows [unfolded run fst_conv snd_conv]
  moreover obtain report where "res = Ok report" "ir_created report = 1"
    using rows by (auto simp: map_ok_eq_Ok)
  moreover have "asset_key (hex64 CHR ''2'') \<in> er_effect_key ` set (import_rows f')"
    using rows by (cases "import_rows f'") auto
  ultimately show ?thesis using that run by blast
qed

text \<open>C11: a migration goes on only against the source it was planned from: when a run returns a report or
  has touched the checkpoint, the source server was asked again and what it listed is the content of
  the plan - the same assets in the same order with the same names, kinds, sizes, SHA-1 digests, times
  and metadata, and albums of the same names - the two servers are the ones the plan
  was made for, and the destination is not a production server.\<close>

theorem migration_source_reverified:
  assumes "apply_migration me plan checkpoint f config context w = (res, f', w')"
    and "is_ok res \<or> f' \<noteq> f"
  shows "\<exists>inventory w1.
    migration_inventory (me_source me) (mac_source_client context) (mac_source_server context) (mpc_inventory config) w = (Ok inventory, w1) \<and>
    map planned_facts (mp_assets plan) = map remote_facts (rmi_assets inventory) \<and>
    mset (map mal_name (mp_albums plan)) = mset (map roa_name (rmi_albums inventory)) \<and>
    migration_server (mac_source_server context) = mp_source_server plan \<and>
    migration_server (mac_destination_server context) = mp_destination_server plan \<and>
    \<not> uc_production (mac_destination_client context)"
  using assms
proof (rule apply_migration_started)
  fix execution w1
  assume ctx: "migration_validate_context (me_tables me) plan config (mac_source_server context) (mac_destination_client context)
       (mac_destination_server context) = Ok ()"
    and source: "verify_current_source (me_tables me) (me_source me) plan config (mac_source_client context) (mac_source_server context) w
       = (Ok execution, w1)"
  from source obtain inventory where i: "migration_inventory (me_source me) (mac_source_client context) (mac_source_server context)
        (mpc_inventory config) w = (Ok inventory, w1)"
    and a: "assemble_migration_plan (me_tables me) inventory (mp_source_server plan) (mp_destination_server plan) (planned_hashes plan) config = Ok plan"
    by (rule verify_current_source_Ok)
  show ?thesis
    using i assemble_Ok(4,5) [OF a] ctx by (auto simp: migration_validate_context_def and_then_eq_Ok)
qed

theorem migration_source_reverified_witness:
  "\<exists>inventory w1. migration_inventory sample_inventory_io source_client source_negotiated (mpc_inventory MigrationPlanningConfig_default)
       (empty_disk, [answer 200 [], answer 201 []]) = (Ok inventory, w1) \<and>
     map planned_facts (mp_assets (sample_migration_plan [''trip''])) = map remote_facts (rmi_assets inventory)"
proof (rule sample_migration_ran)
  fix report f' w'
  assume "sample_migration_run = (Ok report, f', w')"
  from migration_source_reverified [OF this] show ?thesis
    by (auto simp: sample_migration_env_def sample_migration_context_def)
qed

text \<open>Planning and checking agree: a plan that was created from a source is accepted by the check
  before a run as long as the source lists the same inventory, and the check gives the upload plan
  that carries it out. The digest of the plan must have 64 hexadecimal digits.\<close>

theorem planned_source_accepted:
  assumes "create_migration_plan tb io client source destination config w = (Ok plan, w')"
    and "fst (migration_inventory io client source (mpc_inventory config) w2) = fst (migration_inventory io client source (mpc_inventory config) w)"
    and "mt_plan_json tb plan = Some bytes" and "is_sha256 (mt_sha256 tb bytes)"
  shows "\<exists>execution. fst (verify_current_source tb io plan config client source w2) = Ok execution \<and>
    map op_operation_id (up_operations execution) = map ma_operation_id (mp_assets plan)"
proof -
  from assms(1) obtain inventory w1 hashes where i: "migration_inventory io client source (mpc_inventory config) w = (Ok inventory, w1)"
    and a: "assemble_migration_plan tb inventory (migration_server source) (migration_server destination) hashes config = Ok plan"
    and wf: "btm_wf hashes"
    by (rule create_migration_plan_Ok)
  obtain w3 where i2: "migration_inventory io client source (mpc_inventory config) w2 = (Ok inventory, w3)"
    using assms(2) i by (metis fst_conv prod.collapse)
  have again: "assemble_migration_plan tb inventory (mp_source_server plan) (mp_destination_server plan) (planned_hashes plan) config = Ok plan"
    using reassemble [OF a wf] by (simp add: planned_hashes_def content_hashes_def)
  have "MigrationPlan_validate (mt_rfc3339 tb) (mt_unix_nanos tb) plan = Ok ()"
    using assemble_Ok(1) [OF a] MigrationPlan_validate_ok_iff by (metis is_ok_iff unit.exhaust old.unit.exhaust)
  moreover have "op_operation_id (execution_operation a names) = ma_operation_id a" for a names
    by (simp add: execution_operation_def Let_def)
  ultimately show ?thesis
    using execution_plan_accepts [of tb plan bytes] assms(3,4) i2 again by (auto simp: verify_current_source_def comp_def)
qed

theorem planned_source_accepted_witness:
  "\<exists>execution. fst (verify_current_source sample_migration_tables sample_inventory_io (sample_migration_plan [''trip''])
        MigrationPlanningConfig_default source_client source_negotiated ()) = Ok execution \<and>
     map op_operation_id (up_operations execution) = map ma_operation_id (mp_assets (sample_migration_plan [''trip'']))"
proof (rule planned_source_accepted [OF sample_created refl])
  show "mt_plan_json sample_migration_tables (sample_migration_plan [''trip'']) = Some ''plan''"
    by (simp add: sample_migration_tables_def)
  show "is_sha256 (mt_sha256 sample_migration_tables ''plan'')" by code_simp
qed

text \<open>C10: whatever a migration run does - and it may stop anywhere - its checkpoint keeps every row it had
  and gains at most one row per effect of the plan, none for an effect that was already done and each
  well-formed; so a later run resumes from it and repeats no finished upload, metadata update or album. The rows
  that were there must be well formed, and the plan one that translates to an upload plan, as every valid
  plan does (\<open>execution_plan_total\<close>; a run stops at any other before it opens the checkpoint). The
  digest must not collide on the album names of the plan.\<close>

theorem migration_resume_safe:
  assumes run: "apply_migration me plan checkpoint f config context w = (res, f', w')"
    and execution: "execution_plan (me_tables me) plan = Ok execution"
    and rows: "list_all effect_row_ok (import_rows f)"
    and inj: "inj_on (album_identity (ev_hex_sha256 (me_effects me))) (set (import_albums execution))"
  shows "\<exists>new. import_rows f' = import_rows f @ new \<and> distinct (map er_effect_key new) \<and> list_all effect_row_ok new \<and>
    (\<forall>r \<in> set new. \<not> effect_done (import_rows f) (er_effect_key r) \<and>
       bts_contains (fold (allowed_step (ev_hex_sha256 (me_effects me))) (up_operations execution) []) (er_effect_key r))"
  using apply_migration_rows [OF run execution rows] inj by (rule run_rows_resume)

theorem migration_resume_safe_witness:
  "\<exists>report f' w'. sample_migration_run = (Ok report, f', w') \<and> ir_created report = 1 \<and> import_rows f' \<noteq> [] \<and>
     distinct (map er_effect_key (import_rows f')) \<and> list_all effect_row_ok (import_rows f')"
proof (rule sample_migration_ran)
  fix report f' w'
  assume run: "sample_migration_run = (Ok report, f', w')" and one: "ir_created report = 1"
    and key: "asset_key (hex64 CHR ''2'') \<in> er_effect_key ` set (import_rows f')"
  have execution: "execution_plan (me_tables sample_migration_env) (sample_migration_plan [''trip'']) = Ok sample_execution"
    using sample_execution by (simp add: sample_migration_env_def)
  have "import_albums sample_execution = [''trip'']" by code_simp
  then have "inj_on (album_identity (ev_hex_sha256 (me_effects sample_migration_env))) (set (import_albums sample_execution))" by simp
  from migration_resume_safe [OF run execution _ this] run one key show ?thesis
    by (auto simp: import_rows_def [of NoImportFile])
qed

end
