(* ===== verification/Source_Takeout_Metadata.thy ===== *)
theory Source_Takeout_Metadata
  imports Source_Discovery
begin

text \<open>
  \<open>immich-sources/src/takeout_metadata.rs\<close> and \<open>google_takeout.rs\<close>: the JSON documents of a Google Takeout
  export, read again at reconciliation and checked against the identity the walk saw, and the
  reconciliation of a decompressed export by title. The JSON decoder and the timestamp printer of the
  \<open>time\<close> crate are parameters.
\<close>

section \<open>Documents\<close>

record RawGeo =
  rg_latitude :: "f64 option"
  rg_longitude :: "f64 option"

record RawDocument =
  rd_title :: string
  rd_description :: "string option"
  rd_photo_taken_time :: "string option"
  rd_creation_time :: "string option"
  rd_geo_data_exif :: "RawGeo option"
  rd_geo_data :: "RawGeo option"

text \<open>\<open>serde_json::from_slice\<close> at \<open>RawDocument\<close>, and \<open>from_unix_timestamp\<close> followed by \<open>format(&Rfc3339)\<close>.\<close>

record takeout_tables =
  tk_json :: "string \<Rightarrow> RawDocument option"
  tk_format_unix :: "int \<Rightarrow> string option"

definition MAX_JSON_BYTES :: nat where
  "MAX_JSON_BYTES = 256 * 1024"

definition validate_text :: "string \<Rightarrow> nat \<Rightarrow> bool \<Rightarrow> (unit, ParseError) result" where
  "validate_text value max_bytes allow_layout =
     (let invalid_control = any_control_except (if allow_layout then [CHR 0x0A, CHR 0x0D, CHR 0x09] else []) value in
      if value = [] \<or> length value > max_bytes \<or> invalid_control
         \<or> (\<not> allow_layout \<and> (CHR ''/'' \<in> set value \<or> CHR 0x5C \<in> set value))
      then Err ParseInvalid else Ok ())"

definition normalize_timestamp :: "takeout_tables \<Rightarrow> string \<Rightarrow> (string, ParseError) result" where
  "normalize_timestamp tk value =
     (if value = [] \<or> \<not> list_all is_ascii_digit value then Err ParseInvalid
      else let seconds = decimal_value value in
           if seconds \<ge> 2 ^ 63 then Err ParseInvalid else ok_or (tk_format_unix tk seconds) ParseInvalid)"

definition canonical_decimal :: "f64 \<Rightarrow> string" where
  "canonical_decimal value = (if f64_is_zero value then ''0'' else f64_to_string value)"

definition normalize_location :: "RawGeo \<Rightarrow> (GeoCoordinates option, ParseError) result" where
  "normalize_location value =
     (case (rg_latitude value, rg_longitude value) of
        (Some latitude, Some longitude) \<Rightarrow>
          if \<not> f64_is_finite latitude \<or> \<not> f64_is_finite longitude
             \<or> \<not> f64_in_range (- 90) 90 latitude \<or> \<not> f64_in_range (- 180) 180 longitude
          then Err ParseInvalid
          else if f64_is_zero latitude \<and> f64_is_zero longitude then Ok None
          else Ok (Some \<lparr>geo_latitude = canonical_decimal latitude, geo_longitude = canonical_decimal longitude\<rparr>)
      | _ \<Rightarrow> Err ParseInvalid)"

definition or_else :: "'a option \<Rightarrow> 'a option \<Rightarrow> 'a option" where
  "or_else a b = (case a of None \<Rightarrow> b | Some _ \<Rightarrow> a)"

definition parse_bytes :: "takeout_tables \<Rightarrow> string \<Rightarrow> bool \<Rightarrow> (TakeoutDocument, ParseError) result" where
  "parse_bytes tk bytes allow_empty_title =
     and_then (ok_or (tk_json tk bytes) ParseInvalid) (\<lambda>raw.
     and_then (if \<not> allow_empty_title \<or> rd_title raw \<noteq> [] then validate_text (rd_title raw) 4096 False else Ok ()) (\<lambda>_.
     and_then (case rd_description raw of
                 None \<Rightarrow> Ok None
               | Some value \<Rightarrow> if value = [] then Ok None else map_ok (\<lambda>_. Some value) (validate_text value (16 * 1024) True)) (\<lambda>description.
     and_then (case or_else (rd_photo_taken_time raw) (rd_creation_time raw) of
                 None \<Rightarrow> Ok None
               | Some value \<Rightarrow> map_ok Some (normalize_timestamp tk value)) (\<lambda>taken_at_utc.
     and_then (case or_else (rd_geo_data_exif raw) (rd_geo_data raw) of
                 None \<Rightarrow> Ok None
               | Some geo \<Rightarrow> normalize_location geo) (\<lambda>location.
       Ok \<lparr>td_title = rd_title raw,
           td_metadata = \<lparr>nm_description = description, nm_taken_at_utc = taken_at_utc, nm_location = location, nm_albums = []\<rparr>\<rparr>)))))"

section \<open>Reading a document\<close>

text \<open>\<open>file.take(limit).read_to_end(&mut bytes)\<close>: reads until nothing comes or the limit is reached.\<close>

function read_to_end :: "'w scan_io \<Rightarrow> nat \<Rightarrow> nat \<Rightarrow> string \<Rightarrow> 'w \<Rightarrow> string option \<times> 'w" where
  "read_to_end io handle limit bytes w =
     (if length bytes \<ge> limit then (Some bytes, w)
      else case io_read io handle (limit - length bytes) w of
        (None, w1) \<Rightarrow> (None, w1)
      | (Some part, w1) \<Rightarrow>
          (let chunk = take (limit - length bytes) part in
           if chunk = [] then (Some bytes, w1) else read_to_end io handle limit (bytes @ chunk) w1))"
  by pat_completeness auto
termination
  by (relation "measure (\<lambda>(io, handle, limit, bytes, w). limit - length bytes)") (auto simp flip: length_greater_0_conv)

declare read_to_end.simps [simp del]

definition parse_document ::
  "scan_tables \<Rightarrow> takeout_tables \<Rightarrow> 'w scan_io \<Rightarrow> native DiscoveredSidecar \<Rightarrow> bool \<Rightarrow> 'w \<Rightarrow> (TakeoutDocument, ParseError) result \<times> 'w" where
  "parse_document tb tk io sidecar allow_empty_title w =
     (case dsc_takeout_parse_error sidecar of
        Some e \<Rightarrow> (Err e, w)
      | None \<Rightarrow>
     (case dsc_takeout_document sidecar of
        Some document \<Rightarrow> (Ok document, w)
      | None \<Rightarrow>
          if dsc_byte_len sidecar = 0 then (Err ParseInvalid, w)
          else if unat (dsc_byte_len sidecar) > MAX_JSON_BYTES then (Err ParseOversized, w)
          else
            (case io_open io (dsc_native_path sidecar) w of
               (None, w1) \<Rightarrow> (Err ParseInvalid, w1)
             | (Some handle, w1) \<Rightarrow>
                 (case read_to_end io handle (MAX_JSON_BYTES + 1) [] w1 of
                    (None, w2) \<Rightarrow> (Err ParseInvalid, w2)
                  | (Some bytes, w2) \<Rightarrow>
                      (if length bytes > MAX_JSON_BYTES then Err ParseOversized
                       else if length bytes \<noteq> unat (dsc_byte_len sidecar) \<or> tb_hex_sha256 tb bytes \<noteq> dsc_content_sha256 sidecar
                       then Err ParseSourceChanged
                       else parse_bytes tk bytes allow_empty_title, w2)))))"

definition parse_error_rule :: "ParseError \<Rightarrow> string \<times> string" where
  "parse_error_rule e =
     (case e of
        ParseInvalid \<Rightarrow> (''META_GOOGLE_TAKEOUT_JSON_INVALID_V1'', ''invalid_takeout_json'')
      | ParseOversized \<Rightarrow> (''META_GOOGLE_TAKEOUT_JSON_OVERSIZED_V1'', ''takeout_json_size_limit_exceeded'')
      | ParseSourceChanged \<Rightarrow> (''FS_SOURCE_CHANGED_V1'', ''takeout_json_changed_during_scan''))"

definition record_parse_error :: "'p DiscoveredSidecar \<Rightarrow> ParseError \<Rightarrow> 'p ScanState \<Rightarrow> 'p ScanState" where
  "record_parse_error sidecar e st =
     push_error (diagnostic (fst (parse_error_rule e)) (snd (parse_error_rule e)) [dsc_relative_path sidecar]) st"

section \<open>Reconciliation by title\<close>

text \<open>A loop whose body reads the file system.\<close>

primrec fold_world :: "('a \<Rightarrow> 's \<Rightarrow> 'w \<Rightarrow> 's \<times> 'w) \<Rightarrow> 'a list \<Rightarrow> 's \<Rightarrow> 'w \<Rightarrow> 's \<times> 'w" where
  "fold_world f [] s w = (s, w)"
| "fold_world f (x # xs) s w = (let (s1, w1) = f x s w in fold_world f xs s1 w1)"

definition candidates_for_title :: "'p ScanState \<Rightarrow> string \<Rightarrow> string \<Rightarrow> nat list" where
  "candidates_for_title st sidecar title =
     media_indices (\<lambda>m. path_parent (dm_relative_path m) = path_parent sidecar \<and> path_filename (dm_relative_path m) = title) st"

definition record_ambiguous :: "string \<Rightarrow> string \<Rightarrow> nat list \<Rightarrow> 'p ScanState \<Rightarrow> 'p ScanState" where
  "record_ambiguous code sidecar candidates st =
     push_error (diagnostic ''META_GOOGLE_TAKEOUT_AMBIGUOUS_V1'' code
       (sidecar # map (\<lambda>i. dm_relative_path (ss_media st ! i)) (take (MAX_DIAGNOSTIC_PATHS - 1) candidates))) st"

definition unsupported_family :: "'p DiscoveredSidecar \<Rightarrow> 'p ScanState \<Rightarrow> 'p ScanState" where
  "unsupported_family sidecar st =
     push_warning (diagnostic ''META_GOOGLE_TAKEOUT_UNSUPPORTED_V1'' ''unsupported_takeout_metadata_family'' [dsc_relative_path sidecar]) st"

definition google_sidecar ::
  "scan_tables \<Rightarrow> takeout_tables \<Rightarrow> 'w scan_io \<Rightarrow> nat \<Rightarrow> native ScanState \<times> (nat, nat list) btree_map \<Rightarrow> 'w
     \<Rightarrow> (native ScanState \<times> (nat, nat list) btree_map) \<times> 'w" where
  "google_sidecar tb tk io i s w =
     (let (st, matches) = s; sidecar = ss_sidecars st ! i in
      if dsc_kind sidecar \<noteq> Json then ((unsupported_family sidecar st, matches), w)
      else case parse_document tb tk io sidecar False w of
        (Err e, w1) \<Rightarrow> ((record_parse_error sidecar e st, matches), w1)
      | (Ok document, w1) \<Rightarrow>
          ((case candidates_for_title st (dsc_relative_path sidecar) (td_title document) of
              [m] \<Rightarrow> (st, group_push m i matches)
            | [] \<Rightarrow> (push_warning (diagnostic ''META_ORPHAN_SIDECAR_V1'' ''takeout_title_without_media'' [dsc_relative_path sidecar]) st, matches)
            | candidates \<Rightarrow> (record_ambiguous ''ambiguous_takeout_title'' (dsc_relative_path sidecar) candidates st, matches)), w1))"

definition google_attach :: "nat \<times> nat list \<Rightarrow> 'p ScanState \<Rightarrow> 'p ScanState" where
  "google_attach entry st =
     (case entry of
        (m, [i]) \<Rightarrow> update_media m (attach_sidecar (ss_sidecars st ! i) ''META_GOOGLE_TAKEOUT_TITLE_V1'') st
      | (m, indices) \<Rightarrow>
          push_error (diagnostic ''META_GOOGLE_TAKEOUT_AMBIGUOUS_V1'' ''multiple_takeout_sidecars_for_media''
            (dm_relative_path (ss_media st ! m) # map (\<lambda>i. dsc_relative_path (ss_sidecars st ! i)) indices)) st)"

definition unmatched_media :: "('p DiscoveredMedia \<Rightarrow> bool) \<Rightarrow> 'p ScanState \<Rightarrow> 'p ScanState" where
  "unmatched_media matched st =
     fold (\<lambda>m s. if matched m then s
         else push_warning (diagnostic ''META_GOOGLE_TAKEOUT_UNMATCHED_MEDIA_V1'' ''takeout_media_without_json'' [dm_relative_path m]) s)
       (ss_media st) st"

definition google_reconcile ::
  "scan_tables \<Rightarrow> takeout_tables \<Rightarrow> 'w scan_io \<Rightarrow> native ScanState \<Rightarrow> 'w \<Rightarrow> native ScanState \<times> 'w" where
  "google_reconcile tb tk io st w =
     (let st0 = reconcile_prepare st;
          ((st1, matches), w1) = fold_world (google_sidecar tb tk io) [0..<length (ss_sidecars st0)] (st0, []) w;
          st2 = fold google_attach matches st1;
          st3 = unmatched_media (\<lambda>m. dm_metadata m \<noteq> []) st2 in
      (reconcile_complete (tb_hex_sha256 tb) (tb_to_lowercase tb) st3, w1))"

end
