(* ===== verification/Source_Takeout.thy ===== *)
theory Source_Takeout
  imports Source_Takeout_Metadata
begin

text \<open>
  \<open>immich-sources/src/takeout_reconcile.rs\<close>, and the entry points of \<open>google_takeout.rs\<close> for a directory: the
  reconciliation of an export for import. Documents are matched to media by index, title or name, albums
  are read from directory documents, and files with the same content are collapsed to one asset.
\<close>

section \<open>Names\<close>

definition SUPPLEMENTAL_MARKER :: string where
  "SUPPLEMENTAL_MARKER = ''supplemental-metadata''"

text \<open>\<open>photo.jpg.supplemental-meta(2).json\<close> belongs to \<open>photo(2).jpg\<close>.\<close>

definition indexed_media_name :: "string \<Rightarrow> string option" where
  "indexed_media_name sidecar_name =
     Option.bind (strip_suffix '').json'' sidecar_name) (\<lambda>front.
     Option.bind (rsplit_once (CHR ''('') front) (\<lambda>(head, index).
       if index = [] \<or> \<not> list_all is_ascii_digit index then None
       else
         let media_name = (case rsplit_once (CHR ''.'') head of
               Some (name, marker) \<Rightarrow> if marker \<noteq> [] \<and> starts_with SUPPLEMENTAL_MARKER marker then name else head
             | None \<Rightarrow> head) in
         Option.bind (rsplit_once (CHR ''.'') media_name) (\<lambda>(stem, extension).
           if stem = [] \<or> extension = [] then None
           else Some (stem @ ''('' @ index @ '').'' @ extension))))"

definition candidates_for_indexed_sidecar_name :: "'p ScanState \<Rightarrow> string \<Rightarrow> nat list" where
  "candidates_for_indexed_sidecar_name st sidecar =
     (case indexed_media_name (path_filename sidecar) of
        None \<Rightarrow> []
      | Some target \<Rightarrow>
          media_indices (\<lambda>m. path_parent (dm_relative_path m) = path_parent sidecar \<and> path_filename (dm_relative_path m) = target) st)"

definition sidecar_base :: "string \<Rightarrow> string option" where
  "sidecar_base name =
     (case or_else (strip_suffix ''.supplemental-metadata.json'' name) (strip_suffix ''.json'' name) of
        None \<Rightarrow> None
      | Some base \<Rightarrow> if base = [] then None else Some base)"

definition candidates_for_sidecar_name :: "'p ScanState \<Rightarrow> string \<Rightarrow> nat list" where
  "candidates_for_sidecar_name st sidecar =
     (case sidecar_base (path_filename sidecar) of
        None \<Rightarrow> []
      | Some base \<Rightarrow>
          let same_directory = media_indices (\<lambda>m. path_parent (dm_relative_path m) = path_parent sidecar) st;
              exact = filter (\<lambda>i. path_filename (dm_relative_path (ss_media st ! i)) = base) same_directory in
          if exact = [] then filter (\<lambda>i. starts_with (path_filename (dm_relative_path (ss_media st ! i))) base) same_directory
          else exact)"

definition is_album_document :: "string \<Rightarrow> bool" where
  "is_album_document path =
     (if path_filename path \<noteq> ''metadata.json'' then False
      else let directory = path_filename (path_parent path) in
           directory \<notin> {''Archive'', ''Trash'', ''Bin''} \<and> \<not> starts_with directory ''Photos from '')"

definition canonical_rank :: "string \<Rightarrow> nat" where
  "canonical_rank path =
     (case strip_prefix ''Photos from '' (path_filename (path_parent path)) of
        Some year \<Rightarrow> if length year = 4 \<and> list_all is_ascii_digit year then 0 else 1
      | None \<Rightarrow> 1)"

section \<open>Matching\<close>

record takeout_matching =
  tm_matches :: "(nat, (nat \<times> string) list) btree_map"
  tm_albums :: "(string, string \<times> nat) btree_map"

definition select_candidates :: "'p ScanState \<Rightarrow> string \<Rightarrow> string \<Rightarrow> nat list \<times> string" where
  "select_candidates st sidecar title =
     (let indexed = candidates_for_indexed_sidecar_name st sidecar;
          exact = candidates_for_title st sidecar title in
      if indexed \<noteq> [] then (indexed, ''META_GOOGLE_TAKEOUT_SUPPLEMENTAL_V1'')
      else if exact = [] then (candidates_for_sidecar_name st sidecar, ''META_GOOGLE_TAKEOUT_SUPPLEMENTAL_V1'')
      else (exact, ''META_GOOGLE_TAKEOUT_TITLE_V1''))"

definition takeout_title :: "string \<Rightarrow> TakeoutDocument \<Rightarrow> TakeoutDocument" where
  "takeout_title sidecar document =
     (if td_title document = [] then document \<lparr>td_title := path_filename (path_parent sidecar)\<rparr> else document)"

definition takeout_match ::
  "nat \<Rightarrow> string \<Rightarrow> TakeoutDocument \<Rightarrow> 'p ScanState \<Rightarrow> takeout_matching \<Rightarrow> 'p ScanState \<times> takeout_matching" where
  "takeout_match i sidecar document st tm =
     (let (candidates, rule) = select_candidates st sidecar (td_title document) in
      case candidates of
        [m] \<Rightarrow> (st, tm \<lparr>tm_matches := group_push m (i, rule) (tm_matches tm)\<rparr>)
      | [] \<Rightarrow>
          if is_album_document sidecar
          then (st, tm \<lparr>tm_albums := btm_insert (path_parent sidecar) (td_title document, i) (tm_albums tm)\<rparr>)
          else (push_warning (diagnostic ''META_ORPHAN_SIDECAR_V1'' ''takeout_metadata_without_media'' [sidecar]) st, tm)
      | _ \<Rightarrow> (record_ambiguous ''ambiguous_takeout_metadata'' sidecar candidates st, tm))"

definition takeout_sidecar ::
  "scan_tables \<Rightarrow> takeout_tables \<Rightarrow> 'w scan_io \<Rightarrow> nat \<Rightarrow> native ScanState \<times> takeout_matching \<Rightarrow> 'w
     \<Rightarrow> (native ScanState \<times> takeout_matching) \<times> 'w" where
  "takeout_sidecar tb tk io i s w =
     (let (st, tm) = s; sidecar = ss_sidecars st ! i; path = dsc_relative_path sidecar in
      if dsc_kind sidecar \<noteq> Json then ((unsupported_family sidecar st, tm), w)
      else case parse_document tb tk io sidecar (is_album_document path) w of
        (Err e, w1) \<Rightarrow> ((record_parse_error sidecar e st, tm), w1)
      | (Ok parsed, w1) \<Rightarrow>
          (let document = takeout_title path parsed;
               st1 = st \<lparr>ss_sidecars := (ss_sidecars st)[i := sidecar \<lparr>dsc_takeout_document := Some document\<rparr>]\<rparr> in
           (takeout_match i path document st1 tm, w1)))"

section \<open>Attaching\<close>

definition attach_matched :: "nat \<times> (nat \<times> string) list \<Rightarrow> 'p ScanState \<Rightarrow> 'p ScanState" where
  "attach_matched entry st =
     (let (m, selected) = entry;
          documents = List.map_filter (\<lambda>item. dsc_takeout_document (ss_sidecars st ! fst item)) selected in
      if \<not> windows2_all (=) documents
      then push_error (diagnostic ''META_GOOGLE_TAKEOUT_CONFLICT_V1'' ''conflicting_takeout_asset_metadata''
             (dm_relative_path (ss_media st ! m) # map (\<lambda>item. dsc_relative_path (ss_sidecars st ! fst item)) selected)) st
      else
        let st1 = (case documents of
              [] \<Rightarrow> st
            | document # _ \<Rightarrow> update_media m (\<lambda>x. x \<lparr>dm_normalized_metadata := Some (td_metadata document)\<rparr>) st) in
        fold (\<lambda>item s. update_media m (attach_sidecar (ss_sidecars s ! fst item) (snd item)) s) selected st1)"

definition attach_asset_documents :: "(nat, (nat \<times> string) list) btree_map \<Rightarrow> 'p ScanState \<Rightarrow> 'p ScanState" where
  "attach_asset_documents matches st = fold attach_matched matches st"

definition add_album :: "string \<Rightarrow> NormalizedMetadata option \<Rightarrow> NormalizedMetadata" where
  "add_album title metadata =
     (let m = (case metadata of None \<Rightarrow> NormalizedMetadata_default | Some m \<Rightarrow> m) in
      m \<lparr>nm_albums := remdups_adj (sort (nm_albums m @ [title]))\<rparr>)"

definition attach_album :: "(string, string \<times> nat) btree_map \<Rightarrow> 'p DiscoveredSidecar list \<Rightarrow> 'p DiscoveredMedia \<Rightarrow> 'p DiscoveredMedia" where
  "attach_album albums sidecars m =
     (case btm_get albums (path_parent (dm_relative_path m)) of
        None \<Rightarrow> m
      | Some (title, i) \<Rightarrow>
          attach_sidecar (sidecars ! i) ''META_GOOGLE_TAKEOUT_ALBUM_V1''
            (m \<lparr>dm_normalized_metadata := Some (add_album title (dm_normalized_metadata m))\<rparr>))"

definition attach_albums :: "(string, string \<times> nat) btree_map \<Rightarrow> 'p ScanState \<Rightarrow> 'p ScanState" where
  "attach_albums albums st = st \<lparr>ss_media := map (attach_album albums (ss_sidecars st)) (ss_media st)\<rparr>"

section \<open>Content aliases\<close>

definition conflict :: "string \<Rightarrow> string \<Rightarrow> PlanDiagnostic" where
  "conflict path code = diagnostic ''META_GOOGLE_TAKEOUT_CONFLICT_V1'' code [path]"

text \<open>The merged value, whether the values conflict, and the errors.\<close>

definition merge_value :: "'a option \<Rightarrow> 'a option \<Rightarrow> string \<Rightarrow> string \<Rightarrow> PlanDiagnostic list \<Rightarrow> 'a option \<times> bool \<times> PlanDiagnostic list" where
  "merge_value target incoming path code errors =
     (case (target, incoming) of
        (None, value) \<Rightarrow> (value, False, errors)
      | (Some left, Some right) \<Rightarrow>
          if left \<noteq> right then (target, True, errors @ [conflict path code]) else (target, False, errors)
      | _ \<Rightarrow> (target, False, errors))"

definition merge_normalized ::
  "NormalizedMetadata \<Rightarrow> NormalizedMetadata \<Rightarrow> string \<Rightarrow> PlanDiagnostic list \<Rightarrow> NormalizedMetadata \<times> bool \<times> PlanDiagnostic list" where
  "merge_normalized left right path errors =
     (let (description, c1, e1) = merge_value (nm_description left) (nm_description right) path ''conflicting_takeout_description'' errors;
          (taken, c2, e2) = merge_value (nm_taken_at_utc left) (nm_taken_at_utc right) path ''conflicting_takeout_timestamp'' e1;
          (location, c3, e3) = merge_value (nm_location left) (nm_location right) path ''conflicting_takeout_location'' e2 in
      (\<lparr>nm_description = description, nm_taken_at_utc = taken, nm_location = location,
        nm_albums = remdups_adj (sort (nm_albums left @ nm_albums right))\<rparr>, c1 \<or> c2 \<or> c3, e3))"

definition merge_alias ::
  "'p DiscoveredMedia \<Rightarrow> 'p DiscoveredMedia \<times> bool \<times> PlanDiagnostic list \<Rightarrow> 'p DiscoveredMedia \<times> bool \<times> PlanDiagnostic list" where
  "merge_alias alias s =
     (let (canonical0, conflicted, errors) = s;
          canonical = canonical0 \<lparr>dm_metadata := dm_metadata canonical0 @ dm_metadata alias,
                                  dm_evidence := dm_evidence canonical0 @ dm_evidence alias\<rparr> in
      if conflicted then (canonical \<lparr>dm_normalized_metadata := None\<rparr>, conflicted, errors)
      else case (dm_normalized_metadata canonical, dm_normalized_metadata alias) of
        (None, value) \<Rightarrow> (canonical \<lparr>dm_normalized_metadata := value\<rparr>, conflicted, errors)
      | (Some left, Some right) \<Rightarrow>
          (let (merged, c, e) = merge_normalized left right (dm_relative_path canonical) errors in
           (canonical \<lparr>dm_normalized_metadata := (if c then None else Some merged)\<rparr>, c, e))
      | _ \<Rightarrow> (canonical, conflicted, errors))"

definition alias_evidence :: RuleEvidence where
  "alias_evidence = \<lparr>re_rule_id = ''META_GOOGLE_TAKEOUT_CONTENT_ALIAS_V1'', re_outcome = ''content_identical_paths_collapsed''\<rparr>"

definition alias_key :: "'p DiscoveredMedia \<Rightarrow> nat \<times> string" where
  "alias_key m = (canonical_rank (dm_relative_path m), dm_relative_path m)"

definition collapse_group :: "'p DiscoveredMedia list \<Rightarrow> 'p ScanState \<Rightarrow> 'p ScanState" where
  "collapse_group aliases st =
     (case sort_key alias_key aliases of
        [] \<Rightarrow> st
      | [canonical] \<Rightarrow> st \<lparr>ss_media := ss_media st @ [canonical]\<rparr>
      | canonical # rest \<Rightarrow>
          (let (merged, _, errors) = fold merge_alias rest (canonical, False, ss_errors st);
               collapsed = merged \<lparr>dm_evidence := dm_evidence merged @ [alias_evidence]\<rparr> in
           st \<lparr>ss_errors := errors,
               ss_warnings := ss_warnings st @ [diagnostic ''META_GOOGLE_TAKEOUT_CONTENT_ALIAS_V1'' ''content_identical_takeout_aliases''
                  (dm_relative_path canonical # map dm_relative_path rest)],
               ss_media := ss_media st @ [collapsed]\<rparr>))"

definition content_key :: "'p DiscoveredMedia \<Rightarrow> u64 \<times> string" where
  "content_key m = (dm_byte_len m, dm_content_sha256 m)"

definition collapse_content_aliases :: "'p ScanState \<Rightarrow> 'p ScanState" where
  "collapse_content_aliases st =
     fold collapse_group (map snd (group_by content_key (\<lambda>m. m) (ss_media st))) (st \<lparr>ss_media := []\<rparr>)"

section \<open>The whole reconciliation\<close>

definition has_takeout_rule :: "'p DiscoveredMedia \<Rightarrow> bool" where
  "has_takeout_rule m \<longleftrightarrow>
     list_ex (\<lambda>c. mc_rule_id c \<in> {''META_GOOGLE_TAKEOUT_TITLE_V1'', ''META_GOOGLE_TAKEOUT_SUPPLEMENTAL_V1''}) (dm_metadata m)"

definition takeout_reconcile ::
  "scan_tables \<Rightarrow> takeout_tables \<Rightarrow> 'w scan_io \<Rightarrow> native ScanState \<Rightarrow> 'w \<Rightarrow> native ScanState \<times> 'w" where
  "takeout_reconcile tb tk io st w =
     (let st0 = reconcile_prepare st;
          ((st1, tm), w1) = fold_world (takeout_sidecar tb tk io) [0..<length (ss_sidecars st0)] (st0, \<lparr>tm_matches = [], tm_albums = []\<rparr>) w;
          st2 = attach_asset_documents (tm_matches tm) st1;
          st3 = attach_albums (tm_albums tm) st2;
          st4 = collapse_content_aliases st3;
          st5 = unmatched_media has_takeout_rule st4 in
      (reconcile_complete (tb_hex_sha256 tb) (tb_to_lowercase tb) st5, w1))"

section \<open>Entry points\<close>

definition is_directory :: "'w scan_io \<Rightarrow> native \<Rightarrow> 'w \<Rightarrow> bool \<times> 'w" where
  "is_directory io path w =
     (case io_symlink_metadata io path w of (None, w1) \<Rightarrow> (False, w1) | (Some m, w1) \<Rightarrow> (fm_type m = TypeDir, w1))"

definition validate_layout :: "'w scan_io \<Rightarrow> native \<Rightarrow> 'w \<Rightarrow> (unit, ScanError) result \<times> 'w" where
  "validate_layout io root w =
     (let failure = Err (ScanUnsupportedLayout ''expected real Takeout/Google Photos directories'') in
      case is_directory io (root @ [''Takeout'']) w of
        (False, w1) \<Rightarrow> (failure, w1)
      | (True, w1) \<Rightarrow>
          (case is_directory io (root @ [''Takeout'', ''Google Photos'']) w1 of
             (False, w2) \<Rightarrow> (failure, w2)
           | (True, w2) \<Rightarrow> (Ok (), w2)))"

definition GOOGLE_SCAN :: "scan_tables \<Rightarrow> takeout_tables \<Rightarrow> 'w scan_io \<Rightarrow> (native, 'w) ScanStrategy" where
  "GOOGLE_SCAN tb tk io =
     \<lparr>sg_source_kind = GoogleTakeout, sg_schema_version = NORMALIZED_PLAN_SCHEMA_VERSION,
      sg_reconcile_state = google_reconcile tb tk io, sg_skip_path = keep_all_paths\<rparr>"

definition TAKEOUT_SCAN :: "scan_tables \<Rightarrow> takeout_tables \<Rightarrow> 'w scan_io \<Rightarrow> (native, 'w) ScanStrategy" where
  "TAKEOUT_SCAN tb tk io =
     \<lparr>sg_source_kind = GoogleTakeout, sg_schema_version = NORMALIZED_PLAN_SCHEMA_VERSION_V2,
      sg_reconcile_state = takeout_reconcile tb tk io, sg_skip_path = keep_all_paths\<rparr>"

definition scan_google_takeout ::
  "scan_tables \<Rightarrow> takeout_tables \<Rightarrow> 'w scan_io \<Rightarrow> native \<Rightarrow> string \<Rightarrow> FolderScanConfig \<Rightarrow> 'w \<Rightarrow> (NormalizedPlan, ScanError) result \<times> 'w" where
  "scan_google_takeout tb tk io root source_label config w =
     (case validate_layout io root w of
        (Err e, w1) \<Rightarrow> (Err e, w1)
      | (Ok _, w1) \<Rightarrow>
          (case scan_resolved_internal tb io config root source_label (GOOGLE_SCAN tb tk io) w1 of
             (r, w2) \<Rightarrow> (map_ok rp_plan r, w2)))"

fun any_directory :: "'w scan_io \<Rightarrow> native list \<Rightarrow> 'w \<Rightarrow> bool \<times> 'w" where
  "any_directory io [] w = (False, w)"
| "any_directory io (input # inputs) w =
     (case is_directory io input w of (True, w1) \<Rightarrow> (True, w1) | (False, w1) \<Rightarrow> any_directory io inputs w1)"

text \<open>What the three adapters do with several inputs, or one that is no directory: archives, whose scan
  is an argument.\<close>

definition scan_archive_inputs ::
  "'w scan_io \<Rightarrow> native list \<Rightarrow> ('w \<Rightarrow> (native ResolvedFolderPlan, ScanError) result \<times> 'w) \<Rightarrow> 'w
     \<Rightarrow> (native ResolvedFolderPlan, ScanError) result \<times> 'w" where
  "scan_archive_inputs io inputs scan_archives w =
     (case any_directory io inputs w of
        (True, w1) \<Rightarrow> (Err (ScanUnsupportedLayout ''directory and ZIP inputs cannot be mixed''), w1)
      | (False, w1) \<Rightarrow> scan_archives w1)"

text \<open>\<open>if let [input] = inputs\<close> with a real directory.\<close>

definition single_directory :: "'w scan_io \<Rightarrow> native list \<Rightarrow> 'w \<Rightarrow> native option \<times> 'w" where
  "single_directory io inputs w =
     (case inputs of
        [input] \<Rightarrow> (case is_directory io input w of (True, w1) \<Rightarrow> (Some input, w1) | (False, w1) \<Rightarrow> (None, w1))
      | _ \<Rightarrow> (None, w))"

definition scan_google_takeout_inputs_resolved ::
  "scan_tables \<Rightarrow> takeout_tables \<Rightarrow> 'w scan_io \<Rightarrow> ('w \<Rightarrow> (native ResolvedFolderPlan, ScanError) result \<times> 'w) \<Rightarrow> native list \<Rightarrow> string
     \<Rightarrow> TakeoutScanConfig \<Rightarrow> 'w \<Rightarrow> (native ResolvedFolderPlan, ScanError) result \<times> 'w" where
  "scan_google_takeout_inputs_resolved tb tk io scan_archives inputs source_label config w =
     (case TakeoutScanConfig_validate config of
        Err e \<Rightarrow> (Err e, w)
      | Ok _ \<Rightarrow>
     (case single_directory io inputs w of
        (Some input, w1) \<Rightarrow>
          (case validate_layout io input w1 of
             (Err e, w2) \<Rightarrow> (Err e, w2)
           | (Ok _, w2) \<Rightarrow> scan_resolved_internal tb io (tc_scan config) input source_label (TAKEOUT_SCAN tb tk io) w2)
      | (None, w1) \<Rightarrow> scan_archive_inputs io inputs scan_archives w1))"

end
