(* ===== verification/Source_Takeout_Plan.thy ===== *)
theory Source_Takeout_Plan
  imports Source_Takeout
begin

text \<open>
  What the reconciliation of a Takeout export guarantees: each content is kept once, under the path
  that ranks first; metadata that passed the parser stays valid through attaching, albums and merging; and
  the plan of a directory scan validates.
\<close>

section \<open>Metadata stays valid\<close>

lemma add_album_valid:
  assumes "\<forall>n. metadata = Some n \<longrightarrow> NormalizedMetadata_is_valid rfc n" "valid_album title"
  shows "NormalizedMetadata_is_valid rfc (add_album title metadata)"
  using assms default_metadata_valid
  by (cases metadata) (auto simp: add_album_def Let_def NormalizedMetadata_is_valid_def windows2_all_less remdups_sort_strict
      list_all_iff NormalizedMetadata_default_def)

lemma merge_value_cases:
  "merge_value a b path code errors = (v, c, e) \<Longrightarrow> v = a \<or> v = b"
  by (auto simp: merge_value_def split: option.splits if_splits)

lemma merge_normalized_valid:
  assumes "merge_normalized left right path errors = (merged, c, e)"
    and "NormalizedMetadata_is_valid rfc left" "NormalizedMetadata_is_valid rfc right"
  shows "NormalizedMetadata_is_valid rfc merged"
proof -
  from assms(1) obtain d c1 e1 t c2 e2 l c3 where
    d: "merge_value (nm_description left) (nm_description right) path ''conflicting_takeout_description'' errors = (d, c1, e1)"
    and t: "merge_value (nm_taken_at_utc left) (nm_taken_at_utc right) path ''conflicting_takeout_timestamp'' e1 = (t, c2, e2)"
    and l: "merge_value (nm_location left) (nm_location right) path ''conflicting_takeout_location'' e2 = (l, c3, e)"
    and m: "merged = \<lparr>nm_description = d, nm_taken_at_utc = t, nm_location = l, nm_albums = remdups_adj (sort (nm_albums left @ nm_albums right))\<rparr>"
    by (auto simp: merge_normalized_def Let_def split: prod.splits)
  show ?thesis
    using merge_value_cases [OF d] merge_value_cases [OF t] merge_value_cases [OF l] assms(2,3) unfolding m
    by (auto simp: NormalizedMetadata_is_valid_def windows2_all_less remdups_sort_strict list_all_iff)
qed

section \<open>Content aliases\<close>

text \<open>What no rule changes of a medium: everything but the evidence it gathers.\<close>

definition media_base :: "'p DiscoveredMedia \<Rightarrow> 'p DiscoveredMedia" where
  "media_base m = m \<lparr>dm_metadata := [], dm_normalized_metadata := None, dm_live_photo := None, dm_evidence := []\<rparr>"

lemma media_base_simps [simp]:
  "media_base (attach_sidecar s rule m) = media_base m" "media_base (m \<lparr>dm_normalized_metadata := n\<rparr>) = media_base m"
  "media_base (m \<lparr>dm_metadata := c\<rparr>) = media_base m" "media_base (m \<lparr>dm_evidence := ev\<rparr>) = media_base m"
  "media_base (media_core m) = media_base m"
  by (simp_all add: media_base_def attach_sidecar_def media_core_def)

lemma media_base_fields:
  assumes "media_base m = media_base m'"
  shows "dm_relative_path m = dm_relative_path m'" "dm_content_sha256 m = dm_content_sha256 m'" "dm_byte_len m = dm_byte_len m'"
    "content_key m = content_key m'" "alias_key m = alias_key m'" "media_file m = media_file m'"
    "operation_bytes m = operation_bytes m'"
  using assms by (cases m; cases m'; simp add: media_base_def content_key_def alias_key_def media_file_def operation_bytes_def)+

definition metadata_ok :: "rfc3339 \<Rightarrow> 'p DiscoveredMedia \<Rightarrow> bool" where
  "metadata_ok rfc m \<longleftrightarrow> rules_named m \<and> (\<forall>n. dm_normalized_metadata m = Some n \<longrightarrow> NormalizedMetadata_is_valid rfc n)"

lemma merge_alias_keeps:
  assumes "merge_alias alias (canonical, conflicted, errors) = (canonical', c, e)"
  shows "media_base canonical' = media_base canonical"
    "metadata_ok rfc canonical \<Longrightarrow> metadata_ok rfc alias \<Longrightarrow> metadata_ok rfc canonical'"
proof -
  show "media_base canonical' = media_base canonical"
    using assms by (auto simp: merge_alias_def Let_def split: if_splits option.splits prod.splits)
  assume ok: "metadata_ok rfc canonical" "metadata_ok rfc alias"
  have "rules_named canonical'"
    using assms ok by (auto simp: merge_alias_def Let_def metadata_ok_def rules_named_def split: if_splits option.splits prod.splits)
  moreover have "NormalizedMetadata_is_valid rfc n" if "dm_normalized_metadata canonical' = Some n" for n
    using assms ok that merge_normalized_valid
    by (fastforce simp: merge_alias_def Let_def metadata_ok_def split: if_splits option.splits prod.splits)
  ultimately show "metadata_ok rfc canonical'" by (simp add: metadata_ok_def)
qed

lemma fold_merge_alias:
  assumes "fold merge_alias rest (canonical, conflicted, errors) = (canonical', c, e)"
  shows "media_base canonical' = media_base canonical"
    "metadata_ok rfc canonical \<Longrightarrow> \<forall>a \<in> set rest. metadata_ok rfc a \<Longrightarrow> metadata_ok rfc canonical'"
proof -
  have "media_base canonical' = media_base canonical \<and>
    (metadata_ok rfc canonical \<longrightarrow> (\<forall>a \<in> set rest. metadata_ok rfc a) \<longrightarrow> metadata_ok rfc canonical')"
    using assms
  proof (induction rest arbitrary: canonical conflicted errors)
    case (Cons a rest)
    obtain c1 k1 e1 where m: "merge_alias a (canonical, conflicted, errors) = (c1, k1, e1)" by (metis prod_cases3)
    then have "fold merge_alias rest (c1, k1, e1) = (canonical', c, e)" using Cons.prems by simp
    from Cons.IH [OF this] merge_alias_keeps [OF m] show ?case by auto
  qed simp
  then show "media_base canonical' = media_base canonical"
    "metadata_ok rfc canonical \<Longrightarrow> \<forall>a \<in> set rest. metadata_ok rfc a \<Longrightarrow> metadata_ok rfc canonical'" by blast+
qed

text \<open>One asset for a group: the first of the group in rank and path.\<close>

definition collapses :: "rfc3339 \<Rightarrow> 'p DiscoveredMedia list \<Rightarrow> 'p DiscoveredMedia \<Rightarrow> bool" where
  "collapses rfc aliases m \<longleftrightarrow>
     (\<exists>a \<in> set aliases. media_base m = media_base a \<and> (\<forall>b \<in> set aliases. alias_key a \<le> alias_key b)) \<and>
     ((\<forall>a \<in> set aliases. metadata_ok rfc a) \<longrightarrow> metadata_ok rfc m)"

lemma collapse_group_media:
  assumes "aliases \<noteq> []"
  obtains m where "ss_media (collapse_group aliases st) = ss_media st @ [m]" "\<And>rfc. collapses rfc aliases m"
proof -
  obtain canonical rest where s: "sort_key alias_key aliases = canonical # rest"
    using assms by (metis length_0_conv length_sort neq_Nil_conv)
  have set: "set aliases = insert canonical (set rest)" using arg_cong [OF s, of set] by simp
  have "sorted (map alias_key (canonical # rest))" using sorted_sort_key [of alias_key aliases] unfolding s by simp
  then have least: "\<forall>b \<in> set aliases. alias_key canonical \<le> alias_key b" unfolding set by auto
  show thesis
  proof (cases rest)
    case Nil
    have "collapses rfc aliases canonical" for rfc using least set by (auto simp: collapses_def)
    with Nil s show thesis using that [of canonical] by (simp add: collapse_group_def)
  next
    case (Cons a as)
    obtain merged c e where m: "fold merge_alias rest (canonical, False, ss_errors st) = (merged, c, e)" by (metis prod_cases3)
    let ?m = "merged \<lparr>dm_evidence := dm_evidence merged @ [alias_evidence]\<rparr>"
    have "metadata_ok rfc ?m = metadata_ok rfc merged" for rfc
      by (auto simp: metadata_ok_def rules_named_def alias_evidence_def)
    moreover have "media_base ?m = media_base canonical" using fold_merge_alias(1) [OF m] by simp
    ultimately have "collapses rfc aliases ?m" for rfc
      using fold_merge_alias(2) [OF m, of rfc] least unfolding collapses_def set by blast
    with Cons s m show thesis using that [of ?m] by (simp add: collapse_group_def)
  qed
qed

lemma fold_collapse_media:
  assumes "\<forall>g \<in> set gs. g \<noteq> []"
  obtains ms where "ss_media (fold collapse_group gs st) = ss_media st @ ms" "\<And>rfc. list_all2 (collapses rfc) gs ms"
proof -
  have "\<exists>ms. ss_media (fold collapse_group gs st) = ss_media st @ ms \<and> (\<forall>rfc. list_all2 (collapses rfc) gs ms)"
    using assms
  proof (induction gs arbitrary: st)
    case (Cons g gs)
    then obtain m where m: "ss_media (collapse_group g st) = ss_media st @ [m]" "\<And>rfc. collapses rfc g m"
      using collapse_group_media [of g st] by auto
    obtain ms where "ss_media (fold collapse_group gs (collapse_group g st)) = ss_media (collapse_group g st) @ ms"
        "\<forall>rfc. list_all2 (collapses rfc) gs ms"
      using Cons.IH [of "collapse_group g st"] Cons.prems by auto
    with m show ?case by (intro exI [of _ "m # ms"]) simp
  qed simp
  then show thesis using that by blast
qed

text \<open>The groups are the classes of the content, so the result has each content once.\<close>

lemma collapse_media:
  fixes st :: "'p ScanState"
  defines "ms \<equiv> ss_media (collapse_content_aliases st)"
  shows "distinct (map content_key ms)" "set (map content_key ms) = set (map content_key (ss_media st))"
    "m \<in> set ms \<Longrightarrow> \<exists>a \<in> set (ss_media st). media_base m = media_base a \<and> (\<forall>b \<in> set (ss_media st). content_key b = content_key a \<longrightarrow> alias_key a \<le> alias_key b)"
    "\<forall>a \<in> set (ss_media st). metadata_ok rfc a \<Longrightarrow> m \<in> set ms \<Longrightarrow> metadata_ok rfc m"
proof -
  let ?gs = "group_by content_key (\<lambda>m. m) (ss_media st)"
  have entry: "g \<noteq> [] \<and> g = filter (\<lambda>m. content_key m = k) (ss_media st)" if "(k, g) \<in> set ?gs" for k g
    using that unfolding group_by_entry list.map_ident by blast
  have "\<forall>g \<in> set (map snd ?gs). g \<noteq> []" using entry by auto
  then obtain xs where xs: "ss_media (fold collapse_group (map snd ?gs) (st \<lparr>ss_media := []\<rparr>)) = [] @ xs" "\<And>rfc. list_all2 (collapses rfc) (map snd ?gs) xs"
    using fold_collapse_media [of "map snd ?gs" "st \<lparr>ss_media := []\<rparr>"] by auto
  then have ms: "ms = xs" by (simp add: ms_def collapse_content_aliases_def)
  have all: "list_all2 (\<lambda>e m. collapses rfc (snd e) m) ?gs ms" for rfc using xs(2) [of rfc] by (simp add: ms list_all2_map1)
  have key: "content_key m = fst e" if e: "e \<in> set ?gs" "collapses rfc (snd e) m" for e m rfc
  proof -
    obtain a where a: "a \<in> set (snd e)" "media_base m = media_base a" using e(2) unfolding collapses_def by blast
    have "snd e = filter (\<lambda>m. content_key m = fst e) (ss_media st)" using entry [of "fst e" "snd e"] e(1) unfolding prod.collapse by blast
    then have "content_key a = fst e" using a(1) by simp
    then show ?thesis using media_base_fields(4) [OF a(2)] by simp
  qed
  have keys: "map content_key ms = map fst ?gs"
  proof (rule nth_equalityI)
    show len: "length (map content_key ms) = length (map fst ?gs)" using list_all2_lengthD [OF all] by simp
    fix i assume i: "i < length (map content_key ms)"
    then have "?gs ! i \<in> set ?gs" using len by simp
    moreover have "collapses Some (snd (?gs ! i)) (ms ! i)" using list_all2_nthD2 [OF all] i by simp
    ultimately show "map content_key ms ! i = map fst ?gs ! i" using key i len by simp
  qed
  show "distinct (map content_key ms)" unfolding keys by (rule btm_wf_distinct) simp
  show "set (map content_key ms) = set (map content_key (ss_media st))"
  proof -
    have get: "k \<in> fst ` set ?gs \<longleftrightarrow> filter (\<lambda>m. content_key m = k) (ss_media st) \<noteq> []" for k
    proof -
      have "k \<in> fst ` set ?gs \<longleftrightarrow> btm_get ?gs k \<noteq> None" by (simp add: map_of_eq_None_iff)
      then show ?thesis unfolding group_by_get Let_def by simp
    qed
    have "set (map fst ?gs) = {k. filter (\<lambda>m. content_key m = k) (ss_media st) \<noteq> []}"
      unfolding set_map using get by blast
    also have "\<dots> = content_key ` set (ss_media st)" unfolding filter_empty_conv by blast
    finally show ?thesis unfolding keys set_map .
  qed
  assume m: "m \<in> set ms"
  have "\<exists>e \<in> set ?gs. collapses rfc (snd e) m" for rfc
    using all [of rfc] m by (metis in_set_conv_nth list_all2_conv_all_nth)
  then obtain e where e: "e \<in> set ?gs" "collapses rfc (snd e) m" by blast
  then have g: "snd e = filter (\<lambda>m. content_key m = fst e) (ss_media st)" using entry by (metis prod.collapse)
  from e(2) show "\<exists>a \<in> set (ss_media st). media_base m = media_base a \<and> (\<forall>b \<in> set (ss_media st). content_key b = content_key a \<longrightarrow> alias_key a \<le> alias_key b)"
    unfolding collapses_def g by auto
  show "\<forall>a \<in> set (ss_media st). metadata_ok rfc a \<Longrightarrow> metadata_ok rfc m" using e(2) unfolding collapses_def g by auto
qed

lemma collapse_paths:
  assumes "distinct (map dm_relative_path (ss_media st))"
  shows "distinct (map dm_relative_path (ss_media (collapse_content_aliases st)))"
proof -
  let ?ms = "ss_media (collapse_content_aliases st)"
  have "inj_on dm_relative_path (set ?ms)"
  proof (rule inj_onI)
    fix x y assume x: "x \<in> set ?ms" and y: "y \<in> set ?ms" and eq: "dm_relative_path x = dm_relative_path y"
    obtain a where a: "a \<in> set (ss_media st)" "media_base x = media_base a" using collapse_media(3) [OF x] by blast
    obtain b where b: "b \<in> set (ss_media st)" "media_base y = media_base b" using collapse_media(3) [OF y] by blast
    have "dm_relative_path a = dm_relative_path b" using eq media_base_fields(1) [OF a(2)] media_base_fields(1) [OF b(2)] by simp
    then have "a = b" using assms a(1) b(1) by (auto simp: distinct_map inj_on_def)
    then have "content_key x = content_key y" using media_base_fields(4) [OF a(2)] media_base_fields(4) [OF b(2)] by simp
    then show "x = y" using collapse_media(1) [of st] x y by (auto simp: distinct_map inj_on_def)
  qed
  moreover have "distinct ?ms" using collapse_media(1) [of st] by (simp add: distinct_map)
  ultimately show ?thesis by (simp add: distinct_map)
qed

section \<open>The parser\<close>

text \<open>What the code relies on of the \<open>time\<close> crate and of the numbers the JSON decoder yields: a printed instant
  is canonical and in UTC, and a coordinate reads back as itself.\<close>

definition geo_prints :: "RawGeo option \<Rightarrow> bool" where
  "geo_prints g \<longleftrightarrow> (\<forall>geo x. g = Some geo \<and> (rg_latitude geo = Some x \<or> rg_longitude geo = Some x) \<longrightarrow> parse_f64 (f64_to_string x) = Some x)"

definition takeout_tables_ok :: "rfc3339 \<Rightarrow> takeout_tables \<Rightarrow> bool" where
  "takeout_tables_ok rfc tk \<longleftrightarrow>
     (\<forall>n s. tk_format_unix tk n = Some s \<longrightarrow> rfc s = Some s \<and> ends_with s ''Z'') \<and>
     (\<forall>bytes raw. tk_json tk bytes = Some raw \<longrightarrow> geo_prints (rd_geo_data_exif raw) \<and> geo_prints (rd_geo_data raw))"

lemma validate_text_eq: "validate_text v n layout = Ok () \<longleftrightarrow> valid_text v n layout"
  by (auto simp: validate_text_def valid_text_def Let_def)

lemma valid_text_album: "valid_text v 4096 False \<Longrightarrow> valid_album v"
  by (simp add: valid_text_def valid_album_def)

lemma zero_in_range: "lo \<le> 0 \<Longrightarrow> 0 \<le> hi \<Longrightarrow> decimal_in_range ''0'' lo hi"
proof -
  have "parse_f64 ''0'' = Some (Finite False 0 (- 1074))" by code_simp
  then show "lo \<le> 0 \<Longrightarrow> 0 \<le> hi \<Longrightarrow> decimal_in_range ''0'' lo hi"
    by (simp add: decimal_in_range_def mult_nonpos_nonneg)
qed

lemma canonical_decimal_in_range:
  assumes "parse_f64 (f64_to_string x) = Some x" "f64_is_finite x" "f64_in_range lo hi x" "lo \<le> 0" "0 \<le> hi"
  shows "decimal_in_range (canonical_decimal x) lo hi"
  using assms zero_in_range [OF assms(4,5)] by (simp add: canonical_decimal_def decimal_in_range_def Let_def)

lemma normalize_location_valid:
  assumes "normalize_location geo = Ok (Some g)" "geo_prints (Some geo)"
  shows "GeoCoordinates_is_valid g"
  using assms canonical_decimal_in_range
  by (auto simp: normalize_location_def geo_prints_def GeoCoordinates_is_valid_def split: option.splits if_splits)

definition document_ok :: "rfc3339 \<Rightarrow> bool \<Rightarrow> TakeoutDocument \<Rightarrow> bool" where
  "document_ok rfc allow_empty d \<longleftrightarrow> NormalizedMetadata_is_valid rfc (td_metadata d) \<and>
     (if td_title d = [] then allow_empty else valid_album (td_title d))"

lemma parse_bytes_ok:
  assumes tables: "takeout_tables_ok rfc tk" and parsed: "parse_bytes tk bytes allow = Ok d"
  shows "document_ok rfc allow d"
proof -
  from parsed obtain raw description taken location where
    raw: "tk_json tk bytes = Some raw"
    and title: "(if \<not> allow \<or> rd_title raw \<noteq> [] then validate_text (rd_title raw) 4096 False else Ok ()) = Ok ()"
    and desc: "(case rd_description raw of None \<Rightarrow> Ok None
        | Some value \<Rightarrow> if value = [] then Ok None else map_ok (\<lambda>_. Some value) (validate_text value (16 * 1024) True)) = Ok description"
    and taken: "(case or_else (rd_photo_taken_time raw) (rd_creation_time raw) of None \<Rightarrow> Ok None
        | Some value \<Rightarrow> map_ok Some (normalize_timestamp tk value)) = Ok taken"
    and loc: "(case or_else (rd_geo_data_exif raw) (rd_geo_data raw) of None \<Rightarrow> Ok None | Some geo \<Rightarrow> normalize_location geo) = Ok location"
    and d: "d = \<lparr>td_title = rd_title raw,
       td_metadata = \<lparr>nm_description = description, nm_taken_at_utc = taken, nm_location = location, nm_albums = []\<rparr>\<rparr>"
    by (auto simp: parse_bytes_def and_then_eq_Ok)
  have "is_none_or description (\<lambda>v. valid_text v (16 * 1024) True)"
    using desc by (auto simp: map_ok_eq_Ok validate_text_eq split: option.splits if_splits)
  moreover have "is_none_or taken (\<lambda>v. is_some_and (rfc v) (\<lambda>canonical. canonical = v \<and> ends_with v ''Z''))"
    using taken tables by (auto simp: map_ok_eq_Ok normalize_timestamp_def Let_def takeout_tables_ok_def split: option.splits if_splits)
  moreover have "is_none_or location GeoCoordinates_is_valid"
  proof (cases "or_else (rd_geo_data_exif raw) (rd_geo_data raw)")
    case (Some geo)
    have "geo_prints (rd_geo_data_exif raw)" "geo_prints (rd_geo_data raw)" using tables raw unfolding takeout_tables_ok_def by blast+
    then have "geo_prints (Some geo)" using Some by (auto simp: or_else_def split: option.splits)
    then show ?thesis using loc Some normalize_location_valid by (cases location) auto
  qed (use loc in simp)
  moreover have "if rd_title raw = [] then allow else valid_album (rd_title raw)"
    using title by (auto simp: validate_text_eq valid_text_album valid_text_def split: if_splits)
  ultimately show ?thesis by (simp add: document_ok_def d NormalizedMetadata_is_valid_def)
qed

section \<open>Matching\<close>

lemma fold_world_invariant:
  assumes "\<And>x s w. x \<in> set xs \<Longrightarrow> I s \<Longrightarrow> I (fst (f x s w))" "I s"
  shows "I (fst (fold_world f xs s w))"
  using assms
proof (induction xs arbitrary: s w)
  case (Cons x xs)
  have "I (fst (f x s w))" using Cons.prems by simp
  then show ?case using Cons.IH [of "fst (f x s w)" "snd (f x s w)"] Cons.prems(1) by (auto simp: Let_def split: prod.splits)
qed simp

definition documents_ok :: "rfc3339 \<Rightarrow> 'p DiscoveredSidecar list \<Rightarrow> bool" where
  "documents_ok rfc ss \<longleftrightarrow> (\<forall>s \<in> set ss. \<forall>d. dsc_takeout_document s = Some d \<longrightarrow> document_ok rfc False d)"

definition matching_ok :: "nat \<Rightarrow> takeout_matching \<Rightarrow> bool" where
  "matching_ok n tm \<longleftrightarrow>
     (\<forall>e \<in> set (tm_matches tm). \<forall>item \<in> set (snd e). fst item < n \<and> snd item \<noteq> []) \<and>
     (\<forall>e \<in> set (tm_albums tm). valid_album (fst (snd e)))"

text \<open>A directory that names an album by its document's empty title must have a usable name.\<close>

definition album_directories_ok :: "string list \<Rightarrow> bool" where
  "album_directories_ok paths \<longleftrightarrow> (\<forall>p \<in> set paths. is_album_document p \<longrightarrow> valid_album (path_filename (path_parent p)))"

definition matching_inv :: "rfc3339 \<Rightarrow> 'p ScanState \<Rightarrow> 'p ScanState \<times> takeout_matching \<Rightarrow> bool" where
  "matching_inv rfc st0 s \<longleftrightarrow>
     ss_media (fst s) = ss_media st0 \<and> map dsc_relative_path (ss_sidecars (fst s)) = map dsc_relative_path (ss_sidecars st0) \<and>
     documents_ok rfc (ss_sidecars (fst s)) \<and> matching_ok (length (ss_sidecars st0)) (snd s)"

lemma btm_insert_entries: "set (btm_insert k v m) \<subseteq> insert (k, v) (set m)"
  by (induction m) (auto split: if_splits)

lemma matching_ok_push:
  assumes "matching_ok n tm" "i < n" "rule \<noteq> []"
  shows "matching_ok n (tm \<lparr>tm_matches := group_push m (i, rule) (tm_matches tm)\<rparr>)"
proof -
  have "\<forall>item \<in> set (snd e). fst item < n \<and> snd item \<noteq> []" if "e \<in> set (group_push m (i, rule) (tm_matches tm))" for e
  proof -
    have old: "\<forall>e \<in> set (tm_matches tm). \<forall>item \<in> set (snd e). fst item < n \<and> snd item \<noteq> []" using assms(1) by (simp add: matching_ok_def)
    show ?thesis
      using that subsetD [OF btm_insert_entries, of e] old assms(2,3) map_of_SomeD [of "tm_matches tm" m]
      unfolding group_push_def by (fastforce split: option.splits)
  qed
  then show ?thesis using assms(1) by (simp add: matching_ok_def)
qed

lemma select_candidates_rule: "select_candidates st p t = (cs, rule) \<Longrightarrow> rule \<noteq> []"
  by (auto simp: select_candidates_def Let_def split: if_splits)

lemma takeout_match_inv:
  assumes inv: "matching_inv rfc st0 (st, tm)" and i: "i < length (ss_sidecars st0)" and d: "valid_album (td_title d)"
  shows "matching_inv rfc st0 (takeout_match i path d st tm)"
proof -
  obtain cs rule where sel: "select_candidates st path (td_title d) = (cs, rule)" by fastforce
  have ok: "matching_ok (length (ss_sidecars st0)) tm" using inv by (simp add: matching_inv_def)
  have push: "matching_inv rfc st0 (push_warning x st, tm)" "matching_inv rfc st0 (record_ambiguous c p ys st, tm)" for x c p ys
    using inv by (simp_all add: matching_inv_def push_warning_def record_ambiguous_def push_error_def)
  have one: "matching_inv rfc st0 (st, tm \<lparr>tm_matches := group_push m (i, rule) (tm_matches tm)\<rparr>)" for m
    using inv matching_ok_push [OF ok i select_candidates_rule [OF sel]] by (simp add: matching_inv_def)
  have album: "matching_inv rfc st0 (st, tm \<lparr>tm_albums := btm_insert (path_parent path) (td_title d, i) (tm_albums tm)\<rparr>)"
    using inv ok d subsetD [OF btm_insert_entries] by (fastforce simp: matching_inv_def matching_ok_def)
  show ?thesis unfolding takeout_match_def sel Let_def prod.case
    using push one album by (auto split: list.split)
qed

lemma parse_document_ok:
  assumes "takeout_tables_ok rfc tk" "parse_document tb tk io sidecar allow w = (Ok d, w')"
    "\<And>d. dsc_takeout_document sidecar = Some d \<Longrightarrow> document_ok rfc False d"
  shows "document_ok rfc allow d"
proof (cases "dsc_takeout_document sidecar")
  case None
  then obtain bytes where "parse_bytes tk bytes allow = Ok d"
    using assms(2) by (auto simp: parse_document_def split: option.splits prod.splits if_splits)
  then show ?thesis by (rule parse_bytes_ok [OF assms(1)])
next
  case (Some d')
  then show ?thesis using assms(2,3) by (auto simp: parse_document_def document_ok_def split: option.splits if_splits)
qed

lemma takeout_title_ok:
  assumes "document_ok rfc (is_album_document p) d" "is_album_document p \<Longrightarrow> valid_album (path_filename (path_parent p))"
  shows "document_ok rfc False (takeout_title p d)" "valid_album (td_title (takeout_title p d))"
  using assms by (auto simp: document_ok_def takeout_title_def valid_album_def split: if_splits)

lemma takeout_sidecar_inv:
  assumes inv: "matching_inv rfc st0 s" and i: "i < length (ss_sidecars st0)" and tables: "takeout_tables_ok rfc tk"
    and dirs: "album_directories_ok (map dsc_relative_path (ss_sidecars st0))"
  shows "matching_inv rfc st0 (fst (takeout_sidecar tb tk io i s w))"
proof -
  obtain st tm where s: "s = (st, tm)" by (cases s)
  let ?sidecar = "ss_sidecars st ! i" and ?path = "dsc_relative_path (ss_sidecars st ! i)"
  have paths: "map dsc_relative_path (ss_sidecars st) = map dsc_relative_path (ss_sidecars st0)"
    and docs: "documents_ok rfc (ss_sidecars st)" using inv by (simp_all add: s matching_inv_def)
  have len: "length (ss_sidecars st) = length (ss_sidecars st0)" using arg_cong [OF paths, of length] by simp
  then have mem: "?sidecar \<in> set (ss_sidecars st)" using i by simp
  have "?path \<in> set (map dsc_relative_path (ss_sidecars st0))" unfolding paths [symmetric] using mem by simp
  then have dir: "is_album_document ?path \<Longrightarrow> valid_album (path_filename (path_parent ?path))" using dirs unfolding album_directories_ok_def by blast
  have old: "document_ok rfc False d" if "dsc_takeout_document ?sidecar = Some d" for d
    using docs mem that by (auto simp: documents_ok_def)
  show ?thesis
  proof (cases "dsc_kind ?sidecar = Json")
    case False
    then show ?thesis using inv by (simp add: s takeout_sidecar_def unsupported_family_def push_warning_def matching_inv_def)
  next
    case True
    obtain r w1 where r: "parse_document tb tk io ?sidecar (is_album_document ?path) w = (r, w1)" by fastforce
    show ?thesis
    proof (cases r)
      case (Err e)
      then show ?thesis using inv True r by (simp add: s takeout_sidecar_def record_parse_error_def push_error_def matching_inv_def)
    next
      case (Ok d)
      let ?d = "takeout_title ?path d"
      let ?st1 = "st \<lparr>ss_sidecars := (ss_sidecars st)[i := ?sidecar \<lparr>dsc_takeout_document := Some ?d\<rparr>]\<rparr>"
      have ok: "document_ok rfc False ?d" "valid_album (td_title ?d)"
        using takeout_title_ok [OF _ dir] parse_document_ok [OF tables r [unfolded Ok] old] by blast+
      have "documents_ok rfc (ss_sidecars ?st1)"
        using docs ok(1) set_update_subset_insert by (fastforce simp: documents_ok_def)
      moreover have "map dsc_relative_path (ss_sidecars ?st1) = map dsc_relative_path (ss_sidecars st)"
        by (simp add: map_update) (metis list_update_id map_update)
      ultimately have "matching_inv rfc st0 (?st1, tm)" using inv paths by (simp add: s matching_inv_def)
      then have "matching_inv rfc st0 (takeout_match i ?path ?d ?st1 tm)" using takeout_match_inv i ok(2) by blast
      then show ?thesis using True r Ok by (simp add: s takeout_sidecar_def Let_def)
    qed
  qed
qed

section \<open>Attaching\<close>

text \<open>A stage that only adds evidence and valid metadata.\<close>

definition enriches :: "rfc3339 \<Rightarrow> 'p ScanState \<Rightarrow> 'p ScanState \<Rightarrow> bool" where
  "enriches rfc st st' \<longleftrightarrow> map media_base (ss_media st') = map media_base (ss_media st) \<and> ss_sidecars st' = ss_sidecars st \<and>
     ((\<forall>m \<in> set (ss_media st). metadata_ok rfc m) \<longrightarrow> (\<forall>m \<in> set (ss_media st'). metadata_ok rfc m))"

lemma enriches_refl [simp]: "enriches rfc st st"
  by (simp add: enriches_def)

lemma enriches_trans: "enriches rfc a b \<Longrightarrow> enriches rfc b c \<Longrightarrow> enriches rfc a c"
  by (simp add: enriches_def)

lemma enriches_fold:
  assumes "\<And>x st. x \<in> set xs \<Longrightarrow> ss_sidecars st = ss \<Longrightarrow> enriches rfc st (f x st)" "ss_sidecars st = ss"
  shows "enriches rfc st (fold f xs st)"
  using assms
proof (induction xs arbitrary: st)
  case (Cons x xs)
  have "enriches rfc st (f x st)" using Cons.prems by simp
  moreover from this have "enriches rfc (f x st) (fold f xs (f x st))"
    using Cons.prems by (intro Cons.IH) (auto simp: enriches_def)
  ultimately show ?case using enriches_trans by simp
qed simp

lemma enriches_update:
  assumes "\<And>m. media_base (f m) = media_base m" "\<And>m. metadata_ok rfc m \<Longrightarrow> metadata_ok rfc (f m)"
  shows "enriches rfc st (update_media i f st)"
proof (cases "i < length (ss_media st)")
  case True
  have "map media_base ((ss_media st)[i := f (ss_media st ! i)]) = map media_base (ss_media st)"
    by (simp add: map_update assms(1)) (metis list_update_id map_update)
  moreover have "\<forall>m \<in> set ((ss_media st)[i := f (ss_media st ! i)]). metadata_ok rfc m" if "\<forall>m \<in> set (ss_media st). metadata_ok rfc m"
    using that assms(2) True set_update_subset_insert by fastforce
  ultimately show ?thesis by (simp add: enriches_def update_media_def)
next
  case False
  then have "(ss_media st)[i := f (ss_media st ! i)] = ss_media st" by (simp add: list_update_beyond)
  then show ?thesis by (simp add: enriches_def update_media_def)
qed

lemma attach_sidecar_ok: "rule \<noteq> [] \<Longrightarrow> metadata_ok rfc m \<Longrightarrow> metadata_ok rfc (attach_sidecar s rule m)"
  by (simp add: metadata_ok_def) (simp add: attach_sidecar_def)

lemma attach_matched_enriches:
  fixes st :: "'p ScanState"
  assumes docs: "documents_ok rfc (ss_sidecars st)" and items: "\<forall>item \<in> set (snd e). fst item < length (ss_sidecars st) \<and> snd item \<noteq> []"
  shows "enriches rfc st (attach_matched e st)"
proof -
  obtain m selected where e: "e = (m, selected)" by (cases e)
  let ?docs = "List.map_filter (\<lambda>item. dsc_takeout_document (ss_sidecars st ! fst item)) selected"
  have ok: "NormalizedMetadata_is_valid rfc (td_metadata d)" if "d \<in> set ?docs" for d
    using that docs items by (fastforce simp: e map_filter_def documents_ok_def document_ok_def)
  have attach: "enriches rfc s (fold (\<lambda>item s. update_media m (attach_sidecar (ss_sidecars s ! fst item) (snd item)) s) selected s)" for s :: "'p ScanState"
  proof (rule enriches_fold [OF _ refl])
    fix item :: "nat \<times> string" and s' :: "'p ScanState" assume "item \<in> set selected"
    then have "snd item \<noteq> []" using items by (simp add: e)
    then show "enriches rfc s' (update_media m (attach_sidecar (ss_sidecars s' ! fst item) (snd item)) s')"
      by (intro enriches_update attach_sidecar_ok) simp_all
  qed
  have first: "enriches rfc st (case ?docs of [] \<Rightarrow> st
      | d # _ \<Rightarrow> update_media m (\<lambda>x. x \<lparr>dm_normalized_metadata := Some (td_metadata d)\<rparr>) st)"
    using ok by (auto simp: metadata_ok_def rules_named_def intro!: enriches_update split: list.split)
  show ?thesis
    using enriches_trans [OF first attach] by (auto simp: e attach_matched_def Let_def push_error_def enriches_def)
qed

lemma attach_albums_enriches:
  fixes st :: "'p ScanState"
  assumes "\<forall>e \<in> set albums. valid_album (fst (snd e))"
  shows "enriches rfc st (attach_albums albums st)"
proof -
  have "media_base (attach_album albums ss m) = media_base m" for ss and m :: "'p DiscoveredMedia"
    by (auto simp: attach_album_def split: option.split)
  moreover have "metadata_ok rfc (attach_album albums ss m)" if m: "metadata_ok rfc m" for ss and m :: "'p DiscoveredMedia"
  proof (cases "btm_get albums (path_parent (dm_relative_path m))")
    case (Some v)
    then have "valid_album (fst v)" using assms map_of_SomeD by fastforce
    then have "NormalizedMetadata_is_valid rfc (add_album (fst v) (dm_normalized_metadata m))"
      using m by (intro add_album_valid) (auto simp: metadata_ok_def)
    then show ?thesis using m Some by (cases v) (simp add: attach_album_def metadata_ok_def attach_sidecar_def rules_named_def)
  qed (use m in \<open>simp add: attach_album_def\<close>)
  ultimately show ?thesis by (auto simp: enriches_def attach_albums_def)
qed

section \<open>The reconciled state\<close>

lemma reconcile_complete_media:
  "map media_core (ss_media (reconcile_complete hex lower st)) = map media_core (ss_media st)"
  "list_all rules_named (ss_media st) \<Longrightarrow> list_all rules_named (ss_media (reconcile_complete hex lower st))"
proof -
  have "map media_core (ss_media (reconcile_complete hex lower st)) = map media_core (reconcile_live_photos hex lower (ss_media st))"
    by (simp add: reconcile_complete_def Let_def)
  then show "map media_core (ss_media (reconcile_complete hex lower st)) = map media_core (ss_media st)"
    by (simp add: reconcile_live_photos_media(1))
  assume "list_all rules_named (ss_media st)"
  then have "list_all rules_named (reconcile_live_photos hex lower (ss_media st))" by (rule reconcile_live_photos_media(2))
  then show "list_all rules_named (ss_media (reconcile_complete hex lower st))" by (simp add: reconcile_complete_def Let_def list_all_iff)
qed

lemma reconcile_complete_origin:
  assumes "m \<in> set (ss_media (reconcile_complete hex lower st))" "\<forall>a \<in> set (ss_media st). metadata_ok rfc a"
  obtains a where "a \<in> set (ss_media st)" "media_base m = media_base a" "metadata_ok rfc m"
proof -
  have "media_core m \<in> set (map media_core (ss_media (reconcile_complete hex lower st)))" using assms(1) by simp
  then obtain a where a: "a \<in> set (ss_media st)" "media_core m = media_core a" unfolding reconcile_complete_media(1) by auto
  have "rules_named m" using reconcile_complete_media(2) [of st hex lower] assms by (auto simp: list_all_iff metadata_ok_def)
  then have "metadata_ok rfc m" using assms(2) a media_core_fields(5) [OF a(2)] by (simp add: metadata_ok_def)
  moreover have "media_base m = media_base a" using media_base_simps(5) a(2) by metis
  ultimately show ?thesis using that a(1) by blast
qed

lemma unmatched_media_media [simp]: "ss_media (unmatched_media p st) = ss_media st"
proof -
  have "ss_media (fold (\<lambda>m s. if p m then s else push_warning (d m) s) ms st) = ss_media st" for ms d
    by (induction ms arbitrary: st) (simp_all add: push_warning_def)
  then show ?thesis by (simp add: unmatched_media_def)
qed

lemma map_via_base:
  assumes "map media_base xs = map media_base ys" "\<And>m m'. media_base m = media_base m' \<Longrightarrow> f m = f m'"
  shows "map f xs = map f ys"
  using assms(1)
proof (induction xs arbitrary: ys)
  case (Cons x xs)
  then obtain y ys' where y: "ys = y # ys'" "media_base x = media_base y" "map media_base xs = map media_base ys'" by auto
  show ?case unfolding y(1) list.map using assms(2) [OF y(2)] Cons.IH [OF y(3)] by simp
qed simp

lemma takeout_reconcile_media:
  assumes run: "takeout_reconcile tb tk io st w = (st', w')"
    and tables: "takeout_tables_ok rfc tk" and dirs: "album_directories_ok (map dsc_relative_path (ss_sidecars st))"
    and fresh: "documents_ok rfc (ss_sidecars st)" "\<forall>m \<in> set (ss_media st). metadata_ok rfc m"
  shows "distinct (map dm_relative_path (ss_media st'))" "distinct (map content_key (ss_media st'))"
    "set (map content_key (ss_media st')) = set (map content_key (ss_media (reconcile_prepare st)))"
    "m \<in> set (ss_media st') \<Longrightarrow> metadata_ok rfc m \<and> (\<exists>a \<in> set (ss_media st). media_base m = media_base a)"
proof -
  let ?st0 = "reconcile_prepare st"
  obtain st1 tm w1 where loop: "fold_world (takeout_sidecar tb tk io) [0..<length (ss_sidecars ?st0)] (?st0, \<lparr>tm_matches = [], tm_albums = []\<rparr>) w = ((st1, tm), w1)"
    by (metis prod.collapse)
  let ?st2 = "attach_asset_documents (tm_matches tm) st1"
  let ?st3 = "attach_albums (tm_albums tm) ?st2"
  let ?st4 = "collapse_content_aliases ?st3"
  have st': "st' = reconcile_complete (tb_hex_sha256 tb) (tb_to_lowercase tb) (unmatched_media has_takeout_rule ?st4)"
    using run loop by (simp add: takeout_reconcile_def Let_def)
  have sub: "set (ss_media ?st0) \<subseteq> set (ss_media st)" "set (ss_sidecars ?st0) \<subseteq> set (ss_sidecars st)"
    using mset_eq_setD [OF reconcile_prepare_media(1), of st] by (auto simp: reconcile_prepare_def Let_def remove_unicode_collisions_eq)
  have dirs0: "album_directories_ok (map dsc_relative_path (ss_sidecars ?st0))" using dirs sub(2) by (auto simp: album_directories_ok_def)
  have "matching_inv rfc ?st0 (?st0, \<lparr>tm_matches = [], tm_albums = []\<rparr>)"
    using fresh(1) sub(2) by (auto simp: matching_inv_def documents_ok_def matching_ok_def)
  then have "matching_inv rfc ?st0 (fst ((st1, tm), w1))" unfolding loop [symmetric]
    by (rule fold_world_invariant [rotated]) (use takeout_sidecar_inv [OF _ _ tables dirs0] in simp)
  then have inv: "ss_media st1 = ss_media ?st0" "documents_ok rfc (ss_sidecars st1)" "length (ss_sidecars st1) = length (ss_sidecars ?st0)"
      "matching_ok (length (ss_sidecars ?st0)) tm"
    unfolding matching_inv_def by (auto dest: map_eq_imp_length_eq)
  have "enriches rfc st1 ?st2" unfolding attach_asset_documents_def
    by (rule enriches_fold [OF _ refl]) (use inv in \<open>simp add: matching_ok_def attach_matched_enriches\<close>)
  moreover have "enriches rfc ?st2 ?st3" using inv(4) by (intro attach_albums_enriches) (simp add: matching_ok_def)
  ultimately have en: "enriches rfc st1 ?st3" by (rule enriches_trans)
  have base3: "map media_base (ss_media ?st3) = map media_base (ss_media ?st0)" using en inv(1) by (simp add: enriches_def)
  have ok3: "\<forall>a \<in> set (ss_media ?st3). metadata_ok rfc a" using en inv(1) sub(1) fresh(2) by (auto simp: enriches_def)
  have paths3: "map dm_relative_path (ss_media ?st3) = map dm_relative_path (ss_media ?st0)"
    using map_via_base [OF base3] media_base_fields(1) by blast
  have keys3: "map content_key (ss_media ?st3) = map content_key (ss_media ?st0)"
    using map_via_base [OF base3] media_base_fields(4) by blast
  have core: "map media_core (ss_media st') = map media_core (ss_media ?st4)" unfolding st' by (simp add: reconcile_complete_media(1))
  have base4: "map media_base (ss_media st') = map media_base (ss_media ?st4)"
    using arg_cong [OF core, of "map media_base"] by (simp add: comp_def)
  have keys: "map content_key (ss_media st') = map content_key (ss_media ?st4)" using map_via_base [OF base4] media_base_fields(4) by blast
  have "distinct (map dm_relative_path (ss_media ?st3))"
    unfolding paths3 using reconcile_prepare_media(2) [of st] by (simp add: scan_paths_def)
  then show "distinct (map dm_relative_path (ss_media st'))"
    using collapse_paths map_via_base [OF base4] media_base_fields(1) by metis
  show "distinct (map content_key (ss_media st'))" unfolding keys by (rule collapse_media(1))
  show "set (map content_key (ss_media st')) = set (map content_key (ss_media ?st0))" unfolding keys collapse_media(2) keys3 ..
  have ok4: "\<forall>a \<in> set (ss_media ?st4). metadata_ok rfc a" using collapse_media(4) [OF ok3] by blast
  assume "m \<in> set (ss_media st')"
  then obtain a where a: "a \<in> set (ss_media ?st4)" "media_base m = media_base a" "metadata_ok rfc m"
    unfolding st' by (rule reconcile_complete_origin) (use ok4 in auto)
  obtain b where b: "b \<in> set (ss_media ?st3)" "media_base a = media_base b" using collapse_media(3) [OF a(1)] by blast
  have "media_base b \<in> media_base ` set (ss_media ?st0)" using b(1) arg_cong [OF base3, of set] by auto
  then show "metadata_ok rfc m \<and> (\<exists>a \<in> set (ss_media st). media_base m = media_base a)" using a b(2) sub(1) by auto
qed

section \<open>The plan\<close>

definition asset_content :: "CandidateAsset \<Rightarrow> u64 \<times> string" where
  "asset_content a = (ca_byte_len a, ca_content_sha256 a)"

lemma finalize_plan_contents:
  "mset (map asset_content (np_assets (finalize_plan hex schema kind label config st))) = mset (map content_key (ss_media st))"
  by (simp add: finalize_plan_def Let_def candidate_asset_def asset_content_def content_key_def [abs_def] image_mset.compositionality comp_def)

lemma sidecar_found_fresh: "sidecar_found tb config s \<Longrightarrow> dsc_takeout_document s = None"
  by (auto simp: sidecar_found_def discovered_sidecar_def)

lemma takeout_plan_ok:
  assumes walk: "discovered_ok tb config st" "fs_max_path_bytes config \<le> 65536" and run: "takeout_reconcile tb tk io st w = (st', w')"
    and tables: "takeout_tables_ok (tb_rfc3339 tb) tk" and dirs: "album_directories_ok (map dsc_relative_path (ss_sidecars st))"
    and digest: "\<And>bytes. length (tb_hex_sha256 tb bytes) = 64" "inj_on (tb_hex_sha256 tb) (operation_bytes ` set (ss_media st))" and label: "label \<noteq> []"
  shows "normalized_plan_ok (tb_rfc3339 tb) (finalize_plan (tb_hex_sha256 tb) 2 GoogleTakeout label config st')"
    "distinct (map content_key (ss_media st'))" "set (map content_key (ss_media st')) = set (map content_key (ss_media (reconcile_prepare st)))"
proof -
  have ready: "\<forall>m \<in> set (ss_media st). media_ready (tb_rfc3339 tb) 2 m"
    using walk media_found_ready(1) [OF _ walk(2) digest(1)] by (simp add: discovered_ok_def list_all_iff)
  have docs: "documents_ok (tb_rfc3339 tb) (ss_sidecars st)"
    using walk(1) sidecar_found_fresh by (fastforce simp: discovered_ok_def list_all_iff documents_ok_def)
  have "\<forall>m \<in> set (ss_media st). metadata_ok (tb_rfc3339 tb) m" using ready by (simp add: media_ready_def metadata_ok_def)
  note media = takeout_reconcile_media [OF run tables dirs docs this]
  show "distinct (map content_key (ss_media st'))" "set (map content_key (ss_media st')) = set (map content_key (ss_media (reconcile_prepare st)))"
    using media(2,3) .
  show "normalized_plan_ok (tb_rfc3339 tb) (finalize_plan (tb_hex_sha256 tb) 2 GoogleTakeout label config st')"
  proof (rule finalize_plan_ok)
    show "\<forall>m \<in> set (ss_media st'). media_ready (tb_rfc3339 tb) 2 m"
    proof
      fix m assume "m \<in> set (ss_media st')"
      then obtain a where a: "a \<in> set (ss_media st)" "media_base m = media_base a" and m: "metadata_ok (tb_rfc3339 tb) m" using media(4) by blast
      then show "media_ready (tb_rfc3339 tb) 2 m"
        using ready media_base_fields [OF a(2)] by (auto simp: media_ready_def metadata_ok_def)
    qed
    show "inj_on (tb_hex_sha256 tb) (operation_bytes ` set (ss_media st'))"
      by (rule inj_on_subset [OF digest(2)]) (use media(4) media_base_fields(7) in blast)
    show "sorted (map pd_key (ss_warnings st'))" "sorted (map pd_key (ss_errors st'))"
      using run by (auto simp: takeout_reconcile_def Let_def reconcile_complete_def sorted_canonical split: prod.splits)
  qed (use media(1) digest(1) label in \<open>auto simp: schema_source_ok_def\<close>)
qed

end
