(* ===== verification/Source_Takeout_Scan.thy ===== *)
theory Source_Takeout_Scan
  imports Source_Takeout_Plan "HOL-Library.Code_Target_Nat"
begin

text \<open>
  The properties of a Takeout scan as a whole, with concrete exports.
\<close>

text \<open>C36: the scan of a decompressed Takeout export that reaches the end of its walk returns a plan: the plan
  passes its own validation, holds every content that was found (files whose portable paths collide apart)
  and holds each content once, so no file is uploaded twice however often the export repeats it. This
  needs of the parsers only that a printed instant or coordinate reads back as itself, of SHA-256 the digest
  length and that identifiers do not collide, and that the directories that name albums have usable names.\<close>

theorem takeout_scan_succeeds:
  assumes config: "TakeoutScanConfig_validate config = Ok ()" "FolderScanConfig_validate (tc_scan config) = Ok ()"
    and root: "single_directory io [root] w = (Some root, w1)" "validate_layout io root w1 = (Ok (), w2)"
      "validate_root_and_label io root label w2 = (Ok (), w3)"
    and walk: "discover tb io (tc_scan config) keep_all_paths root ScanState_new w3 = (Ok (), st, w4)" "scan_check_cancelled io w4 = (Ok (), w5)"
    and tables: "takeout_tables_ok (tb_rfc3339 tb) tk" and dirs: "album_directories_ok (map dsc_relative_path (ss_sidecars st))"
    and digest: "\<And>bytes. length (tb_hex_sha256 tb bytes) = 64" "inj_on (tb_hex_sha256 tb) (operation_bytes ` set (ss_media st))"
  shows "\<exists>resolved. fst (scan_google_takeout_inputs_resolved tb tk io archives [root] label config w) = Ok resolved \<and>
    NormalizedPlan_validate (tb_rfc3339 tb) (rp_plan resolved) = Ok () \<and>
    distinct (map asset_content (np_assets (rp_plan resolved))) \<and>
    set (map asset_content (np_assets (rp_plan resolved))) = set (map content_key (ss_media (reconcile_prepare st)))"
proof -
  let ?hex = "tb_hex_sha256 tb"
  obtain st1 w6 where rec: "takeout_reconcile tb tk io st w5 = (st1, w6)" by fastforce
  obtain st2 w7 where rp: "report_progress io Reconciliation st1 w6 = (st2, w7)" by fastforce
  let ?plan = "finalize_plan ?hex 2 GoogleTakeout label (tc_scan config) st1"
  have plan: "finalize_plan ?hex 2 GoogleTakeout label (tc_scan config) st2 = ?plan"
    using report_progress_finalize [of _ _ _ _ _ io Reconciliation st1 w6] rp by simp
  note ok = takeout_plan_ok [OF discover_ok [OF walk(1)] validate_path_limit [OF config(2)] rec tables dirs digest validate_root_label [OF root(3)]]
  obtain event where "finish_resolved (tb_rfc3339 tb) ?plan (resolved_files st2) (saturating_add (ss_event_sequence st2) 1)
      = Ok (event, \<lparr>rp_plan = ?plan, rp_files = resolved_files st2\<rparr>)"
    using finish_resolved_ok [OF ok(1)] by blast
  then have "fst (scan_google_takeout_inputs_resolved tb tk io archives [root] label config w) = Ok \<lparr>rp_plan = ?plan, rp_files = resolved_files st2\<rparr>"
    using config root walk rec rp plan
    by (simp add: scan_google_takeout_inputs_resolved_def scan_resolved_internal_def TAKEOUT_SCAN_def Let_def NORMALIZED_PLAN_SCHEMA_VERSION_V2_def)
  moreover have "distinct (map asset_content (np_assets ?plan))"
    using ok(2) mset_eq_imp_distinct_iff [OF finalize_plan_contents] by blast
  moreover have "set (map asset_content (np_assets ?plan)) = set (map content_key (ss_media (reconcile_prepare st)))"
    using mset_eq_setD [OF finalize_plan_contents] ok(3) by metis
  moreover have "NormalizedPlan_validate (tb_rfc3339 tb) ?plan = Ok ()"
    using ok(1) NormalizedPlan_validate_ok_iff [of "tb_rfc3339 tb" ?plan] by (auto simp: is_ok_iff)
  ultimately show ?thesis by (intro exI [of _ "\<lparr>rp_plan = ?plan, rp_files = resolved_files st2\<rparr>"]) simp
qed

text \<open>An export with the given files in its root directory; every file holds two bytes, and a read after
  the first gives nothing.\<close>

definition export_io :: "native list \<Rightarrow> nat scan_io" where
  "export_io listing =
     (let meta = (\<lambda>t. \<lparr>fm_type = t, fm_len = 2, fm_modified = Some 5000000, fm_created = None, fm_mode = 420, fm_dev = 1, fm_ino = 7\<rparr>) in
      \<lparr>io_cancelled = (\<lambda>w. (False, w)), io_read_dir = (\<lambda>d w. (Some (map Ok listing), w)),
       io_symlink_metadata = (\<lambda>p w. (Some (meta (if p \<in> {[''r''], [''r'', ''Takeout''], [''r'', ''Takeout'', ''Google Photos'']} then TypeDir else TypeFile)), w)),
       io_metadata = (\<lambda>p w. (Some (meta TypeFile), w)), io_open = (\<lambda>p w. (Some 0, 0)), io_file_metadata = (\<lambda>h w. (Some (meta TypeFile), w)),
       io_read = (\<lambda>h n w. (Some (if w = 0 then take n ''{}'' else []), Suc w)), io_before_read = (\<lambda>p w. w), io_observe = (\<lambda>e w. w)\<rparr>)"

definition no_titles :: takeout_tables where
  "no_titles =
     \<lparr>tk_json = (\<lambda>_. Some \<lparr>rd_title = [], rd_description = None, rd_photo_taken_time = None, rd_creation_time = None,
        rd_geo_data_exif = None, rd_geo_data = None\<rparr>), tk_format_unix = (\<lambda>_. None)\<rparr>"

abbreviation export_scan where
  "export_scan listing \<equiv> fst (scan_google_takeout_inputs_resolved sample_tables no_titles (export_io listing) (\<lambda>w. (Err ScanCancelled, w)) [[''r'']]
     ''label'' TakeoutScanConfig_default 0)"

abbreviation export_walk where
  "export_walk \<equiv> discover sample_tables (export_io [[''r'', ''b.mov''], [''r'', ''b.jpg'']]) (tc_scan TakeoutScanConfig_default) keep_all_paths
     [''r''] ScanState_new 0"

lemma export_discover: "export_walk = (Ok (), fst (snd export_walk), snd (snd export_walk))"
proof -
  have "fst export_walk = Ok ()" by code_simp
  then show ?thesis by (simp add: prod_eq_iff)
qed

lemma export_not_cancelled: "scan_check_cancelled (export_io listing) w = (Ok (), w)"
  by (simp add: scan_check_cancelled_def export_io_def Let_def)

theorem takeout_scan_succeeds_witness:
  "\<exists>resolved. export_scan [[''r'', ''b.mov''], [''r'', ''b.jpg'']] = Ok resolved \<and> distinct (map asset_content (np_assets (rp_plan resolved)))"
proof -
  let ?io = "export_io [[''r'', ''b.mov''], [''r'', ''b.jpg'']]"
  let ?st = "fst (snd export_walk)"
  have "distinct (map (tb_hex_sha256 sample_tables) (map operation_bytes (ss_media ?st)))" by code_simp
  then have inj: "inj_on (tb_hex_sha256 sample_tables) (operation_bytes ` set (ss_media ?st))" by (simp only: distinct_map set_map)
  have "map dsc_relative_path (ss_sidecars ?st) = []" by code_simp
  then have dirs: "album_directories_ok (map dsc_relative_path (ss_sidecars ?st))" by (simp add: album_directories_ok_def)
  have tables: "takeout_tables_ok (tb_rfc3339 sample_tables) no_titles" by (simp add: takeout_tables_ok_def no_titles_def geo_prints_def)
  have "TakeoutScanConfig_validate TakeoutScanConfig_default = Ok ()" "FolderScanConfig_validate (tc_scan TakeoutScanConfig_default) = Ok ()"
    "single_directory ?io [[''r'']] 0 = (Some [''r''], 0)" "validate_layout ?io [''r''] 0 = (Ok (), 0)"
    "validate_root_and_label ?io [''r''] ''label'' 0 = (Ok (), 0)"
    by code_simp+
  from takeout_scan_succeeds [OF this(1-5) export_discover export_not_cancelled tables dirs sample_digest inj] show ?thesis by blast
qed

text \<open>A directory document with an empty title takes the name of its directory for the album; in the root of the
  export that name is empty. The scan then fails with the rejection of its own plan, and not with a diagnostic
  for the document.\<close>

theorem takeout_root_album_rejected:
  "export_scan [[''r'', ''metadata.json''], [''r'', ''b.jpg'']] = Err (ScanInvalidPlan PVE_InvalidNormalizedMetadata)"
proof -
  have "map_ok (\<lambda>_. ()) (export_scan [[''r'', ''metadata.json''], [''r'', ''b.jpg'']]) = Err (ScanInvalidPlan PVE_InvalidNormalizedMetadata)"
    by code_simp
  then show ?thesis by (cases "export_scan [[''r'', ''metadata.json''], [''r'', ''b.jpg'']]") simp_all
qed

end
