(* ===== verification/Source_Albums.thy ===== *)
theory Source_Albums
  imports Source_Takeout
begin

text \<open>
  \<open>immich-sources/src/apple_photos.rs\<close>, \<open>picasa.rs\<close> and \<open>picasa_ini.rs\<close>: the adapters that scan a folder as it is and
  then read albums off folders, or albums, captions and dates off Picasa's files and file names. The
  scan of archives is an argument; JSON encoders and the calendar of the \<open>time\<close> crate are parameters.
\<close>

section \<open>Apple Photos\<close>

definition noise_component :: "string \<Rightarrow> bool" where
  "noise_component c \<longleftrightarrow>
     list_ex (eq_ignore_ascii_case c) [''@eaDir'', ''.Spotlight-V100'', ''.photostructure'', ''Recently Deleted'', ''.DS_Store'', ''Thumbs.db'']
     \<or> starts_with c ''._''"

definition export_noise_path :: "string \<Rightarrow> string option" where
  "export_noise_path path =
     (let components = split_on (CHR ''/'') path in
      case find (\<lambda>i. noise_component (components ! i)) [0..<length components] of
        None \<Rightarrow> None
      | Some i \<Rightarrow> Some (join ''/'' (take (Suc i) components)))"

text \<open>The album of a path, which both adapters read off its folders alike.\<close>

definition folder_album_name :: "AlbumMode \<Rightarrow> string \<Rightarrow> string \<Rightarrow> string option" where
  "folder_album_name mode joiner path =
     Option.bind (rsplit_once (CHR ''/'') path) (\<lambda>(parent, _).
       case mode of
         AlbumNone \<Rightarrow> None
       | AlbumFolder \<Rightarrow> Some (last (split_on (CHR ''/'') parent))
       | AlbumPath \<Rightarrow> Some (join joiner (split_on (CHR ''/'') parent)))"

definition album_for :: "string \<Rightarrow> ApplePhotosScanConfig \<Rightarrow> string option" where
  "album_for path config = folder_album_name (ac_album_mode config) (ac_album_path_joiner config) path"

definition add_evidence :: "string \<Rightarrow> string \<Rightarrow> CandidateAsset \<Rightarrow> CandidateAsset" where
  "add_evidence rule outcome a =
     a \<lparr>ca_evidence := remdups_adj (sort_key re_key (ca_evidence a @ [\<lparr>re_rule_id = rule, re_outcome = outcome\<rparr>]))\<rparr>"

definition apple_asset :: "ApplePhotosScanConfig \<Rightarrow> CandidateAsset \<Rightarrow> CandidateAsset" where
  "apple_asset config a =
     (case album_for (ca_relative_path a) config of
        None \<Rightarrow> a
      | Some album \<Rightarrow>
          add_evidence ''META_APPLE_FOLDER_ALBUM_V1'' ''folder_album_selected''
            (a \<lparr>ca_normalized_metadata := Some (add_album album (ca_normalized_metadata a))\<rparr>))"

definition apple_fingerprint :: "(string \<Rightarrow> string) \<Rightarrow> NormalizedPlan \<Rightarrow> string" where
  "apple_fingerprint hex_sha256 plan =
     hex_sha256 (''apple-photos-source-v1'' @ [CHR 0x00]
       @ concat (map (\<lambda>a. field_bytes (ca_relative_path a) @ field_bytes (ca_content_sha256 a)
            @ concat (map (\<lambda>c. field_bytes (mc_relative_path c) @ field_bytes (mc_rule_id c)) (ca_metadata a))
            @ (case ca_normalized_metadata a of None \<Rightarrow> [] | Some m \<Rightarrow> concat (map field_bytes (nm_albums m)))) (np_assets plan))
       @ concat (map (\<lambda>d. field_bytes (pd_rule_id d) @ concat (map field_bytes (pd_paths d))) (np_warnings plan @ np_errors plan)))"

definition with_fingerprint :: "string \<Rightarrow> NormalizedPlan \<Rightarrow> NormalizedPlan" where
  "with_fingerprint sha plan = plan \<lparr>np_source := (np_source plan) \<lparr>sd_fingerprint_sha256 := sha\<rparr>\<rparr>"

definition finish_plan :: "scan_tables \<Rightarrow> ApplePhotosScanConfig \<Rightarrow> NormalizedPlan \<Rightarrow> (NormalizedPlan, ScanError) result" where
  "finish_plan tb config plan =
     (let plan1 = plan \<lparr>np_assets := map (apple_asset config) (np_assets plan)\<rparr>;
          plan2 = with_fingerprint (apple_fingerprint (tb_hex_sha256 tb) plan1) plan1 in
      and_then (map_err ScanInvalidPlan (NormalizedPlan_validate (tb_rfc3339 tb) plan2)) (\<lambda>_. Ok plan2))"

definition finish_resolved_plan ::
  "scan_tables \<Rightarrow> ApplePhotosScanConfig \<Rightarrow> native ResolvedFolderPlan \<Rightarrow> (native ResolvedFolderPlan, ScanError) result" where
  "finish_resolved_plan tb config resolved = map_ok (\<lambda>plan. resolved \<lparr>rp_plan := plan\<rparr>) (finish_plan tb config (rp_plan resolved))"

definition APPLE_SCAN :: "scan_tables \<Rightarrow> (native, 'w) ScanStrategy" where
  "APPLE_SCAN tb =
     \<lparr>sg_source_kind = ApplePhotos, sg_schema_version = NORMALIZED_PLAN_SCHEMA_VERSION_V3,
      sg_reconcile_state = (\<lambda>st w. (reconcile (tb_hex_sha256 tb) (tb_to_lowercase tb) st, w)), sg_skip_path = export_noise_path\<rparr>"

definition scan_apple_photos_inputs_resolved ::
  "scan_tables \<Rightarrow> 'w scan_io \<Rightarrow> ('w \<Rightarrow> (native ResolvedFolderPlan, ScanError) result \<times> 'w) \<Rightarrow> native list \<Rightarrow> string
     \<Rightarrow> ApplePhotosScanConfig \<Rightarrow> 'w \<Rightarrow> (native ResolvedFolderPlan, ScanError) result \<times> 'w" where
  "scan_apple_photos_inputs_resolved tb io scan_archives inputs source_label config w =
     (case ApplePhotosScanConfig_validate config of
        Err e \<Rightarrow> (Err e, w)
      | Ok _ \<Rightarrow>
     (case single_directory io inputs w of
        (Some input, w1) \<Rightarrow>
          (case scan_resolved_internal tb io (ac_scan config) input source_label (APPLE_SCAN tb) w1 of
             (Err e, w2) \<Rightarrow> (Err e, w2)
           | (Ok resolved, w2) \<Rightarrow> (finish_resolved_plan tb config resolved, w2))
      | (None, w1) \<Rightarrow> scan_archive_inputs io inputs scan_archives w1))"

section \<open>Picasa's files\<close>

record PicasaDocument =
  pdoc_album :: "string option"
  pdoc_captions :: "(string, string) btree_map"

datatype IniError = IniOversized | IniInvalidUtf8 | IniInvalidSyntax | IniConflict

text \<open>\<open>str::lines\<close>: a line ends at a line feed, with a carriage return before it; a last empty piece is no line.\<close>

definition strip_cr :: "string \<Rightarrow> string" where
  "strip_cr l = (case strip_suffix [CHR 0x0D] l of None \<Rightarrow> l | Some k \<Rightarrow> k)"

definition str_lines :: "string \<Rightarrow> string list" where
  "str_lines s =
     (let pieces = split_on (CHR 0x0A) s in
      map strip_cr (butlast pieces) @ (if last pieces = [] then [] else [last pieces]))"

definition assign_album :: "string option \<Rightarrow> string \<Rightarrow> (string option, IniError) result" where
  "assign_album target value =
     (if value = [] \<or> length value > 4096 \<or> CHR ''/'' \<in> set value \<or> CHR 0x5C \<in> set value \<or> any_control value
      then Err IniInvalidSyntax
      else if is_some_and target (\<lambda>existing. existing \<noteq> value) then Err IniConflict
      else Ok (Some value))"

definition assign_caption :: "string \<Rightarrow> string \<Rightarrow> (string, string) btree_map \<Rightarrow> ((string, string) btree_map, IniError) result" where
  "assign_caption section_name value captions =
     (let entry = (case btm_get captions section_name of None \<Rightarrow> [] | Some v \<Rightarrow> v) in
      if entry \<noteq> [] \<and> entry \<noteq> value then Err IniConflict
      else if value = [] \<or> any_control_except [CHR 0x0A, CHR 0x0D, CHR 0x09] value then Err IniInvalidSyntax
      else Ok (btm_insert section_name value captions))"

record ini_state =
  ini_document :: PicasaDocument
  ini_section :: "string option"
  ini_sections :: nat

definition ini_header :: "string \<Rightarrow> ini_state \<Rightarrow> (ini_state, IniError) result" where
  "ini_header line s =
     (case Option.bind (strip_prefix ''['' line) (strip_suffix '']'') of
        None \<Rightarrow> Err IniInvalidSyntax
      | Some name \<Rightarrow>
          if name = [] \<or> length name > 4096 \<or> any_control name then Err IniInvalidSyntax
          else if Suc (ini_sections s) > 10000 then Err IniOversized
          else Ok (s \<lparr>ini_sections := Suc (ini_sections s), ini_section := Some name\<rparr>))"

definition ini_entry :: "string \<Rightarrow> ini_state \<Rightarrow> (ini_state, IniError) result" where
  "ini_entry line s =
     (case split_once (CHR ''='') line of
        None \<Rightarrow> Err IniInvalidSyntax
      | Some (raw_key, raw_value) \<Rightarrow>
          (let key = trim raw_key; value = trim raw_value; d = ini_document s in
           if key = [] \<or> length key > 256 \<or> length value > 16384 then Err IniOversized
           else case ini_section s of
             None \<Rightarrow> Err IniInvalidSyntax
           | Some name \<Rightarrow>
               if eq_ignore_ascii_case name ''Picasa'' \<and> eq_ignore_ascii_case key ''name''
               then map_ok (\<lambda>album. s \<lparr>ini_document := d \<lparr>pdoc_album := album\<rparr>\<rparr>) (assign_album (pdoc_album d) value)
               else if eq_ignore_ascii_case key ''caption''
               then map_ok (\<lambda>captions. s \<lparr>ini_document := d \<lparr>pdoc_captions := captions\<rparr>\<rparr>) (assign_caption name value (pdoc_captions d))
               else Ok s))"

definition ini_line :: "nat \<times> string \<Rightarrow> ini_state \<Rightarrow> (ini_state, IniError) result" where
  "ini_line numbered s =
     (let (index, raw_line) = numbered in
      if index \<ge> 20000 \<or> length raw_line > 16384 then Err IniOversized
      else let line = trim raw_line in
        if line = [] \<or> hd line \<in> {CHR '';'', CHR ''#''} then Ok s
        else if starts_with line ''['' then ini_header line s
        else ini_entry line s)"

definition ini_parse :: "string \<Rightarrow> (PicasaDocument, IniError) result" where
  "ini_parse bytes =
     (if length bytes > 1048576 then Err IniOversized
      else if \<not> valid_utf8 bytes then Err IniInvalidUtf8
      else map_ok ini_document
        (fold_result ini_line (enumerate 0 (str_lines bytes))
           \<lparr>ini_document = \<lparr>pdoc_album = None, pdoc_captions = []\<rparr>, ini_section = None, ini_sections = 0\<rparr>))"

section \<open>Picasa\<close>

text \<open>The calendar: \<open>Month::try_from\<close>, \<open>Date::from_calendar_date\<close>, \<open>Time::from_hms\<close> and the RFC 3339 print of the instant in
  UTC, given year, month, day, hour, minute and second; and \<open>serde_json::to_vec\<close> of assets, warnings and errors.\<close>

record picasa_tables =
  pt_instant :: "int \<Rightarrow> nat \<Rightarrow> nat \<Rightarrow> nat \<Rightarrow> nat \<Rightarrow> nat \<Rightarrow> string option"
  pt_json :: "CandidateAsset list \<times> PlanDiagnostic list \<times> PlanDiagnostic list \<Rightarrow> string option"

record Documents =
  docs_parsed :: "(string, PicasaDocument) btree_map"
  docs_errors :: "PlanDiagnostic list"

definition Documents_default :: Documents where
  "Documents_default = \<lparr>docs_parsed = [], docs_errors = []\<rparr>"

definition Documents_invalid :: "string \<Rightarrow> Documents \<Rightarrow> Documents" where
  "Documents_invalid directory docs =
     docs \<lparr>docs_errors := docs_errors docs @ [diagnostic ''META_PICASA_INI_INVALID_V1'' ''invalid_picasa_ini''
        [if directory = [] then ''.'' else directory]]\<rparr>"

definition Documents_insert :: "string \<Rightarrow> string \<Rightarrow> Documents \<Rightarrow> Documents" where
  "Documents_insert directory bytes docs =
     (case ini_parse bytes of
        Ok document \<Rightarrow>
          if btm_get (docs_parsed docs) directory = None
          then docs \<lparr>docs_parsed := btm_insert directory document (docs_parsed docs)\<rparr>
          else Documents_invalid directory docs
      | Err _ \<Rightarrow> Documents_invalid directory docs)"

definition read_bounded :: "'w scan_io \<Rightarrow> nat \<Rightarrow> 'w \<Rightarrow> (string, ScanError) result \<times> 'w" where
  "read_bounded io handle w =
     (case read_to_end io handle 1048577 [] w of
        (None, w1) \<Rightarrow> (Err (ScanInvalidArchive ''cannot read Picasa INI''), w1)
      | (Some bytes, w1) \<Rightarrow> (if length bytes > 1048576 then Err (ScanLimitExceeded ''max_picasa_ini_bytes'') else Ok bytes, w1))"

text \<open>\<open>root.join(&parent).join(".picasa.ini")\<close>: the portable path of the directory is joined to the root.\<close>

definition ini_path :: "native \<Rightarrow> string \<Rightarrow> native" where
  "ini_path root parent = root @ (if parent = [] then [] else split_on (CHR ''/'') parent) @ [''.picasa.ini'']"

fun read_documents :: "'w scan_io \<Rightarrow> native \<Rightarrow> string list \<Rightarrow> Documents \<Rightarrow> 'w \<Rightarrow> (Documents, ScanError) result \<times> 'w" where
  "read_documents io root [] docs w = (Ok docs, w)"
| "read_documents io root (parent # parents) docs w =
     (case io_symlink_metadata io (ini_path root parent) w of
        (None, w1) \<Rightarrow> read_documents io root parents docs w1
      | (Some m, w1) \<Rightarrow>
          if fm_type m \<noteq> TypeFile then read_documents io root parents (Documents_invalid parent docs) w1
          else
            (case io_open io (ini_path root parent) w1 of
               (None, w2) \<Rightarrow> (Err ScanInvalidRoot, w2)
             | (Some handle, w2) \<Rightarrow>
                 (case read_bounded io handle w2 of
                    (Err e, w3) \<Rightarrow> (Err e, w3)
                  | (Ok bytes, w3) \<Rightarrow> read_documents io root parents (Documents_insert parent bytes docs) w3)))"

definition directory_documents :: "'w scan_io \<Rightarrow> native \<Rightarrow> NormalizedPlan \<Rightarrow> 'w \<Rightarrow> (Documents, ScanError) result \<times> 'w" where
  "directory_documents io root plan w =
     read_documents io root (bts_collect (map (\<lambda>a. path_parent (ca_relative_path a)) (np_assets plan))) Documents_default w"

section \<open>Dates in file names\<close>

text \<open>\<open>str::parse\<close> of an integer: an optional plus sign, for signed types also a minus sign, then digits.\<close>

definition parse_digits :: "string \<Rightarrow> int option" where
  "parse_digits s = (if s = [] \<or> \<not> list_all is_ascii_digit s then None else Some (decimal_value s))"

definition parse_u8 :: "string \<Rightarrow> nat option" where
  "parse_u8 s =
     (case parse_digits (case s of c # cs \<Rightarrow> if c = CHR ''+'' then cs else s | [] \<Rightarrow> []) of
        None \<Rightarrow> None
      | Some n \<Rightarrow> if n \<le> 255 then Some (nat n) else None)"

definition parse_i32 :: "string \<Rightarrow> int option" where
  "parse_i32 s =
     (let (neg, ds) = split_sign s in
      case parse_digits ds of
        None \<Rightarrow> None
      | Some n \<Rightarrow> let v = (if neg then - n else n) in if - (2 ^ 31) \<le> v \<and> v < 2 ^ 31 then Some v else None)"

definition byte_range :: "string \<Rightarrow> nat \<Rightarrow> nat \<Rightarrow> string" where
  "byte_range name from to = take (to - from) (drop from name)"

definition filename_timestamp :: "picasa_tables \<Rightarrow> string \<Rightarrow> string option" where
  "filename_timestamp pt name =
     (if length name < 15 \<or> name ! 8 \<noteq> CHR ''-'' then None
      else
        Option.bind (parse_i32 (byte_range name 0 4)) (\<lambda>year.
        Option.bind (parse_u8 (byte_range name 4 6)) (\<lambda>month.
        Option.bind (parse_u8 (byte_range name 6 8)) (\<lambda>day.
        Option.bind (parse_u8 (byte_range name 9 11)) (\<lambda>hour.
        Option.bind (parse_u8 (byte_range name 11 13)) (\<lambda>minute.
        Option.bind (parse_u8 (byte_range name 13 15)) (\<lambda>second. pt_instant pt year month day hour minute second)))))))"

section \<open>Assembling a Picasa plan\<close>

definition folder_album :: "string \<Rightarrow> PicasaScanConfig \<Rightarrow> string option" where
  "folder_album path config = folder_album_name (pc_album_mode config) (pc_album_path_joiner config) path"

definition apply_caption :: "PicasaDocument option \<Rightarrow> CandidateAsset \<times> NormalizedMetadata \<Rightarrow> CandidateAsset \<times> NormalizedMetadata" where
  "apply_caption document s =
     (let (a, m) = s in
      case Option.bind document (\<lambda>d. btm_get (pdoc_captions d) (path_filename (ca_relative_path a))) of
        None \<Rightarrow> (a, m)
      | Some caption \<Rightarrow> (add_evidence ''META_PICASA_CAPTION_V1'' ''picasa_caption_selected'' a, m \<lparr>nm_description := Some caption\<rparr>))"

definition push_album :: "string option \<Rightarrow> string \<Rightarrow> string \<Rightarrow> CandidateAsset \<times> NormalizedMetadata \<Rightarrow> CandidateAsset \<times> NormalizedMetadata" where
  "push_album album rule outcome s =
     (let (a, m) = s in
      case album of
        None \<Rightarrow> (a, m)
      | Some name \<Rightarrow> (add_evidence rule outcome a, m \<lparr>nm_albums := nm_albums m @ [name]\<rparr>))"

definition apply_date :: "picasa_tables \<Rightarrow> PicasaScanConfig \<Rightarrow> CandidateAsset \<times> NormalizedMetadata \<Rightarrow> CandidateAsset \<times> NormalizedMetadata" where
  "apply_date pt config s =
     (let (a, m) = s in
      if pc_filename_date config \<and> nm_taken_at_utc m = None
      then (case filename_timestamp pt (path_filename (ca_relative_path a)) of
              None \<Rightarrow> (a, m)
            | Some t \<Rightarrow> (add_evidence ''META_PICASA_FILENAME_DATE_V1'' ''filename_date_selected'' a, m \<lparr>nm_taken_at_utc := Some t\<rparr>))
      else (a, m))"

definition picasa_apply_metadata :: "picasa_tables \<Rightarrow> PicasaScanConfig \<Rightarrow> PicasaDocument option \<Rightarrow> CandidateAsset \<Rightarrow> CandidateAsset" where
  "picasa_apply_metadata pt config document asset =
     (let m0 = (case ca_normalized_metadata asset of None \<Rightarrow> NormalizedMetadata_default | Some m \<Rightarrow> m);
          a0 = asset \<lparr>ca_normalized_metadata := None\<rparr>;
          s1 = apply_caption document (a0, m0);
          s2 = push_album (if pc_picasa_albums config then Option.bind document pdoc_album else None)
                 ''META_PICASA_ALBUM_V1'' ''picasa_album_selected'' s1;
          s3 = push_album (folder_album (ca_relative_path asset) config) ''META_PICASA_FOLDER_ALBUM_V1'' ''folder_album_selected'' s2;
          (a, m) = apply_date pt config s3;
          m' = m \<lparr>nm_albums := remdups_adj (sort (nm_albums m))\<rparr> in
      if m' \<noteq> NormalizedMetadata_default then a \<lparr>ca_normalized_metadata := Some m'\<rparr> else a)"

definition picasa_finish ::
  "scan_tables \<Rightarrow> picasa_tables \<Rightarrow> PicasaScanConfig \<Rightarrow> Documents \<Rightarrow> native ResolvedFolderPlan \<Rightarrow> (native ResolvedFolderPlan, ScanError) result" where
  "picasa_finish tb pt config docs resolved =
     (let plan = rp_plan resolved;
          assets = map (\<lambda>a. picasa_apply_metadata pt config (btm_get (docs_parsed docs) (path_parent (ca_relative_path a))) a) (np_assets plan);
          errors = canonical_diagnostics (np_errors plan @ docs_errors docs);
          plan1 = plan \<lparr>np_assets := assets, np_errors := errors\<rparr> in
      and_then (ok_or (pt_json pt (assets, np_warnings plan, errors)) (ScanInvalidConfiguration ''Picasa identity serialization failed'')) (\<lambda>json.
        let plan2 = with_fingerprint (tb_hex_sha256 tb (''picasa-source-v1'' @ [CHR 0x00] @ json)) plan1 in
        and_then (map_err ScanInvalidPlan (NormalizedPlan_validate (tb_rfc3339 tb) plan2)) (\<lambda>_. Ok (resolved \<lparr>rp_plan := plan2\<rparr>))))"

definition PICASA_SCAN :: "scan_tables \<Rightarrow> (native, 'w) ScanStrategy" where
  "PICASA_SCAN tb =
     \<lparr>sg_source_kind = Picasa, sg_schema_version = NORMALIZED_PLAN_SCHEMA_VERSION_V4,
      sg_reconcile_state = (\<lambda>st w. (reconcile (tb_hex_sha256 tb) (tb_to_lowercase tb) st, w)), sg_skip_path = keep_all_paths\<rparr>"

text \<open>For archives the scan and the documents of the archives are arguments.\<close>

definition scan_picasa_inputs_resolved ::
  "scan_tables \<Rightarrow> picasa_tables \<Rightarrow> 'w scan_io \<Rightarrow> ('w \<Rightarrow> (native ResolvedFolderPlan \<times> Documents, ScanError) result \<times> 'w) \<Rightarrow> native list \<Rightarrow> string
     \<Rightarrow> PicasaScanConfig \<Rightarrow> 'w \<Rightarrow> (native ResolvedFolderPlan, ScanError) result \<times> 'w" where
  "scan_picasa_inputs_resolved tb pt io scan_archives inputs source_label config w =
     (case PicasaScanConfig_validate config of
        Err e \<Rightarrow> (Err e, w)
      | Ok _ \<Rightarrow>
     (case single_directory io inputs w of
        (Some root, w1) \<Rightarrow>
          (case scan_resolved_internal tb io (pc_scan config) root source_label (PICASA_SCAN tb) w1 of
             (Err e, w2) \<Rightarrow> (Err e, w2)
           | (Ok resolved, w2) \<Rightarrow>
               (case directory_documents io root (rp_plan resolved) w2 of
                  (Err e, w3) \<Rightarrow> (Err e, w3)
                | (Ok docs, w3) \<Rightarrow> (picasa_finish tb pt config docs resolved, w3)))
      | (None, w1) \<Rightarrow>
          (case any_directory io inputs w1 of
             (True, w2) \<Rightarrow> (Err (ScanUnsupportedLayout ''directory and ZIP inputs cannot be mixed''), w2)
           | (False, w2) \<Rightarrow>
               (case scan_archives w2 of
                  (Err e, w3) \<Rightarrow> (Err e, w3)
                | (Ok (resolved, docs), w3) \<Rightarrow> (picasa_finish tb pt config docs resolved, w3)))))"

end
