(* ===== verification/Web_Base.thy ===== *)
theory Web_Base
  imports Client_Http
begin

text \<open>
  What the components of the console share: a configuration error (its fixed
  message), saturating arithmetic on unsigned integers kept as natural numbers,
  the monotonic clock, a mutex (the value it guards, or poisoned by a thread that
  panicked while it held the lock), and runs of calls on a store behind a mutex
  with the invariant rule for them.
\<close>

type_synonym WebConfigError = string

section \<open>Unsigned machine arithmetic, clock and lock\<close>

text \<open>\<open>usize::saturating_add\<close> and \<open>u64::saturating_add\<close>; \<open>saturating_sub\<close> is the difference of
  naturals.\<close>

definition sat_add :: "nat \<Rightarrow> nat \<Rightarrow> nat" where
  "sat_add a b = min (a + b) u64_max"

text \<open>\<open>std::time::Instant\<close> on a 64-bit Unix: nanoseconds of the monotonic clock, whose
  seconds are a signed 64-bit number; \<open>saturating_duration_since\<close> is the difference of
  naturals.\<close>

type_synonym instant = nat

definition instant_checked_add :: "instant \<Rightarrow> duration \<Rightarrow> instant option" where
  "instant_checked_add t d = (if t + d < 2 ^ 63 * 1000000000 then Some (t + d) else None)"

datatype 's mutex = Unlocked 's | Poisoned

text \<open>\<open>let mut state = self.state.lock()...\<close>, with the answer \<open>r\<close> of a poisoned lock.\<close>

definition with_lock :: "'r \<Rightarrow> ('s \<Rightarrow> 'r \<times> 's) \<Rightarrow> 's mutex \<Rightarrow> 'r \<times> 's mutex" where
  "with_lock r f m =
     (case m of Unlocked s \<Rightarrow> (let (x, s') = f s in (x, Unlocked s')) | Poisoned \<Rightarrow> (r, Poisoned))"

section \<open>Stores behind a lock\<close>

lemma apfst_eq [simp]: "apfst f p = (a, s) \<longleftrightarrow> (\<exists>x. p = (x, s) \<and> a = f x)"
  by (cases p) auto

text \<open>
  A store is a function from the instant, the call and the guarded state to an
  answer and a new state. A run lists the calls in the order in which they took
  the lock, with the instants they read and the answers they got. The methods read
  the clock before they take the lock, so a call with an earlier instant may come
  later: a lemma that needs the instants in order says so.
\<close>

type_synonym ('op, 'a) event = "instant \<times> 'op \<times> 'a"

inductive store_run ::
  "(instant \<Rightarrow> 'op \<Rightarrow> 's \<Rightarrow> 'a \<times> 's) \<Rightarrow> (instant \<Rightarrow> 'op \<Rightarrow> 'a) \<Rightarrow> 's \<Rightarrow> ('op, 'a) event list \<Rightarrow> 's mutex \<Rightarrow> bool"
  for call poisoned s0 where
  start: "store_run call poisoned s0 [] (Unlocked s0)"
| call: "store_run call poisoned s0 h m \<Longrightarrow>
     with_lock (poisoned now c) (call now c) m = (a, m') \<Longrightarrow> store_run call poisoned s0 (h @ [(now, c, a)]) m'"

text \<open>The run of a given list of calls.\<close>

primrec store_exec ::
  "(instant \<Rightarrow> 'op \<Rightarrow> 's \<Rightarrow> 'a \<times> 's) \<Rightarrow> (instant \<times> 'op) list \<Rightarrow> 's \<Rightarrow> ('op, 'a) event list \<times> 's" where
  "store_exec call [] s = ([], s)"
| "store_exec call (x # xs) s =
     (let (a, s1) = call (fst x) (snd x) s; (h, s2) = store_exec call xs s1 in ((fst x, snd x, a) # h, s2))"

lemma store_exec_run:
  "store_run call poisoned s0 h (Unlocked s) \<Longrightarrow> store_exec call xs s = (h2, s2) \<Longrightarrow>
     store_run call poisoned s0 (h @ h2) (Unlocked s2)"
proof (induction xs arbitrary: h s h2)
  case (Cons x xs)
  obtain a s1 where a: "call (fst x) (snd x) s = (a, s1)" by fastforce
  then have "store_run call poisoned s0 (h @ [(fst x, snd x, a)]) (Unlocked s1)"
    using Cons.prems by (intro store_run.call) (auto simp: with_lock_def)
  then show ?case
    using Cons.prems a Cons.IH [of "h @ [(fst x, snd x, a)]" s1] by (auto split: prod.splits)
qed simp

lemma store_exec_start:
  "store_exec call xs s0 = (h, s) \<Longrightarrow> store_run call poisoned s0 h (Unlocked s)"
  by (drule store_exec_run [OF store_run.start]) simp

locale store_invariant =
  fixes call :: "instant \<Rightarrow> 'op \<Rightarrow> 's \<Rightarrow> 'a \<times> 's"
    and s0 :: 's
    and inv :: "('op, 'a) event list \<Rightarrow> 's \<Rightarrow> bool"
  assumes inv_start: "inv [] s0"
    and inv_call: "inv h s \<Longrightarrow> call now c s = (a, s') \<Longrightarrow> inv (h @ [(now, c, a)]) s'"
begin

text \<open>The lock is never poisoned and the invariant holds after every call.\<close>

lemma run_inv: "store_run call poisoned s0 h m \<Longrightarrow> \<exists>s. m = Unlocked s \<and> inv h s"
proof (induction rule: store_run.induct)
  case start
  then show ?case by (simp add: inv_start)
next
  case (call h m now c a m')
  then obtain s where s: "m = Unlocked s" "inv h s" by blast
  then obtain s' where "call now c s = (a, s')" "m' = Unlocked s'"
    using call.hyps(2) by (auto simp: with_lock_def split: prod.splits)
  then show ?case using inv_call [OF s(2)] by blast
qed

lemma run_holds: "store_run call poisoned s0 h (Unlocked s) \<Longrightarrow> inv h s"
  using run_inv by blast

end

end
