(* ===== verification/Web_Limits.thy ===== *)
theory Web_Limits
  imports Web_Base
begin

text \<open>
  \<open>immich-web/src/limits.rs\<close>: the resource bounds of the console, their defaults, the
  optional values a configuration file may hold, and the check against the hard
  maxima. The unsigned fields are natural numbers, their saturating additions are
  written out.
\<close>

section \<open>Limits\<close>

record WebLimits =
  request_header_bytes :: nat
  request_body_bytes :: nat
  accepted_connections :: nat
  header_read_seconds :: nat
  response_seconds :: nat
  max_sessions :: nat
  session_idle_seconds :: nat
  session_absolute_seconds :: nat
  bootstrap_lifetime_seconds :: nat
  concurrent_jobs :: nat
  queued_jobs :: nat
  retained_jobs :: nat
  sse_subscribers_per_session :: nat
  sse_subscribers_per_process :: nat
  sse_replay_events :: nat
  sse_heartbeat_seconds :: nat
  dns_addresses :: nat
  history_page_rows :: nat
  history_retained_rows :: nat
  history_retention_days :: nat
  history_store_bytes :: nat
  plan_file_bytes :: nat
  plan_store_bytes :: nat
  dry_run_receipt_seconds :: nat
  production_grant_seconds :: nat
  backup_reference_bytes :: nat
  oidc_discovery_bytes :: nat
  oidc_jwks_bytes :: nat
  oidc_signing_keys :: nat
  oidc_state_seconds :: nat
  oidc_token_bytes :: nat

definition WebLimits_default :: WebLimits where
  "WebLimits_default =
     \<lparr>request_header_bytes = 16 * 1024, request_body_bytes = 16 * 1024,
      accepted_connections = 16, header_read_seconds = 5, response_seconds = 15,
      max_sessions = 8, session_idle_seconds = 30 * 60, session_absolute_seconds = 8 * 60 * 60,
      bootstrap_lifetime_seconds = 10 * 60, concurrent_jobs = 1, queued_jobs = 4,
      retained_jobs = 128, sse_subscribers_per_session = 4, sse_subscribers_per_process = 16,
      sse_replay_events = 128, sse_heartbeat_seconds = 15, dns_addresses = 4,
      history_page_rows = 50, history_retained_rows = 5000, history_retention_days = 30,
      history_store_bytes = 32 * 1024 * 1024, plan_file_bytes = 128 * 1024 * 1024,
      plan_store_bytes = 512 * 1024 * 1024, dry_run_receipt_seconds = 5 * 60,
      production_grant_seconds = 90, backup_reference_bytes = 256,
      oidc_discovery_bytes = 64 * 1024, oidc_jwks_bytes = 256 * 1024, oidc_signing_keys = 8,
      oidc_state_seconds = 3 * 60, oidc_token_bytes = 32 * 1024\<rparr>"

text \<open>The four conjunctions of \<open>validate\<close>, in order.\<close>

definition valid_transport :: "WebLimits \<Rightarrow> bool" where
  "valid_transport l \<longleftrightarrow>
     1 \<le> request_header_bytes l \<and> request_header_bytes l \<le> 32 * 1024 \<and>
     1 \<le> request_body_bytes l \<and> request_body_bytes l \<le> 64 * 1024 \<and>
     1 \<le> accepted_connections l \<and> accepted_connections l \<le> 32 \<and>
     1 \<le> header_read_seconds l \<and> header_read_seconds l \<le> 10 \<and>
     1 \<le> response_seconds l \<and> response_seconds l \<le> 30 \<and>
     1 \<le> max_sessions l \<and> max_sessions l \<le> 16 \<and>
     1 \<le> session_idle_seconds l \<and> session_idle_seconds l \<le> 60 * 60 \<and>
     1 \<le> session_absolute_seconds l \<and> session_absolute_seconds l \<le> 12 * 60 * 60 \<and>
     session_idle_seconds l \<le> session_absolute_seconds l \<and>
     1 \<le> bootstrap_lifetime_seconds l \<and> bootstrap_lifetime_seconds l \<le> 15 * 60"

definition valid_work :: "WebLimits \<Rightarrow> bool" where
  "valid_work l \<longleftrightarrow>
     1 \<le> concurrent_jobs l \<and> concurrent_jobs l \<le> 4 \<and>
     1 \<le> queued_jobs l \<and> queued_jobs l \<le> 8 \<and>
     1 \<le> retained_jobs l \<and> retained_jobs l \<le> 256 \<and>
     retained_jobs l \<ge> sat_add (concurrent_jobs l) (queued_jobs l) \<and>
     1 \<le> sse_subscribers_per_session l \<and> sse_subscribers_per_session l \<le> 8 \<and>
     1 \<le> sse_subscribers_per_process l \<and> sse_subscribers_per_process l \<le> 32 \<and>
     sse_subscribers_per_session l \<le> sse_subscribers_per_process l \<and>
     1 \<le> sse_replay_events l \<and> sse_replay_events l \<le> 256 \<and>
     1 \<le> sse_heartbeat_seconds l \<and> sse_heartbeat_seconds l \<le> 30 \<and>
     1 \<le> dns_addresses l \<and> dns_addresses l \<le> 8 \<and>
     1 \<le> history_page_rows l \<and> history_page_rows l \<le> 100 \<and>
     1 \<le> history_retained_rows l \<and> history_retained_rows l \<le> 10000 \<and>
     history_page_rows l \<le> history_retained_rows l \<and>
     1 \<le> history_retention_days l \<and> history_retention_days l \<le> 90 \<and>
     1024 * 1024 \<le> history_store_bytes l \<and> history_store_bytes l \<le> 64 * 1024 * 1024 \<and>
     1024 * 1024 \<le> plan_file_bytes l \<and> plan_file_bytes l \<le> 256 * 1024 * 1024"

definition valid_storage :: "WebLimits \<Rightarrow> bool" where
  "valid_storage l \<longleftrightarrow>
     plan_store_bytes l \<ge> sat_add (plan_file_bytes l) (16 * 1024) \<and>
     plan_store_bytes l \<le> 4 * 1024 * 1024 * 1024 \<and>
     1 \<le> dry_run_receipt_seconds l \<and> dry_run_receipt_seconds l \<le> 10 * 60 \<and>
     1 \<le> production_grant_seconds l \<and> production_grant_seconds l \<le> 120 \<and>
     1 \<le> backup_reference_bytes l \<and> backup_reference_bytes l \<le> 256"

definition valid_oidc :: "WebLimits \<Rightarrow> bool" where
  "valid_oidc l \<longleftrightarrow>
     1 \<le> oidc_discovery_bytes l \<and> oidc_discovery_bytes l \<le> 128 * 1024 \<and>
     1 \<le> oidc_jwks_bytes l \<and> oidc_jwks_bytes l \<le> 512 * 1024 \<and>
     1 \<le> oidc_signing_keys l \<and> oidc_signing_keys l \<le> 16 \<and>
     1 \<le> oidc_state_seconds l \<and> oidc_state_seconds l \<le> 5 * 60 \<and>
     1 \<le> oidc_token_bytes l \<and> oidc_token_bytes l \<le> 64 * 1024"

definition WebLimits_validate :: "WebLimits \<Rightarrow> (WebLimits, WebConfigError) result" where
  "WebLimits_validate l =
     (if valid_transport l \<and> valid_work l \<and> valid_storage l \<and> valid_oidc l then Ok l
      else Err ''web resource limits are invalid'')"

record RawWebLimits =
  raw_request_header_bytes :: "nat option"
  raw_request_body_bytes :: "nat option"
  raw_accepted_connections :: "nat option"
  raw_header_read_seconds :: "nat option"
  raw_response_seconds :: "nat option"
  raw_max_sessions :: "nat option"
  raw_session_idle_seconds :: "nat option"
  raw_session_absolute_seconds :: "nat option"
  raw_bootstrap_lifetime_seconds :: "nat option"
  raw_concurrent_jobs :: "nat option"
  raw_queued_jobs :: "nat option"
  raw_retained_jobs :: "nat option"
  raw_sse_subscribers_per_session :: "nat option"
  raw_sse_subscribers_per_process :: "nat option"
  raw_sse_replay_events :: "nat option"
  raw_sse_heartbeat_seconds :: "nat option"
  raw_dns_addresses :: "nat option"
  raw_history_page_rows :: "nat option"
  raw_history_retained_rows :: "nat option"
  raw_history_retention_days :: "nat option"
  raw_history_store_bytes :: "nat option"
  raw_plan_file_bytes :: "nat option"
  raw_plan_store_bytes :: "nat option"
  raw_dry_run_receipt_seconds :: "nat option"
  raw_production_grant_seconds :: "nat option"
  raw_backup_reference_bytes :: "nat option"
  raw_oidc_discovery_bytes :: "nat option"
  raw_oidc_jwks_bytes :: "nat option"
  raw_oidc_signing_keys :: "nat option"
  raw_oidc_state_seconds :: "nat option"
  raw_oidc_token_bytes :: "nat option"

primrec unwrap_or :: "'a option \<Rightarrow> 'a \<Rightarrow> 'a" where
  "unwrap_or (Some x) d = x"
| "unwrap_or None d = d"

definition into_limits :: "RawWebLimits \<Rightarrow> WebLimits" where
  "into_limits raw =
     (let defaults = WebLimits_default in
      \<lparr>request_header_bytes = unwrap_or (raw_request_header_bytes raw) (request_header_bytes defaults),
      request_body_bytes = unwrap_or (raw_request_body_bytes raw) (request_body_bytes defaults),
      accepted_connections = unwrap_or (raw_accepted_connections raw) (accepted_connections defaults),
      header_read_seconds = unwrap_or (raw_header_read_seconds raw) (header_read_seconds defaults),
      response_seconds = unwrap_or (raw_response_seconds raw) (response_seconds defaults),
      max_sessions = unwrap_or (raw_max_sessions raw) (max_sessions defaults),
      session_idle_seconds = unwrap_or (raw_session_idle_seconds raw) (session_idle_seconds defaults),
      session_absolute_seconds = unwrap_or (raw_session_absolute_seconds raw) (session_absolute_seconds defaults),
      bootstrap_lifetime_seconds = unwrap_or (raw_bootstrap_lifetime_seconds raw) (bootstrap_lifetime_seconds defaults),
      concurrent_jobs = unwrap_or (raw_concurrent_jobs raw) (concurrent_jobs defaults),
      queued_jobs = unwrap_or (raw_queued_jobs raw) (queued_jobs defaults),
      retained_jobs = unwrap_or (raw_retained_jobs raw) (retained_jobs defaults),
      sse_subscribers_per_session = unwrap_or (raw_sse_subscribers_per_session raw) (sse_subscribers_per_session defaults),
      sse_subscribers_per_process = unwrap_or (raw_sse_subscribers_per_process raw) (sse_subscribers_per_process defaults),
      sse_replay_events = unwrap_or (raw_sse_replay_events raw) (sse_replay_events defaults),
      sse_heartbeat_seconds = unwrap_or (raw_sse_heartbeat_seconds raw) (sse_heartbeat_seconds defaults),
      dns_addresses = unwrap_or (raw_dns_addresses raw) (dns_addresses defaults),
      history_page_rows = unwrap_or (raw_history_page_rows raw) (history_page_rows defaults),
      history_retained_rows = unwrap_or (raw_history_retained_rows raw) (history_retained_rows defaults),
      history_retention_days = unwrap_or (raw_history_retention_days raw) (history_retention_days defaults),
      history_store_bytes = unwrap_or (raw_history_store_bytes raw) (history_store_bytes defaults),
      plan_file_bytes = unwrap_or (raw_plan_file_bytes raw) (plan_file_bytes defaults),
      plan_store_bytes = unwrap_or (raw_plan_store_bytes raw) (plan_store_bytes defaults),
      dry_run_receipt_seconds = unwrap_or (raw_dry_run_receipt_seconds raw) (dry_run_receipt_seconds defaults),
      production_grant_seconds = unwrap_or (raw_production_grant_seconds raw) (production_grant_seconds defaults),
      backup_reference_bytes = unwrap_or (raw_backup_reference_bytes raw) (backup_reference_bytes defaults),
      oidc_discovery_bytes = unwrap_or (raw_oidc_discovery_bytes raw) (oidc_discovery_bytes defaults),
      oidc_jwks_bytes = unwrap_or (raw_oidc_jwks_bytes raw) (oidc_jwks_bytes defaults),
      oidc_signing_keys = unwrap_or (raw_oidc_signing_keys raw) (oidc_signing_keys defaults),
      oidc_state_seconds = unwrap_or (raw_oidc_state_seconds raw) (oidc_state_seconds defaults),
      oidc_token_bytes = unwrap_or (raw_oidc_token_bytes raw) (oidc_token_bytes defaults)\<rparr>)"

definition RawWebLimits_default :: RawWebLimits where
  "RawWebLimits_default =
     \<lparr>raw_request_header_bytes = None, raw_request_body_bytes = None,
      raw_accepted_connections = None, raw_header_read_seconds = None,
      raw_response_seconds = None, raw_max_sessions = None, raw_session_idle_seconds = None,
      raw_session_absolute_seconds = None, raw_bootstrap_lifetime_seconds = None,
      raw_concurrent_jobs = None, raw_queued_jobs = None, raw_retained_jobs = None,
      raw_sse_subscribers_per_session = None, raw_sse_subscribers_per_process = None,
      raw_sse_replay_events = None, raw_sse_heartbeat_seconds = None, raw_dns_addresses = None,
      raw_history_page_rows = None, raw_history_retained_rows = None,
      raw_history_retention_days = None, raw_history_store_bytes = None,
      raw_plan_file_bytes = None, raw_plan_store_bytes = None,
      raw_dry_run_receipt_seconds = None, raw_production_grant_seconds = None,
      raw_backup_reference_bytes = None, raw_oidc_discovery_bytes = None,
      raw_oidc_jwks_bytes = None, raw_oidc_signing_keys = None, raw_oidc_state_seconds = None,
      raw_oidc_token_bytes = None\<rparr>"

lemma limits_valid:
  "WebLimits_validate l = Ok l' \<longleftrightarrow> l' = l \<and> valid_transport l \<and> valid_work l \<and> valid_storage l \<and> valid_oidc l"
  by (auto simp: WebLimits_validate_def)

lemma sat_add_small: "a + b \<le> c \<Longrightarrow> c < 2 ^ 64 \<Longrightarrow> sat_add a b = a + b"
  by (simp add: sat_add_def u64_max_def)

lemma valid_work_small:
  "valid_work l \<Longrightarrow> sat_add (concurrent_jobs l) (queued_jobs l) = concurrent_jobs l + queued_jobs l"
  by (rule sat_add_small [of _ _ 12]) (auto simp: valid_work_def)

text \<open>The limits a configuration is accepted with are its own values with the defaults in
  the gaps, and they are consistent: every job that can run or wait has room among
  the retained records, one plan file with its binding fits into the plan store,
  and neither comparison is the effect of a saturated addition.\<close>

theorem accepted_limits_consistent:
  assumes "WebLimits_validate (into_limits raw) = Ok l"
  shows "l = into_limits raw \<and> 1 \<le> concurrent_jobs l \<and> concurrent_jobs l + queued_jobs l \<le> retained_jobs l \<and>
    plan_file_bytes l + 16384 \<le> plan_store_bytes l \<and> plan_store_bytes l \<le> 2 ^ 32 \<and>
    session_idle_seconds l \<le> session_absolute_seconds l \<and> session_absolute_seconds l \<le> 43200 \<and>
    production_grant_seconds l \<le> 120 \<and> max_sessions l \<le> 16"
proof -
  have v: "l = into_limits raw" "valid_transport l" "valid_work l" "valid_storage l"
    using assms by (auto simp: limits_valid)
  have "sat_add (plan_file_bytes l) (16 * 1024) = plan_file_bytes l + 16 * 1024"
    using v(3) by (intro sat_add_small [of _ _ "512 * 1024 * 1024"]) (auto simp: valid_work_def)
  then show ?thesis
    using v(1) v(2) [unfolded valid_transport_def] v(3) [unfolded valid_work_def] v(4) [unfolded valid_storage_def]
      valid_work_small [OF v(3)]
    by simp
qed

theorem accepted_limits_consistent_witness:
  "concurrent_jobs (into_limits RawWebLimits_default) + queued_jobs (into_limits RawWebLimits_default) \<le> 128"
proof -
  have "WebLimits_validate (into_limits RawWebLimits_default) = Ok (into_limits RawWebLimits_default)" by code_simp
  moreover have "retained_jobs (into_limits RawWebLimits_default) = 128" by code_simp
  ultimately show ?thesis using accepted_limits_consistent [of RawWebLimits_default] by simp
qed

end
