(* ===== verification/Web_Auth.thy ===== *)
theory Web_Auth
  imports Web_Limits Client_Authorize
begin

text \<open>
  \<open>immich-web/src/auth.rs\<close>: first-start pairing with a bootstrap secret, sessions with
  idle and absolute lifetimes, and the pairing rate limit. The state behind the
  store's mutex is a record; every method takes the instant it reads from the
  clock and the tokens it draws from the operating system (\<open>None\<close> when randomness is
  unavailable). SHA-256 is a parameter.
\<close>

section \<open>Addresses as keys\<close>

text \<open>\<open>IpAddr\<close> orders every IPv4 address before every IPv6 address.\<close>

instantiation ip_addr :: linorder
begin

definition less_eq_ip_addr :: "ip_addr \<Rightarrow> ip_addr \<Rightarrow> bool" where
  "less_eq_ip_addr a b =
     (case (a, b) of (V4 x, V4 y) \<Rightarrow> x \<le> y | (V6 x, V6 y) \<Rightarrow> x \<le> y | (V4 _, V6 _) \<Rightarrow> True | (V6 _, V4 _) \<Rightarrow> False)"

definition less_ip_addr :: "ip_addr \<Rightarrow> ip_addr \<Rightarrow> bool" where
  "less_ip_addr a b = (a \<le> b \<and> a \<noteq> b)"

instance
  by standard (auto simp: less_eq_ip_addr_def less_ip_addr_def split: ip_addr.splits)

end

section \<open>State\<close>

definition MIN_SECRET_BYTES :: nat where
  "MIN_SECRET_BYTES = 16"

definition MAX_SECRET_BYTES :: nat where
  "MAX_SECRET_BYTES = 256"

definition MAX_PAIRING_FAILURES :: nat where
  "MAX_PAIRING_FAILURES = 5"

definition PAIRING_FAILURE_WINDOW :: duration where
  "PAIRING_FAILURE_WINDOW = from_secs (5 * 60)"

record Bootstrap =
  bs_secret_digest :: string
  bs_cookie_token :: string
  bs_csrf_token :: string
  bs_expires_at :: instant
  bs_failures :: "(ip_addr, instant list) btree_map"

record Session =
  ss_binding :: string
  ss_csrf_token :: string
  ss_created_at :: instant
  ss_last_seen_at :: instant

record AuthState =
  as_bootstrap :: "Bootstrap option"
  as_sessions :: "(string, Session) btree_map"

record PairingView =
  pv_cookie_token :: string
  pv_csrf_token :: string

record SessionView =
  sv_binding :: string
  sv_csrf_token :: string

datatype PairingFailure = Denied | InvalidCsrf | PairingExpired | PairingRateLimited | PairingUnavailable

section \<open>Bootstrap secret\<close>

text \<open>What \<open>symlink_metadata\<close> and \<open>File::metadata\<close> tell of the secret file; \<open>ResourceIdentity\<close> is
  an opaque string.\<close>

record secret_metadata =
  sm_is_file :: bool
  sm_is_symlink :: bool
  sm_len :: nat
  sm_mode :: "32 word"

text \<open>\<open>mode().trailing_zeros() >= 6\<close>: no permission bit of the group or of others.\<close>

definition private_permissions :: "secret_metadata \<Rightarrow> bool" where
  "private_permissions m = (take_bit 6 (sm_mode m) = 0)"

definition validate_secret_metadata :: "secret_metadata \<Rightarrow> (unit, WebConfigError) result" where
  "validate_secret_metadata m =
     (if \<not> sm_is_file m \<or> sm_is_symlink m
         \<or> \<not> (MIN_SECRET_BYTES \<le> sm_len m \<and> sm_len m \<le> MAX_SECRET_BYTES + 2)
         \<or> \<not> private_permissions m
      then Err ''bootstrap secret must be a private bounded regular file'' else Ok ())"

text \<open>The file as the three looks at it see it: the metadata and identity by path before,
  by handle after opening with the whole contents, and by path again after the read;
  each \<open>None\<close> is a failing system call.\<close>

record secret_file =
  sf_before :: "secret_metadata option"
  sf_before_identity :: "string option"
  sf_opened :: "secret_metadata option option"
  sf_opened_identity :: "string option"
  sf_contents :: "string option"
  sf_after :: "secret_metadata option"
  sf_after_identity :: "string option"

definition strip_line_end :: "string \<Rightarrow> string" where
  "strip_line_end s =
     (if s \<noteq> [] \<and> last s = CHR 0x0A
      then let t = butlast s in if t \<noteq> [] \<and> last t = CHR 0x0D then butlast t else t
      else s)"

text \<open>\<open>utf8\<close> decides whether the bytes are UTF-8. The contents are read up to one byte over
  the maximum.\<close>

definition read_secret :: "(string \<Rightarrow> bool) \<Rightarrow> secret_file \<Rightarrow> (string, WebConfigError) result" where
  "read_secret utf8 f =
     and_then (ok_or (sf_before f) ''cannot read bootstrap secret'') (\<lambda>before.
     and_then (validate_secret_metadata before) (\<lambda>_.
     and_then (ok_or (sf_before_identity f) ''cannot inspect bootstrap secret'') (\<lambda>before_identity.
     and_then (ok_or (sf_opened f) ''cannot read bootstrap secret'') (\<lambda>file.
     and_then (ok_or file ''cannot inspect bootstrap secret'') (\<lambda>opened.
     and_then (validate_secret_metadata opened) (\<lambda>_.
     and_then (ok_or (sf_opened_identity f) ''cannot inspect bootstrap secret'') (\<lambda>opened_identity.
     and_then (ok_or (sf_contents f) ''cannot read bootstrap secret'') (\<lambda>contents.
     and_then (ok_or (sf_after f) ''cannot revalidate bootstrap secret'') (\<lambda>after.
     and_then (validate_secret_metadata after) (\<lambda>_.
     and_then (ok_or (sf_after_identity f) ''cannot revalidate bootstrap secret'') (\<lambda>after_identity.
     if opened_identity \<noteq> before_identity \<or> opened_identity \<noteq> after_identity
     then Err ''bootstrap secret identity changed''
     else let material = strip_line_end (take (MAX_SECRET_BYTES + 1) contents) in
       if \<not> (MIN_SECRET_BYTES \<le> length material \<and> length material \<le> MAX_SECRET_BYTES)
          \<or> \<not> (utf8 material \<and> trim material = material \<and> \<not> any_control material)
       then Err ''bootstrap secret is invalid'' else Ok material)))))))))))"

section \<open>The store\<close>

definition constant_time_equal :: "string \<Rightarrow> string \<Rightarrow> bool" where
  "constant_time_equal left right = (length left = length right \<and> left = right)"

definition AuthStore_oidc :: AuthState where
  "AuthStore_oidc = \<lparr>as_bootstrap = None, as_sessions = []\<rparr>"

definition AuthStore_load ::
  "(string \<Rightarrow> bool) \<Rightarrow> (string \<Rightarrow> string) \<Rightarrow> WebLimits \<Rightarrow> secret_file \<Rightarrow> instant \<Rightarrow> string option \<Rightarrow> string option
     \<Rightarrow> (AuthState, WebConfigError) result" where
  "AuthStore_load utf8 sha limits f now token1 token2 =
     and_then (read_secret utf8 f) (\<lambda>material.
     and_then (ok_or (instant_checked_add now (from_secs (bootstrap_lifetime_seconds limits)))
         ''bootstrap lifetime is invalid'') (\<lambda>expires_at.
     and_then (ok_or token1 ''operating-system randomness is unavailable'') (\<lambda>cookie.
     and_then (ok_or token2 ''operating-system randomness is unavailable'') (\<lambda>csrf.
     Ok \<lparr>as_bootstrap = Some \<lparr>bs_secret_digest = sha material, bs_cookie_token = cookie, bs_csrf_token = csrf,
           bs_expires_at = expires_at, bs_failures = []\<rparr>,
         as_sessions = []\<rparr>))))"

definition session_alive :: "WebLimits \<Rightarrow> instant \<Rightarrow> Session \<Rightarrow> bool" where
  "session_alive limits now session \<longleftrightarrow>
     now - ss_last_seen_at session < from_secs (session_idle_seconds limits)
     \<and> now - ss_created_at session < from_secs (session_absolute_seconds limits)"

definition expire_sessions :: "WebLimits \<Rightarrow> instant \<Rightarrow> AuthState \<Rightarrow> AuthState" where
  "expire_sessions limits now s =
     s \<lparr>as_sessions := btm_retain (\<lambda>_. session_alive limits now) (as_sessions s)\<rparr>"

definition retain_recent_failures :: "instant \<Rightarrow> instant list \<Rightarrow> instant list" where
  "retain_recent_failures now = dropWhile (\<lambda>failure. now - failure \<ge> PAIRING_FAILURE_WINDOW)"

definition record_failure :: "instant \<Rightarrow> instant list \<Rightarrow> instant list" where
  "record_failure now failures =
     (if length failures = MAX_PAIRING_FAILURES then tl failures else failures) @ [now]"

definition pairing :: "instant \<Rightarrow> AuthState \<Rightarrow> PairingView option \<times> AuthState" where
  "pairing now s =
     (case as_bootstrap s of
        None \<Rightarrow> (None, s)
      | Some b \<Rightarrow>
          if now \<ge> bs_expires_at b then (None, s\<lparr>as_bootstrap := None\<rparr>)
          else (Some \<lparr>pv_cookie_token = bs_cookie_token b, pv_csrf_token = bs_csrf_token b\<rparr>, s))"

text \<open>The recorded failures of one source, replaced in the bootstrap state.\<close>

definition set_failures :: "Bootstrap \<Rightarrow> ip_addr \<Rightarrow> instant list \<Rightarrow> AuthState \<Rightarrow> AuthState" where
  "set_failures b source failures s =
     s\<lparr>as_bootstrap := Some (b\<lparr>bs_failures := btm_insert source failures (bs_failures b)\<rparr>)\<rparr>"

definition new_session :: "string \<Rightarrow> string \<Rightarrow> string \<Rightarrow> instant \<Rightarrow> AuthState \<Rightarrow> AuthState" where
  "new_session binding cookie csrf now s =
     s\<lparr>as_sessions := btm_insert cookie
         \<lparr>ss_binding = binding, ss_csrf_token = csrf, ss_created_at = now, ss_last_seen_at = now\<rparr> (as_sessions s)\<rparr>"

definition pair ::
  "(string \<Rightarrow> string) \<Rightarrow> WebLimits \<Rightarrow> instant \<Rightarrow> ip_addr \<Rightarrow> string \<Rightarrow> string \<Rightarrow> string
     \<Rightarrow> string option \<Rightarrow> string option \<Rightarrow> AuthState \<Rightarrow> (string, PairingFailure) result \<times> AuthState" where
  "pair sha limits now source cookie csrf supplied_secret token1 token2 s =
     (if length (as_sessions s) \<ge> max_sessions limits then (Err PairingUnavailable, s)
      else case as_bootstrap s of
        None \<Rightarrow> (Err PairingExpired, s)
      | Some b \<Rightarrow>
          if now \<ge> bs_expires_at b then (Err PairingExpired, s\<lparr>as_bootstrap := None\<rparr>)
          else
            let failures = retain_recent_failures now (unwrap_or (btm_get (bs_failures b) source) []) in
            if length failures \<ge> MAX_PAIRING_FAILURES
            then (Err PairingRateLimited, set_failures b source failures s)
            else if \<not> constant_time_equal cookie (bs_cookie_token b) \<or> \<not> constant_time_equal csrf (bs_csrf_token b)
            then (Err InvalidCsrf, set_failures b source (record_failure now failures) s)
            else if sha supplied_secret \<noteq> bs_secret_digest b
            then (Err Denied, set_failures b source (record_failure now failures) s)
            else (case (token1, token2) of
                (Some cookie_token, Some csrf_token) \<Rightarrow>
                  (Ok cookie_token, new_session (sha cookie_token) cookie_token csrf_token now (s\<lparr>as_bootstrap := None\<rparr>))
              | _ \<Rightarrow> (Err PairingUnavailable, set_failures b source failures s)))"

definition session_view :: "Session \<Rightarrow> SessionView" where
  "session_view session = \<lparr>sv_binding = ss_binding session, sv_csrf_token = ss_csrf_token session\<rparr>"

definition authenticate :: "WebLimits \<Rightarrow> instant \<Rightarrow> string \<Rightarrow> AuthState \<Rightarrow> SessionView option \<times> AuthState" where
  "authenticate limits now cookie s =
     (let s1 = expire_sessions limits now s in
      case btm_get (as_sessions s1) cookie of
        None \<Rightarrow> (None, s1)
      | Some session \<Rightarrow>
          (Some (session_view session),
           s1\<lparr>as_sessions := btm_insert cookie (session\<lparr>ss_last_seen_at := now\<rparr>) (as_sessions s1)\<rparr>))"

definition establish_oidc ::
  "(string \<Rightarrow> string) \<Rightarrow> WebLimits \<Rightarrow> instant \<Rightarrow> string \<Rightarrow> string option \<Rightarrow> string option \<Rightarrow> string option
     \<Rightarrow> AuthState \<Rightarrow> (string, WebConfigError) result \<times> AuthState" where
  "establish_oidc sha limits now principal' previous_cookie token1 token2 s =
     (let s1 = expire_sessions limits now s;
          s2 = (case previous_cookie of
                  None \<Rightarrow> s1 | Some previous \<Rightarrow> s1\<lparr>as_sessions := btm_remove previous (as_sessions s1)\<rparr>) in
      if length (as_sessions s2) \<ge> max_sessions limits
      then (Err ''OIDC session capacity is exhausted'', s2)
      else case (token1, token2) of
          (Some cookie_token, Some csrf_token) \<Rightarrow>
            (Ok cookie_token,
             new_session (sha (principal' @ CHR 0x00 # cookie_token)) cookie_token csrf_token now s2)
        | _ \<Rightarrow> (Err ''operating-system randomness is unavailable'', s2))"

definition authenticate_csrf ::
  "WebLimits \<Rightarrow> instant \<Rightarrow> string \<Rightarrow> string \<Rightarrow> AuthState \<Rightarrow> SessionView option \<times> AuthState" where
  "authenticate_csrf limits now cookie csrf s =
     (case authenticate limits now cookie s of
        (None, s1) \<Rightarrow> (None, s1)
      | (Some session, s1) \<Rightarrow>
          (if constant_time_equal csrf (sv_csrf_token session) then Some session else None, s1))"

definition valid_binding :: "WebLimits \<Rightarrow> instant \<Rightarrow> string \<Rightarrow> string \<Rightarrow> AuthState \<Rightarrow> bool \<times> AuthState" where
  "valid_binding limits now cookie binding s =
     (let s1 = expire_sessions limits now s in
      (is_some_and (btm_get (as_sessions s1) cookie) (\<lambda>session. ss_binding session = binding), s1))"

definition active_session_count :: "WebLimits \<Rightarrow> instant \<Rightarrow> AuthState \<Rightarrow> nat option \<times> AuthState" where
  "active_session_count limits now s =
     (let s1 = expire_sessions limits now s in (Some (length (as_sessions s1)), s1))"

definition logout :: "WebLimits \<Rightarrow> instant \<Rightarrow> string \<Rightarrow> string \<Rightarrow> AuthState \<Rightarrow> bool \<times> AuthState" where
  "logout limits now cookie csrf s =
     (let s1 = expire_sessions limits now s;
          valid = is_some_and (btm_get (as_sessions s1) cookie)
                    (\<lambda>session. constant_time_equal csrf (ss_csrf_token session)) in
      (valid, if valid then s1\<lparr>as_sessions := btm_remove cookie (as_sessions s1)\<rparr> else s1))"

section \<open>Runs\<close>

text \<open>The calls a console makes on its store, in the order in which they take the lock.\<close>

datatype auth_op =
    Pairing
  | Pair ip_addr string string string "string option" "string option"
  | Authenticate string
  | EstablishOidc string "string option" "string option" "string option"
  | AuthenticateCsrf string string
  | ValidBinding string string
  | ActiveSessionCount
  | Logout string string

datatype auth_answer =
    APairing "PairingView option"
  | APair "(string, PairingFailure) result"
  | ASession "SessionView option"
  | AOidc "(string, WebConfigError) result"
  | ABool bool
  | ACount "nat option"

definition auth_call ::
  "(string \<Rightarrow> string) \<Rightarrow> WebLimits \<Rightarrow> instant \<Rightarrow> auth_op \<Rightarrow> AuthState \<Rightarrow> auth_answer \<times> AuthState" where
  "auth_call sha limits now call s =
     (case call of
        Pairing \<Rightarrow> apfst APairing (pairing now s)
      | Pair source cookie csrf secret t1 t2 \<Rightarrow> apfst APair (pair sha limits now source cookie csrf secret t1 t2 s)
      | Authenticate cookie \<Rightarrow> apfst ASession (authenticate limits now cookie s)
      | EstablishOidc who previous t1 t2 \<Rightarrow> apfst AOidc (establish_oidc sha limits now who previous t1 t2 s)
      | AuthenticateCsrf cookie csrf \<Rightarrow> apfst ASession (authenticate_csrf limits now cookie csrf s)
      | ValidBinding cookie binding \<Rightarrow> apfst ABool (valid_binding limits now cookie binding s)
      | ActiveSessionCount \<Rightarrow> apfst ACount (active_session_count limits now s)
      | Logout cookie csrf \<Rightarrow> apfst ABool (logout limits now cookie csrf s))"

text \<open>What each method answers when the lock is poisoned.\<close>

definition poisoned_answer :: "auth_op \<Rightarrow> auth_answer" where
  "poisoned_answer call =
     (case call of
        Pairing \<Rightarrow> APairing None
      | Pair _ _ _ _ _ _ \<Rightarrow> APair (Err PairingUnavailable)
      | Authenticate _ \<Rightarrow> ASession None
      | EstablishOidc _ _ _ _ \<Rightarrow> AOidc (Err ''OIDC session state is unavailable'')
      | AuthenticateCsrf _ _ \<Rightarrow> ASession None
      | ValidBinding _ _ \<Rightarrow> ABool False
      | ActiveSessionCount \<Rightarrow> ACount None
      | Logout _ _ \<Rightarrow> ABool False)"

type_synonym auth_event = "(auth_op, auth_answer) event"

abbreviation auth_run ::
  "(string \<Rightarrow> string) \<Rightarrow> WebLimits \<Rightarrow> AuthState \<Rightarrow> auth_event list \<Rightarrow> AuthState mutex \<Rightarrow> bool" where
  "auth_run sha limits \<equiv> store_run (auth_call sha limits) (\<lambda>_. poisoned_answer)"

text \<open>A pairing attempt from \<open>source\<close> that was evaluated and refused.\<close>

definition refused_attempt :: "ip_addr \<Rightarrow> auth_event \<Rightarrow> bool" where
  "refused_attempt source e =
     (case e of (_, Pair src _ _ _ _ _, APair (Err f)) \<Rightarrow> src = source \<and> (f = Denied \<or> f = InvalidCsrf) | _ \<Rightarrow> False)"

definition refusal_times :: "ip_addr \<Rightarrow> auth_event list \<Rightarrow> instant list" where
  "refusal_times source h = map fst (filter (refused_attempt source) h)"

definition paired :: "auth_event \<Rightarrow> bool" where
  "paired e = (case e of (_, _, APair (Ok _)) \<Rightarrow> True | _ \<Rightarrow> False)"

definition establishes :: "string \<Rightarrow> auth_event \<Rightarrow> bool" where
  "establishes cookie e = (case e of (_, _, APair (Ok c)) \<Rightarrow> c = cookie | (_, _, AOidc (Ok c)) \<Rightarrow> c = cookie | _ \<Rightarrow> False)"

definition uses :: "string \<Rightarrow> auth_event \<Rightarrow> bool" where
  "uses cookie e =
     (case e of
        (_, Authenticate c, ASession (Some _)) \<Rightarrow> c = cookie
      | (_, AuthenticateCsrf c _, ASession _) \<Rightarrow> c = cookie
      | _ \<Rightarrow> establishes cookie e)"

definition logs_out :: "string \<Rightarrow> auth_event \<Rightarrow> bool" where
  "logs_out cookie e = (case e of (_, Logout c _, ABool True) \<Rightarrow> c = cookie | _ \<Rightarrow> False)"

section \<open>Sessions\<close>

lemmas session_defs = pairing_def pair_def authenticate_def establish_oidc_def authenticate_csrf_def
  valid_binding_def active_session_count_def logout_def set_failures_def new_session_def expire_sessions_def

lemmas auth_splits = option.splits if_splits prod.splits

lemma retain_le: "length (btm_retain p m) \<le> length m"
  by (simp add: btm_retain_def)

lemma remove_le: "length (btm_remove k m) \<le> length m"
  by (simp add: btm_remove_def)

lemma insert_present: "btm_wf m \<Longrightarrow> btm_get m k = Some v \<Longrightarrow> length (btm_insert k w m) = length m"
  by (simp add: length_btm_insert)

text \<open>No method lets the number of sessions exceed the limit.\<close>

definition sessions_bounded :: "WebLimits \<Rightarrow> AuthState \<Rightarrow> bool" where
  "sessions_bounded limits s \<longleftrightarrow> btm_wf (as_sessions s) \<and> length (as_sessions s) \<le> max_sessions limits"

lemma retained_bounded: "sessions_bounded limits s \<Longrightarrow> sessions_bounded limits (expire_sessions limits now s)"
  using retain_le [of "\<lambda>_. session_alive limits now" "as_sessions s"]
  by (simp add: sessions_bounded_def expire_sessions_def)

lemma new_session_bounded:
  "sessions_bounded limits s \<Longrightarrow> length (as_sessions s) < max_sessions limits \<Longrightarrow>
     sessions_bounded limits (new_session binding cookie csrf now s)"
  by (simp add: sessions_bounded_def new_session_def length_btm_insert)

lemma authenticate_bounded:
  assumes "sessions_bounded limits s" "authenticate limits now cookie s = (a, s')"
  shows "sessions_bounded limits s'"
  using assms retained_bounded [OF assms(1), of now] insert_present [of "as_sessions (expire_sessions limits now s)"]
  by (auto simp: authenticate_def Let_def sessions_bounded_def split: option.splits)

lemma removed_bounded:
  "sessions_bounded limits s \<Longrightarrow> sessions_bounded limits (s\<lparr>as_sessions := btm_remove c (as_sessions s)\<rparr>)"
  using remove_le [of c "as_sessions s"] by (simp add: sessions_bounded_def)

lemma auth_call_bounded:
  assumes "sessions_bounded limits s" "auth_call sha limits now call s = (a, s')"
  shows "sessions_bounded limits s'"
proof (cases call)
  case Pairing
  then show ?thesis using assms by (auto simp: auth_call_def pairing_def sessions_bounded_def split: auth_splits)
next
  case (Pair source cookie csrf secret t1 t2)
  have "sessions_bounded limits (s\<lparr>as_bootstrap := b\<rparr>)" for b
    using assms(1) by (simp add: sessions_bounded_def)
  then show ?thesis using assms Pair new_session_bounded [of limits "s\<lparr>as_bootstrap := None\<rparr>"]
    by (auto simp: auth_call_def pair_def Let_def set_failures_def split: auth_splits)
next
  case (EstablishOidc who previous t1 t2)
  then show ?thesis
    using assms retained_bounded [OF assms(1), of now]
    by (auto simp: auth_call_def establish_oidc_def Let_def
        intro!: new_session_bounded removed_bounded split: auth_splits)
next
  case (AuthenticateCsrf cookie csrf)
  then show ?thesis using assms authenticate_bounded [OF assms(1)]
    by (auto simp: auth_call_def authenticate_csrf_def split: auth_splits)
qed (use assms retained_bounded [OF assms(1), of now] authenticate_bounded [OF assms(1)] in
    \<open>auto simp: auth_call_def valid_binding_def active_session_count_def logout_def Let_def
      intro: removed_bounded split: auth_splits\<close>)

text \<open>Where a session comes from: the call that established it, after which nobody logged out of
  it, and the latest request that presented its cookie.\<close>

definition session_trace :: "auth_event list \<Rightarrow> string \<Rightarrow> Session \<Rightarrow> bool" where
  "session_trace h cookie session \<longleftrightarrow>
     (\<exists>h1 e h2. h = h1 @ e # h2 \<and> establishes cookie e \<and> fst e = ss_created_at session \<and>
        (\<forall>x \<in> set h2. \<not> logs_out cookie x) \<and>
        (\<exists>x \<in> set (e # h2). uses cookie x \<and> fst x = ss_last_seen_at session))"

lemma session_traceI:
  "h = h1 @ e # h2 \<Longrightarrow> establishes c e \<Longrightarrow> fst e = ss_created_at ss \<Longrightarrow> \<forall>x \<in> set h2. \<not> logs_out c x \<Longrightarrow>
     x \<in> set (e # h2) \<Longrightarrow> uses c x \<Longrightarrow> fst x = ss_last_seen_at ss \<Longrightarrow> session_trace h c ss"
  unfolding session_trace_def by blast

lemma session_traceE:
  assumes "session_trace h c ss"
  obtains h1 e h2 x where "h = h1 @ e # h2" "establishes c e" "fst e = ss_created_at ss"
    "\<forall>x \<in> set h2. \<not> logs_out c x" "x \<in> set (e # h2)" "uses c x" "fst x = ss_last_seen_at ss"
  using assms unfolding session_trace_def by blast

lemma session_trace_snoc:
  assumes "session_trace h c ss" "\<not> logs_out c e"
  shows "session_trace (h @ [e]) c ss"
  using assms(1)
proof (rule session_traceE)
  fix h1 e0 h2 x
  assume "h = h1 @ e0 # h2" "establishes c e0" "fst e0 = ss_created_at ss"
    "\<forall>x \<in> set h2. \<not> logs_out c x" "x \<in> set (e0 # h2)" "uses c x" "fst x = ss_last_seen_at ss"
  then show ?thesis using assms(2) by (intro session_traceI [of _ h1 e0 "h2 @ [e]" _ _ x]) auto
qed

lemma session_trace_touch:
  assumes "session_trace h c ss" "uses c e" "\<not> logs_out c e"
  shows "session_trace (h @ [e]) c (ss\<lparr>ss_last_seen_at := fst e\<rparr>)"
  using assms(1)
proof (rule session_traceE)
  fix h1 e0 h2
  assume "h = h1 @ e0 # h2" "establishes c e0" "fst e0 = ss_created_at ss" "\<forall>x \<in> set h2. \<not> logs_out c x"
  then show ?thesis using assms(2,3) by (intro session_traceI [of _ h1 e0 "h2 @ [e]" _ _ e]) auto
qed

lemma establishes_uses: "establishes c e \<Longrightarrow> uses c e"
  by (cases e) (auto simp: establishes_def uses_def split: auth_op.splits auth_answer.splits option.splits)

lemma session_trace_new:
  assumes "establishes c e" "ss_created_at ss = fst e" "ss_last_seen_at ss = fst e"
  shows "session_trace (h @ [e]) c ss"
  using assms establishes_uses [OF assms(1)] by (intro session_traceI [of _ h e "[]" _ _ e]) auto

lemmas event_defs = establishes_def uses_def logs_out_def

text \<open>A session after a call was there before, untouched or seen now, or is established by it.\<close>

lemma expire_get:
  "btm_wf (as_sessions s) \<Longrightarrow> btm_get (as_sessions (expire_sessions limits now s)) c = Some ss \<longleftrightarrow>
     btm_get (as_sessions s) c = Some ss \<and> session_alive limits now ss"
  by (auto simp: expire_sessions_def btm_get_retain split: option.splits if_splits)

lemma auth_call_session:
  assumes "btm_wf (as_sessions s)" "auth_call sha limits now call s = (a, s')"
    and "btm_get (as_sessions s') c = Some ss"
  shows "(\<exists>old. btm_get (as_sessions s) c = Some old \<and> \<not> logs_out c (now, call, a) \<and>
            (ss = old \<or> uses c (now, call, a) \<and> ss = old\<lparr>ss_last_seen_at := now\<rparr>))
    \<or> establishes c (now, call, a) \<and> ss_created_at ss = now \<and> ss_last_seen_at ss = now"
proof (cases call)
  case (Authenticate cookie)
  then show ?thesis using assms(2,3) expire_get [OF assms(1)]
    by (auto simp: auth_call_def authenticate_def Let_def event_defs split: auth_splits)
next
  case (AuthenticateCsrf cookie csrf)
  then show ?thesis using assms(2,3) expire_get [OF assms(1)]
    by (auto simp: auth_call_def authenticate_csrf_def authenticate_def Let_def event_defs split: auth_splits)
next
  case (EstablishOidc who previous t1 t2)
  then show ?thesis using assms(2,3) expire_get [OF assms(1)]
    by (auto simp: auth_call_def establish_oidc_def new_session_def Let_def event_defs split: auth_splits)
next
  case (Pair source cookie csrf secret t1 t2)
  then show ?thesis using assms(2,3)
    by (auto simp: auth_call_def pair_def set_failures_def new_session_def Let_def event_defs split: auth_splits)
qed (use assms(2,3) expire_get [OF assms(1)] in
    \<open>auto simp: auth_call_def pairing_def valid_binding_def active_session_count_def logout_def Let_def event_defs
      split: auth_splits bool.splits\<close>)

text \<open>A session is shown to a request only while it is alive.\<close>

lemma auth_call_alive:
  assumes "btm_wf (as_sessions s)" "auth_call sha limits now call s = (ASession (Some view), s')"
  shows "\<exists>c ss. (call = Authenticate c \<or> (\<exists>csrf. call = AuthenticateCsrf c csrf \<and> csrf = ss_csrf_token ss)) \<and>
    btm_get (as_sessions s) c = Some ss \<and> session_alive limits now ss \<and> view = session_view ss"
  using assms(2) expire_get [OF assms(1), of limits now]
  by (cases call)
    (auto simp: auth_call_def authenticate_def authenticate_csrf_def Let_def session_view_def constant_time_equal_def
      split: auth_splits)

section \<open>Pairing\<close>

definition failures_of :: "ip_addr \<Rightarrow> Bootstrap \<Rightarrow> instant list" where
  "failures_of source b = unwrap_or (btm_get (bs_failures b) source) []"

text \<open>How one call changes the recorded failures of a source.\<close>

lemma auth_call_failures:
  assumes "auth_call sha limits now call s = (a, s')" "as_bootstrap s' = Some b'"
  obtains b where "as_bootstrap s = Some b"
    "\<not> refused_attempt source (now, call, a) \<and>
       (failures_of source b' = failures_of source b \<or>
        failures_of source b' = retain_recent_failures now (failures_of source b))
     \<or> refused_attempt source (now, call, a) \<and>
       failures_of source b' = retain_recent_failures now (failures_of source b) @ [now] \<and>
       length (retain_recent_failures now (failures_of source b)) < MAX_PAIRING_FAILURES"
proof (cases call)
  case (Pair src cookie csrf secret t1 t2)
  then show ?thesis using assms that
    by (cases "src = source")
      (auto simp: auth_call_def pair_def set_failures_def new_session_def Let_def refused_attempt_def failures_of_def
        record_failure_def split: auth_splits)
qed (use assms that in \<open>auto simp: auth_call_def session_defs Let_def refused_attempt_def split: auth_splits\<close>)

lemma refused_keeps_bootstrap:
  "auth_call sha limits now call s = (a, s') \<Longrightarrow> refused_attempt source (now, call, a) \<Longrightarrow> as_bootstrap s' \<noteq> None"
  by (cases call)
    (auto simp: auth_call_def pair_def set_failures_def Let_def refused_attempt_def split: auth_splits auth_answer.splits)

text \<open>The refusals within one window that ends at \<open>u\<close>.\<close>

definition recent_at :: "instant \<Rightarrow> instant list \<Rightarrow> instant list" where
  "recent_at u = filter (\<lambda>f. f \<le> u \<and> u - f < PAIRING_FAILURE_WINDOW)"

definition rate_ok :: "ip_addr \<Rightarrow> auth_event list \<Rightarrow> AuthState \<Rightarrow> bool" where
  "rate_ok source h s \<longleftrightarrow>
     (\<forall>u. length (recent_at u (refusal_times source h)) \<le> MAX_PAIRING_FAILURES) \<and>
     (\<forall>b. as_bootstrap s = Some b \<longrightarrow>
        (\<exists>old. refusal_times source h = old @ failures_of source b \<and>
           (\<forall>f \<in> set old. \<exists>e \<in> set h. f + PAIRING_FAILURE_WINDOW \<le> fst e)))"

lemma window_positive: "0 < PAIRING_FAILURE_WINDOW"
  by (simp add: PAIRING_FAILURE_WINDOW_def from_secs_def)

text \<open>Dropping stale failures keeps the bookkeeping of \<open>rate_ok\<close>.\<close>

lemma retained_suffix:
  assumes "F = old @ q" "\<forall>f \<in> set old. \<exists>e \<in> set h. f + PAIRING_FAILURE_WINDOW \<le> fst e"
    and "\<forall>e \<in> set h. fst e \<le> now"
  obtains old' where "F = old' @ retain_recent_failures now q" "\<forall>f \<in> set old'. f + PAIRING_FAILURE_WINDOW \<le> now"
proof
  let ?p = "\<lambda>f. now - f \<ge> PAIRING_FAILURE_WINDOW"
  show "F = (old @ takeWhile ?p q) @ retain_recent_failures now q"
    using assms(1) by (simp add: retain_recent_failures_def)
  show "\<forall>f \<in> set (old @ takeWhile ?p q). f + PAIRING_FAILURE_WINDOW \<le> now"
    using assms(2,3) window_positive by (fastforce dest: set_takeWhileD)
qed

lemma recent_at_snoc:
  assumes "F = old @ q" "\<forall>f \<in> set old. f + PAIRING_FAILURE_WINDOW \<le> now"
    and "length q < MAX_PAIRING_FAILURES" "\<forall>u. length (recent_at u F) \<le> MAX_PAIRING_FAILURES"
  shows "length (recent_at u (F @ [now])) \<le> MAX_PAIRING_FAILURES"
proof (cases "now \<le> u")
  case True
  then have "recent_at u old = []"
    using assms(2) by (auto simp: recent_at_def filter_empty_conv)
  then have "length (recent_at u (F @ [now])) \<le> Suc (length q)"
    using assms(1) by (auto simp: recent_at_def le_SucI)
  then show ?thesis using assms(3) by simp
next
  case False
  then show ?thesis using assms(4) by (simp add: recent_at_def)
qed

lemma rate_ok_retained:
  assumes "rate_ok source h s" "\<forall>e \<in> set h. fst e \<le> now" "as_bootstrap s = Some b"
  obtains old where "refusal_times source h = old @ retain_recent_failures now (failures_of source b)"
    "\<forall>f \<in> set old. f + PAIRING_FAILURE_WINDOW \<le> now"
proof -
  obtain old where "refusal_times source h = old @ failures_of source b"
      "\<forall>f \<in> set old. \<exists>e \<in> set h. f + PAIRING_FAILURE_WINDOW \<le> fst e"
    using assms(1,3) by (auto simp: rate_ok_def)
  then show thesis using retained_suffix assms(2) that by blast
qed

lemma refusal_times_snoc:
  "refusal_times source (h @ [(now, call, a)]) =
     refusal_times source h @ (if refused_attempt source (now, call, a) then [now] else [])"
  by (simp add: refusal_times_def)

lemma window_call:
  assumes "rate_ok source h s" "\<forall>e \<in> set h. fst e \<le> now" "auth_call sha limits now call s = (a, s')"
  shows "length (recent_at u (refusal_times source (h @ [(now, call, a)]))) \<le> MAX_PAIRING_FAILURES"
proof (cases "refused_attempt source (now, call, a)")
  case True
  then obtain b' where b': "as_bootstrap s' = Some b'" using refused_keeps_bootstrap assms(3) by blast
  obtain b where b: "as_bootstrap s = Some b"
      "length (retain_recent_failures now (failures_of source b)) < MAX_PAIRING_FAILURES"
    using auth_call_failures [OF assms(3) b', of source] True by metis
  obtain old where "refusal_times source h = old @ retain_recent_failures now (failures_of source b)"
      "\<forall>f \<in> set old. f + PAIRING_FAILURE_WINDOW \<le> now"
    using rate_ok_retained [OF assms(1,2) b(1)] .
  moreover have "\<forall>u. length (recent_at u (refusal_times source h)) \<le> MAX_PAIRING_FAILURES"
    using assms(1) by (simp add: rate_ok_def)
  ultimately have "length (recent_at u (refusal_times source h @ [now])) \<le> MAX_PAIRING_FAILURES"
    using b(2) recent_at_snoc by blast
  then show ?thesis using True by (simp add: refusal_times_snoc)
next
  case False
  then show ?thesis using assms(1) by (simp add: rate_ok_def refusal_times_snoc)
qed

lemma rate_ok_call:
  assumes "rate_ok source h s" "\<forall>e \<in> set h. fst e \<le> now" "auth_call sha limits now call s = (a, s')"
  shows "rate_ok source (h @ [(now, call, a)]) s'"
proof -
  let ?e = "(now, call, a)"
  have "\<exists>old. refusal_times source (h @ [?e]) = old @ failures_of source b' \<and>
      (\<forall>f \<in> set old. \<exists>e \<in> set (h @ [?e]). f + PAIRING_FAILURE_WINDOW \<le> fst e)"
    if "as_bootstrap s' = Some b'" for b'
    using assms(3) that
  proof (rule auth_call_failures [where source = source])
    fix b
    assume b: "as_bootstrap s = Some b" and
      how: "\<not> refused_attempt source ?e \<and>
       (failures_of source b' = failures_of source b \<or>
        failures_of source b' = retain_recent_failures now (failures_of source b))
     \<or> refused_attempt source ?e \<and>
       failures_of source b' = retain_recent_failures now (failures_of source b) @ [now] \<and>
       length (retain_recent_failures now (failures_of source b)) < MAX_PAIRING_FAILURES"
    obtain old where old: "refusal_times source h = old @ retain_recent_failures now (failures_of source b)"
        "\<forall>f \<in> set old. f + PAIRING_FAILURE_WINDOW \<le> now"
      using rate_ok_retained [OF assms(1,2) b] .
    show ?thesis
    proof (cases "failures_of source b' = failures_of source b \<and> \<not> refused_attempt source ?e")
      case True
      then show ?thesis using assms(1) b by (fastforce simp: rate_ok_def refusal_times_snoc)
    next
      case False
      then have "refusal_times source (h @ [?e]) = old @ failures_of source b'"
        using how old(1) by (auto simp: refusal_times_snoc)
      then show ?thesis using old(2) by (intro exI [of _ old]) auto
    qed
  qed
  then show ?thesis using window_call [OF assms] by (simp add: rate_ok_def)
qed

text \<open>The bootstrap a pairing was made with, and what it had to present.\<close>

definition pairing_proof :: "(string \<Rightarrow> string) \<Rightarrow> Bootstrap \<Rightarrow> auth_event \<Rightarrow> bool" where
  "pairing_proof sha b e =
     (case e of
        (now, Pair _ cookie csrf secret _ _, _) \<Rightarrow>
          now < bs_expires_at b \<and> cookie = bs_cookie_token b \<and> csrf = bs_csrf_token b \<and> sha secret = bs_secret_digest b
      | _ \<Rightarrow> False)"

definition same_bootstrap :: "Bootstrap \<Rightarrow> Bootstrap \<Rightarrow> bool" where
  "same_bootstrap b b' \<longleftrightarrow> b'\<lparr>bs_failures := []\<rparr> = b\<lparr>bs_failures := []\<rparr>"

lemma auth_call_bootstrap:
  assumes "auth_call sha limits now call s = (a, s')"
  shows "(as_bootstrap s' = None \<or> (\<exists>b b'. as_bootstrap s = Some b \<and> as_bootstrap s' = Some b' \<and> same_bootstrap b b')) \<and>
    (paired (now, call, a) \<longrightarrow> as_bootstrap s' = None \<and>
       (\<exists>b. as_bootstrap s = Some b \<and> pairing_proof sha b (now, call, a)))"
proof (cases call)
  case (Pair source cookie csrf secret t1 t2)
  then show ?thesis using assms
    by (auto simp: auth_call_def pair_def set_failures_def new_session_def Let_def paired_def pairing_proof_def
        constant_time_equal_def same_bootstrap_def split: auth_splits)
qed (use assms in \<open>auto simp: auth_call_def session_defs Let_def paired_def same_bootstrap_def
      split: auth_splits\<close>)

lemma pairing_proof_same: "same_bootstrap b b' \<Longrightarrow> pairing_proof sha b' e = pairing_proof sha b e"
  by (cases b; cases b') (auto simp: same_bootstrap_def pairing_proof_def split: prod.splits auth_op.splits)

lemma pairing_proofD:
  "pairing_proof sha b e \<Longrightarrow> \<exists>now source secret r1 r2 a.
     e = (now, Pair source (bs_cookie_token b) (bs_csrf_token b) secret r1 r2, a) \<and>
     now < bs_expires_at b \<and> sha secret = bs_secret_digest b"
  by (cases e) (auto simp: pairing_proof_def split: auth_op.splits)

definition pairing_ok :: "(string \<Rightarrow> string) \<Rightarrow> AuthState \<Rightarrow> auth_event list \<Rightarrow> AuthState \<Rightarrow> bool" where
  "pairing_ok sha s0 h s \<longleftrightarrow>
     length (filter paired h) \<le> 1 \<and>
     (\<forall>e \<in> set h. paired e \<longrightarrow> (\<exists>b. as_bootstrap s0 = Some b \<and> pairing_proof sha b e)) \<and>
     (\<forall>b. as_bootstrap s = Some b \<longrightarrow>
        filter paired h = [] \<and> (\<exists>b0. as_bootstrap s0 = Some b0 \<and> same_bootstrap b0 b))"

lemma pairing_ok_call:
  assumes "pairing_ok sha s0 h s" "auth_call sha limits now call s = (a, s')"
  shows "pairing_ok sha s0 (h @ [(now, call, a)]) s'"
proof (cases "as_bootstrap s")
  case None
  then show ?thesis using assms auth_call_bootstrap [OF assms(2)] by (auto simp: pairing_ok_def)
next
  case (Some b)
  then obtain b0 where b0: "as_bootstrap s0 = Some b0" "same_bootstrap b0 b" "filter paired h = []"
    using assms(1) by (auto simp: pairing_ok_def)
  moreover have "same_bootstrap b0 b'" if "same_bootstrap b b'" for b'
    using b0(2) that by (simp add: same_bootstrap_def)
  ultimately show ?thesis
    using Some assms(1) auth_call_bootstrap [OF assms(2)] pairing_proof_same [of b0 b sha]
    by (auto simp: pairing_ok_def)
qed

section \<open>The invariant of a run\<close>

definition auth_inv :: "(string \<Rightarrow> string) \<Rightarrow> WebLimits \<Rightarrow> AuthState \<Rightarrow> auth_event list \<Rightarrow> AuthState \<Rightarrow> bool" where
  "auth_inv sha limits s0 h s \<longleftrightarrow>
     sessions_bounded limits s \<and>
     (\<forall>c ss. btm_get (as_sessions s) c = Some ss \<longrightarrow> session_trace h c ss) \<and>
     (sorted (map fst h) \<longrightarrow> (\<forall>source. rate_ok source h s)) \<and> pairing_ok sha s0 h s"

text \<open>A store as \<open>oidc\<close> and \<open>load\<close> make it.\<close>

definition fresh_store :: "AuthState \<Rightarrow> bool" where
  "fresh_store s \<longleftrightarrow> as_sessions s = [] \<and> (\<forall>b. as_bootstrap s = Some b \<longrightarrow> bs_failures b = [])"

lemma fresh_oidc: "fresh_store AuthStore_oidc"
  by (simp add: fresh_store_def AuthStore_oidc_def)

lemma fresh_load: "AuthStore_load utf8 sha limits f now t1 t2 = Ok s \<Longrightarrow> fresh_store s"
  by (auto simp: fresh_store_def AuthStore_load_def result_simps)

lemma auth_inv_start: "fresh_store s0 \<Longrightarrow> auth_inv sha limits s0 [] s0"
  by (auto simp: fresh_store_def auth_inv_def sessions_bounded_def rate_ok_def pairing_ok_def refusal_times_def
      recent_at_def failures_of_def same_bootstrap_def)

lemma auth_inv_call:
  assumes "auth_inv sha limits s0 h s" "auth_call sha limits now call s = (a, s')"
  shows "auth_inv sha limits s0 (h @ [(now, call, a)]) s'"
proof -
  have wf: "btm_wf (as_sessions s)" using assms(1) by (simp add: auth_inv_def sessions_bounded_def)
  have "session_trace (h @ [(now, call, a)]) c ss" if "btm_get (as_sessions s') c = Some ss" for c ss
    using auth_call_session [OF wf assms(2) that] assms(1)
      session_trace_snoc [of h c _ "(now, call, a)"] session_trace_touch [of h c _ "(now, call, a)"]
      session_trace_new [of c "(now, call, a)" ss h]
    by (fastforce simp: auth_inv_def)
  moreover have "rate_ok source (h @ [(now, call, a)]) s'" if "sorted (map fst (h @ [(now, call, a)]))" for source
    using that assms(1) by (intro rate_ok_call [OF _ _ assms(2)]) (auto simp: auth_inv_def sorted_append)
  ultimately show ?thesis
    using assms(1) auth_call_bounded [OF _ assms(2)] pairing_ok_call [OF _ assms(2)]
    unfolding auth_inv_def by blast
qed

interpretation auth: store_invariant "auth_call sha limits" s0 "\<lambda>h s. fresh_store s0 \<longrightarrow> auth_inv sha limits s0 h s"
  for sha limits s0
  by unfold_locales (auto intro: auth_inv_start auth_inv_call)

section \<open>What a console can rely on\<close>

text \<open>A source with five recent refusals is turned away whatever it presents: the tokens and the secret
  are not looked at.\<close>

lemma pair_turned_away:
  assumes "rate_ok source h s" "\<forall>e \<in> set h. fst e \<le> now"
    and "MAX_PAIRING_FAILURES \<le> length (filter (\<lambda>f. now - f < PAIRING_FAILURE_WINDOW) (refusal_times source h))"
    and "length (as_sessions s) < max_sessions limits" "as_bootstrap s = Some b" "now < bs_expires_at b"
  shows "fst (pair sha limits now source cookie csrf secret t1 t2 s) = Err PairingRateLimited"
proof -
  let ?recent = "\<lambda>f. now - f < PAIRING_FAILURE_WINDOW"
  obtain old where old: "refusal_times source h = old @ retain_recent_failures now (failures_of source b)"
      "\<forall>f \<in> set old. f + PAIRING_FAILURE_WINDOW \<le> now"
    using rate_ok_retained [OF assms(1,2,5)] .
  have "filter ?recent old = []" using old(2) by (auto simp: filter_empty_conv)
  then have "filter ?recent (refusal_times source h) = filter ?recent (retain_recent_failures now (failures_of source b))"
    by (simp add: old(1))
  then have "MAX_PAIRING_FAILURES \<le> length (retain_recent_failures now (failures_of source b))"
    using assms(3) length_filter_le le_trans by metis
  then show ?thesis
    using assms(4-6) by (simp add: pair_def failures_of_def Let_def)
qed

lemma pair_answer:
  assumes "\<And>b. length (as_sessions s) < max_sessions limits \<Longrightarrow> as_bootstrap s = Some b \<Longrightarrow> now < bs_expires_at b \<Longrightarrow>
      fst (pair sha limits now source cookie csrf secret t1 t2 s) = Err PairingRateLimited"
  shows "fst (pair sha limits now source cookie csrf secret t1 t2 s) =
    Err (if max_sessions limits \<le> length (as_sessions s) then PairingUnavailable
         else if is_some_and (as_bootstrap s) (\<lambda>b. now < bs_expires_at b) then PairingRateLimited else PairingExpired)"
proof (cases "length (as_sessions s) < max_sessions limits \<and> is_some_and (as_bootstrap s) (\<lambda>b. now < bs_expires_at b)")
  case True
  then show ?thesis using assms by (auto simp: is_some_and_iff)
next
  case False
  then show ?thesis by (auto simp: pair_def is_some_and_iff split: option.splits)
qed

text \<open>C28: pairing attempts are rate limited per address, in every run whose calls take the lock in the
  order in which they read the clock. First, at most five attempts of one address are evaluated and
  refused within any five minutes. Second, an attempt that comes when the last five minutes already hold
  five refusals of its address is answered \<open>RateLimited\<close> whatever tokens and secret it presents, the right ones
  included; only the checks the code makes before (session capacity, bootstrap used up or expired)
  may answer otherwise.\<close>

theorem pairing_rate_limited:
  assumes "fresh_store s0" "auth_run sha limits s0 h (Unlocked s)" "sorted (map fst h)"
  shows "length (filter (\<lambda>f. f \<le> u \<and> u - f < from_secs 300) (refusal_times source h)) \<le> 5 \<and>
    ((\<forall>e \<in> set h. fst e \<le> now) \<and> 5 \<le> length (filter (\<lambda>f. now - f < from_secs 300) (refusal_times source h)) \<longrightarrow>
     fst (auth_call sha limits now (Pair source cookie csrf secret t1 t2) s) =
       APair (Err (if max_sessions limits \<le> length (as_sessions s) then PairingUnavailable
                   else if is_some_and (as_bootstrap s) (\<lambda>b. now < bs_expires_at b) then PairingRateLimited
                   else PairingExpired)))"
proof -
  have rate: "rate_ok source h s"
    using auth.run_holds [OF assms(2)] assms(1,3) by (simp add: auth_inv_def)
  have bounds: "MAX_PAIRING_FAILURES = 5" "PAIRING_FAILURE_WINDOW = from_secs 300"
    by (simp_all add: MAX_PAIRING_FAILURES_def PAIRING_FAILURE_WINDOW_def)
  have window: "length (recent_at u (refusal_times source h)) \<le> 5"
    using rate unfolding rate_ok_def bounds by blast
  have call: "fst (auth_call sha limits now (Pair source cookie csrf secret t1 t2) s) =
      APair (fst (pair sha limits now source cookie csrf secret t1 t2 s))"
    by (simp add: auth_call_def)
  show ?thesis
  proof (intro conjI impI, goal_cases window answer)
    case window
    show ?case using \<open>length (recent_at u (refusal_times source h)) \<le> 5\<close> unfolding recent_at_def bounds .
  next
    case answer
    note turned = pair_turned_away [OF rate conjunct1 [OF answer], unfolded bounds, OF conjunct2 [OF answer]]
    show ?case unfolding call by (rule arg_cong [where f = APair], rule pair_answer, rule turned)
  qed
qed

text \<open>C29: the bootstrap secret pairs at most one browser in the life of a console, and only a
  request made before the bootstrap expires that presents the pairing cookie, the
  pairing CSRF token and a secret with the digest of the configured one.\<close>

theorem bootstrap_single_use:
  assumes "AuthStore_load utf8 sha limits f now0 t1 t2 = Ok s0" "auth_run sha limits s0 h m"
  shows "length (filter paired h) \<le> 1 \<and>
    (\<forall>e \<in> set h. paired e \<longrightarrow> (\<exists>now source cookie csrf secret r1 r2 a. e = (now, Pair source cookie csrf secret r1 r2, a) \<and>
       now < now0 + from_secs (bootstrap_lifetime_seconds limits) \<and> Some cookie = t1 \<and> Some csrf = t2 \<and>
       (\<exists>material. read_secret utf8 f = Ok material \<and> sha secret = sha material)))"
proof -
  obtain s where s: "pairing_ok sha s0 h s"
    using auth.run_inv [OF assms(2)] fresh_load [OF assms(1)] by (auto simp: auth_inv_def)
  obtain material cookie csrf where load: "read_secret utf8 f = Ok material" "t1 = Some cookie" "t2 = Some csrf"
      "as_bootstrap s0 = Some \<lparr>bs_secret_digest = sha material, bs_cookie_token = cookie, bs_csrf_token = csrf,
         bs_expires_at = now0 + from_secs (bootstrap_lifetime_seconds limits), bs_failures = []\<rparr>"
    using assms(1) by (auto simp: AuthStore_load_def result_simps instant_checked_add_def split: if_splits)
  show ?thesis
  proof (intro conjI ballI impI)
    show "length (filter paired h) \<le> 1" using s by (simp add: pairing_ok_def)
    fix e assume "e \<in> set h" "paired e"
    then have "pairing_proof sha (the (as_bootstrap s0)) e" using s by (auto simp: pairing_ok_def)
    from pairing_proofD [OF this]
    show "\<exists>now source cookie csrf secret r1 r2 a. e = (now, Pair source cookie csrf secret r1 r2, a) \<and>
       now < now0 + from_secs (bootstrap_lifetime_seconds limits) \<and> Some cookie = t1 \<and> Some csrf = t2 \<and>
       (\<exists>material. read_secret utf8 f = Ok material \<and> sha secret = sha material)"
      unfolding load by auto
  qed
qed

text \<open>C30: a request is shown a session only when an earlier call established the presented
  cookie less than the absolute lifetime ago, nobody logged out of it since, and
  some request presented it less than the idle lifetime ago; and there are never
  more sessions than configured.\<close>

theorem session_authentic:
  assumes "fresh_store s0" "auth_run sha limits s0 h (Unlocked s)"
    and "auth_call sha limits now call s = (ASession (Some view), s')"
  shows "length (as_sessions s') \<le> max_sessions limits \<and>
    (\<exists>cookie h1 e h2. (call = Authenticate cookie \<or> (\<exists>csrf. call = AuthenticateCsrf cookie csrf \<and> csrf = sv_csrf_token view)) \<and>
       h = h1 @ e # h2 \<and> establishes cookie e \<and> now - fst e < from_secs (session_absolute_seconds limits) \<and>
       (\<forall>x \<in> set h2. \<not> logs_out cookie x) \<and>
       (\<exists>x \<in> set (e # h2). uses cookie x \<and> now - fst x < from_secs (session_idle_seconds limits)))"
proof -
  have inv: "auth_inv sha limits s0 h s" using auth.run_holds [OF assms(2)] assms(1) by blast
  then have wf: "btm_wf (as_sessions s)" by (simp add: auth_inv_def sessions_bounded_def)
  obtain c ss where c: "call = Authenticate c \<or> (\<exists>csrf. call = AuthenticateCsrf c csrf \<and> csrf = ss_csrf_token ss)"
      "btm_get (as_sessions s) c = Some ss" "session_alive limits now ss" "view = session_view ss"
    using auth_call_alive [OF wf assms(3)] by blast
  from inv c(2) have "session_trace h c ss" by (simp add: auth_inv_def)
  then obtain h1 e h2 x where t: "h = h1 @ e # h2" "establishes c e" "fst e = ss_created_at ss"
      "\<forall>x \<in> set h2. \<not> logs_out c x" "x \<in> set (e # h2)" "uses c x" "fst x = ss_last_seen_at ss"
    by (rule session_traceE)
  have "length (as_sessions s') \<le> max_sessions limits"
    using inv auth_call_bounded [OF _ assms(3)] by (simp add: auth_inv_def sessions_bounded_def)
  moreover have "call = Authenticate c \<or> (\<exists>csrf. call = AuthenticateCsrf c csrf \<and> csrf = sv_csrf_token view)"
    using c(1,4) by (auto simp: session_view_def)
  moreover have "now - fst e < from_secs (session_absolute_seconds limits)" "now - fst x < from_secs (session_idle_seconds limits)"
    using t(3,7) c(3) by (simp_all add: session_alive_def)
  ultimately show ?thesis using t by blast
qed

section \<open>A concrete console\<close>

definition sample_metadata :: secret_metadata where
  "sample_metadata = \<lparr>sm_is_file = True, sm_is_symlink = False, sm_len = 17, sm_mode = 0x8180\<rparr>"

definition sample_secret_file :: secret_file where
  "sample_secret_file =
     \<lparr>sf_before = Some sample_metadata, sf_before_identity = Some ''7'', sf_opened = Some (Some sample_metadata),
      sf_opened_identity = Some ''7'', sf_contents = Some (''correct-horse-ba'' @ [CHR 0x0A]),
      sf_after = Some sample_metadata, sf_after_identity = Some ''7''\<rparr>"

definition sample_store :: AuthState where
  "sample_store =
     (case AuthStore_load (\<lambda>_. True) toy_hash WebLimits_default sample_secret_file 0 (Some ''cookie'') (Some ''csrf'') of
        Ok s \<Rightarrow> s | Err _ \<Rightarrow> AuthStore_oidc)"

lemma sample_store_load:
  "AuthStore_load (\<lambda>_. True) toy_hash WebLimits_default sample_secret_file 0 (Some ''cookie'') (Some ''csrf'') = Ok sample_store"
  by code_simp

text \<open>Six wrong secrets in a row, then the right one from another address.\<close>

definition sample_calls :: "(instant \<times> auth_op) list" where
  "sample_calls =
     map (\<lambda>t. (t, Pair (V4 1) ''cookie'' ''csrf'' ''wrong'' None None)) [1, 2, 3, 4, 5, 6]
     @ [(7, Pair (V4 2) ''cookie'' ''csrf'' ''correct-horse-ba'' (Some ''session'') (Some ''token''))]"

definition sample_history :: "auth_event list" where
  "sample_history = fst (store_exec (auth_call toy_hash WebLimits_default) sample_calls sample_store)"

definition sample_paired :: AuthState where
  "sample_paired = snd (store_exec (auth_call toy_hash WebLimits_default) sample_calls sample_store)"

lemma sample_auth_run: "auth_run toy_hash WebLimits_default sample_store sample_history (Unlocked sample_paired)"
  unfolding sample_history_def sample_paired_def
  by (intro store_exec_start [where xs = sample_calls]) simp_all

text \<open>The run before the right secret is presented from another address; from the address of the six
  attempts the right secret does not help.\<close>

definition sample_refused :: "auth_event list \<times> AuthState" where
  "sample_refused = store_exec (auth_call toy_hash WebLimits_default) (take 6 sample_calls) sample_store"

theorem pairing_rate_limited_witness:
  "length (refusal_times (V4 1) (fst sample_refused)) = 5 \<and>
   fst (auth_call toy_hash WebLimits_default 7
     (Pair (V4 1) ''cookie'' ''csrf'' ''correct-horse-ba'' (Some ''session'') (Some ''token'')) (snd sample_refused))
     = APair (Err PairingRateLimited)"
proof -
  have run: "auth_run toy_hash WebLimits_default sample_store (fst sample_refused) (Unlocked (snd sample_refused))"
    unfolding sample_refused_def by (rule store_exec_start [OF prod.collapse [symmetric]])
  have five: "length (refusal_times (V4 1) (fst sample_refused)) = 5" by code_simp
  have recent: "length (filter (\<lambda>f. 7 - f < from_secs 300) (refusal_times (V4 1) (fst sample_refused))) = 5" by code_simp
  have room: "length (as_sessions (snd sample_refused)) < max_sessions WebLimits_default" by code_simp
  have unexpired: "is_some_and (as_bootstrap (snd sample_refused)) (\<lambda>b. 7 < bs_expires_at b)" by code_simp
  have "list_all (\<lambda>e. fst e \<le> 7) (fst sample_refused)" by code_simp
  then have before: "\<forall>e \<in> set (fst sample_refused). fst e \<le> 7" unfolding list_all_iff .
  have sorted: "sorted (map fst (fst sample_refused))" by code_simp
  show ?thesis
    using pairing_rate_limited [OF fresh_load [OF sample_store_load] run sorted, of _ "V4 1" 7] room unexpired before
    by (simp add: five recent)
qed

theorem bootstrap_single_use_witness: "length (filter paired sample_history) = 1"
proof -
  have "length (filter paired sample_history) \<le> 1"
    using bootstrap_single_use [OF sample_store_load sample_auth_run] by blast
  moreover have "filter paired sample_history \<noteq> []" by code_simp
  ultimately show ?thesis by (cases "filter paired sample_history") auto
qed

theorem session_authentic_witness:
  "length (as_sessions (snd (auth_call toy_hash WebLimits_default 8 (Authenticate ''session'') sample_paired))) \<le> 8"
proof -
  have "auth_call toy_hash WebLimits_default 8 (Authenticate ''session'') sample_paired =
      (ASession (Some \<lparr>sv_binding = toy_hash ''session'', sv_csrf_token = ''token''\<rparr>),
       snd (auth_call toy_hash WebLimits_default 8 (Authenticate ''session'') sample_paired))"
    by code_simp
  from session_authentic [OF fresh_load [OF sample_store_load] sample_auth_run this]
  show ?thesis by (simp add: WebLimits_default_def)
qed

end
