(* ===== verification/Web_Store.thy ===== *)
theory Web_Store
  imports Web_Limits Core_Reports Client_Authorize
begin

text \<open>
  \<open>immich-web/src/state_store/\<close>: the console's durable state. \<open>types.rs\<close> (references,
  bindings, history kinds), \<open>history.rs\<close> and \<open>history/receipts.rs\<close> (the SQLite history of
  terminal jobs and dry-run receipts with its retention), \<open>plan_store.rs\<close> and \<open>plan_io.rs\<close> (plans
  with their profile bindings, as files). The database is a record of its two tables; a
  transaction applies all its statements or none. The argument \<open>io\<close> of an operation
  tells for each of its fallible system steps, in order, whether it succeeds.
  References are their 16 bytes; the JSON codec and SHA-256 are parameters.
\<close>

section \<open>Types\<close>

type_synonym ArtifactRef = string
type_synonym ReceiptRef = string

record DryRunBinding =
  db_plan_reference :: ArtifactRef
  db_plan_sha256 :: string
  db_source_configuration_sha256 :: string
  db_server_identity_sha256 :: string
  db_server_profile_sha256 :: string
  db_credential_generation :: u64
  db_max_logical_effects :: u64
  db_completed_unix :: int

record DryRunReceipt =
  dr_reference :: ReceiptRef
  dr_binding :: DryRunBinding

record PlanBinding =
  pb_schema_version :: u32
  pb_plan_sha256 :: string
  pb_source_profile_id :: string
  pb_source_profile_sha256 :: string
  pb_server_profile_id :: string
  pb_server_profile_sha256 :: string
  pb_credential_generation :: u64
  pb_server_identity_sha256 :: string
  pb_max_logical_effects :: u64

record PlanArtifact =
  pl_reference :: ArtifactRef
  pl_schema_version :: u32
  pl_plan_sha256 :: string
  pl_max_logical_effects :: u64

record StoredUploadPlan =
  sp_reference :: ArtifactRef
  sp_plan :: UploadPlan
  sp_binding :: PlanBinding

datatype HistoryKind =
    FolderScan | FolderPlan | GoogleTakeoutPlan | ApplePhotosPlan | PicasaPlan
  | FolderDryRun | GoogleTakeoutDryRun | ApplePhotosDryRun | PicasaDryRun
  | FolderApply | GoogleTakeoutApply | ApplePhotosApply | PicasaApply

text \<open>The discriminants, \<open>kind as i64\<close>, and the conversion back.\<close>

primrec HistoryKind_code :: "HistoryKind \<Rightarrow> int" where
  "HistoryKind_code FolderScan = 1"
| "HistoryKind_code FolderPlan = 2"
| "HistoryKind_code GoogleTakeoutPlan = 3"
| "HistoryKind_code ApplePhotosPlan = 4"
| "HistoryKind_code PicasaPlan = 5"
| "HistoryKind_code FolderDryRun = 6"
| "HistoryKind_code GoogleTakeoutDryRun = 7"
| "HistoryKind_code ApplePhotosDryRun = 8"
| "HistoryKind_code PicasaDryRun = 9"
| "HistoryKind_code FolderApply = 10"
| "HistoryKind_code GoogleTakeoutApply = 11"
| "HistoryKind_code ApplePhotosApply = 12"
| "HistoryKind_code PicasaApply = 13"

definition HistoryKind_try_from :: "int \<Rightarrow> HistoryKind option" where
  "HistoryKind_try_from value =
     map_of (map (\<lambda>k. (HistoryKind_code k, k))
       [FolderScan, FolderPlan, GoogleTakeoutPlan, ApplePhotosPlan, PicasaPlan, FolderDryRun, GoogleTakeoutDryRun,
        ApplePhotosDryRun, PicasaDryRun, FolderApply, GoogleTakeoutApply, ApplePhotosApply, PicasaApply]) value"

datatype TerminalStatus = TCompleted | TFailed | TCancelled

primrec TerminalStatus_code :: "TerminalStatus \<Rightarrow> int" where
  "TerminalStatus_code TCompleted = 1"
| "TerminalStatus_code TFailed = 2"
| "TerminalStatus_code TCancelled = 3"

definition TerminalStatus_try_from :: "int \<Rightarrow> TerminalStatus option" where
  "TerminalStatus_try_from value =
     (if value = 1 then Some TCompleted else if value = 2 then Some TFailed
      else if value = 3 then Some TCancelled else None)"

record SafeCounters =
  ct_assets :: u64
  ct_sidecars :: u64
  ct_bytes_read :: u64
  ct_warnings :: u64
  ct_errors :: u64
  ct_max_logical_effects :: u64

definition SafeCounters_default :: SafeCounters where
  "SafeCounters_default =
     \<lparr>ct_assets = 0, ct_sidecars = 0, ct_bytes_read = 0, ct_warnings = 0, ct_errors = 0, ct_max_logical_effects = 0\<rparr>"

record TerminalRecord =
  tr_recorded_unix :: int
  tr_kind :: HistoryKind
  tr_status :: TerminalStatus
  tr_plan :: "(ArtifactRef \<times> u32) option"
  tr_counters :: SafeCounters

section \<open>Database\<close>

text \<open>A row of each table as SQLite stores it.\<close>

record history_row =
  hr_sequence :: int
  hr_recorded_unix :: int
  hr_kind :: int
  hr_status' :: int
  hr_plan_ref :: "string option"
  hr_plan_schema :: "int option"
  hr_counters :: "int list"

record receipt_row =
  rr_rowid :: int
  rr_receipt_ref :: string
  rr_plan_ref :: string
  rr_digests :: "string list"
  rr_credential_generation :: int
  rr_max_logical_effects :: int
  rr_completed_unix :: int

record history_db =
  hd_history :: "history_row list"
  hd_sequence :: int
  hd_receipts :: "receipt_row list"

record HistoryStore =
  hs_retained_rows :: nat
  hs_retention_seconds :: int

definition checked_u64 :: "u64 \<Rightarrow> int option" where
  "checked_u64 v = (if unat v < 2 ^ 63 then Some (uint v) else None)"

definition read_u64 :: "int \<Rightarrow> u64 option" where
  "read_u64 v = (if 0 \<le> v then Some (of_int v) else None)"

primrec all_some :: "'a option list \<Rightarrow> 'a list option" where
  "all_some [] = Some []"
| "all_some (x # xs) = (case x of None \<Rightarrow> None | Some y \<Rightarrow> map_option ((#) y) (all_some xs))"

definition counter_columns :: "SafeCounters \<Rightarrow> int list option" where
  "counter_columns c =
     all_some (map checked_u64
       [ct_assets c, ct_sidecars c, ct_bytes_read c, ct_warnings c, ct_errors c, ct_max_logical_effects c])"

text \<open>\<open>INSERT INTO history\<close>: the sequence is one more than any ever used.\<close>

definition insert_terminal :: "TerminalRecord \<Rightarrow> history_db \<Rightarrow> history_db option" where
  "insert_terminal r d =
     map_option (\<lambda>columns.
       d\<lparr>hd_history := hd_history d @
           [\<lparr>hr_sequence = hd_sequence d + 1, hr_recorded_unix = tr_recorded_unix r,
             hr_kind = HistoryKind_code (tr_kind r), hr_status' = TerminalStatus_code (tr_status r),
             hr_plan_ref = map_option fst (tr_plan r), hr_plan_schema = map_option (uint \<circ> snd) (tr_plan r),
             hr_counters = columns\<rparr>],
         hd_sequence := hd_sequence d + 1\<rparr>)
       (counter_columns (tr_counters r))"

text \<open>\<open>ORDER BY sequence DESC LIMIT n\<close> on rows kept in ascending sequence, and
  \<open>ORDER BY completed_unix DESC, rowid DESC LIMIT n\<close>.\<close>

definition newest_rows :: "nat \<Rightarrow> 'a list \<Rightarrow> 'a list" where
  "newest_rows n rows = drop (length rows - n) rows"

definition receipt_key :: "receipt_row \<Rightarrow> int \<times> int" where
  "receipt_key r = (rr_completed_unix r, rr_rowid r)"

definition newest_receipts :: "nat \<Rightarrow> receipt_row list \<Rightarrow> receipt_row list" where
  "newest_receipts n rows =
     filter (\<lambda>r. length (filter (\<lambda>q. receipt_key r < receipt_key q) rows) < n) rows"

definition i64_saturating_sub :: "int \<Rightarrow> int \<Rightarrow> int" where
  "i64_saturating_sub a b = max (- (2 ^ 63)) (min (2 ^ 63 - 1) (a - b))"

definition retain_rows :: "HistoryStore \<Rightarrow> int \<Rightarrow> history_db \<Rightarrow> history_db" where
  "retain_rows hs now d =
     (let cutoff = i64_saturating_sub now (hs_retention_seconds hs) in
      d\<lparr>hd_history := newest_rows (hs_retained_rows hs) (filter (\<lambda>r. hr_recorded_unix r \<ge> cutoff) (hd_history d)),
        hd_receipts := newest_receipts (hs_retained_rows hs)
          (filter (\<lambda>r. rr_completed_unix r \<ge> cutoff) (hd_receipts d))\<rparr>)"

definition history_error :: WebConfigError where
  "history_error = ''history database operation failed''"

text \<open>The steps of \<open>maintain\<close>: size check, transaction, WAL checkpoint, file protection, size check.\<close>

definition maintain ::
  "(nat \<Rightarrow> bool) \<Rightarrow> HistoryStore \<Rightarrow> int \<Rightarrow> history_db \<Rightarrow> (unit, WebConfigError) result \<times> history_db" where
  "maintain io hs now d =
     (if \<not> io 0 then (Err ''history storage bound exceeded'', d)
      else if \<not> io 1 then (Err history_error, d)
      else let d1 = retain_rows hs now d in
        if \<not> io 2 then (Err history_error, d1)
        else if \<not> io 3 then (Err ''cannot protect history database'', d1)
        else if \<not> io 4 then (Err ''history storage bound exceeded'', d1)
        else (Ok (), d1))"

text \<open>The steps of \<open>record_terminal\<close>: size check, transaction, WAL checkpoint, then \<open>maintain\<close>. The code
  releases the connection between the insertion and \<open>maintain\<close>, so another call may come between them;
  the definition is the whole operation of one caller with nothing in between.\<close>

definition record_terminal ::
  "(nat \<Rightarrow> bool) \<Rightarrow> HistoryStore \<Rightarrow> TerminalRecord \<Rightarrow> history_db \<Rightarrow> (int, WebConfigError) result \<times> history_db" where
  "record_terminal io hs r d =
     (if tr_recorded_unix r < 0 \<or> is_some_and (tr_plan r) (\<lambda>p. snd p = 0)
      then (Err ''terminal history record is invalid'', d)
      else if \<not> io 0 then (Err ''history storage bound exceeded'', d)
      else case insert_terminal r d of
          None \<Rightarrow> (Err ''history counter is invalid'', d)
        | Some d1 \<Rightarrow>
            if \<not> io 1 then (Err history_error, d)
            else if \<not> io 2 then (Err history_error, d1)
            else (case maintain (\<lambda>n. io (n + 3)) hs (tr_recorded_unix r) d1 of
                (Err e, d2) \<Rightarrow> (Err e, d2)
              | (Ok _, d2) \<Rightarrow> (Ok (hd_sequence d1), d2)))"

definition from_row :: "history_row \<Rightarrow> (int \<times> TerminalRecord) option" where
  "from_row r =
     (case (hr_plan_ref r, hr_plan_schema r, HistoryKind_try_from (hr_kind r), TerminalStatus_try_from (hr_status' r),
            all_some (map read_u64 (hr_counters r))) of
        (plan_ref, plan_schema, Some kind, Some status, Some [a, s, b, w, e, m]) \<Rightarrow>
          (case (plan_ref, plan_schema) of
             (Some bytes, Some schema) \<Rightarrow>
               if length bytes = 16 \<and> 0 \<le> schema \<and> schema < 2 ^ 32
               then Some (hr_sequence r,
                 \<lparr>tr_recorded_unix = hr_recorded_unix r, tr_kind = kind, tr_status = status,
                  tr_plan = Some (bytes, of_int schema),
                  tr_counters = \<lparr>ct_assets = a, ct_sidecars = s, ct_bytes_read = b, ct_warnings = w, ct_errors = e,
                    ct_max_logical_effects = m\<rparr>\<rparr>)
               else None
           | (None, None) \<Rightarrow>
               Some (hr_sequence r,
                 \<lparr>tr_recorded_unix = hr_recorded_unix r, tr_kind = kind, tr_status = status, tr_plan = None,
                  tr_counters = \<lparr>ct_assets = a, ct_sidecars = s, ct_bytes_read = b, ct_warnings = w, ct_errors = e,
                    ct_max_logical_effects = m\<rparr>\<rparr>)
           | _ \<Rightarrow> None)
      | _ \<Rightarrow> None)"

definition latest ::
  "bool \<Rightarrow> HistoryStore \<Rightarrow> nat \<Rightarrow> history_db \<Rightarrow> ((int \<times> TerminalRecord) list, WebConfigError) result" where
  "latest io hs maximum d =
     (if maximum = 0 \<or> maximum > hs_retained_rows hs then Err ''history page bound is invalid''
      else if \<not> io then Err history_error
      else ok_or (all_some (map from_row (rev (newest_rows maximum (hd_history d))))) history_error)"

definition history_count :: "bool \<Rightarrow> history_db \<Rightarrow> (nat, WebConfigError) result" where
  "history_count io d = (if io then Ok (length (hd_history d)) else Err history_error)"

section \<open>Dry-run receipts\<close>

definition RECEIPT_CREATE_ATTEMPTS :: nat where
  "RECEIPT_CREATE_ATTEMPTS = 8"

definition hex_value :: "char \<Rightarrow> nat" where
  "hex_value c = (if is_ascii_digit c then byte_of c - 48 else byte_of c - 87)"

definition hex_digit :: "nat \<Rightarrow> char" where
  "hex_digit n = (if n < 10 then char_of (n + 48) else char_of (n + 87))"

fun decode_pairs :: "string \<Rightarrow> string" where
  "decode_pairs (a # b # rest) = char_of (16 * hex_value a + hex_value b) # decode_pairs rest"
| "decode_pairs _ = []"

text \<open>On the text \<open>is_sha256\<close> accepts, every pair of digits is one byte.\<close>

definition decode_sha256 :: "string \<Rightarrow> (string, WebConfigError) result" where
  "decode_sha256 v = (if is_lower_sha256 v then Ok (decode_pairs v) else Err ''receipt digest is invalid'')"

definition encode_sha256 :: "string \<Rightarrow> string option" where
  "encode_sha256 bs =
     (if length bs \<noteq> 32 then None
      else Some (concat (map (\<lambda>c. [hex_digit (byte_of c div 16), hex_digit (byte_of c mod 16)]) bs)))"

definition validate_dry_run :: "DryRunBinding \<Rightarrow> (unit, WebConfigError) result" where
  "validate_dry_run b =
     (if db_completed_unix b < 0 \<or> db_credential_generation b = 0
         \<or> \<not> is_lower_sha256 (db_plan_sha256 b) \<or> \<not> is_lower_sha256 (db_source_configuration_sha256 b)
         \<or> \<not> is_lower_sha256 (db_server_identity_sha256 b) \<or> \<not> is_lower_sha256 (db_server_profile_sha256 b)
      then Err ''dry-run receipt is invalid'' else Ok ())"

definition validate_terminal :: "DryRunBinding \<Rightarrow> TerminalRecord \<Rightarrow> (unit, WebConfigError) result" where
  "validate_terminal b t =
     (let matching_plan = is_some_and (tr_plan t) (\<lambda>(reference, schema). reference = db_plan_reference b \<and> schema > 0) in
      if tr_recorded_unix t \<noteq> db_completed_unix b \<or> tr_status t \<noteq> TCompleted
         \<or> tr_kind t \<notin> {FolderDryRun, GoogleTakeoutDryRun, ApplePhotosDryRun, PicasaDryRun}
         \<or> ct_max_logical_effects (tr_counters t) \<noteq> db_max_logical_effects b \<or> \<not> matching_plan
      then Err ''dry-run terminal record is invalid'' else Ok ())"

definition receipt_error :: WebConfigError where
  "receipt_error = ''receipt counter is invalid''"

text \<open>The row of a receipt; its \<open>rowid\<close> is one more than the largest in the table.\<close>

definition next_rowid :: "receipt_row list \<Rightarrow> int" where
  "next_rowid rows = fold max (map rr_rowid rows) 0 + 1"

definition receipt_row_of :: "ReceiptRef \<Rightarrow> DryRunBinding \<Rightarrow> history_db \<Rightarrow> (receipt_row, WebConfigError) result" where
  "receipt_row_of reference b d =
     and_then (collect_result decode_sha256
       [db_plan_sha256 b, db_source_configuration_sha256 b, db_server_identity_sha256 b, db_server_profile_sha256 b])
       (\<lambda>digests.
     and_then (ok_or (checked_u64 (db_credential_generation b)) receipt_error) (\<lambda>generation.
     and_then (ok_or (checked_u64 (db_max_logical_effects b)) receipt_error) (\<lambda>effects.
     Ok \<lparr>rr_rowid = next_rowid (hd_receipts d), rr_receipt_ref = reference, rr_plan_ref = db_plan_reference b,
         rr_digests = digests, rr_credential_generation = generation, rr_max_logical_effects = effects,
         rr_completed_unix = db_completed_unix b\<rparr>)))"

text \<open>One attempt of the loop: \<open>None\<close> when the reference is taken. Its steps are the
  transaction and the WAL checkpoint, then those of \<open>maintain\<close>.\<close>

definition receipt_attempt ::
  "(nat \<Rightarrow> bool) \<Rightarrow> HistoryStore \<Rightarrow> DryRunBinding \<Rightarrow> TerminalRecord \<Rightarrow> ReceiptRef \<Rightarrow> history_db
     \<Rightarrow> (DryRunReceipt, WebConfigError) result option \<times> history_db" where
  "receipt_attempt io hs b t reference d =
     (case receipt_row_of reference b d of
        Err e \<Rightarrow> (Some (Err e), d)
      | Ok row \<Rightarrow>
          if reference \<in> rr_receipt_ref ` set (hd_receipts d)
          then (if io 0 \<and> io 1 then (None, d) else (Some (Err history_error), d))
          else (case insert_terminal t d of
              None \<Rightarrow> (Some (Err receipt_error), d)
            | Some d1 \<Rightarrow>
                let d2 = d1\<lparr>hd_receipts := hd_receipts d1 @ [row]\<rparr> in
                if \<not> io 0 then (Some (Err history_error), d)
                else if \<not> io 1 then (Some (Err history_error), d2)
                else (case maintain (\<lambda>n. io (n + 2)) hs (db_completed_unix b) d2 of
                    (Err e, d3) \<Rightarrow> (Some (Err e), d3)
                  | (Ok _, d3) \<Rightarrow> (Some (Ok \<lparr>dr_reference = reference, dr_binding = b\<rparr>), d3))))"

text \<open>The attempts, each with the reference it draws (\<open>None\<close> when randomness is unavailable) and
  its own system steps.\<close>

primrec receipt_loop ::
  "HistoryStore \<Rightarrow> DryRunBinding \<Rightarrow> TerminalRecord \<Rightarrow> ((nat \<Rightarrow> bool) \<times> ReceiptRef option) list \<Rightarrow> history_db
     \<Rightarrow> (DryRunReceipt, WebConfigError) result \<times> history_db" where
  "receipt_loop hs b t [] d = (Err ''receipt reference capacity exhausted'', d)"
| "receipt_loop hs b t (x # xs) d =
     (case snd x of
        None \<Rightarrow> (Err ''receipt reference generation failed'', d)
      | Some reference \<Rightarrow>
          (case receipt_attempt (fst x) hs b t reference d of
             (Some r, d1) \<Rightarrow> (r, d1)
           | (None, d1) \<Rightarrow> receipt_loop hs b t xs d1))"

definition record_dry_run ::
  "bool \<Rightarrow> HistoryStore \<Rightarrow> (nat \<Rightarrow> (nat \<Rightarrow> bool) \<times> ReceiptRef option) \<Rightarrow> DryRunBinding \<Rightarrow> TerminalRecord \<Rightarrow> history_db
     \<Rightarrow> (DryRunReceipt, WebConfigError) result \<times> history_db" where
  "record_dry_run size_ok hs attempts b t d =
     (case and_then (validate_dry_run b) (\<lambda>_. validate_terminal b t) of
        Err e \<Rightarrow> (Err e, d)
      | Ok _ \<Rightarrow>
          if \<not> size_ok then (Err ''history storage bound exceeded'', d)
          else receipt_loop hs b t (map attempts [0 ..< RECEIPT_CREATE_ATTEMPTS]) d)"

definition receipt_of_row :: "ReceiptRef \<Rightarrow> receipt_row \<Rightarrow> DryRunReceipt option" where
  "receipt_of_row reference r =
     (case (all_some (map encode_sha256 (rr_digests r)), read_u64 (rr_credential_generation r),
            read_u64 (rr_max_logical_effects r)) of
        (Some [plan, configuration, identity, profile], Some generation, Some effects) \<Rightarrow>
          if length (rr_plan_ref r) = 16
          then Some \<lparr>dr_reference = reference, dr_binding =
            \<lparr>db_plan_reference = rr_plan_ref r, db_plan_sha256 = plan, db_source_configuration_sha256 = configuration,
             db_server_identity_sha256 = identity, db_server_profile_sha256 = profile,
             db_credential_generation = generation, db_max_logical_effects = effects,
             db_completed_unix = rr_completed_unix r\<rparr>\<rparr>
          else None
      | _ \<Rightarrow> None)"

definition dry_run_receipt ::
  "bool \<Rightarrow> ReceiptRef \<Rightarrow> history_db \<Rightarrow> (DryRunReceipt option, WebConfigError) result" where
  "dry_run_receipt io reference d =
     (if \<not> io then Err history_error
      else case find (\<lambda>r. rr_receipt_ref r = reference) (hd_receipts d) of
          None \<Rightarrow> Ok None
        | Some r \<Rightarrow> map_ok Some (ok_or (receipt_of_row reference r) history_error))"

section \<open>Round trips of the columns\<close>

lemma HistoryKind_roundtrip [simp]: "HistoryKind_try_from (HistoryKind_code k) = Some k"
  by (cases k) (simp_all add: HistoryKind_try_from_def)

lemma TerminalStatus_roundtrip [simp]: "TerminalStatus_try_from (TerminalStatus_code s) = Some s"
  by (cases s) (simp_all add: TerminalStatus_try_from_def)

lemma checked_u64_read: "checked_u64 v = Some i \<Longrightarrow> read_u64 i = Some v"
  by (auto simp: checked_u64_def read_u64_def split: if_splits)

lemma all_some_map:
  "all_some (map f xs) = Some ys \<Longrightarrow> (\<And>x y. x \<in> set xs \<Longrightarrow> f x = Some y \<Longrightarrow> g y = Some x) \<Longrightarrow>
     all_some (map g ys) = Some xs"
proof (induction xs arbitrary: ys)
  case (Cons x xs)
  then obtain y zs where "f x = Some y" "all_some (map f xs) = Some zs" "ys = y # zs"
    by (auto split: option.splits)
  moreover have "all_some (map g zs) = Some xs"
    using Cons.IH [of zs] Cons.prems(2) \<open>all_some (map f xs) = Some zs\<close> by simp
  moreover have "g y = Some x" using Cons.prems(2) \<open>f x = Some y\<close> by simp
  ultimately show ?case by simp
qed simp

lemma from_row_inserted:
  assumes "insert_terminal r d = Some d1" "is_none_or (tr_plan r) (\<lambda>p. length (fst p) = 16)"
  shows "\<exists>row. hd_history d1 = hd_history d @ [row] \<and> hr_sequence row = hd_sequence d + 1 \<and>
    hr_recorded_unix row = tr_recorded_unix r \<and> from_row row = Some (hd_sequence d + 1, r)"
proof -
  let ?c = "tr_counters r"
  obtain columns where c: "counter_columns ?c = Some columns" and d1: "hd_history d1 = hd_history d @
      [\<lparr>hr_sequence = hd_sequence d + 1, hr_recorded_unix = tr_recorded_unix r,
        hr_kind = HistoryKind_code (tr_kind r), hr_status' = TerminalStatus_code (tr_status r),
        hr_plan_ref = map_option fst (tr_plan r), hr_plan_schema = map_option (uint \<circ> snd) (tr_plan r),
        hr_counters = columns\<rparr>]"
    using assms(1) by (auto simp: insert_terminal_def)
  have "all_some (map read_u64 columns) = Some
      [ct_assets ?c, ct_sidecars ?c, ct_bytes_read ?c, ct_warnings ?c, ct_errors ?c, ct_max_logical_effects ?c]"
    using c unfolding counter_columns_def by (rule all_some_map) (auto intro: checked_u64_read)
  then show ?thesis
    using d1 assms(2) uint_lt2p [of "snd (the (tr_plan r))"]
    by (cases "tr_plan r") (auto simp: from_row_def)
qed

lemma hex_value_lt: "is_lower_hex c \<Longrightarrow> hex_value c < 16"
  by (auto simp: is_lower_hex_def is_ascii_digit_def hex_value_def)

lemma hex_digit_value: "is_lower_hex c \<Longrightarrow> hex_digit (hex_value c) = c"
  by (auto simp: is_lower_hex_def is_ascii_digit_def hex_value_def hex_digit_def)

lemma decode_pairs_encode:
  "list_all is_lower_hex v \<Longrightarrow> even (length v) \<Longrightarrow>
     length (decode_pairs v) = length v div 2 \<and>
     concat (map (\<lambda>c. [hex_digit (byte_of c div 16), hex_digit (byte_of c mod 16)]) (decode_pairs v)) = v"
proof (induction v rule: decode_pairs.induct)
  case (1 a b rest)
  have "16 * hex_value a + hex_value b < 256"
    using 1 hex_value_lt [of a] hex_value_lt [of b] by auto
  then have "byte_of (char_of (16 * hex_value a + hex_value b)) = 16 * hex_value a + hex_value b"
    by simp
  then show ?case using 1 hex_value_lt [of b] by (simp add: hex_digit_value)
qed auto

lemma sha256_roundtrip: "decode_sha256 v = Ok bs \<Longrightarrow> encode_sha256 bs = Some v"
  using decode_pairs_encode [of v]
  by (auto simp: decode_sha256_def encode_sha256_def is_lower_sha256_def split: if_splits)

section \<open>Retention\<close>

text \<open>Sequences ascend and stay below the counter; receipt references are unique and no row
  identifier exceeds the next one.\<close>

definition history_ok :: "history_db \<Rightarrow> bool" where
  "history_ok d \<longleftrightarrow>
     sorted_wrt (<) (map hr_sequence (hd_history d)) \<and> (\<forall>r \<in> set (hd_history d). hr_sequence r \<le> hd_sequence d) \<and>
     distinct (map rr_receipt_ref (hd_receipts d))"

lemma insert_terminal_ok: "history_ok d \<Longrightarrow> insert_terminal r d = Some d1 \<Longrightarrow> history_ok d1"
  by (fastforce simp: history_ok_def insert_terminal_def sorted_wrt_append)

lemma sorted_wrt_newest: "sorted_wrt P (map f xs) \<Longrightarrow> sorted_wrt P (map f (newest_rows n xs))"
  by (simp add: newest_rows_def drop_map [symmetric] sorted_wrt_drop)

lemma distinct_map_filter_list: "distinct (map f xs) \<Longrightarrow> distinct (map f (filter P xs))"
  by (rule distinct_map_filter)

lemma sorted_wrt_map_filter: "sorted_wrt P (map f xs) \<Longrightarrow> sorted_wrt P (map f (filter Q xs))"
  by (induction xs) auto

lemma retain_rows_ok: "history_ok d \<Longrightarrow> history_ok (retain_rows hs now d)"
  by (auto simp: history_ok_def retain_rows_def Let_def newest_receipts_def newest_rows_def
      intro!: sorted_wrt_newest [unfolded newest_rows_def] sorted_wrt_map_filter distinct_map_filter
      dest: in_set_dropD)

lemma newest_rows_snoc: "0 < n \<Longrightarrow> newest_rows n (xs @ [x]) = newest_rows (n - 1) xs @ [x]"
  by (cases n) (auto simp: newest_rows_def Suc_diff_le)

lemma i64_cutoff: "0 \<le> b \<Longrightarrow> 0 \<le> a \<Longrightarrow> i64_saturating_sub a b \<le> a"
  by (simp add: i64_saturating_sub_def min_def max_def)

lemma i64_cutoff_ge: "0 \<le> b \<Longrightarrow> a < 2 ^ 63 \<Longrightarrow> a - b \<le> i64_saturating_sub a b"
  by (simp add: i64_saturating_sub_def min_def max_def)

lemma record_terminal_Ok:
  assumes "record_terminal io hs r d = (Ok n, d')"
  obtains d1 where "insert_terminal r d = Some d1" "0 \<le> tr_recorded_unix r"
    "n = hd_sequence d1" "d' = retain_rows hs (tr_recorded_unix r) d1"
  using assms
  by (auto simp: record_terminal_def maintain_def Let_def split: if_splits option.splits prod.splits result.splits)

text \<open>C31: recording a finished job keeps the history bounded: afterwards it holds at most the
  configured number of rows, none older than the retention period, the new row has
  a sequence number above every earlier one, and reading the newest row back gives
  exactly the record that was written.\<close>

theorem history_retention:
  assumes "history_ok d" "record_terminal io hs r d = (Ok n, d')"
    and "0 < hs_retained_rows hs" "0 \<le> hs_retention_seconds hs" "tr_recorded_unix r < 2 ^ 63"
    and "is_none_or (tr_plan r) (\<lambda>p. length (fst p) = 16)"
  shows "history_ok d' \<and> length (hd_history d') \<le> hs_retained_rows hs \<and>
    (\<forall>row \<in> set (hd_history d'). tr_recorded_unix r - hs_retention_seconds hs \<le> hr_recorded_unix row) \<and>
    (\<forall>row \<in> set (hd_history d). hr_sequence row < n) \<and> latest True hs 1 d' = Ok [(n, r)]"
proof -
  let ?cut = "i64_saturating_sub (tr_recorded_unix r) (hs_retention_seconds hs)"
  obtain d1 where d1: "insert_terminal r d = Some d1" "0 \<le> tr_recorded_unix r" "n = hd_sequence d1"
      "d' = retain_rows hs (tr_recorded_unix r) d1"
    using record_terminal_Ok [OF assms(2)] .
  obtain row where row: "hd_history d1 = hd_history d @ [row]" "hr_recorded_unix row = tr_recorded_unix r"
      "from_row row = Some (hd_sequence d + 1, r)"
    using from_row_inserted [OF d1(1) assms(6)] by blast
  have n: "n = hd_sequence d + 1" using d1(1,3) by (auto simp: insert_terminal_def)
  have rows: "hd_history d' = newest_rows (hs_retained_rows hs - 1)
      (filter (\<lambda>r. hr_recorded_unix r \<ge> ?cut) (hd_history d)) @ [row]"
    using d1(4) row i64_cutoff [OF assms(4) d1(2)] newest_rows_snoc [OF assms(3)]
    by (simp add: retain_rows_def Let_def)
  have "history_ok d'" using d1 assms(1) insert_terminal_ok retain_rows_ok by blast
  moreover have "length (hd_history d') \<le> hs_retained_rows hs"
    using d1(4) by (simp add: retain_rows_def Let_def newest_rows_def)
  moreover have "\<forall>row \<in> set (hd_history d'). tr_recorded_unix r - hs_retention_seconds hs \<le> hr_recorded_unix row"
    using d1(4) i64_cutoff_ge [OF assms(4,5)]
    by (force simp: retain_rows_def Let_def newest_rows_def dest!: in_set_dropD)
  moreover have "\<forall>row \<in> set (hd_history d). hr_sequence row < n"
    using assms(1) n by (auto simp: history_ok_def)
  moreover have "latest True hs 1 d' = Ok [(n, r)]"
    using rows row(3) n assms(3) by (simp add: latest_def newest_rows_def)
  ultimately show ?thesis by blast
qed

section \<open>Receipts read back\<close>

lemma find_unique: "distinct (map f xs) \<Longrightarrow> x \<in> set xs \<Longrightarrow> find (\<lambda>y. f y = f x) xs = Some x"
  by (induction xs) force+

lemma length_filter_subset:
  "(\<forall>x \<in> set xs. P x \<longrightarrow> Q x) \<Longrightarrow> length (filter P xs) \<le> length (filter Q xs)"
  by (induction xs) auto

lemma fold_max_ge: "x \<in> set xs \<or> x \<le> m \<Longrightarrow> x \<le> fold max xs (m :: int)"
proof (induction xs arbitrary: m)
  case (Cons y xs)
  then have "x \<in> set xs \<or> x \<le> max y m" by (auto simp: le_max_iff_disj)
  then show ?case using Cons.IH [of "max y m"] by simp
qed simp

lemma next_rowid_gt: "q \<in> set rows \<Longrightarrow> rr_rowid q < next_rowid rows"
  using fold_max_ge [of "rr_rowid q" "map rr_rowid rows" 0] by (simp add: next_rowid_def)

lemma receipt_of_row_roundtrip:
  assumes "receipt_row_of reference b d = Ok row" "length (db_plan_reference b) = 16"
  shows "receipt_of_row reference row = Some \<lparr>dr_reference = reference, dr_binding = b\<rparr>"
  using assms
  by (cases b)
    (auto simp: receipt_row_of_def receipt_of_row_def result_simps dest!: sha256_roundtrip checked_u64_read)

lemma receipt_row_of_key:
  "receipt_row_of reference b d = Ok row \<Longrightarrow>
     rr_receipt_ref row = reference \<and> rr_completed_unix row = db_completed_unix b \<and> rr_rowid row = next_rowid (hd_receipts d)"
  by (auto simp: receipt_row_of_def result_simps)

text \<open>A receipt survives the retention that follows its insertion when fewer than the retained
  number of receipts were completed later.\<close>

lemma new_receipt_retained:
  assumes "receipt_row_of reference b d = Ok row" "0 \<le> hs_retention_seconds hs" "0 \<le> db_completed_unix b"
    and "length (filter (\<lambda>q. db_completed_unix b < rr_completed_unix q) (hd_receipts d)) < hs_retained_rows hs"
    and "hd_receipts d2 = hd_receipts d @ [row]"
  shows "row \<in> set (hd_receipts (retain_rows hs (db_completed_unix b) d2))"
proof -
  let ?new = "\<lambda>r. rr_completed_unix r \<ge> i64_saturating_sub (db_completed_unix b) (hs_retention_seconds hs)"
  let ?rows = "filter ?new (hd_receipts d2)"
  note key = receipt_row_of_key [OF assms(1)]
  have later: "receipt_key row < receipt_key q \<longrightarrow> db_completed_unix b < rr_completed_unix q"
    if "q \<in> set (hd_receipts d)" for q
    using next_rowid_gt [OF that] key by (auto simp: receipt_key_def)
  have "filter (\<lambda>q. receipt_key row < receipt_key q) ?rows =
      filter (\<lambda>q. ?new q \<and> receipt_key row < receipt_key q) (hd_receipts d)"
    using assms(5) by (auto simp: conj_commute)
  moreover have "length (filter (\<lambda>q. ?new q \<and> receipt_key row < receipt_key q) (hd_receipts d))
      \<le> length (filter (\<lambda>q. db_completed_unix b < rr_completed_unix q) (hd_receipts d))"
    using later by (intro length_filter_subset) auto
  ultimately have "length (filter (\<lambda>q. receipt_key row < receipt_key q) ?rows) < hs_retained_rows hs"
    using assms(4) by simp
  moreover have "row \<in> set ?rows" using assms(5) key i64_cutoff [OF assms(2,3)] by simp
  ultimately show ?thesis by (simp add: retain_rows_def Let_def newest_receipts_def)
qed

lemma receipt_attempt_Ok:
  assumes "receipt_attempt io hs b t reference d = (Some (Ok receipt), d')"
  obtains row d1 where "receipt_row_of reference b d = Ok row" "reference \<notin> rr_receipt_ref ` set (hd_receipts d)"
    "insert_terminal t d = Some d1" "receipt = \<lparr>dr_reference = reference, dr_binding = b\<rparr>"
    "d' = retain_rows hs (db_completed_unix b) (d1\<lparr>hd_receipts := hd_receipts d1 @ [row]\<rparr>)"
  using assms
  by (auto simp: receipt_attempt_def maintain_def Let_def
      split: if_splits option.splits prod.splits result.splits)

lemma receipt_attempt_None: "receipt_attempt io hs b t reference d = (None, d') \<Longrightarrow> d' = d"
  by (auto simp: receipt_attempt_def Let_def split: if_splits option.splits prod.splits result.splits)

lemma receipt_loop_Ok:
  "receipt_loop hs b t xs d = (Ok receipt, d') \<Longrightarrow>
     \<exists>io reference. receipt_attempt io hs b t reference d = (Some (Ok receipt), d')"
  by (induction xs) (auto split: option.splits prod.splits dest: receipt_attempt_None)

text \<open>C32: a dry-run receipt is read back exactly as it was recorded, its digests and counters
  surviving their binary columns, as long as the clock has not gone back behind so
  many receipts that retention removes the new one.\<close>

theorem receipt_roundtrip:
  assumes "history_ok d" "record_dry_run size_ok hs attempts b t d = (Ok receipt, d')"
    and "length (filter (\<lambda>q. db_completed_unix b < rr_completed_unix q) (hd_receipts d)) < hs_retained_rows hs"
    and "0 \<le> hs_retention_seconds hs" "length (db_plan_reference b) = 16"
  shows "dry_run_receipt True (dr_reference receipt) d' = Ok (Some receipt) \<and> dr_binding receipt = b \<and> history_ok d'"
proof -
  have nonneg: "0 \<le> db_completed_unix b"
    using assms(2) by (auto simp: record_dry_run_def validate_dry_run_def split: result.splits if_splits)
  obtain io reference where "receipt_attempt io hs b t reference d = (Some (Ok receipt), d')"
    using assms(2) receipt_loop_Ok by (fastforce simp: record_dry_run_def split: result.splits if_splits)
  then obtain row d1 where row: "receipt_row_of reference b d = Ok row"
      "reference \<notin> rr_receipt_ref ` set (hd_receipts d)" "insert_terminal t d = Some d1"
      "receipt = \<lparr>dr_reference = reference, dr_binding = b\<rparr>"
      "d' = retain_rows hs (db_completed_unix b) (d1\<lparr>hd_receipts := hd_receipts d1 @ [row]\<rparr>)"
    by (rule receipt_attempt_Ok)
  have same: "hd_receipts d1 = hd_receipts d" using row(3) by (auto simp: insert_terminal_def)
  have "history_ok (d1\<lparr>hd_receipts := hd_receipts d1 @ [row]\<rparr>)"
    using insert_terminal_ok [OF assms(1) row(3)] row(2) same receipt_row_of_key [OF row(1)]
    by (auto simp: history_ok_def)
  then have ok: "history_ok d'" using row(5) retain_rows_ok by simp
  have "row \<in> set (hd_receipts d')"
    using new_receipt_retained [OF row(1) assms(4) nonneg assms(3), of "d1\<lparr>hd_receipts := hd_receipts d1 @ [row]\<rparr>"]
      row(5) same by simp
  then have "find (\<lambda>r. rr_receipt_ref r = rr_receipt_ref row) (hd_receipts d') = Some row"
    using ok by (intro find_unique) (auto simp: history_ok_def)
  then have "dry_run_receipt True reference d' = Ok (Some receipt)"
    using receipt_row_of_key [OF row(1)] receipt_of_row_roundtrip [OF row(1) assms(5)] row(4)
    by (simp add: dry_run_receipt_def)
  then show ?thesis using row(4) ok by simp
qed

section \<open>Plan store\<close>

text \<open>
  The plan directory holds a plan file and a binding file per reference, each as its bytes; the
  temporary files with unguessable names are not part of the state. The JSON codec is a parameter: what
  \<open>to_writer_pretty\<close> writes of a value, if it can, and what \<open>from_reader\<close> reads from the bytes of a file.
\<close>

record plan_dir =
  pd_plans :: "(ArtifactRef, string) btree_map"
  pd_bindings :: "(ArtifactRef, string) btree_map"

record plan_codec =
  cd_plan_json :: "UploadPlan \<Rightarrow> string option"
  cd_json_plan :: "string \<Rightarrow> UploadPlan option"
  cd_binding_json :: "PlanBinding \<Rightarrow> string option"
  cd_json_binding :: "string \<Rightarrow> PlanBinding option"

definition MAX_BINDING_BYTES :: nat where
  "MAX_BINDING_BYTES = 16 * 1024"

text \<open>\<open>write_json\<close> of \<open>plan_io.rs\<close>: the contents of the new file. \<open>created\<close> and \<open>synced\<close> tell whether
  creating it and whether flushing and syncing it succeeded; the bounded writer refuses the byte that
  would exceed the limit, in the text or in the line end.\<close>

definition write_json ::
  "('a \<Rightarrow> string option) \<Rightarrow> nat \<Rightarrow> bool \<Rightarrow> bool \<Rightarrow> 'a \<Rightarrow> (string, WebConfigError) result" where
  "write_json encode maximum created synced x =
     (if \<not> created then Err ''cannot create plan state''
      else case encode x of
        None \<Rightarrow> Err ''cannot serialize plan state''
      | Some json \<Rightarrow>
          if length json > maximum then Err ''cannot serialize plan state''
          else if length json = maximum then Err ''plan state size limit exceeded''
          else if \<not> synced then Err ''cannot sync plan state''
          else Ok (json @ [CHR 0x0A]))"

text \<open>\<open>load_json_file\<close>: the stamp of the path, the opened file with its stamp, the parsed value, and the
  stamp again. \<open>same\<close> tells whether the file could be opened and stayed the same private file
  through the three looks; the value comes with the bytes it was read from.\<close>

definition load_json_file ::
  "(string \<Rightarrow> 'a option) \<Rightarrow> nat \<Rightarrow> bool \<Rightarrow> string option \<Rightarrow> ('a \<times> string, WebConfigError) result" where
  "load_json_file decode maximum same file =
     and_then (ok_or file ''cannot inspect plan state'') (\<lambda>bytes.
     if bytes = [] \<or> length bytes > maximum then Err ''plan state file is invalid''
     else if \<not> same then Err ''plan state identity changed''
     else map_ok (\<lambda>x. (x, bytes)) (ok_or (decode bytes) ''stored plan state is invalid''))"

definition load_json ::
  "(string \<Rightarrow> 'a option) \<Rightarrow> nat \<Rightarrow> bool \<Rightarrow> string option \<Rightarrow> ('a, WebConfigError) result" where
  "load_json decode maximum same file = map_ok fst (load_json_file decode maximum same file)"

text \<open>A file that was written loads as what the codec reads from it.\<close>

lemma load_written:
  "write_json encode maximum created synced x = Ok bytes \<Longrightarrow>
     (\<And>json. encode x = Some json \<Longrightarrow> decode (json @ [CHR 0x0A]) = Some x) \<Longrightarrow>
     load_json decode maximum True (Some bytes) = Ok x"
  by (auto simp: write_json_def load_json_def load_json_file_def split: option.splits if_splits)

definition BINDING_SCHEMA_VERSION :: u32 where
  "BINDING_SCHEMA_VERSION = 1"

definition CREATE_ATTEMPTS :: nat where
  "CREATE_ATTEMPTS = 8"

definition MAX_ID_BYTES :: nat where
  "MAX_ID_BYTES = 64"

definition validate_id :: "string \<Rightarrow> (unit, WebConfigError) result" where
  "validate_id v =
     (if 1 \<le> length v \<and> length v \<le> MAX_ID_BYTES \<and> (is_ascii_lower (hd v) \<or> is_ascii_digit (hd v))
         \<and> list_all (\<lambda>c. is_ascii_lower c \<or> is_ascii_digit c \<or> c = CHR ''-'' \<or> c = CHR ''_'') (tl v)
      then Ok () else Err ''profile identifier is invalid'')"

definition validate_binding_inputs ::
  "string \<Rightarrow> string \<Rightarrow> string \<Rightarrow> string \<Rightarrow> u64 \<Rightarrow> (unit, WebConfigError) result" where
  "validate_binding_inputs source_id source_sha256 server_id server_sha256 credential_generation =
     and_then (validate_id source_id) (\<lambda>_.
     and_then (validate_id server_id) (\<lambda>_.
     if credential_generation = 0 \<or> \<not> is_sha256 source_sha256 \<or> \<not> is_sha256 server_sha256
     then Err ''plan profile binding is invalid'' else Ok ()))"

definition logical_effects :: "UploadPlan \<Rightarrow> u64" where
  "logical_effects plan =
     (if sum_max_mutations (up_summary plan) = 0 then sum_operations (up_summary plan)
      else sum_max_mutations (up_summary plan))"

definition validate_loaded ::
  "rfc3339 \<Rightarrow> (UploadPlan \<Rightarrow> string option) \<Rightarrow> (string \<Rightarrow> string) \<Rightarrow> UploadPlan \<Rightarrow> PlanBinding
     \<Rightarrow> (unit, WebConfigError) result" where
  "validate_loaded rfc to_vec sha plan b =
     and_then (map_err (\<lambda>_. ''stored upload plan is invalid'') (UploadPlan_validate rfc plan)) (\<lambda>_.
     and_then (validate_binding_inputs (pb_source_profile_id b) (pb_source_profile_sha256 b)
         (pb_server_profile_id b) (pb_server_profile_sha256 b) (pb_credential_generation b)) (\<lambda>_.
     and_then (map_err (\<lambda>_. ''stored upload plan digest failed'') (upload_plan_sha256 rfc to_vec sha plan)) (\<lambda>digest.
     if pb_schema_version b \<noteq> BINDING_SCHEMA_VERSION \<or> digest \<noteq> pb_plan_sha256 b
        \<or> \<not> is_sha256 (pb_server_identity_sha256 b)
        \<or> sc_identity_sha256 (up_server plan) \<noteq> pb_server_identity_sha256 b
        \<or> logical_effects plan \<noteq> pb_max_logical_effects b
     then Err ''stored upload plan binding changed'' else Ok ())))"

text \<open>The steps of \<open>write_new\<close>, by their index in \<open>io\<close>: the nonce (0), creating and syncing the temporary
  files of the binding (1, 2) and of the plan (3, 4), the storage bound (5), linking the binding and
  unlinking its temporary file (6, 7), the same for the plan (8, 9), the cleanup of the published binding
  when the plan cannot be published (10), whose own failure the code ignores, and the directory sync (11).\<close>

definition write_new ::
  "plan_codec \<Rightarrow> nat \<Rightarrow> (nat \<Rightarrow> bool) \<Rightarrow> ArtifactRef \<Rightarrow> UploadPlan \<Rightarrow> PlanBinding \<Rightarrow> plan_dir
     \<Rightarrow> (bool, WebConfigError) result \<times> plan_dir" where
  "write_new codec maximum io reference plan b dir =
     (if btm_get (pd_plans dir) reference \<noteq> None \<or> btm_get (pd_bindings dir) reference \<noteq> None then (Ok False, dir)
      else if \<not> io 0 then (Err ''plan reference generation failed'', dir)
      else case write_json (cd_binding_json codec) MAX_BINDING_BYTES (io 1) (io 2) b of
        Err e \<Rightarrow> (Err e, dir)
      | Ok binding_bytes \<Rightarrow>
     (case write_json (cd_plan_json codec) maximum (io 3) (io 4) plan of
        Err e \<Rightarrow> (Err e, dir)
      | Ok plan_bytes \<Rightarrow>
      if \<not> io 5 then (Err ''plan storage bound exceeded'', dir)
      else if \<not> io 6 then (Err ''cannot publish plan binding'', dir)
      else let d1 = dir\<lparr>pd_bindings := btm_insert reference binding_bytes (pd_bindings dir)\<rparr> in
        if \<not> io 7 then (Err ''cannot publish plan binding'', d1)
        else let d2 = (if io 8 then d1\<lparr>pd_plans := btm_insert reference plan_bytes (pd_plans d1)\<rparr> else d1) in
          if \<not> io 8 \<or> \<not> io 9
          then (Err ''cannot publish upload plan'',
                if io 10 then d2\<lparr>pd_bindings := btm_remove reference (pd_bindings d2)\<rparr> else d2)
          else if \<not> io 11 then (Err ''cannot sync plan directory'', d2)
          else (Ok True, d2)))"

primrec write_loop ::
  "plan_codec \<Rightarrow> nat \<Rightarrow> UploadPlan \<Rightarrow> PlanBinding \<Rightarrow> ((nat \<Rightarrow> bool) \<times> ArtifactRef option) list \<Rightarrow> plan_dir
     \<Rightarrow> (PlanArtifact, WebConfigError) result \<times> plan_dir" where
  "write_loop codec maximum plan b [] dir = (Err ''plan reference capacity exhausted'', dir)"
| "write_loop codec maximum plan b (x # xs) dir =
     (case snd x of
        None \<Rightarrow> (Err ''plan reference generation failed'', dir)
      | Some reference \<Rightarrow>
          (case write_new codec maximum (fst x) reference plan b dir of
             (Err e, d1) \<Rightarrow> (Err e, d1)
           | (Ok True, d1) \<Rightarrow>
               (Ok \<lparr>pl_reference = reference, pl_schema_version = up_schema_version plan,
                    pl_plan_sha256 = pb_plan_sha256 b, pl_max_logical_effects = pb_max_logical_effects b\<rparr>, d1)
           | (Ok False, d1) \<Rightarrow> write_loop codec maximum plan b xs d1))"

definition PlanStore_write ::
  "rfc3339 \<Rightarrow> (UploadPlan \<Rightarrow> string option) \<Rightarrow> (string \<Rightarrow> string) \<Rightarrow> plan_codec \<Rightarrow> nat
     \<Rightarrow> (nat \<Rightarrow> (nat \<Rightarrow> bool) \<times> ArtifactRef option)
     \<Rightarrow> UploadPlan \<Rightarrow> string \<Rightarrow> string \<Rightarrow> string \<Rightarrow> string \<Rightarrow> u64 \<Rightarrow> plan_dir
     \<Rightarrow> (PlanArtifact, WebConfigError) result \<times> plan_dir" where
  "PlanStore_write rfc to_vec sha codec maximum attempts plan source_id source_sha256 server_id server_sha256 generation dir =
     (case and_then (map_err (\<lambda>_. ''upload plan is invalid'') (UploadPlan_validate rfc plan)) (\<lambda>_.
           and_then (validate_binding_inputs source_id source_sha256 server_id server_sha256 generation) (\<lambda>_.
             map_err (\<lambda>_. ''upload plan digest failed'') (upload_plan_sha256 rfc to_vec sha plan))) of
        Err e \<Rightarrow> (Err e, dir)
      | Ok plan_sha256 \<Rightarrow>
          write_loop codec maximum plan
            \<lparr>pb_schema_version = BINDING_SCHEMA_VERSION, pb_plan_sha256 = plan_sha256,
             pb_source_profile_id = source_id, pb_source_profile_sha256 = source_sha256,
             pb_server_profile_id = server_id, pb_server_profile_sha256 = server_sha256,
             pb_credential_generation = generation,
             pb_server_identity_sha256 = sc_identity_sha256 (up_server plan),
             pb_max_logical_effects = logical_effects plan\<rparr>
            (map attempts [0 ..< CREATE_ATTEMPTS]) dir)"

text \<open>The steps of \<open>load\<close>, by their index in \<open>io\<close>: the looks at the binding (0) and at the plan (1), and
  the binding's stamp unchanged afterwards (2). \<open>open_export\<close> does the same, rewinds the plan file (3) and
  hands out its bytes and length.\<close>

definition PlanStore_load ::
  "rfc3339 \<Rightarrow> (UploadPlan \<Rightarrow> string option) \<Rightarrow> (string \<Rightarrow> string) \<Rightarrow> plan_codec \<Rightarrow> nat \<Rightarrow> (nat \<Rightarrow> bool)
     \<Rightarrow> ArtifactRef \<Rightarrow> plan_dir \<Rightarrow> (StoredUploadPlan, WebConfigError) result" where
  "PlanStore_load rfc to_vec sha codec maximum io reference dir =
     and_then (load_json (cd_json_binding codec) MAX_BINDING_BYTES (io 0) (btm_get (pd_bindings dir) reference)) (\<lambda>b.
     and_then (load_json (cd_json_plan codec) maximum (io 1) (btm_get (pd_plans dir) reference)) (\<lambda>plan.
     if \<not> io 2 then Err ''plan binding identity changed''
     else and_then (validate_loaded rfc to_vec sha plan b) (\<lambda>_.
       Ok \<lparr>sp_reference = reference, sp_plan = plan, sp_binding = b\<rparr>)))"

definition PlanStore_open_export ::
  "rfc3339 \<Rightarrow> (UploadPlan \<Rightarrow> string option) \<Rightarrow> (string \<Rightarrow> string) \<Rightarrow> plan_codec \<Rightarrow> nat \<Rightarrow> (nat \<Rightarrow> bool)
     \<Rightarrow> ArtifactRef \<Rightarrow> plan_dir \<Rightarrow> (string \<times> nat, WebConfigError) result" where
  "PlanStore_open_export rfc to_vec sha codec maximum io reference dir =
     and_then (load_json (cd_json_binding codec) MAX_BINDING_BYTES (io 0) (btm_get (pd_bindings dir) reference)) (\<lambda>b.
     and_then (load_json_file (cd_json_plan codec) maximum (io 1) (btm_get (pd_plans dir) reference)) (\<lambda>(plan, bytes).
     if \<not> io 2 then Err ''plan binding identity changed''
     else and_then (validate_loaded rfc to_vec sha plan b) (\<lambda>_.
       if \<not> io 3 then Err ''cannot rewind upload plan'' else Ok (bytes, length bytes))))"

text \<open>The steps of \<open>remove\<close>: the plan file, the binding file, the directory sync.\<close>

definition PlanStore_remove ::
  "(nat \<Rightarrow> bool) \<Rightarrow> ArtifactRef \<Rightarrow> plan_dir \<Rightarrow> (unit, WebConfigError) result \<times> plan_dir" where
  "PlanStore_remove io reference dir =
     (if \<not> io 0 then (Err ''cannot remove unpublished plan'', dir)
      else let d1 = dir\<lparr>pd_plans := btm_remove reference (pd_plans dir)\<rparr> in
        if \<not> io 1 then (Err ''cannot remove unpublished plan'', d1)
        else let d2 = d1\<lparr>pd_bindings := btm_remove reference (pd_bindings d1)\<rparr> in
          (if io 2 then Ok () else Err ''cannot sync plan directory'', d2))"

section \<open>Plans read back\<close>

text \<open>A finished write has added the two files of its reference, which nothing had before.\<close>

lemma write_new_Ok:
  assumes "write_new codec maximum io reference plan b dir = (Ok True, dir')"
  obtains binding_bytes plan_bytes where
    "btm_get (pd_plans dir) reference = None" "btm_get (pd_bindings dir) reference = None"
    "write_json (cd_binding_json codec) MAX_BINDING_BYTES (io 1) (io 2) b = Ok binding_bytes"
    "write_json (cd_plan_json codec) maximum (io 3) (io 4) plan = Ok plan_bytes"
    "dir' = dir\<lparr>pd_plans := btm_insert reference plan_bytes (pd_plans dir),
       pd_bindings := btm_insert reference binding_bytes (pd_bindings dir)\<rparr>"
  using assms by (auto simp: write_new_def Let_def split: if_splits result.splits)

lemma write_new_False: "write_new codec maximum io reference plan b dir = (Ok False, dir') \<Longrightarrow> dir' = dir"
  by (auto simp: write_new_def Let_def split: if_splits result.splits)

lemma write_loop_Ok:
  "write_loop codec maximum plan b xs dir = (Ok artifact, dir') \<Longrightarrow>
     (\<exists>io. write_new codec maximum io (pl_reference artifact) plan b dir = (Ok True, dir')) \<and>
     pl_schema_version artifact = up_schema_version plan \<and> pl_plan_sha256 artifact = pb_plan_sha256 b \<and>
     pl_max_logical_effects artifact = pb_max_logical_effects b"
proof (induction xs)
  case (Cons x xs)
  then show ?case
    using write_new_False by (auto split: option.splits prod.splits result.splits bool.splits) blast+
qed simp

lemma upload_plan_identity: "UploadPlan_validate rfc plan = Ok u \<Longrightarrow> is_sha256 (sc_identity_sha256 (up_server plan))"
  using UploadPlan_validate_ok_iff [of rfc plan] by (auto simp: upload_plan_ok_def)

text \<open>C33: a plan the store accepted is loaded back from its file, with exactly the binding it was stored
  with: the identifiers and the digests of both profiles each in its place, the credential generation, the
  server identity of the plan, the digest of the plan's canonical serialisation and its ceiling of logical
  effects. The reference had no plan before, and what every other reference loads stays the same.
  The JSON codec must read back what it wrote: the text of this plan and of every binding, followed by the
  line end that \<open>write_json\<close> appends.\<close>

theorem plan_store_roundtrip:
  assumes "PlanStore_write rfc to_vec sha codec maximum attempts plan source_id source_sha server_id server_sha generation dir
    = (Ok artifact, dir')"
    and plan_json: "\<And>json. cd_plan_json codec plan = Some json \<Longrightarrow> cd_json_plan codec (json @ [CHR 0x0A]) = Some plan"
    and binding_json: "\<And>b json. cd_binding_json codec b = Some json \<Longrightarrow> cd_json_binding codec (json @ [CHR 0x0A]) = Some b"
  shows "(\<exists>bytes. to_vec plan = Some bytes \<and> pl_plan_sha256 artifact = sha bytes \<and>
      PlanStore_load rfc to_vec sha codec maximum (\<lambda>_. True) (pl_reference artifact) dir' =
        Ok \<lparr>sp_reference = pl_reference artifact, sp_plan = plan,
            sp_binding = \<lparr>pb_schema_version = 1, pb_plan_sha256 = sha bytes,
              pb_source_profile_id = source_id, pb_source_profile_sha256 = source_sha,
              pb_server_profile_id = server_id, pb_server_profile_sha256 = server_sha,
              pb_credential_generation = generation, pb_server_identity_sha256 = sc_identity_sha256 (up_server plan),
              pb_max_logical_effects = pl_max_logical_effects artifact\<rparr>\<rparr>) \<and>
    pl_max_logical_effects artifact = (if sum_max_mutations (up_summary plan) = 0
      then sum_operations (up_summary plan) else sum_max_mutations (up_summary plan)) \<and>
    (\<forall>other io. other \<noteq> pl_reference artifact \<longrightarrow>
       PlanStore_load rfc to_vec sha codec maximum io other dir' = PlanStore_load rfc to_vec sha codec maximum io other dir) \<and>
    \<not> is_ok (PlanStore_load rfc to_vec sha codec maximum (\<lambda>_. True) (pl_reference artifact) dir)"
proof -
  obtain digest u where ok: "UploadPlan_validate rfc plan = Ok u"
      "validate_binding_inputs source_id source_sha server_id server_sha generation = Ok ()"
      "upload_plan_sha256 rfc to_vec sha plan = Ok digest"
    using assms(1) by (auto simp: PlanStore_write_def result_simps split: result.splits)
  let ?b = "\<lparr>pb_schema_version = BINDING_SCHEMA_VERSION, pb_plan_sha256 = digest,
      pb_source_profile_id = source_id, pb_source_profile_sha256 = source_sha,
      pb_server_profile_id = server_id, pb_server_profile_sha256 = server_sha,
      pb_credential_generation = generation, pb_server_identity_sha256 = sc_identity_sha256 (up_server plan),
      pb_max_logical_effects = logical_effects plan\<rparr>"
  have "write_loop codec maximum plan ?b (map attempts [0 ..< CREATE_ATTEMPTS]) dir = (Ok artifact, dir')"
    using assms(1) ok by (simp add: PlanStore_write_def)
  note w = write_loop_Ok [OF this]
  then obtain io where "write_new codec maximum io (pl_reference artifact) plan ?b dir = (Ok True, dir')" by blast
  then obtain binding_bytes plan_bytes where f:
      "btm_get (pd_plans dir) (pl_reference artifact) = None" "btm_get (pd_bindings dir) (pl_reference artifact) = None"
      "write_json (cd_binding_json codec) MAX_BINDING_BYTES (io 1) (io 2) ?b = Ok binding_bytes"
      "write_json (cd_plan_json codec) maximum (io 3) (io 4) plan = Ok plan_bytes"
      "dir' = dir\<lparr>pd_plans := btm_insert (pl_reference artifact) plan_bytes (pd_plans dir),
         pd_bindings := btm_insert (pl_reference artifact) binding_bytes (pd_bindings dir)\<rparr>"
    by (rule write_new_Ok)
  have "validate_loaded rfc to_vec sha plan ?b = Ok ()"
    using ok upload_plan_identity [OF ok(1)] by (simp add: validate_loaded_def)
  moreover have "load_json (cd_json_binding codec) MAX_BINDING_BYTES True (Some binding_bytes) = Ok ?b"
    using f(3) by (rule load_written) (rule binding_json)
  moreover have "load_json (cd_json_plan codec) maximum True (Some plan_bytes) = Ok plan"
    using f(4) by (rule load_written) (rule plan_json)
  ultimately have loaded: "PlanStore_load rfc to_vec sha codec maximum (\<lambda>_. True) (pl_reference artifact) dir' =
      Ok \<lparr>sp_reference = pl_reference artifact, sp_plan = plan, sp_binding = ?b\<rparr>"
    by (simp add: PlanStore_load_def f(5))
  obtain bytes where "to_vec plan = Some bytes" "digest = sha bytes"
    using upload_plan_sha256_valid [OF ok(3)] by blast
  moreover have "pl_plan_sha256 artifact = digest" "pl_max_logical_effects artifact = logical_effects plan"
    using w by simp_all
  ultimately show ?thesis
    using f(1,2) loaded
    by (auto simp: f(5) BINDING_SCHEMA_VERSION_def logical_effects_def PlanStore_load_def load_json_def load_json_file_def)
qed

section \<open>Concrete stores\<close>

definition sample_history_store :: HistoryStore where
  "sample_history_store = \<lparr>hs_retained_rows = 1, hs_retention_seconds = 86400\<rparr>"

definition empty_history :: history_db where
  "empty_history = \<lparr>hd_history = [], hd_sequence = 0, hd_receipts = []\<rparr>"

definition sample_ref :: "char \<Rightarrow> string" where
  "sample_ref c = replicate 16 c"

definition sample_binding :: "int \<Rightarrow> DryRunBinding" where
  "sample_binding completed =
     \<lparr>db_plan_reference = sample_ref CHR ''p'', db_plan_sha256 = hex64 CHR ''1'',
      db_source_configuration_sha256 = hex64 CHR ''2'', db_server_identity_sha256 = hex64 CHR ''3'',
      db_server_profile_sha256 = hex64 CHR ''4'', db_credential_generation = 1, db_max_logical_effects = 2,
      db_completed_unix = completed\<rparr>"

definition sample_terminal :: "int \<Rightarrow> TerminalRecord" where
  "sample_terminal completed =
     \<lparr>tr_recorded_unix = completed, tr_kind = FolderDryRun, tr_status = TCompleted,
      tr_plan = Some (sample_ref CHR ''p'', 1),
      tr_counters = SafeCounters_default\<lparr>ct_max_logical_effects := 2\<rparr>\<rparr>"

definition sample_receipt :: "int \<Rightarrow> char \<Rightarrow> history_db \<Rightarrow> (DryRunReceipt, WebConfigError) result \<times> history_db" where
  "sample_receipt completed c =
     record_dry_run True sample_history_store (\<lambda>_. (\<lambda>_. True, Some (sample_ref c)))
       (sample_binding completed) (sample_terminal completed)"

lemma empty_history_ok: "history_ok empty_history"
  by (simp add: history_ok_def empty_history_def)

theorem history_retention_witness:
  "latest True sample_history_store 1
     (snd (record_terminal (\<lambda>_. True) sample_history_store (sample_terminal 100) empty_history)) = Ok [(1, sample_terminal 100)]"
proof -
  have r: "record_terminal (\<lambda>_. True) sample_history_store (sample_terminal 100) empty_history =
      (Ok 1, snd (record_terminal (\<lambda>_. True) sample_history_store (sample_terminal 100) empty_history))"
    by code_simp
  show ?thesis
    using history_retention [OF empty_history_ok r]
    by (simp add: sample_history_store_def sample_terminal_def sample_ref_def is_none_or_def)
qed

theorem receipt_roundtrip_witness:
  "dry_run_receipt True (sample_ref CHR ''r'') (snd (sample_receipt 100 CHR ''r'' empty_history)) =
     Ok (Some \<lparr>dr_reference = sample_ref CHR ''r'', dr_binding = sample_binding 100\<rparr>)"
proof -
  have "sample_receipt 100 CHR ''r'' empty_history =
      (Ok \<lparr>dr_reference = sample_ref CHR ''r'', dr_binding = sample_binding 100\<rparr>,
       snd (sample_receipt 100 CHR ''r'' empty_history))"
    by code_simp
  then have r: "record_dry_run True sample_history_store (\<lambda>_. (\<lambda>_. True, Some (sample_ref CHR ''r'')))
       (sample_binding 100) (sample_terminal 100) empty_history =
      (Ok \<lparr>dr_reference = sample_ref CHR ''r'', dr_binding = sample_binding 100\<rparr>,
       snd (sample_receipt 100 CHR ''r'' empty_history))"
    by (simp add: sample_receipt_def)
  show ?thesis
    using receipt_roundtrip [OF empty_history_ok r]
    by (simp add: empty_history_def sample_history_store_def sample_binding_def sample_ref_def)
qed

definition sample_plan_binding :: PlanBinding where
  "sample_plan_binding =
     \<lparr>pb_schema_version = 1, pb_plan_sha256 = toy_hash ''{}'', pb_source_profile_id = ''photos'',
      pb_source_profile_sha256 = hex64 CHR ''a'', pb_server_profile_id = ''nas'',
      pb_server_profile_sha256 = hex64 CHR ''b'', pb_credential_generation = 1,
      pb_server_identity_sha256 = sc_identity_sha256 (up_server sample_folder_plan), pb_max_logical_effects = 2\<rparr>"

text \<open>A codec that knows one plan and one binding.\<close>

definition sample_codec :: plan_codec where
  "sample_codec =
     \<lparr>cd_plan_json = (\<lambda>_. Some ''{}''),
      cd_json_plan = (\<lambda>s. if s = ''{}'' @ [CHR 0x0A] then Some sample_folder_plan else None),
      cd_binding_json = (\<lambda>b. if b = sample_plan_binding then Some ''[]'' else None),
      cd_json_binding = (\<lambda>s. if s = ''[]'' @ [CHR 0x0A] then Some sample_plan_binding else None)\<rparr>"

definition sample_stored :: "(PlanArtifact, WebConfigError) result \<times> plan_dir" where
  "sample_stored = PlanStore_write Some (\<lambda>_. Some ''{}'') toy_hash sample_codec 1048576 (\<lambda>_. (\<lambda>_. True, Some (sample_ref CHR ''p'')))
        sample_folder_plan ''photos'' (hex64 CHR ''a'') ''nas'' (hex64 CHR ''b'') 1 \<lparr>pd_plans = [], pd_bindings = []\<rparr>"

theorem plan_store_roundtrip_witness:
  "PlanStore_load Some (\<lambda>_. Some ''{}'') toy_hash sample_codec 1048576 (\<lambda>_. True) (sample_ref CHR ''p'') (snd sample_stored) =
     Ok \<lparr>sp_reference = sample_ref CHR ''p'', sp_plan = sample_folder_plan, sp_binding = sample_plan_binding\<rparr>"
proof -
  have "map_ok (\<lambda>a. (pl_reference a, pl_max_logical_effects a)) (fst sample_stored) = Ok (sample_ref CHR ''p'', 2)" by code_simp
  then obtain artifact where "fst sample_stored = Ok artifact" and
      facts: "pl_reference artifact = sample_ref CHR ''p''" "pl_max_logical_effects artifact = 2"
    by (auto simp: map_ok_eq_Ok)
  then have run: "sample_stored = (Ok artifact, snd sample_stored)" by (simp add: prod_eq_iff)
  have json: "cd_plan_json sample_codec sample_folder_plan = Some json \<Longrightarrow>
        cd_json_plan sample_codec (json @ [CHR 0x0A]) = Some sample_folder_plan"
      "cd_binding_json sample_codec b = Some json \<Longrightarrow> cd_json_binding sample_codec (json @ [CHR 0x0A]) = Some b" for json b
    by (auto simp: sample_codec_def split: if_splits)
  from plan_store_roundtrip [OF run [unfolded sample_stored_def] json] facts show ?thesis
    by (simp add: sample_plan_binding_def sample_stored_def)
qed

text \<open>When the clock goes back behind the retained receipts, recording a dry run reports a
  receipt that the same call already removed: retention keeps the receipts that
  completed last, and the new one is not among them.\<close>

theorem receipt_lost_after_clock_step:
  "let (r1, d1) = sample_receipt 100 CHR ''r'' empty_history; (r2, d2) = sample_receipt 99 CHR ''s'' d1 in
   r2 = Ok \<lparr>dr_reference = sample_ref CHR ''s'', dr_binding = sample_binding 99\<rparr> \<and>
   dry_run_receipt True (sample_ref CHR ''s'') d2 = Ok None"
  by code_simp

end
