(* ===== verification/Web_Grants.thy ===== *)
theory Web_Grants
  imports Web_Store
begin

text \<open>
  \<open>immich-web/src/grants.rs\<close> and the application's \<open>prepare_upload_apply\<close>: an operator
  confirms a dry-run receipt and gets a grant, one pending grant per session; the
  grant admits one apply. What the code reads of the configuration, the files and
  the clocks is the record \<open>console\<close>, which may differ from call to call. A profile is
  what these methods read of it; \<open>resolve\<close> of a source profile reads the file system,
  so its outcome is a field.
\<close>

section \<open>What the methods read\<close>

datatype ServerMode = ModeDisposable | ModeProductionRead

record ServerProfile =
  sr_id :: string
  sr_mode :: ServerMode
  sr_generation_sha256 :: string
  sr_credential_generation :: u64

datatype ProfileKind = KindFolder | KindGoogleTakeout | KindApplePhotos | KindPicasa

record SourceProfile =
  so_id :: string
  so_label :: string
  so_kind :: ProfileKind
  so_resolve :: "(string, WebConfigError) result"

text \<open>The apply checkpoint of a plan: absent, a private regular file with its modification
  time in seconds (\<open>None\<close> when the file system has none after the epoch), or anything else.\<close>

datatype checkpoint_state = NoCheckpoint | CheckpointFile "nat option" | BadCheckpoint

record console =
  co_sources :: "SourceProfile list"
  co_servers :: "ServerProfile list"
  co_matches_state :: "(bool, WebConfigError) result"
  co_history :: history_db
  co_history_io :: bool
  co_plans :: plan_dir
  co_plans_io :: "nat \<Rightarrow> bool"
  co_plan_maximum_bytes :: nat
  co_checkpoint :: "ArtifactRef \<Rightarrow> checkpoint_state"
  co_now_unix :: "(int, WebConfigError) result"

text \<open>The third-party functions, the same for every call: RFC 3339 parsing, the canonical
  serialisation of a plan, SHA-256, and the JSON codec of the plan store.\<close>

record digests =
  dg_rfc :: rfc3339
  dg_to_vec :: "UploadPlan \<Rightarrow> string option"
  dg_sha :: "string \<Rightarrow> string"
  dg_codec :: plan_codec

definition WebConfig_source :: "console \<Rightarrow> string \<Rightarrow> SourceProfile option" where
  "WebConfig_source co i = find (\<lambda>p. so_id p = i) (co_sources co)"

definition WebConfig_server :: "console \<Rightarrow> string \<Rightarrow> ServerProfile option" where
  "WebConfig_server co i = find (\<lambda>p. sr_id p = i) (co_servers co)"

definition load_plan :: "digests \<Rightarrow> console \<Rightarrow> ArtifactRef \<Rightarrow> (StoredUploadPlan, WebConfigError) result" where
  "load_plan dg co reference =
     PlanStore_load (dg_rfc dg) (dg_to_vec dg) (dg_sha dg) (dg_codec dg) (co_plan_maximum_bytes co) (co_plans_io co)
       reference (co_plans co)"

definition receipt_is_newer_than_checkpoint ::
  "console \<Rightarrow> ArtifactRef \<Rightarrow> int \<Rightarrow> (bool, WebConfigError) result" where
  "receipt_is_newer_than_checkpoint co reference completed_unix =
     (case co_checkpoint co reference of
        NoCheckpoint \<Rightarrow> Ok True
      | BadCheckpoint \<Rightarrow> Err ''apply checkpoint is invalid''
      | CheckpointFile None \<Rightarrow> Err ''apply checkpoint time is invalid''
      | CheckpointFile (Some modified) \<Rightarrow>
          if completed_unix < 0 then Err ''dry-run receipt time is invalid''
          else Ok (completed_unix > int modified))"

definition source_configuration_digest :: "(string \<Rightarrow> string) \<Rightarrow> string \<Rightarrow> string \<Rightarrow> string" where
  "source_configuration_digest sha source configuration =
     sha (''immich-rs-web-source-configuration-v1'' @ [CHR 0x00] @ source @ [CHR 0x00] @ configuration)"

section \<open>Prepared apply\<close>

record ProductionWriteRequest =
  wr_plan_sha256 :: string
  wr_expected_operations :: u64
  wr_backup_reference :: string

record PreparedUploadApply =
  pu_plan :: UploadPlan
  pu_production :: "ProductionWriteConfirmation option"

definition is_production :: "PreparedUploadApply \<Rightarrow> bool" where
  "is_production p = (pu_production p \<noteq> None)"

text \<open>The errors are the messages of \<open>ApplicationError::InvalidRequest\<close>.\<close>

definition validate_production_confirmation ::
  "digests \<Rightarrow> ProductionWriteRequest option \<Rightarrow> UploadPlan \<Rightarrow> (ProductionWriteConfirmation option, string) result" where
  "validate_production_confirmation dg request plan =
     (case request of
        None \<Rightarrow> Ok None
      | Some r \<Rightarrow>
          and_then (map_err (\<lambda>_. ''invalid production confirmation'')
            (ProductionWriteConfirmation_new True (wr_plan_sha256 r) (wr_expected_operations r) (wr_backup_reference r)))
            (\<lambda>value.
          and_then (map_err (\<lambda>_. ''invalid production upload plan'')
            (upload_plan_sha256 (dg_rfc dg) (dg_to_vec dg) (dg_sha dg) plan)) (\<lambda>digest.
          let expected = (if up_schema_version plan = UPLOAD_PLAN_SCHEMA_VERSION_V2
                          then sum_max_mutations (up_summary plan) else sum_operations (up_summary plan)) in
          if pwc_plan_sha256 value = digest \<and> pwc_expected_operations value = expected
             \<and> (up_schema_version plan \<noteq> UPLOAD_PLAN_SCHEMA_VERSION
                 \<or> pwc_expected_operations value = of_nat (length (up_operations plan)))
          then Ok (Some value) else Err ''production confirmation does not match upload plan'')))"

definition prepare_upload_apply ::
  "digests \<Rightarrow> UploadPlan \<Rightarrow> ProductionWriteRequest option \<Rightarrow> (PreparedUploadApply, string) result" where
  "prepare_upload_apply dg plan production =
     (if up_schema_version plan \<noteq> UPLOAD_PLAN_SCHEMA_VERSION \<and> up_schema_version plan \<noteq> UPLOAD_PLAN_SCHEMA_VERSION_V2
      then Err ''apply upload does not support this plan schema''
      else map_ok (\<lambda>confirmation. \<lparr>pu_plan = plan, pu_production = confirmation\<rparr>)
             (validate_production_confirmation dg production plan))"

section \<open>Grants\<close>

record GrantRequest =
  gr_receipt :: ReceiptRef
  gr_plan_sha256 :: string
  gr_max_logical_effects :: u64
  gr_backup_reference :: string

record GrantView =
  gv_idempotency_key :: string
  gv_production :: bool

record GrantBinding =
  gb_owner :: string
  gb_receipt :: ReceiptRef
  gb_dry_run :: DryRunBinding
  gb_source_profile_id :: string
  gb_server_profile_id :: string
  gb_backup_reference_sha256 :: "string option"

record ApplyCapability =
  ac_prepared :: PreparedUploadApply
  ac_binding :: GrantBinding

datatype AdmissionError = AdmissionFull | UnknownProfile | AdmissionUnavailable

datatype GrantAdmission = Admitted string | Existing string

datatype GrantError = GrantInvalid | GrantExpired | GrantUnavailable | GrantAdmissionError AdmissionError

datatype GrantStatus = Pending "ApplyCapability option" | Consumed string

record GrantEntry =
  ge_receipt :: ReceiptRef
  ge_idempotency_key :: string
  ge_deadline :: instant
  ge_status :: GrantStatus

record GrantState =
  gs_entries :: "(string, GrantEntry) btree_map"
  gs_spent_receipts :: "ReceiptRef btree_set"

definition GrantStore_new :: GrantState where
  "GrantStore_new = \<lparr>gs_entries = [], gs_spent_receipts = []\<rparr>"

definition binding_is_current :: "digests \<Rightarrow> console \<Rightarrow> GrantBinding \<Rightarrow> bool" where
  "binding_is_current dg co grant =
     (case (dry_run_receipt (co_history_io co) (gb_receipt grant) (co_history co),
            load_plan dg co (db_plan_reference (gb_dry_run grant)),
            WebConfig_source co (gb_source_profile_id grant), WebConfig_server co (gb_server_profile_id grant)) of
        (Ok (Some receipt), Ok stored, Some source, Some server) \<Rightarrow>
          (case (so_resolve source, co_matches_state co) of
             (Ok generation, Ok matches_state) \<Rightarrow>
               let b = sp_binding stored; dry = gb_dry_run grant in
               dr_binding receipt = dry \<and> matches_state
               \<and> pb_plan_sha256 b = db_plan_sha256 dry
               \<and> pb_source_profile_id b = gb_source_profile_id grant
               \<and> pb_source_profile_sha256 b = generation
               \<and> source_configuration_digest (dg_sha dg) generation (up_configuration_sha256 (sp_plan stored))
                   = db_source_configuration_sha256 dry
               \<and> pb_server_profile_id b = gb_server_profile_id grant
               \<and> pb_server_identity_sha256 b = db_server_identity_sha256 dry
               \<and> pb_server_profile_sha256 b = db_server_profile_sha256 dry
               \<and> pb_credential_generation b = db_credential_generation dry
               \<and> sr_generation_sha256 server = db_server_profile_sha256 dry
               \<and> sr_credential_generation server = db_credential_generation dry
               \<and> pb_max_logical_effects b = db_max_logical_effects dry
           | _ \<Rightarrow> False)
      | _ \<Rightarrow> False)"

definition validate_receipt_age :: "console \<Rightarrow> DryRunBinding \<Rightarrow> WebLimits \<Rightarrow> (unit, GrantError) result" where
  "validate_receipt_age co b limits =
     and_then (map_err (\<lambda>_. GrantUnavailable) (co_now_unix co)) (\<lambda>now.
       if \<not> dry_run_receipt_seconds limits < 2 ^ 63 then Err GrantInvalid
       else if now < db_completed_unix b
               \<or> i64_saturating_sub now (db_completed_unix b) > int (dry_run_receipt_seconds limits)
       then Err GrantExpired else Ok ())"

definition validate_backup ::
  "(string \<Rightarrow> string) \<Rightarrow> string \<Rightarrow> bool \<Rightarrow> WebLimits \<Rightarrow> (string option, GrantError) result" where
  "validate_backup sha reference production limits =
     (if \<not> production then (if reference = [] then Ok None else Err GrantInvalid)
      else if reference = [] \<or> length reference > backup_reference_bytes limits
              \<or> trim reference \<noteq> reference \<or> any_control reference
      then Err GrantInvalid else Ok (Some (sha reference)))"

definition same_key :: "string \<Rightarrow> string \<Rightarrow> bool" where
  "same_key left right = (length left = length right \<and> left = right)"

definition prepare ::
  "digests \<Rightarrow> WebLimits \<Rightarrow> console \<Rightarrow> string \<Rightarrow> GrantRequest \<Rightarrow> (ApplyCapability \<times> bool, GrantError) result" where
  "prepare dg limits co owner request =
     and_then (map_err (\<lambda>_. GrantUnavailable) (dry_run_receipt (co_history_io co) (gr_receipt request) (co_history co)))
       (\<lambda>found.
     and_then (ok_or found GrantInvalid) (\<lambda>receipt.
     let dry = dr_binding receipt in
     and_then (validate_receipt_age co dry limits) (\<lambda>_.
     if gr_plan_sha256 request \<noteq> db_plan_sha256 dry \<or> gr_max_logical_effects request \<noteq> db_max_logical_effects dry
     then Err GrantInvalid
     else and_then (map_err (\<lambda>_. GrantInvalid) (load_plan dg co (db_plan_reference dry))) (\<lambda>stored.
     if up_schema_version (sp_plan stored) \<noteq> 1 \<and> up_schema_version (sp_plan stored) \<noteq> 2 then Err GrantInvalid
     else and_then (map_err (\<lambda>_. GrantUnavailable)
         (receipt_is_newer_than_checkpoint co (db_plan_reference dry) (db_completed_unix dry))) (\<lambda>newer.
     if \<not> newer then Err GrantInvalid
     else and_then (ok_or (WebConfig_server co (pb_server_profile_id (sp_binding stored))) GrantInvalid) (\<lambda>server.
     let production = (sr_mode server = ModeProductionRead) in
     and_then (validate_backup (dg_sha dg) (gr_backup_reference request) production limits) (\<lambda>backup.
     and_then (map_err (\<lambda>_. GrantInvalid) (prepare_upload_apply dg (sp_plan stored)
         (if production
          then Some \<lparr>wr_plan_sha256 = gr_plan_sha256 request, wr_expected_operations = gr_max_logical_effects request,
                     wr_backup_reference = gr_backup_reference request\<rparr>
          else None))) (\<lambda>prepared.
     let capability = \<lparr>ac_prepared = prepared, ac_binding =
           \<lparr>gb_owner = owner, gb_receipt = gr_receipt request, gb_dry_run = dry,
            gb_source_profile_id = pb_source_profile_id (sp_binding stored),
            gb_server_profile_id = pb_server_profile_id (sp_binding stored),
            gb_backup_reference_sha256 = backup\<rparr>\<rparr> in
     if binding_is_current dg co (ac_binding capability) then Ok (capability, production)
     else Err GrantInvalid))))))))"

text \<open>\<open>confirm\<close>: everything before the lock, then the check of the spent receipts and the insertion
  under it. \<open>key\<close> is the random idempotency key, \<open>None\<close> when randomness is unavailable.\<close>

definition confirm ::
  "digests \<Rightarrow> WebLimits \<Rightarrow> instant \<Rightarrow> console \<Rightarrow> string \<Rightarrow> GrantRequest \<Rightarrow> string option \<Rightarrow> GrantState
     \<Rightarrow> (GrantView, GrantError) result \<times> GrantState" where
  "confirm dg limits now co owner request key s =
     (case and_then (prepare dg limits co owner request) (\<lambda>(capability, production).
           and_then (ok_or key GrantUnavailable) (\<lambda>k.
           and_then (ok_or (instant_checked_add now (from_secs (production_grant_seconds limits))) GrantUnavailable)
             (\<lambda>deadline. Ok (capability, production, k, deadline)))) of
        Err e \<Rightarrow> (Err e, s)
      | Ok (capability, production, k, deadline) \<Rightarrow>
          if bts_contains (gs_spent_receipts s) (gr_receipt request) then (Err GrantInvalid, s)
          else (Ok \<lparr>gv_idempotency_key = k, gv_production = production\<rparr>,
                s\<lparr>gs_entries := btm_insert owner
                    \<lparr>ge_receipt = gb_receipt (ac_binding capability), ge_idempotency_key = k, ge_deadline = deadline,
                     ge_status = Pending (Some capability)\<rparr> (gs_entries s)\<rparr>))"

definition drop_entry :: "string \<Rightarrow> GrantState \<Rightarrow> GrantState" where
  "drop_entry owner s = s\<lparr>gs_entries := btm_remove owner (gs_entries s)\<rparr>"

definition admit_locked ::
  "digests \<Rightarrow> WebLimits \<Rightarrow> instant \<Rightarrow> console \<Rightarrow> string \<Rightarrow> ReceiptRef \<Rightarrow> string
     \<Rightarrow> (ApplyCapability \<Rightarrow> (string, AdmissionError) result) \<Rightarrow> GrantState
     \<Rightarrow> (GrantAdmission, GrantError) result \<times> GrantState" where
  "admit_locked dg limits now co owner receipt key admit s =
     (case btm_get (gs_entries s) owner of
        None \<Rightarrow> (Err GrantInvalid, s)
      | Some entry \<Rightarrow>
          if ge_receipt entry \<noteq> receipt \<or> \<not> same_key (ge_idempotency_key entry) key then (Err GrantInvalid, s)
          else if now \<ge> ge_deadline entry then (Err GrantExpired, drop_entry owner s)
          else (case ge_status entry of
              Consumed job_id \<Rightarrow> (Ok (Existing job_id), s)
            | Pending slot \<Rightarrow>
                if bts_contains (gs_spent_receipts s) receipt
                   \<or> length (gs_spent_receipts s) \<ge> history_retained_rows limits
                then (Err GrantUnavailable, drop_entry owner s)
                else (case slot of
                    None \<Rightarrow> (Err GrantUnavailable, s)
                  | Some capability \<Rightarrow>
                      if is_production (ac_prepared capability) \<noteq> (gb_backup_reference_sha256 (ac_binding capability) \<noteq> None)
                         \<or> \<not> binding_is_current dg co (ac_binding capability)
                      then (Err GrantInvalid, drop_entry owner s)
                      else (case admit capability of
                          Ok job_id \<Rightarrow>
                            (Ok (Admitted job_id),
                             s\<lparr>gs_entries := btm_insert owner (entry\<lparr>ge_status := Consumed job_id\<rparr>) (gs_entries s),
                               gs_spent_receipts := bts_insert receipt (gs_spent_receipts s)\<rparr>)
                        | Err e \<Rightarrow> (Err (GrantAdmissionError e), drop_entry owner s)))))"

definition revoke_owner :: "string \<Rightarrow> GrantState \<Rightarrow> GrantState" where
  "revoke_owner owner s = drop_entry owner s"

section \<open>Runs\<close>

datatype grant_op =
    Confirm console string GrantRequest "string option"
  | Admit console string ReceiptRef string "ApplyCapability \<Rightarrow> (string, AdmissionError) result"
  | Revoke string

datatype grant_answer =
    GConfirm "(GrantView, GrantError) result"
  | GAdmit "(GrantAdmission, GrantError) result"
  | GRevoke

definition grant_call ::
  "digests \<Rightarrow> WebLimits \<Rightarrow> instant \<Rightarrow> grant_op \<Rightarrow> GrantState \<Rightarrow> grant_answer \<times> GrantState" where
  "grant_call dg limits now call s =
     (case call of
        Confirm co owner request key \<Rightarrow> apfst GConfirm (confirm dg limits now co owner request key s)
      | Admit co owner receipt key admit \<Rightarrow> apfst GAdmit (admit_locked dg limits now co owner receipt key admit s)
      | Revoke owner \<Rightarrow> (GRevoke, revoke_owner owner s))"

text \<open>Answers under a poisoned lock: \<open>confirm\<close> fails only after it has prepared the capability.\<close>

definition grant_poisoned :: "digests \<Rightarrow> WebLimits \<Rightarrow> instant \<Rightarrow> grant_op \<Rightarrow> grant_answer" where
  "grant_poisoned dg limits now call =
     (case call of
        Confirm co owner request key \<Rightarrow>
          GConfirm (case fst (confirm dg limits now co owner request key GrantStore_new) of
              Err e \<Rightarrow> Err e | Ok _ \<Rightarrow> Err GrantUnavailable)
      | Admit _ _ _ _ _ \<Rightarrow> GAdmit (Err GrantUnavailable)
      | Revoke _ \<Rightarrow> GRevoke)"

type_synonym grant_event = "(grant_op, grant_answer) event"

abbreviation grant_run ::
  "digests \<Rightarrow> WebLimits \<Rightarrow> grant_event list \<Rightarrow> GrantState mutex \<Rightarrow> bool" where
  "grant_run dg limits \<equiv> store_run (grant_call dg limits) (grant_poisoned dg limits) GrantStore_new"

text \<open>The receipt an event admitted a job for.\<close>

definition admitted_receipt :: "grant_event \<Rightarrow> ReceiptRef option" where
  "admitted_receipt e = (case e of (_, Admit _ _ receipt _ _, GAdmit (Ok (Admitted _))) \<Rightarrow> Some receipt | _ \<Rightarrow> None)"

definition admitted_receipts :: "grant_event list \<Rightarrow> ReceiptRef list" where
  "admitted_receipts h = map the (filter (\<lambda>x. x \<noteq> None) (map admitted_receipt h))"

definition revokes :: "string \<Rightarrow> grant_event \<Rightarrow> bool" where
  "revokes owner e = (case e of (_, Revoke o', _) \<Rightarrow> o' = owner | _ \<Rightarrow> False)"

definition admits_job :: "string \<Rightarrow> ReceiptRef \<Rightarrow> string \<Rightarrow> string \<Rightarrow> grant_event \<Rightarrow> bool" where
  "admits_job owner receipt key job e =
     (case e of
        (_, Admit _ o' r k _, GAdmit (Ok (Admitted j))) \<Rightarrow> o' = owner \<and> r = receipt \<and> k = key \<and> j = job
      | _ \<Rightarrow> False)"

lemma admitted_receipts_snoc:
  "admitted_receipts (h @ [e]) = admitted_receipts h @ (case admitted_receipt e of None \<Rightarrow> [] | Some r \<Rightarrow> [r])"
  by (auto simp: admitted_receipts_def split: option.splits)

text \<open>What a prepared capability is bound to.\<close>

definition capability_for :: "digests \<Rightarrow> console \<Rightarrow> string \<Rightarrow> GrantRequest \<Rightarrow> ApplyCapability \<Rightarrow> bool" where
  "capability_for dg co owner request capability \<longleftrightarrow>
     (let b = ac_binding capability in
      gb_owner b = owner \<and> gb_receipt b = gr_receipt request \<and>
      db_plan_sha256 (gb_dry_run b) = gr_plan_sha256 request \<and>
      db_max_logical_effects (gb_dry_run b) = gr_max_logical_effects request \<and> binding_is_current dg co b \<and>
      (is_production (ac_prepared capability) \<longleftrightarrow> gb_backup_reference_sha256 b = Some (dg_sha dg (gr_backup_reference request))))"

lemma prepare_upload_apply_Ok:
  "prepare_upload_apply dg plan request = Ok p \<Longrightarrow> is_production p \<longleftrightarrow> request \<noteq> None"
  by (auto simp: prepare_upload_apply_def validate_production_confirmation_def is_production_def result_simps Let_def
      split: option.splits if_splits)

lemma validate_backup_Ok:
  "validate_backup sha reference production limits = Ok b \<Longrightarrow> b = (if production then Some (sha reference) else None)"
  by (auto simp: validate_backup_def split: if_splits)

lemma if_Ok_eq_Ok: "(if b then Ok x else Err e) = Ok y \<longleftrightarrow> b \<and> x = y"
  by simp

lemma prepare_Ok:
  assumes "prepare dg limits co owner request = Ok (capability, production)"
  shows "capability_for dg co owner request capability"
  using assms
  unfolding prepare_def Let_def and_then_eq_Ok if_Err_eq_Ok if_Ok_eq_Ok map_err_eq_Ok ok_or_eq_Ok prod.inject
  by (elim exE conjE)
    (auto simp: capability_for_def Let_def dest: validate_backup_Ok prepare_upload_apply_Ok)

text \<open>Where an entry comes from: the confirmation that made it, not followed by a revocation, and
  the admission that consumed it.\<close>

definition entry_trace :: "digests \<Rightarrow> WebLimits \<Rightarrow> grant_event list \<Rightarrow> string \<Rightarrow> GrantEntry \<Rightarrow> bool" where
  "entry_trace dg limits h owner entry \<longleftrightarrow>
     (\<exists>h1 t co request view h2.
        h = h1 @ (t, Confirm co owner request (Some (ge_idempotency_key entry)), GConfirm (Ok view)) # h2 \<and>
        gv_idempotency_key view = ge_idempotency_key entry \<and> ge_receipt entry = gr_receipt request \<and>
        ge_deadline entry = t + from_secs (production_grant_seconds limits) \<and>
        (\<forall>e \<in> set h2. \<not> revokes owner e) \<and>
        (case ge_status entry of
           Pending slot \<Rightarrow> (\<exists>capability. slot = Some capability \<and> capability_for dg co owner request capability)
         | Consumed job \<Rightarrow> (\<exists>e \<in> set h2. admits_job owner (ge_receipt entry) (ge_idempotency_key entry) job e)))"

definition grant_inv :: "digests \<Rightarrow> WebLimits \<Rightarrow> grant_event list \<Rightarrow> GrantState \<Rightarrow> bool" where
  "grant_inv dg limits h s \<longleftrightarrow>
     bts_wf (gs_spent_receipts s) \<and> set (gs_spent_receipts s) = set (admitted_receipts h) \<and>
     distinct (admitted_receipts h) \<and> length (gs_spent_receipts s) \<le> history_retained_rows limits \<and>
     (\<forall>owner entry. btm_get (gs_entries s) owner = Some entry \<longrightarrow> entry_trace dg limits h owner entry)"

lemma entry_trace_snoc:
  assumes "entry_trace dg limits h owner entry" "\<not> revokes owner e"
  shows "entry_trace dg limits (h @ [e]) owner entry"
proof -
  obtain h1 t co request view h2 where
    "h = h1 @ (t, Confirm co owner request (Some (ge_idempotency_key entry)), GConfirm (Ok view)) # h2"
    "gv_idempotency_key view = ge_idempotency_key entry" "ge_receipt entry = gr_receipt request"
    "ge_deadline entry = t + from_secs (production_grant_seconds limits)" "\<forall>e \<in> set h2. \<not> revokes owner e"
    "case ge_status entry of
       Pending slot \<Rightarrow> (\<exists>capability. slot = Some capability \<and> capability_for dg co owner request capability)
     | Consumed job \<Rightarrow> (\<exists>e \<in> set h2. admits_job owner (ge_receipt entry) (ge_idempotency_key entry) job e)"
    using assms(1) unfolding entry_trace_def by blast
  then show ?thesis using assms(2) unfolding entry_trace_def
    by (intro exI [of _ h1] exI [of _ t] exI [of _ co] exI [of _ request] exI [of _ view] exI [of _ "h2 @ [e]"])
      (auto split: GrantStatus.splits)
qed

lemma entry_trace_consume:
  assumes "entry_trace dg limits h owner entry" "admits_job owner (ge_receipt entry) (ge_idempotency_key entry) job e"
  shows "entry_trace dg limits (h @ [e]) owner (entry\<lparr>ge_status := Consumed job\<rparr>)"
proof -
  obtain h1 t co request view h2 where
    "h = h1 @ (t, Confirm co owner request (Some (ge_idempotency_key entry)), GConfirm (Ok view)) # h2"
    "gv_idempotency_key view = ge_idempotency_key entry" "ge_receipt entry = gr_receipt request"
    "ge_deadline entry = t + from_secs (production_grant_seconds limits)" "\<forall>e \<in> set h2. \<not> revokes owner e"
    using assms(1) unfolding entry_trace_def by blast
  moreover have "\<not> revokes owner e"
    using assms(2) by (auto simp: revokes_def admits_job_def split: prod.splits grant_op.splits)
  ultimately show ?thesis using assms(2) unfolding entry_trace_def
    by (intro exI [of _ h1] exI [of _ t] exI [of _ co] exI [of _ request] exI [of _ view] exI [of _ "h2 @ [e]"])
      auto
qed

lemma entry_trace_new:
  "gv_idempotency_key view = k \<Longrightarrow> capability_for dg co owner request capability \<Longrightarrow>
     deadline = now + from_secs (production_grant_seconds limits) \<Longrightarrow>
     entry_trace dg limits (h @ [(now, Confirm co owner request (Some k), GConfirm (Ok view))]) owner
       \<lparr>ge_receipt = gr_receipt request, ge_idempotency_key = k, ge_deadline = deadline,
        ge_status = Pending (Some capability)\<rparr>"
  unfolding entry_trace_def
  by (rule exI [of _ h], rule exI [of _ now], rule exI [of _ co], rule exI [of _ request], rule exI [of _ view],
      rule exI [of _ "[]"]) simp

lemma confirm_cases:
  assumes "confirm dg limits now co owner request key s = (r, s')"
  obtains (refused) e where "r = Err e" "s' = s"
  | (granted) k capability production deadline where "key = Some k"
      "capability_for dg co owner request capability" "gb_receipt (ac_binding capability) = gr_receipt request"
      "deadline = now + from_secs (production_grant_seconds limits)"
      "r = Ok \<lparr>gv_idempotency_key = k, gv_production = production\<rparr>"
      "s' = s\<lparr>gs_entries := btm_insert owner
          \<lparr>ge_receipt = gr_receipt request, ge_idempotency_key = k, ge_deadline = deadline,
           ge_status = Pending (Some capability)\<rparr> (gs_entries s)\<rparr>"
proof (cases "prepare dg limits co owner request")
  case (Err e)
  then show ?thesis using assms refused by (auto simp: confirm_def)
next
  case (Ok p)
  obtain capability production where p: "p = (capability, production)" by fastforce
  have c: "capability_for dg co owner request capability" using prepare_Ok Ok p by blast
  then have receipt: "gb_receipt (ac_binding capability) = gr_receipt request"
    by (simp add: capability_for_def Let_def)
  show ?thesis
  proof (cases key)
    case None
    then show ?thesis using assms Ok p refused by (auto simp: confirm_def)
  next
    case (Some k)
    then show ?thesis
      using assms Ok p c receipt refused granted [OF Some c receipt refl]
      by (auto simp: confirm_def instant_checked_add_def split: if_splits)
  qed
qed

lemma admit_cases:
  assumes "admit_locked dg limits now co owner receipt key admit s = (r, s')"
  obtains (refused) e where "r = Err e" "s' = s \<or> s' = drop_entry owner s"
  | (existing) entry job where "btm_get (gs_entries s) owner = Some entry" "ge_receipt entry = receipt"
      "ge_idempotency_key entry = key" "ge_status entry = Consumed job" "r = Ok (Existing job)" "s' = s"
  | (admitted) entry capability job where "btm_get (gs_entries s) owner = Some entry" "ge_receipt entry = receipt"
      "ge_idempotency_key entry = key" "now < ge_deadline entry" "ge_status entry = Pending (Some capability)"
      "receipt \<notin> set (gs_spent_receipts s)" "length (gs_spent_receipts s) < history_retained_rows limits"
      "binding_is_current dg co (ac_binding capability)" "admit capability = Ok job"
      "is_production (ac_prepared capability) \<longleftrightarrow> gb_backup_reference_sha256 (ac_binding capability) \<noteq> None"
      "r = Ok (Admitted job)"
      "s' = s\<lparr>gs_entries := btm_insert owner (entry\<lparr>ge_status := Consumed job\<rparr>) (gs_entries s),
              gs_spent_receipts := bts_insert receipt (gs_spent_receipts s)\<rparr>"
proof (cases "btm_get (gs_entries s) owner")
  case None
  then show ?thesis using assms refused by (auto simp: admit_locked_def)
next
  case (Some entry)
  show ?thesis
  proof (cases "ge_receipt entry = receipt \<and> ge_idempotency_key entry = key \<and> now < ge_deadline entry")
    case False
    then show ?thesis using assms Some refused by (auto simp: admit_locked_def same_key_def split: if_splits)
  next
    case True
    show ?thesis
    proof (cases "ge_status entry")
      case (Consumed job)
      then show ?thesis using assms Some True existing [OF Some] by (auto simp: admit_locked_def same_key_def)
    next
      case (Pending slot)
      show ?thesis
      proof (cases slot)
        case None
        then show ?thesis
          using assms Some True Pending refused by (auto simp: admit_locked_def same_key_def split: if_splits)
      next
        case (Some capability)
        then show ?thesis
          using assms True \<open>btm_get (gs_entries s) owner = Some entry\<close> Pending refused
            admitted [OF \<open>btm_get (gs_entries s) owner = Some entry\<close>]
          by (auto simp: admit_locked_def same_key_def split: if_splits result.splits)
      qed
    qed
  qed
qed

lemma entries_drop: "btm_get (gs_entries (drop_entry owner s)) o' = Some e \<longleftrightarrow> o' \<noteq> owner \<and> btm_get (gs_entries s) o' = Some e"
  by (simp add: drop_entry_def)

lemma grant_inv_quiet:
  assumes "grant_inv dg limits h s" "admitted_receipt e = None"
    and "gs_spent_receipts s' = gs_spent_receipts s"
    and "\<And>o' entry. btm_get (gs_entries s') o' = Some entry \<Longrightarrow> entry_trace dg limits (h @ [e]) o' entry"
  shows "grant_inv dg limits (h @ [e]) s'"
  using assms by (simp add: grant_inv_def admitted_receipts_snoc)

lemma confirm_inv:
  assumes "grant_inv dg limits h s" "confirm dg limits now co owner request key s = (r, s')"
  shows "grant_inv dg limits (h @ [(now, Confirm co owner request key, GConfirm r)]) s'"
proof (rule grant_inv_quiet [OF assms(1)])
  let ?e = "(now, Confirm co owner request key, GConfirm r)"
  have old: "entry_trace dg limits (h @ [?e]) o' entry" if "btm_get (gs_entries s) o' = Some entry" for o' entry
    using that assms(1) by (intro entry_trace_snoc) (auto simp: grant_inv_def revokes_def)
  show "gs_spent_receipts s' = gs_spent_receipts s" using assms(2) by (rule confirm_cases) auto
  show "entry_trace dg limits (h @ [?e]) o' entry" if "btm_get (gs_entries s') o' = Some entry" for o' entry
    using assms(2)
  proof (rule confirm_cases)
    fix k capability production deadline
    assume *: "key = Some k" "capability_for dg co owner request capability"
      "deadline = now + from_secs (production_grant_seconds limits)"
      "r = Ok \<lparr>gv_idempotency_key = k, gv_production = production\<rparr>"
      "s' = s\<lparr>gs_entries := btm_insert owner
          \<lparr>ge_receipt = gr_receipt request, ge_idempotency_key = k, ge_deadline = deadline,
           ge_status = Pending (Some capability)\<rparr> (gs_entries s)\<rparr>"
    show ?thesis
    proof (cases "o' = owner")
      case True
      have "entry_trace dg limits (h @ [?e]) owner
          \<lparr>ge_receipt = gr_receipt request, ge_idempotency_key = k, ge_deadline = deadline,
           ge_status = Pending (Some capability)\<rparr>"
        unfolding *(1,4) using *(2,3) by (intro entry_trace_new) auto
      then show ?thesis using that True *(5) by auto
    next
      case False
      then show ?thesis using that * old by simp
    qed
  qed (use that old in auto)
qed (simp add: admitted_receipt_def)

lemma admit_inv:
  assumes "grant_inv dg limits h s" "admit_locked dg limits now co owner receipt key admit s = (r, s')"
  shows "grant_inv dg limits (h @ [(now, Admit co owner receipt key admit, GAdmit r)]) s'"
proof -
  let ?e = "(now, Admit co owner receipt key admit, GAdmit r)"
  have old: "entry_trace dg limits (h @ [?e]) o' entry" if "btm_get (gs_entries s) o' = Some entry" for o' entry
    using that assms(1) by (intro entry_trace_snoc) (auto simp: grant_inv_def revokes_def)
  show ?thesis using assms(2)
  proof (rule admit_cases)
    fix e assume *: "r = Err e" "s' = s \<or> s' = drop_entry owner s"
    show ?thesis using * old
      by (intro grant_inv_quiet [OF assms(1)]) (auto simp: admitted_receipt_def drop_entry_def split: if_splits)
  next
    fix entry job assume "r = Ok (Existing job)" "s' = s"
    then show ?thesis using old by (intro grant_inv_quiet [OF assms(1)]) (auto simp: admitted_receipt_def)
  next
    fix entry capability job
    assume *: "btm_get (gs_entries s) owner = Some entry" "ge_receipt entry = receipt" "ge_idempotency_key entry = key"
      "receipt \<notin> set (gs_spent_receipts s)" "length (gs_spent_receipts s) < history_retained_rows limits"
      "r = Ok (Admitted job)"
      "s' = s\<lparr>gs_entries := btm_insert owner (entry\<lparr>ge_status := Consumed job\<rparr>) (gs_entries s),
              gs_spent_receipts := bts_insert receipt (gs_spent_receipts s)\<rparr>"
    have "entry_trace dg limits h owner entry" using assms(1) *(1) by (simp add: grant_inv_def)
    then have "entry_trace dg limits (h @ [?e]) owner (entry\<lparr>ge_status := Consumed job\<rparr>)"
      using * by (intro entry_trace_consume) (auto simp: admits_job_def)
    moreover have "length (bts_insert receipt (gs_spent_receipts s)) = Suc (length (gs_spent_receipts s))"
      using *(4) assms(1) bts_wf_length [of "bts_insert receipt (gs_spent_receipts s)"] bts_wf_length [of "gs_spent_receipts s"]
      by (simp add: grant_inv_def)
    ultimately show ?thesis using * old assms(1)
      by (auto simp: grant_inv_def admitted_receipts_snoc admitted_receipt_def)
  qed
qed

lemma grant_inv_call:
  assumes "grant_inv dg limits h s" "grant_call dg limits now call s = (a, s')"
  shows "grant_inv dg limits (h @ [(now, call, a)]) s'"
proof (cases call)
  case (Confirm co owner request key)
  then show ?thesis using assms confirm_inv by (auto simp: grant_call_def)
next
  case (Admit co owner receipt key admit)
  then show ?thesis using assms admit_inv by (auto simp: grant_call_def)
next
  case (Revoke owner)
  have "entry_trace dg limits (h @ [(now, call, a)]) o' entry" if "o' \<noteq> owner" "btm_get (gs_entries s) o' = Some entry" for o' entry
    using that assms(1) Revoke by (intro entry_trace_snoc) (auto simp: grant_inv_def revokes_def)
  then show ?thesis using assms(2) Revoke
    by (intro grant_inv_quiet [OF assms(1)])
      (auto simp: grant_call_def revoke_owner_def entries_drop drop_entry_def admitted_receipt_def split: if_splits)
qed

interpretation grants: store_invariant "grant_call dg limits" GrantStore_new "grant_inv dg limits" for dg limits
proof
  show "grant_inv dg limits [] GrantStore_new"
    by (simp add: grant_inv_def GrantStore_new_def admitted_receipts_def)
qed (rule grant_inv_call)

section \<open>What a grant is worth\<close>

text \<open>C25: in the life of a console every dry-run receipt admits at most one apply, whatever
  sessions confirm, admit, expire or revoke in between and however often the same
  request is sent again, and at most as many receipts are spent as history keeps.\<close>

theorem receipt_admitted_once:
  assumes "grant_run dg limits h m"
  shows "distinct (admitted_receipts h) \<and> length (admitted_receipts h) \<le> history_retained_rows limits"
proof -
  obtain s where s: "grant_inv dg limits h s" using grants.run_inv [OF assms] by blast
  then have "length (admitted_receipts h) = length (gs_spent_receipts s)"
    using distinct_card [of "admitted_receipts h"] bts_wf_length [of "gs_spent_receipts s"]
    by (simp add: grant_inv_def)
  then show ?thesis using s by (simp add: grant_inv_def)
qed

text \<open>C26: an apply is admitted only when the same session confirmed exactly this receipt within
  the lifetime of a grant, stating the plan digest and the effect ceiling of the
  receipt, presents the key that confirmation returned, has not been revoked since,
  and receipt, plan, profiles and state directory are still the ones that were
  confirmed; the job that starts is the one admitted for that capability.\<close>

theorem admission_confirmed:
  assumes "grant_run dg limits h (Unlocked s)"
    and "grant_call dg limits now (Admit co owner receipt key admit) s = (GAdmit (Ok (Admitted job)), s')"
  shows "\<exists>h1 t co' request view h2 capability.
    h = h1 @ (t, Confirm co' owner request (Some key), GConfirm (Ok view)) # h2 \<and>
    gr_receipt request = receipt \<and> gv_idempotency_key view = key \<and>
    now < t + from_secs (production_grant_seconds limits) \<and> (\<forall>e \<in> set h2. \<not> revokes owner e) \<and>
    capability_for dg co' owner request capability \<and> binding_is_current dg co (ac_binding capability) \<and>
    admit capability = Ok job"
proof -
  have inv: "grant_inv dg limits h s" by (rule grants.run_holds [OF assms(1)])
  have "admit_locked dg limits now co owner receipt key admit s = (Ok (Admitted job), s')"
    using assms(2) by (simp add: grant_call_def)
  then obtain entry capability where e: "btm_get (gs_entries s) owner = Some entry" "ge_receipt entry = receipt"
      "ge_idempotency_key entry = key" "now < ge_deadline entry" "ge_status entry = Pending (Some capability)"
      "binding_is_current dg co (ac_binding capability)" "admit capability = Ok job"
    by (rule admit_cases) auto
  then have "entry_trace dg limits h owner entry" using inv by (simp add: grant_inv_def)
  then obtain h1 t co' request view h2 where
    "h = h1 @ (t, Confirm co' owner request (Some (ge_idempotency_key entry)), GConfirm (Ok view)) # h2"
    "gv_idempotency_key view = ge_idempotency_key entry" "ge_receipt entry = gr_receipt request"
    "ge_deadline entry = t + from_secs (production_grant_seconds limits)" "\<forall>e \<in> set h2. \<not> revokes owner e"
    "capability_for dg co' owner request capability"
    using e(5) by (auto simp: entry_trace_def)
  then show ?thesis using e by metis
qed

text \<open>C27: repeating an admission is idempotent: an answer that names an existing job names the
  job that an earlier request of the same session with the same receipt and key
  started, and changes nothing.\<close>

theorem admission_idempotent:
  assumes "grant_run dg limits h (Unlocked s)"
    and "grant_call dg limits now (Admit co owner receipt key admit) s = (GAdmit (Ok (Existing job)), s')"
  shows "s' = s \<and> (\<exists>e \<in> set h. admits_job owner receipt key job e)"
proof -
  have inv: "grant_inv dg limits h s" by (rule grants.run_holds [OF assms(1)])
  have "admit_locked dg limits now co owner receipt key admit s = (Ok (Existing job), s')"
    using assms(2) by (simp add: grant_call_def)
  then obtain entry where e: "btm_get (gs_entries s) owner = Some entry" "ge_receipt entry = receipt"
      "ge_idempotency_key entry = key" "ge_status entry = Consumed job" "s' = s"
    by (rule admit_cases) auto
  then have "entry_trace dg limits h owner entry" using inv by (simp add: grant_inv_def)
  then have "\<exists>e \<in> set h. admits_job owner (ge_receipt entry) (ge_idempotency_key entry) job e"
    using e(4) by (auto simp: entry_trace_def)
  then show ?thesis using e by simp
qed

section \<open>A concrete console\<close>

definition sample_digests :: digests where
  "sample_digests = \<lparr>dg_rfc = Some, dg_to_vec = (\<lambda>_. Some ''{}''), dg_sha = toy_hash, dg_codec = sample_codec\<rparr>"

definition sample_dry_run :: DryRunBinding where
  "sample_dry_run =
     \<lparr>db_plan_reference = sample_ref CHR ''p'', db_plan_sha256 = toy_hash ''{}'',
      db_source_configuration_sha256 =
        source_configuration_digest toy_hash (hex64 CHR ''a'') (up_configuration_sha256 sample_folder_plan),
      db_server_identity_sha256 = sc_identity_sha256 (up_server sample_folder_plan),
      db_server_profile_sha256 = hex64 CHR ''b'', db_credential_generation = 1,
      db_max_logical_effects = 2, db_completed_unix = 100\<rparr>"

definition sample_receipt_row :: receipt_row where
  "sample_receipt_row =
     \<lparr>rr_rowid = 1, rr_receipt_ref = sample_ref CHR ''r'', rr_plan_ref = sample_ref CHR ''p'',
      rr_digests = map decode_pairs
        [db_plan_sha256 sample_dry_run, db_source_configuration_sha256 sample_dry_run,
         db_server_identity_sha256 sample_dry_run, db_server_profile_sha256 sample_dry_run],
      rr_credential_generation = 1, rr_max_logical_effects = 2, rr_completed_unix = 100\<rparr>"

definition sample_console :: console where
  "sample_console =
     \<lparr>co_sources = [\<lparr>so_id = ''photos'', so_label = ''Photos'', so_kind = KindFolder, so_resolve = Ok (hex64 CHR ''a'')\<rparr>],
      co_servers = [\<lparr>sr_id = ''nas'', sr_mode = ModeProductionRead, sr_generation_sha256 = hex64 CHR ''b'',
        sr_credential_generation = 1\<rparr>],
      co_matches_state = Ok True,
      co_history = \<lparr>hd_history = [], hd_sequence = 1, hd_receipts = [sample_receipt_row]\<rparr>,
      co_history_io = True,
      co_plans = \<lparr>pd_plans = [(sample_ref CHR ''p'', ''{}'' @ [CHR 0x0A])],
        pd_bindings = [(sample_ref CHR ''p'', ''[]'' @ [CHR 0x0A])]\<rparr>,
      co_plans_io = (\<lambda>_. True), co_plan_maximum_bytes = 1048576, co_checkpoint = (\<lambda>_. NoCheckpoint), co_now_unix = Ok 110\<rparr>"

definition sample_request :: GrantRequest where
  "sample_request =
     \<lparr>gr_receipt = sample_ref CHR ''r'', gr_plan_sha256 = toy_hash ''{}'', gr_max_logical_effects = 2,
      gr_backup_reference = ''nas-snapshot''\<rparr>"

definition sample_capability :: "string \<Rightarrow> ApplyCapability" where
  "sample_capability owner =
     \<lparr>ac_prepared = \<lparr>pu_plan = sample_folder_plan, pu_production = Some
        \<lparr>pwc_plan_sha256 = toy_hash ''{}'', pwc_expected_operations = 2, pwc_backup_reference = ''nas-snapshot''\<rparr>\<rparr>,
      ac_binding = \<lparr>gb_owner = owner, gb_receipt = sample_ref CHR ''r'', gb_dry_run = sample_dry_run,
        gb_source_profile_id = ''photos'', gb_server_profile_id = ''nas'',
        gb_backup_reference_sha256 = Some (toy_hash ''nas-snapshot'')\<rparr>\<rparr>"

lemma hex64_lower: "is_lower_hex c \<Longrightarrow> is_lower_sha256 (hex64 c)"
  by (simp add: is_lower_sha256_def hex64_def list_all_iff)

lemma toy_hash_lower: "is_lower_sha256 (toy_hash s)"
proof -
  have "is_lower_hex CHR ''0''" "is_lower_hex CHR ''a''" "is_lower_hex CHR ''b''" by code_simp+
  then show ?thesis by (simp add: toy_hash_def hex64_lower)
qed

lemma sample_identity: "sc_identity_sha256 (up_server sample_folder_plan) = hex64 CHR ''2''"
  by (simp add: sample_folder_plan_def sample_server_def Let_def)

lemma sample_receipt_found:
  "dry_run_receipt True (sample_ref CHR ''r'') (co_history sample_console) =
     Ok (Some \<lparr>dr_reference = sample_ref CHR ''r'', dr_binding = sample_dry_run\<rparr>)"
proof -
  have "is_lower_hex CHR ''2''" "is_lower_hex CHR ''b''" by code_simp+
  then have "receipt_row_of (sample_ref CHR ''r'') sample_dry_run empty_history = Ok sample_receipt_row"
    by (simp add: receipt_row_of_def sample_dry_run_def sample_receipt_row_def decode_sha256_def hex64_lower
        toy_hash_lower source_configuration_digest_def sample_identity checked_u64_def next_rowid_def empty_history_def)
  then have "receipt_of_row (sample_ref CHR ''r'') sample_receipt_row =
      Some \<lparr>dr_reference = sample_ref CHR ''r'', dr_binding = sample_dry_run\<rparr>"
    by (rule receipt_of_row_roundtrip) (simp add: sample_dry_run_def sample_ref_def)
  then show ?thesis
    by (simp add: dry_run_receipt_def sample_console_def sample_receipt_row_def)
qed

lemma sample_plan_loaded:
  "load_plan sample_digests sample_console (sample_ref CHR ''p'') =
     Ok \<lparr>sp_reference = sample_ref CHR ''p'', sp_plan = sample_folder_plan, sp_binding = sample_plan_binding\<rparr>"
proof -
  have "validate_binding_inputs ''photos'' (hex64 CHR ''a'') ''nas'' (hex64 CHR ''b'') 1 = Ok ()" by code_simp
  moreover have "logical_effects sample_folder_plan = 2" by code_simp
  ultimately have "validate_loaded Some (\<lambda>_. Some ''{}'') toy_hash sample_folder_plan sample_plan_binding = Ok ()"
    using upload_plan_identity [OF sample_folder_plan_valid]
    by (simp add: validate_loaded_def sample_plan_binding_def sample_folder_plan_valid upload_plan_sha256_def
        BINDING_SCHEMA_VERSION_def)
  then show ?thesis
    by (simp add: load_plan_def PlanStore_load_def load_json_def load_json_file_def MAX_BINDING_BYTES_def
        sample_digests_def sample_console_def sample_codec_def)
qed

lemma sample_binding_current: "binding_is_current sample_digests sample_console (ac_binding (sample_capability owner))"
  using sample_receipt_found sample_plan_loaded
  by (simp add: binding_is_current_def sample_capability_def sample_dry_run_def sample_plan_binding_def
      WebConfig_source_def WebConfig_server_def sample_console_def sample_digests_def)

lemma sample_prepare:
  "prepare sample_digests WebLimits_default sample_console owner sample_request = Ok (sample_capability owner, True)"
proof -
  have backup: "validate_backup toy_hash ''nas-snapshot'' True WebLimits_default = Ok (Some (toy_hash ''nas-snapshot''))"
    by code_simp
  have confirm: "ProductionWriteConfirmation_new True (toy_hash ''{}'') 2 ''nas-snapshot'' =
      Ok \<lparr>pwc_plan_sha256 = toy_hash ''{}'', pwc_expected_operations = 2, pwc_backup_reference = ''nas-snapshot''\<rparr>"
    by code_simp
  have plan: "up_schema_version sample_folder_plan = 1" "sum_operations (up_summary sample_folder_plan) = 2"
      "length (up_operations sample_folder_plan) = 2"
    by code_simp+
  have prepared: "prepare_upload_apply sample_digests sample_folder_plan
      (Some \<lparr>wr_plan_sha256 = toy_hash ''{}'', wr_expected_operations = 2, wr_backup_reference = ''nas-snapshot''\<rparr>)
      = Ok (ac_prepared (sample_capability owner))"
    by (simp add: prepare_upload_apply_def validate_production_confirmation_def confirm plan sample_digests_def
        upload_plan_sha256_def sample_folder_plan_valid UPLOAD_PLAN_SCHEMA_VERSION_def UPLOAD_PLAN_SCHEMA_VERSION_V2_def
        sample_capability_def)
  have age: "validate_receipt_age sample_console sample_dry_run WebLimits_default = Ok ()"
    by (simp add: validate_receipt_age_def sample_console_def sample_dry_run_def WebLimits_default_def
        i64_saturating_sub_def)
  have reads: "co_history_io sample_console" "WebConfig_server sample_console ''nas'' = Some
        \<lparr>sr_id = ''nas'', sr_mode = ModeProductionRead, sr_generation_sha256 = hex64 CHR ''b'', sr_credential_generation = 1\<rparr>"
      "receipt_is_newer_than_checkpoint sample_console r n = Ok True" for r n
    by (simp_all add: sample_console_def WebConfig_server_def receipt_is_newer_than_checkpoint_def)
  have dry: "db_plan_reference sample_dry_run = sample_ref CHR ''p''" "db_plan_sha256 sample_dry_run = toy_hash ''{}''"
      "db_max_logical_effects sample_dry_run = 2"
    by (simp_all add: sample_dry_run_def)
  have binding: "pb_source_profile_id sample_plan_binding = ''photos''" "pb_server_profile_id sample_plan_binding = ''nas''"
    by (simp_all add: sample_plan_binding_def)
  have sha: "dg_sha sample_digests = toy_hash" by (simp add: sample_digests_def)
  show ?thesis
    using sample_binding_current [of owner] prepared
    by (simp add: prepare_def sample_request_def Let_def reads sample_receipt_found age dry sample_plan_loaded plan
        binding sha backup) (simp add: sample_capability_def)
qed


text \<open>A session confirms the receipt, admits the apply and sends the same request again; then it
  tries to confirm the spent receipt once more.\<close>

definition sample_grant_calls :: "(instant \<times> grant_op) list" where
  "sample_grant_calls =
     [(0, Confirm sample_console ''owner'' sample_request (Some ''key'')),
      (1, Admit sample_console ''owner'' (sample_ref CHR ''r'') ''key'' (\<lambda>_. Ok ''job'')),
      (2, Confirm sample_console ''other'' sample_request (Some ''key2''))]"

definition sample_grant_history :: "nat \<Rightarrow> grant_event list" where
  "sample_grant_history n = fst (store_exec (grant_call sample_digests WebLimits_default) (take n sample_grant_calls) GrantStore_new)"

definition sample_grant_state :: "nat \<Rightarrow> GrantState" where
  "sample_grant_state n = snd (store_exec (grant_call sample_digests WebLimits_default) (take n sample_grant_calls) GrantStore_new)"

lemma sample_grant_run:
  "grant_run sample_digests WebLimits_default (sample_grant_history n) (Unlocked (sample_grant_state n))"
  unfolding sample_grant_history_def sample_grant_state_def
  by (intro store_exec_start [where xs = "take n sample_grant_calls"]) simp_all

definition sample_entry :: "GrantStatus \<Rightarrow> GrantEntry" where
  "sample_entry status =
     \<lparr>ge_receipt = sample_ref CHR ''r'', ge_idempotency_key = ''key'', ge_deadline = from_secs 90, ge_status = status\<rparr>"

lemma sample_reads:
  "production_grant_seconds WebLimits_default = 90" "history_retained_rows WebLimits_default = 5000"
  "gr_receipt sample_request = sample_ref CHR ''r''" "gb_receipt (ac_binding (sample_capability owner)) = sample_ref CHR ''r''"
  "is_production (ac_prepared (sample_capability owner))"
  "gb_backup_reference_sha256 (ac_binding (sample_capability owner)) \<noteq> None"
  by (simp_all add: WebLimits_default_def sample_request_def sample_capability_def is_production_def)

lemma sample_confirm_first:
  "grant_call sample_digests WebLimits_default 0 (Confirm sample_console ''owner'' sample_request (Some ''key'')) GrantStore_new =
     (GConfirm (Ok \<lparr>gv_idempotency_key = ''key'', gv_production = True\<rparr>),
      \<lparr>gs_entries = [(''owner'', sample_entry (Pending (Some (sample_capability ''owner''))))], gs_spent_receipts = []\<rparr>)"
  by (simp add: grant_call_def confirm_def sample_prepare instant_checked_add_def sample_reads from_secs_def
      GrantStore_new_def sample_entry_def)

lemma sample_admit_first:
  "grant_call sample_digests WebLimits_default 1
      (Admit sample_console ''owner'' (sample_ref CHR ''r'') ''key'' (\<lambda>_. Ok ''job''))
      \<lparr>gs_entries = [(''owner'', sample_entry (Pending (Some (sample_capability ''owner''))))], gs_spent_receipts = []\<rparr> =
     (GAdmit (Ok (Admitted ''job'')),
      \<lparr>gs_entries = [(''owner'', sample_entry (Consumed ''job''))], gs_spent_receipts = [sample_ref CHR ''r'']\<rparr>)"
  using sample_binding_current [of "''owner''"]
  by (simp add: grant_call_def admit_locked_def sample_entry_def same_key_def from_secs_def sample_reads)

lemma sample_confirm_spent:
  "grant_call sample_digests WebLimits_default 2 (Confirm sample_console ''other'' sample_request (Some ''key2''))
      \<lparr>gs_entries = [(''owner'', sample_entry (Consumed ''job''))], gs_spent_receipts = [sample_ref CHR ''r'']\<rparr> =
     (GConfirm (Err GrantInvalid),
      \<lparr>gs_entries = [(''owner'', sample_entry (Consumed ''job''))], gs_spent_receipts = [sample_ref CHR ''r'']\<rparr>)"
  by (simp add: grant_call_def confirm_def sample_prepare instant_checked_add_def sample_reads from_secs_def)

lemmas sample_grant_steps = sample_confirm_first sample_admit_first sample_confirm_spent

lemma sample_grant_states:
  "sample_grant_state 1 =
     \<lparr>gs_entries = [(''owner'', sample_entry (Pending (Some (sample_capability ''owner''))))], gs_spent_receipts = []\<rparr>"
  "sample_grant_state 2 =
     \<lparr>gs_entries = [(''owner'', sample_entry (Consumed ''job''))], gs_spent_receipts = [sample_ref CHR ''r'']\<rparr>"
  by (simp_all add: sample_grant_state_def sample_grant_calls_def sample_grant_steps [simplified] numeral_2_eq_2)

theorem receipt_admitted_once_witness: "length (admitted_receipts (sample_grant_history 3)) = 1"
proof -
  have "distinct (admitted_receipts (sample_grant_history 3))"
    using receipt_admitted_once [OF sample_grant_run] by blast
  moreover have "admitted_receipts (sample_grant_history 3) = [sample_ref CHR ''r'']"
    by (simp add: sample_grant_history_def sample_grant_calls_def sample_grant_steps [simplified] numeral_3_eq_3
        admitted_receipts_def admitted_receipt_def)
  ultimately show ?thesis by simp
qed

theorem admission_confirmed_witness:
  "\<exists>capability :: ApplyCapability. binding_is_current sample_digests sample_console (ac_binding capability) \<and>
     gb_receipt (ac_binding capability) = sample_ref CHR ''r''"
proof -
  note call = sample_admit_first [folded sample_grant_states(1)]
  from admission_confirmed [OF sample_grant_run call] obtain co' request capability where
    "capability_for sample_digests co' ''owner'' request capability" "gr_receipt request = sample_ref CHR ''r''"
    "binding_is_current sample_digests sample_console (ac_binding capability)"
    by blast
  then show ?thesis by (intro exI [of _ capability]) (simp add: capability_for_def Let_def)
qed

theorem admission_idempotent_witness:
  "\<exists>e \<in> set (sample_grant_history 2). admits_job ''owner'' (sample_ref CHR ''r'') ''key'' ''job'' e"
proof -
  have "grant_call sample_digests WebLimits_default 3
      (Admit sample_console ''owner'' (sample_ref CHR ''r'') ''key'' (\<lambda>_. Ok ''another'')) (sample_grant_state 2) =
      (GAdmit (Ok (Existing ''job'')), sample_grant_state 2)"
    by (simp add: sample_grant_states grant_call_def admit_locked_def sample_entry_def same_key_def from_secs_def)
  from admission_idempotent [OF sample_grant_run this] show ?thesis by blast
qed

end
