(* ===== verification/Web_Jobs.thy ===== *)
theory Web_Jobs
  imports Web_Grants
begin

text \<open>
  \<open>immich-web/src/jobs.rs\<close> with \<open>jobs/types.rs\<close>, \<open>apply_admission.rs\<close>, \<open>subscription.rs\<close>,
  \<open>metrics.rs\<close>, \<open>progress.rs\<close> and the queue of \<open>worker.rs\<close>: the in-memory job manager. Every
  method is a function on the state behind the manager's mutex. Two fields of the
  record are not in the source's struct: the worker threads themselves, each with
  the job it was spawned for and where it is in \<open>worker::run\<close> (a handle is the index
  of its thread), and the owners of the live subscriptions. Waiting on the condition
  variable is a phase of a thread, \<open>notify_all\<close> wakes every waiting one. Random job
  identifiers and whether the operating system spawns a thread are arguments. No
  code that runs under the lock panics, so the lock is never poisoned.
\<close>

section \<open>Jobs\<close>

datatype JobStatus = JobQueued | JobRunning | JobCompleted | JobFailed | JobCancelled

definition terminal :: "JobStatus \<Rightarrow> bool" where
  "terminal s \<longleftrightarrow> s \<in> {JobCompleted, JobFailed, JobCancelled}"

record JobProgress =
  jp_sequence :: u64
  jp_stage :: "ProgressStage option"
  jp_assets_observed :: u64
  jp_bytes_read :: u64

definition JobProgress_default :: JobProgress where
  "JobProgress_default = \<lparr>jp_sequence = 0, jp_stage = None, jp_assets_observed = 0, jp_bytes_read = 0\<rparr>"

record JobSummary =
  jm_schema_version :: u32
  jm_assets :: u64
  jm_sidecars :: u64
  jm_bytes_read :: u64
  jm_warnings :: nat
  jm_errors :: nat

record JobEvent =
  ev_sequence :: nat
  ev_status :: JobStatus
  ev_cancellation_requested :: bool
  ev_progress :: JobProgress
  ev_summary :: "JobSummary option"

datatype JobKind =
    JobScan HistoryKind
  | JobPlan string HistoryKind
  | JobDryRun ArtifactRef HistoryKind
  | JobApply ArtifactRef HistoryKind

primrec history_kind :: "JobKind \<Rightarrow> HistoryKind" where
  "history_kind (JobScan history) = history"
| "history_kind (JobPlan _ history) = history"
| "history_kind (JobDryRun _ history) = history"
| "history_kind (JobApply _ history) = history"

text \<open>\<open>match job.kind { JobKind::Apply { reference, .. } => Some(reference), _ => None }\<close>.\<close>

definition apply_reference :: "JobKind \<Rightarrow> ArtifactRef option" where
  "apply_reference kind = (case kind of JobApply reference _ \<Rightarrow> Some reference | _ \<Rightarrow> None)"

record StoredJob =
  sj_id :: string
  sj_owner :: string
  sj_source_id :: string
  sj_source_label :: string
  sj_kind :: JobKind
  sj_status :: JobStatus
  sj_cancellation_requested :: bool
  sj_cancellation :: CancellationToken
  sj_progress :: JobProgress
  sj_summary :: "JobSummary option"
  sj_artifact :: "PlanArtifact option"
  sj_receipt :: "ReceiptRef option"
  sj_events :: "JobEvent list"
  sj_next_event_sequence :: nat

definition StoredJob_new :: "string \<Rightarrow> string \<Rightarrow> string \<Rightarrow> string \<Rightarrow> JobKind \<Rightarrow> StoredJob" where
  "StoredJob_new i owner source_id source_label kind =
     \<lparr>sj_id = i, sj_owner = owner, sj_source_id = source_id, sj_source_label = source_label, sj_kind = kind,
      sj_status = JobQueued, sj_cancellation_requested = False, sj_cancellation = \<lparr>ct_cancelled = False\<rparr>,
      sj_progress = JobProgress_default, sj_summary = None, sj_artifact = None, sj_receipt = None,
      sj_events = [], sj_next_event_sequence = 0\<rparr>"

definition push_event :: "nat \<Rightarrow> StoredJob \<Rightarrow> StoredJob" where
  "push_event replay_limit job =
     (let sequence = sat_add (sj_next_event_sequence job) 1;
          event = \<lparr>ev_sequence = sequence, ev_status = sj_status job,
                   ev_cancellation_requested = sj_cancellation_requested job,
                   ev_progress = sj_progress job, ev_summary = sj_summary job\<rparr>;
          events = (if length (sj_events job) = replay_limit then tl (sj_events job) else sj_events job) in
      job\<lparr>sj_next_event_sequence := sequence, sj_events := events @ [event]\<rparr>)"

record JobSnapshot =
  sn_id :: string
  sn_source_label :: string
  sn_status :: JobStatus
  sn_cancellation_requested :: bool
  sn_progress :: JobProgress
  sn_summary :: "JobSummary option"
  sn_artifact :: "PlanArtifact option"
  sn_receipt :: "ReceiptRef option"

definition snapshot_job :: "StoredJob \<Rightarrow> JobSnapshot" where
  "snapshot_job job =
     \<lparr>sn_id = sj_id job, sn_source_label = sj_source_label job, sn_status = sj_status job,
      sn_cancellation_requested = sj_cancellation_requested job, sn_progress = sj_progress job,
      sn_summary = sj_summary job, sn_artifact = sj_artifact job, sn_receipt = sj_receipt job\<rparr>"

section \<open>State\<close>

text \<open>A thread is about to look at the queue, asleep on the condition variable, past \<open>begin\<close>,
  past \<open>job_inputs\<close>, returned, or panicked.\<close>

datatype worker_phase = Checking | Asleep | Began | Executing | Returned | Panicked

record worker =
  wk_job :: string
  wk_phase :: worker_phase

record JobsState =
  js_jobs :: "(string, StoredJob) btree_map"
  js_order :: "string list"
  js_handles :: "nat list"
  js_running :: nat
  js_queued :: nat
  js_shutting_down :: bool
  js_worker_failed :: bool
  js_subscribers :: nat
  js_subscribers_by_owner :: "(string, nat) btree_map"
  js_apply_capabilities :: "(string, ApplyCapability) btree_map"
  js_active_checkpoints :: "ArtifactRef btree_set"
  js_threads :: "worker list"
  js_leases :: "string list"

definition JobManager_new :: JobsState where
  "JobManager_new =
     \<lparr>js_jobs = [], js_order = [], js_handles = [], js_running = 0, js_queued = 0, js_shutting_down = False,
      js_worker_failed = False, js_subscribers = 0, js_subscribers_by_owner = [], js_apply_capabilities = [],
      js_active_checkpoints = [], js_threads = [], js_leases = []\<rparr>"

definition notify_all :: "worker list \<Rightarrow> worker list" where
  "notify_all = map (\<lambda>w. if wk_phase w = Asleep then w\<lparr>wk_phase := Checking\<rparr> else w)"

definition is_finished :: "worker list \<Rightarrow> nat \<Rightarrow> bool" where
  "is_finished threads handle \<longleftrightarrow> handle < length threads \<and> wk_phase (threads ! handle) \<in> {Returned, Panicked}"

definition join_is_err :: "worker list \<Rightarrow> nat \<Rightarrow> bool" where
  "join_is_err threads handle \<longleftrightarrow> handle < length threads \<and> wk_phase (threads ! handle) = Panicked"

text \<open>\<open>Vec::swap_remove\<close>: the last element takes the place of the removed one.\<close>

definition swap_remove :: "nat \<Rightarrow> 'a list \<Rightarrow> 'a list" where
  "swap_remove i xs = (if i = length xs - 1 then butlast xs else (butlast xs)[i := last xs])"

function reap_loop :: "worker list \<Rightarrow> nat \<Rightarrow> nat list \<Rightarrow> bool \<Rightarrow> nat list \<times> bool" where
  "reap_loop threads position handles worker_failed =
     (if position < length handles
      then if is_finished threads (handles ! position)
           then reap_loop threads position (swap_remove position handles)
                  (worker_failed \<or> join_is_err threads (handles ! position))
           else reap_loop threads (position + 1) handles worker_failed
      else (handles, worker_failed))"
  by pat_completeness auto
termination
  by (relation "measure (\<lambda>(threads, position, handles, failed). 2 * length handles - position)")
    (auto simp: swap_remove_def)

declare reap_loop.simps [simp del]

definition reap_workers :: "JobsState \<Rightarrow> JobsState" where
  "reap_workers s =
     (let (handles, failed) = reap_loop (js_threads s) 0 (js_handles s) (js_worker_failed s) in
      s\<lparr>js_handles := handles, js_worker_failed := failed\<rparr>)"

definition has_status :: "(JobStatus \<Rightarrow> bool) \<Rightarrow> JobsState \<Rightarrow> string \<Rightarrow> bool" where
  "has_status p s i = is_some_and (btm_get (js_jobs s) i) (\<lambda>job. p (sj_status job))"

text \<open>\<open>position(..)\<close> of the first terminal job in admission order, and its removal from both
  collections.\<close>

definition drop_job :: "string \<Rightarrow> JobsState \<Rightarrow> JobsState" where
  "drop_job i s = s\<lparr>js_order := remove1 i (js_order s), js_jobs := btm_remove i (js_jobs s)\<rparr>"

function evict_terminal :: "nat \<Rightarrow> JobsState \<Rightarrow> JobsState" where
  "evict_terminal retained s =
     (if length (js_jobs s) \<ge> retained
      then case find (has_status terminal s) (js_order s) of
          None \<Rightarrow> s
        | Some i \<Rightarrow> evict_terminal retained (drop_job i s)
      else s)"
  by pat_completeness auto
termination
  by (relation "measure (\<lambda>(retained, s). length (js_order s))")
    (auto simp: drop_job_def length_remove1 find_Some_iff in_set_conv_nth intro: length_pos_if_in_set)

declare evict_terminal.simps [simp del]

section \<open>Admission\<close>

definition worker_limit :: "WebLimits \<Rightarrow> nat" where
  "worker_limit limits = sat_add (concurrent_jobs limits) (queued_jobs limits)"

definition manager_full :: "WebLimits \<Rightarrow> string \<Rightarrow> JobsState \<Rightarrow> bool" where
  "manager_full limits i s \<longleftrightarrow>
     btm_get (js_jobs s) i \<noteq> None
     \<or> sat_add (js_running s) (js_queued s) \<ge> worker_limit limits
     \<or> length (js_handles s) \<ge> worker_limit limits
     \<or> length (js_jobs s) \<ge> retained_jobs limits"

definition enqueue :: "WebLimits \<Rightarrow> StoredJob \<Rightarrow> JobsState \<Rightarrow> JobsState" where
  "enqueue limits stored s =
     s\<lparr>js_jobs := btm_insert (sj_id stored) (push_event (sse_replay_events limits) stored) (js_jobs s),
       js_order := js_order s @ [sj_id stored], js_queued := sat_add (js_queued s) 1\<rparr>"

text \<open>What admission undoes when the thread cannot be spawned.\<close>

definition dequeue :: "string \<Rightarrow> JobsState \<Rightarrow> JobsState" where
  "dequeue i s =
     s\<lparr>js_jobs := btm_remove i (js_jobs s), js_order := filter (\<lambda>candidate. candidate \<noteq> i) (js_order s),
       js_queued := js_queued s - 1\<rparr>"

definition spawn :: "string \<Rightarrow> JobsState \<Rightarrow> JobsState" where
  "spawn i s =
     s\<lparr>js_threads := js_threads s @ [\<lparr>wk_job = i, wk_phase = Checking\<rparr>],
       js_handles := js_handles s @ [length (js_threads s)]\<rparr>"

definition admit_kind ::
  "WebLimits \<Rightarrow> console \<Rightarrow> string \<Rightarrow> string \<Rightarrow> JobKind \<Rightarrow> string option \<Rightarrow> bool \<Rightarrow> JobsState
     \<Rightarrow> (string, AdmissionError) result \<times> JobsState" where
  "admit_kind limits co owner source_id kind random_id spawned s =
     (case (WebConfig_source co source_id, random_id) of
        (None, _) \<Rightarrow> (Err UnknownProfile, s)
      | (Some _, None) \<Rightarrow> (Err AdmissionUnavailable, s)
      | (Some profile, Some i) \<Rightarrow>
          let s1 = evict_terminal (retained_jobs limits) (reap_workers s) in
          if js_shutting_down s1 \<or> js_worker_failed s1 then (Err AdmissionUnavailable, s1)
          else if manager_full limits i s1 then (Err AdmissionFull, s1)
          else let s2 = enqueue limits (StoredJob_new i owner source_id (so_label profile) kind) s1 in
            if \<not> spawned then (Err AdmissionUnavailable, dequeue i s2) else (Ok i, spawn i s2))"

primrec scan_history :: "ProfileKind \<Rightarrow> HistoryKind" where
  "scan_history KindFolder = FolderScan"
| "scan_history KindGoogleTakeout = GoogleTakeoutPlan"
| "scan_history KindApplePhotos = ApplePhotosPlan"
| "scan_history KindPicasa = PicasaPlan"

primrec plan_history :: "ProfileKind \<Rightarrow> HistoryKind" where
  "plan_history KindFolder = FolderPlan"
| "plan_history KindGoogleTakeout = GoogleTakeoutPlan"
| "plan_history KindApplePhotos = ApplePhotosPlan"
| "plan_history KindPicasa = PicasaPlan"

primrec dry_run_history :: "ProfileKind \<Rightarrow> HistoryKind" where
  "dry_run_history KindFolder = FolderDryRun"
| "dry_run_history KindGoogleTakeout = GoogleTakeoutDryRun"
| "dry_run_history KindApplePhotos = ApplePhotosDryRun"
| "dry_run_history KindPicasa = PicasaDryRun"

primrec apply_history :: "ProfileKind \<Rightarrow> HistoryKind" where
  "apply_history KindFolder = FolderApply"
| "apply_history KindGoogleTakeout = GoogleTakeoutApply"
| "apply_history KindApplePhotos = ApplePhotosApply"
| "apply_history KindPicasa = PicasaApply"

definition admit ::
  "WebLimits \<Rightarrow> console \<Rightarrow> string \<Rightarrow> string \<Rightarrow> string option \<Rightarrow> bool \<Rightarrow> JobsState
     \<Rightarrow> (string, AdmissionError) result \<times> JobsState" where
  "admit limits co owner source_id random_id spawned s =
     (case WebConfig_source co source_id of
        None \<Rightarrow> (Err UnknownProfile, s)
      | Some profile \<Rightarrow>
          admit_kind limits co owner source_id (JobScan (scan_history (so_kind profile))) random_id spawned s)"

definition admit_plan ::
  "WebLimits \<Rightarrow> console \<Rightarrow> string \<Rightarrow> string \<Rightarrow> string \<Rightarrow> string option \<Rightarrow> bool \<Rightarrow> JobsState
     \<Rightarrow> (string, AdmissionError) result \<times> JobsState" where
  "admit_plan limits co owner source_id server_id random_id spawned s =
     (case (WebConfig_server co server_id, WebConfig_source co source_id) of
        (Some _, Some profile) \<Rightarrow>
          admit_kind limits co owner source_id (JobPlan server_id (plan_history (so_kind profile))) random_id spawned s
      | _ \<Rightarrow> (Err UnknownProfile, s))"

definition admit_dry_run ::
  "digests \<Rightarrow> WebLimits \<Rightarrow> console \<Rightarrow> string \<Rightarrow> ArtifactRef \<Rightarrow> string option \<Rightarrow> bool \<Rightarrow> JobsState
     \<Rightarrow> (string, AdmissionError) result \<times> JobsState" where
  "admit_dry_run dg limits co owner reference random_id spawned s =
     (case load_plan dg co reference of
        Err _ \<Rightarrow> (Err UnknownProfile, s)
      | Ok stored \<Rightarrow>
          (case (WebConfig_server co (pb_server_profile_id (sp_binding stored)),
                 WebConfig_source co (pb_source_profile_id (sp_binding stored))) of
             (Some _, Some source) \<Rightarrow>
               admit_kind limits co owner (pb_source_profile_id (sp_binding stored))
                 (JobDryRun reference (dry_run_history (so_kind source))) random_id spawned s
           | _ \<Rightarrow> (Err UnknownProfile, s)))"

definition admit_apply ::
  "WebLimits \<Rightarrow> console \<Rightarrow> ApplyCapability \<Rightarrow> string option \<Rightarrow> bool \<Rightarrow> JobsState
     \<Rightarrow> (string, AdmissionError) result \<times> JobsState" where
  "admit_apply limits co capability random_id spawned s =
     (let owner = gb_owner (ac_binding capability);
          source_id = gb_source_profile_id (ac_binding capability);
          reference = db_plan_reference (gb_dry_run (ac_binding capability)) in
      case (WebConfig_source co source_id, random_id) of
        (None, _) \<Rightarrow> (Err UnknownProfile, s)
      | (Some _, None) \<Rightarrow> (Err AdmissionUnavailable, s)
      | (Some profile, Some i) \<Rightarrow>
          let s1 = evict_terminal (retained_jobs limits) (reap_workers s) in
          if js_shutting_down s1 \<or> js_worker_failed s1 then (Err AdmissionUnavailable, s1)
          else if bts_contains (js_active_checkpoints s1) reference \<or> manager_full limits i s1
          then (Err AdmissionFull, s1)
          else
            let s2 = enqueue limits (StoredJob_new i owner source_id (so_label profile)
                       (JobApply reference (apply_history (so_kind profile)))) s1;
                s3 = s2\<lparr>js_apply_capabilities := btm_insert i capability (js_apply_capabilities s2),
                        js_active_checkpoints := bts_insert reference (js_active_checkpoints s2)\<rparr> in
            if \<not> spawned
            then (Err AdmissionUnavailable,
                  (dequeue i s3)\<lparr>js_active_checkpoints := bts_remove reference (js_active_checkpoints s3),
                                 js_apply_capabilities := btm_remove i (js_apply_capabilities s3)\<rparr>)
            else (Ok i, spawn i s3))"

section \<open>Watching, cancelling, shutting down\<close>

text \<open>\<open>state.jobs.get(id).filter(|job| &job.owner == owner)\<close>.\<close>

definition owned_job :: "string \<Rightarrow> string \<Rightarrow> JobsState \<Rightarrow> StoredJob option" where
  "owned_job i owner s =
     (case btm_get (js_jobs s) i of Some job \<Rightarrow> if sj_owner job = owner then Some job else None | None \<Rightarrow> None)"

definition snapshot :: "string \<Rightarrow> string \<Rightarrow> JobsState \<Rightarrow> JobSnapshot option \<times> JobsState" where
  "snapshot i owner s = (let s1 = reap_workers s in (map_option snapshot_job (owned_job i owner s1), s1))"

definition request_cancellation :: "WebLimits \<Rightarrow> bool \<Rightarrow> StoredJob \<Rightarrow> StoredJob" where
  "request_cancellation limits was_queued job =
     push_event (sse_replay_events limits)
       (job\<lparr>sj_cancellation_requested := True, sj_cancellation := CancellationToken_cancel (sj_cancellation job),
            sj_status := (if was_queued then JobCancelled else sj_status job)\<rparr>)"

text \<open>\<open>cancel\<close> under the lock: the snapshot, and the history kind of a job that has to be recorded
  as cancelled.\<close>

definition cancel ::
  "WebLimits \<Rightarrow> string \<Rightarrow> string \<Rightarrow> JobsState \<Rightarrow> (JobSnapshot \<times> HistoryKind option) option \<times> JobsState" where
  "cancel limits i owner s =
     (case owned_job i owner s of
        None \<Rightarrow> (None, s)
      | Some job \<Rightarrow>
          let was_queued = (sj_status job = JobQueued);
              open_job = (\<not> terminal (sj_status job) \<and> \<not> sj_cancellation_requested job);
              job1 = (if open_job then request_cancellation limits was_queued job else job);
              s1 = (if open_job
                    then s\<lparr>js_jobs := btm_insert i job1 (js_jobs s), js_threads := notify_all (js_threads s)\<rparr>
                    else s);
              s2 = (if was_queued
                    then s1\<lparr>js_queued := js_queued s1 - 1,
                            js_apply_capabilities := btm_remove i (js_apply_capabilities s1),
                            js_active_checkpoints :=
                              (case apply_reference (sj_kind job) of
                                 Some reference \<Rightarrow> bts_remove reference (js_active_checkpoints s1)
                               | None \<Rightarrow> js_active_checkpoints s1)\<rparr>
                    else s1) in
          (Some (snapshot_job job1, if open_job \<and> was_queued then Some (history_kind (sj_kind job)) else None), s2))"

text \<open>The second critical section of \<open>cancel\<close>, when recording the cancellation failed.\<close>

definition mark_worker_failed :: "JobsState \<Rightarrow> JobsState" where
  "mark_worker_failed s = s\<lparr>js_worker_failed := True\<rparr>"

definition cancellable :: "StoredJob \<Rightarrow> bool" where
  "cancellable job \<longleftrightarrow> \<not> terminal (sj_status job) \<and> \<not> sj_cancellation_requested job"

text \<open>\<open>shutdown\<close> under the lock: the handles to join and whether no worker failed so far.\<close>

definition shutdown :: "WebLimits \<Rightarrow> JobsState \<Rightarrow> (nat list \<times> bool) \<times> JobsState" where
  "shutdown limits s =
     (let cancelled_queued = length (filter (\<lambda>(_, job). cancellable job \<and> sj_status job = JobQueued) (js_jobs s));
          jobs = btm_map (\<lambda>_ job. if cancellable job
                   then request_cancellation limits (sj_status job = JobQueued) job else job) (js_jobs s) in
      ((js_handles s, \<not> js_worker_failed s),
       s\<lparr>js_shutting_down := True, js_jobs := jobs, js_queued := js_queued s - cancelled_queued,
         js_threads := notify_all (js_threads s), js_handles := []\<rparr>))"

record JobMetrics =
  mt_queued :: nat
  mt_running :: nat
  mt_completed :: nat
  mt_failed :: nat
  mt_cancelled :: nat
  mt_retained :: nat
  mt_subscribers :: nat

definition count_status :: "JobStatus \<Rightarrow> JobsState \<Rightarrow> nat" where
  "count_status st s = length (filter (\<lambda>(_, job). sj_status job = st) (js_jobs s))"

definition collect :: "JobsState \<Rightarrow> JobMetrics \<times> JobsState" where
  "collect s =
     (let s1 = reap_workers s in
      (\<lparr>mt_queued = js_queued s1, mt_running = js_running s1, mt_completed = count_status JobCompleted s1,
        mt_failed = count_status JobFailed s1, mt_cancelled = count_status JobCancelled s1,
        mt_retained = length (js_jobs s1), mt_subscribers = js_subscribers s1\<rparr>, s1))"

section \<open>Workers\<close>

text \<open>One pass of the loop of \<open>begin\<close>: \<open>None\<close> when the worker waits.\<close>

definition begin_pass :: "WebLimits \<Rightarrow> string \<Rightarrow> JobsState \<Rightarrow> bool option \<times> JobsState" where
  "begin_pass limits i s =
     (let next_queued = find (has_status ((=) JobQueued) s) (js_order s) in
      if \<not> has_status ((=) JobQueued) s i \<or> js_shutting_down s then (Some False, s)
      else if next_queued = Some i \<and> js_running s < concurrent_jobs limits
      then (Some True,
            s\<lparr>js_queued := js_queued s - 1, js_running := sat_add (js_running s) 1,
              js_jobs := (case btm_get (js_jobs s) i of
                  Some job \<Rightarrow> btm_insert i (push_event (sse_replay_events limits) (job\<lparr>sj_status := JobRunning\<rparr>)) (js_jobs s)
                | None \<Rightarrow> js_jobs s)\<rparr>)
      else (None, s))"

definition job_inputs ::
  "string \<Rightarrow> JobsState \<Rightarrow> (string \<times> JobKind \<times> CancellationToken \<times> ApplyCapability option) option \<times> JobsState" where
  "job_inputs i s =
     (case btm_get (js_jobs s) i of
        None \<Rightarrow> (None, s)
      | Some job \<Rightarrow>
          (Some (sj_source_id job, sj_kind job, sj_cancellation job, btm_get (js_apply_capabilities s) i),
           s\<lparr>js_apply_capabilities := btm_remove i (js_apply_capabilities s)\<rparr>))"

text \<open>\<open>JobObserver::observe\<close> on a scan event.\<close>

definition observe :: "WebLimits \<Rightarrow> string \<Rightarrow> ProgressEvent \<Rightarrow> JobsState \<Rightarrow> JobsState" where
  "observe limits i event s =
     (case btm_get (js_jobs s) i of
        None \<Rightarrow> s
      | Some job \<Rightarrow>
          s\<lparr>js_jobs := btm_insert i (push_event (sse_replay_events limits)
              (job\<lparr>sj_progress := \<lparr>jp_sequence = pe_sequence event, jp_stage = Some (pe_stage event),
                    jp_assets_observed = pe_assets_observed event, jp_bytes_read = pe_bytes_read event\<rparr>\<rparr>)) (js_jobs s)\<rparr>)"

datatype WorkerOutcome =
    WorkCompleted HistoryKind JobSummary "PlanArtifact option" "DryRunBinding option"
  | WorkFailed HistoryKind
  | WorkCancelled HistoryKind

primrec WorkerOutcome_kind :: "WorkerOutcome \<Rightarrow> HistoryKind" where
  "WorkerOutcome_kind (WorkCompleted kind _ _ _) = kind"
| "WorkerOutcome_kind (WorkFailed kind) = kind"
| "WorkerOutcome_kind (WorkCancelled kind) = kind"

definition settle_job :: "WorkerOutcome \<Rightarrow> ReceiptRef option \<Rightarrow> StoredJob \<Rightarrow> StoredJob" where
  "settle_job outcome receipt job =
     (case outcome of
        WorkCompleted _ summary artifact _ \<Rightarrow>
          job\<lparr>sj_status := JobCompleted, sj_summary := Some summary, sj_artifact := artifact, sj_receipt := receipt\<rparr>
      | WorkFailed _ \<Rightarrow> job\<lparr>sj_status := JobFailed\<rparr>
      | WorkCancelled _ \<Rightarrow> job\<lparr>sj_status := JobCancelled\<rparr>)"

text \<open>\<open>finish\<close> under the lock, with the result of recording the outcome in the history.\<close>

definition finish ::
  "WebLimits \<Rightarrow> string \<Rightarrow> WorkerOutcome \<Rightarrow> (ReceiptRef option, unit) result \<Rightarrow> JobsState \<Rightarrow> JobsState" where
  "finish limits i outcome history_result s =
     (let history_ok = is_ok history_result;
          receipt = (case history_result of Ok r \<Rightarrow> r | Err _ \<Rightarrow> None);
          outcome1 = (if history_ok then outcome else WorkFailed (WorkerOutcome_kind outcome));
          checkpoint = (case btm_get (js_jobs s) i of Some job \<Rightarrow> apply_reference (sj_kind job) | None \<Rightarrow> None) in
      s\<lparr>js_active_checkpoints :=
          (case checkpoint of Some reference \<Rightarrow> bts_remove reference (js_active_checkpoints s)
           | None \<Rightarrow> js_active_checkpoints s),
        js_apply_capabilities := btm_remove i (js_apply_capabilities s),
        js_worker_failed := js_worker_failed s \<or> \<not> history_ok,
        js_running := js_running s - 1,
        js_jobs := (case btm_get (js_jobs s) i of
            Some job \<Rightarrow> btm_insert i (push_event (sse_replay_events limits) (settle_job outcome1 receipt job)) (js_jobs s)
          | None \<Rightarrow> js_jobs s),
        js_threads := notify_all (js_threads s)\<rparr>)"

section \<open>Subscriptions\<close>

datatype SubscribeError =
  SubscribeNotFound | InvalidCursor | ReplayExhausted | SessionCapacity | ProcessCapacity | SubscribeUnavailable

definition select_replay :: "JobEvent list \<Rightarrow> nat option \<Rightarrow> (JobEvent list, SubscribeError) result" where
  "select_replay events after =
     (case after of
        None \<Rightarrow> Ok events
      | Some cursor \<Rightarrow>
          if events = [] then Err SubscribeUnavailable
          else if cursor > ev_sequence (last events) then Err InvalidCursor
          else if sat_add cursor 1 < ev_sequence (hd events) then Err ReplayExhausted
          else Ok (filter (\<lambda>event. ev_sequence event > cursor) events))"

record JobSubscription =
  su_replay :: "JobEvent list"
  su_close_after_replay :: bool
  su_closed :: bool
  su_owner :: string

definition subscribe ::
  "WebLimits \<Rightarrow> string \<Rightarrow> string \<Rightarrow> nat option \<Rightarrow> JobsState \<Rightarrow> (JobSubscription, SubscribeError) result \<times> JobsState" where
  "subscribe limits i owner after s =
     (case owned_job i owner s of
        None \<Rightarrow> (Err SubscribeNotFound, s)
      | Some job \<Rightarrow>
          (case select_replay (sj_events job) after of
             Err e \<Rightarrow> (Err e, s)
           | Ok replay \<Rightarrow>
               let close_after_replay = terminal (sj_status job);
                   owner_count = unwrap_or (btm_get (js_subscribers_by_owner s) owner) 0 in
               if owner_count \<ge> sse_subscribers_per_session limits then (Err SessionCapacity, s)
               else if js_subscribers s \<ge> sse_subscribers_per_process limits then (Err ProcessCapacity, s)
               else (Ok \<lparr>su_replay = replay, su_close_after_replay = close_after_replay, su_closed = False,
                         su_owner = owner\<rparr>,
                     s\<lparr>js_subscribers := sat_add (js_subscribers s) 1,
                       js_subscribers_by_owner := btm_insert owner (sat_add owner_count 1) (js_subscribers_by_owner s),
                       js_leases := owner # js_leases s\<rparr>)))"

text \<open>Dropping the lease of a subscription.\<close>

definition drop_lease :: "string \<Rightarrow> JobsState \<Rightarrow> JobsState" where
  "drop_lease owner s =
     (let by_owner = (case btm_get (js_subscribers_by_owner s) owner of
            None \<Rightarrow> js_subscribers_by_owner s
          | Some count \<Rightarrow>
              if count - 1 = 0 then btm_remove owner (js_subscribers_by_owner s)
              else btm_insert owner (count - 1) (js_subscribers_by_owner s)) in
      s\<lparr>js_subscribers := js_subscribers s - 1, js_subscribers_by_owner := by_owner,
        js_leases := remove1 owner (js_leases s)\<rparr>)"

text \<open>What the broadcast receiver delivers within the heartbeat: nothing, an event, the news that
  it fell behind, or that the sender is gone.\<close>

datatype received = HeartbeatElapsed | Received JobEvent | Lagged | SenderClosed

datatype SubscriptionDelivery = DeliverEvent JobEvent | DeliverHeartbeat | DeliverReplayExhausted

definition subscription_next ::
  "received \<Rightarrow> JobSubscription \<Rightarrow> SubscriptionDelivery option \<times> JobSubscription" where
  "subscription_next incoming su =
     (if su_closed su then (None, su)
      else case su_replay su of
          event # rest \<Rightarrow>
            (Some (DeliverEvent event), su\<lparr>su_replay := rest, su_closed := terminal (ev_status event)\<rparr>)
        | [] \<Rightarrow>
            if su_close_after_replay su then (None, su\<lparr>su_closed := True\<rparr>)
            else (case incoming of
                HeartbeatElapsed \<Rightarrow> (Some DeliverHeartbeat, su)
              | Received event \<Rightarrow> (Some (DeliverEvent event), su\<lparr>su_closed := terminal (ev_status event)\<rparr>)
              | Lagged \<Rightarrow> (Some DeliverReplayExhausted, su\<lparr>su_closed := True\<rparr>)
              | SenderClosed \<Rightarrow> (None, su\<lparr>su_closed := True\<rparr>)))"

end
