(* ===== verification/Web_Workers.thy ===== *)
theory Web_Workers
  imports Web_Jobs
begin

text \<open>
  The job manager under concurrency. A step of the transition system is one critical
  section of a request handler or of a worker thread (the manager's mutex makes each of
  them atomic), a spurious wake-up, or the panic of a worker while it executes a job. The
  invariant of the reachable states is proved in three parts: the job table with its
  counters, the worker threads with the exclusive use of checkpoints, and the
  subscriptions. From it follow the bounds on retained and running jobs, the exclusion of
  two applications of one plan, exact replay of events, and that the queue can always be
  drained.
\<close>

section \<open>Counting in ordered maps\<close>

lemma filter_btm_insert_new:
  "btm_get m k = None \<Longrightarrow> length (filter P (btm_insert k v m)) = length (filter P m) + of_bool (P (k, v))"
  by (induction k v m rule: btm_insert.induct) (auto split: if_splits)

lemma filter_btm_insert_old:
  "btm_wf m \<Longrightarrow> btm_get m k = Some u \<Longrightarrow>
     length (filter P (btm_insert k v m)) + of_bool (P (k, u)) = length (filter P m) + of_bool (P (k, v))"
proof (induction k v m rule: btm_insert.induct)
  case (2 k v k' v' m)
  have "k < k' \<Longrightarrow> btm_get m k = None" using 2(2) by (intro btm_get_filter_None) fastforce
  with 2 show ?case by (auto split: if_splits)
qed simp

lemma filter_btm_remove:
  "btm_wf m \<Longrightarrow> btm_get m k = Some u \<Longrightarrow>
     length (filter P (btm_remove k m)) + of_bool (P (k, u)) = length (filter P m)"
proof (induction m)
  case (Cons e m)
  then have "fst e = k \<Longrightarrow> filter (\<lambda>e. fst e \<noteq> k) m = m" by (intro filter_True) fastforce
  with Cons show ?case by (auto simp: btm_remove_def split: if_splits)
qed simp

lemma length_btm_remove: "btm_wf m \<Longrightarrow> btm_get m k = Some u \<Longrightarrow> Suc (length (btm_remove k m)) = length m"
  using filter_btm_remove [of m k u "\<lambda>_. True"] by simp

lemma btm_remove_insert: "btm_get m k = None \<Longrightarrow> btm_remove k (btm_insert k v m) = m"
proof (induction k v m rule: btm_insert.induct)
  case (2 k v k' v' m)
  then have "filter (\<lambda>e. fst e \<noteq> k) m = m" by (intro filter_True) (auto split: if_splits simp: map_of_eq_None_iff)
  with 2 show ?case by (auto simp: btm_remove_def split: if_splits)
qed (simp add: btm_remove_def)

lemma bts_remove_insert: "x \<notin> set s \<Longrightarrow> bts_remove x (bts_insert x s) = s"
proof (induction x s rule: bts_insert.induct)
  case (2 x y s)
  then have "filter (\<lambda>z. z \<noteq> x) s = s" by (intro filter_True) auto
  with 2 show ?case by (auto simp: bts_remove_def)
qed (simp add: bts_remove_def)

lemma find_append_other: "\<not> P x \<Longrightarrow> find P (xs @ [x]) = find P xs"
  by (induction xs) auto

lemma length_filter_btm_map:
  "length (filter (\<lambda>(k, v). P v) (btm_map f m)) = length (filter (\<lambda>(k, v). P (f k v)) m)"
  by (induction m) (auto simp: btm_map_def)

section \<open>Steps\<close>

definition in_phase :: "worker_phase \<Rightarrow> JobsState \<Rightarrow> nat \<Rightarrow> string \<Rightarrow> bool" where
  "in_phase p s t i \<longleftrightarrow> t < length (js_threads s) \<and> js_threads s ! t = \<lparr>wk_job = i, wk_phase = p\<rparr>"

definition set_phase :: "nat \<Rightarrow> worker_phase \<Rightarrow> JobsState \<Rightarrow> JobsState" where
  "set_phase t p s = s\<lparr>js_threads := (js_threads s)[t := (js_threads s ! t)\<lparr>wk_phase := p\<rparr>]\<rparr>"

primrec begin_phase :: "bool option \<Rightarrow> worker_phase" where
  "begin_phase None = Asleep"
| "begin_phase (Some began) = (if began then Began else Returned)"

inductive jobs_step :: "WebLimits \<Rightarrow> JobsState \<Rightarrow> JobsState \<Rightarrow> bool" for limits where
  admit: "jobs_step limits s (snd (admit limits co owner source_id random_id spawned s))"
| admit_plan: "jobs_step limits s (snd (admit_plan limits co owner source_id server_id random_id spawned s))"
| admit_dry_run: "jobs_step limits s (snd (admit_dry_run dg limits co owner reference random_id spawned s))"
| admit_apply: "jobs_step limits s (snd (admit_apply limits co capability random_id spawned s))"
| snapshot: "jobs_step limits s (snd (snapshot i owner s))"
| cancel: "jobs_step limits s (snd (cancel limits i owner s))"
| mark_failed: "jobs_step limits s (mark_worker_failed s)"
| shutdown: "jobs_step limits s (snd (shutdown limits s))"
| collect: "jobs_step limits s (snd (collect s))"
| subscribe: "jobs_step limits s (snd (subscribe limits i owner after s))"
| drop_lease: "owner \<in> set (js_leases s) \<Longrightarrow> jobs_step limits s (drop_lease owner s)"
| begin_job: "in_phase Checking s t i \<Longrightarrow> begin_pass limits i s = (r, s') \<Longrightarrow>
    jobs_step limits s (set_phase t (begin_phase r) s')"
| wake: "in_phase Asleep s t i \<Longrightarrow> jobs_step limits s (set_phase t Checking s)"
| inputs: "in_phase Began s t i \<Longrightarrow> job_inputs i s = (r, s') \<Longrightarrow>
    jobs_step limits s (set_phase t (if r = None then Returned else Executing) s')"
| observe: "in_phase Executing s t i \<Longrightarrow> jobs_step limits s (observe limits i event s)"
| panic: "in_phase Executing s t i \<Longrightarrow> jobs_step limits s (set_phase t Panicked s)"
| finish: "in_phase Executing s t i \<Longrightarrow>
    jobs_step limits s (set_phase t Returned (finish limits i outcome history_result s))"

abbreviation jobs_reachable :: "WebLimits \<Rightarrow> JobsState \<Rightarrow> bool" where
  "jobs_reachable limits \<equiv> (jobs_step limits)\<^sup>*\<^sup>* JobManager_new"

text \<open>What the steps have in common: \<open>reap_workers\<close> only touches the handles, a failed admission
  leaves the state it started from.\<close>

lemma has_status_iff: "has_status p s i \<longleftrightarrow> (\<exists>job. btm_get (js_jobs s) i = Some job \<and> p (sj_status job))"
  by (auto simp: has_status_def is_some_and_def split: option.splits)

lemma reap_workers_eq:
  "\<exists>handles failed. reap_workers s = s\<lparr>js_handles := handles, js_worker_failed := failed\<rparr>"
  by (auto simp: reap_workers_def split: prod.splits)

section \<open>Events\<close>

text \<open>The stored events of a job: consecutive numbers up to the last one (until the 64-bit counter
  saturates), at most \<open>replay\<close> of them, and the last one shows the current state.\<close>

definition log_ok :: "nat \<Rightarrow> JobEvent list \<Rightarrow> nat \<Rightarrow> bool" where
  "log_ok replay events next \<longleftrightarrow>
     length events \<le> replay \<and> length events \<le> next \<and> next \<le> u64_max
     \<and> (next < u64_max \<longrightarrow> map ev_sequence events = [next + 1 - length events ..< next + 1])"

definition events_ok :: "nat \<Rightarrow> StoredJob \<Rightarrow> bool" where
  "events_ok replay job \<longleftrightarrow>
     log_ok replay (sj_events job) (sj_next_event_sequence job) \<and> sj_events job \<noteq> []
     \<and> last (sj_events job) =
         \<lparr>ev_sequence = sj_next_event_sequence job, ev_status = sj_status job,
          ev_cancellation_requested = sj_cancellation_requested job, ev_progress = sj_progress job,
          ev_summary = sj_summary job\<rparr>"

lemma push_event_fields [simp]:
  "sj_id (push_event replay job) = sj_id job" "sj_owner (push_event replay job) = sj_owner job"
  "sj_source_id (push_event replay job) = sj_source_id job" "sj_kind (push_event replay job) = sj_kind job"
  "sj_status (push_event replay job) = sj_status job"
  "sj_cancellation_requested (push_event replay job) = sj_cancellation_requested job"
  "sj_cancellation (push_event replay job) = sj_cancellation job"
  "sj_progress (push_event replay job) = sj_progress job" "sj_summary (push_event replay job) = sj_summary job"
  "sj_artifact (push_event replay job) = sj_artifact job" "sj_receipt (push_event replay job) = sj_receipt job"
  by (simp_all add: push_event_def Let_def)

lemma log_ok_push:
  assumes ok: "log_ok replay events next" and replay: "1 \<le> replay" "replay \<le> u64_max"
    and e: "ev_sequence e = sat_add next 1"
  shows "log_ok replay ((if length events = replay then tl events else events) @ [e]) (sat_add next 1)"
proof (cases "next + 1 \<le> u64_max")
  case True
  then have *: "map ev_sequence events = [next + 1 - length events ..< next + 1]"
    using ok by (simp add: log_ok_def)
  have "length events \<le> next" "length events \<le> replay" using ok by (auto simp: log_ok_def)
  moreover have "map ev_sequence (tl events) = [Suc (next + 1 - length events) ..< next + 1]"
    by (simp only: map_tl * tl_upt)
  ultimately show ?thesis
    using * True replay e by (auto simp: log_ok_def sat_add_def Suc_diff_le upt_Suc_append)
next
  case False
  then have "next = u64_max" using ok by (simp add: log_ok_def)
  then show ?thesis using ok replay by (auto simp: log_ok_def sat_add_def)
qed

lemma push_event_ok:
  assumes "log_ok replay (sj_events job) (sj_next_event_sequence job)" "1 \<le> replay" "replay \<le> u64_max"
  shows "events_ok replay (push_event replay job)"
  using log_ok_push [OF assms] by (simp add: events_ok_def push_event_def Let_def)

section \<open>The job table\<close>

definition job_ok :: "WebLimits \<Rightarrow> string \<Rightarrow> StoredJob \<Rightarrow> bool" where
  "job_ok limits i job \<longleftrightarrow>
     sj_id job = i \<and> events_ok (sse_replay_events limits) job
     \<and> (sj_status job = JobQueued \<longrightarrow> \<not> sj_cancellation_requested job)
     \<and> (ct_cancelled (sj_cancellation job) \<longleftrightarrow> sj_cancellation_requested job)"

definition table_ok :: "WebLimits \<Rightarrow> JobsState \<Rightarrow> bool" where
  "table_ok limits s \<longleftrightarrow>
     btm_wf (js_jobs s) \<and> distinct (js_order s) \<and> set (js_order s) = dom (btm_get (js_jobs s))
     \<and> (\<forall>i job. btm_get (js_jobs s) i = Some job \<longrightarrow> job_ok limits i job)
     \<and> js_queued s = count_status JobQueued s \<and> js_running s = count_status JobRunning s
     \<and> js_running s \<le> concurrent_jobs limits \<and> js_running s + js_queued s \<le> worker_limit limits
     \<and> length (js_jobs s) \<le> retained_jobs limits
     \<and> (js_shutting_down s \<longrightarrow> (\<forall>i job. btm_get (js_jobs s) i = Some job \<longrightarrow>
          sj_status job \<noteq> JobQueued \<and> (terminal (sj_status job) \<or> sj_cancellation_requested job)))"

lemma table_ok_cong:
  "table_ok limits s \<Longrightarrow> js_jobs s' = js_jobs s \<Longrightarrow> js_order s' = js_order s \<Longrightarrow> js_running s' = js_running s \<Longrightarrow>
     js_queued s' = js_queued s \<Longrightarrow> js_shutting_down s' = js_shutting_down s \<Longrightarrow> table_ok limits s'"
  by (simp add: table_ok_def count_status_def)

lemma count_status_pos: "btm_get (js_jobs s) i = Some job \<Longrightarrow> 0 < count_status (sj_status job) s"
  using map_of_SomeD [of "js_jobs s" i job] by (force simp: count_status_def filter_empty_conv)

lemma count_status_zero:
  "count_status st s = 0 \<Longrightarrow> btm_get (js_jobs s) i = Some job \<Longrightarrow> sj_status job \<noteq> st"
  using count_status_pos by fastforce

text \<open>Replacing the record of one job, with the counters adjusted.\<close>

lemma table_ok_update:
  assumes ok: "table_ok limits s" and job: "btm_get (js_jobs s) i = Some job" and new: "job_ok limits i job'"
    and s': "js_jobs s' = btm_insert i job' (js_jobs s)" "js_order s' = js_order s"
      "js_shutting_down s' = js_shutting_down s"
    and queued: "js_queued s' + of_bool (sj_status job = JobQueued) = js_queued s + of_bool (sj_status job' = JobQueued)"
    and running: "js_running s' + of_bool (sj_status job = JobRunning) = js_running s + of_bool (sj_status job' = JobRunning)"
    and bounds: "js_running s' \<le> concurrent_jobs limits" "js_running s' + js_queued s' \<le> js_running s + js_queued s"
    and stop: "js_shutting_down s \<Longrightarrow> sj_status job' \<noteq> JobQueued \<and> (terminal (sj_status job') \<or> sj_cancellation_requested job')"
  shows "table_ok limits s'"
proof -
  have wf: "btm_wf (js_jobs s)" using ok by (simp add: table_ok_def)
  have "count_status st s' + of_bool (sj_status job = st) = count_status st s + of_bool (sj_status job' = st)" for st
    using filter_btm_insert_old [OF wf job, of "\<lambda>(_, job). sj_status job = st" job'] s'
    by (simp add: count_status_def)
  from this [of JobQueued] this [of JobRunning] have "js_queued s' = count_status JobQueued s'" "js_running s' = count_status JobRunning s'"
    using ok queued running by (auto simp: table_ok_def)
  moreover have "length (js_jobs s') = length (js_jobs s)" using wf job s' by (simp add: length_btm_insert)
  ultimately show ?thesis
    using ok job new s' bounds stop by (auto simp: table_ok_def dom_def)
qed

lemma valid_work_simps:
  assumes "valid_work limits"
  shows "1 \<le> concurrent_jobs limits" "1 \<le> sse_replay_events limits" "sse_replay_events limits \<le> u64_max"
    "worker_limit limits = concurrent_jobs limits + queued_jobs limits" "worker_limit limits \<le> retained_jobs limits"
    "worker_limit limits < u64_max"
  using assms by (auto simp: valid_work_def worker_limit_def sat_add_def u64_max_val)

text \<open>Every change of a stored job ends with \<open>push_event\<close>, which restores what the events promise.\<close>

lemma job_ok_push:
  assumes "valid_work limits" "job_ok limits i job"
    and "sj_id job' = sj_id job" "sj_events job' = sj_events job" "sj_next_event_sequence job' = sj_next_event_sequence job"
    and "sj_status job' = JobQueued \<Longrightarrow> \<not> sj_cancellation_requested job'"
    and "ct_cancelled (sj_cancellation job') \<longleftrightarrow> sj_cancellation_requested job'"
  shows "job_ok limits i (push_event (sse_replay_events limits) job')"
proof -
  have "events_ok (sse_replay_events limits) (push_event (sse_replay_events limits) job')"
    using assms valid_work_simps [OF assms(1)] by (intro push_event_ok) (auto simp: job_ok_def events_ok_def)
  with assms show ?thesis by (simp add: job_ok_def)
qed

lemma table_ok_reap: "table_ok limits s \<Longrightarrow> table_ok limits (reap_workers s)"
  using reap_workers_eq [of s] by (auto elim: table_ok_cong)

lemma table_ok_drop_job:
  assumes ok: "table_ok limits s" and i: "has_status terminal s i"
  shows "table_ok limits (drop_job i s)"
proof -
  obtain job where job: "btm_get (js_jobs s) i = Some job" "terminal (sj_status job)"
    using i by (auto simp: has_status_iff)
  have wf: "btm_wf (js_jobs s)" using ok by (simp add: table_ok_def)
  have "count_status st (drop_job i s) + of_bool (sj_status job = st) = count_status st s" for st
    using filter_btm_remove [OF wf job(1), of "\<lambda>(_, job). sj_status job = st"]
    by (simp add: count_status_def drop_job_def)
  from this [of JobQueued] this [of JobRunning] show ?thesis
    using ok job length_btm_remove [OF wf job(1)]
    by (auto simp: table_ok_def drop_job_def terminal_def dom_def)
qed

lemma find_found: "find P xs = Some x \<Longrightarrow> P x \<and> x \<in> set xs"
  by (induction xs) (auto split: if_splits)

lemma evict_terminal_keeps:
  assumes "\<And>i s. P s \<Longrightarrow> has_status terminal s i \<Longrightarrow> P (drop_job i s)"
  shows "P s \<Longrightarrow> P (evict_terminal retained s)"
proof (induction retained s rule: evict_terminal.induct)
  case (1 retained s)
  then show ?case
    by (subst evict_terminal.simps) (use find_found [of "has_status terminal s" "js_order s"] in \<open>auto simp: assms split: option.splits\<close>)
qed

lemma table_ok_evict: "table_ok limits s \<Longrightarrow> table_ok limits (evict_terminal retained s)"
  by (rule evict_terminal_keeps [where P = "table_ok limits"]) (auto simp: table_ok_drop_job)

lemma job_ok_new:
  assumes "valid_work limits"
  shows "job_ok limits i (push_event (sse_replay_events limits) (StoredJob_new i owner source_id label kind))"
  using push_event_ok [of "sse_replay_events limits" "StoredJob_new i owner source_id label kind"] valid_work_simps [OF assms]
  by (simp add: job_ok_def StoredJob_new_def log_ok_def)

lemma table_ok_enqueue:
  assumes ok: "table_ok limits s" and valid: "valid_work limits"
    and new: "\<not> manager_full limits i s" "\<not> js_shutting_down s"
  shows "table_ok limits (enqueue limits (StoredJob_new i owner source_id label kind) s)"
proof -
  define job where "job = push_event (sse_replay_events limits) (StoredJob_new i owner source_id label kind)"
  define s' where "s' = enqueue limits (StoredJob_new i owner source_id label kind) s"
  have none: "btm_get (js_jobs s) i = None" using new by (simp add: manager_full_def)
  have s': "js_jobs s' = btm_insert i job (js_jobs s)" "js_order s' = js_order s @ [i]" "js_running s' = js_running s"
    "js_shutting_down s' = js_shutting_down s" "js_queued s' = sat_add (js_queued s) 1"
    by (simp_all add: s'_def enqueue_def job_def StoredJob_new_def)
  have job: "sj_status job = JobQueued" "job_ok limits i job" using job_ok_new [OF valid] by (simp_all add: job_def StoredJob_new_def)
  have "js_running s + js_queued s < worker_limit limits"
    using new valid_work_simps [OF valid] by (auto simp: manager_full_def sat_add_def)
  then have queued: "js_queued s' = js_queued s + 1" "js_running s' + js_queued s' \<le> worker_limit limits"
    using s' valid_work_simps(6) [OF valid] by (auto simp: sat_add_def)
  have count: "count_status st s' = count_status st s + of_bool (st = JobQueued)" for st
    using filter_btm_insert_new [OF none, of "\<lambda>(_, job). sj_status job = st" job] s' job(1)
    by (auto simp: count_status_def)
  have len: "length (js_jobs s') \<le> retained_jobs limits"
    using new none ok s' by (simp add: manager_full_def length_btm_insert table_ok_def)
  have "table_ok limits s'"
    using ok none s' job queued len count [of JobQueued] count [of JobRunning] new by (auto simp: table_ok_def dom_def)
  then show ?thesis by (simp add: s'_def)
qed

text \<open>A job whose thread cannot be spawned is taken back without a trace.\<close>

lemma dequeue_enqueue:
  assumes "table_ok limits s" "valid_work limits" "\<not> manager_full limits i s"
  shows "dequeue i (enqueue limits (StoredJob_new i owner source_id label kind) s) = s"
proof -
  have none: "btm_get (js_jobs s) i = None" using assms by (simp add: manager_full_def)
  then have "i \<notin> set (js_order s)" using assms(1) by (auto simp: table_ok_def)
  then have "filter (\<lambda>candidate. candidate \<noteq> i) (js_order s) = js_order s" by (intro filter_True) auto
  moreover have "js_queued s < u64_max"
    using assms valid_work_simps(6) [OF assms(2)] by (auto simp: table_ok_def)
  ultimately show ?thesis
    using none by (simp add: dequeue_def enqueue_def StoredJob_new_def btm_remove_insert sat_add_def)
qed

text \<open>The three outcomes of an admission: refused before the lock, refused after making room, or a
  new job at the end of the queue with its thread.\<close>

definition made_room :: "WebLimits \<Rightarrow> JobsState \<Rightarrow> JobsState" where
  "made_room limits s = evict_terminal (retained_jobs limits) (reap_workers s)"

lemma table_ok_made_room: "table_ok limits s \<Longrightarrow> table_ok limits (made_room limits s)"
  by (simp add: made_room_def table_ok_evict table_ok_reap)

definition admits :: "WebLimits \<Rightarrow> JobsState \<Rightarrow> string \<Rightarrow> JobKind \<Rightarrow> JobsState \<Rightarrow> bool" where
  "admits limits s i kind s' \<longleftrightarrow>
     \<not> manager_full limits i (made_room limits s) \<and> \<not> js_shutting_down (made_room limits s)
     \<and> (\<exists>owner source_id label.
          s' = spawn i (enqueue limits (StoredJob_new i owner source_id label kind) (made_room limits s)))"

lemma admit_kind_cases:
  assumes "table_ok limits s" "valid_work limits" "s' = snd (admit_kind limits co owner source_id kind random_id spawned s)"
  obtains "s' = s" | "s' = made_room limits s" | i where "admits limits s i kind s'"
  using assms dequeue_enqueue [OF table_ok_made_room [OF assms(1)] assms(2)]
  by (auto simp: admit_kind_def admits_def Let_def made_room_def split: option.splits if_splits)

definition admits_apply ::
  "WebLimits \<Rightarrow> JobsState \<Rightarrow> string \<Rightarrow> ApplyCapability \<Rightarrow> ArtifactRef \<Rightarrow> JobKind \<Rightarrow> JobsState \<Rightarrow> bool" where
  "admits_apply limits s i capability reference kind s' \<longleftrightarrow>
     (\<exists>s1. admits limits s i kind s1 \<and> apply_reference kind = Some reference
       \<and> reference = db_plan_reference (gb_dry_run (ac_binding capability))
       \<and> reference \<notin> set (js_active_checkpoints s1)
       \<and> s' = s1\<lparr>js_apply_capabilities := btm_insert i capability (js_apply_capabilities s1),
                 js_active_checkpoints := bts_insert reference (js_active_checkpoints s1)\<rparr>)"

lemma enqueue_fields [simp]:
  "js_apply_capabilities (enqueue limits job s) = js_apply_capabilities s"
  "js_active_checkpoints (enqueue limits job s) = js_active_checkpoints s"
  "js_threads (enqueue limits job s) = js_threads s" "js_leases (enqueue limits job s) = js_leases s"
  "js_running (enqueue limits job s) = js_running s" "js_shutting_down (enqueue limits job s) = js_shutting_down s"
  "js_subscribers (enqueue limits job s) = js_subscribers s"
  "js_subscribers_by_owner (enqueue limits job s) = js_subscribers_by_owner s"
  by (simp_all add: enqueue_def)

lemma admit_apply_cases:
  assumes ok: "table_ok limits s" "valid_work limits"
    and caps: "\<And>i. \<not> js_shutting_down (made_room limits s) \<Longrightarrow> btm_get (js_jobs (made_room limits s)) i = None \<Longrightarrow>
      btm_get (js_apply_capabilities (made_room limits s)) i = None"
    and s': "s' = snd (admit_apply limits co capability random_id spawned s)"
  obtains (1) "s' = s" | (2) "s' = made_room limits s"
    | (3) i reference kind where "admits_apply limits s i capability reference kind s'"
proof -
  define s1 where "s1 = made_room limits s"
  define reference where "reference = db_plan_reference (gb_dry_run (ac_binding capability))"
  have undo: "(dequeue i (s2\<lparr>js_apply_capabilities := btm_insert i capability (js_apply_capabilities s2),
        js_active_checkpoints := bts_insert reference (js_active_checkpoints s2)\<rparr>))
      \<lparr>js_active_checkpoints := bts_remove reference (bts_insert reference (js_active_checkpoints s2)),
       js_apply_capabilities := btm_remove i (btm_insert i capability (js_apply_capabilities s2))\<rparr> = dequeue i s2"
    if "reference \<notin> set (js_active_checkpoints s2)" "btm_get (js_apply_capabilities s2) i = None" for i s2
    using that by (simp add: dequeue_def btm_remove_insert bts_remove_insert)
  have enter: "thesis" if "\<not> js_shutting_down s1" "\<not> manager_full limits i s1" "reference \<notin> set (js_active_checkpoints s1)"
      "s2 = enqueue limits (StoredJob_new i owner source_id label kind) s1" "apply_reference kind = Some reference"
      "s3 = s2\<lparr>js_apply_capabilities := btm_insert i capability (js_apply_capabilities s2),
              js_active_checkpoints := bts_insert reference (js_active_checkpoints s2)\<rparr>"
      "s' = (if spawned then spawn i s3
             else (dequeue i s3)\<lparr>js_active_checkpoints := bts_remove reference (js_active_checkpoints s3),
                                 js_apply_capabilities := btm_remove i (js_apply_capabilities s3)\<rparr>)"
    for i owner source_id label kind s2 s3
  proof (cases spawned)
    case True
    have "admits limits s i kind (spawn i s2)" using that(1,2,4) by (auto simp: admits_def s1_def)
    then have "admits_apply limits s i capability reference kind s'"
      using that True unfolding admits_apply_def by (intro exI [of _ "spawn i s2"]) (simp add: spawn_def reference_def)
    then show ?thesis by (rule 3)
  next
    case False
    have "btm_get (js_apply_capabilities s2) i = None" using that(1,2,4) caps by (simp add: manager_full_def s1_def)
    then have "s' = dequeue i s2" using undo [of s2 i] that False by simp
    also have "\<dots> = s1" using dequeue_enqueue [of limits s1 i] table_ok_made_room [OF ok(1)] ok(2) that(2,4) by (simp add: s1_def)
    finally show ?thesis using 2 by (simp add: s1_def)
  qed
  consider "s' = s" | "s' = s1"
    | profile i where "WebConfig_source co (gb_source_profile_id (ac_binding capability)) = Some profile" "random_id = Some i"
      "\<not> (js_shutting_down s1 \<or> js_worker_failed s1)" "\<not> (reference \<in> set (js_active_checkpoints s1) \<or> manager_full limits i s1)"
    using s' by (auto simp: admit_apply_def Let_def made_room_def [symmetric] s1_def [symmetric] reference_def [symmetric]
        split: option.splits if_splits)
  then show ?thesis
  proof cases
    case (3 profile i)
    have "s' = snd (admit_apply limits co capability random_id spawned s)" by (rule s')
    with 3 show ?thesis
      by (intro enter [OF _ _ _ refl _ refl, of i "JobApply reference (apply_history (so_kind profile))"
            "gb_owner (ac_binding capability)" "gb_source_profile_id (ac_binding capability)" "so_label profile"])
        (auto simp: admit_apply_def Let_def made_room_def [symmetric] s1_def [symmetric] reference_def [symmetric] apply_reference_def)
  qed (use 1 2 in \<open>auto simp: s1_def\<close>)
qed

lemma request_cancellation_fields [simp]:
  "sj_id (request_cancellation limits q job) = sj_id job" "sj_kind (request_cancellation limits q job) = sj_kind job"
  "sj_owner (request_cancellation limits q job) = sj_owner job"
  "sj_status (request_cancellation limits q job) = (if q then JobCancelled else sj_status job)"
  "sj_cancellation_requested (request_cancellation limits q job)"
  by (simp_all add: request_cancellation_def)

lemma job_ok_cancellation:
  "valid_work limits \<Longrightarrow> job_ok limits i job \<Longrightarrow>
     job_ok limits i (request_cancellation limits (sj_status job = JobQueued) job)"
  unfolding request_cancellation_def by (erule (1) job_ok_push) (auto simp: CancellationToken_cancel_def split: if_splits)

lemma owned_job_Some:
  "owned_job i owner s = Some job \<longleftrightarrow> btm_get (js_jobs s) i = Some job \<and> sj_owner job = owner"
  by (auto simp: owned_job_def split: option.splits if_splits)

text \<open>\<open>cancel\<close> changes the state only for an open job of the caller; a queued job is never marked.\<close>

lemma cancel_cases:
  assumes ok: "table_ok limits s" and s': "s' = snd (cancel limits i owner s)"
  obtains "s' = s"
  | job where "btm_get (js_jobs s) i = Some job" "sj_status job = JobRunning" "\<not> sj_cancellation_requested job"
      "s' = s\<lparr>js_jobs := btm_insert i (request_cancellation limits False job) (js_jobs s),
              js_threads := notify_all (js_threads s)\<rparr>"
  | job where "btm_get (js_jobs s) i = Some job" "sj_status job = JobQueued"
      "s' = s\<lparr>js_jobs := btm_insert i (request_cancellation limits True job) (js_jobs s),
              js_threads := notify_all (js_threads s), js_queued := js_queued s - 1,
              js_apply_capabilities := btm_remove i (js_apply_capabilities s),
              js_active_checkpoints :=
                (case apply_reference (sj_kind job) of
                   Some reference \<Rightarrow> bts_remove reference (js_active_checkpoints s)
                 | None \<Rightarrow> js_active_checkpoints s)\<rparr>"
proof (cases "owned_job i owner s")
  case None
  then show ?thesis using that(1) s' by (simp add: cancel_def)
next
  case (Some job)
  then have job: "btm_get (js_jobs s) i = Some job" by (simp add: owned_job_Some)
  then have "sj_status job = JobQueued \<Longrightarrow> \<not> sj_cancellation_requested job"
    using ok by (auto simp: table_ok_def job_ok_def)
  then consider "terminal (sj_status job) \<or> sj_cancellation_requested job" "sj_status job \<noteq> JobQueued"
    | "sj_status job = JobRunning" "\<not> sj_cancellation_requested job"
    | "sj_status job = JobQueued" "\<not> sj_cancellation_requested job"
    by (cases "sj_status job") (auto simp: terminal_def)
  then show ?thesis
  proof cases
    case 1
    then show ?thesis using that(1) s' Some by (auto simp: cancel_def Let_def)
  next
    case 2
    then show ?thesis using that(2) [OF job] s' Some by (simp add: cancel_def Let_def terminal_def)
  next
    case 3
    then show ?thesis using that(3) [OF job] s' Some by (simp add: cancel_def Let_def terminal_def split: option.splits)
  qed
qed

lemma table_ok_cancel:
  assumes ok: "table_ok limits s" and valid: "valid_work limits"
  shows "table_ok limits (snd (cancel limits i owner s))"
proof (cases rule: cancel_cases [OF ok refl, of i owner])
  case (2 job)
  have new: "job_ok limits i (request_cancellation limits False job)"
    using job_ok_cancellation [OF valid, of i job] 2 ok by (simp add: table_ok_def)
  show ?thesis
    by (rule table_ok_update [OF ok 2(1) new]) (use ok 2 in \<open>auto simp: table_ok_def\<close>)
next
  case (3 job)
  have new: "job_ok limits i (request_cancellation limits True job)"
    using job_ok_cancellation [OF valid, of i job] 3 ok by (simp add: table_ok_def)
  have "0 < js_queued s" using count_status_pos [OF 3(1)] 3(2) ok by (simp add: table_ok_def)
  then show ?thesis
    by (intro table_ok_update [OF ok 3(1) new]) (use ok 3 in \<open>auto simp: table_ok_def terminal_def\<close>)
qed (use ok in simp)

lemma table_ok_shutdown:
  assumes ok: "table_ok limits s" and valid: "valid_work limits"
  shows "table_ok limits (snd (shutdown limits s))"
proof -
  define s' where "s' = snd (shutdown limits s)"
  define stop where "stop job = (if cancellable job then request_cancellation limits (sj_status job = JobQueued) job else job)" for job
  have jobs: "js_jobs s' = btm_map (\<lambda>_. stop) (js_jobs s)"
    by (simp add: s'_def shutdown_def Let_def stop_def [abs_def])
  have jok: "job_ok limits i job" if "btm_get (js_jobs s) i = Some job" for i job
    using that ok by (simp add: table_ok_def)
  have status: "sj_status (stop job) = (if sj_status job = JobQueued then JobCancelled else sj_status job)"
    "terminal (sj_status (stop job)) \<or> sj_cancellation_requested (stop job)" "job_ok limits i (stop job)"
    if "btm_get (js_jobs s) i = Some job" for i job
    using jok [OF that] job_ok_cancellation [OF valid jok [OF that]]
    by (auto simp: stop_def cancellable_def terminal_def job_ok_def)
  have all: "sj_status (stop (snd e)) = (if sj_status (snd e) = JobQueued then JobCancelled else sj_status (snd e))"
    "sj_status (snd e) = JobQueued \<Longrightarrow> cancellable (snd e)" if "e \<in> set (js_jobs s)" for e
    using that status(1) [of "fst e" "snd e"] jok [of "fst e" "snd e"] ok
    by (auto simp: table_ok_def btm_wf_distinct cancellable_def terminal_def job_ok_def)
  have "count_status JobQueued s' = 0" "count_status JobRunning s' = count_status JobRunning s"
    unfolding count_status_def jobs length_filter_btm_map
    using all(1) by (auto simp: filter_empty_conv split: if_splits intro!: arg_cong [of _ _ length] filter_cong)
  moreover have "js_queued s' = js_queued s - count_status JobQueued s"
    unfolding s'_def shutdown_def Let_def count_status_def
    using all(2) by (auto intro!: arg_cong [of _ _ "\<lambda>xs. _ - length xs"] filter_cong)
  moreover have "js_order s' = js_order s" "js_running s' = js_running s" "length (js_jobs s') = length (js_jobs s)"
    by (simp_all add: s'_def shutdown_def Let_def btm_map_def)
  moreover have "btm_wf (js_jobs s')" "dom (btm_get (js_jobs s')) = dom (btm_get (js_jobs s))"
    using ok by (auto simp: jobs table_ok_def)
  moreover have "job_ok limits i job \<and> sj_status job \<noteq> JobQueued \<and> (terminal (sj_status job) \<or> sj_cancellation_requested job)"
    if new: "btm_get (js_jobs s') i = Some job" for i job
  proof -
    obtain old where old: "btm_get (js_jobs s) i = Some old" "job = stop old" using new by (auto simp: jobs)
    then show ?thesis using status [OF old(1)] by (simp split: if_splits)
  qed
  ultimately have "table_ok limits s'" using ok by (simp add: table_ok_def)
  then show ?thesis by (simp add: s'_def)
qed

text \<open>A worker passes \<open>begin\<close> only as the head of the queue and with a free slot.\<close>

lemma begin_pass_cases:
  assumes "begin_pass limits i s = (r, s')"
  obtains "r = Some False" "s' = s" "\<not> has_status ((=) JobQueued) s i \<or> js_shutting_down s"
  | "r = None" "s' = s" "has_status ((=) JobQueued) s i" "\<not> js_shutting_down s"
      "find (has_status ((=) JobQueued) s) (js_order s) \<noteq> Some i \<or> concurrent_jobs limits \<le> js_running s"
  | job where "r = Some True" "btm_get (js_jobs s) i = Some job" "sj_status job = JobQueued" "\<not> js_shutting_down s"
      "find (has_status ((=) JobQueued) s) (js_order s) = Some i" "js_running s < concurrent_jobs limits"
      "s' = s\<lparr>js_queued := js_queued s - 1, js_running := sat_add (js_running s) 1,
              js_jobs := btm_insert i (push_event (sse_replay_events limits) (job\<lparr>sj_status := JobRunning\<rparr>)) (js_jobs s)\<rparr>"
proof (cases "has_status ((=) JobQueued) s i \<and> \<not> js_shutting_down s")
  case False
  then show ?thesis using that(1) assms by (auto simp: begin_pass_def Let_def)
next
  case True
  then obtain job where job: "btm_get (js_jobs s) i = Some job" "sj_status job = JobQueued"
    by (auto simp: has_status_iff)
  show ?thesis
  proof (cases "find (has_status ((=) JobQueued) s) (js_order s) = Some i \<and> js_running s < concurrent_jobs limits")
    case False
    then show ?thesis using that(2) True assms by (auto simp: begin_pass_def Let_def not_less)
  next
    case go: True
    then show ?thesis using that(3) [OF _ job] True assms job(1) by (simp add: begin_pass_def Let_def)
  qed
qed

lemma table_ok_begin:
  assumes ok: "table_ok limits s" and valid: "valid_work limits" and r: "begin_pass limits i s = (r, s')"
  shows "table_ok limits s'"
proof (cases rule: begin_pass_cases [OF r])
  case (3 job)
  have old: "job_ok limits i job" using ok 3 by (simp add: table_ok_def)
  have new: "job_ok limits i (push_event (sse_replay_events limits) (job\<lparr>sj_status := JobRunning\<rparr>))"
    by (rule job_ok_push [OF valid old]) (use old in \<open>auto simp: job_ok_def\<close>)
  have "0 < js_queued s" using count_status_pos [OF 3(2)] 3(3) ok by (simp add: table_ok_def)
  moreover have "js_running s + 1 \<le> u64_max" using 3 valid_work_simps [OF valid] by simp
  ultimately show ?thesis
    by (intro table_ok_update [OF ok 3(2) new]) (use ok 3 in \<open>auto simp: table_ok_def sat_add_def\<close>)
qed (use ok in simp_all)

lemma table_ok_observe:
  assumes ok: "table_ok limits s" and valid: "valid_work limits"
  shows "table_ok limits (observe limits i event s)"
proof (cases "btm_get (js_jobs s) i")
  case None
  then show ?thesis using ok by (simp add: observe_def)
next
  case (Some job)
  then have old: "job_ok limits i job" using ok by (simp add: table_ok_def)
  have new: "job_ok limits i (push_event (sse_replay_events limits) (job\<lparr>sj_progress := progress\<rparr>))" for progress
    by (rule job_ok_push [OF valid old]) (use old in \<open>auto simp: job_ok_def\<close>)
  show ?thesis
    by (rule table_ok_update [OF ok Some new]) (use ok Some in \<open>auto simp: table_ok_def observe_def\<close>)
qed

lemma settle_job_fields [simp]:
  "sj_id (settle_job outcome receipt job) = sj_id job" "sj_kind (settle_job outcome receipt job) = sj_kind job"
  "sj_owner (settle_job outcome receipt job) = sj_owner job"
  "sj_events (settle_job outcome receipt job) = sj_events job"
  "sj_next_event_sequence (settle_job outcome receipt job) = sj_next_event_sequence job"
  "sj_cancellation (settle_job outcome receipt job) = sj_cancellation job"
  "sj_cancellation_requested (settle_job outcome receipt job) = sj_cancellation_requested job"
  "terminal (sj_status (settle_job outcome receipt job))"
  by (auto simp: settle_job_def terminal_def split: WorkerOutcome.splits)

lemma finish_eq:
  assumes "btm_get (js_jobs s) i = Some job"
  obtains receipt outcome' failed where
    "finish limits i outcome history_result s =
       s\<lparr>js_active_checkpoints :=
           (case apply_reference (sj_kind job) of Some reference \<Rightarrow> bts_remove reference (js_active_checkpoints s)
            | None \<Rightarrow> js_active_checkpoints s),
         js_apply_capabilities := btm_remove i (js_apply_capabilities s), js_worker_failed := failed,
         js_running := js_running s - 1,
         js_jobs := btm_insert i (push_event (sse_replay_events limits) (settle_job outcome' receipt job)) (js_jobs s),
         js_threads := notify_all (js_threads s)\<rparr>"
  using assms by (simp add: finish_def Let_def)

lemma terminal_simps [simp]: "\<not> terminal JobQueued" "\<not> terminal JobRunning" "terminal JobCompleted" "terminal JobFailed" "terminal JobCancelled"
  by (simp_all add: terminal_def)

lemma table_ok_finish:
  assumes ok: "table_ok limits s" and valid: "valid_work limits"
    and job: "btm_get (js_jobs s) i = Some job" "sj_status job = JobRunning"
  shows "table_ok limits (finish limits i outcome history_result s)"
proof -
  have old: "job_ok limits i job" using ok job by (simp add: table_ok_def)
  have new: "job_ok limits i (push_event (sse_replay_events limits) (settle_job outcome' receipt job))" for outcome' receipt
    by (rule job_ok_push [OF valid old]) (use old settle_job_fields(8) [of outcome' receipt job] in \<open>auto simp: job_ok_def\<close>)
  have pos: "0 < js_running s" using count_status_pos [OF job(1)] job(2) ok by (simp add: table_ok_def)
  have st: "sj_status (settle_job outcome' receipt job) \<notin> {JobQueued, JobRunning}" for outcome' receipt
    using settle_job_fields(8) [of outcome' receipt job] by (auto simp del: settle_job_fields)
  obtain receipt outcome' failed where f: "finish limits i outcome history_result s =
      s\<lparr>js_active_checkpoints :=
           (case apply_reference (sj_kind job) of Some reference \<Rightarrow> bts_remove reference (js_active_checkpoints s)
            | None \<Rightarrow> js_active_checkpoints s),
         js_apply_capabilities := btm_remove i (js_apply_capabilities s), js_worker_failed := failed,
         js_running := js_running s - 1,
         js_jobs := btm_insert i (push_event (sse_replay_events limits) (settle_job outcome' receipt job)) (js_jobs s),
         js_threads := notify_all (js_threads s)\<rparr>"
    by (rule finish_eq [OF job(1)])
  show ?thesis
    by (rule table_ok_update [OF ok job(1) new])
      (use ok job pos st [of outcome' receipt] in \<open>auto simp: f table_ok_def\<close>)
qed

section \<open>Threads, the head of the queue, and applications\<close>

text \<open>What the remaining parts of the invariant read of the job table: the status of a job, and the
  plan that a job which has not ended is applying.\<close>

definition status :: "JobsState \<Rightarrow> string \<Rightarrow> JobStatus option" where
  "status s i = map_option sj_status (btm_get (js_jobs s) i)"

definition applying :: "JobsState \<Rightarrow> string \<Rightarrow> ArtifactRef option" where
  "applying s i =
     (case btm_get (js_jobs s) i of
        Some job \<Rightarrow> if terminal (sj_status job) then None else apply_reference (sj_kind job)
      | None \<Rightarrow> None)"

definition active :: "JobsState \<Rightarrow> nat \<Rightarrow> string \<Rightarrow> bool" where
  "active s t i \<longleftrightarrow> in_phase Began s t i \<or> in_phase Executing s t i"

definition waiting :: "JobsState \<Rightarrow> nat \<Rightarrow> string \<Rightarrow> bool" where
  "waiting s t i \<longleftrightarrow> in_phase Checking s t i \<or> in_phase Asleep s t i"

definition threads_ok :: "JobsState \<Rightarrow> bool" where
  "threads_ok s \<longleftrightarrow>
     (\<forall>t i. active s t i \<longrightarrow> status s i = Some JobRunning)
     \<and> (\<forall>t u i. active s t i \<longrightarrow> active s u i \<longrightarrow> t = u)
     \<and> (\<forall>i. status s i = Some JobRunning \<longrightarrow> (\<exists>t. active s t i \<or> in_phase Panicked s t i))
     \<and> (\<forall>i. status s i = Some JobQueued \<longrightarrow> (\<exists>t. waiting s t i))"

definition head_ok :: "JobsState \<Rightarrow> bool" where
  "head_ok s \<longleftrightarrow>
     (\<forall>i. find (\<lambda>i. status s i = Some JobQueued) (js_order s) = Some i \<longrightarrow>
        0 < js_running s \<or> (\<exists>t. in_phase Checking s t i))"

definition plan_of :: "ApplyCapability \<Rightarrow> ArtifactRef" where
  "plan_of capability = db_plan_reference (gb_dry_run (ac_binding capability))"

definition applies_ok :: "JobsState \<Rightarrow> bool" where
  "applies_ok s \<longleftrightarrow>
     (\<forall>i j r. applying s i = Some r \<longrightarrow> applying s j = Some r \<longrightarrow> i = j)
     \<and> (\<forall>i r. applying s i = Some r \<longrightarrow> r \<in> set (js_active_checkpoints s))
     \<and> (\<not> js_shutting_down s \<longrightarrow> (\<forall>r \<in> set (js_active_checkpoints s). \<exists>i. applying s i = Some r))
     \<and> (\<forall>i r. applying s i = Some r \<longrightarrow> status s i = Some JobQueued \<or> (\<exists>t. in_phase Began s t i) \<longrightarrow>
          (\<exists>capability. btm_get (js_apply_capabilities s) i = Some capability \<and> plan_of capability = r))
     \<and> (\<not> js_shutting_down s \<longrightarrow> (\<forall>i. btm_get (js_apply_capabilities s) i \<noteq> None \<longrightarrow> applying s i \<noteq> None))"

text \<open>How the operations change these views.\<close>

lemma in_phase_inj: "in_phase p s t i \<Longrightarrow> in_phase q s t j \<Longrightarrow> p = q \<and> i = j"
  by (auto simp: in_phase_def)

lemma in_phase_frame: "js_threads s' = js_threads s \<Longrightarrow> in_phase p s' = in_phase p s"
  by (simp add: in_phase_def fun_eq_iff)

lemma in_phase_notify:
  "js_threads s' = notify_all (js_threads s) \<Longrightarrow>
     in_phase p s' t i \<longleftrightarrow> p \<noteq> Asleep \<and> (in_phase p s t i \<or> p = Checking \<and> in_phase Asleep s t i)"
  by (cases "js_threads s ! t") (auto simp: in_phase_def notify_all_def split: if_splits)

lemma in_phase_set:
  "in_phase q s t j \<Longrightarrow> in_phase p (set_phase t p' s) u i \<longleftrightarrow> (if u = t then i = j \<and> p = p' else in_phase p s u i)"
  by (auto simp: in_phase_def set_phase_def)

lemma in_phase_spawn:
  "in_phase p (spawn i s) t j \<longleftrightarrow> in_phase p s t j \<or> t = length (js_threads s) \<and> j = i \<and> p = Checking"
  by (auto simp: in_phase_def spawn_def nth_append)

lemma set_phase_fields [simp]:
  "js_jobs (set_phase t p s) = js_jobs s" "js_order (set_phase t p s) = js_order s" "js_running (set_phase t p s) = js_running s"
  "js_queued (set_phase t p s) = js_queued s" "js_shutting_down (set_phase t p s) = js_shutting_down s"
  "js_apply_capabilities (set_phase t p s) = js_apply_capabilities s"
  "js_active_checkpoints (set_phase t p s) = js_active_checkpoints s"
  "js_leases (set_phase t p s) = js_leases s" "js_subscribers (set_phase t p s) = js_subscribers s"
  "js_subscribers_by_owner (set_phase t p s) = js_subscribers_by_owner s"
  by (simp_all add: set_phase_def)

lemma spawn_fields [simp]:
  "js_jobs (spawn i s) = js_jobs s" "js_order (spawn i s) = js_order s" "js_running (spawn i s) = js_running s"
  "js_queued (spawn i s) = js_queued s" "js_shutting_down (spawn i s) = js_shutting_down s"
  "js_apply_capabilities (spawn i s) = js_apply_capabilities s"
  "js_active_checkpoints (spawn i s) = js_active_checkpoints s"
  "js_leases (spawn i s) = js_leases s" "js_subscribers (spawn i s) = js_subscribers s"
  "js_subscribers_by_owner (spawn i s) = js_subscribers_by_owner s"
  by (simp_all add: spawn_def)

lemma views_frame: "js_jobs s' = js_jobs s \<Longrightarrow> status s' = status s" "js_jobs s' = js_jobs s \<Longrightarrow> applying s' = applying s"
  by (simp_all add: status_def applying_def fun_eq_iff)

lemma views_insert:
  "js_jobs s' = btm_insert i job (js_jobs s) \<Longrightarrow> status s' = (status s)(i \<mapsto> sj_status job)"
  "js_jobs s' = btm_insert i job (js_jobs s) \<Longrightarrow>
     applying s' = (applying s)(i := if terminal (sj_status job) then None else apply_reference (sj_kind job))"
  by (auto simp: status_def applying_def fun_eq_iff)

lemma drop_job_fields [simp]:
  "js_order (drop_job i s) = remove1 i (js_order s)" "js_running (drop_job i s) = js_running s"
  "js_threads (drop_job i s) = js_threads s" "js_shutting_down (drop_job i s) = js_shutting_down s"
  "js_apply_capabilities (drop_job i s) = js_apply_capabilities s"
  "js_active_checkpoints (drop_job i s) = js_active_checkpoints s"
  "js_leases (drop_job i s) = js_leases s" "js_subscribers (drop_job i s) = js_subscribers s"
  "js_subscribers_by_owner (drop_job i s) = js_subscribers_by_owner s"
  by (simp_all add: drop_job_def)

lemma views_drop:
  "status (drop_job i s) = (status s)(i := None)" "applying (drop_job i s) = (applying s)(i := None)"
  by (auto simp: status_def applying_def fun_eq_iff drop_job_def)

lemma threads_ok_frame:
  "threads_ok s \<Longrightarrow> js_jobs s' = js_jobs s \<Longrightarrow> js_threads s' = js_threads s \<Longrightarrow> threads_ok s'"
  using views_frame [of s' s] in_phase_frame [of s' s] by (simp add: threads_ok_def active_def waiting_def)

lemma head_ok_frame:
  "head_ok s \<Longrightarrow> js_jobs s' = js_jobs s \<Longrightarrow> js_threads s' = js_threads s \<Longrightarrow> js_order s' = js_order s \<Longrightarrow>
     js_running s' = js_running s \<Longrightarrow> head_ok s'"
  using views_frame [of s' s] in_phase_frame [of s' s] by (simp add: head_ok_def)

lemma applies_ok_frame:
  "applies_ok s \<Longrightarrow> js_jobs s' = js_jobs s \<Longrightarrow> js_threads s' = js_threads s \<Longrightarrow> js_shutting_down s' = js_shutting_down s \<Longrightarrow>
     js_apply_capabilities s' = js_apply_capabilities s \<Longrightarrow> js_active_checkpoints s' = js_active_checkpoints s \<Longrightarrow> applies_ok s'"
  using views_frame [of s' s] in_phase_frame [of s' s] by (simp add: applies_ok_def)

lemma threads_ok_drop:
  assumes "threads_ok s" "has_status terminal s i"
  shows "threads_ok (drop_job i s)"
proof -
  have "status s i \<noteq> Some JobRunning" using assms(2) by (auto simp: has_status_iff status_def)
  moreover have "in_phase p (drop_job i s) = in_phase p s" for p by (rule in_phase_frame) (simp add: drop_job_def)
  ultimately show ?thesis
    using assms(1) by (auto simp: threads_ok_def views_drop active_def waiting_def)
qed

lemma threads_ok_made_room: "threads_ok s \<Longrightarrow> threads_ok (made_room limits s)"
  unfolding made_room_def
  by (rule evict_terminal_keeps [where P = threads_ok, OF threads_ok_drop])
    (use reap_workers_eq [of s] in \<open>auto elim: threads_ok_frame\<close>)

lemma threads_ok_spawn:
  assumes "threads_ok s" "status s i = None" "js_jobs s' = btm_insert i job (js_jobs s)" "sj_status job = JobQueued"
    "js_threads s' = js_threads s"
  shows "threads_ok (spawn i s')"
proof -
  have "status (spawn i s') = (status s)(i \<mapsto> JobQueued)" using views_insert(1) [of "spawn i s'" i job s] assms by simp
  moreover have "in_phase p (spawn i s') t j \<longleftrightarrow> in_phase p s t j \<or> t = length (js_threads s) \<and> j = i \<and> p = Checking" for p t j
    using assms in_phase_frame [of s' s] by (simp add: in_phase_spawn)
  ultimately show ?thesis
    using assms(1,2) unfolding threads_ok_def active_def waiting_def by auto
qed

text \<open>The record of a job changes and every sleeping worker is woken.\<close>

lemma threads_ok_notify:
  assumes "threads_ok s" "js_threads s' = notify_all (js_threads s)"
    and "\<And>j. status s' j = status s j \<or> status s' j \<noteq> Some JobRunning \<and> status s' j \<noteq> Some JobQueued \<and> status s j \<noteq> Some JobRunning"
  shows "threads_ok s'"
proof -
  have a: "active s' t j \<longleftrightarrow> active s t j" "in_phase Panicked s' t j \<longleftrightarrow> in_phase Panicked s t j" "waiting s t j \<Longrightarrow> waiting s' t j" for t j
    using in_phase_notify [OF assms(2)] by (auto simp: active_def waiting_def)
  show ?thesis
    using assms(1,3) a unfolding threads_ok_def by metis
qed

text \<open>One thread moves from phase \<open>q\<close> to phase \<open>p\<close> while the status of its job becomes \<open>v\<close>.\<close>

lemma threads_ok_move:
  assumes ok: "threads_ok s" and t: "in_phase q s t i" and s': "js_threads s' = js_threads s" "status s' = (status s)(i := v)"
    and starts: "p \<in> {Began, Executing} \<Longrightarrow> v = Some JobRunning \<and> (q \<in> {Began, Executing} \<or> status s i \<noteq> Some JobRunning)"
    and ends: "v = Some JobRunning \<Longrightarrow> p \<in> {Began, Executing, Panicked} \<or> status s i = Some JobRunning \<and> q \<in> {Checking, Asleep, Returned}"
    and settles: "v \<noteq> Some JobRunning \<Longrightarrow> q \<in> {Began, Executing} \<or> status s i \<noteq> Some JobRunning"
    and waits: "v = Some JobQueued \<Longrightarrow> status s i = Some JobQueued \<and> p \<in> {Checking, Asleep}"
  shows "threads_ok (set_phase t p s')"
proof -
  let ?s = "set_phase t p s'"
  have phase: "in_phase x ?s u j \<longleftrightarrow> (if u = t then j = i \<and> x = p else in_phase x s u j)" for x u j
    using in_phase_set [of q s' t i] in_phase_frame [OF s'(1)] t by simp
  have st: "status ?s = (status s)(i := v)" using s'(2) views_frame(1) [of ?s s'] by simp
  have mine: "in_phase x s t j \<longleftrightarrow> x = q \<and> j = i" for x j using t in_phase_inj by blast
  note defs = active_def waiting_def
  have t1: "active s u j \<Longrightarrow> status s j = Some JobRunning" and t2: "active s u j \<Longrightarrow> active s w j \<Longrightarrow> u = w"
    and t3: "status s j = Some JobRunning \<Longrightarrow> \<exists>u. active s u j \<or> in_phase Panicked s u j"
    and t4: "status s j = Some JobQueued \<Longrightarrow> \<exists>u. waiting s u j" for u w j
    using ok by (auto simp: threads_ok_def)
  have other: "u = t" if "active s u i" "q \<in> {Began, Executing}" for u
    using that t2 [of u i t] mine by (auto simp: defs)
  have "status ?s j = Some JobRunning" if "active ?s u j" for u j
  proof (cases "u = t")
    case True
    then show ?thesis using that starts by (auto simp: defs phase st)
  next
    case False
    then have "active s u j" using that by (simp add: defs phase)
    with False show ?thesis using t1 settles other [of u] by (auto simp: st)
  qed
  moreover have "u = w" if "active ?s u j" "active ?s w j" for u w j
  proof (rule ccontr)
    assume neq: "u \<noteq> w"
    have alone: False if "active ?s t j" "active ?s x j" "x \<noteq> t" for x
      using that t1 [of x i] starts other [of x] by (auto simp: defs phase)
    show False
      using alone that neq t2 [of u j w] by (cases "u = t"; cases "w = t") (auto simp: defs phase)
  qed
  moreover have "\<exists>u. active ?s u j \<or> in_phase Panicked ?s u j" if "status ?s j = Some JobRunning" for j
  proof (cases "j = i \<and> p \<in> {Began, Executing, Panicked}")
    case True
    then show ?thesis by (auto simp: defs phase)
  next
    case False
    then have "status s j = Some JobRunning" and away: "j = i \<Longrightarrow> q \<in> {Checking, Asleep, Returned}"
      using that ends by (auto simp: st split: if_splits)
    then obtain u where u: "active s u j \<or> in_phase Panicked s u j" using t3 by blast
    then have "u \<noteq> t" using away by (auto simp: defs mine)
    then show ?thesis using u by (auto simp: defs phase)
  qed
  moreover have "\<exists>u. waiting ?s u j" if queued: "status ?s j = Some JobQueued" for j
  proof (cases "j = i")
    case True
    then show ?thesis using queued waits by (auto simp: st defs phase)
  next
    case False
    then obtain u where u: "waiting s u j" using queued t4 [of j] by (auto simp: st)
    then have "u \<noteq> t" using False by (auto simp: defs mine)
    then show ?thesis using u by (auto simp: defs phase)
  qed
  ultimately show ?thesis by (auto simp: threads_ok_def)
qed

lemma threads_ok_begin:
  assumes ok: "threads_ok s" and t: "in_phase Checking s t i" and r: "begin_pass limits i s = (r, s')"
    and stop: "js_shutting_down s \<Longrightarrow> \<not> has_status ((=) JobQueued) s i"
  shows "threads_ok (set_phase t (begin_phase r) s')"
proof (cases rule: begin_pass_cases [OF r])
  case 1
  then have "status s i \<noteq> Some JobQueued" using stop by (auto simp: has_status_iff status_def)
  with 1 show ?thesis by (intro threads_ok_move [OF ok t, of _ "status s i"]) auto
next
  case 2
  then have "status s i = Some JobQueued" by (auto simp: has_status_iff status_def)
  with 2 show ?thesis by (intro threads_ok_move [OF ok t, of _ "status s i"]) auto
next
  case (3 job)
  then show ?thesis
    by (intro threads_ok_move [OF ok t, of _ "Some JobRunning"]) (simp_all add: views_insert(1) [of _ i _ s] status_def [of s i])
qed

lemma queued_status: "has_status ((=) JobQueued) s = (\<lambda>i. status s i = Some JobQueued)"
  by (auto simp: has_status_iff status_def fun_eq_iff)

lemma find_remove1: "\<not> P x \<Longrightarrow> find P (remove1 x xs) = find P xs"
  by (induction xs) auto

lemma find_cong_on: "(\<And>x. x \<in> set xs \<Longrightarrow> P x \<longleftrightarrow> Q x) \<Longrightarrow> find P xs = find Q xs"
  by (induction xs) auto

lemma find_snoc: "find P (xs @ [x]) = (case find P xs of None \<Rightarrow> if P x then Some x else None | Some y \<Rightarrow> Some y)"
  by (induction xs) auto

lemma head_ok_drop:
  assumes "head_ok s" "has_status terminal s i"
  shows "head_ok (drop_job i s)"
proof -
  have st: "status s i \<noteq> Some JobQueued" using assms(2) by (auto simp: has_status_iff status_def)
  have "find (\<lambda>j. status (drop_job i s) j = Some JobQueued) (js_order (drop_job i s)) =
      find (\<lambda>j. status s j = Some JobQueued) (remove1 i (js_order s))"
    using st by (auto simp: views_drop intro!: find_cong_on)
  also have "\<dots> = find (\<lambda>j. status s j = Some JobQueued) (js_order s)" using st by (simp add: find_remove1)
  finally show ?thesis
    using assms(1) in_phase_frame [of "drop_job i s" s] by (simp add: head_ok_def)
qed

lemma head_ok_made_room: "head_ok s \<Longrightarrow> head_ok (made_room limits s)"
  unfolding made_room_def
  by (rule evict_terminal_keeps [where P = head_ok, OF head_ok_drop])
    (use reap_workers_eq [of s] in \<open>auto elim: head_ok_frame\<close>)

lemma head_ok_spawn:
  assumes ok: "head_ok s" and i: "i \<notin> set (js_order s)" and s': "js_jobs s' = btm_insert i job (js_jobs s)"
    "js_threads s' = js_threads s" "js_order s' = js_order s @ [i]" "js_running s' = js_running s"
  shows "head_ok (spawn i s')"
proof -
  have st: "status (spawn i s') = (status s)(i \<mapsto> sj_status job)" using views_insert(1) [of "spawn i s'" i job s] s' by simp
  have "find (\<lambda>j. status (spawn i s') j = Some JobQueued) (js_order s) = find (\<lambda>j. status s j = Some JobQueued) (js_order s)"
    using i by (intro find_cong_on) (auto simp: st)
  then show ?thesis
    using ok s' by (auto simp: head_ok_def find_snoc in_phase_spawn in_phase_frame [OF s'(2)] split: option.splits)
qed

lemma head_ok_awake: "threads_ok s \<Longrightarrow> (\<And>t i. \<not> in_phase Asleep s t i) \<Longrightarrow> head_ok s"
  by (force simp: head_ok_def threads_ok_def waiting_def dest: find_found)

text \<open>A thread that does not serve the head of the queue, or was not about to look at it, may do anything.\<close>

lemma head_ok_move:
  assumes ok: "head_ok s" and t: "in_phase q s t i" and s': "js_threads s' = js_threads s" "status s' = status s"
    "js_order s' = js_order s" "js_running s' = js_running s"
    and away: "q \<noteq> Checking \<or> find (\<lambda>i. status s i = Some JobQueued) (js_order s) \<noteq> Some i \<or> 0 < js_running s"
  shows "head_ok (set_phase t p s')"
proof -
  have "in_phase Checking (set_phase t p s') u j" if "in_phase Checking s u j" "u \<noteq> t" for u j
    using that in_phase_set [of q s' t i] in_phase_frame [OF s'(1)] t by simp
  moreover have "status (set_phase t p s') = status s" using s'(2) views_frame(1) [of "set_phase t p s'" s'] by simp
  ultimately show ?thesis
    using ok s' away in_phase_inj [OF t] unfolding head_ok_def by (simp, metis)
qed

lemma head_ok_begin:
  assumes ok: "head_ok s" and t: "in_phase Checking s t i" and r: "begin_pass limits i s = (r, s')"
    and stop: "js_shutting_down s \<Longrightarrow> \<not> has_status ((=) JobQueued) s i" and valid: "valid_work limits"
  shows "head_ok (set_phase t (begin_phase r) s')"
proof (cases rule: begin_pass_cases [OF r])
  case 1
  then have "\<not> has_status ((=) JobQueued) s i" using stop by blast
  then have "find (\<lambda>i. status s i = Some JobQueued) (js_order s) \<noteq> Some i"
    using find_found [of "\<lambda>i. status s i = Some JobQueued" "js_order s" i] by (auto simp: queued_status)
  with 1 show ?thesis by (intro head_ok_move [OF ok t]) auto
next
  case 2
  then show ?thesis using valid_work_simps(1) [OF valid] by (intro head_ok_move [OF ok t]) (auto simp: queued_status)
next
  case (3 job)
  then show ?thesis by (simp add: head_ok_def sat_add_def u64_max_val)
qed

lemma applies_okI:
  assumes "\<And>i j r. applying s i = Some r \<Longrightarrow> applying s j = Some r \<Longrightarrow> i = j"
    and "\<And>i r. applying s i = Some r \<Longrightarrow> r \<in> set (js_active_checkpoints s)"
    and "\<And>r. \<not> js_shutting_down s \<Longrightarrow> r \<in> set (js_active_checkpoints s) \<Longrightarrow> \<exists>i. applying s i = Some r"
    and "\<And>i r. applying s i = Some r \<Longrightarrow> status s i = Some JobQueued \<or> (\<exists>t. in_phase Began s t i) \<Longrightarrow>
      \<exists>capability. btm_get (js_apply_capabilities s) i = Some capability \<and> plan_of capability = r"
    and "\<And>i. \<not> js_shutting_down s \<Longrightarrow> btm_get (js_apply_capabilities s) i \<noteq> None \<Longrightarrow> applying s i \<noteq> None"
  shows "applies_ok s"
  unfolding applies_ok_def using assms by blast

lemma applies_okD:
  assumes "applies_ok s"
  shows "applying s i = Some r \<Longrightarrow> applying s j = Some r \<Longrightarrow> i = j"
    and "applying s i = Some r \<Longrightarrow> r \<in> set (js_active_checkpoints s)"
    and "\<not> js_shutting_down s \<Longrightarrow> r \<in> set (js_active_checkpoints s) \<Longrightarrow> \<exists>i. applying s i = Some r"
    and "applying s i = Some r \<Longrightarrow> status s i = Some JobQueued \<or> (\<exists>t. in_phase Began s t i) \<Longrightarrow>
      \<exists>capability. btm_get (js_apply_capabilities s) i = Some capability \<and> plan_of capability = r"
    and "\<not> js_shutting_down s \<Longrightarrow> btm_get (js_apply_capabilities s) i \<noteq> None \<Longrightarrow> applying s i \<noteq> None"
  using assms unfolding applies_ok_def by blast+

lemma applies_ok_drop:
  assumes "applies_ok s" "has_status terminal s i"
  shows "applies_ok (drop_job i s)"
proof -
  have "applying s i = None" using assms(2) by (auto simp: has_status_iff applying_def)
  then have "applying (drop_job i s) = applying s" by (auto simp: views_drop)
  moreover have "status (drop_job i s) j = Some JobQueued \<Longrightarrow> status s j = Some JobQueued" for j
    by (simp add: views_drop split: if_splits)
  ultimately show ?thesis
    using assms(1) in_phase_frame [of "drop_job i s" s] unfolding applies_ok_def by auto
qed

lemma applies_ok_made_room: "applies_ok s \<Longrightarrow> applies_ok (made_room limits s)"
  unfolding made_room_def
  by (rule evict_terminal_keeps [where P = applies_ok, OF applies_ok_drop])
    (use reap_workers_eq [of s] in \<open>auto elim: applies_ok_frame\<close>)

text \<open>Steps that neither start nor end an application: the capabilities stay with those who may
  still need them.\<close>

lemma applies_ok_steady:
  assumes ok: "applies_ok s" and "applying s' = applying s" "js_active_checkpoints s' = js_active_checkpoints s"
    "js_shutting_down s' = js_shutting_down s"
    and needs: "\<And>j. applying s j \<noteq> None \<Longrightarrow> status s' j = Some JobQueued \<or> (\<exists>t. in_phase Began s' t j) \<Longrightarrow>
       (status s j = Some JobQueued \<or> (\<exists>t. in_phase Began s t j))
       \<and> btm_get (js_apply_capabilities s') j = btm_get (js_apply_capabilities s) j"
    and caps: "\<And>j. btm_get (js_apply_capabilities s') j \<noteq> None \<Longrightarrow> btm_get (js_apply_capabilities s) j \<noteq> None"
  shows "applies_ok s'"
proof (rule applies_okI)
  show "\<exists>capability. btm_get (js_apply_capabilities s') j = Some capability \<and> plan_of capability = r"
    if "applying s' j = Some r" "status s' j = Some JobQueued \<or> (\<exists>t. in_phase Began s' t j)" for j r
    using needs [of j] applies_okD(4) [OF ok, of j r] that assms(2) by simp
qed (use applies_okD(1-3,5) [OF ok] assms(2-4) caps in \<open>auto simp del: not_None_eq\<close>)

lemma applies_ok_start:
  assumes ok: "applies_ok s" and "applying s i = None" "r \<notin> set (js_active_checkpoints s)" "plan_of capability = r"
    and "applying s' = (applying s)(i \<mapsto> r)" "status s' = (status s)(i \<mapsto> JobQueued)" "in_phase Began s' = in_phase Began s"
    and "js_active_checkpoints s' = bts_insert r (js_active_checkpoints s)" "js_shutting_down s' = js_shutting_down s"
    and "js_apply_capabilities s' = btm_insert i capability (js_apply_capabilities s)"
  shows "applies_ok s'"
proof (rule applies_okI)
  show "\<exists>k. applying s' k = Some x" if x: "\<not> js_shutting_down s'" "x \<in> set (js_active_checkpoints s')" for x
  proof (cases "x = r")
    case False
    then obtain k where "applying s k = Some x" using x assms(8,9) applies_okD(3) [OF ok, of x] by auto
    then show ?thesis using assms(2,5) by (auto intro!: exI [of _ k])
  qed (use assms(5) in auto)
  show "j = k" if "applying s' j = Some x" "applying s' k = Some x" for j k x
    using that assms(3,5) applies_okD(1,2) [OF ok] by (auto split: if_splits)
  show "\<exists>capability. btm_get (js_apply_capabilities s') j = Some capability \<and> plan_of capability = x"
    if "applying s' j = Some x" "status s' j = Some JobQueued \<or> (\<exists>t. in_phase Began s' t j)" for j x
    using that assms(4-7,10) applies_okD(4) [OF ok, of j x] by (auto split: if_splits)
qed (use assms(5,8,9,10) applies_okD(2,5) [OF ok] in \<open>auto split: if_splits simp del: not_None_eq\<close>)

lemma applies_ok_end:
  assumes ok: "applies_ok s" and job: "applying s i = apply_reference kind"
    and "applying s' = (applying s)(i := None)" "\<And>j. j \<noteq> i \<Longrightarrow> status s' j = status s j"
    and "\<And>t j. in_phase Began s' t j \<Longrightarrow> in_phase Began s t j" "js_shutting_down s' = js_shutting_down s"
    and "js_active_checkpoints s' = (case apply_reference kind of
        Some r \<Rightarrow> bts_remove r (js_active_checkpoints s) | None \<Rightarrow> js_active_checkpoints s)"
    and "js_apply_capabilities s' = btm_remove i (js_apply_capabilities s)"
  shows "applies_ok s'"
proof -
  have set: "set (js_active_checkpoints s') = {r \<in> set (js_active_checkpoints s). applying s i \<noteq> Some r}"
    using assms(7) job by (auto split: option.splits)
  show ?thesis
  proof (rule applies_okI)
    show "\<exists>capability. btm_get (js_apply_capabilities s') j = Some capability \<and> plan_of capability = r"
      if "applying s' j = Some r" "status s' j = Some JobQueued \<or> (\<exists>t. in_phase Began s' t j)" for j r
    proof -
      have "j \<noteq> i" "applying s j = Some r" using that assms(3) by (auto split: if_splits)
      moreover from this have "status s j = Some JobQueued \<or> (\<exists>t. in_phase Began s t j)" using that assms(4,5) by auto
      ultimately show ?thesis using applies_okD(4) [OF ok, of j r] assms(8) by simp
    qed
    show "j = k" if "applying s' j = Some r" "applying s' k = Some r" for j k r
      using that assms(3) applies_okD(1) [OF ok] by (simp split: if_splits)
    show "r \<in> set (js_active_checkpoints s')" if "applying s' j = Some r" for j r
      using that assms(3) set applies_okD(1,2) [OF ok] by (auto split: if_splits)
    show "\<exists>j. applying s' j = Some r" if "\<not> js_shutting_down s'" "r \<in> set (js_active_checkpoints s')" for r
      using that assms(3,6) set applies_okD(3) [OF ok, of r] by auto
    show "applying s' j \<noteq> None" if "\<not> js_shutting_down s'" "btm_get (js_apply_capabilities s') j \<noteq> None" for j
      using that assms(3,6,8) applies_okD(5) [OF ok, of j] by (auto split: if_splits)
  qed
qed

section \<open>Subscriptions\<close>

definition leases_ok :: "WebLimits \<Rightarrow> JobsState \<Rightarrow> bool" where
  "leases_ok limits s \<longleftrightarrow>
     js_subscribers s = length (js_leases s) \<and> js_subscribers s \<le> sse_subscribers_per_process limits
     \<and> (\<forall>owner. unwrap_or (btm_get (js_subscribers_by_owner s) owner) 0 = count_list (js_leases s) owner
          \<and> count_list (js_leases s) owner \<le> sse_subscribers_per_session limits
          \<and> btm_get (js_subscribers_by_owner s) owner \<noteq> Some 0)"

lemma leases_ok_frame:
  "leases_ok limits s \<Longrightarrow> js_leases s' = js_leases s \<Longrightarrow> js_subscribers s' = js_subscribers s \<Longrightarrow>
     js_subscribers_by_owner s' = js_subscribers_by_owner s \<Longrightarrow> leases_ok limits s'"
  by (simp add: leases_ok_def)

lemma count_list_remove1: "count_list (remove1 x xs) y = count_list xs y - of_bool (x = y)"
  by (induction xs) auto

lemma leases_ok_subscribe:
  assumes ok: "leases_ok limits s" and valid: "valid_work limits"
  shows "leases_ok limits (snd (subscribe limits i owner after s))"
proof -
  have "sse_subscribers_per_process limits < u64_max" "sse_subscribers_per_session limits < u64_max"
    using valid by (auto simp: valid_work_def u64_max_val)
  then show ?thesis
    using ok by (auto simp: subscribe_def leases_ok_def Let_def sat_add_def split: option.splits result.splits)
qed

lemma leases_ok_drop:
  assumes ok: "leases_ok limits s" and "owner \<in> set (js_leases s)"
  shows "leases_ok limits (drop_lease owner s)"
proof -
  have pos: "0 < count_list (js_leases s) owner" using assms(2) by (simp add: count_list_0_iff neq0_conv [symmetric])
  then obtain n where n: "btm_get (js_subscribers_by_owner s) owner = Some n" "n = count_list (js_leases s) owner"
    using ok unfolding leases_ok_def by (cases "btm_get (js_subscribers_by_owner s) owner") (metis less_irrefl unwrap_or.simps)+
  have "length (remove1 owner (js_leases s)) = js_subscribers s - 1"
    using assms by (simp add: leases_ok_def length_remove1)
  then show ?thesis
    using ok n pos by (auto simp: drop_lease_def leases_ok_def Let_def count_list_remove1
        le_diff_conv trans_le_add1 split: option.splits)
qed

section \<open>The invariant of the reachable states\<close>

definition jobs_inv :: "WebLimits \<Rightarrow> JobsState \<Rightarrow> bool" where
  "jobs_inv limits s \<longleftrightarrow> table_ok limits s \<and> threads_ok s \<and> head_ok s \<and> applies_ok s \<and> leases_ok limits s"

lemma jobs_inv_new: "jobs_inv limits JobManager_new"
  by (simp add: jobs_inv_def JobManager_new_def table_ok_def threads_ok_def head_ok_def applies_ok_def leases_ok_def
      count_status_def status_def applying_def active_def in_phase_def)

lemma jobs_inv_frame:
  assumes "jobs_inv limits s" "s' = s\<lparr>js_handles := h, js_worker_failed := f\<rparr>"
  shows "jobs_inv limits s'"
  using assms by (auto simp: jobs_inv_def elim: table_ok_cong threads_ok_frame head_ok_frame applies_ok_frame leases_ok_frame)

lemma jobs_inv_reap: "jobs_inv limits s \<Longrightarrow> jobs_inv limits (reap_workers s)"
  using reap_workers_eq [of s] jobs_inv_frame by blast

lemma jobs_inv_made_room:
  assumes "jobs_inv limits s"
  shows "jobs_inv limits (made_room limits s)"
proof -
  have "leases_ok limits (made_room limits s)"
    unfolding made_room_def
    by (rule evict_terminal_keeps [where P = "leases_ok limits"])
      (use assms reap_workers_eq [of s] in \<open>auto simp: jobs_inv_def elim: leases_ok_frame\<close>)
  then show ?thesis
    using assms by (simp add: jobs_inv_def table_ok_made_room threads_ok_made_room head_ok_made_room applies_ok_made_room)
qed

lemma jobs_inv_admits:
  assumes inv: "jobs_inv limits s" and valid: "valid_work limits" and new: "admits limits s i kind s'"
  shows "table_ok limits s' \<and> threads_ok s' \<and> head_ok s' \<and> leases_ok limits s'"
    "status s' = (status (made_room limits s))(i \<mapsto> JobQueued)"
    "applying s' = (applying (made_room limits s))(i := apply_reference kind)" "applying (made_room limits s) i = None"
    "in_phase Began s' = in_phase Began (made_room limits s)" "js_shutting_down s' = js_shutting_down (made_room limits s)"
    "js_apply_capabilities s' = js_apply_capabilities (made_room limits s)"
    "js_active_checkpoints s' = js_active_checkpoints (made_room limits s)"
proof -
  let ?s = "made_room limits s"
  from new obtain owner source_id label where s': "s' = spawn i (enqueue limits (StoredJob_new i owner source_id label kind) ?s)"
    and free: "\<not> manager_full limits i ?s" "\<not> js_shutting_down ?s" by (auto simp: admits_def)
  define s2 where "s2 = enqueue limits (StoredJob_new i owner source_id label kind) ?s"
  define job where "job = push_event (sse_replay_events limits) (StoredJob_new i owner source_id label kind)"
  have inv1: "jobs_inv limits ?s" using inv by (rule jobs_inv_made_room)
  have none: "btm_get (js_jobs ?s) i = None" using free by (simp add: manager_full_def)
  have s2: "js_jobs s2 = btm_insert i job (js_jobs ?s)" "js_order s2 = js_order ?s @ [i]"
    "sj_status job = JobQueued" "sj_kind job = kind" "js_threads s2 = js_threads ?s"
    by (simp_all add: s2_def enqueue_def job_def StoredJob_new_def)
  have "i \<notin> set (js_order ?s)" using inv1 none by (auto simp: jobs_inv_def table_ok_def)
  then have "head_ok s'"
    using head_ok_spawn [of ?s i s2 job] inv1 s2 s' by (simp add: jobs_inv_def s2_def)
  moreover have "threads_ok s'"
    using threads_ok_spawn [of ?s i s2 job] inv1 s2 s' none by (simp add: jobs_inv_def s2_def status_def)
  moreover have "table_ok limits s'"
    using table_ok_cong [of limits s2 s'] table_ok_enqueue [OF _ valid free] inv1 s' by (simp add: jobs_inv_def s2_def)
  moreover have "leases_ok limits s'" using inv1 s' by (auto simp: jobs_inv_def elim: leases_ok_frame)
  ultimately show "table_ok limits s' \<and> threads_ok s' \<and> head_ok s' \<and> leases_ok limits s'" by simp
  show "status s' = (status ?s)(i \<mapsto> JobQueued)" "applying s' = (applying ?s)(i := apply_reference kind)"
    using views_insert [of s' i job ?s] s2 s' by (simp_all add: s2_def)
  show "applying ?s i = None" using none by (simp add: applying_def)
  show "in_phase Began s' = in_phase Began ?s"
    using s' in_phase_frame [OF s2(5)] by (auto simp: fun_eq_iff in_phase_spawn s2_def)
qed (use new in \<open>auto simp: admits_def\<close>)

lemma jobs_inv_admit_kind:
  assumes inv: "jobs_inv limits s" and valid: "valid_work limits" and kind: "apply_reference kind = None"
  shows "jobs_inv limits (snd (admit_kind limits co owner source_id kind random_id spawned s))" (is "jobs_inv limits ?s'")
proof -
  have table: "table_ok limits s" using inv by (simp add: jobs_inv_def)
  show ?thesis
  proof (cases rule: admit_kind_cases [OF table valid refl, of co owner source_id kind random_id spawned])
    case (3 i)
    note new = jobs_inv_admits [OF inv valid 3]
    have ok: "applies_ok (made_room limits s)" using jobs_inv_made_room [OF inv] by (simp add: jobs_inv_def)
    have "applying ?s' = applying (made_room limits s)" using new(3,4) kind by auto
    moreover from this new have "applies_ok ?s'"
      by (intro applies_ok_steady [OF ok]) (auto split: if_splits)
    ultimately show ?thesis using new(1) by (simp add: jobs_inv_def)
  qed (use inv jobs_inv_made_room [OF inv] in simp_all)
qed

lemma jobs_inv_admit_apply:
  assumes inv: "jobs_inv limits s" and valid: "valid_work limits"
  shows "jobs_inv limits (snd (admit_apply limits co capability random_id spawned s))" (is "jobs_inv limits ?s'")
proof -
  let ?s = "made_room limits s"
  have ok: "applies_ok ?s" using jobs_inv_made_room [OF inv] by (simp add: jobs_inv_def)
  have caps: "btm_get (js_apply_capabilities ?s) i = None" if "\<not> js_shutting_down ?s" "btm_get (js_jobs ?s) i = None" for i
    using applies_okD(5) [OF ok that(1), of i] that(2) by (simp add: applying_def del: not_None_eq) blast
  have table: "table_ok limits s" using inv by (simp add: jobs_inv_def)
  consider "?s' = s" | "?s' = ?s" | i r kind where "admits_apply limits s i capability r kind ?s'"
    by (rule admit_apply_cases [OF table valid caps refl, of co capability random_id spawned])
  then show ?thesis
  proof cases
    case (3 i r kind)
    then obtain s1 where a: "admits limits s i kind s1" "apply_reference kind = Some r" "r = plan_of capability"
      "r \<notin> set (js_active_checkpoints s1)"
      and s1: "?s' = s1\<lparr>js_apply_capabilities := btm_insert i capability (js_apply_capabilities s1),
                  js_active_checkpoints := bts_insert r (js_active_checkpoints s1)\<rparr>"
      unfolding admits_apply_def plan_of_def by blast
    note new = jobs_inv_admits [OF inv valid a(1)]
    have views: "status ?s' = status s1" "applying ?s' = applying s1" "in_phase Began ?s' = in_phase Began s1"
      using s1 views_frame [of ?s' s1] in_phase_frame [of ?s' s1] by simp_all
    have "applies_ok ?s'"
      by (rule applies_ok_start [OF ok new(4), of r capability]) (use a new views s1 in simp_all)
    moreover have "table_ok limits ?s' \<and> threads_ok ?s' \<and> head_ok ?s' \<and> leases_ok limits ?s'"
      using new(1) s1 by (auto elim: table_ok_cong threads_ok_frame head_ok_frame leases_ok_frame)
    ultimately show ?thesis by (simp add: jobs_inv_def)
  qed (use inv jobs_inv_made_room [OF inv] in simp_all)
qed

lemma jobs_inv_cancel:
  assumes inv: "jobs_inv limits s" and valid: "valid_work limits"
  shows "jobs_inv limits (snd (cancel limits i owner s))" (is "jobs_inv limits ?s'")
proof -
  have ok: "table_ok limits s" "threads_ok s" "applies_ok s" "leases_ok limits s" using inv by (simp_all add: jobs_inv_def)
  have table: "table_ok limits ?s'" using ok(1) valid by (rule table_ok_cancel)
  show ?thesis
  proof (cases rule: cancel_cases [OF ok(1) refl, of i owner])
    case (2 job)
    have views: "status ?s' = status s" "applying ?s' = applying s"
      using views_insert [of ?s' i "request_cancellation limits False job" s] 2
      by (auto simp: fun_eq_iff status_def applying_def)
    have phases: "js_threads ?s' = notify_all (js_threads s)" using 2(4) by simp
    have fields: "js_shutting_down ?s' = js_shutting_down s" "js_apply_capabilities ?s' = js_apply_capabilities s"
      "js_active_checkpoints ?s' = js_active_checkpoints s" using 2(4) by simp_all
    have "threads_ok ?s'" using views by (intro threads_ok_notify [OF ok(2) phases]) simp
    moreover from this have "head_ok ?s'" by (rule head_ok_awake) (simp add: in_phase_notify [OF phases])
    moreover have "applies_ok ?s'"
      by (rule applies_ok_steady [OF ok(3)]) (use views fields in \<open>auto simp: in_phase_notify [OF phases]\<close>)
    ultimately show ?thesis using table ok(4) 2(4) by (auto simp: jobs_inv_def elim: leases_ok_frame)
  next
    case (3 job)
    have views: "status ?s' = (status s)(i \<mapsto> JobCancelled)" "applying ?s' = (applying s)(i := None)"
      using views_insert [of ?s' i "request_cancellation limits True job" s] 3 by simp_all
    have phases: "js_threads ?s' = notify_all (js_threads s)" using 3(3) by simp
    have fields: "js_shutting_down ?s' = js_shutting_down s" "js_apply_capabilities ?s' = btm_remove i (js_apply_capabilities s)"
      "js_active_checkpoints ?s' = (case apply_reference (sj_kind job) of
         Some r \<Rightarrow> bts_remove r (js_active_checkpoints s) | None \<Rightarrow> js_active_checkpoints s)" using 3(3) by simp_all
    have st: "status s i = Some JobQueued" "applying s i = apply_reference (sj_kind job)"
      using 3(1,2) by (simp_all add: status_def applying_def)
    have "threads_ok ?s'" using views st by (intro threads_ok_notify [OF ok(2) phases]) auto
    moreover from this have "head_ok ?s'" by (rule head_ok_awake) (simp add: in_phase_notify [OF phases])
    moreover have "applies_ok ?s'"
      by (rule applies_ok_end [OF ok(3) st(2)]) (use views fields in \<open>simp_all add: in_phase_notify [OF phases]\<close>)
    ultimately show ?thesis using table ok(4) 3(3) by (auto simp: jobs_inv_def elim: leases_ok_frame)
  qed (use inv in simp)
qed

lemma shutdown_views:
  assumes "table_ok limits s"
  shows "status (snd (shutdown limits s)) i = (if status s i = Some JobQueued then Some JobCancelled else status s i)"
    "applying (snd (shutdown limits s)) i = (if status s i = Some JobQueued then None else applying s i)"
proof -
  have job: "sj_status job = JobQueued \<Longrightarrow> cancellable job" if "btm_get (js_jobs s) i = Some job" for job
    using assms that by (auto simp: table_ok_def job_ok_def cancellable_def)
  then show "status (snd (shutdown limits s)) i = (if status s i = Some JobQueued then Some JobCancelled else status s i)"
    by (cases "btm_get (js_jobs s) i") (auto simp: shutdown_def Let_def status_def)
  show "applying (snd (shutdown limits s)) i = (if status s i = Some JobQueued then None else applying s i)"
    using job by (cases "btm_get (js_jobs s) i") (auto simp: shutdown_def Let_def status_def applying_def)
qed

lemma jobs_inv_shutdown:
  assumes inv: "jobs_inv limits s" and valid: "valid_work limits"
  shows "jobs_inv limits (snd (shutdown limits s))" (is "jobs_inv limits ?s'")
proof -
  have ok: "table_ok limits s" "threads_ok s" "applies_ok s" "leases_ok limits s" using inv by (simp_all add: jobs_inv_def)
  note views = shutdown_views [OF ok(1)]
  have phases: "js_threads ?s' = notify_all (js_threads s)" by (simp add: shutdown_def Let_def)
  have fields: "js_shutting_down ?s'" "js_apply_capabilities ?s' = js_apply_capabilities s"
    "js_active_checkpoints ?s' = js_active_checkpoints s" by (simp_all add: shutdown_def Let_def)
  have "threads_ok ?s'" by (intro threads_ok_notify [OF ok(2) phases]) (auto simp: views)
  moreover from this have "head_ok ?s'" by (rule head_ok_awake) (simp add: in_phase_notify [OF phases])
  moreover have "applies_ok ?s'"
    by (rule applies_okI)
      (use applies_okD(1,2,4) [OF ok(3)] fields in \<open>auto simp: views in_phase_notify [OF phases] split: if_splits\<close>)
  moreover have "leases_ok limits ?s'" by (rule leases_ok_frame [OF ok(4)]) (simp_all add: shutdown_def Let_def)
  ultimately show ?thesis using table_ok_shutdown [OF ok(1) valid] by (simp add: jobs_inv_def)
qed

lemma jobs_inv_begin:
  assumes inv: "jobs_inv limits s" and valid: "valid_work limits"
    and t: "in_phase Checking s t i" and r: "begin_pass limits i s = (r, s')"
  shows "jobs_inv limits (set_phase t (begin_phase r) s')" (is "jobs_inv limits ?s'")
proof -
  have ok: "table_ok limits s" "threads_ok s" "head_ok s" "applies_ok s" "leases_ok limits s" using inv by (simp_all add: jobs_inv_def)
  have stop: "\<not> has_status ((=) JobQueued) s i" if "js_shutting_down s"
    using ok(1) that by (fastforce simp: table_ok_def has_status_iff)
  have fields: "js_leases s' = js_leases s" "js_subscribers s' = js_subscribers s" "js_threads s' = js_threads s"
    "js_subscribers_by_owner s' = js_subscribers_by_owner s" "js_apply_capabilities s' = js_apply_capabilities s"
    "js_active_checkpoints s' = js_active_checkpoints s" "js_shutting_down s' = js_shutting_down s"
    by (cases rule: begin_pass_cases [OF r]; simp)+
  have phase: "in_phase p ?s' u j \<longleftrightarrow> (if u = t then j = i \<and> p = begin_phase r else in_phase p s u j)" for p u j
    using in_phase_set [of Checking s' t i] in_phase_frame [OF fields(3)] t by simp
  have idle: "applies_ok ?s'" if "js_jobs s' = js_jobs s" "begin_phase r \<noteq> Began"
    by (rule applies_ok_steady [OF ok(4)])
      (use views_frame [of ?s' s] fields that in \<open>auto simp: phase split: if_splits\<close>)
  have "applies_ok ?s'"
  proof (cases rule: begin_pass_cases [OF r])
    case (3 job)
    have views: "status ?s' = (status s)(i \<mapsto> JobRunning)" "applying ?s' = applying s" "status s i = Some JobQueued"
      using views_insert [of ?s' i "push_event (sse_replay_events limits) (job\<lparr>sj_status := JobRunning\<rparr>)" s] 3
      by (auto simp: fun_eq_iff applying_def status_def)
    show ?thesis
      by (rule applies_ok_steady [OF ok(4)]) (use views fields in \<open>auto simp: phase split: if_splits\<close>)
  next
    case 1
    then show ?thesis by (intro idle) simp_all
  next
    case 2
    then show ?thesis by (intro idle) simp_all
  qed
  moreover have "leases_ok limits ?s'" by (rule leases_ok_frame [OF ok(5)]) (use fields in simp_all)
  moreover have "table_ok limits ?s'" by (rule table_ok_cong [OF table_ok_begin [OF ok(1) valid r]]) simp_all
  ultimately show ?thesis
    using threads_ok_begin [OF ok(2) t r stop] head_ok_begin [OF ok(3) t r stop valid] by (simp add: jobs_inv_def)
qed

text \<open>A thread that is not about to look at the queue changes its phase; the job table stays.\<close>

lemma jobs_inv_move:
  assumes inv: "jobs_inv limits s" and t: "in_phase q s t i" and q: "q \<noteq> Checking"
    and s': "js_jobs s' = js_jobs s" "js_order s' = js_order s" "js_running s' = js_running s" "js_queued s' = js_queued s"
      "js_shutting_down s' = js_shutting_down s" "js_threads s' = js_threads s" "js_active_checkpoints s' = js_active_checkpoints s"
      "js_leases s' = js_leases s" "js_subscribers s' = js_subscribers s" "js_subscribers_by_owner s' = js_subscribers_by_owner s"
    and p: "q = Asleep \<and> p = Checking \<or> q \<in> {Began, Executing} \<and> p \<in> {Executing, Panicked}"
    and caps: "\<And>j. j \<noteq> i \<or> q \<noteq> Began \<Longrightarrow> btm_get (js_apply_capabilities s') j = btm_get (js_apply_capabilities s) j"
      "btm_get (js_apply_capabilities s') i \<noteq> None \<Longrightarrow> btm_get (js_apply_capabilities s) i \<noteq> None"
  shows "jobs_inv limits (set_phase t p s')"
proof -
  have ok: "table_ok limits s" "threads_ok s" "head_ok s" "applies_ok s" "leases_ok limits s" using inv by (simp_all add: jobs_inv_def)
  let ?s = "set_phase t p s'"
  have views: "status s' = status s" "status ?s = status s" "applying ?s = applying s"
    using views_frame [of s' s] views_frame [of ?s s] s' by simp_all
  have phase: "in_phase x ?s u j \<longleftrightarrow> (if u = t then j = i \<and> x = p else in_phase x s u j)" for x u j
    using in_phase_set [of q s' t i] in_phase_frame [OF s'(6)] t by simp
  have running: "status s i = Some JobRunning" "\<And>u. active s u i \<Longrightarrow> u = t" if "q \<in> {Began, Executing}"
    using that t ok(2) unfolding threads_ok_def active_def by blast+
  have "threads_ok ?s"
    by (rule threads_ok_move [OF ok(2) t s'(6), of "status s i"]) (use views p running in auto)
  moreover have "head_ok ?s"
    by (rule head_ok_move [OF ok(3) t s'(6)]) (use views s' q in auto)
  moreover have "applies_ok ?s"
  proof (rule applies_ok_steady [OF ok(4)])
    show "(status s j = Some JobQueued \<or> (\<exists>t. in_phase Began s t j))
        \<and> btm_get (js_apply_capabilities ?s) j = btm_get (js_apply_capabilities s) j"
      if needs: "status ?s j = Some JobQueued \<or> (\<exists>t. in_phase Began ?s t j)" for j
    proof -
      have away: "status s j = Some JobQueued \<or> (\<exists>u. u \<noteq> t \<and> in_phase Began s u j)"
        using needs p views by (auto simp: phase split: if_splits)
      then have "j \<noteq> i \<or> q \<noteq> Began" using running by (auto simp: active_def)
      with away caps(1) [of j] show ?thesis by auto
    qed
    show "btm_get (js_apply_capabilities ?s) j \<noteq> None \<Longrightarrow> btm_get (js_apply_capabilities s) j \<noteq> None" for j
      using caps(1) [of j] caps(2) by (cases "j = i") (simp_all del: not_None_eq)
  qed (use views s' in simp_all)
  moreover have "table_ok limits ?s" by (rule table_ok_cong [OF ok(1)]) (use s' in simp_all)
  moreover have "leases_ok limits ?s" by (rule leases_ok_frame [OF ok(5)]) (use s' in simp_all)
  ultimately show ?thesis by (simp add: jobs_inv_def)
qed

lemma executing_job:
  assumes "jobs_inv limits s" "active s t i"
  obtains job where "btm_get (js_jobs s) i = Some job" "sj_status job = JobRunning"
proof -
  have "status s i = Some JobRunning" using assms unfolding jobs_inv_def threads_ok_def by blast
  then show ?thesis using that by (auto simp: status_def)
qed

lemma jobs_inv_inputs:
  assumes inv: "jobs_inv limits s" and t: "in_phase Began s t i" and r: "job_inputs i s = (r, s')"
  shows "jobs_inv limits (set_phase t (if r = None then Returned else Executing) s')"
proof -
  obtain job where "btm_get (js_jobs s) i = Some job"
    using executing_job [OF inv, of t i] t by (auto simp: active_def)
  with r have "r \<noteq> None" "s' = s\<lparr>js_apply_capabilities := btm_remove i (js_apply_capabilities s)\<rparr>"
    by (auto simp: job_inputs_def)
  then show ?thesis by (auto intro!: jobs_inv_move [OF inv t])
qed

lemma jobs_inv_observe:
  assumes inv: "jobs_inv limits s" and valid: "valid_work limits"
  shows "jobs_inv limits (observe limits i event s)" (is "jobs_inv limits ?s'")
proof (cases "btm_get (js_jobs s) i")
  case None
  then show ?thesis using inv by (simp add: observe_def)
next
  case (Some job)
  have ok: "table_ok limits s" "threads_ok s" "head_ok s" "applies_ok s" "leases_ok limits s" using inv by (simp_all add: jobs_inv_def)
  have fields: "js_order ?s' = js_order s" "js_threads ?s' = js_threads s" "js_running ?s' = js_running s"
    "js_shutting_down ?s' = js_shutting_down s" "js_apply_capabilities ?s' = js_apply_capabilities s"
    "js_active_checkpoints ?s' = js_active_checkpoints s" using Some by (simp_all add: observe_def)
  have views: "status ?s' = status s" "applying ?s' = applying s"
    using Some by (auto simp: observe_def status_def applying_def fun_eq_iff)
  have "threads_ok ?s'" "head_ok ?s'" "applies_ok ?s'"
    using ok(2-4) views fields in_phase_frame [OF fields(2)]
    by (simp_all add: threads_ok_def head_ok_def applies_ok_def active_def waiting_def)
  moreover have "leases_ok limits ?s'" by (rule leases_ok_frame [OF ok(5)]) (use Some in \<open>simp_all add: observe_def\<close>)
  ultimately show ?thesis using table_ok_observe [OF ok(1) valid] by (simp add: jobs_inv_def)
qed

lemma jobs_inv_finish:
  assumes inv: "jobs_inv limits s" and valid: "valid_work limits" and t: "in_phase Executing s t i"
  shows "jobs_inv limits (set_phase t Returned (finish limits i outcome history_result s))" (is "jobs_inv limits ?s'")
proof -
  have ok: "table_ok limits s" "threads_ok s" "applies_ok s" "leases_ok limits s" using inv by (simp_all add: jobs_inv_def)
  obtain job where job: "btm_get (js_jobs s) i = Some job" "sj_status job = JobRunning"
    using executing_job [OF inv, of t i] t by (auto simp: active_def)
  define f where "f = finish limits i outcome history_result s"
  obtain receipt outcome' failed where f: "f = s\<lparr>js_active_checkpoints :=
           (case apply_reference (sj_kind job) of Some reference \<Rightarrow> bts_remove reference (js_active_checkpoints s)
            | None \<Rightarrow> js_active_checkpoints s),
         js_apply_capabilities := btm_remove i (js_apply_capabilities s), js_worker_failed := failed,
         js_running := js_running s - 1,
         js_jobs := btm_insert i (push_event (sse_replay_events limits) (settle_job outcome' receipt job)) (js_jobs s),
         js_threads := notify_all (js_threads s)\<rparr>"
    unfolding f_def by (rule finish_eq [OF job(1)])
  have fields: "js_shutting_down ?s' = js_shutting_down s" "js_apply_capabilities ?s' = btm_remove i (js_apply_capabilities s)"
    "js_active_checkpoints ?s' = (case apply_reference (sj_kind job) of
       Some r \<Rightarrow> bts_remove r (js_active_checkpoints s) | None \<Rightarrow> js_active_checkpoints s)"
    using f by (simp_all add: f_def [symmetric])
  let ?st = "sj_status (settle_job outcome' receipt job)"
  have end_status: "terminal ?st" "?st \<noteq> JobRunning" "?st \<noteq> JobQueued"
    using settle_job_fields(8) [of outcome' receipt job] by (auto simp del: settle_job_fields)
  have views: "status f = (status s)(i \<mapsto> ?st)" "applying f = (applying s)(i := None)" "status ?s' = status f" "applying ?s' = applying f"
    using views_insert [of f i _ s] f views_frame [of ?s' f] by (simp_all add: f_def [symmetric])
  have phases: "js_threads f = notify_all (js_threads s)" using f by simp
  define m where "m = s\<lparr>js_threads := notify_all (js_threads s)\<rparr>"
  have m: "in_phase x m u j \<longleftrightarrow> in_phase x f u j" "status m = status s" "js_threads f = js_threads m" for x u j
    using in_phase_frame [of m f] views_frame(1) [of m s] phases by (simp_all add: m_def)
  have "threads_ok m" by (rule threads_ok_notify [OF ok(2)]) (simp_all add: m_def status_def)
  moreover have mt: "in_phase Executing m t i" using t by (simp add: m in_phase_notify [OF phases])
  ultimately have threads: "threads_ok ?s'"
    unfolding f_def [symmetric] by (intro threads_ok_move [OF _ _ m(3)]) (use views m end_status in auto)
  have phase: "in_phase x ?s' u j \<longleftrightarrow> (if u = t then j = i \<and> x = Returned else in_phase x f u j)" for x u j
    using in_phase_set [of Executing f t i] mt by (simp add: f_def [symmetric] m)
  have "head_ok ?s'" using threads by (rule head_ok_awake) (simp add: phase in_phase_notify [OF phases])
  moreover have "applying s i = apply_reference (sj_kind job)" using job by (simp add: applying_def)
  then have "applies_ok ?s'"
    by (rule applies_ok_end [OF ok(3)])
      (use views fields in \<open>auto simp: phase in_phase_notify [OF phases] split: if_splits\<close>)
  moreover have "table_ok limits ?s'" by (rule table_ok_cong [OF table_ok_finish [OF ok(1) valid job]]) simp_all
  moreover have "leases_ok limits ?s'" by (rule leases_ok_frame [OF ok(4)]) (use f in \<open>simp_all add: f_def [symmetric]\<close>)
  ultimately show ?thesis using threads by (simp add: jobs_inv_def)
qed

lemma jobs_inv_step:
  assumes "jobs_step limits s s'" "valid_work limits" "jobs_inv limits s"
  shows "jobs_inv limits s'"
  using assms
proof (induction rule: jobs_step.induct)
  case (admit s co owner source_id random_id spawned)
  then show ?case by (auto simp: admit_def apply_reference_def intro!: jobs_inv_admit_kind split: option.splits)
next
  case (admit_plan s co owner source_id server_id random_id spawned)
  then show ?case by (auto simp: admit_plan_def apply_reference_def intro!: jobs_inv_admit_kind split: option.splits)
next
  case (admit_dry_run s dg co owner reference random_id spawned)
  then show ?case
    by (auto simp: admit_dry_run_def apply_reference_def Let_def intro!: jobs_inv_admit_kind split: option.splits result.splits)
next
  case (mark_failed s)
  moreover have "mark_worker_failed s = s\<lparr>js_handles := js_handles s, js_worker_failed := True\<rparr>"
    by (cases s) (simp add: mark_worker_failed_def)
  ultimately show ?case using jobs_inv_frame by blast
next
  case (subscribe s i owner after)
  moreover have "\<exists>n m l. snd (subscribe limits i owner after s) = s\<lparr>js_subscribers := n, js_subscribers_by_owner := m, js_leases := l\<rparr>"
    by (auto simp: subscribe_def Let_def split: option.splits result.splits) (metis JobsState.surjective JobsState.update_convs(8,9,13))+
  ultimately show ?case
    using leases_ok_subscribe [of limits s]
    by (auto simp: jobs_inv_def elim: table_ok_cong threads_ok_frame head_ok_frame applies_ok_frame)
next
  case (drop_lease owner s)
  then show ?case
    using leases_ok_drop [of limits s owner]
    by (auto simp: jobs_inv_def drop_lease_def Let_def elim: table_ok_cong threads_ok_frame head_ok_frame applies_ok_frame)
qed (auto simp: jobs_inv_admit_apply jobs_inv_reap jobs_inv_cancel jobs_inv_shutdown jobs_inv_begin jobs_inv_inputs jobs_inv_observe
    jobs_inv_finish snapshot_def collect_def Let_def intro!: jobs_inv_move)

lemma jobs_reachable_inv: "jobs_reachable limits s \<Longrightarrow> valid_work limits \<Longrightarrow> jobs_inv limits s"
  by (induction rule: rtranclp_induct) (auto simp: jobs_inv_new intro: jobs_inv_step)

end
