(* ===== verification/Web_Queue.thy ===== *)
theory Web_Queue
  imports Web_Workers "HOL-Library.Multiset"
begin

text \<open>
  What the job manager guarantees, from the invariant of its reachable states:
  exact counters and bounds, no two applications of one plan at a time and the
  capability of every application, exact replay of events, the queue can always be
  drained, and \<open>reap_workers\<close> against a filter. The last section shows the wake-up
  that \<open>begin\<close> omits.
\<close>

section \<open>Bounds\<close>

text \<open>C39: in every reachable state of the manager (under validated limits) the counters of queued and
  running jobs are exact, at most \<open>concurrent_jobs\<close> jobs run, running and queued jobs together respect
  the worker limit, at most \<open>retained_jobs\<close> jobs are kept, and the subscriptions respect the limits per
  process and per session.\<close>

theorem jobs_bounded:
  assumes "valid_work limits" "jobs_reachable limits s"
  shows "js_running s = count_status JobRunning s \<and> js_queued s = count_status JobQueued s
    \<and> js_running s \<le> concurrent_jobs limits \<and> js_running s + js_queued s \<le> concurrent_jobs limits + queued_jobs limits
    \<and> length (js_jobs s) \<le> retained_jobs limits
    \<and> js_subscribers s = length (js_leases s) \<and> js_subscribers s \<le> sse_subscribers_per_process limits
    \<and> (\<forall>owner. count_list (js_leases s) owner \<le> sse_subscribers_per_session limits)"
  using jobs_reachable_inv [OF assms(2,1)] valid_work_simps(4) [OF assms(1)]
  by (simp add: jobs_inv_def table_ok_def leases_ok_def)

section \<open>Applications\<close>

text \<open>C37: two workers that have begun and not ended applying the same plan are one worker, and a worker
  that begins an application receives the capability that was consumed for exactly this plan.\<close>

theorem apply_exclusive:
  assumes "valid_work limits" "jobs_reachable limits s" "active s t i" "btm_get (js_jobs s) i = Some job"
    and "apply_reference (sj_kind job) = Some r"
  shows "(\<forall>u j other. active s u j \<and> btm_get (js_jobs s) j = Some other \<and> apply_reference (sj_kind other) = Some r \<longrightarrow> u = t)
    \<and> (in_phase Began s t i \<longrightarrow>
         (\<exists>capability. fst (job_inputs i s) = Some (sj_source_id job, sj_kind job, sj_cancellation job, Some capability)
           \<and> db_plan_reference (gb_dry_run (ac_binding capability)) = r))"
proof -
  have inv: "jobs_inv limits s" using jobs_reachable_inv [OF assms(2,1)] .
  have applying: "applying s j = Some r" if "active s u j" "btm_get (js_jobs s) j = Some other"
      "apply_reference (sj_kind other) = Some r" for u j other
    by (rule executing_job [OF inv that(1)]) (use that(2,3) in \<open>simp add: applying_def\<close>)
  have "u = t" if "active s u j" "btm_get (js_jobs s) j = Some other" "apply_reference (sj_kind other) = Some r" for u j other
  proof -
    have "j = i" using applies_okD(1) [of s j r i] applying [OF that] applying [OF assms(3-5)] inv by (simp add: jobs_inv_def)
    then show ?thesis using inv that(1) assms(3) unfolding jobs_inv_def threads_ok_def by blast
  qed
  moreover have "\<exists>capability. fst (job_inputs i s) = Some (sj_source_id job, sj_kind job, sj_cancellation job, Some capability)
           \<and> db_plan_reference (gb_dry_run (ac_binding capability)) = r" if "in_phase Began s t i"
    using applies_okD(4) [of s i r] applying [OF assms(3-5)] inv that assms(4)
    by (auto simp: jobs_inv_def job_inputs_def plan_of_def)
  ultimately show ?thesis by blast
qed

section \<open>Replay\<close>

lemma filter_ascending_drop:
  "map f xs = [a ..< b] \<Longrightarrow> filter (\<lambda>x. c < f x) xs = drop (c + 1 - a) xs"
proof (induction xs arbitrary: a)
  case (Cons x xs)
  then have "a < b" "f x = a" "map f xs = [Suc a ..< b]"
    using upt_eq_Cons_conv [of a b "f x" "map f xs"] by auto
  with Cons.IH [of "Suc a"] show ?case
    by (cases "c < a") (auto simp: Suc_diff_le not_less)
qed simp

text \<open>C40: a subscriber that comes back with the number of the last event it saw gets exactly the events
  after it, in order and without a gap, as long as they are retained; otherwise it is told that
  the replay is exhausted, and a number that was never given out is refused.\<close>

theorem replay_exact:
  assumes "valid_work limits" "jobs_reachable limits s" "btm_get (js_jobs s) i = Some job" "sj_next_event_sequence job < u64_max"
  shows "select_replay (sj_events job) (Some cursor) =
      (if sj_next_event_sequence job < cursor then Err InvalidCursor
       else if cursor + length (sj_events job) < sj_next_event_sequence job then Err ReplayExhausted
       else Ok (drop (cursor + length (sj_events job) - sj_next_event_sequence job) (sj_events job)))
    \<and> map ev_sequence (drop (cursor + length (sj_events job) - sj_next_event_sequence job) (sj_events job)) =
        [max (cursor + 1) (sj_next_event_sequence job + 1 - length (sj_events job)) ..< sj_next_event_sequence job + 1]
    \<and> ev_status (last (sj_events job)) = sj_status job \<and> length (sj_events job) \<le> sse_replay_events limits"
proof -
  let ?n = "sj_next_event_sequence job" and ?es = "sj_events job"
  have "job_ok limits i job" using jobs_reachable_inv [OF assms(2,1)] assms(3) by (auto simp: jobs_inv_def table_ok_def)
  then have es: "?es \<noteq> []" "length ?es \<le> sse_replay_events limits" "length ?es \<le> ?n" "ev_sequence (last ?es) = ?n"
    "ev_status (last ?es) = sj_status job" and seq: "map ev_sequence ?es = [?n + 1 - length ?es ..< ?n + 1]"
    using assms(4) by (auto simp: job_ok_def events_ok_def log_ok_def)
  have "ev_sequence (hd ?es) = hd (map ev_sequence ?es)" using es(1) by (simp add: list.map_sel)
  also have "\<dots> = ?n + 1 - length ?es" using es unfolding seq by (subst hd_upt) (auto simp: Suc_le_eq)
  finally have first: "ev_sequence (hd ?es) = ?n + 1 - length ?es" .
  have "filter (\<lambda>e. cursor < ev_sequence e) ?es = drop (cursor + length ?es - ?n) ?es"
    using filter_ascending_drop [OF seq, of cursor] es(3) by (simp add: Suc_diff_le)
  moreover have "sat_add cursor 1 = cursor + 1" if "cursor \<le> ?n" using that assms(4) by (simp add: sat_add_def)
  moreover have "cursor + 1 < ?n + 1 - length ?es \<longleftrightarrow> cursor + length ?es < ?n" by linarith
  ultimately have "select_replay ?es (Some cursor) =
      (if ?n < cursor then Err InvalidCursor else if cursor + length ?es < ?n then Err ReplayExhausted
       else Ok (drop (cursor + length ?es - ?n) ?es))"
    using es(1,4) first by (simp add: select_replay_def not_less)
  moreover have "map ev_sequence (drop (cursor + length ?es - ?n) ?es) = [max (cursor + 1) (?n + 1 - length ?es) ..< ?n + 1]"
    unfolding drop_map [symmetric] seq drop_upt using es(3) by (simp add: max_def Suc_diff_le del: upt_Suc)
  ultimately show ?thesis using es by blast
qed

section \<open>Draining the queue\<close>

text \<open>The moves of the workers when they are left alone and what they work on succeeds: a look at the
  queue with any result, the inputs of a job, and the end of a job with a recorded success. No client calls,
  nobody shuts down, no worker panics and no worker wakes without being notified.\<close>

inductive worker_step :: "WebLimits \<Rightarrow> JobsState \<Rightarrow> JobsState \<Rightarrow> bool" for limits where
  look: "in_phase Checking s t i \<Longrightarrow> begin_pass limits i s = (r, s') \<Longrightarrow>
    worker_step limits s (set_phase t (begin_phase r) s')"
| work: "in_phase Began s t i \<Longrightarrow> job_inputs i s = (r, s') \<Longrightarrow>
    worker_step limits s (set_phase t (if r = None then Returned else Executing) s')"
| complete: "in_phase Executing s t i \<Longrightarrow>
    worker_step limits s (set_phase t Returned
      (finish limits i (WorkCompleted kind summary artifact binding) (Ok receipt) s))"

lemma worker_step_jobs_step: "worker_step limits s s' \<Longrightarrow> jobs_step limits s s'"
proof (induction rule: worker_step.induct)
  case (look s t i r s')
  then show ?case by (rule jobs_step.begin_job)
next
  case (work s t i r s')
  then show ?case by (rule jobs_step.inputs)
next
  case (complete s t i kind summary artifact binding receipt)
  then show ?case by (rule jobs_step.finish)
qed

text \<open>The weight of a worker among \<open>n\<close>: waking all the others weighs less than ending one job.\<close>

primrec phase_weight :: "nat \<Rightarrow> worker_phase \<Rightarrow> nat" where
  "phase_weight n Checking = 3 * (n + 1) + 1"
| "phase_weight n Asleep = 3 * (n + 1)"
| "phase_weight n Began = 2 * (n + 1)"
| "phase_weight n Executing = n + 1"
| "phase_weight n Returned = 0"
| "phase_weight n Panicked = 0"

definition threads_weight :: "worker list \<Rightarrow> nat" where
  "threads_weight ws = sum_list (map (\<lambda>w. phase_weight (length ws) (wk_phase w)) ws)"

lemma threads_weight_set:
  assumes "t < length ws" "phase_weight (length ws) p + k < phase_weight (length ws) (wk_phase (ws ! t))"
  shows "threads_weight (ws[t := w\<lparr>wk_phase := p\<rparr>]) + k < threads_weight ws"
proof -
  let ?ranks = "map (\<lambda>w. phase_weight (length ws) (wk_phase w)) ws"
  have "?ranks ! t \<le> sum_list ?ranks" using assms(1) by (intro elem_le_sum_list) simp
  then show ?thesis using assms by (simp add: threads_weight_def map_update sum_list_update)
qed

lemma threads_weight_notify: "threads_weight (notify_all ws) \<le> threads_weight ws + length ws"
proof -
  have "sum_list (map (phase_weight n \<circ> wk_phase) (notify_all ws)) \<le> sum_list (map (phase_weight n \<circ> wk_phase) ws) + length ws" for n
    by (induction ws) (auto simp: notify_all_def)
  then show ?thesis by (simp add: threads_weight_def comp_def notify_all_def)
qed

lemma threads_weight_bound: "threads_weight ws \<le> length ws * (3 * length ws + 4)"
proof -
  have "phase_weight (length ws) p \<le> 3 * length ws + 4" for p by (cases p) simp_all
  then have "threads_weight ws \<le> sum_list (map (\<lambda>_. 3 * length ws + 4) ws)"
    unfolding threads_weight_def by (intro sum_list_mono) simp
  then show ?thesis by (simp add: sum_list_triv)
qed

lemma set_phase_threads:
  "in_phase q s t i \<Longrightarrow> js_threads s' = js_threads s \<Longrightarrow> phase_weight (length (js_threads s)) p < phase_weight (length (js_threads s)) q \<Longrightarrow>
     threads_weight (js_threads (set_phase t p s')) < threads_weight (js_threads s)"
  using threads_weight_set [where w = "js_threads s ! t" and k = 0] by (simp add: set_phase_def in_phase_def)

lemma begin_pass_threads: "begin_pass limits i s = (r, s') \<Longrightarrow> js_threads s' = js_threads s"
  by (auto simp: begin_pass_def Let_def split: if_splits)

lemma worker_step_weight:
  "worker_step limits s s' \<Longrightarrow> threads_weight (js_threads s') < threads_weight (js_threads s)"
proof (induction rule: worker_step.induct)
  case (look s t i r s')
  have "phase_weight n (begin_phase r) < phase_weight n Checking" for n
    by (cases r) (simp_all split: if_splits)
  with look show ?case by (intro set_phase_threads [OF look(1) begin_pass_threads])
next
  case (work s t i r s')
  then have "js_threads s' = js_threads s" by (auto simp: job_inputs_def split: option.splits)
  then show ?case by (intro set_phase_threads [OF work(1)]) simp_all
next
  case (complete s t i kind summary artifact binding receipt)
  let ?ws = "js_threads s"
  have t: "t < length ?ws" "?ws ! t = \<lparr>wk_job = i, wk_phase = Executing\<rparr>" using complete by (auto simp: in_phase_def)
  then have same: "notify_all ?ws ! t = ?ws ! t" by (simp add: notify_all_def)
  have swap: "(notify_all ?ws)[t := (?ws ! t)\<lparr>wk_phase := Returned\<rparr>] = notify_all (?ws[t := (?ws ! t)\<lparr>wk_phase := Returned\<rparr>])"
    by (simp add: notify_all_def map_update)
  have "threads_weight (?ws[t := (?ws ! t)\<lparr>wk_phase := Returned\<rparr>]) + length ?ws < threads_weight ?ws"
    using threads_weight_set [of t ?ws Returned "length ?ws" "?ws ! t"] t by simp
  then have "threads_weight ((notify_all ?ws)[t := (?ws ! t)\<lparr>wk_phase := Returned\<rparr>]) < threads_weight ?ws"
    unfolding swap using threads_weight_notify [of "?ws[t := (?ws ! t)\<lparr>wk_phase := Returned\<rparr>]"] by simp
  then show ?case using same by (simp add: set_phase_def finish_def Let_def)
qed

lemma worker_steps_bound: "(worker_step limits ^^ n) s s' \<Longrightarrow> n + threads_weight (js_threads s') \<le> threads_weight (js_threads s)"
proof (induction n arbitrary: s')
  case (Suc n)
  then obtain s1 where "(worker_step limits ^^ n) s s1" "worker_step limits s1 s'" by auto
  then show ?case using Suc.IH worker_step_weight by fastforce
qed simp

text \<open>What the workers do to the jobs: a job that has ended stays as it is, an open one stays open or is
  completed.\<close>

definition jobs_advance :: "JobsState \<Rightarrow> JobsState \<Rightarrow> bool" where
  "jobs_advance s s' \<longleftrightarrow>
     dom (btm_get (js_jobs s')) = dom (btm_get (js_jobs s)) \<and>
     (\<forall>i job. btm_get (js_jobs s) i = Some job \<longrightarrow> (\<exists>job'. btm_get (js_jobs s') i = Some job' \<and>
        (if terminal (sj_status job) then job' = job else \<not> terminal (sj_status job') \<or> sj_status job' = JobCompleted)))"

lemma jobs_advance_refl: "jobs_advance s s"
  by (simp add: jobs_advance_def)

lemma jobs_advance_trans:
  assumes "jobs_advance s s1" "jobs_advance s1 s2"
  shows "jobs_advance s s2"
  unfolding jobs_advance_def
proof (intro conjI allI impI)
  show "dom (btm_get (js_jobs s2)) = dom (btm_get (js_jobs s))" using assms by (simp add: jobs_advance_def)
  fix i job assume "btm_get (js_jobs s) i = Some job"
  then obtain job1 where one: "btm_get (js_jobs s1) i = Some job1"
      "if terminal (sj_status job) then job1 = job else \<not> terminal (sj_status job1) \<or> sj_status job1 = JobCompleted"
    using assms(1) unfolding jobs_advance_def by blast
  then obtain job2 where two: "btm_get (js_jobs s2) i = Some job2"
      "if terminal (sj_status job1) then job2 = job1 else \<not> terminal (sj_status job2) \<or> sj_status job2 = JobCompleted"
    using assms(2) unfolding jobs_advance_def by blast
  then show "\<exists>job'. btm_get (js_jobs s2) i = Some job' \<and>
      (if terminal (sj_status job) then job' = job else \<not> terminal (sj_status job') \<or> sj_status job' = JobCompleted)"
    using one by (auto split: if_splits)
qed

lemma jobs_advance_insert:
  assumes "btm_get (js_jobs s) i = Some job" "\<not> terminal (sj_status job)" "js_jobs s' = btm_insert i job' (js_jobs s)"
    and "\<not> terminal (sj_status job') \<or> sj_status job' = JobCompleted"
  shows "jobs_advance s s'"
  using assms by (auto simp: jobs_advance_def dom_fun_upd)

definition no_panic :: "JobsState \<Rightarrow> bool" where
  "no_panic s \<longleftrightarrow> (\<forall>w \<in> set (js_threads s). wk_phase w \<noteq> Panicked)"

lemma no_panic_iff: "no_panic s \<longleftrightarrow> (\<forall>t i. \<not> in_phase Panicked s t i)"
proof -
  have "w = \<lparr>wk_job = wk_job w, wk_phase = wk_phase w\<rparr>" for w :: worker by simp
  then show ?thesis unfolding no_panic_def in_phase_def by (metis in_set_conv_nth worker.select_convs(2))
qed

lemma no_panic_set: "no_panic s \<Longrightarrow> p \<noteq> Panicked \<Longrightarrow> js_threads s' = js_threads s \<or> js_threads s' = notify_all (js_threads s) \<Longrightarrow>
    no_panic (set_phase t p s')"
  by (auto simp: no_panic_def set_phase_def notify_all_def dest!: set_update_subset_insert [THEN subsetD] split: if_splits)

lemma worker_step_no_panic: "worker_step limits s s' \<Longrightarrow> no_panic s \<Longrightarrow> no_panic s'"
proof (induction rule: worker_step.induct)
  case (look s t i r s')
  have "begin_phase r \<noteq> Panicked" by (cases r) simp_all
  then show ?case using look.prems begin_pass_threads [OF look(2)] by (intro no_panic_set [of s]) auto
next
  case (work s t i r s')
  then show ?case by (intro no_panic_set [of s]) (auto simp: job_inputs_def split: option.splits)
next
  case (complete s t i kind summary artifact binding receipt)
  then show ?case by (intro no_panic_set [of s]) (simp_all add: finish_def Let_def)
qed

lemma begin_pass_jobs:
  assumes "begin_pass limits i s = (r, s')"
  shows "js_jobs s' = js_jobs s \<or>
    (\<exists>job. btm_get (js_jobs s) i = Some job \<and> sj_status job = JobQueued \<and>
       js_jobs s' = btm_insert i (push_event (sse_replay_events limits) (job\<lparr>sj_status := JobRunning\<rparr>)) (js_jobs s))"
proof (cases "has_status ((=) JobQueued) s i \<and> r = Some True")
  case True
  then obtain job where job: "btm_get (js_jobs s) i = Some job" "sj_status job = JobQueued" by (auto simp: has_status_iff)
  then have "js_jobs s' = btm_insert i (push_event (sse_replay_events limits) (job\<lparr>sj_status := JobRunning\<rparr>)) (js_jobs s)"
    using assms True unfolding begin_pass_def Let_def by (simp split: if_splits) auto
  with job show ?thesis by blast
next
  case False
  then have "s' = s" using assms unfolding begin_pass_def Let_def by (simp split: if_splits)
  then show ?thesis by simp
qed

lemma worker_step_advance:
  "worker_step limits s s' \<Longrightarrow> jobs_inv limits s \<Longrightarrow> jobs_advance s s'"
proof (induction rule: worker_step.induct)
  case (look s t i r s')
  show ?case
  proof (cases "js_jobs s' = js_jobs s")
    case True
    then show ?thesis using jobs_advance_refl [of s] by (simp add: jobs_advance_def)
  next
    case False
    then obtain job where "btm_get (js_jobs s) i = Some job" "sj_status job = JobQueued"
        "js_jobs s' = btm_insert i (push_event (sse_replay_events limits) (job\<lparr>sj_status := JobRunning\<rparr>)) (js_jobs s)"
      using begin_pass_jobs [OF look(2)] by blast
    then show ?thesis
      by (intro jobs_advance_insert [of s i job _ "push_event (sse_replay_events limits) (job\<lparr>sj_status := JobRunning\<rparr>)"])
        (simp_all add: terminal_def)
  qed
next
  case (work s t i r s')
  then have "js_jobs s' = js_jobs s" by (auto simp: job_inputs_def split: option.splits)
  then show ?case using jobs_advance_refl [of s] by (simp add: jobs_advance_def)
next
  case (complete s t i kind summary artifact binding receipt)
  then obtain job where "btm_get (js_jobs s) i = Some job" "sj_status job = JobRunning"
    using executing_job [of limits s t i] by (auto simp: active_def)
  then show ?case
    by (intro jobs_advance_insert [of s i job _ "push_event (sse_replay_events limits)
          (settle_job (WorkCompleted kind summary artifact binding) receipt job)"])
      (simp_all add: finish_def Let_def settle_job_def terminal_def is_ok_iff)
qed

definition open_jobs :: "JobsState \<Rightarrow> string set" where
  "open_jobs s = {i. status s i \<in> {Some JobQueued, Some JobRunning}}"

text \<open>While a job is open and no worker has panicked, some worker can move: one that has begun or executes
  a job, or else the worker of the first job in the queue, which is awake and finds a free slot.\<close>

lemma worker_progress:
  assumes inv: "jobs_inv limits s" and valid: "valid_work limits" and calm: "no_panic s" and job: "open_jobs s \<noteq> {}"
  shows "\<exists>s'. worker_step limits s s'"
proof (cases "\<exists>t i. active s t i")
  case True
  then consider t i where "in_phase Began s t i" | t i where "in_phase Executing s t i" by (auto simp: active_def)
  then show ?thesis
  proof cases
    case (1 t i)
    then show ?thesis using worker_step.work by (metis prod.collapse)
  next
    case (2 t i)
    then show ?thesis using worker_step.complete by blast
  qed
next
  case False
  have ok: "table_ok limits s" "threads_ok s" "head_ok s" using inv by (simp_all add: jobs_inv_def)
  have idle: "status s i \<noteq> Some JobRunning" for i
    using ok(2) False calm unfolding threads_ok_def no_panic_iff by blast
  then obtain i where i: "status s i = Some JobQueued" using job by (auto simp: open_jobs_def)
  then have "i \<in> set (js_order s)" using ok(1) by (auto simp: table_ok_def status_def)
  then obtain h where h: "find (\<lambda>i. status s i = Some JobQueued) (js_order s) = Some h"
    using i by (cases "find (\<lambda>i. status s i = Some JobQueued) (js_order s)") (auto simp: find_None_iff)
  have "filter (\<lambda>(_, job). sj_status job = JobRunning) (js_jobs s) = []"
    using idle ok(1) by (fastforce simp: filter_empty_conv status_def table_ok_def btm_wf_distinct)
  then have "js_running s = 0" using ok(1) by (simp add: table_ok_def count_status_def)
  then obtain t where "in_phase Checking s t h" using ok(3) h by (auto simp: head_ok_def)
  then show ?thesis using worker_step.look by (metis prod.collapse)
qed

text \<open>The moves of the workers from a reachable state: the invariant goes on to hold.\<close>

lemma worker_steps_inv:
  assumes "(worker_step limits)\<^sup>*\<^sup>* s s'" "jobs_inv limits s" "valid_work limits" "no_panic s"
  shows "jobs_inv limits s' \<and> no_panic s' \<and> jobs_advance s s'"
  using assms(1)
proof (induction rule: rtranclp_induct)
  case base
  then show ?case using assms(2,4) jobs_advance_refl by simp
next
  case (step s1 s2)
  then show ?case
    using jobs_inv_step [OF worker_step_jobs_step [OF step.hyps(2)] assms(3)] worker_step_no_panic [OF step.hyps(2)]
      worker_step_advance [OF step.hyps(2)] jobs_advance_trans by blast
qed

text \<open>Some sequence of moves cannot go on.\<close>

lemma worker_steps_end: "\<exists>s'. (worker_step limits)\<^sup>*\<^sup>* s s' \<and> (\<nexists>s2. worker_step limits s' s2)"
proof (induction "threads_weight (js_threads s)" arbitrary: s rule: less_induct)
  case less
  then show ?case by (metis worker_step_weight converse_rtranclp_into_rtranclp rtranclp.rtrancl_refl)
qed

text \<open>C38: the queue drains by itself. From every reachable state in which no worker has panicked, let the
  workers alone move, in any order, while every job they start succeeds: they look at the queue, take a
  slot or go to sleep, read the inputs of their job and complete it. Then they stop after at most
  n * (3 * n + 4) moves, where n is the number of worker threads, and when none of them can
  move any more, every job that was queued or running has been completed, every job that had ended is
  unchanged, and no job was added or lost.\<close>

theorem queue_drains:
  assumes "valid_work limits" "jobs_reachable limits s" "\<forall>w \<in> set (js_threads s). wk_phase w \<noteq> Panicked"
  shows "(\<forall>n s'. (worker_step limits ^^ n) s s' \<longrightarrow> n \<le> length (js_threads s) * (3 * length (js_threads s) + 4)) \<and>
    (\<forall>s'. (worker_step limits)\<^sup>*\<^sup>* s s' \<and> (\<nexists>s2. worker_step limits s' s2) \<longrightarrow>
       dom (btm_get (js_jobs s')) = dom (btm_get (js_jobs s)) \<and>
       (\<forall>i job. btm_get (js_jobs s) i = Some job \<longrightarrow> (\<exists>job'. btm_get (js_jobs s') i = Some job' \<and>
          (if terminal (sj_status job) then job' = job else sj_status job' = JobCompleted))))"
proof (intro conjI allI impI)
  fix n s' assume "(worker_step limits ^^ n) s s'"
  from worker_steps_bound [OF this] show "n \<le> length (js_threads s) * (3 * length (js_threads s) + 4)"
    using threads_weight_bound [of "js_threads s"] by linarith
next
  fix s' assume run: "(worker_step limits)\<^sup>*\<^sup>* s s' \<and> (\<nexists>s2. worker_step limits s' s2)"
  have calm: "no_panic s" using assms(3) by (simp add: no_panic_def)
  note final = worker_steps_inv [OF conjunct1 [OF run] jobs_reachable_inv [OF assms(2,1)] assms(1) calm]
  show "dom (btm_get (js_jobs s')) = dom (btm_get (js_jobs s))" using final by (simp add: jobs_advance_def)
  have "open_jobs s' = {}" using worker_progress [OF _ assms(1)] final run by blast
  then have ended: "terminal (sj_status job')" if "btm_get (js_jobs s') i = Some job'" for i job'
    using that by (cases "sj_status job'") (auto simp: open_jobs_def status_def)
  show "\<exists>job'. btm_get (js_jobs s') i = Some job' \<and>
      (if terminal (sj_status job) then job' = job else sj_status job' = JobCompleted)"
    if "btm_get (js_jobs s) i = Some job" for i job
    using final that ended unfolding jobs_advance_def by fastforce
qed

section \<open>Reaping workers\<close>

lemma swap_remove_split:
  assumes "p < length xs"
  shows "take p (swap_remove p xs) = take p xs" "add_mset (xs ! p) (mset (drop p (swap_remove p xs))) = mset (drop p xs)"
proof -
  obtain ys l where xs: "xs = ys @ [l]" using assms by (cases xs rule: rev_cases) auto
  show "take p (swap_remove p xs) = take p xs" using assms by (auto simp: xs swap_remove_def)
  show "add_mset (xs ! p) (mset (drop p (swap_remove p xs))) = mset (drop p xs)"
  proof (cases "p = length ys")
    case False
    then have p: "p < length ys" using assms by (simp add: xs)
    then have "drop p ys = ys ! p # drop (Suc p) ys" "drop p (ys[p := l]) = l # drop (Suc p) ys"
      using Cons_nth_drop_Suc [of p "ys[p := l]"] by (simp_all add: Cons_nth_drop_Suc)
    then show ?thesis using p False by (simp add: xs swap_remove_def nth_append add_mset_commute)
  qed (simp add: xs swap_remove_def)
qed

lemma reap_loop_filter:
  "mset (fst (reap_loop threads p handles failed)) =
     mset (take p handles) + filter_mset (\<lambda>h. \<not> is_finished threads h) (mset (drop p handles))
   \<and> snd (reap_loop threads p handles failed) = (failed \<or> (\<exists>h \<in> set (drop p handles). join_is_err threads h))"
proof (induction threads p handles failed rule: reap_loop.induct)
  case (1 threads p handles failed)
  show ?case
  proof (cases "p < length handles")
    case True
    note split = swap_remove_split [OF True]
    have drop: "drop p handles = handles ! p # drop (Suc p) handles" using True by (simp add: Cons_nth_drop_Suc)
    have set: "set (drop p handles) = insert (handles ! p) (set (drop p (swap_remove p handles)))"
      using split(2) by (metis set_mset_add_mset_insert set_mset_mset)
    have err: "join_is_err threads h \<Longrightarrow> is_finished threads h" for h by (simp add: join_is_err_def is_finished_def)
    show ?thesis
    proof (cases "is_finished threads (handles ! p)")
      case fin: True
      have "reap_loop threads p handles failed =
          reap_loop threads p (swap_remove p handles) (failed \<or> join_is_err threads (handles ! p))"
        using True fin by (subst reap_loop.simps) simp
      then show ?thesis
        using "1.IH"(1) [OF True fin] fin split(1) split(2) [symmetric] set by auto
    next
      case fin: False
      have "reap_loop threads p handles failed = reap_loop threads (p + 1) handles failed"
        using True fin by (subst reap_loop.simps) simp
      then show ?thesis
        using "1.IH"(2) [OF True fin] fin err drop True by (auto simp: take_Suc_conv_app_nth)
    qed
  qed (simp add: reap_loop.simps [of threads p handles failed])
qed

text \<open>\<open>reap_workers\<close>, which removes finished handles in place by swapping, keeps exactly the handles
  of the workers that still run, and reports a failure exactly if there was one before or one of
  the joined workers panicked.\<close>

theorem reap_workers_is_filter:
  "mset (js_handles (reap_workers s)) = mset (filter (\<lambda>h. \<not> is_finished (js_threads s) h) (js_handles s))
   \<and> js_worker_failed (reap_workers s) = (js_worker_failed s \<or> (\<exists>h \<in> set (js_handles s). join_is_err (js_threads s) h))"
  using reap_loop_filter [of "js_threads s" 0 "js_handles s" "js_worker_failed s"]
  by (cases "reap_loop (js_threads s) 0 (js_handles s) (js_worker_failed s)") (simp add: reap_workers_def)

section \<open>A concrete run\<close>

definition two_workers :: WebLimits where
  "two_workers = WebLimits_default\<lparr>concurrent_jobs := 2\<rparr>"

definition scan_queued :: JobsState where
  "scan_queued = snd (admit two_workers sample_console ''alice'' ''photos'' (Some ''j1'') True JobManager_new)"

definition two_queued :: JobsState where
  "two_queued = snd (admit_apply two_workers sample_console (sample_capability ''alice'') (Some ''j2'') True scan_queued)"

lemma sample_source:
  "WebConfig_source sample_console ''photos'' =
     Some \<lparr>so_id = ''photos'', so_label = ''Photos'', so_kind = KindFolder, so_resolve = Ok (hex64 CHR ''a'')\<rparr>"
  by (simp add: WebConfig_source_def sample_console_def)

lemma two_workers_simps [simp]:
  "concurrent_jobs two_workers = 2" "queued_jobs two_workers = 4" "retained_jobs two_workers = 128"
  "sse_replay_events two_workers = 128" "worker_limit two_workers = 6"
  by (simp_all add: two_workers_def WebLimits_default_def worker_limit_def sat_add_def u64_max_val)

definition queued_event :: JobEvent where
  "queued_event = \<lparr>ev_sequence = 1, ev_status = JobQueued, ev_cancellation_requested = False,
     ev_progress = JobProgress_default, ev_summary = None\<rparr>"

definition sample_job :: "string \<Rightarrow> JobKind \<Rightarrow> StoredJob" where
  "sample_job i kind = (StoredJob_new i ''alice'' ''photos'' ''Photos'' kind)\<lparr>sj_events := [queued_event], sj_next_event_sequence := 1\<rparr>"

lemma push_new: "push_event 128 (StoredJob_new i ''alice'' ''photos'' ''Photos'' kind) = sample_job i kind"
  by (simp add: push_event_def StoredJob_new_def sample_job_def queued_event_def Let_def sat_add_def u64_max_val)

lemma scan_queued_eq:
  "scan_queued = JobManager_new\<lparr>js_jobs := [(''j1'', sample_job ''j1'' (JobScan FolderScan))], js_order := [''j1''],
     js_handles := [0], js_queued := 1, js_threads := [\<lparr>wk_job = ''j1'', wk_phase = Checking\<rparr>]\<rparr>"
  by (simp add: scan_queued_def admit_def admit_kind_def sample_source Let_def reap_workers_def reap_loop.simps
      evict_terminal.simps JobManager_new_def manager_full_def sat_add_def u64_max_val enqueue_def spawn_def push_new)
    (simp add: StoredJob_new_def)

lemma sample_binding:
  "gb_owner (ac_binding (sample_capability owner)) = owner" "gb_source_profile_id (ac_binding (sample_capability owner)) = ''photos''"
  "db_plan_reference (gb_dry_run (ac_binding (sample_capability owner))) = sample_ref CHR ''p''"
  by (simp_all add: sample_capability_def sample_dry_run_def)

abbreviation apply_kind :: JobKind where
  "apply_kind \<equiv> JobApply (sample_ref CHR ''p'') FolderApply"

lemma two_queued_eq:
  "two_queued = JobManager_new\<lparr>js_jobs := [(''j1'', sample_job ''j1'' (JobScan FolderScan)), (''j2'', sample_job ''j2'' apply_kind)],
     js_order := [''j1'', ''j2''], js_handles := [0, 1], js_queued := 2,
     js_apply_capabilities := [(''j2'', sample_capability ''alice'')], js_active_checkpoints := [sample_ref CHR ''p''],
     js_threads := [\<lparr>wk_job = ''j1'', wk_phase = Checking\<rparr>, \<lparr>wk_job = ''j2'', wk_phase = Checking\<rparr>]\<rparr>"
  by (simp add: two_queued_def admit_apply_def sample_source sample_binding Let_def scan_queued_eq reap_workers_def reap_loop.simps
      is_finished_def evict_terminal.simps JobManager_new_def manager_full_def sat_add_def u64_max_val enqueue_def spawn_def push_new)
    (simp add: StoredJob_new_def)

lemma two_queued_reachable: "jobs_reachable two_workers two_queued"
  unfolding two_queued_def scan_queued_def
  by (rule rtranclp.rtrancl_into_rtrancl [OF rtranclp.rtrancl_into_rtrancl [OF rtranclp.rtrancl_refl]])
    (rule jobs_step.admit jobs_step.admit_apply)+

lemma two_workers_valid: "valid_work two_workers"
  by (simp add: two_workers_def WebLimits_default_def valid_work_def sat_add_def u64_max_val)

definition started :: "StoredJob \<Rightarrow> StoredJob" where
  "started job = push_event 128 (job\<lparr>sj_status := JobRunning\<rparr>)"

definition first_running :: JobsState where
  "first_running = set_phase 0 Began (snd (begin_pass two_workers ''j1'' two_queued))"

definition both_running :: JobsState where
  "both_running = set_phase 1 Began (snd (begin_pass two_workers ''j2'' first_running))"

definition second_asleep :: JobsState where
  "second_asleep = set_phase 1 Asleep two_queued"

definition slot_free :: JobsState where
  "slot_free = set_phase 0 Began (snd (begin_pass two_workers ''j1'' second_asleep))"

lemma sample_job_status: "sj_status (sample_job i kind) = JobQueued" "sj_status (started job) = JobRunning"
  by (simp_all add: sample_job_def StoredJob_new_def started_def)

lemmas run_simps = begin_pass_def set_phase_def two_queued_eq JobManager_new_def has_status_def is_some_and_def
  sample_job_status started_def [symmetric] sat_add_def u64_max_val

lemma first_running_eq:
  "begin_pass two_workers ''j1'' two_queued = (Some True, snd (begin_pass two_workers ''j1'' two_queued))"
  "first_running = two_queued\<lparr>js_jobs := [(''j1'', started (sample_job ''j1'' (JobScan FolderScan))), (''j2'', sample_job ''j2'' apply_kind)],
     js_queued := 1, js_running := 1,
     js_threads := [\<lparr>wk_job = ''j1'', wk_phase = Began\<rparr>, \<lparr>wk_job = ''j2'', wk_phase = Checking\<rparr>]\<rparr>"
  by (simp_all add: first_running_def run_simps)

lemma both_running_eq:
  "begin_pass two_workers ''j2'' first_running = (Some True, snd (begin_pass two_workers ''j2'' first_running))"
  "both_running = two_queued\<lparr>js_jobs := [(''j1'', started (sample_job ''j1'' (JobScan FolderScan))), (''j2'', started (sample_job ''j2'' apply_kind))],
     js_queued := 0, js_running := 2,
     js_threads := [\<lparr>wk_job = ''j1'', wk_phase = Began\<rparr>, \<lparr>wk_job = ''j2'', wk_phase = Began\<rparr>]\<rparr>"
  by (simp_all add: both_running_def first_running_eq(2) run_simps)

lemma slot_free_eq:
  "begin_pass two_workers ''j2'' two_queued = (None, two_queued)"
  "begin_pass two_workers ''j1'' second_asleep = (Some True, snd (begin_pass two_workers ''j1'' second_asleep))"
  "slot_free = two_queued\<lparr>js_jobs := [(''j1'', started (sample_job ''j1'' (JobScan FolderScan))), (''j2'', sample_job ''j2'' apply_kind)],
     js_queued := 1, js_running := 1,
     js_threads := [\<lparr>wk_job = ''j1'', wk_phase = Began\<rparr>, \<lparr>wk_job = ''j2'', wk_phase = Asleep\<rparr>]\<rparr>"
  by (simp_all add: slot_free_def second_asleep_def run_simps)

lemma both_running_reachable: "jobs_reachable two_workers both_running"
proof -
  have "jobs_step two_workers two_queued first_running"
    using jobs_step.begin_job [OF _ first_running_eq(1), of 0] by (simp add: first_running_def in_phase_def two_queued_eq)
  moreover have "jobs_step two_workers first_running both_running"
    using jobs_step.begin_job [OF _ both_running_eq(1), of 1] by (simp add: both_running_def in_phase_def first_running_eq(2))
  ultimately show ?thesis using two_queued_reachable by (meson rtranclp.rtrancl_into_rtrancl)
qed

lemma slot_free_reachable: "jobs_reachable two_workers slot_free"
proof -
  have "jobs_step two_workers two_queued second_asleep"
    using jobs_step.begin_job [OF _ slot_free_eq(1), of 1] by (simp add: second_asleep_def in_phase_def two_queued_eq)
  moreover have "jobs_step two_workers second_asleep slot_free"
    using jobs_step.begin_job [OF _ slot_free_eq(2), of 0]
    by (simp add: slot_free_def in_phase_def second_asleep_def two_queued_eq set_phase_def)
  ultimately show ?thesis using two_queued_reachable by (meson rtranclp.rtrancl_into_rtrancl)
qed

section \<open>Witnesses\<close>

theorem jobs_bounded_witness:
  "js_running both_running = 2 \<and> count_status JobRunning both_running = 2 \<and> length (js_jobs both_running) = 2"
  using jobs_bounded [OF two_workers_valid both_running_reachable] by (simp add: both_running_eq(2))

theorem apply_exclusive_witness:
  "\<exists>capability. fst (job_inputs ''j2'' both_running) =
      Some (''photos'', apply_kind, \<lparr>ct_cancelled = False\<rparr>, Some capability)
    \<and> db_plan_reference (gb_dry_run (ac_binding capability)) = sample_ref CHR ''p''"
proof -
  have "in_phase Began both_running 1 ''j2''" by (simp add: in_phase_def both_running_eq(2))
  moreover have "btm_get (js_jobs both_running) ''j2'' = Some (started (sample_job ''j2'' apply_kind))"
    by (simp add: both_running_eq(2))
  ultimately show ?thesis
    using apply_exclusive [OF two_workers_valid both_running_reachable, of 1 "''j2''" "started (sample_job ''j2'' apply_kind)"
        "sample_ref CHR ''p''"]
    by (simp add: active_def apply_reference_def started_def sample_job_def StoredJob_new_def)
qed

theorem replay_exact_witness:
  "map_ok (map ev_sequence) (select_replay (sj_events (started (sample_job ''j2'' apply_kind))) (Some 1)) = Ok [2]
   \<and> select_replay (sj_events (started (sample_job ''j2'' apply_kind))) (Some 3) = Err InvalidCursor"
proof -
  let ?job = "started (sample_job ''j2'' apply_kind)"
  have job: "btm_get (js_jobs both_running) ''j2'' = Some ?job" by (simp add: both_running_eq(2))
  have n: "sj_next_event_sequence ?job = 2" "length (sj_events ?job) = 2"
    by (simp_all add: started_def push_event_def sample_job_def Let_def sat_add_def u64_max_val)
  then show ?thesis
    using replay_exact [OF two_workers_valid both_running_reachable job, of 1]
      replay_exact [OF two_workers_valid both_running_reachable job, of 3]
    by (simp add: u64_max_val numeral_2_eq_2)
qed

text \<open>The second worker sleeps; the end of the first job wakes it, and both jobs are completed.\<close>

theorem queue_drains_witness:
  "\<exists>s' job1 job2. (worker_step two_workers)\<^sup>*\<^sup>* slot_free s' \<and> dom (btm_get (js_jobs s')) = {''j1'', ''j2''} \<and>
     btm_get (js_jobs s') ''j1'' = Some job1 \<and> sj_status job1 = JobCompleted \<and>
     btm_get (js_jobs s') ''j2'' = Some job2 \<and> sj_status job2 = JobCompleted"
proof -
  obtain s' where run: "(worker_step two_workers)\<^sup>*\<^sup>* slot_free s'" "\<nexists>s2. worker_step two_workers s' s2"
    using worker_steps_end by blast
  have calm: "\<forall>w \<in> set (js_threads slot_free). wk_phase w \<noteq> Panicked" by (simp add: slot_free_eq(3))
  note drained = queue_drains [OF two_workers_valid slot_free_reachable calm, THEN conjunct2, rule_format, OF conjI [OF run]]
  have jobs: "btm_get (js_jobs slot_free) ''j1'' = Some (started (sample_job ''j1'' (JobScan FolderScan)))"
    "btm_get (js_jobs slot_free) ''j2'' = Some (sample_job ''j2'' apply_kind)"
    by (simp_all add: slot_free_eq(3))
  have "dom (btm_get (js_jobs s')) = {''j1'', ''j2''}" using drained by (simp add: slot_free_eq(3) dom_fun_upd)
  moreover have "\<exists>job. btm_get (js_jobs s') ''j1'' = Some job \<and> sj_status job = JobCompleted"
    using conjunct2 [OF drained, rule_format, OF jobs(1)] by (simp add: sample_job_status)
  moreover have "\<exists>job. btm_get (js_jobs s') ''j2'' = Some job \<and> sj_status job = JobCompleted"
    using conjunct2 [OF drained, rule_format, OF jobs(2)] by (simp add: sample_job_status)
  ultimately show ?thesis using run(1) by blast
qed

section \<open>The omitted wake-up\<close>

text \<open>\<open>begin\<close> waits until it is notified, and a worker that takes a slot notifies nobody. With two slots,
  the second job in the queue can therefore sleep at the head of the queue beside a free slot: its
  worker would pass \<open>begin\<close>, but it sleeps until the first job ends or a cancellation or a shutdown
  notifies every worker.\<close>

theorem head_sleeps_beside_free_slot:
  "\<exists>s. jobs_reachable two_workers s \<and> js_running s < concurrent_jobs two_workers
     \<and> fst (begin_pass two_workers ''j2'' s) = Some True
     \<and> filter (\<lambda>w. wk_job w = ''j2'') (js_threads s) = [\<lparr>wk_job = ''j2'', wk_phase = Asleep\<rparr>]"
proof (intro exI conjI)
  show "jobs_reachable two_workers slot_free" by (rule slot_free_reachable)
qed (simp_all add: slot_free_eq(3) run_simps)

end
