(* ===== verification/Spec2Isabelle.thy ===== *)
theory Spec2Isabelle
  imports Core_Archive Core_Migration Core_Reports Client_Authorize Client_Inventory_Laws
    Exec_Archive_Safety Exec_Import_Safety Exec_Migration_Safety Source_Takeout_Scan Source_Albums
    Web_Auth Web_Queue
begin

text \<open>
  A verification of immich-rs: scanners that turn folders and exports into upload plans, executors that
  carry plans out against an Immich server with durable checkpoints, the HTTP client between them, and a
  web console that runs such work as jobs. All paths below are relative to \<open>src/crates/\<close>.

  \<^bold>\<open>How the parts interact.\<close> A scanner (\<open>immich-sources\<close>) reads a source directory and gives a normalized
  plan, which \<open>immich-executor/src/planner.rs\<close> resolves to an upload plan; both are validated by the
  contracts of \<open>immich-core\<close>. Before a plan is applied its source is scanned and read again. An executor
  opens a checkpoint, skips what it records, and for every remaining effect sends requests through a
  transport authorised by \<open>immich-client\<close>; what happened is appended to the checkpoint before the next
  effect begins. Migrations read their originals from a second server through a staging directory and run
  through the same loop as imports. The console (\<open>immich-web\<close>) pairs browsers, plans and dry-runs
  configured profiles as jobs, stores plans and receipts, and admits an apply only for a confirmed receipt.

  \<^bold>\<open>Shared theories.\<close> \<open>Prelude\<close>: Rust's \<open>Result\<close> as a sum of errors and values, panics as a value,
  saturating and checked integers, paths, lower-case digests and lemma collections.
  \<open>Ordered_Containers\<close>: \<open>BTreeMap\<close> and \<open>BTreeSet\<close> as sorted association lists. \<open>Rust_Float\<close>: the
  \<open>f64\<close> values the code compares. \<open>Disk\<close>: a file system whose every call may fail. \<open>Effect_Log\<close>: the
  locale of an append-only journal, interpreted by both checkpoints.

  \<^bold>\<open>immich-core\<close>. \<open>Core_Metadata\<close>, \<open>Core_Planning\<close>, \<open>Core_Upload\<close>, \<open>Core_Archive\<close>, \<open>Core_Migration\<close>
  and \<open>Core_Reports\<close> hold the plans, reports and confirmations of the files of the same names, with
  their validators written as the code loops; lemmas prove them equal to declarative predicates.

  \<^bold>\<open>immich-client\<close>. \<open>Client_Http\<close> (errors, bounded bodies), \<open>Client_Api\<close> (duplicate check, upload, albums,
  metadata), \<open>Client_Authorize\<close> (endpoints, pinned addresses, disposable and production writes),
  \<open>Client_Inventory\<close> with \<open>Client_Inventory_Laws\<close> (paged inventories and downloads; the locale
  \<open>counted_io\<close> counts requests). A transport is a record of functions on an abstract server state.

  \<^bold>\<open>immich-sources\<close>. \<open>Source_Config\<close>, \<open>Source_Scan\<close>, \<open>Source_Reconcile\<close>, \<open>Source_Plan\<close>,
  \<open>Source_Discovery\<close>: the folder scan over a world that may change between calls. \<open>Source_Takeout_Metadata\<close>,
  \<open>Source_Takeout\<close>, \<open>Source_Takeout_Plan\<close>, \<open>Source_Takeout_Scan\<close>: Google Takeout exports.
  \<open>Source_Albums\<close>: Apple Photos and Picasa.

  \<^bold>\<open>immich-executor\<close>. \<open>Exec_Retry\<close>, \<open>Exec_Planner\<close>, \<open>Exec_Journal\<close>, \<open>Exec_Operation\<close>, \<open>Exec_Apply\<close>: retry
  budget and delays, plan creation, the upload checkpoint, one operation with its reconciliation of uncertain
  outcomes, the apply run over groups in any completion order. \<open>Exec_Import_Plan\<close>,
  \<open>Exec_Import_Journal\<close>, \<open>Exec_Import_Effects\<close>, \<open>Exec_Import_Apply\<close>, \<open>Exec_Import_Safety\<close>: imports; their
  run takes a record \<open>stage\<close> that prepares and releases an asset, so that migrations reuse it.
  \<open>Exec_Archive\<close>, \<open>Exec_Archive_Safety\<close>: downloads of a manifest below a destination.
  \<open>Exec_Migration_Plan\<close>, \<open>Exec_Migration_Laws\<close>, \<open>Exec_Migration_Staging\<close>,
  \<open>Exec_Migration_Staging_Laws\<close>, \<open>Exec_Migration_Apply\<close>, \<open>Exec_Migration_Sample\<close>,
  \<open>Exec_Migration_Safety\<close>: migrations from plan to run.

  \<^bold>\<open>immich-web\<close>. \<open>Web_Limits\<close>, \<open>Web_Auth\<close> (pairing and sessions), \<open>Web_Store\<close> (histories, receipts, plans),
  \<open>Web_Grants\<close> (confirmation and admission), \<open>Web_Jobs\<close>, \<open>Web_Workers\<close>, \<open>Web_Queue\<close> (the job manager with
  its worker threads). \<open>Web_Base\<close> has runs of calls on a store behind a mutex, with their invariant rule.

  \<^bold>\<open>Conventions.\<close> Stateful code passes its state explicitly; errors, early returns and panics are
  values. A record has one field for each field of the struct. Machine integers are words or naturals with the
  saturation and the bounds written out. Code outside the repository is a parameter:
  digests, JSON and Base64, time and Unicode tables, the URL parser, DNS, the operating
  system's directory order and random tokens; named hypotheses state what is relied on. Every loop is a structural
  recursion or has a termination proof, so no fuel is needed: a theorem about a result is about every run.
  Concurrency appears twice: uploads of an apply complete in any order, and the console's
  threads are a transition system whose step is one critical section, with an inductive reachability
  predicate.

  \<^bold>\<open>What the lemmas show.\<close> Validators equal their specifications; checkpoints keep the last outcome of each
  effect and belong to one plan and configuration; runs record each planned effect at most once,
  in the order the code promises, and resume where they stopped; reports count what was recorded;
  writes reach only authorised servers; scans always give valid plans, independent of directory order;
  downloads and staging touch their own files only; inventories are bounded and well formed; the console
  admits each receipt once, keeps sessions authentic, bounds its jobs and history, excludes concurrent applies
  and can always finish its queue. Some lemmas without a hypothesis compute an input on which the code
  does not do what it means to.

  \<^bold>\<open>Not modelled.\<close> The command line, the HTTP layer of the console with its views, cookies, OIDC and TLS,
  ZIP reading, file modes and symbolic links that change during a run, SQL text and schema
  migration (tables are lists of rows), the asynchronous runtime, the file-system part of
  profiles and of opening durable state.
\<close>

end
